(* ===== verification/Fctf_Prelude.thy ===== *)
theory Fctf_Prelude
  imports Main "HOL-Library.Word"
begin

text \<open>
  Shared vocabulary of the development.

  \<^item> Machine integers: Rust's signed \<open>i32\<close>, \<open>i64\<close> values are \<open>int\<close> with the width
    written out where the code casts, multiplies with a check or adds; instants are counted in
    nanoseconds, as \<open>chrono\<close> counts them.
  \<^item> Effects: an operation on the platform's state is a function from the state to a result
    (\<open>Inl\<close> the error, \<open>Inr\<close> the value) and the new state. \<open>bindM\<close> is Rust's
    \<open>?\<close>-sequencing, \<open>txnM\<close> a database transaction that is rolled back when its body
    fails, \<open>ignoreM\<close> a discarded result (\<open>let _ = ...\<close>).
  \<^item> Tables: a table is the list of its rows; the lemmas say how a lookup sees an insert or an
    update by primary key.
\<close>

named_theorems keeps_intros \<open>rules that push an invariant through an operation\<close>
named_theorems run_simps \<open>how an operation runs from a given state\<close>

section \<open>Identifiers, instants and machine integers\<close>

type_synonym uuid = nat
type_synonym timestamp = int

definition nanos_per_sec :: int where
  "nanos_per_sec = 1000000000"

definition seconds :: "int \<Rightarrow> int" where
  "seconds n = n * nanos_per_sec"

text \<open>\<open>Duration::num_seconds\<close>: whole seconds, truncated towards zero.\<close>

definition num_seconds :: "int \<Rightarrow> int" where
  "num_seconds d = (if d < 0 then - ((- d) div nanos_per_sec) else d div nanos_per_sec)"

definition as_i32 :: "int \<Rightarrow> int" where
  "as_i32 x = (x + 2 ^ 31) mod 2 ^ 32 - 2 ^ 31"

definition in_i32 :: "int \<Rightarrow> bool" where
  "in_i32 x \<longleftrightarrow> - (2 ^ 31) \<le> x \<and> x < 2 ^ 31"

definition in_i64 :: "int \<Rightarrow> bool" where
  "in_i64 x \<longleftrightarrow> - (2 ^ 63) \<le> x \<and> x < 2 ^ 63"

definition checked_mul_i64 :: "int \<Rightarrow> int \<Rightarrow> int option" where
  "checked_mul_i64 a b = (if in_i64 (a * b) then Some (a * b) else None)"

lemma num_seconds_seconds [simp]: "num_seconds (seconds n) = n"
  unfolding num_seconds_def seconds_def nanos_per_sec_def by (simp add: minus_mult_left del: mult_minus_left)

lemma num_seconds_nonneg: "0 \<le> d \<Longrightarrow> 0 \<le> num_seconds d"
  by (simp add: num_seconds_def nanos_per_sec_def)

lemma seconds_num_seconds_le: "0 \<le> d \<Longrightarrow> seconds (num_seconds d) \<le> d"
  by (simp add: num_seconds_def seconds_def nanos_per_sec_def)

lemma seconds_num_seconds_gt: "0 \<le> d \<Longrightarrow> d < seconds (num_seconds d) + nanos_per_sec"
  by (simp add: num_seconds_def seconds_def nanos_per_sec_def)

lemma seconds_mono: "a \<le> b \<Longrightarrow> seconds a \<le> seconds b"
  by (simp add: seconds_def nanos_per_sec_def)

lemma as_i32_range: "in_i32 (as_i32 x)"
proof -
  have "0 \<le> (x + 2 ^ 31) mod (2 ^ 32 :: int)" "(x + 2 ^ 31) mod (2 ^ 32 :: int) < 2 ^ 32"
    by simp_all
  then show ?thesis unfolding in_i32_def as_i32_def by simp
qed

lemma as_i32_id [simp]: "in_i32 x \<Longrightarrow> as_i32 x = x"
  by (simp add: as_i32_def in_i32_def)

lemma in_i32_mult_in_i64:
  assumes "in_i32 a" "in_i32 b"
  shows "in_i64 (a * b)"
proof -
  have "\<bar>a\<bar> \<le> 2 ^ 31" "\<bar>b\<bar> \<le> 2 ^ 31"
    using assms by (auto simp: in_i32_def)
  then have "\<bar>a * b\<bar> \<le> 2 ^ 31 * 2 ^ 31"
    unfolding abs_mult by (intro mult_mono) auto
  then show ?thesis by (simp add: in_i64_def abs_le_iff)
qed

section \<open>Operations that read and write a state and may fail\<close>

type_synonym ('s, 'e, 'a) op = "'s \<Rightarrow> ('e + 'a) \<times> 's"

definition returnM :: "'a \<Rightarrow> ('s, 'e, 'a) op" where
  "returnM x = (\<lambda>s. (Inr x, s))"

definition throwM :: "'e \<Rightarrow> ('s, 'e, 'a) op" where
  "throwM e = (\<lambda>s. (Inl e, s))"

definition bindM :: "('s, 'e, 'a) op \<Rightarrow> ('a \<Rightarrow> ('s, 'e, 'b) op) \<Rightarrow> ('s, 'e, 'b) op" where
  "bindM m f = (\<lambda>s. case m s of (Inl e, s') \<Rightarrow> (Inl e, s') | (Inr x, s') \<Rightarrow> f x s')"

definition readM :: "('s \<Rightarrow> 'a) \<Rightarrow> ('s, 'e, 'a) op" where
  "readM g = (\<lambda>s. (Inr (g s), s))"

definition modifyM :: "('s \<Rightarrow> 's) \<Rightarrow> ('s, 'e, unit) op" where
  "modifyM h = (\<lambda>s. (Inr (), h s))"

definition ignoreM :: "('s, 'e, 'a) op \<Rightarrow> ('s, 'e, unit) op" where
  "ignoreM m = (\<lambda>s. (Inr (), snd (m s)))"

text \<open>A \<open>Result\<close> turned into a value, for code that matches on it instead of propagating it.\<close>

definition attemptM :: "('s, 'e, 'a) op \<Rightarrow> ('s, 'f, 'e + 'a) op" where
  "attemptM m = (\<lambda>s. case m s of (r, s') \<Rightarrow> (Inr r, s'))"

definition txnM :: "('s, 'e, 'a) op \<Rightarrow> ('s, 'e, 'a) op" where
  "txnM m = (\<lambda>s. case m s of (Inl e, _) \<Rightarrow> (Inl e, s) | (Inr x, s') \<Rightarrow> (Inr x, s'))"

definition whenM :: "bool \<Rightarrow> ('s, 'e, unit) op \<Rightarrow> ('s, 'e, unit) op" where
  "whenM b m = (if b then m else returnM ())"

definition guardM :: "bool \<Rightarrow> 'e \<Rightarrow> ('s, 'e, unit) op" where
  "guardM b e = (if b then returnM () else throwM e)"

text \<open>\<open>Option::ok_or\<close> followed by \<open>?\<close>.\<close>

definition ok_orM :: "'a option \<Rightarrow> 'e \<Rightarrow> ('s, 'e, 'a) op" where
  "ok_orM v e = (case v of None \<Rightarrow> throwM e | Some x \<Rightarrow> returnM x)"

definition liftM :: "'e + 'a \<Rightarrow> ('s, 'e, 'a) op" where
  "liftM r = (\<lambda>s. (r, s))"

definition map_errM :: "('e \<Rightarrow> 'f) \<Rightarrow> ('s, 'e, 'a) op \<Rightarrow> ('s, 'f, 'a) op" where
  "map_errM g m = (\<lambda>s. case m s of (Inl e, s') \<Rightarrow> (Inl (g e), s') | (Inr x, s') \<Rightarrow> (Inr x, s'))"

fun forM :: "'a list \<Rightarrow> ('a \<Rightarrow> ('s, 'e, unit) op) \<Rightarrow> ('s, 'e, unit) op" where
  "forM [] f = returnM ()"
| "forM (x # xs) f = bindM (f x) (\<lambda>_. forM xs f)"

lemma returnM_run [run_simps]: "returnM x s = (Inr x, s)"
  by (simp add: returnM_def)

lemma throwM_run [run_simps]: "throwM e s = (Inl e, s)"
  by (simp add: throwM_def)

lemma bindM_run [run_simps]:
  "bindM m f s = (case m s of (Inl e, s') \<Rightarrow> (Inl e, s') | (Inr x, s') \<Rightarrow> f x s')"
  by (simp add: bindM_def)

lemma readM_run [run_simps]: "readM g s = (Inr (g s), s)"
  by (simp add: readM_def)

lemma modifyM_run [run_simps]: "modifyM h s = (Inr (), h s)"
  by (simp add: modifyM_def)

lemma ignoreM_run [run_simps]: "ignoreM m s = (Inr (), snd (m s))"
  by (simp add: ignoreM_def)

lemma attemptM_run [run_simps]: "attemptM m s = (Inr (fst (m s)), snd (m s))"
  by (simp add: attemptM_def split: prod.splits)

lemma txnM_run [run_simps]:
  "txnM m s = (case m s of (Inl e, _) \<Rightarrow> (Inl e, s) | (Inr x, s') \<Rightarrow> (Inr x, s'))"
  by (simp add: txnM_def)

lemma guardM_run [run_simps]: "guardM b e s = (if b then (Inr (), s) else (Inl e, s))"
  by (simp add: guardM_def returnM_def throwM_def)

lemma whenM_run [run_simps]: "whenM b m s = (if b then m s else (Inr (), s))"
  by (simp add: whenM_def returnM_def)

lemma ok_orM_run [run_simps]:
  "ok_orM v e s = (case v of None \<Rightarrow> (Inl e, s) | Some x \<Rightarrow> (Inr x, s))"
  by (simp add: ok_orM_def returnM_def throwM_def split: option.splits)

lemma liftM_run [run_simps]: "liftM r s = (r, s)"
  by (simp add: liftM_def)

lemma map_errM_run [run_simps]:
  "map_errM g m s = (case m s of (Inl e, s') \<Rightarrow> (Inl (g e), s') | (Inr x, s') \<Rightarrow> (Inr x, s'))"
  by (simp add: map_errM_def)

lemma bindM_assoc: "bindM (bindM m f) g = bindM m (\<lambda>x. bindM (f x) g)"
  by (auto simp: fun_eq_iff bindM_def split: prod.splits sum.splits)

text \<open>What a successful sequence did: the rule the functional proofs eliminate with.\<close>

lemma bindM_Inr_iff:
  "bindM m f s = (Inr y, s') \<longleftrightarrow> (\<exists>x s1. m s = (Inr x, s1) \<and> f x s1 = (Inr y, s'))"
  by (auto simp: bindM_def split: prod.splits sum.splits)

lemma readM_Inr: "readM g w = (Inr x, w') \<longleftrightarrow> x = g w \<and> w' = w"
  by (auto simp: run_simps)

lemma ok_orM_Inr: "ok_orM v e w = (Inr x, w') \<longleftrightarrow> v = Some x \<and> w' = w"
  by (auto simp: run_simps split: option.splits)

lemma guardM_Inr: "guardM b e w = (Inr x, w') \<longleftrightarrow> b \<and> w' = w"
  by (auto simp: run_simps)

lemma returnM_Inr: "returnM y w = (Inr x, w') \<longleftrightarrow> x = y \<and> w' = w"
  by (auto simp: run_simps)

lemmas op_Inr = bindM_Inr_iff readM_Inr ok_orM_Inr guardM_Inr returnM_Inr

section \<open>Invariants of operations\<close>

definition keeps :: "('s \<Rightarrow> bool) \<Rightarrow> ('s, 'e, 'a) op \<Rightarrow> bool" where
  "keeps I m \<longleftrightarrow> (\<forall>s. I s \<longrightarrow> I (snd (m s)))"

lemma keepsD: "keeps I m \<Longrightarrow> I s \<Longrightarrow> I (snd (m s))"
  by (simp add: keeps_def)

lemma keepsD_run: "keeps I m \<Longrightarrow> I s \<Longrightarrow> m s = (r, s') \<Longrightarrow> I s'"
  by (metis keeps_def snd_conv)

lemma keeps_returnM [keeps_intros]: "keeps I (returnM x)"
  by (simp add: keeps_def returnM_def)

lemma keeps_throwM [keeps_intros]: "keeps I (throwM e)"
  by (simp add: keeps_def throwM_def)

lemma keeps_readM [keeps_intros]: "keeps I (readM g)"
  by (simp add: keeps_def readM_def)

lemma keeps_liftM [keeps_intros]: "keeps I (liftM r)"
  by (simp add: keeps_def liftM_def)

lemma keeps_bindM [keeps_intros]:
  "keeps I m \<Longrightarrow> (\<And>x. keeps I (f x)) \<Longrightarrow> keeps I (bindM m f)"
  unfolding keeps_def bindM_def by (force split: prod.splits sum.splits)

lemma keeps_modifyM: "(\<And>s. I s \<Longrightarrow> I (h s)) \<Longrightarrow> keeps I (modifyM h)"
  by (simp add: keeps_def modifyM_def)

lemma keeps_ignoreM [keeps_intros]: "keeps I m \<Longrightarrow> keeps I (ignoreM m)"
  by (simp add: keeps_def ignoreM_def)

lemma keeps_attemptM [keeps_intros]: "keeps I m \<Longrightarrow> keeps I (attemptM m)"
  by (simp add: keeps_def attemptM_run)

lemma keeps_txnM [keeps_intros]: "keeps I m \<Longrightarrow> keeps I (txnM m)"
  unfolding keeps_def txnM_def by (force split: prod.splits sum.splits)

lemma keeps_map_errM [keeps_intros]: "keeps I m \<Longrightarrow> keeps I (map_errM g m)"
  unfolding keeps_def map_errM_def by (force split: prod.splits sum.splits)

lemma keeps_whenM [keeps_intros]: "(b \<Longrightarrow> keeps I m) \<Longrightarrow> keeps I (whenM b m)"
  by (simp add: whenM_def keeps_returnM)

lemma keeps_guardM [keeps_intros]: "keeps I (guardM b e)"
  by (simp add: guardM_def keeps_returnM keeps_throwM)

lemma keeps_ok_orM [keeps_intros]: "keeps I (ok_orM v e)"
  by (simp add: ok_orM_def keeps_returnM keeps_throwM split: option.splits)

lemma keeps_forM [keeps_intros]: "(\<And>x. x \<in> set xs \<Longrightarrow> keeps I (f x)) \<Longrightarrow> keeps I (forM xs f)"
  by (induction xs) (auto intro: keeps_returnM keeps_bindM)

lemma keeps_if [keeps_intros]:
  "(b \<Longrightarrow> keeps I m) \<Longrightarrow> (\<not> b \<Longrightarrow> keeps I n) \<Longrightarrow> keeps I (if b then m else n)"
  by simp

lemma keeps_case_option [keeps_intros]:
  "keeps I m \<Longrightarrow> (\<And>x. keeps I (n x)) \<Longrightarrow> keeps I (case v of None \<Rightarrow> m | Some x \<Rightarrow> n x)"
  by (cases v) auto

lemma keeps_case_sum [keeps_intros]:
  "(\<And>x. keeps I (m x)) \<Longrightarrow> (\<And>x. keeps I (n x)) \<Longrightarrow>
   keeps I (case v of Inl x \<Rightarrow> m x | Inr x \<Rightarrow> n x)"
  by (cases v) auto

lemma keeps_case_prod: "(\<And>a b. keeps I (m a b)) \<Longrightarrow> keeps I (case p of (a, b) \<Rightarrow> m a b)"
  by (cases p) simp

lemma bindM_post: "I (snd (m s)) \<Longrightarrow> (\<And>x. keeps I (f x)) \<Longrightarrow> I (snd (bindM m f s))"
  by (auto simp: bindM_run keeps_def split: prod.splits sum.splits)

lemma txnM_post: "I s \<Longrightarrow> I (snd (m s)) \<Longrightarrow> I (snd (txnM m s))"
  by (auto simp: txnM_run split: prod.splits sum.splits)

lemma keeps_let [keeps_intros]: "keeps I (f x) \<Longrightarrow> keeps I (let y = x in f y)"
  by simp

text \<open>From one condition on the state to another, whatever the result.\<close>

definition leads :: "('s \<Rightarrow> bool) \<Rightarrow> ('s, 'e, 'a) op \<Rightarrow> ('s \<Rightarrow> bool) \<Rightarrow> bool" where
  "leads P m Q \<longleftrightarrow> (\<forall>s. P s \<longrightarrow> Q (snd (m s)))"

lemma leadsI: "(\<And>s. P s \<Longrightarrow> Q (snd (m s))) \<Longrightarrow> leads P m Q"
  by (simp add: leads_def)

lemma leadsD: "leads P m Q \<Longrightarrow> P s \<Longrightarrow> Q (snd (m s))"
  by (simp add: leads_def)

lemma leads_weaken: "keeps P m \<Longrightarrow> (\<And>s. P s \<Longrightarrow> Q s) \<Longrightarrow> leads P m Q"
  by (simp add: leads_def keeps_def)

lemma leads_bindM:
  "keeps P m \<Longrightarrow> (\<And>x. leads P (f x) Q) \<Longrightarrow> (\<And>s. P s \<Longrightarrow> Q s) \<Longrightarrow> leads P (bindM m f) Q"
  unfolding leads_def keeps_def bindM_def by (force split: prod.splits sum.splits)

lemma leads_then: "leads P m Q \<Longrightarrow> (\<And>x. keeps Q (f x)) \<Longrightarrow> leads P (bindM m f) Q"
  unfolding leads_def keeps_def bindM_def by (force split: prod.splits sum.splits)

lemma leads_attemptM: "leads P m Q \<Longrightarrow> leads P (attemptM m) Q"
  by (simp add: leads_def attemptM_run)

lemma bindM_liftM_Inr: "bindM (liftM (Inr x)) f = f x"
  by (simp add: bindM_def liftM_def)

text \<open>A transaction needs its invariant only where it commits.\<close>

definition commits :: "('s \<Rightarrow> bool) \<Rightarrow> ('s, 'e, 'a) op \<Rightarrow> bool" where
  "commits I m \<longleftrightarrow> (\<forall>s x s'. I s \<longrightarrow> m s = (Inr x, s') \<longrightarrow> I s')"

lemma commitsD: "commits I m \<Longrightarrow> I s \<Longrightarrow> m s = (Inr x, s') \<Longrightarrow> I s'"
  by (simp add: commits_def)

lemma commits_bindM:
  assumes "commits I m" "\<And>x. commits I (f x)"
  shows "commits I (bindM m f)"
  unfolding commits_def
proof (intro allI impI)
  fix s x s' assume "I s" "bindM m f s = (Inr x, s')"
  then obtain y s1 where "m s = (Inr y, s1)" "f y s1 = (Inr x, s')" by (auto simp: bindM_Inr_iff)
  then show "I s'" using commitsD[OF assms(1) \<open>I s\<close>] commitsD[OF assms(2)] by simp
qed

lemma keeps_commits: "keeps I m \<Longrightarrow> commits I m"
  by (metis commits_def keepsD snd_conv)

lemma keeps_txnM_commits: "commits I m \<Longrightarrow> keeps I (txnM m)"
  unfolding keeps_def commits_def txnM_def by (force split: prod.splits sum.splits)

section \<open>Tables\<close>

definition update_where :: "('r \<Rightarrow> bool) \<Rightarrow> ('r \<Rightarrow> 'r) \<Rightarrow> 'r list \<Rightarrow> 'r list" where
  "update_where p f = map (\<lambda>r. if p r then f r else r)"

text \<open>\<open>ORDER BY k DESC LIMIT 1\<close>: a row with the greatest key, the first such row in the table.\<close>

fun max_by :: "('r \<Rightarrow> 'k::linorder) \<Rightarrow> 'r list \<Rightarrow> 'r option" where
  "max_by k [] = None"
| "max_by k (x # xs) =
     (case max_by k xs of None \<Rightarrow> Some x | Some y \<Rightarrow> if k x < k y then Some y else Some x)"

lemma max_by_None_iff [simp]: "max_by k xs = None \<longleftrightarrow> xs = []"
  by (cases xs) (auto split: option.splits)

lemma max_by_mem: "max_by k xs = Some x \<Longrightarrow> x \<in> set xs"
  by (induction xs arbitrary: x) (auto split: option.splits if_splits)

lemma max_by_ge: "max_by k xs = Some x \<Longrightarrow> y \<in> set xs \<Longrightarrow> k y \<le> k x"
  by (induction xs arbitrary: x) (fastforce split: option.splits if_splits)+

lemma find_SomeD: "List.find p xs = Some x \<Longrightarrow> x \<in> set xs \<and> p x"
  by (induction xs) (auto split: if_splits)

lemma set_update_where: "set (update_where p f xs) = (\<lambda>r. if p r then f r else r) ` set xs"
  by (simp add: update_where_def)

lemma length_update_where [simp]: "length (update_where p f xs) = length xs"
  by (simp add: update_where_def)

lemma update_where_Nil [simp]: "update_where p f [] = []"
  by (simp add: update_where_def)

lemma update_where_Cons [simp]:
  "update_where p f (x # xs) = (if p x then f x else x) # update_where p f xs"
  by (simp add: update_where_def)

lemma length_filter_less_eq: "(\<And>x. p x \<Longrightarrow> q x) \<Longrightarrow> length (filter p xs) \<le> length (filter q xs)"
  by (induction xs) auto

lemma list_ex_update_where:
  "(\<And>r. p r \<Longrightarrow> q (f r) = q r) \<Longrightarrow> list_ex q (update_where p f xs) = list_ex q xs"
  by (induction xs) auto

lemma filter_update_where:
  "(\<And>r. p r \<Longrightarrow> q (f r) = q r) \<Longrightarrow> filter q (update_where p f xs) = update_where p f (filter q xs)"
  by (induction xs) auto

lemma map_update_where:
  "(\<And>r. p r \<Longrightarrow> g (f r) = g r) \<Longrightarrow> map g (update_where p f xs) = map g xs"
  by (simp add: update_where_def)

lemma find_update_where:
  assumes "\<And>r. p r \<Longrightarrow> q (f r) = q r"
  shows "List.find q (update_where p f xs) = map_option (\<lambda>r. if p r then f r else r) (List.find q xs)"
  using assms by (induction xs) auto

lemma find_append: "List.find p (xs @ ys) =
    (case List.find p xs of None \<Rightarrow> List.find p ys | Some x \<Rightarrow> Some x)"
  by (induction xs) auto

lemma find_distinct_key:
  assumes "distinct (map k xs)" "x \<in> set xs"
  shows "List.find (\<lambda>r. k r = k x) xs = Some x"
  using assms by (induction xs) (auto simp: image_iff)

lemma filter_update_where_other:
  assumes "\<And>r. p r \<Longrightarrow> \<not> q r" "\<And>r. p r \<Longrightarrow> \<not> q (f r)"
  shows "filter q (update_where p f xs) = filter q xs"
  using assms by (induction xs) auto

lemma distinct_filter_single:
  "distinct xs \<Longrightarrow> k \<in> set xs \<Longrightarrow> filter (\<lambda>x. x = k) xs = [k]"
  by (induction xs) (auto simp: filter_empty_conv)

lemma find_append_fresh: "List.find p xs = None \<Longrightarrow> List.find p (xs @ ys) = List.find p ys"
  by (simp add: find_append)

text \<open>
  A loop that updates the rows it has read, one primary key at a time, changes each of them as it
  was read and no other row.
\<close>

lemma foldl_update_where:
  assumes "distinct (map key ts)" "\<And>t x. key (g t x) = key x"
  shows "foldl (\<lambda>xs t. update_where (\<lambda>x. key x = key t) (g t) xs) xs ts
    = map (\<lambda>x. case List.find (\<lambda>t. key t = key x) ts of None \<Rightarrow> x | Some t \<Rightarrow> g t x) xs"
  using assms(1)
proof (induction ts arbitrary: xs)
  case (Cons t ts)
  have "foldl (\<lambda>xs t. update_where (\<lambda>x. key x = key t) (g t) xs)
          (update_where (\<lambda>x. key x = key t) (g t) xs) ts
      = map (\<lambda>x. case List.find (\<lambda>u. key u = key x) ts of None \<Rightarrow> x | Some u \<Rightarrow> g u x)
          (update_where (\<lambda>x. key x = key t) (g t) xs)"
    using Cons by simp
  moreover have "List.find (\<lambda>u. key u = key t) ts = None"
    unfolding find_None_iff using Cons.prems by (metis distinct.simps(2) image_eqI list.map(2) list.set_map)
  ultimately show ?case
    by (auto simp: update_where_def assms(2))
qed simp

lemma find_filter_key:
  assumes "distinct (map key xs)" "x \<in> set xs"
  shows "List.find (\<lambda>t. key t = key x) (filter P xs) = (if P x then Some x else None)"
  using assms by (induction xs) (auto simp: image_iff find_None_iff)

lemma foldl_update_selected:
  assumes "distinct (map key xs)" "\<And>t x. key (g t x) = key x"
  shows "foldl (\<lambda>ys t. update_where (\<lambda>x. key x = key t) (g t) ys) xs (filter P xs)
    = map (\<lambda>x. if P x then g x x else x) xs"
proof -
  have "distinct (map key (filter P xs))" using assms(1) by (rule distinct_map_filter)
  then show ?thesis
    using assms by (auto simp: foldl_update_where find_filter_key)
qed

lemma bindM_returnM: "bindM (returnM x) f = f x"
  by (simp add: bindM_def returnM_def)

lemma forM_whenM: "forM ts (\<lambda>t. whenM (p t) (f t)) = forM (filter p ts) f"
  by (induction ts) (simp_all add: whenM_def bindM_returnM)

end
