(* ===== verification/Awd_Types.thy ===== *)
theory Awd_Types
  imports Fctf_Prelude
begin

text \<open>
  Data of the AWD (attack with defence) competition module: the persisted enumerations
  (\<open>entity/sea_orm_active_enums.rs\<close>), the rows of the tables the module reads and writes
  (\<open>entity/*.rs\<close>), the error type (\<open>modules/event/awd/error.rs\<close>) and the scheduler's task keys
  (\<open>scheduler/task_key.rs\<close>). Constructors carry a two-letter prefix where the source reuses a
  variant name in several enumerations. Columns that hold ciphertexts, keys and display text are
  left out of the rows; every other column has its field.
\<close>

section \<open>Enumerations\<close>

datatype awd_event_status =
    EvDraft | EvConfiguring | EvDeploying | EvDeployed | EvPrechecking | EvVerified | EvRunning
  | EvPaused | EvNetworkError | EvStartBlocked | EvFinished | EvArchived | EvDeployFailed
  | EvVerificationFailed

datatype awd_phase = PhHardening | PhAttack | PhPause

datatype round_status = RdActive | RdCompleted | RdPaused

datatype gamebox_status =
    GbPending | GbCreating | GbRunning | GbReady | GbResetting | GbMissing | GbOrphan | GbConflict
  | GbStartFailed | GbResetFailed | GbStopped

datatype judge_task_status =
    JtPending | JtRunning | JtUp | JtDown | JtJudgeError | JtSkippedResetting | JtSkippedBanned

datatype ban_status = BnActive | BnPendingUnban | BnUnbanned

datatype precheck_status = PcPending | PcRunning | PcPassed | PcFailed | PcError

datatype score_event_type =
    ScAttack | ScVictimLoss | ScJudgeDown | ScFirstBonus | ScResetPenalty | ScAdjustment
  | ScInitialScore

datatype task_key =
    CheckPracticeEvent | CleanInstances | CleanRustfs | AwdAutoPrecheck | AwdEventStart
  | AwdHardeningEnd | AwdJudgeBatchDeadline | AwdRoundStart | AwdRoundEnd | AwdArchiveCleanup
  | AwdpTick | AwdpEvalWorker | AwdpPracticeJudge | PlatformTrainingSync | OidcCleanup

text \<open>The status column of \<open>scheduled_tasks\<close> is text; these are the values the code writes.\<close>

datatype sched_status = TsPending | TsRunning | TsCompleted | TsFailed

datatype trigger_type = TrOnce | TrCron | TrStartup

section \<open>Errors\<close>

text \<open>
  What the database reports: a violated uniqueness constraint (the code recognises it by the
  words \<open>duplicate\<close> or \<open>unique\<close> of the driver's message), a row that is not found, an update
  by primary key that hit no row, or an error the repositories raise themselves.
\<close>

datatype db_err = UniqueViolation | RecordNotFound | RecordNotUpdated | CustomErr string

datatype awd_error =
    Database db_err | NotFound string | InvalidState string | Validation string | Network string
  | Docker string | Crypto string | Forbidden string | Conflict string | PoolExhausted string
  | NetworkLocked string | NetworkOverlap string | Internal string

section \<open>Rows\<close>

record generic_event =
  ge_id :: uuid
  ge_start_time :: timestamp
  ge_end_time :: "timestamp option"

record awd_event =
  ev_id :: uuid
  ev_event_id :: uuid
  ev_status :: awd_event_status
  ev_phase :: awd_phase
  ev_free_reset_count :: int
  ev_extra_reset_penalty :: int
  ev_judge_max_concurrency :: int
  ev_judge_default_timeout_secs :: int
  ev_judge_retry_interval_secs :: int
  ev_judge_grace_period_secs :: int
  ev_round_duration_secs :: int
  ev_archive_retention_hours :: int
  ev_verified_at :: "timestamp option"
  ev_verified_revision :: "string option"
  ev_pause_remaining_secs :: "int option"
  ev_started_at :: "timestamp option"
  ev_finished_at :: "timestamp option"
  ev_updated_at :: timestamp
  ev_paused_phase :: "awd_phase option"
  ev_configuration_generation :: int
  ev_verified_generation :: "int option"
  ev_round_count :: "int option"
  ev_initial_score :: int
  ev_hardening_ends_at :: "timestamp option"
  ev_key_version :: int
  ev_flagserver_token_ciphertext :: "string option"
  ev_flagserver_token_nonce :: "string option"
  ev_judgeserver_token_ciphertext :: "string option"
  ev_judgeserver_token_nonce :: "string option"
  ev_wg_private_key_ciphertext :: "string option"
  ev_wg_private_key_nonce :: "string option"
  ev_wg_public_key :: "string option"

record awd_round =
  rd_id :: uuid
  rd_event_id :: uuid
  rd_round_number :: int
  rd_status :: round_status
  rd_phase :: awd_phase
  rd_started_at :: timestamp
  rd_scheduled_end_at :: timestamp
  rd_paused_at :: "timestamp option"
  rd_remaining_secs :: "int option"
  rd_completed_at :: "timestamp option"

record event_team =
  tm_id :: uuid
  tm_event_id :: uuid
  tm_name :: string
  tm_banned :: bool

record score_event =
  sc_id :: uuid
  sc_event_id :: uuid
  sc_round_id :: "uuid option"
  sc_team_id :: uuid
  sc_event_type :: score_event_type
  sc_delta :: int
  sc_idempotency_key :: string
  sc_related_team_id :: "uuid option"
  sc_gamebox_instance_id :: "uuid option"
  sc_event_gamebox_id :: "uuid option"
  sc_reason :: "string option"

record flag_issue =
  fi_id :: uuid
  fi_event_id :: uuid
  fi_round_id :: uuid
  fi_gamebox_instance_id :: uuid
  fi_flag_hash :: string

record flag_submission =
  fs_id :: uuid
  fs_event_id :: uuid
  fs_round_id :: uuid
  fs_flag_issue_id :: uuid
  fs_attacker_team_id :: uuid
  fs_victim_team_id :: uuid
  fs_gamebox_instance_id :: uuid
  fs_submitted_by_user_id :: uuid

record team_ban =
  bn_id :: uuid
  bn_event_id :: uuid
  bn_team_id :: uuid
  bn_status :: ban_status
  bn_reason :: "string option"
  bn_effective_round_id :: "uuid option"
  bn_banned_by :: "uuid option"
  bn_unban_requested_at :: "timestamp option"
  bn_unban_effective_round_id :: "uuid option"
  bn_unbanned_by :: "uuid option"
  bn_unbanned_at :: "timestamp option"

record judge_batch =
  jb_id :: uuid
  jb_event_id :: uuid
  jb_round_id :: uuid
  jb_total_tasks :: int
  jb_completed_tasks :: int
  jb_failed_tasks :: int
  jb_completed :: bool

record judge_task =
  jt_id :: uuid
  jt_batch_id :: uuid
  jt_event_id :: uuid
  jt_round_id :: uuid
  jt_gamebox_instance_id :: uuid
  jt_team_id :: uuid
  jt_status :: judge_task_status
  jt_attempt_count :: int
  jt_max_attempts :: int
  jt_deadline_at :: timestamp
  jt_started_at :: "timestamp option"
  jt_finished_at :: "timestamp option"
  jt_exit_code :: "int option"
  jt_stdout_limited :: "string option"
  jt_stderr_limited :: "string option"
  jt_duration_ms :: "int option"
  jt_callback_idempotency_key :: "string option"
  jt_created_at :: timestamp
  jt_event_gamebox_id :: "uuid option"
  jt_worker_id :: "string option"
  jt_lease_token_hash :: "string option"
  jt_lease_expires_at :: "timestamp option"
  jt_heartbeat_at :: "timestamp option"
  jt_claimed_at :: "timestamp option"

record gamebox_row =
  gx_id :: uuid
  gx_build_status :: "string option"
  gx_image_repo_digest :: "string option"
  gx_image_id :: "string option"
  gx_image_ref :: "string option"
  gx_username :: "string option"

record event_gamebox =
  eg_id :: uuid
  eg_event_id :: uuid
  eg_gamebox_id :: uuid
  eg_host_offset :: int
  eg_judge_down_penalty :: int
  eg_first_bonus :: int
  eg_attack_score :: int
  eg_cpu_millis :: int
  eg_memory_bytes :: int
  eg_pids_limit :: int

datatype wg_peer_status = WgActive | WgRevoked | WgRotating

record wg_peer =
  wp_id :: uuid
  wp_event_id :: uuid
  wp_team_id :: uuid
  wp_user_id :: uuid
  wp_status :: wg_peer_status
  wp_public_key :: string

record team_member =
  mb_event_id :: uuid
  mb_team_id :: uuid
  mb_user_id :: uuid

text \<open>A GameBox instance: the AWD extension row paired with its normalised root row.\<close>

record gamebox_instance =
  gi_id :: uuid
  gi_event_id :: uuid
  gi_team_id :: uuid
  gi_status :: gamebox_status
  gi_gamebox_ip :: string
  gi_event_gamebox_id :: uuid
  gi_instance_id :: uuid
  gi_health_status :: string

record instance_root =
  ir_id :: uuid
  ir_event_id :: uuid
  ir_owner_team_id :: "uuid option"
  ir_image_ref :: "string option"
  ir_container_id :: "string option"
  ir_container_name :: string
  ir_runtime_state :: string
  ir_runtime_generation :: int

record scheduled_task =
  st_id :: uuid
  st_group_id :: "uuid option"
  st_task_key :: task_key
  st_trigger_type :: trigger_type
  st_status :: sched_status
  st_enabled :: bool
  st_execute_at :: "timestamp option"
  st_expires_at :: "timestamp option"
  st_payload_event_id :: "uuid option"
  st_payload_round_id :: "uuid option"
  st_payload_round_number :: "int option"
  st_payload_batch_id :: "uuid option"
  st_attempt_count :: int
  st_max_attempts :: int
  st_protected :: bool
  st_cron_expr :: "string option"

section \<open>Task keys as text\<close>

fun task_key_as_str :: "task_key \<Rightarrow> string" where
  "task_key_as_str CheckPracticeEvent = ''system.practice.check''"
| "task_key_as_str CleanInstances = ''system.practice.clean''"
| "task_key_as_str CleanRustfs = ''platform.rustfs.clean''"
| "task_key_as_str AwdAutoPrecheck = ''awd.event.auto_precheck''"
| "task_key_as_str AwdEventStart = ''awd.event.start''"
| "task_key_as_str AwdHardeningEnd = ''awd.event.hardening_end''"
| "task_key_as_str AwdJudgeBatchDeadline = ''awd.judge.batch_deadline''"
| "task_key_as_str AwdRoundStart = ''awd.round.start''"
| "task_key_as_str AwdRoundEnd = ''awd.round.end''"
| "task_key_as_str AwdArchiveCleanup = ''awd.archive.cleanup''"
| "task_key_as_str AwdpTick = ''awdp.tick''"
| "task_key_as_str AwdpEvalWorker = ''awdp.eval.worker''"
| "task_key_as_str AwdpPracticeJudge = ''awdp.practice.judge''"
| "task_key_as_str PlatformTrainingSync = ''platform.training.sync''"
| "task_key_as_str OidcCleanup = ''identity.oidc.cleanup''"

definition task_key_from_str :: "string \<Rightarrow> string + task_key" where
  "task_key_from_str v =
     (if v \<in> {''system.practice.check'', ''CHECK_PRACTICE_EVENT'', ''CHECK_PRATICE_EVENT''}
        then Inr CheckPracticeEvent
      else if v \<in> {''system.practice.clean'', ''CLEAN_INSTANCES''} then Inr CleanInstances
      else if v \<in> {''platform.rustfs.clean'', ''CLEAN_RUSTFS''} then Inr CleanRustfs
      else if v = ''awd.event.auto_precheck'' then Inr AwdAutoPrecheck
      else if v = ''awd.event.start'' then Inr AwdEventStart
      else if v = ''awd.event.hardening_end'' then Inr AwdHardeningEnd
      else if v = ''awd.judge.batch_deadline'' then Inr AwdJudgeBatchDeadline
      else if v = ''awd.round.start'' then Inr AwdRoundStart
      else if v = ''awd.round.end'' then Inr AwdRoundEnd
      else if v = ''awd.archive.cleanup'' then Inr AwdArchiveCleanup
      else if v = ''awdp.tick'' then Inr AwdpTick
      else if v = ''awdp.eval.worker'' then Inr AwdpEvalWorker
      else if v = ''awdp.practice.judge'' then Inr AwdpPracticeJudge
      else if v = ''platform.training.sync'' then Inr PlatformTrainingSync
      else if v = ''identity.oidc.cleanup'' then Inr OidcCleanup
      else Inl (''unknown scheduled task key: '' @ v))"

section \<open>Finite enumerations\<close>

instantiation awd_event_status :: enum
begin

definition "enum_awd_event_status =
  [EvDraft, EvConfiguring, EvDeploying, EvDeployed, EvPrechecking, EvVerified, EvRunning, EvPaused,
   EvNetworkError, EvStartBlocked, EvFinished, EvArchived, EvDeployFailed, EvVerificationFailed]"

definition "enum_all_awd_event_status P \<longleftrightarrow> list_all P
  [EvDraft, EvConfiguring, EvDeploying, EvDeployed, EvPrechecking, EvVerified, EvRunning, EvPaused,
   EvNetworkError, EvStartBlocked, EvFinished, EvArchived, EvDeployFailed, EvVerificationFailed]"

definition "enum_ex_awd_event_status P \<longleftrightarrow> list_ex P
  [EvDraft, EvConfiguring, EvDeploying, EvDeployed, EvPrechecking, EvVerified, EvRunning, EvPaused,
   EvNetworkError, EvStartBlocked, EvFinished, EvArchived, EvDeployFailed, EvVerificationFailed]"

instance
proof
  show univ: "(UNIV :: awd_event_status set) = set enum_class.enum"
    by (auto simp: enum_awd_event_status_def) (metis awd_event_status.exhaust)
  show "distinct (enum_class.enum :: awd_event_status list)"
    by (simp add: enum_awd_event_status_def)
  show "enum_class.enum_all P \<longleftrightarrow> Ball UNIV P" for P :: "awd_event_status \<Rightarrow> bool"
    unfolding univ by (simp add: enum_awd_event_status_def enum_all_awd_event_status_def)
  show "enum_class.enum_ex P \<longleftrightarrow> Bex UNIV P" for P :: "awd_event_status \<Rightarrow> bool"
    unfolding univ by (simp add: enum_awd_event_status_def enum_ex_awd_event_status_def)
qed

end

lemma task_key_from_str_as_str [simp]: "task_key_from_str (task_key_as_str k) = Inr k"
  by (cases k) (simp_all add: task_key_from_str_def)

lemma task_key_as_str_inj: "task_key_as_str a = task_key_as_str b \<longleftrightarrow> a = b"
  by (metis task_key_from_str_as_str sum.inject(2))

end
