(* ===== verification/Awd_Network.thy ===== *)
theory Awd_Network
  imports Awd_Types
begin

unbundle bit_operations_syntax

text \<open>
  Addressing (\<open>modules/event/awd/domain/network.rs\<close>): IPv4 blocks, their subdivision into event
  and team subnets, the platform address pool, the WireGuard port range, the reserved hosts of the
  infrastructure subnet and the allocator of team slots. Addresses and prefix lengths are words of
  the source's width, and the arithmetic is that of the release build the project ships: additions
  and subtractions wrap and a shift count is reduced modulo the width of the shifted operand.
\<close>

type_synonym ipv4 = "32 word"

section \<open>Definitions\<close>

definition shl :: "'a::len word \<Rightarrow> nat \<Rightarrow> 'a word" where
  "shl x n = push_bit (n mod LENGTH('a)) x"

definition saturating_sub :: "'a::len word \<Rightarrow> 'a word \<Rightarrow> 'a word" where
  "saturating_sub x y = (if x < y then 0 else x - y)"

record ipv4_cidr =
  network :: ipv4
  prefix_len :: "8 word"

definition total_addresses :: "ipv4_cidr \<Rightarrow> 64 word" where
  "total_addresses c = shl 1 (unat (32 - ucast (prefix_len c) :: 64 word))"

definition cidr_mask :: "ipv4_cidr \<Rightarrow> ipv4" where
  "cidr_mask c = shl (- 1) (unat (32 - prefix_len c))"

definition broadcast_address :: "ipv4_cidr \<Rightarrow> ipv4" where
  "broadcast_address c = network c OR NOT (cidr_mask c)"

definition cidr_contains :: "ipv4_cidr \<Rightarrow> ipv4 \<Rightarrow> bool" where
  "cidr_contains c ip \<longleftrightarrow> ip AND cidr_mask c = network c AND cidr_mask c"

definition cidr_overlaps :: "ipv4_cidr \<Rightarrow> ipv4_cidr \<Rightarrow> bool" where
  "cidr_overlaps c d \<longleftrightarrow>
     cidr_contains c (network d) \<or> cidr_contains c (broadcast_address d) \<or>
     cidr_contains d (network c) \<or> cidr_contains d (broadcast_address c)"

definition nth_host :: "ipv4_cidr \<Rightarrow> 32 word \<Rightarrow> ipv4 option" where
  "nth_host c n =
     (let total = total_addresses c in
      if total < 3 \<or> ucast n \<ge> total - 2 then None else Some (network c + (n + 1)))"

definition nth_subnet :: "ipv4_cidr \<Rightarrow> 8 word \<Rightarrow> 64 word \<Rightarrow> ipv4_cidr option" where
  "nth_subnet c new_prefix index =
     (if new_prefix < prefix_len c \<or> new_prefix > 32 then None
      else
        let count = shl (1 :: 64 word) (unat (ucast new_prefix - ucast (prefix_len c) :: 64 word)) in
        if index \<ge> count then None
        else
          let subnet_size = shl (1 :: 64 word) (unat (32 - ucast new_prefix :: 64 word)) in
          Some \<lparr>network = network c + ucast (index * subnet_size), prefix_len = new_prefix\<rparr>)"

definition subnets :: "ipv4_cidr \<Rightarrow> 8 word \<Rightarrow> ipv4_cidr list option" where
  "subnets c new_prefix =
     (if new_prefix < prefix_len c \<or> new_prefix > 32 then None
      else
        let count = shl (1 :: 64 word) (unat (ucast new_prefix - ucast (prefix_len c) :: 64 word));
            subnet_size = shl (1 :: 64 word) (unat (32 - ucast new_prefix :: 64 word)) in
        Some (map (\<lambda>i. \<lparr>network = network c + ucast ((of_nat i :: 64 word) * subnet_size),
                         prefix_len = new_prefix\<rparr>) [0..<unat count]))"

definition subnet_index_in :: "ipv4_cidr \<Rightarrow> ipv4_cidr \<Rightarrow> 64 word option" where
  "subnet_index_in c parent =
     (if prefix_len c < prefix_len parent \<or> \<not> cidr_contains parent (network c) then None
      else
        let size = shl (1 :: 64 word) (unat (32 - ucast (prefix_len c) :: 64 word));
            offset = (ucast (network c - network parent) :: 64 word) in
        if offset mod size \<noteq> 0 then None else Some (offset div size))"

record network_pool =
  np_pool :: ipv4_cidr
  np_event_prefix :: "8 word"
  np_team_prefix :: "8 word"

definition network_pool_new :: "ipv4_cidr \<Rightarrow> 8 word \<Rightarrow> 8 word \<Rightarrow> awd_error + network_pool" where
  "network_pool_new pool event_prefix team_prefix =
     (if event_prefix < prefix_len pool
        then Inl (Validation ''event prefix shorter than pool prefix'')
      else if team_prefix < event_prefix
        then Inl (Validation ''team prefix shorter than event prefix'')
      else if team_prefix > 32 then Inl (Validation ''team prefix out of range'')
      else Inr \<lparr>np_pool = pool, np_event_prefix = event_prefix, np_team_prefix = team_prefix\<rparr>)"

definition event_capacity :: "network_pool \<Rightarrow> 64 word" where
  "event_capacity p = shl 1 (unat (ucast (np_event_prefix p) - ucast (prefix_len (np_pool p)) :: 64 word))"

definition team_capacity_per_event :: "network_pool \<Rightarrow> 64 word" where
  "team_capacity_per_event p =
     saturating_sub (shl 1 (unat (ucast (np_team_prefix p) - ucast (np_event_prefix p) :: 64 word))) 1"

definition hosts_per_team :: "network_pool \<Rightarrow> 64 word" where
  "hosts_per_team p = shl 1 (unat (32 - ucast (np_team_prefix p) :: 64 word))"

definition validate_host_offset :: "network_pool \<Rightarrow> 16 word \<Rightarrow> bool" where
  "validate_host_offset p off \<longleftrightarrow> off \<ge> 2 \<and> ucast off < saturating_sub (hosts_per_team p) 1"

definition nth_event_subnet :: "network_pool \<Rightarrow> 64 word \<Rightarrow> ipv4_cidr option" where
  "nth_event_subnet p i = nth_subnet (np_pool p) (np_event_prefix p) i"

record wg_port_range =
  wg_min :: "16 word"
  wg_max :: "16 word"

definition wg_port_range_new :: "16 word \<Rightarrow> 16 word \<Rightarrow> awd_error + wg_port_range" where
  "wg_port_range_new mn mx =
     (if mn < 1 \<or> mn > mx then Inl (Validation ''WireGuard port range invalid'')
      else Inr \<lparr>wg_min = mn, wg_max = mx\<rparr>)"

definition wg_capacity :: "wg_port_range \<Rightarrow> 64 word" where
  "wg_capacity r = ucast (wg_max r - wg_min r) + 1"

definition wg_contains :: "wg_port_range \<Rightarrow> 16 word \<Rightarrow> bool" where
  "wg_contains r port \<longleftrightarrow> port \<ge> wg_min r \<and> port \<le> wg_max r"

definition flagserver_offset :: "16 word" where "flagserver_offset = 2"
definition judgeserver_offset :: "16 word" where "judgeserver_offset = 3"

definition infrastructure_subnet :: "ipv4_cidr \<Rightarrow> ipv4 \<Rightarrow> 8 word \<Rightarrow> ipv4_cidr option" where
  "infrastructure_subnet gamebox_cidr flagserver_ip team_prefix =
     (let m = (if team_prefix \<ge> 32 then - 1 else shl (- 1 :: ipv4) (unat (32 - team_prefix)));
          net = flagserver_ip AND m in
      if \<not> cidr_contains gamebox_cidr net then None
      else Some \<lparr>network = net, prefix_len = team_prefix\<rparr>)"

definition service_ip :: "ipv4_cidr \<Rightarrow> 16 word \<Rightarrow> ipv4 option" where
  "service_ip infra off = nth_host infra (ucast (saturating_sub off 1))"

record team_subnet_allocator =
  ta_event_cidr :: ipv4_cidr
  ta_team_prefix :: "8 word"
  ta_used_indexes :: "64 word list"

definition allocator_capacity :: "team_subnet_allocator \<Rightarrow> 64 word" where
  "allocator_capacity a =
     shl 1 (unat (ucast (ta_team_prefix a) - ucast (prefix_len (ta_event_cidr a)) :: 64 word))"

definition next_free_index :: "team_subnet_allocator \<Rightarrow> 64 word option" where
  "next_free_index a =
     List.find (\<lambda>i. i \<notin> set (ta_used_indexes a)) (map of_nat [1..<unat (allocator_capacity a)])"

definition subnet_for_index :: "team_subnet_allocator \<Rightarrow> 64 word \<Rightarrow> ipv4_cidr option" where
  "subnet_for_index a i = nth_subnet (ta_event_cidr a) (ta_team_prefix a) i"

section \<open>Blocks as intervals\<close>

text \<open>The size of a block and what it means for its network address to lie on a block boundary.\<close>

definition host_bits :: "ipv4_cidr \<Rightarrow> nat" where
  "host_bits c = 32 - unat (prefix_len c)"

definition cidr_wf :: "ipv4_cidr \<Rightarrow> bool" where
  "cidr_wf c \<longleftrightarrow> 1 \<le> prefix_len c \<and> prefix_len c \<le> 32 \<and> unat (network c) mod 2 ^ host_bits c = 0"

definition block :: "ipv4_cidr \<Rightarrow> ipv4 set" where
  "block c = {ip. unat (network c) \<le> unat ip \<and> unat ip < unat (network c) + 2 ^ host_bits c}"

lemma unat_ucast_8_64 [simp]: "unat (ucast (x :: 8 word) :: 64 word) = unat x"
proof -
  have "unat x < 2 ^ 8" using unsigned_less [of x] by simp
  then show ?thesis by (simp add: unsigned_ucast_eq take_bit_nat_eq_self_iff)
qed

lemma unat_ucast_32_64 [simp]: "unat (ucast (x :: 32 word) :: 64 word) = unat x"
proof -
  have "unat x < 2 ^ 32" using unsigned_less [of x] by simp
  then show ?thesis by (simp add: unsigned_ucast_eq take_bit_nat_eq_self_iff)
qed

lemma unat_shl_one64: "n < 64 \<Longrightarrow> unat (shl (1 :: 64 word) n) = 2 ^ n"
  unfolding shl_def unsigned_push_bit_eq by (simp add: push_bit_eq_mult take_bit_nat_eq_self_iff)

lemma unat_prefix_sub64:
  fixes a b :: "8 word"
  assumes "a \<le> b"
  shows "unat (ucast b - ucast a :: 64 word) = unat b - unat a"
proof -
  have le: "(ucast a :: 64 word) \<le> ucast b"
    using assms by (simp add: word_le_nat_alt)
  show ?thesis using unat_sub [OF le] by simp
qed

lemma unat_le_32: "(p :: 8 word) \<le> 32 \<Longrightarrow> unat p \<le> 32"
  by (simp add: word_le_nat_alt)

lemma unat_32_sub64:
  fixes p :: "8 word"
  assumes "p \<le> 32"
  shows "unat (32 - ucast p :: 64 word) = 32 - unat p"
  using unat_prefix_sub64 [OF assms] by simp

lemma unat_32_sub8:
  fixes p :: "8 word"
  assumes "p \<le> 32"
  shows "unat (32 - p) = 32 - unat p"
  using unat_sub [OF assms] by simp

lemma total_addresses_eq:
  "prefix_len c \<le> 32 \<Longrightarrow> unat (total_addresses c) = 2 ^ host_bits c"
  by (simp add: total_addresses_def host_bits_def unat_32_sub64 unat_shl_one64)

lemma host_bits_less: "1 \<le> prefix_len c \<Longrightarrow> host_bits c < 32"
  by (simp add: host_bits_def word_le_nat_alt)

lemma cidr_mask_eq:
  assumes "1 \<le> prefix_len c" "prefix_len c \<le> 32"
  shows "cidr_mask c = push_bit (host_bits c) (- 1)"
  using assms host_bits_less [OF assms(1)]
  by (simp add: cidr_mask_def shl_def unat_32_sub8 host_bits_def)

lemma and_high_mask: "(x :: 'a::len word) AND push_bit k (- 1) = push_bit k (drop_bit k x)"
  by (rule bit_eqI) (auto simp: bit_simps)

lemma push_bit_drop_bit_eq_iff:
  "push_bit k (drop_bit k x) = push_bit k (drop_bit k y) \<longleftrightarrow> drop_bit k x = drop_bit k (y :: 'a::len word)"
proof
  assume "push_bit k (drop_bit k x) = push_bit k (drop_bit k y)"
  then have "drop_bit k (push_bit k (drop_bit k x)) = drop_bit k (push_bit k (drop_bit k y))" by simp
  moreover have "drop_bit k (push_bit k (drop_bit k z)) = drop_bit k z" for z :: "'a word"
    by (rule bit_eqI) (auto simp: bit_simps dest: bit_imp_le_length)
  ultimately show "drop_bit k x = drop_bit k y" by simp
qed simp

lemma cidr_contains_div:
  assumes "1 \<le> prefix_len c" "prefix_len c \<le> 32"
  shows "cidr_contains c ip \<longleftrightarrow> unat ip div 2 ^ host_bits c = unat (network c) div 2 ^ host_bits c"
proof -
  have "cidr_contains c ip \<longleftrightarrow> drop_bit (host_bits c) ip = drop_bit (host_bits c) (network c)"
    unfolding cidr_contains_def cidr_mask_eq [OF assms] and_high_mask
    by (rule push_bit_drop_bit_eq_iff)
  also have "\<dots> \<longleftrightarrow> unat (drop_bit (host_bits c) ip) = unat (drop_bit (host_bits c) (network c))"
    by (rule word_unat_eq_iff)
  finally show ?thesis by (simp only: unat_drop_bit_eq) (simp only: drop_bit_eq_div)
qed

lemma div_eq_interval:
  fixes a b m :: nat
  assumes "0 < m" "b mod m = 0"
  shows "a div m = b div m \<longleftrightarrow> b \<le> a \<and> a < b + m"
proof
  have b: "b = m * (b div m)" using mult_div_mod_eq [of m b] assms(2) by simp
  assume "a div m = b div m"
  moreover have "a = m * (a div m) + a mod m" by simp
  ultimately have "a = b + a mod m" using b by metis
  then show "b \<le> a \<and> a < b + m" using mod_less_divisor [OF assms(1), of a] by linarith
next
  have b: "b = m * (b div m)" using mult_div_mod_eq [of m b] assms(2) by simp
  assume "b \<le> a \<and> a < b + m"
  then obtain d where "a = d + m * (b div m)" "d < m" using b
    by (metis add.commute add_less_cancel_left le_add_diff_inverse)
  then show "a div m = b div m" by simp
qed

lemma cidr_contains_block: "cidr_wf c \<Longrightarrow> cidr_contains c ip \<longleftrightarrow> ip \<in> block c"
  using div_eq_interval [of "2 ^ host_bits c" "unat (network c)" "unat ip"]
  by (simp add: cidr_wf_def cidr_contains_div block_def)


lemma unat_ipv4_less: "unat (x :: ipv4) < 2 ^ 32"
proof -
  have "(unat x :: nat) < 2 ^ LENGTH(32)" by (rule unsigned_less)
  then show ?thesis by simp
qed

lemma aligned_block_fits:
  assumes "cidr_wf c"
  shows "unat (network c) + 2 ^ host_bits c \<le> 2 ^ 32"
proof -
  let ?m = "2 ^ host_bits c :: nat"
  have hb: "host_bits c \<le> 32" by (simp add: host_bits_def)
  have eq: "2 ^ 32 = ?m * 2 ^ (32 - host_bits c)" using hb by (simp add: power_add [symmetric])
  obtain k where k: "unat (network c) = ?m * k"
    using assms by (auto simp: cidr_wf_def elim: dvdE)
  have "unat (network c) < 2 ^ 32" using unsigned_less [of "network c"] by simp
  then have "k < 2 ^ (32 - host_bits c)" unfolding k eq by simp
  then have "?m * (k + 1) \<le> ?m * 2 ^ (32 - host_bits c)" by (intro mult_le_mono) auto
  then show ?thesis unfolding k eq by simp
qed

lemma unat_add_no_wrap:
  fixes x y :: "32 word"
  assumes "unat x + unat y < 2 ^ 32"
  shows "unat (x + y) = unat x + unat y"
  using assms by (simp add: unat_word_ariths)

lemma unat_mult_no_wrap64:
  fixes x y :: "64 word"
  assumes "unat x * unat y < 2 ^ 64"
  shows "unat (x * y) = unat x * unat y"
  using assms by (simp add: unat_word_ariths)

lemma unat_ucast_64_32:
  fixes x :: "64 word"
  assumes "unat x < 2 ^ 32"
  shows "unat (ucast x :: 32 word) = unat x"
  using assms by (simp add: unsigned_ucast_eq take_bit_nat_eq_self_iff)

text \<open>Where the \<open>i\<close>-th subnet lies: no step of its computation wraps.\<close>

lemma subnet_address:
  fixes q :: "8 word" and i :: "64 word"
  assumes "cidr_wf c" "prefix_len c \<le> q" "q \<le> 32" "unat i < 2 ^ (unat q - unat (prefix_len c))"
  shows "unat (network c + ucast (i * shl (1 :: 64 word) (unat (32 - ucast q :: 64 word))))
       = unat (network c) + unat i * 2 ^ (32 - unat q)"
proof -
  have q: "unat (prefix_len c) \<le> unat q" "unat q \<le> 32"
    using assms by (auto simp: word_le_nat_alt)
  have "(unat i + 1) * 2 ^ (32 - unat q) \<le> 2 ^ (unat q - unat (prefix_len c)) * 2 ^ (32 - unat q)"
    using assms(4) by (intro mult_le_mono) auto
  also have "\<dots> = 2 ^ host_bits c"
    using q by (simp add: host_bits_def power_add [symmetric])
  finally have bound: "unat i * 2 ^ (32 - unat q) + 2 ^ (32 - unat q) \<le> 2 ^ host_bits c" by simp
  have fits: "unat (network c) + 2 ^ host_bits c \<le> 2 ^ 32" by (rule aligned_block_fits [OF assms(1)])
  have pos: "0 < (2 :: nat) ^ (32 - unat q)" by simp
  have sz: "unat (shl (1 :: 64 word) (unat (32 - ucast q :: 64 word))) = 2 ^ (32 - unat q)"
    using assms(3) by (simp add: unat_32_sub64 unat_shl_one64)
  have small: "unat i * 2 ^ (32 - unat q) < 2 ^ 32" using bound fits pos by linarith
  have m: "unat (i * shl (1 :: 64 word) (unat (32 - ucast q :: 64 word))) = unat i * 2 ^ (32 - unat q)"
    using small by (subst unat_mult_no_wrap64) (simp_all add: sz)
  have "unat (network c) + unat i * 2 ^ (32 - unat q) < 2 ^ 32" using bound fits pos by linarith
  then show ?thesis
    using small by (subst unat_add_no_wrap) (simp_all add: unat_ucast_64_32 m)
qed

lemma nth_subnet_Some_iff:
  fixes q :: "8 word" and i :: "64 word"
  assumes "cidr_wf c"
  shows "nth_subnet c q i = Some d \<longleftrightarrow>
    prefix_len c \<le> q \<and> q \<le> 32 \<and> unat i < 2 ^ (unat q - unat (prefix_len c)) \<and> prefix_len d = q \<and>
    unat (network d) = unat (network c) + unat i * 2 ^ (32 - unat q)"
proof (cases "prefix_len c \<le> q \<and> q \<le> 32")
  case True
  then have lim: "unat q - unat (prefix_len c) < 64" using unat_le_32 [of q] by linarith
  have "unat (shl (1 :: 64 word) (unat (ucast q - ucast (prefix_len c) :: 64 word)))
      = 2 ^ (unat q - unat (prefix_len c))"
    using True lim by (simp add: unat_prefix_sub64 unat_shl_one64)
  then show ?thesis
    using True subnet_address [OF assms, of q i]
    by (auto simp: nth_subnet_def Let_def word_le_nat_alt word_less_nat_alt not_le word_unat_eq_iff
        intro!: ipv4_cidr.equality)
qed (auto simp: nth_subnet_def not_le)

lemma nth_subnet_wf:
  assumes "cidr_wf c" "nth_subnet c q i = Some d"
  shows "cidr_wf d"
proof -
  have d: "prefix_len c \<le> q" "q \<le> 32" "prefix_len d = q"
    "unat (network d) = unat (network c) + unat i * 2 ^ (32 - unat q)"
    using assms by (auto simp: nth_subnet_Some_iff)
  have "(2 :: nat) ^ (32 - unat q) dvd 2 ^ host_bits c"
    using d(1) by (intro le_imp_power_dvd) (simp add: host_bits_def word_le_nat_alt)
  then have "2 ^ (32 - unat q) dvd unat (network c)"
    using assms(1) by (auto simp: cidr_wf_def dest: dvd_trans)
  then have "2 ^ (32 - unat q) dvd unat (network d)" by (simp add: d(4))
  then show ?thesis using assms(1) d by (auto simp: cidr_wf_def host_bits_def)
qed

lemma block_self: "network c \<in> block c"
  by (simp add: block_def)

lemma blocks_disjoint_or_nested:
  assumes "cidr_wf c" "cidr_wf d" "block c \<inter> block d \<noteq> {}"
  shows "network c \<in> block d \<or> network d \<in> block c"
  using assms(3) by (auto simp: block_def)

text \<open>Two subnets of the same size with different slots do not meet.\<close>

lemma slot_disjoint:
  fixes a b n w :: nat
  assumes "a \<noteq> b"
  shows "\<not> (n + a * w \<le> x \<and> x < n + a * w + w \<and> n + b * w \<le> x \<and> x < n + b * w + w)"
proof (cases "a < b")
  case True
  then have "(a + 1) * w \<le> b * w" by (intro mult_le_mono) auto
  then show ?thesis by auto
next
  case False
  then have "(b + 1) * w \<le> a * w" using assms by (intro mult_le_mono) auto
  then show ?thesis by auto
qed

lemma nth_subnet_disjoint:
  assumes "cidr_wf c" "nth_subnet c q i = Some d" "nth_subnet c q j = Some e" "i \<noteq> j"
  shows "block d \<inter> block e = {}"
proof -
  have "unat i \<noteq> unat j" using assms(4) by (simp add: word_unat_eq_iff)
  then show ?thesis
    using assms slot_disjoint [of "unat i" "unat j" "unat (network c)" "2 ^ (32 - unat q)"]
    by (fastforce simp: nth_subnet_Some_iff block_def host_bits_def)
qed

lemma nth_subnet_inside:
  assumes "cidr_wf c" "nth_subnet c q i = Some d"
  shows "block d \<subseteq> block c"
proof -
  have d: "prefix_len c \<le> q" "q \<le> 32" "prefix_len d = q"
    "unat i < 2 ^ (unat q - unat (prefix_len c))"
    "unat (network d) = unat (network c) + unat i * 2 ^ (32 - unat q)"
    using assms by (auto simp: nth_subnet_Some_iff)
  have "(unat i + 1) * 2 ^ (32 - unat q) \<le> 2 ^ (unat q - unat (prefix_len c)) * 2 ^ (32 - unat q)"
    using d(4) by (intro mult_le_mono) auto
  also have "\<dots> = 2 ^ host_bits c"
    using d unat_le_32 [OF d(2)] by (simp add: host_bits_def power_add [symmetric] word_le_nat_alt)
  finally have "unat i * 2 ^ (32 - unat q) + 2 ^ (32 - unat q) \<le> 2 ^ host_bits c" by simp
  then show ?thesis using d by (auto simp: block_def host_bits_def)
qed

lemma host_bits_split:
  assumes "prefix_len c \<le> q" "q \<le> 32"
  shows "(2 :: nat) ^ host_bits c = 2 ^ (unat q - unat (prefix_len c)) * 2 ^ (32 - unat q)"
  using assms unat_le_32 [OF assms(2)]
  by (simp add: host_bits_def power_add [symmetric] word_le_nat_alt)

lemma nth_subnet_covers:
  assumes "cidr_wf c" "prefix_len c \<le> q" "q \<le> 32" "ip \<in> block c"
  obtains i d where "nth_subnet c q i = Some d" "ip \<in> block d"
proof -
  define w where "w = (2 :: nat) ^ (32 - unat q)"
  define k where "k = (unat ip - unat (network c)) div w"
  have w: "0 < w" by (simp add: w_def)
  have "unat ip - unat (network c) < 2 ^ (unat q - unat (prefix_len c)) * w"
    using assms(4) host_bits_split [OF assms(2,3)] by (auto simp: block_def w_def)
  then have k: "k < 2 ^ (unat q - unat (prefix_len c))"
    using w by (simp add: k_def less_mult_imp_div_less)
  also have "(2 :: nat) ^ (unat q - unat (prefix_len c)) \<le> 2 ^ 32"
    using unat_le_32 [OF assms(3)] by (intro power_increasing) auto
  finally have uk: "unat (of_nat k :: 64 word) = k" by (simp add: unat_of_nat)
  obtain d where d: "nth_subnet c q (of_nat k) = Some d"
  proof -
    let ?d = "\<lparr>network = of_nat (unat (network c) + k * w), prefix_len = q\<rparr>"
    have "k * w \<le> unat ip - unat (network c)" by (simp add: k_def)
    then have le: "unat (network c) + k * w \<le> unat ip" using assms(4) by (auto simp: block_def)
    then have "unat (network c) + k * w < 2 ^ 32" using unat_ipv4_less [of ip] by simp
    then have "unat (network ?d) = unat (network c) + k * w"
      by (simp add: unat_of_nat del: of_nat_add of_nat_mult)
    then have "nth_subnet c q (of_nat k) = Some ?d"
      using k assms uk by (simp add: nth_subnet_Some_iff w_def del: of_nat_add of_nat_mult)
    then show ?thesis by (rule that)
  qed
  have "unat ip - unat (network c) = k * w + (unat ip - unat (network c)) mod w" by (simp add: k_def)
  moreover have "(unat ip - unat (network c)) mod w < w" using w by simp
  moreover have "unat (network c) \<le> unat ip" using assms(4) by (simp add: block_def)
  ultimately have "unat (network c) + k * w \<le> unat ip" "unat ip < unat (network c) + k * w + w"
    by linarith+
  then have "ip \<in> block d"
    using d assms uk by (auto simp: nth_subnet_Some_iff block_def host_bits_def w_def)
  then show ?thesis using d that by blast
qed

lemma subnets_eq_nth_subnet:
  assumes "cidr_wf c" "subnets c q = Some ds"
  shows "length ds = 2 ^ (unat q - unat (prefix_len c))"
    and "i < length ds \<Longrightarrow> nth_subnet c q (of_nat i) = Some (ds ! i)"
proof -
  have q: "prefix_len c \<le> q" "q \<le> 32" using assms(2) by (auto simp: subnets_def split: if_splits)
  then have lim: "unat q - unat (prefix_len c) < 64" using unat_le_32 [of q] by linarith
  have cnt: "unat (shl (1 :: 64 word) (unat (ucast q - ucast (prefix_len c) :: 64 word)))
      = 2 ^ (unat q - unat (prefix_len c))"
    using q lim by (simp add: unat_prefix_sub64 unat_shl_one64)
  show len: "length ds = 2 ^ (unat q - unat (prefix_len c))"
    using assms(2) cnt by (auto simp: subnets_def Let_def split: if_splits)
  assume i: "i < length ds"
  also have "length ds \<le> 2 ^ 32"
    unfolding len using unat_le_32 [OF q(2)] by (intro power_increasing) auto
  finally have "unat (of_nat i :: 64 word) = i" by (simp add: unat_of_nat)
  then show "nth_subnet c q (of_nat i) = Some (ds ! i)"
    using assms(2) i q cnt
    by (auto simp: subnets_def nth_subnet_def Let_def word_le_nat_alt not_le not_less split: if_splits)
qed

lemma subnet_index_in_nth:
  assumes "cidr_wf c" "nth_subnet c q i = Some d"
  shows "subnet_index_in d c = Some i"
proof -
  have d: "prefix_len c \<le> q" "q \<le> 32" "prefix_len d = q"
    "unat (network d) = unat (network c) + unat i * 2 ^ (32 - unat q)"
    using assms by (auto simp: nth_subnet_Some_iff)
  have "network d \<in> block c" using nth_subnet_inside [OF assms] block_self by blast
  then have inside: "cidr_contains c (network d)" by (simp add: cidr_contains_block [OF assms(1)])
  have "network c \<le> network d" using d(4) by (simp add: word_le_nat_alt)
  then have off: "unat (network d - network c) = unat i * 2 ^ (32 - unat q)"
    using d(4) by (simp add: unat_sub)
  have sz: "unat (shl (1 :: 64 word) (unat (32 - ucast q :: 64 word))) = 2 ^ (32 - unat q)"
    using d(2) by (simp add: unat_32_sub64 unat_shl_one64)
  show ?thesis
    using d(1) inside
    by (simp add: subnet_index_in_def Let_def word_unat_eq_iff unat_mod unat_div off sz not_less d(3))
qed

lemma cidr_contains_broadcast:
  assumes "cidr_wf c"
  shows "cidr_contains c (broadcast_address c)"
proof -
  have "(n OR NOT m) AND m = n AND m" for n m :: ipv4
    by (rule bit_eqI) (auto simp: bit_simps)
  then show ?thesis by (simp add: cidr_contains_def broadcast_address_def)
qed

lemma allocator_capacity_eq:
  assumes "prefix_len (ta_event_cidr a) \<le> ta_team_prefix a" "ta_team_prefix a \<le> 32"
  shows "unat (allocator_capacity a) = 2 ^ (unat (ta_team_prefix a) - unat (prefix_len (ta_event_cidr a)))"
  using assms unat_le_32 [OF assms(2)]
  by (simp add: allocator_capacity_def unat_prefix_sub64 unat_shl_one64)

lemma nth_subnet_exists:
  assumes "cidr_wf c" "prefix_len c \<le> q" "q \<le> 32" "unat i < 2 ^ (unat q - unat (prefix_len c))"
  shows "\<exists>d. nth_subnet c q i = Some d"
proof -
  let ?d = "\<lparr>network = network c + ucast (i * shl (1 :: 64 word) (unat (32 - ucast q :: 64 word))),
             prefix_len = q\<rparr>"
  have "nth_subnet c q i = Some ?d"
    using assms subnet_address [OF assms] by (simp add: nth_subnet_Some_iff)
  then show ?thesis ..
qed

lemma find_None_iff_list: "List.find p xs = None \<longleftrightarrow> (\<forall>x \<in> set xs. \<not> p x)"
  by (induction xs) auto

lemma find_upt_Some:
  assumes "List.find p (map of_nat [m..<n]) = Some (i :: 64 word)" "n \<le> 2 ^ 64"
  shows "p i" "m \<le> unat i" "unat i < n" "\<And>j. m \<le> unat j \<Longrightarrow> unat j < unat i \<Longrightarrow> \<not> p j"
proof -
  obtain k where k: "k < n - m" "i = of_nat (m + k)" "p i" "\<forall>j < k. \<not> p (of_nat (m + j) :: 64 word)"
    using assms(1) by (auto simp: find_Some_iff)
  have u: "unat i = m + k" unfolding k(2) using k(1) assms(2) by (simp add: unat_of_nat del: of_nat_add)
  show "p i" "m \<le> unat i" "unat i < n" using k(1,3) u by auto
  show "\<not> p j" if "m \<le> unat j" "unat j < unat i" for j
    using k(4) [rule_format, of "unat j - m"] that u by (auto simp del: of_nat_add)
qed

lemma unat_word64_less: "unat (x :: 64 word) < 2 ^ 64"
proof -
  have "(unat x :: nat) < 2 ^ LENGTH(64)" by (rule unsigned_less)
  then show ?thesis by simp
qed

lemma next_free_index_Some:
  assumes "next_free_index a = Some i"
  shows "1 \<le> i" "i < allocator_capacity a" "i \<notin> set (ta_used_indexes a)"
    "\<And>j. 1 \<le> j \<Longrightarrow> j < i \<Longrightarrow> j \<in> set (ta_used_indexes a)"
proof -
  have n: "unat (allocator_capacity a) \<le> 2 ^ 64" using unat_word64_less by (rule less_imp_le)
  note f = find_upt_Some [OF assms [unfolded next_free_index_def] n]
  show "i \<notin> set (ta_used_indexes a)" "i < allocator_capacity a" "1 \<le> i"
    using f(1-3) by (auto simp: word_less_nat_alt word_le_nat_alt)
  show "j \<in> set (ta_used_indexes a)" if "1 \<le> j" "j < i" for j
    using f(4) [of j] that by (auto simp: word_less_nat_alt word_le_nat_alt)
qed

lemma next_free_index_None:
  assumes "next_free_index a = None" "1 \<le> j \<and> j < allocator_capacity a"
  shows "j \<in> set (ta_used_indexes a)"
proof -
  have "unat j \<in> set [1..<unat (allocator_capacity a)]"
    using assms(2) by (auto simp: word_less_nat_alt word_le_nat_alt)
  then have "j \<in> set (map of_nat [1..<unat (allocator_capacity a)])" by force
  then show ?thesis using assms(1) by (auto simp: next_free_index_def find_None_iff_list)
qed

section \<open>Properties\<close>

text \<open>
  The subdivision of an aligned block is a partition: \<open>subnets\<close> lists, in slot order, the
  subnets \<open>nth_subnet\<close> computes one at a time; they number two to the difference of the prefix
  lengths, are pairwise disjoint, and together are exactly the addresses of the block, so no
  address is lost and none is given to two teams.
\<close>

lemma subnets_partition:
  assumes wf: "cidr_wf c" and sub: "subnets c q = Some ds"
  shows "length ds = 2 ^ (unat q - unat (prefix_len c))
    \<and> (\<forall>i < length ds. nth_subnet c q (of_nat i) = Some (ds ! i))
    \<and> (\<forall>i < length ds. \<forall>j < length ds. i \<noteq> j \<longrightarrow> block (ds ! i) \<inter> block (ds ! j) = {})
    \<and> (\<Union>d \<in> set ds. block d) = block c"
proof (intro conjI allI impI)
  note nth = subnets_eq_nth_subnet [OF wf sub]
  have q: "prefix_len c \<le> q" "q \<le> 32" using sub by (auto simp: subnets_def split: if_splits)
  have small: "length ds \<le> 2 ^ 32"
    unfolding nth(1) using unat_le_32 [OF q(2)] by (intro power_increasing) auto
  have inj: "unat (of_nat i :: 64 word) = i" if "i < length ds" for i
    using that small by (simp add: unat_of_nat)
  show "length ds = 2 ^ (unat q - unat (prefix_len c))" by (rule nth(1))
  show "nth_subnet c q (of_nat i) = Some (ds ! i)" if "i < length ds" for i using that by (rule nth(2))
  show "block (ds ! i) \<inter> block (ds ! j) = {}" if "i < length ds" "j < length ds" "i \<noteq> j" for i j
    using nth_subnet_disjoint [OF wf nth(2) [OF that(1)] nth(2) [OF that(2)]] inj that by metis
  show "(\<Union>d \<in> set ds. block d) = block c"
  proof (rule antisym)
    show "(\<Union>d \<in> set ds. block d) \<subseteq> block c"
      using nth_subnet_inside [OF wf] nth(2) by (fastforce simp: in_set_conv_nth)
    show "block c \<subseteq> (\<Union>d \<in> set ds. block d)"
    proof
      fix ip assume "ip \<in> block c"
      then obtain i d where d: "nth_subnet c q i = Some d" "ip \<in> block d"
        using nth_subnet_covers [OF wf q] by blast
      then have "unat i < length ds" using wf by (simp add: nth_subnet_Some_iff nth(1))
      then have "d \<in> set ds" using nth(2) [of "unat i"] d(1) by simp
      then show "ip \<in> (\<Union>d \<in> set ds. block d)" using d(2) by blast
    qed
  qed
qed

definition sample_cidr :: ipv4_cidr where
  "sample_cidr = \<lparr>network = 0x0A000000, prefix_len = 24\<rparr>"

text \<open>
  A slot and its subnet determine each other: the slot number read back from the subnet that
  \<open>nth_subnet\<close> gives for a slot is that slot, and a subnet whose slot number can be read in an
  aligned parent is the one \<open>nth_subnet\<close> gives for it.
\<close>

lemma subnet_index_roundtrip:
  assumes "cidr_wf c" and "cidr_wf d"
  shows "nth_subnet c (prefix_len d) i = Some d \<longleftrightarrow> subnet_index_in d c = Some i"
proof
  assume "nth_subnet c (prefix_len d) i = Some d"
  then show "subnet_index_in d c = Some i" by (rule subnet_index_in_nth [OF assms(1)])
next
  assume idx: "subnet_index_in d c = Some i"
  then have le: "prefix_len c \<le> prefix_len d" and "cidr_contains c (network d)"
    by (auto simp: subnet_index_in_def split: if_splits)
  then have "network d \<in> block c" by (simp add: cidr_contains_block [OF assms(1)])
  then obtain j e where e: "nth_subnet c (prefix_len d) j = Some e" "network d \<in> block e"
    using nth_subnet_covers [OF assms(1) le] assms(2) by (auto simp: cidr_wf_def)
  have p: "prefix_len e = prefix_len d" using e(1) assms(1) by (simp add: nth_subnet_Some_iff)
  have wfe: "cidr_wf e" by (rule nth_subnet_wf [OF assms(1) e(1)])
  have "unat (network e) div 2 ^ host_bits e = unat (network d) div 2 ^ host_bits d"
    using e(2) cidr_contains_block [OF wfe] cidr_contains_div [of e "network d"] wfe p
    by (simp add: cidr_wf_def host_bits_def)
  moreover have "unat (network e) mod 2 ^ host_bits e = 0" "unat (network d) mod 2 ^ host_bits d = 0"
    using wfe assms(2) by (auto simp: cidr_wf_def)
  ultimately have "unat (network e) = unat (network d)"
    using p by (metis host_bits_def mult_div_mod_eq)
  then have "e = d" using p by (simp add: word_unat_eq_iff)
  moreover have "j = i" using subnet_index_in_nth [OF assms(1) e(1)] idx \<open>e = d\<close> by simp
  ultimately show "nth_subnet c (prefix_len d) i = Some d" using e(1) by simp
qed

text \<open>
  C23. The subdivision of an aligned block is a partition with numbered parts: \<open>subnets\<close> lists, in
  slot order, the subnets \<open>nth_subnet\<close> computes one at a time; they number two to the difference of
  the prefix lengths, are pairwise disjoint, and together are exactly the addresses of the block, so
  no address is lost and none is given to two teams. A slot and its subnet determine each other: the
  slot number read back from the subnet of a slot is that slot, and an aligned block whose slot number
  can be read is the subnet of that slot.
\<close>

theorem subnets_numbered:
  assumes "cidr_wf c" "subnets c q = Some ds"
  shows "length ds = 2 ^ (unat q - unat (prefix_len c))
    \<and> (\<forall>i < length ds. nth_subnet c q (of_nat i) = Some (ds ! i))
    \<and> (\<forall>i < length ds. \<forall>j < length ds. i \<noteq> j \<longrightarrow> block (ds ! i) \<inter> block (ds ! j) = {})
    \<and> (\<Union>d \<in> set ds. block d) = block c
    \<and> (\<forall>d i. cidr_wf d \<longrightarrow> (nth_subnet c (prefix_len d) i = Some d \<longleftrightarrow> subnet_index_in d c = Some i))"
  using subnets_partition [OF assms] subnet_index_roundtrip [OF assms(1)] by blast

theorem subnets_numbered_witness:
  "\<exists>ds. subnets sample_cidr 26 = Some ds \<and> length ds = 4 \<and> (\<Union>d \<in> set ds. block d) = block sample_cidr
     \<and> subnet_index_in \<lparr>network = 0x0A0000C0, prefix_len = 26\<rparr> sample_cidr = Some 3"
proof -
  let ?d = "\<lparr>network = 0x0A0000C0, prefix_len = 26\<rparr> :: ipv4_cidr"
  have wf: "cidr_wf sample_cidr" "cidr_wf ?d"
    by (simp_all add: cidr_wf_def sample_cidr_def host_bits_def)
  obtain ds where ds: "subnets sample_cidr 26 = Some ds" by (simp add: subnets_def sample_cidr_def Let_def)
  have "nth_subnet sample_cidr (prefix_len ?d) 3 = Some ?d"
    by (simp add: nth_subnet_def sample_cidr_def Let_def shl_def)
  then have "subnet_index_in ?d sample_cidr = Some 3" using subnets_numbered [OF wf(1) ds] wf(2) by blast
  then show ?thesis using subnets_numbered [OF wf(1) ds] ds by (simp add: sample_cidr_def)
qed

text \<open>
  Overlap is intersection: for aligned blocks, the four-way test \<open>overlaps\<close> answers true
  exactly when some address belongs to both.
\<close>

theorem cidr_overlaps_iff:
  assumes "cidr_wf c" and "cidr_wf d"
  shows "cidr_overlaps c d \<longleftrightarrow> block c \<inter> block d \<noteq> {}"
proof
  have in_block: "broadcast_address e \<in> block e" if "cidr_wf e" for e
    using that by (simp add: cidr_contains_block [symmetric] cidr_contains_broadcast)
  assume "cidr_overlaps c d"
  then show "block c \<inter> block d \<noteq> {}"
    using assms block_self in_block unfolding cidr_overlaps_def
    by (auto simp: cidr_contains_block)
next
  assume "block c \<inter> block d \<noteq> {}"
  then show "cidr_overlaps c d"
    using blocks_disjoint_or_nested assms by (auto simp: cidr_overlaps_def cidr_contains_block)
qed

theorem cidr_overlaps_iff_witness:
  "cidr_overlaps sample_cidr \<lparr>network = 0x0A0000C0, prefix_len = 26\<rparr>
   \<and> block sample_cidr \<inter> block \<lparr>network = 0x0A0000C0, prefix_len = 26\<rparr> \<noteq> {}"
proof -
  let ?d = "\<lparr>network = 0x0A0000C0, prefix_len = 26\<rparr> :: ipv4_cidr"
  have wf: "cidr_wf sample_cidr" "cidr_wf ?d"
    by (simp_all add: cidr_wf_def sample_cidr_def host_bits_def)
  have "cidr_overlaps sample_cidr ?d" by code_simp
  then show ?thesis using cidr_overlaps_iff [OF wf] by simp
qed

text \<open>
  C24. Slot allocation is safe: the slot \<open>next_free_index\<close> picks for a new team is never slot 0,
  which carries the infrastructure, never a slot that was ever given out, and is the least such
  slot; its subnet exists and meets neither the infrastructure subnet nor the subnet of any slot
  in use; and the allocator reports exhaustion only when every slot from 1 on is taken.
\<close>

theorem next_free_index_safe:
  assumes wf: "cidr_wf (ta_event_cidr a)"
    and le: "prefix_len (ta_event_cidr a) \<le> ta_team_prefix a" "ta_team_prefix a \<le> 32"
  shows "case next_free_index a of
      None \<Rightarrow> \<forall>j. 1 \<le> j \<and> j < allocator_capacity a \<longrightarrow> j \<in> set (ta_used_indexes a)
    | Some i \<Rightarrow> 1 \<le> i \<and> i \<notin> set (ta_used_indexes a)
        \<and> (\<forall>j. 1 \<le> j \<and> j < i \<longrightarrow> j \<in> set (ta_used_indexes a))
        \<and> (\<exists>d. subnet_for_index a i = Some d \<and> block d \<subseteq> block (ta_event_cidr a)
             \<and> (\<forall>j e. j \<in> set (0 # ta_used_indexes a) \<longrightarrow> subnet_for_index a j = Some e \<longrightarrow>
                  block d \<inter> block e = {}))"
proof (cases "next_free_index a")
  case None
  then show ?thesis by (simp add: next_free_index_None)
next
  case (Some i)
  note i = next_free_index_Some [OF Some]
  have "unat i < 2 ^ (unat (ta_team_prefix a) - unat (prefix_len (ta_event_cidr a)))"
    using i(2) le by (simp add: word_less_nat_alt allocator_capacity_eq)
  then obtain d where d: "subnet_for_index a i = Some d"
    using nth_subnet_exists [OF wf le] by (auto simp: subnet_for_index_def)
  have "i \<noteq> 0" using i(1) by auto
  then have "block d \<inter> block e = {}"
    if "j \<in> set (0 # ta_used_indexes a)" "subnet_for_index a j = Some e" for j e
    using that i d nth_subnet_disjoint [OF wf, of "ta_team_prefix a" i d j e]
    by (auto simp: subnet_for_index_def)
  then show ?thesis
    using Some i d nth_subnet_inside [OF wf] by (auto simp: subnet_for_index_def)
qed

theorem next_free_index_safe_witness:
  "next_free_index \<lparr>ta_event_cidr = sample_cidr, ta_team_prefix = 26, ta_used_indexes = [1]\<rparr> = Some 2
   \<and> (\<exists>d. subnet_for_index \<lparr>ta_event_cidr = sample_cidr, ta_team_prefix = 26, ta_used_indexes = [1]\<rparr> 2
          = Some d \<and> block d \<subseteq> block sample_cidr)"
proof -
  let ?a = "\<lparr>ta_event_cidr = sample_cidr, ta_team_prefix = 26, ta_used_indexes = [1]\<rparr>"
  have "next_free_index ?a = Some 2"
    by (simp add: next_free_index_def allocator_capacity_def sample_cidr_def shl_def upt_rec)
  then show ?thesis
    using next_free_index_safe [of ?a] by (auto simp: cidr_wf_def sample_cidr_def host_bits_def)
qed

end
