(* ===== verification/Awd_Host.thy ===== *)
theory Awd_Host
  imports Awd_Network
begin

text \<open>
  The interface between the AWD services and the host. The firewall policy the services want
  (\<open>modules/event/awd/domain/firewall_state.rs\<close>), the requests of the container runtime
  (\<open>crates/fcmc/src/runtime/awd.rs\<close>, \<open>runtime/model.rs\<close>), of the network runtime
  (\<open>infrastructure/network/runtime.rs\<close>) and of the Docker forwarding rules
  (\<open>infrastructure/firewall/docker_forward.rs\<close>), the observations they return, and the log of
  effects. Docker, WireGuard, nftables, iptables, ssh, the cipher, the random generators and the
  network columns of the database are not part of the program: the record \<open>host_env\<close> answers for
  them. Every answer may depend on all the effects before it, so that equal requests may be
  answered differently.
\<close>

section \<open>Firewall policy\<close>

record desired_team_policy =
  dt_team_id :: uuid
  dt_wireguard_network :: ipv4_cidr
  dt_gamebox_network :: ipv4_cidr

record desired_event_policy =
  dp_event_key :: string
  dp_event_id :: uuid
  dp_phase :: awd_phase
  dp_gamebox_network :: ipv4_cidr
  dp_infrastructure_network :: ipv4_cidr
  dp_flagserver_ip :: ipv4
  dp_judgeserver_ip :: ipv4
  dp_teams :: "desired_team_policy list"
  dp_banned_teams :: "uuid list"
  dp_is_final_settlement :: bool
  dp_is_finished :: bool

record desired_firewall_state =
  df_revision :: "64 word"
  df_events :: "desired_event_policy list"

section \<open>Requests\<close>

record event_network_spec =
  ns_event_id :: uuid
  ns_network_name :: string
  ns_subnet_cidr :: string
  ns_internal :: bool
  ns_bridge_name :: "string option"

record infra_container_spec =
  ic_event_id :: uuid
  ic_container_name :: string
  ic_image_ref :: string
  ic_network_name :: string
  ic_fixed_ip :: string
  ic_additional_networks :: "string list"
  ic_env :: "string list"
  ic_cpu_millis :: "int option"
  ic_memory_bytes :: "int option"

record gamebox_spec =
  gs_event_id :: uuid
  gs_team_id :: uuid
  gs_event_gamebox_id :: uuid
  gs_instance_id :: uuid
  gs_runtime_generation :: int
  gs_container_name :: string
  gs_image_ref :: string
  gs_network_name :: string
  gs_fixed_ip :: string
  gs_username :: string
  gs_password :: string
  gs_cpu_millis :: int
  gs_memory_bytes :: int
  gs_pids_limit :: int
  gs_extra_hosts :: "string list"

record gamebox_reset_spec =
  rz_event_id :: uuid
  rz_team_id :: uuid
  rz_event_gamebox_id :: uuid
  rz_instance_id :: uuid
  rz_container_name :: string
  rz_recreate_spec :: gamebox_spec

record wireguard_desired_state =
  wd_interface :: string
  wd_private_key :: string
  wd_listen_port :: "16 word"
  wd_address :: string

record docker_forward_spec =
  fw_wg_interface :: string
  fw_bridge_name :: string
  fw_gamebox_cidr :: string

datatype host_call =
    HcListNetworks
  | HcListRoutes
  | HcInspectNetwork string
  | HcCreateNetwork event_network_spec
  | HcRemoveNetwork string
  | HcCreateInfra infra_container_spec
  | HcCreateGamebox gamebox_spec
  | HcResetGamebox gamebox_reset_spec
  | HcStopContainer string
  | HcRemoveContainer string
  | HcInspectContainer string
  | HcListContainers uuid
  | HcEnsureWireguard wireguard_desired_state
  | HcRemoveWireguard string
  | HcInspectWireguard uuid string
  | HcEnsureForward docker_forward_spec
  | HcCheckForward docker_forward_spec
  | HcRemoveForward docker_forward_spec
  | HcInspectFirewall
  | HcVerifyFirewall desired_firewall_state
  | HcSsh string

section \<open>Observations\<close>

record container_state =
  cs_container_id :: string
  cs_container_name :: string
  cs_status :: string
  cs_running :: bool

record network_state =
  nt_exists :: bool
  nt_subnet :: "string option"

record network_observed_state =
  no_wireguard_interface_up :: bool
  no_notes :: "string list"

record observed_firewall_state =
  of_table_exists :: bool
  of_raw_output :: string
  of_observed_revision :: "64 word option"

datatype effect =
    FxFirewall desired_firewall_state
  | FxFlushEvent uuid
  | FxFlushTeam uuid uuid
  | FxPublish string uuid
  | FxAddPeer string
  | FxRevokePeer string
  | FxHost host_call

section \<open>What answers outside the program\<close>

text \<open>
  \<open>None\<close> and \<open>False\<close> are failures. The fields \<open>hv_cidr_column\<close> and \<open>hv_inet_column\<close> are what reading
  the text of a block or an address and storing it in a column of type \<open>cidr\<close> or \<open>inet\<close> gives;
  \<open>hv_seal\<close> and \<open>hv_open\<close> are the authenticated cipher, with the supply of identifiers as the source
  of nonces, passwords and keys.
\<close>

record host_env =
  hv_cidrs :: "effect list \<Rightarrow> host_call \<Rightarrow> string list option"
  hv_network_state :: "effect list \<Rightarrow> string \<Rightarrow> network_state option"
  hv_create_network :: "effect list \<Rightarrow> event_network_spec \<Rightarrow> (string \<times> string) option"
  hv_create_container :: "effect list \<Rightarrow> host_call \<Rightarrow> string option"
  hv_container_state :: "effect list \<Rightarrow> string \<Rightarrow> container_state option"
  hv_containers :: "effect list \<Rightarrow> uuid \<Rightarrow> container_state list option"
  hv_unit :: "effect list \<Rightarrow> host_call \<Rightarrow> bool"
  hv_wireguard_state :: "effect list \<Rightarrow> uuid \<Rightarrow> string \<Rightarrow> network_observed_state option"
  hv_forward_missing :: "effect list \<Rightarrow> docker_forward_spec \<Rightarrow> string list option"
  hv_firewall_state :: "effect list \<Rightarrow> observed_firewall_state option"
  hv_firewall_verify :: "effect list \<Rightarrow> desired_firewall_state \<Rightarrow> bool option"
  hv_ssh :: "effect list \<Rightarrow> string \<Rightarrow> int option"
  hv_cidr_column :: "string \<Rightarrow> awd_error + ipv4_cidr"
  hv_inet_column :: "string \<Rightarrow> awd_error + ipv4"
  hv_seal :: "uuid \<Rightarrow> string \<Rightarrow> string \<Rightarrow> (string \<times> string) option"
  hv_open :: "string \<Rightarrow> string \<Rightarrow> string \<Rightarrow> string option"
  hv_password :: "uuid \<Rightarrow> string"
  hv_keypair :: "uuid \<Rightarrow> string \<times> string"
  hv_uuid_simple :: "uuid \<Rightarrow> string"
  hv_ssh_probe :: "string option"
  hv_flagserver_image :: string
  hv_judgeserver_image :: string
  hv_platform_internal_url :: string
  hv_platform_internal_network :: "string option"

end
