(* ===== verification/Awd_Status.thy ===== *)
theory Awd_Status
  imports Awd_Types
begin

text \<open>
  The state machines of the AWD module: event status and phase
  (\<open>modules/event/awd/domain/event_ext.rs\<close>), round, judge-task and precheck status
  (\<open>domain/round_ext.rs\<close>) and GameBox status (\<open>domain/gamebox_ext.rs\<close>). Each machine is the
  source's transition table; the locale \<open>transition_table\<close> is the interface the three tables
  share, and its lemmas on reachable states are proved once and interpreted for each of them.
\<close>

section \<open>Transition tables\<close>

fun event_is_terminal :: "awd_event_status \<Rightarrow> bool" where
  "event_is_terminal EvFinished = True"
| "event_is_terminal EvArchived = True"
| "event_is_terminal _ = False"

fun event_is_active :: "awd_event_status \<Rightarrow> bool" where
  "event_is_active EvRunning = True"
| "event_is_active EvPaused = True"
| "event_is_active _ = False"

definition event_is_configurable :: "awd_event_status \<Rightarrow> bool" where
  "event_is_configurable s \<longleftrightarrow>
     s \<in> {EvDraft, EvConfiguring, EvDeployed, EvPrechecking, EvVerified, EvStartBlocked,
          EvDeployFailed, EvVerificationFailed}"

fun event_valid_transitions :: "awd_event_status \<Rightarrow> awd_event_status list" where
  "event_valid_transitions EvDraft = [EvConfiguring]"
| "event_valid_transitions EvConfiguring = [EvDeploying, EvDraft, EvPrechecking]"
| "event_valid_transitions EvDeploying = [EvDeployed, EvDeployFailed]"
| "event_valid_transitions EvDeployed = [EvPrechecking, EvConfiguring]"
| "event_valid_transitions EvPrechecking = [EvVerified, EvVerificationFailed, EvDeployed]"
| "event_valid_transitions EvVerified = [EvRunning, EvStartBlocked, EvConfiguring]"
| "event_valid_transitions EvRunning = [EvPaused, EvFinished, EvNetworkError]"
| "event_valid_transitions EvPaused = [EvRunning, EvFinished, EvNetworkError]"
| "event_valid_transitions EvNetworkError = [EvPaused, EvRunning, EvFinished]"
| "event_valid_transitions EvStartBlocked = [EvPrechecking, EvConfiguring]"
| "event_valid_transitions EvFinished = [EvArchived]"
| "event_valid_transitions EvArchived = []"
| "event_valid_transitions EvDeployFailed = [EvConfiguring]"
| "event_valid_transitions EvVerificationFailed = [EvPrechecking, EvConfiguring]"

definition event_can_transition_to :: "awd_event_status \<Rightarrow> awd_event_status \<Rightarrow> string + unit" where
  "event_can_transition_to s t =
     (if t \<in> set (event_valid_transitions s) then Inr () else Inl ''Invalid transition'')"

definition event_transition :: "awd_event_status \<Rightarrow> awd_event_status \<Rightarrow> string + awd_event_status" where
  "event_transition s t =
     (case event_can_transition_to s t of Inl e \<Rightarrow> Inl e | Inr _ \<Rightarrow> Inr t)"

fun phase_allows_flag_issue :: "awd_phase \<Rightarrow> bool" where
  "phase_allows_flag_issue PhAttack = True"
| "phase_allows_flag_issue _ = False"

fun phase_allows_flag_submission :: "awd_phase \<Rightarrow> bool" where
  "phase_allows_flag_submission PhAttack = True"
| "phase_allows_flag_submission _ = False"

fun phase_allows_judge :: "awd_phase \<Rightarrow> bool" where
  "phase_allows_judge PhAttack = True"
| "phase_allows_judge PhHardening = True"
| "phase_allows_judge PhPause = False"

definition phase_can_transition_to :: "awd_phase \<Rightarrow> awd_phase \<Rightarrow> string + unit" where
  "phase_can_transition_to p t =
     (if p = t then Inr ()
      else case (p, t) of
        (_, PhPause) \<Rightarrow> Inr ()
      | (PhPause, PhHardening) \<Rightarrow> Inr ()
      | (PhPause, PhAttack) \<Rightarrow> Inr ()
      | (PhHardening, PhAttack) \<Rightarrow> Inr ()
      | (PhAttack, PhHardening) \<Rightarrow> Inr ()
      | _ \<Rightarrow> Inl ''Invalid phase transition'')"

fun round_is_terminal :: "round_status \<Rightarrow> bool" where
  "round_is_terminal RdCompleted = True"
| "round_is_terminal _ = False"

fun round_valid_transitions :: "round_status \<Rightarrow> round_status list" where
  "round_valid_transitions RdActive = [RdPaused, RdCompleted]"
| "round_valid_transitions RdPaused = [RdActive]"
| "round_valid_transitions RdCompleted = []"

definition judge_is_terminal :: "judge_task_status \<Rightarrow> bool" where
  "judge_is_terminal s \<longleftrightarrow> s \<in> {JtUp, JtDown, JtJudgeError, JtSkippedResetting, JtSkippedBanned}"

definition judge_is_up :: "judge_task_status \<Rightarrow> bool" where
  "judge_is_up s \<longleftrightarrow> s = JtUp"

definition judge_is_down :: "judge_task_status \<Rightarrow> bool" where
  "judge_is_down s \<longleftrightarrow> s = JtDown"

definition precheck_is_terminal :: "precheck_status \<Rightarrow> bool" where
  "precheck_is_terminal s \<longleftrightarrow> s \<in> {PcPassed, PcFailed, PcError}"

definition gamebox_is_healthy :: "gamebox_status \<Rightarrow> bool" where
  "gamebox_is_healthy s \<longleftrightarrow> s \<in> {GbReady, GbRunning}"

definition gamebox_needs_attention :: "gamebox_status \<Rightarrow> bool" where
  "gamebox_needs_attention s \<longleftrightarrow> s \<in> {GbMissing, GbOrphan, GbConflict, GbStartFailed, GbResetFailed}"

definition gamebox_is_transitional :: "gamebox_status \<Rightarrow> bool" where
  "gamebox_is_transitional s \<longleftrightarrow> s \<in> {GbPending, GbCreating, GbResetting}"

fun gamebox_valid_transitions :: "gamebox_status \<Rightarrow> gamebox_status list" where
  "gamebox_valid_transitions GbPending = [GbCreating]"
| "gamebox_valid_transitions GbCreating = [GbRunning, GbStartFailed]"
| "gamebox_valid_transitions GbRunning = [GbReady, GbMissing, GbStopped]"
| "gamebox_valid_transitions GbReady = [GbResetting, GbMissing, GbStopped, GbRunning]"
| "gamebox_valid_transitions GbResetting = [GbReady, GbResetFailed]"
| "gamebox_valid_transitions GbMissing = [GbCreating]"
| "gamebox_valid_transitions GbOrphan = [GbReady, GbStopped]"
| "gamebox_valid_transitions GbConflict = [GbReady]"
| "gamebox_valid_transitions GbStartFailed = [GbCreating]"
| "gamebox_valid_transitions GbResetFailed = [GbResetting]"
| "gamebox_valid_transitions GbStopped = [GbCreating]"

definition gamebox_can_transition_to :: "gamebox_status \<Rightarrow> gamebox_status \<Rightarrow> string + unit" where
  "gamebox_can_transition_to s t =
     (if t \<in> set (gamebox_valid_transitions s) then Inr () else Inl ''Invalid GameBox transition'')"

section \<open>Runs of a transition table\<close>

text \<open>
  \<open>table_run valid s ts\<close>: the statuses \<open>ts\<close> are a run of the table from \<open>s\<close>, each status
  allowed after the one before it; \<open>table_reach\<close> relates the ends of such a run.
\<close>

inductive table_reach :: "('s \<Rightarrow> 's list) \<Rightarrow> 's \<Rightarrow> 's \<Rightarrow> bool" for valid where
  reach_refl: "table_reach valid s s"
| reach_step: "table_reach valid s t \<Longrightarrow> u \<in> set (valid t) \<Longrightarrow> table_reach valid s u"

fun table_run :: "('s \<Rightarrow> 's list) \<Rightarrow> 's \<Rightarrow> 's list \<Rightarrow> bool" where
  "table_run valid s [] = True"
| "table_run valid s (t # ts) = (t \<in> set (valid s) \<and> table_run valid t ts)"

locale transition_table =
  fixes valid :: "'s \<Rightarrow> 's list"
    and terminal :: "'s \<Rightarrow> bool"
  assumes terminal_closed: "terminal s \<Longrightarrow> t \<in> set (valid s) \<Longrightarrow> terminal t"
begin

lemma reach_closed_set:
  assumes "\<And>s t. Q s \<Longrightarrow> t \<in> set (valid s) \<Longrightarrow> Q t"
  shows "table_reach valid s t \<Longrightarrow> Q s \<Longrightarrow> Q t"
  by (induction rule: table_reach.induct) (auto dest: assms)

lemma reach_terminal: "table_reach valid s t \<Longrightarrow> terminal s \<Longrightarrow> terminal t"
  by (rule reach_closed_set [where Q = terminal]) (rule terminal_closed)

lemma run_reach: "table_run valid s ts \<Longrightarrow> t \<in> set ts \<Longrightarrow> table_reach valid s t"
proof (induction ts arbitrary: t rule: rev_induct)
  case (snoc x xs)
  have run: "table_run valid s xs" and last: "x \<in> set (valid (last (s # xs)))"
    using snoc.prems(1) by (induction xs arbitrary: s) (auto split: if_splits)
  have "table_reach valid s (last (s # xs))"
  proof (cases xs)
    case Nil
    then show ?thesis by (simp add: reach_refl)
  next
    case (Cons y ys)
    then show ?thesis using snoc.IH [OF run, of "last xs"] by (simp split: if_splits)
  qed
  then have "table_reach valid s x" using last by (rule reach_step)
  then show ?case using snoc.IH [OF run] snoc.prems(2) by auto
qed simp

text \<open>A run that enters a region through a gate passes the gate.\<close>

lemma run_through_gate:
  assumes enter: "\<And>s t. t \<in> set (valid s) \<Longrightarrow> region t \<Longrightarrow> \<not> region s \<Longrightarrow> s = gate"
    and run: "table_run valid s ts" and out: "\<not> region s" and goal: "t \<in> set ts" and inside: "region t"
  shows "gate \<in> set (s # takeWhile (\<lambda>x. \<not> region x) ts)"
  using run out goal
proof (induction ts arbitrary: s)
  case (Cons x xs)
  show ?case
  proof (cases "region x")
    case True
    then show ?thesis using enter [of x s] Cons.prems by simp
  next
    case False
    then have "t \<in> set xs" using Cons.prems(3) inside by auto
    then have "gate \<in> set (x # takeWhile (\<lambda>x. \<not> region x) xs)"
      using Cons.IH [of x] Cons.prems False by simp
    then show ?thesis using False by simp
  qed
qed simp

end

lemma event_terminal_closed:
  "event_is_terminal s \<Longrightarrow> t \<in> set (event_valid_transitions s) \<Longrightarrow> event_is_terminal t"
  by (cases s) auto

interpretation event_table: transition_table event_valid_transitions event_is_terminal
  by unfold_locales (rule event_terminal_closed)

interpretation round_table: transition_table round_valid_transitions round_is_terminal
  by unfold_locales (auto elim: round_is_terminal.elims)

interpretation gamebox_table: transition_table gamebox_valid_transitions
  "\<lambda>s. gamebox_valid_transitions s = []"
  by unfold_locales simp

section \<open>Properties\<close>

definition event_started :: "awd_event_status \<Rightarrow> bool" where
  "event_started s \<longleftrightarrow> s \<in> {EvRunning, EvPaused, EvNetworkError, EvFinished, EvArchived}"

lemma event_start_gate:
  "t \<in> set (event_valid_transitions s) \<Longrightarrow> event_started t \<Longrightarrow> \<not> event_started s \<Longrightarrow> s = EvVerified"
  by (cases s) (auto simp: event_started_def)

lemma event_started_closed:
  "event_started s \<Longrightarrow> t \<in> set (event_valid_transitions s) \<Longrightarrow> event_started t"
  by (cases s) (auto simp: event_started_def)

text \<open>
  C20. Precheck is a hard gate: in every run of the event status table that begins before the
  competition, any status of a started competition (Running, Paused, NetworkError, Finished,
  Archived) is preceded by Verified, which comes before the first started status; and once
  started, an event never returns to a status in which its configuration can be edited.
\<close>

theorem precheck_is_a_hard_gate:
  assumes "table_run event_valid_transitions s ts" and "\<not> event_started s"
    and "t \<in> set ts" and "event_started t"
  shows "EvVerified \<in> set (s # takeWhile (\<lambda>x. \<not> event_started x) ts)
    \<and> (\<forall>u. table_reach event_valid_transitions t u \<longrightarrow> \<not> event_is_configurable u)"
proof
  show "EvVerified \<in> set (s # takeWhile (\<lambda>x. \<not> event_started x) ts)"
    by (rule event_table.run_through_gate [OF event_start_gate assms]) auto
  show "\<forall>u. table_reach event_valid_transitions t u \<longrightarrow> \<not> event_is_configurable u"
  proof (intro allI impI)
    fix u assume "table_reach event_valid_transitions t u"
    then have "event_started u"
      using event_table.reach_closed_set [of event_started t u] event_started_closed assms(4)
      by blast
    then show "\<not> event_is_configurable u"
      by (auto simp: event_started_def event_is_configurable_def)
  qed
qed

theorem precheck_is_a_hard_gate_witness:
  "EvVerified \<in> set (EvDraft # takeWhile (\<lambda>x. \<not> event_started x)
     [EvConfiguring, EvPrechecking, EvVerified, EvRunning, EvPaused])"
  using precheck_is_a_hard_gate
    [of EvDraft "[EvConfiguring, EvPrechecking, EvVerified, EvRunning, EvPaused]" EvPaused]
  by (simp add: event_started_def)

end
