(* ===== verification/Awd_Timing.thy ===== *)
theory Awd_Timing
  imports Awd_Types
begin

text \<open>
  The competition time model (\<open>modules/event/awd/domain/timing.rs\<close>) and the automatic precheck
  instant (\<open>scheduler/mod.rs\<close>): how long the whole event, its attack stage and its hardening stage
  last, derived from the generic event's schedule and the configured rounds.
\<close>

record awd_timing =
  event_duration_secs :: int
  attack_duration_secs :: int
  hardening_duration_secs :: int
  timing_round_count :: int
  timing_round_duration_secs :: int

datatype timing_error =
    MissingEndTime | EndTimeNotAfterStart | RoundCountNotConfigured | RoundCountNotPositive
  | RoundDurationNotPositive | AttackExceedsEvent | ArithmeticOverflow

definition compute_timing ::
  "timestamp \<Rightarrow> timestamp option \<Rightarrow> int option \<Rightarrow> int \<Rightarrow> timing_error + awd_timing" where
  "compute_timing event_start event_end round_count round_duration_secs =
     (case event_end of
        None \<Rightarrow> Inl MissingEndTime
      | Some end \<Rightarrow>
          if end \<le> event_start then Inl EndTimeNotAfterStart
          else
            let event_duration = num_seconds (end - event_start) in
            if event_duration < 0 then Inl EndTimeNotAfterStart
            else case round_count of
                None \<Rightarrow> Inl RoundCountNotConfigured
              | Some rc \<Rightarrow>
                  if rc \<le> 0 then Inl RoundCountNotPositive
                  else if round_duration_secs \<le> 0 then Inl RoundDurationNotPositive
                  else case checked_mul_i64 rc round_duration_secs of
                      None \<Rightarrow> Inl ArithmeticOverflow
                    | Some attack_duration \<Rightarrow>
                        if attack_duration > event_duration then Inl AttackExceedsEvent
                        else Inr \<lparr>event_duration_secs = event_duration,
                                  attack_duration_secs = attack_duration,
                                  hardening_duration_secs = event_duration - attack_duration,
                                  timing_round_count = rc,
                                  timing_round_duration_secs = round_duration_secs\<rparr>)"

definition automatic_precheck_at :: "timestamp \<Rightarrow> timestamp \<Rightarrow> timestamp option" where
  "automatic_precheck_at start_time now =
     (let execute_at = start_time - seconds 3600
      in if execute_at \<ge> now then Some execute_at else None)"

text \<open>What the configuration must satisfy, as the product specification lists it.\<close>

definition timing_admissible :: "timestamp \<Rightarrow> timestamp option \<Rightarrow> int option \<Rightarrow> int \<Rightarrow> bool" where
  "timing_admissible event_start event_end round_count round_duration_secs \<longleftrightarrow>
     (\<exists>end rc. event_end = Some end \<and> round_count = Some rc \<and> event_start < end \<and> 0 < rc \<and>
        0 < round_duration_secs \<and> rc * round_duration_secs \<le> num_seconds (end - event_start))"

lemma num_seconds_after: "a < b \<Longrightarrow> \<not> num_seconds (b - a) < 0"
  using num_seconds_nonneg [of "b - a"] by simp

lemma compute_timing_no_overflow:
  assumes "in_i32 rc" "in_i32 rd"
  shows "checked_mul_i64 rc rd = Some (rc * rd)"
  using in_i32_mult_in_i64 [OF assms] by (simp add: checked_mul_i64_def)

lemma compute_timing_InrD:
  assumes "compute_timing st en rc rd = Inr t"
  shows "timing_admissible st en rc rd"
    and "event_duration_secs t = num_seconds (the en - st)"
    and "attack_duration_secs t = the rc * rd"
    and "event_duration_secs t = hardening_duration_secs t + attack_duration_secs t"
    and "0 \<le> hardening_duration_secs t" and "0 < attack_duration_secs t"
  using assms
  by (auto simp: compute_timing_def timing_admissible_def checked_mul_i64_def Let_def
      split: option.splits if_splits)

lemma timing_admissible_compute:
  assumes "timing_admissible st en rc rd" and "in_i32 (the rc)" and "in_i32 rd"
  shows "\<exists>t. compute_timing st en rc rd = Inr t"
  using assms
  by (auto simp: compute_timing_def timing_admissible_def compute_timing_no_overflow
      num_seconds_after Let_def split: option.splits)

text \<open>
  C21. The time model accepts exactly the configurations the specification admits, and splits the
  event without remainder: for a round count and a round duration that fit in 32 bits,
  \<open>compute_timing\<close> succeeds if and only if the event has an end after its start, the rounds are
  positive in number and length and fit into the event, and then hardening and attack add up to the
  whole duration with attack exactly rounds times length and hardening never negative; the
  arithmetic-overflow error is impossible.
\<close>

theorem compute_timing_exact:
  assumes "in_i32 rd" and "\<And>n. rc = Some n \<Longrightarrow> in_i32 n"
  shows "((\<exists>t. compute_timing st en rc rd = Inr t) \<longleftrightarrow> timing_admissible st en rc rd)
    \<and> compute_timing st en rc rd \<noteq> Inl ArithmeticOverflow
    \<and> (\<forall>t. compute_timing st en rc rd = Inr t \<longrightarrow>
         attack_duration_secs t = the rc * rd \<and> 0 \<le> hardening_duration_secs t \<and>
         hardening_duration_secs t + attack_duration_secs t = num_seconds (the en - st))"
proof (intro conjI)
  show "(\<exists>t. compute_timing st en rc rd = Inr t) \<longleftrightarrow> timing_admissible st en rc rd"
  proof
    assume "timing_admissible st en rc rd"
    moreover then have "in_i32 (the rc)"
      using assms(2) by (auto simp: timing_admissible_def)
    ultimately show "\<exists>t. compute_timing st en rc rd = Inr t"
      using assms(1) by (intro timing_admissible_compute)
  qed (auto dest: compute_timing_InrD(1))
  show "compute_timing st en rc rd \<noteq> Inl ArithmeticOverflow"
    using assms
    by (auto simp: compute_timing_def compute_timing_no_overflow Let_def split: option.splits)
  show "\<forall>t. compute_timing st en rc rd = Inr t \<longrightarrow>
         attack_duration_secs t = the rc * rd \<and> 0 \<le> hardening_duration_secs t \<and>
         hardening_duration_secs t + attack_duration_secs t = num_seconds (the en - st)"
    using compute_timing_InrD by fastforce
qed

theorem compute_timing_exact_witness:
  "compute_timing 0 (Some (seconds 3600)) (Some 10) 300
     = Inr \<lparr>event_duration_secs = 3600, attack_duration_secs = 3000, hardening_duration_secs = 600,
            timing_round_count = 10, timing_round_duration_secs = 300\<rparr>
   \<and> timing_admissible 0 (Some (seconds 3600)) (Some 10) 300"
  using compute_timing_exact [of 300 "Some 10" 0 "Some (seconds 3600)"]
  by (auto simp: in_i32_def compute_timing_def checked_mul_i64_def in_i64_def seconds_def
      num_seconds_def nanos_per_sec_def)

end
