(* ===== verification/Uuid_Text.thy ===== *)
theory Uuid_Text
  imports Fctf_Prelude
begin

text \<open>
  The text of a UUID. The \<open>uuid\<close> crate renders an identifier in hyphenated hexadecimal; the services
  build composite keys from such texts with colons between them. The locale \<open>uuid_text\<close> states what
  the keys rely on, and the concrete rendering below shows that the crate's documented format
  provides it.
\<close>

definition uuid_text_ok :: "(uuid \<Rightarrow> string) \<Rightarrow> bool" where
  "uuid_text_ok utx \<longleftrightarrow> (\<forall>a b. utx a = utx b \<longrightarrow> a = b) \<and> (\<forall>a. CHR '':'' \<notin> set (utx a))"

lemma colon_split:
  assumes "a @ CHR '':'' # s = b @ CHR '':'' # t" "CHR '':'' \<notin> set a" "CHR '':'' \<notin> set b"
  shows "a = b \<and> s = t"
  using assms
proof (induction a arbitrary: b)
  case Nil
  then show ?case by (cases b) auto
next
  case (Cons x xs)
  then show ?case by (cases b) auto
qed

locale uuid_text =
  fixes utx :: "uuid \<Rightarrow> string"
  assumes utx_inj: "utx a = utx b \<Longrightarrow> a = b"
    and utx_no_colon: "CHR '':'' \<notin> set (utx a)"
begin

lemma utx_eq_iff [simp]: "utx a = utx b \<longleftrightarrow> a = b"
  using utx_inj by blast

lemma utx_head_eq_iff [simp]: "utx a @ CHR '':'' # s = utx b @ CHR '':'' # t \<longleftrightarrow> a = b \<and> s = t"
  using colon_split [OF _ utx_no_colon utx_no_colon] utx_inj by blast

end

section \<open>Hyphenated hexadecimal\<close>

definition hex_digit :: "nat \<Rightarrow> char" where
  "hex_digit d = ''0123456789abcdef'' ! d"

definition hex_value :: "char \<Rightarrow> nat" where
  "hex_value c = (let n = of_char c :: nat in if n \<ge> 97 then n - 87 else n - 48)"

fun hex_digits :: "nat \<Rightarrow> string" where
  "hex_digits n = (if n < 16 then [hex_digit n] else hex_digits (n div 16) @ [hex_digit (n mod 16)])"

declare hex_digits.simps [simp del]

definition hex_number :: "string \<Rightarrow> nat" where
  "hex_number s = foldl (\<lambda>n c. 16 * n + hex_value c) 0 s"

definition uuid_simple :: "uuid \<Rightarrow> string" where
  "uuid_simple u = (let s = hex_digits u in replicate (32 - length s) CHR ''0'' @ s)"

definition uuid_hyphenated :: "uuid \<Rightarrow> string" where
  "uuid_hyphenated u =
     (let s = uuid_simple u in
      take 8 s @ ''-'' @ take 4 (drop 8 s) @ ''-'' @ take 4 (drop 12 s) @ ''-'' @ take 4 (drop 16 s) @
      ''-'' @ drop 20 s)"

lemma less_16_cases: "(d :: nat) < 16 \<Longrightarrow> d \<in> set [0, 1, 2, 3, 4, 5, 6, 7, 8, 9, 10, 11, 12, 13, 14, 15]"
  by (simp, presburger)

lemma hex_value_digit: "d < 16 \<Longrightarrow> hex_value (hex_digit d) = d"
  by (drule less_16_cases) (auto simp: hex_value_def hex_digit_def)

lemma hex_digit_plain: "d < 16 \<Longrightarrow> hex_digit d \<noteq> CHR ''-'' \<and> hex_digit d \<noteq> CHR '':''"
  by (drule less_16_cases) (auto simp: hex_digit_def)

lemma hex_number_snoc [simp]: "hex_number (s @ [c]) = 16 * hex_number s + hex_value c"
  by (simp add: hex_number_def)

lemma hex_number_digits [simp]: "hex_number (hex_digits n) = n"
proof (induction n rule: hex_digits.induct)
  case (1 n)
  then show ?case
    by (subst hex_digits.simps) (auto simp: hex_value_digit hex_number_def)
qed

lemma hex_digits_plain: "c \<in> set (hex_digits n) \<Longrightarrow> c \<noteq> CHR ''-'' \<and> c \<noteq> CHR '':''"
proof (induction n rule: hex_digits.induct)
  case (1 n)
  then show ?case
    by (subst (asm) (2) hex_digits.simps) (auto simp: hex_digit_plain split: if_splits)
qed

lemma hex_number_pad: "hex_number (replicate k CHR ''0'' @ s) = hex_number s"
  by (induction k) (auto simp: hex_number_def hex_value_def)

lemma hex_number_simple [simp]: "hex_number (uuid_simple u) = u"
  by (simp add: uuid_simple_def Let_def hex_number_pad)

lemma uuid_simple_plain: "c \<in> set (uuid_simple u) \<Longrightarrow> c \<noteq> CHR ''-'' \<and> c \<noteq> CHR '':''"
  by (auto simp: uuid_simple_def Let_def dest: hex_digits_plain)

lemma filter_plain: "(\<And>c. c \<in> set s \<Longrightarrow> c \<noteq> x) \<Longrightarrow> filter (\<lambda>c. c \<noteq> x) s = s"
  by (simp add: filter_id_conv)

lemma pieces: "take 8 s @ take 4 (drop 8 s) @ take 4 (drop 12 s) @ take 4 (drop 16 s) @ drop 20 s = s"
proof -
  have "take 4 (drop 16 s) @ drop 20 s = drop 16 s" using append_take_drop_id [of 4 "drop 16 s"] by simp
  moreover have "take 4 (drop 12 s) @ drop 16 s = drop 12 s" using append_take_drop_id [of 4 "drop 12 s"] by simp
  moreover have "take 4 (drop 8 s) @ drop 12 s = drop 8 s" using append_take_drop_id [of 4 "drop 8 s"] by simp
  ultimately show ?thesis by simp
qed

lemma uuid_hyphenated_strip: "filter (\<lambda>c. c \<noteq> CHR ''-'') (uuid_hyphenated u) = uuid_simple u"
proof -
  let ?s = "uuid_simple u"
  have f: "filter (\<lambda>c. c \<noteq> CHR ''-'') t = t" if "set t \<subseteq> set ?s" for t
    using that uuid_simple_plain by (intro filter_plain) auto
  have "filter (\<lambda>c. c \<noteq> CHR ''-'') (uuid_hyphenated u)
      = take 8 ?s @ take 4 (drop 8 ?s) @ take 4 (drop 12 ?s) @ take 4 (drop 16 ?s) @ drop 20 ?s"
    unfolding uuid_hyphenated_def Let_def filter_append
    by (simp add: f set_take_subset set_drop_subset
        order_trans [OF set_take_subset set_drop_subset])
  then show ?thesis by (simp only: pieces)
qed

interpretation hyphenated: uuid_text uuid_hyphenated
proof
  show "uuid_hyphenated a = uuid_hyphenated b \<Longrightarrow> a = b" for a b
    using uuid_hyphenated_strip hex_number_simple by metis
  show "CHR '':'' \<notin> set (uuid_hyphenated a)" for a
    using uuid_simple_plain [of "CHR '':''" a]
    by (auto simp: uuid_hyphenated_def Let_def dest: in_set_takeD in_set_dropD)
qed

lemma uuid_hyphenated_ok: "uuid_text_ok uuid_hyphenated"
  using hyphenated.utx_inj hyphenated.utx_no_colon by (simp add: uuid_text_ok_def)

lemma uuid_text_okD: "uuid_text_ok utx \<Longrightarrow> uuid_text utx"
  by (simp add: uuid_text_ok_def uuid_text_def)

end
