(* ===== verification/Awd_Db.thy ===== *)
theory Awd_Db
  imports Awd_Host Awd_Status Awd_Timing Uuid_Text
begin

text \<open>
  The state the AWD services share and the repositories that read and write it
  (\<open>modules/event/awd/repo/*.rs\<close>): one record holds the tables, each the list of its rows in
  insertion order, the clock, the supply of fresh identifiers and the log of the effects on the
  outside world. Uniqueness constraints and partial unique indexes of the schema are checked by the
  inserts and updates they concern. What lies outside the repository (the text of a UUID, digests,
  the random lease tokens, whether a firewall run succeeds) is a field of the environment record
  every operation takes as its first argument; a firewall run is answered from the effects so far,
  so that equal requests may be answered differently.
\<close>

section \<open>State and environment\<close>

datatype alloc_mode = AmAutomatic | AmManual

record event_network =
  en_id :: uuid
  en_event_id :: uuid
  en_allocation_mode :: alloc_mode
  en_gamebox_cidr :: ipv4_cidr
  en_wireguard_cidr :: ipv4_cidr
  en_infrastructure_subnet :: ipv4_cidr
  en_flagserver_ip :: ipv4
  en_judgeserver_ip :: ipv4
  en_wireguard_interface_name :: string
  en_wireguard_listen_port :: int
  en_docker_network_name :: string
  en_locked_at :: "timestamp option"
  en_created_at :: timestamp

record team_network =
  tn_id :: uuid
  tn_event_id :: uuid
  tn_team_id :: uuid
  tn_subnet_index :: int
  tn_gamebox_subnet :: ipv4_cidr
  tn_wireguard_subnet :: ipv4_cidr
  tn_next_wireguard_host :: int
  tn_ssh_password_ciphertext :: string
  tn_ssh_password_nonce :: string
  tn_key_version :: int

datatype alloc_kind = AkGamebox | AkWireguard

record network_settings =
  nw_gamebox_pool :: ipv4_cidr
  nw_gamebox_event_prefix :: int
  nw_gamebox_team_prefix :: int
  nw_wireguard_pool :: ipv4_cidr
  nw_wireguard_event_prefix :: int
  nw_wireguard_team_prefix :: int
  nw_wireguard_port_min :: int
  nw_wireguard_port_max :: int
  nw_wireguard_public_endpoint :: "string option"
  nw_updated_at :: timestamp

record network_allocation =
  na_id :: uuid
  na_event_id :: uuid
  na_kind :: alloc_kind
  na_cidr :: ipv4_cidr
  na_allocated_at :: timestamp
  na_released_at :: "timestamp option"

record runtime_resource =
  rr_id :: uuid
  rr_event_id :: uuid
  rr_resource_type :: string
  rr_resource_id :: string
  rr_resource_name :: "string option"

record precheck_run =
  pk_id :: uuid
  pk_event_id :: uuid
  pk_status :: precheck_status
  pk_trigger :: string
  pk_errors :: "(string \<times> string) list"
  pk_notes :: "(string \<times> string) list"
  pk_started_at :: timestamp
  pk_completed_at :: "timestamp option"

record reset_record =
  re_id :: uuid
  re_event_id :: uuid
  re_team_id :: uuid
  re_gamebox_instance_id :: uuid
  re_requested_by :: "uuid option"
  re_requested_by_admin :: "uuid option"
  re_free_reset :: bool
  re_status :: string
  re_completed_at :: "timestamp option"

record awd_world =
  w_now :: timestamp
  w_next_id :: uuid
  w_generic_events :: "generic_event list"
  w_events :: "awd_event list"
  w_rounds :: "awd_round list"
  w_teams :: "event_team list"
  w_scores :: "score_event list"
  w_flag_issues :: "flag_issue list"
  w_flag_submissions :: "flag_submission list"
  w_bans :: "team_ban list"
  w_batches :: "judge_batch list"
  w_tasks :: "judge_task list"
  w_gameboxes :: "gamebox_row list"
  w_event_gameboxes :: "event_gamebox list"
  w_instances :: "gamebox_instance list"
  w_roots :: "instance_root list"
  w_sched :: "scheduled_task list"
  w_event_networks :: "event_network list"
  w_team_networks :: "team_network list"
  w_members :: "team_member list"
  w_peers :: "wg_peer list"
  w_network_revision :: "64 word"
  w_network_settings :: "network_settings option"
  w_allocations :: "network_allocation list"
  w_resources :: "runtime_resource list"
  w_prechecks :: "precheck_run list"
  w_resets :: "reset_record list"
  w_log :: "effect list"

record awd_env =
  env_uuid_text :: "uuid \<Rightarrow> string"
  env_event_key :: "uuid \<Rightarrow> string"
  env_sha256_hex :: "string \<Rightarrow> string"
  env_hmac_hex :: "string \<Rightarrow> string \<Rightarrow> string"
  env_lease_token :: "uuid \<Rightarrow> string"
  env_firewall :: "effect list \<Rightarrow> desired_firewall_state \<Rightarrow> bool"
  env_peer_op :: "effect list \<Rightarrow> effect \<Rightarrow> bool"
  env_host :: host_env

type_synonym 'a dbop = "(awd_world, db_err, 'a) op"
type_synonym 'a awdop = "(awd_world, awd_error, 'a) op"

definition dbM :: "'a dbop \<Rightarrow> 'a awdop" where
  "dbM = map_errM Database"

text \<open>\<open>Uuid::new_v4\<close>: identifiers come from a supply, so that no two are equal.\<close>

definition new_uuid :: "(awd_world, 'e, uuid) op" where
  "new_uuid = (\<lambda>w. (Inr (w_next_id w), w\<lparr>w_next_id := w_next_id w + 1\<rparr>))"

definition nowM :: "(awd_world, 'e, timestamp) op" where
  "nowM = readM w_now"

definition emitM :: "effect \<Rightarrow> (awd_world, 'e, unit) op" where
  "emitM e = modifyM (\<lambda>w. w\<lparr>w_log := w_log w @ [e]\<rparr>)"

text \<open>\<open>ActiveModel::update\<close>: the row with the given primary key, or an error when there is none.\<close>

definition update_pk ::
  "(awd_world \<Rightarrow> 'r list) \<Rightarrow> (('r list \<Rightarrow> 'r list) \<Rightarrow> awd_world \<Rightarrow> awd_world) \<Rightarrow> ('r \<Rightarrow> uuid) \<Rightarrow> uuid \<Rightarrow>
   ('r \<Rightarrow> 'r) \<Rightarrow> unit dbop" where
  "update_pk get upd key k f = (\<lambda>w.
     if \<exists>r \<in> set (get w). key r = k
     then (Inr (), upd (update_where (\<lambda>r. key r = k) f) w)
     else (Inl RecordNotUpdated, w))"

section \<open>Event repository\<close>

record transition_patch =
  tp_phase :: "awd_phase option"
  tp_started_at :: "timestamp option"
  tp_verified_revision :: "string option"
  tp_verified_at :: "timestamp option"
  tp_paused_phase :: "awd_phase option"
  tp_pause_remaining_secs :: "int option"
  tp_finished_at :: "timestamp option"
  tp_clear_verified :: bool
  tp_verified_generation :: "int option"
  tp_hardening_ends_at :: "timestamp option option"

definition patch_default :: transition_patch where
  "patch_default = \<lparr>tp_phase = None, tp_started_at = None, tp_verified_revision = None,
     tp_verified_at = None, tp_paused_phase = None, tp_pause_remaining_secs = None,
     tp_finished_at = None, tp_clear_verified = False, tp_verified_generation = None,
     tp_hardening_ends_at = None\<rparr>"

definition patch_verified :: "string \<Rightarrow> timestamp \<Rightarrow> transition_patch" where
  "patch_verified revision now =
     patch_default\<lparr>tp_verified_revision := Some revision, tp_verified_at := Some now\<rparr>"

definition patch_verified_with_generation :: "string \<Rightarrow> int \<Rightarrow> timestamp \<Rightarrow> transition_patch" where
  "patch_verified_with_generation revision gen now =
     patch_default\<lparr>tp_verified_revision := Some revision, tp_verified_at := Some now,
       tp_verified_generation := Some gen\<rparr>"

definition patch_finished :: "timestamp \<Rightarrow> transition_patch" where
  "patch_finished now = patch_default\<lparr>tp_finished_at := Some now\<rparr>"

definition patch_paused :: "awd_phase \<Rightarrow> int \<Rightarrow> transition_patch" where
  "patch_paused paused_from remaining_secs =
     patch_default\<lparr>tp_phase := Some PhPause, tp_paused_phase := Some paused_from,
       tp_pause_remaining_secs := Some remaining_secs\<rparr>"

definition patch_running :: "awd_phase \<Rightarrow> transition_patch" where
  "patch_running phase = patch_default\<lparr>tp_phase := Some phase\<rparr>"

definition patch_config_changed :: transition_patch where
  "patch_config_changed = patch_default\<lparr>tp_clear_verified := True\<rparr>"

text \<open>The update a patch describes: unset fields leave their columns untouched.\<close>

definition active_model_from_patch ::
  "awd_event_status \<Rightarrow> transition_patch \<Rightarrow> timestamp \<Rightarrow> awd_event \<Rightarrow> awd_event" where
  "active_model_from_patch target p now e =
     (let keep = (\<lambda>new old. case new of None \<Rightarrow> old | Some x \<Rightarrow> Some x);
          clr = tp_clear_verified p in
      e\<lparr>ev_status := target,
        ev_updated_at := now,
        ev_phase := (case tp_phase p of None \<Rightarrow> ev_phase e | Some ph \<Rightarrow> ph),
        ev_started_at := keep (tp_started_at p) (ev_started_at e),
        ev_verified_revision :=
          (if clr then None
           else case tp_verified_revision p of None \<Rightarrow> ev_verified_revision e | Some r \<Rightarrow> Some r),
        ev_verified_at := (if clr then None else keep (tp_verified_at p) (ev_verified_at e)),
        ev_paused_phase :=
          (case tp_paused_phase p of None \<Rightarrow> ev_paused_phase e | Some ph \<Rightarrow> Some ph),
        ev_pause_remaining_secs :=
          (case tp_pause_remaining_secs p of None \<Rightarrow> ev_pause_remaining_secs e | Some r \<Rightarrow> Some r),
        ev_finished_at := keep (tp_finished_at p) (ev_finished_at e),
        ev_verified_generation :=
          (case tp_verified_generation p of
             None \<Rightarrow> if clr then None else ev_verified_generation e
           | Some g \<Rightarrow> Some g),
        ev_hardening_ends_at :=
          (case tp_hardening_ends_at p of None \<Rightarrow> ev_hardening_ends_at e | Some h \<Rightarrow> h)\<rparr>)"

definition find_generic_event_by_id :: "uuid \<Rightarrow> generic_event option dbop" where
  "find_generic_event_by_id event_id =
     readM (\<lambda>w. List.find (\<lambda>e. ge_id e = event_id) (w_generic_events w))"

definition find_by_event_id :: "uuid \<Rightarrow> awd_event option dbop" where
  "find_by_event_id event_id = readM (\<lambda>w. List.find (\<lambda>e. ev_event_id e = event_id) (w_events w))"

definition find_active_events :: "awd_event list dbop" where
  "find_active_events =
     readM (\<lambda>w. filter (\<lambda>e. ev_status e \<in>
       {EvRunning, EvPaused, EvVerified, EvDeploying, EvDeployed, EvPrechecking}) (w_events w))"

definition update_event :: "uuid \<Rightarrow> (awd_event \<Rightarrow> awd_event) \<Rightarrow> unit dbop" where
  "update_event i f = update_pk w_events w_events_update ev_id i f"

definition transition_event ::
  "uuid \<Rightarrow> awd_event_status \<Rightarrow> awd_event_status \<Rightarrow> transition_patch \<Rightarrow> unit awdop" where
  "transition_event i expected target patch = txnM (
     bindM (readM (\<lambda>w. List.find (\<lambda>e. ev_id e = i) (w_events w))) (\<lambda>row.
     bindM (ok_orM row (NotFound ''AWD event'')) (\<lambda>event.
     bindM (case event_can_transition_to (ev_status event) target of
              Inl msg \<Rightarrow> throwM (InvalidState msg) | Inr _ \<Rightarrow> returnM ()) (\<lambda>_.
     bindM (guardM (ev_status event = expected) (Conflict ''concurrent status transition'')) (\<lambda>_.
     bindM nowM (\<lambda>now.
       dbM (update_event i (active_model_from_patch target patch now))))))))"

definition touch_configuration :: "uuid \<Rightarrow> unit dbop" where
  "touch_configuration event_id =
     bindM (find_by_event_id event_id) (\<lambda>row.
     bindM (ok_orM row RecordNotFound) (\<lambda>event.
     bindM nowM (\<lambda>now.
       update_event (ev_id event) (\<lambda>e. e\<lparr>
         ev_configuration_generation := ev_configuration_generation event + 1,
         ev_updated_at := now\<rparr>))))"

definition awd_err_text :: "awd_error \<Rightarrow> db_err" where
  "awd_err_text e = CustomErr ''transition failed''"

definition update_status :: "uuid \<Rightarrow> awd_event_status \<Rightarrow> unit dbop" where
  "update_status i status =
     bindM (readM (\<lambda>w. List.find (\<lambda>e. ev_id e = i) (w_events w))) (\<lambda>row.
     bindM (ok_orM row RecordNotFound) (\<lambda>event.
       map_errM awd_err_text (transition_event i (ev_status event) status patch_default)))"

definition update_phase :: "uuid \<Rightarrow> awd_phase \<Rightarrow> unit dbop" where
  "update_phase i phase = txnM (
     bindM (readM (\<lambda>w. List.find (\<lambda>e. ev_id e = i) (w_events w))) (\<lambda>row.
     bindM (ok_orM row RecordNotFound) (\<lambda>event.
     bindM (case phase_can_transition_to (ev_phase event) phase of
              Inl msg \<Rightarrow> throwM (CustomErr msg) | Inr _ \<Rightarrow> returnM ()) (\<lambda>_.
     bindM nowM (\<lambda>now.
       update_event i (\<lambda>e. e\<lparr>ev_phase := phase, ev_updated_at := now\<rparr>))))))"

definition mark_verified :: "uuid \<Rightarrow> string \<Rightarrow> unit dbop" where
  "mark_verified i revision =
     bindM nowM (\<lambda>now.
       map_errM awd_err_text (transition_event i EvPrechecking EvVerified (patch_verified revision now)))"

definition clear_verified :: "uuid \<Rightarrow> unit dbop" where
  "clear_verified i =
     bindM (readM (\<lambda>w. List.find (\<lambda>e. ev_id e = i) (w_events w))) (\<lambda>row.
     bindM (ok_orM row RecordNotFound) (\<lambda>event.
     bindM (guardM (ev_status event \<in> {EvVerified, EvStartBlocked})
              (CustomErr ''clear_verified requires Verified/StartBlocked'')) (\<lambda>_.
       map_errM awd_err_text (transition_event i (ev_status event) EvConfiguring patch_config_changed))))"

section \<open>Round repository\<close>

definition find_active_round :: "uuid \<Rightarrow> awd_round option dbop" where
  "find_active_round event_id = readM (\<lambda>w.
     List.find (\<lambda>r. rd_event_id r = event_id \<and> rd_status r \<in> {RdActive, RdPaused}) (w_rounds w))"

definition latest_round :: "awd_world \<Rightarrow> uuid \<Rightarrow> awd_round option" where
  "latest_round w event_id =
     max_by rd_round_number (filter (\<lambda>r. rd_event_id r = event_id) (w_rounds w))"

definition find_latest_round :: "uuid \<Rightarrow> awd_round option dbop" where
  "find_latest_round event_id = readM (\<lambda>w. latest_round w event_id)"

definition find_round_by_id :: "uuid \<Rightarrow> awd_round option dbop" where
  "find_round_by_id i = readM (\<lambda>w. List.find (\<lambda>r. rd_id r = i) (w_rounds w))"

text \<open>
  The constraints of \<open>awd_rounds\<close>: one row per event and round number, and, by the partial index
  \<open>idx_awd_rounds_one_active\<close>, one row per event and status among Active and Paused.
\<close>

definition rounds_unique :: "awd_round list \<Rightarrow> bool" where
  "rounds_unique rs \<longleftrightarrow>
     distinct (map (\<lambda>r. (rd_event_id r, rd_round_number r)) rs) \<and>
     distinct (map (\<lambda>r. (rd_event_id r, rd_status r))
       (filter (\<lambda>r. rd_status r \<in> {RdActive, RdPaused}) rs))"

definition insert_round :: "awd_round \<Rightarrow> awd_round dbop" where
  "insert_round r = (\<lambda>w.
     if rounds_unique (w_rounds w @ [r]) then (Inr r, w\<lparr>w_rounds := w_rounds w @ [r]\<rparr>)
     else (Inl UniqueViolation, w))"

definition update_round :: "uuid \<Rightarrow> (awd_round \<Rightarrow> awd_round) \<Rightarrow> unit dbop" where
  "update_round i f = (\<lambda>w.
     let rs = update_where (\<lambda>r. rd_id r = i) f (w_rounds w) in
     if \<not> (\<exists>r \<in> set (w_rounds w). rd_id r = i) then (Inl RecordNotUpdated, w)
     else if rounds_unique rs then (Inr (), w\<lparr>w_rounds := rs\<rparr>)
     else (Inl UniqueViolation, w))"

definition create_round :: "uuid \<Rightarrow> int \<Rightarrow> awd_phase \<Rightarrow> timestamp \<Rightarrow> awd_round dbop" where
  "create_round event_id round_number phase scheduled_end_at =
     bindM new_uuid (\<lambda>i. bindM nowM (\<lambda>now.
       insert_round \<lparr>rd_id = i, rd_event_id = event_id, rd_round_number = round_number,
         rd_status = RdActive, rd_phase = phase, rd_started_at = now,
         rd_scheduled_end_at = scheduled_end_at, rd_paused_at = None, rd_remaining_secs = None,
         rd_completed_at = None\<rparr>))"

definition update_round_status :: "uuid \<Rightarrow> round_status \<Rightarrow> unit dbop" where
  "update_round_status i status =
     bindM nowM (\<lambda>now.
       update_round i (\<lambda>r. r\<lparr>rd_status := status,
         rd_completed_at := (if status = RdCompleted then Some now else rd_completed_at r)\<rparr>))"

definition pause_round :: "uuid \<Rightarrow> int \<Rightarrow> unit dbop" where
  "pause_round i remaining_secs =
     bindM nowM (\<lambda>now.
       update_round i (\<lambda>r. r\<lparr>rd_status := RdPaused, rd_paused_at := Some now,
         rd_remaining_secs := Some remaining_secs\<rparr>))"

section \<open>Score repository\<close>

definition key_taken :: "string \<Rightarrow> score_event list \<Rightarrow> bool" where
  "key_taken k xs \<longleftrightarrow> (\<exists>s \<in> set xs. sc_idempotency_key s = k)"

definition create_score_event ::
  "uuid \<Rightarrow> uuid option \<Rightarrow> uuid \<Rightarrow> score_event_type \<Rightarrow> int \<Rightarrow> string \<Rightarrow> uuid option \<Rightarrow> uuid option \<Rightarrow>
   uuid option \<Rightarrow> string option \<Rightarrow> score_event dbop" where
  "create_score_event event_id round_id team_id event_type delta key related inst eg reason =
     bindM new_uuid (\<lambda>i. \<lambda>w.
       let s = \<lparr>sc_id = i, sc_event_id = event_id, sc_round_id = round_id, sc_team_id = team_id,
                sc_event_type = event_type, sc_delta = delta, sc_idempotency_key = key,
                sc_related_team_id = related, sc_gamebox_instance_id = inst,
                sc_event_gamebox_id = eg, sc_reason = reason\<rparr> in
       if key_taken key (w_scores w) then (Inl UniqueViolation, w)
       else (Inr s, w\<lparr>w_scores := w_scores w @ [s]\<rparr>))"

text \<open>\<open>INSERT ... ON CONFLICT (idempotency_key) DO NOTHING\<close>: whether a row was inserted.\<close>

definition create_score_event_if_absent ::
  "uuid \<Rightarrow> uuid option \<Rightarrow> uuid \<Rightarrow> score_event_type \<Rightarrow> int \<Rightarrow> string \<Rightarrow> uuid option \<Rightarrow> uuid option \<Rightarrow>
   uuid option \<Rightarrow> string option \<Rightarrow> bool dbop" where
  "create_score_event_if_absent event_id round_id team_id event_type delta key related inst eg reason =
     bindM new_uuid (\<lambda>i. \<lambda>w.
       let s = \<lparr>sc_id = i, sc_event_id = event_id, sc_round_id = round_id, sc_team_id = team_id,
                sc_event_type = event_type, sc_delta = delta, sc_idempotency_key = key,
                sc_related_team_id = related, sc_gamebox_instance_id = inst,
                sc_event_gamebox_id = eg, sc_reason = reason\<rparr> in
       if key_taken key (w_scores w) then (Inr False, w)
       else (Inr True, w\<lparr>w_scores := w_scores w @ [s]\<rparr>))"

definition team_total_score :: "uuid \<Rightarrow> uuid \<Rightarrow> int dbop" where
  "team_total_score event_id team_id = readM (\<lambda>w.
     sum_list (map sc_delta
       (filter (\<lambda>s. sc_event_id s = event_id \<and> sc_team_id s = team_id) (w_scores w))))"

definition team_score_for_types :: "uuid \<Rightarrow> uuid \<Rightarrow> score_event_type list \<Rightarrow> int dbop" where
  "team_score_for_types event_id team_id types =
     (if types = [] then returnM 0
      else readM (\<lambda>w. sum_list (map sc_delta
        (filter (\<lambda>s. sc_event_id s = event_id \<and> sc_team_id s = team_id \<and> sc_event_type s \<in> set types)
           (w_scores w)))))"

section \<open>Flag repository\<close>

definition find_or_create_issue :: "uuid \<Rightarrow> uuid \<Rightarrow> uuid \<Rightarrow> string \<Rightarrow> flag_issue dbop" where
  "find_or_create_issue event_id round_id instance_id flag_hash =
     bindM (readM (\<lambda>w. List.find (\<lambda>f. fi_event_id f = event_id \<and> fi_round_id f = round_id \<and>
              fi_gamebox_instance_id f = instance_id) (w_flag_issues w))) (\<lambda>row.
     case row of
       Some issue \<Rightarrow> returnM issue
     | None \<Rightarrow> bindM new_uuid (\<lambda>i. \<lambda>w.
         let f = \<lparr>fi_id = i, fi_event_id = event_id, fi_round_id = round_id,
                  fi_gamebox_instance_id = instance_id, fi_flag_hash = flag_hash\<rparr> in
         if \<exists>g \<in> set (w_flag_issues w). fi_event_id g = event_id \<and> fi_round_id g = round_id \<and>
              (fi_flag_hash g = flag_hash \<or> fi_gamebox_instance_id g = instance_id)
         then (Inl UniqueViolation, w)
         else (Inr f, w\<lparr>w_flag_issues := w_flag_issues w @ [f]\<rparr>)))"

definition find_issue_by_hash :: "uuid \<Rightarrow> uuid \<Rightarrow> string \<Rightarrow> flag_issue option dbop" where
  "find_issue_by_hash event_id round_id flag_hash = readM (\<lambda>w.
     List.find (\<lambda>f. fi_event_id f = event_id \<and> fi_round_id f = round_id \<and> fi_flag_hash f = flag_hash)
       (w_flag_issues w))"

definition submission_exists :: "uuid \<Rightarrow> uuid \<Rightarrow> uuid \<Rightarrow> uuid \<Rightarrow> flag_submission list \<Rightarrow> bool" where
  "submission_exists event_id round_id attacker instance_id xs \<longleftrightarrow>
     (\<exists>f \<in> set xs. fs_event_id f = event_id \<and> fs_round_id f = round_id \<and>
        fs_attacker_team_id f = attacker \<and> fs_gamebox_instance_id f = instance_id)"

definition has_submission :: "uuid \<Rightarrow> uuid \<Rightarrow> uuid \<Rightarrow> uuid \<Rightarrow> bool dbop" where
  "has_submission event_id round_id attacker instance_id =
     readM (\<lambda>w. submission_exists event_id round_id attacker instance_id (w_flag_submissions w))"

definition create_submission ::
  "uuid \<Rightarrow> uuid \<Rightarrow> uuid \<Rightarrow> uuid \<Rightarrow> uuid \<Rightarrow> uuid \<Rightarrow> uuid \<Rightarrow> flag_submission dbop" where
  "create_submission event_id round_id flag_issue_id attacker victim instance_id user_id =
     bindM new_uuid (\<lambda>i. \<lambda>w.
       let f = \<lparr>fs_id = i, fs_event_id = event_id, fs_round_id = round_id,
                fs_flag_issue_id = flag_issue_id, fs_attacker_team_id = attacker,
                fs_victim_team_id = victim, fs_gamebox_instance_id = instance_id,
                fs_submitted_by_user_id = user_id\<rparr> in
       if submission_exists event_id round_id attacker instance_id (w_flag_submissions w)
       then (Inl UniqueViolation, w)
       else (Inr f, w\<lparr>w_flag_submissions := w_flag_submissions w @ [f]\<rparr>))"

section \<open>Ban repository\<close>

definition active_ban :: "uuid \<Rightarrow> uuid \<Rightarrow> team_ban \<Rightarrow> bool" where
  "active_ban event_id team_id b \<longleftrightarrow>
     bn_event_id b = event_id \<and> bn_team_id b = team_id \<and> bn_status b = BnActive"

definition find_active_ban :: "uuid \<Rightarrow> uuid \<Rightarrow> team_ban option dbop" where
  "find_active_ban event_id team_id =
     readM (\<lambda>w. List.find (active_ban event_id team_id) (w_bans w))"

definition create_ban ::
  "uuid \<Rightarrow> uuid \<Rightarrow> string option \<Rightarrow> uuid option \<Rightarrow> uuid option \<Rightarrow> team_ban dbop" where
  "create_ban event_id team_id reason round_id banned_by =
     bindM new_uuid (\<lambda>i. \<lambda>w.
       let b = \<lparr>bn_id = i, bn_event_id = event_id, bn_team_id = team_id, bn_status = BnActive,
                bn_reason = reason, bn_effective_round_id = round_id, bn_banned_by = banned_by,
                bn_unban_requested_at = None, bn_unban_effective_round_id = None,
                bn_unbanned_by = None, bn_unbanned_at = None\<rparr> in
       if \<exists>x \<in> set (w_bans w). active_ban event_id team_id x then (Inl UniqueViolation, w)
       else (Inr b, w\<lparr>w_bans := w_bans w @ [b]\<rparr>))"

definition request_unban :: "uuid \<Rightarrow> uuid \<Rightarrow> unit dbop" where
  "request_unban i unban_effective_round_id =
     bindM nowM (\<lambda>now. update_pk w_bans w_bans_update bn_id i (\<lambda>b. b\<lparr>
       bn_status := BnPendingUnban, bn_unban_requested_at := Some now,
       bn_unban_effective_round_id := Some unban_effective_round_id\<rparr>))"

definition complete_unban :: "uuid \<Rightarrow> uuid option \<Rightarrow> unit dbop" where
  "complete_unban i unbanned_by =
     bindM nowM (\<lambda>now. update_pk w_bans w_bans_update bn_id i (\<lambda>b. b\<lparr>
       bn_status := BnUnbanned, bn_unbanned_by := unbanned_by, bn_unbanned_at := Some now\<rparr>))"

section \<open>Event networks, instances and scheduled tasks\<close>

definition require_event_network :: "uuid \<Rightarrow> event_network awdop" where
  "require_event_network event_id =
     bindM (readM (\<lambda>w. List.find (\<lambda>n. en_event_id n = event_id) (w_event_networks w))) (\<lambda>row.
       ok_orM row (NotFound ''event network''))"

definition find_instance_by_ip :: "uuid \<Rightarrow> string \<Rightarrow> gamebox_instance option dbop" where
  "find_instance_by_ip event_id ip = readM (\<lambda>w.
     List.find (\<lambda>g. gi_event_id g = event_id \<and> gi_gamebox_ip g = ip) (w_instances w))"

text \<open>An instance and its root row; an instance without a root is filtered out.\<close>

definition find_instance_by_id :: "uuid \<Rightarrow> (gamebox_instance \<times> instance_root) option dbop" where
  "find_instance_by_id i = readM (\<lambda>w.
     case List.find (\<lambda>g. gi_id g = i) (w_instances w) of
       None \<Rightarrow> None
     | Some g \<Rightarrow> map_option (Pair g) (List.find (\<lambda>r. ir_id r = gi_instance_id g) (w_roots w)))"

definition insert_task :: "scheduled_task \<Rightarrow> scheduled_task dbop" where
  "insert_task t = (\<lambda>w.
     if st_task_key t \<in> {AwdEventStart, AwdAutoPrecheck} \<and> st_group_id t \<noteq> None \<and>
        st_status t \<in> {TsPending, TsRunning} \<and>
        (\<exists>u \<in> set (w_sched w). st_group_id u = st_group_id t \<and> st_task_key u = st_task_key t \<and>
           st_status u \<in> {TsPending, TsRunning})
     then (Inl UniqueViolation, w)
     else (Inr t, w\<lparr>w_sched := w_sched w @ [t]\<rparr>))"

text \<open>A one-shot task as every scheduling function of the module writes it.\<close>

definition once_task ::
  "uuid \<Rightarrow> uuid \<Rightarrow> task_key \<Rightarrow> timestamp \<Rightarrow> timestamp option \<Rightarrow> uuid option \<Rightarrow> int option \<Rightarrow> uuid option \<Rightarrow>
   scheduled_task" where
  "once_task i event_id key execute_at expires_at round_id round_number batch_id =
     \<lparr>st_id = i, st_group_id = Some event_id, st_task_key = key, st_trigger_type = TrOnce,
      st_status = TsPending, st_enabled = True, st_execute_at = Some execute_at,
      st_expires_at = expires_at, st_payload_event_id = Some event_id,
      st_payload_round_id = round_id, st_payload_round_number = round_number,
      st_payload_batch_id = batch_id, st_attempt_count = 0, st_max_attempts = 3,
      st_protected = True, st_cron_expr = None\<rparr>"

section \<open>How the repositories run\<close>

lemmas op_defs = returnM_run throwM_run bindM_run readM_run modifyM_run ignoreM_run attemptM_run
  txnM_run guardM_run whenM_run ok_orM_run liftM_run map_errM_run

lemma dbM_run [run_simps]:
  "dbM m w = (case m w of (Inl e, w') \<Rightarrow> (Inl (Database e), w') | (Inr x, w') \<Rightarrow> (Inr x, w'))"
  by (simp add: dbM_def map_errM_run)

lemma new_uuid_run [run_simps]: "new_uuid w = (Inr (w_next_id w), w\<lparr>w_next_id := w_next_id w + 1\<rparr>)"
  by (simp add: new_uuid_def)

lemma nowM_run [run_simps]: "nowM w = (Inr (w_now w), w)"
  by (simp add: nowM_def readM_run)

lemma emitM_run [run_simps]: "emitM e w = (Inr (), w\<lparr>w_log := w_log w @ [e]\<rparr>)"
  by (simp add: emitM_def modifyM_run)

lemma find_by_event_id_run [run_simps]:
  "find_by_event_id i w = (Inr (List.find (\<lambda>e. ev_event_id e = i) (w_events w)), w)"
  by (simp add: find_by_event_id_def readM_run)

lemma find_generic_event_by_id_run [run_simps]:
  "find_generic_event_by_id i w = (Inr (List.find (\<lambda>e. ge_id e = i) (w_generic_events w)), w)"
  by (simp add: find_generic_event_by_id_def readM_run)

lemma find_active_round_run [run_simps]:
  "find_active_round i w = (Inr (List.find (\<lambda>r. rd_event_id r = i \<and> rd_status r \<in> {RdActive, RdPaused})
     (w_rounds w)), w)"
  by (simp add: find_active_round_def readM_run)

lemma find_latest_round_run [run_simps]: "find_latest_round i w = (Inr (latest_round w i), w)"
  by (simp add: find_latest_round_def readM_run)

lemma find_round_by_id_run [run_simps]:
  "find_round_by_id i w = (Inr (List.find (\<lambda>r. rd_id r = i) (w_rounds w)), w)"
  by (simp add: find_round_by_id_def readM_run)

lemma find_active_ban_run [run_simps]:
  "find_active_ban e t w = (Inr (List.find (active_ban e t) (w_bans w)), w)"
  by (simp add: find_active_ban_def readM_run)

lemma require_event_network_run [run_simps]:
  "require_event_network i w =
     (case List.find (\<lambda>n. en_event_id n = i) (w_event_networks w) of
        None \<Rightarrow> (Inl (NotFound ''event network''), w) | Some n \<Rightarrow> (Inr n, w))"
  by (simp add: require_event_network_def bindM_run readM_run ok_orM_run)

lemma update_event_run [run_simps]:
  "update_event i f w =
     (if \<exists>e \<in> set (w_events w). ev_id e = i
      then (Inr (), w\<lparr>w_events := update_where (\<lambda>e. ev_id e = i) f (w_events w)\<rparr>)
      else (Inl RecordNotUpdated, w))"
  by (simp add: update_event_def update_pk_def)

text \<open>The status entry point on every branch: unknown event, forbidden move, lost race, success.\<close>

lemma transition_event_run [run_simps]:
  "transition_event i expected target patch w =
     (case List.find (\<lambda>e. ev_id e = i) (w_events w) of
        None \<Rightarrow> (Inl (NotFound ''AWD event''), w)
      | Some e \<Rightarrow>
          if target \<notin> set (event_valid_transitions (ev_status e))
          then (Inl (InvalidState ''Invalid transition''), w)
          else if ev_status e \<noteq> expected then (Inl (Conflict ''concurrent status transition''), w)
          else (Inr (), w\<lparr>w_events := update_where (\<lambda>e. ev_id e = i)
                          (active_model_from_patch target patch (w_now w)) (w_events w)\<rparr>))"
proof (cases "List.find (\<lambda>e. ev_id e = i) (w_events w)")
  case None
  then show ?thesis by (simp add: transition_event_def op_defs)
next
  case (Some e)
  then have "\<exists>e \<in> set (w_events w). ev_id e = i" using find_SomeD by fastforce
  then show ?thesis
    using Some by (simp add: transition_event_def op_defs event_can_transition_to_def nowM_run dbM_run
        update_event_run)
qed

lemma patch_fields [simp]:
  "ev_id (active_model_from_patch t p n e) = ev_id e"
  "ev_event_id (active_model_from_patch t p n e) = ev_event_id e"
  "ev_status (active_model_from_patch t p n e) = t"
  "ev_phase (active_model_from_patch t p n e) = (case tp_phase p of None \<Rightarrow> ev_phase e | Some ph \<Rightarrow> ph)"
  "ev_round_count (active_model_from_patch t p n e) = ev_round_count e"
  "ev_round_duration_secs (active_model_from_patch t p n e) = ev_round_duration_secs e"
  "ev_configuration_generation (active_model_from_patch t p n e) = ev_configuration_generation e"
  "ev_hardening_ends_at (active_model_from_patch t p n e) =
     (case tp_hardening_ends_at p of None \<Rightarrow> ev_hardening_ends_at e | Some h \<Rightarrow> h)"
  "ev_paused_phase (active_model_from_patch t p n e) =
     (case tp_paused_phase p of None \<Rightarrow> ev_paused_phase e | Some ph \<Rightarrow> Some ph)"
  "ev_pause_remaining_secs (active_model_from_patch t p n e) =
     (case tp_pause_remaining_secs p of None \<Rightarrow> ev_pause_remaining_secs e | Some r \<Rightarrow> Some r)"
  by (simp_all add: active_model_from_patch_def Let_def)

lemma patch_default_fields [simp]:
  "tp_phase patch_default = None" "tp_hardening_ends_at patch_default = None"
  "tp_paused_phase patch_default = None" "tp_pause_remaining_secs patch_default = None"
  "tp_clear_verified patch_default = False" "tp_started_at patch_default = None"
  "tp_finished_at patch_default = None"
  by (simp_all add: patch_default_def)

text \<open>The tables, without the log and the counters: what the outside effects leave alone.\<close>

definition same_tables :: "awd_world \<Rightarrow> awd_world \<Rightarrow> bool" where
  "same_tables w v \<longleftrightarrow>
     v = w\<lparr>w_log := w_log v, w_network_revision := w_network_revision v, w_next_id := w_next_id v\<rparr>"

lemma same_tables_iff:
  "same_tables w v \<longleftrightarrow> (\<exists>l r n. v = w\<lparr>w_log := l, w_network_revision := r, w_next_id := n\<rparr>)"
  unfolding same_tables_def by (rule iffI) (blast, auto)

lemma same_tables_fields:
  assumes "same_tables w v"
  shows "w_now v = w_now w" "w_events v = w_events w" "w_rounds v = w_rounds w" "w_teams v = w_teams w"
    "w_scores v = w_scores w" "w_bans v = w_bans w" "w_batches v = w_batches w" "w_tasks v = w_tasks w"
    "w_sched v = w_sched w" "w_instances v = w_instances w" "w_flag_issues v = w_flag_issues w"
    "w_flag_submissions v = w_flag_submissions w" "w_peers v = w_peers w"
  using assms by (auto simp: same_tables_iff)

text \<open>The event a status change has just written is the row the next reader finds.\<close>

lemma find_patched:
  "List.find (\<lambda>x. ev_event_id x = i) (w_events w) = Some e \<Longrightarrow>
   List.find (\<lambda>x. ev_event_id x = i)
     (update_where (\<lambda>x. ev_id x = ev_id e) (active_model_from_patch t p n) (w_events w))
   = Some (active_model_from_patch t p n e)"
  by (simp add: find_update_where)

lemma patched_mem:
  "e \<in> set es \<Longrightarrow> f e \<in> set (update_where (\<lambda>x. ev_id x = ev_id e) f es)"
  by (force simp: set_update_where)

lemma find_own_row:
  assumes "distinct (map ev_id (w_events w))" "List.find (\<lambda>x. ev_event_id x = i) (w_events w) = Some e"
  shows "e \<in> set (w_events w)" "List.find (\<lambda>x. ev_id x = ev_id e) (w_events w) = Some e"
proof -
  show "e \<in> set (w_events w)" using find_SomeD [OF assms(2)] by simp
  then show "List.find (\<lambda>x. ev_id x = ev_id e) (w_events w) = Some e"
    using assms(1) by (rule find_distinct_key [rotated])
qed

lemma rounds_unique_snoc:
  assumes "rounds_unique rs" "\<forall>x \<in> set rs. rd_event_id x = rd_event_id r \<longrightarrow> rd_round_number x \<noteq> rd_round_number r"
    "\<forall>x \<in> set rs. rd_event_id x = rd_event_id r \<longrightarrow> rd_status x \<noteq> rd_status r"
  shows "rounds_unique (rs @ [r])"
  using assms by (auto simp: rounds_unique_def)

lemma insert_task_other [run_simps]:
  "st_task_key t \<notin> {AwdEventStart, AwdAutoPrecheck} \<Longrightarrow> insert_task t w = (Inr t, w\<lparr>w_sched := w_sched w @ [t]\<rparr>)"
  by (simp add: insert_task_def)

lemma once_task_key [simp]: "st_task_key (once_task i e k x y r n b) = k"
  by (simp add: once_task_def)

section \<open>A concrete environment and the empty state\<close>

definition empty_world :: awd_world where
  "empty_world = \<lparr>w_now = 0, w_next_id = 1000, w_generic_events = [], w_events = [], w_rounds = [],
     w_teams = [], w_scores = [], w_flag_issues = [], w_flag_submissions = [], w_bans = [],
     w_batches = [], w_tasks = [], w_gameboxes = [], w_event_gameboxes = [], w_instances = [],
     w_roots = [], w_sched = [], w_event_networks = [], w_team_networks = [], w_members = [],
     w_peers = [], w_network_revision = 0, w_network_settings = None, w_allocations = [], w_resources = [],
     w_prechecks = [], w_resets = [], w_log = []\<rparr>"

text \<open>A host on which everything works and that keeps what it is given, for the examples.\<close>

definition sample_host :: host_env where
  "sample_host = \<lparr>hv_cidrs = (\<lambda>_ _. Some []), hv_network_state = (\<lambda>_ _. None),
     hv_create_network = (\<lambda>_ s. Some (''net-'' @ ns_network_name s, ns_network_name s)),
     hv_create_container = (\<lambda>_ c. case c of HcCreateInfra s \<Rightarrow> Some (ic_container_name s)
        | HcCreateGamebox s \<Rightarrow> Some (gs_container_name s) | HcResetGamebox s \<Rightarrow> Some (rz_container_name s) | _ \<Rightarrow> None),
     hv_container_state = (\<lambda>_ c. Some \<lparr>cs_container_id = c, cs_container_name = c, cs_status = ''running'', cs_running = True\<rparr>),
     hv_containers = (\<lambda>_ _. Some []), hv_unit = (\<lambda>_ _. True),
     hv_wireguard_state = (\<lambda>_ _ _. Some \<lparr>no_wireguard_interface_up = True, no_notes = []\<rparr>),
     hv_forward_missing = (\<lambda>_ _. Some []),
     hv_firewall_state = (\<lambda>_. None), hv_firewall_verify = (\<lambda>_ _. Some True), hv_ssh = (\<lambda>_ _. Some 0),
     hv_cidr_column = (\<lambda>_. Inl (Validation ''column'')), hv_inet_column = (\<lambda>_. Inl (Validation ''column'')),
     hv_seal = (\<lambda>n p _. Some (p, ''nonce'')), hv_open = (\<lambda>c _ _. Some c), hv_password = (\<lambda>_. ''secret''),
     hv_keypair = (\<lambda>_. (''private'', ''public'')), hv_uuid_simple = uuid_simple, hv_ssh_probe = None,
     hv_flagserver_image = ''flagserver'', hv_judgeserver_image = ''judgeserver'',
     hv_platform_internal_url = ''http://platform:8080'', hv_platform_internal_network = None\<rparr>"

definition sample_env :: awd_env where
  "sample_env = \<lparr>env_uuid_text = uuid_hyphenated, env_event_key = (\<lambda>u. ''ev_'' @ take 8 (uuid_simple u)),
     env_sha256_hex = (\<lambda>s. ''sha256-'' @ s), env_hmac_hex = (\<lambda>k s. rev s @ k),
     env_lease_token = (\<lambda>u. ''token-'' @ uuid_simple u), env_firewall = (\<lambda>_ _. True),
     env_peer_op = (\<lambda>_ _. True), env_host = sample_host\<rparr>"

lemma sample_env_text [simp]: "env_uuid_text sample_env = uuid_hyphenated"
  by (simp add: sample_env_def)

end
