(* ===== verification/Awd_Firewall.thy ===== *)
theory Awd_Firewall
  imports Awd_Db
begin

text \<open>
  The firewall orchestrator (\<open>modules/event/awd/service/firewall_service.rs\<close> and
  \<open>domain/firewall_state.rs\<close>): the desired state is rebuilt from the tables on every run, for all
  events that still hold network resources, and handed to the firewall runtime. The runtime is the
  environment's; a run it refuses is the error the callers see. Network columns are IPv4 by type,
  so the parse errors of the source for other column contents do not arise.
\<close>

section \<open>Definitions\<close>

definition in_firewall_desired_set :: "awd_event_status \<Rightarrow> bool" where
  "in_firewall_desired_set s \<longleftrightarrow>
     s \<in> {EvDeploying, EvDeployed, EvPrechecking, EvVerified, EvRunning, EvPaused, EvNetworkError,
          EvStartBlocked, EvDeployFailed, EvFinished}"

definition has_open_round :: "awd_world \<Rightarrow> uuid \<Rightarrow> bool" where
  "has_open_round w event_id \<longleftrightarrow>
     (\<exists>r \<in> set (w_rounds w). rd_event_id r = event_id \<and> rd_status r \<in> {RdActive, RdPaused})"

text \<open>The settlement test the orchestrator writes out on its own.\<close>

definition policy_final_settlement :: "awd_world \<Rightarrow> awd_event \<Rightarrow> bool" where
  "policy_final_settlement w e =
     (if ev_status e = EvRunning \<and> ev_phase e = PhAttack then
        if \<not> has_open_round w (ev_event_id e) then
          case ev_round_count e of
            None \<Rightarrow> False
          | Some rc \<Rightarrow>
              (case latest_round w (ev_event_id e) of
                 None \<Rightarrow> False
               | Some r \<Rightarrow> rd_round_number r = rc \<and> rd_status r = RdCompleted)
        else False
      else False)"

definition event_policy :: "awd_env \<Rightarrow> awd_world \<Rightarrow> awd_event \<Rightarrow> event_network \<Rightarrow> desired_event_policy" where
  "event_policy env w e n =
     \<lparr>dp_event_key = env_event_key env (ev_event_id e),
      dp_event_id = ev_event_id e,
      dp_phase = ev_phase e,
      dp_gamebox_network = en_gamebox_cidr n,
      dp_infrastructure_network = en_infrastructure_subnet n,
      dp_flagserver_ip = en_flagserver_ip n,
      dp_judgeserver_ip = en_judgeserver_ip n,
      dp_teams = map (\<lambda>t. \<lparr>dt_team_id = tn_team_id t, dt_wireguard_network = tn_wireguard_subnet t,
                            dt_gamebox_network = tn_gamebox_subnet t\<rparr>)
                   (filter (\<lambda>t. tn_event_id t = ev_event_id e) (w_team_networks w)),
      dp_banned_teams = map bn_team_id
        (filter (\<lambda>b. bn_event_id b = ev_event_id e \<and> bn_status b = BnActive) (w_bans w)),
      dp_is_final_settlement = policy_final_settlement w e,
      dp_is_finished = (ev_status e = EvFinished)\<rparr>"

definition desired_events :: "awd_env \<Rightarrow> awd_world \<Rightarrow> desired_event_policy list" where
  "desired_events env w =
     List.map_filter (\<lambda>e.
       if \<not> in_firewall_desired_set (ev_status e) then None
       else map_option (event_policy env w e)
              (List.find (\<lambda>n. en_event_id n = ev_event_id e) (w_event_networks w))) (w_events w)"

definition build_desired_state :: "awd_env \<Rightarrow> 64 word \<Rightarrow> desired_firewall_state awdop" where
  "build_desired_state env revision =
     readM (\<lambda>w. \<lparr>df_revision = revision, df_events = desired_events env w\<rparr>)"

definition firewall_reconcile :: "awd_env \<Rightarrow> desired_firewall_state \<Rightarrow> unit awdop" where
  "firewall_reconcile env d = (\<lambda>w.
     (if env_firewall env (w_log w) d then Inr () else Inl (Network ''firewall reconcile failed''),
      w\<lparr>w_log := w_log w @ [FxFirewall d]\<rparr>))"

definition reconcile_global :: "awd_env \<Rightarrow> 64 word \<Rightarrow> unit awdop" where
  "reconcile_global env revision =
     bindM (build_desired_state env revision) (\<lambda>desired. firewall_reconcile env desired)"

definition reconcile_empty :: "awd_env \<Rightarrow> 64 word \<Rightarrow> unit awdop" where
  "reconcile_empty env revision = firewall_reconcile env \<lparr>df_revision = revision, df_events = []\<rparr>"

definition next_network_revision :: "(64 word) awdop" where
  "next_network_revision = (\<lambda>w.
     let next = w_network_revision w + 1 in (Inr next, w\<lparr>w_network_revision := next\<rparr>))"

definition flush_event_connections :: "uuid \<Rightarrow> unit awdop" where
  "flush_event_connections event_id = emitM (FxFlushEvent event_id)"

definition publish :: "string \<Rightarrow> uuid \<Rightarrow> unit awdop" where
  "publish name event_id = emitM (FxPublish name event_id)"

definition banned_subnets :: "desired_event_policy \<Rightarrow> ipv4_cidr list" where
  "banned_subnets p =
     map dt_wireguard_network (filter (\<lambda>t. dt_team_id t \<in> set (dp_banned_teams p)) (dp_teams p))"

section \<open>How the orchestrator runs\<close>

lemma reconcile_global_run [run_simps]:
  "reconcile_global env rv w =
     (let d = \<lparr>df_revision = rv, df_events = desired_events env w\<rparr> in
      (if env_firewall env (w_log w) d then Inr () else Inl (Network ''firewall reconcile failed''),
       w\<lparr>w_log := w_log w @ [FxFirewall d]\<rparr>))"
  by (simp add: reconcile_global_def build_desired_state_def firewall_reconcile_def op_defs Let_def)

lemma next_network_revision_run [run_simps]:
  "next_network_revision w = (Inr (w_network_revision w + 1), w\<lparr>w_network_revision := w_network_revision w + 1\<rparr>)"
  by (simp add: next_network_revision_def Let_def)

lemma publish_run [run_simps]: "publish n e w = (Inr (), w\<lparr>w_log := w_log w @ [FxPublish n e]\<rparr>)"
  by (simp add: publish_def emitM_run)

lemma flush_event_connections_run [run_simps]:
  "flush_event_connections e w = (Inr (), w\<lparr>w_log := w_log w @ [FxFlushEvent e]\<rparr>)"
  by (simp add: flush_event_connections_def emitM_run)

lemma desired_events_mem:
  assumes "e \<in> set (w_events w)" "in_firewall_desired_set (ev_status e)"
    "List.find (\<lambda>n. en_event_id n = ev_event_id e) (w_event_networks w) = Some n"
  shows "event_policy env w e n \<in> set (desired_events env w)"
  using assms by (force simp: desired_events_def map_filter_def)

lemma rounds_view_revision [simp]:
  "latest_round (w\<lparr>w_network_revision := v\<rparr>) i = latest_round w i"
  "has_open_round (w\<lparr>w_network_revision := v\<rparr>) i = has_open_round w i"
  by (simp_all add: latest_round_def has_open_round_def)

lemma event_policy_revision [simp]: "event_policy env (w\<lparr>w_network_revision := v\<rparr>) = event_policy env w"
proof -
  have "policy_final_settlement (w\<lparr>w_network_revision := v\<rparr>) e = policy_final_settlement w e" for e
    unfolding policy_final_settlement_def rounds_view_revision ..
  then show ?thesis by (intro ext) (simp add: event_policy_def)
qed

lemma desired_events_revision [simp]: "desired_events env (w\<lparr>w_network_revision := v\<rparr>) = desired_events env w"
  unfolding desired_events_def event_policy_revision by (simp cong: if_cong)

end
