(* ===== verification/Awd_Score.thy ===== *)
theory Awd_Score
  imports Awd_Firewall "HOL-Library.Multiset"
begin

text \<open>
  Scoring: the idempotency keys (\<open>domain/score.rs\<close>), flag submissions
  (\<open>service/submission_service.rs\<close>), the scoreboard and manual adjustments
  (\<open>service/score_service.rs\<close>) and the initial scores (\<open>service/event_service.rs\<close>). The ledger is
  append-only; the uniqueness of a row's idempotency key is what makes a score count once.
\<close>

section \<open>Idempotency keys\<close>

definition key_attack :: "string \<Rightarrow> string \<Rightarrow> string \<Rightarrow> string \<Rightarrow> string" where
  "key_attack event_id round_id attacker_team instance_id =
     ''attack:'' @ event_id @ '':'' @ round_id @ '':'' @ attacker_team @ '':'' @ instance_id"

definition key_victim_loss :: "string \<Rightarrow> string \<Rightarrow> string \<Rightarrow> string \<Rightarrow> string" where
  "key_victim_loss event_id round_id attacker_team instance_id =
     ''victim-loss:'' @ event_id @ '':'' @ round_id @ '':'' @ attacker_team @ '':'' @ instance_id"

definition key_first_bonus :: "string \<Rightarrow> string \<Rightarrow> string" where
  "key_first_bonus event_id event_gamebox_id = ''first-bonus:'' @ event_id @ '':'' @ event_gamebox_id"

definition key_judge_down :: "string \<Rightarrow> string" where
  "key_judge_down task_id = ''judge-down:'' @ task_id"

definition key_reset :: "string \<Rightarrow> string" where
  "key_reset reset_id = ''reset:'' @ reset_id"

definition key_initial_score :: "string \<Rightarrow> string \<Rightarrow> string" where
  "key_initial_score event_id team_id = ''initial-score:'' @ event_id @ '':'' @ team_id"

definition key_adjustment :: "string \<Rightarrow> string" where
  "key_adjustment adjustment_id = ''adjustment:'' @ adjustment_id"

section \<open>Flag submission\<close>

record submission_result =
  sr_attack_score_delta :: int
  sr_victim_loss_delta :: int
  sr_first_bonus_delta :: int
  sr_was_first_blood :: bool

definition unique_as :: "string \<Rightarrow> 'a dbop \<Rightarrow> 'a awdop" where
  "unique_as msg = map_errM (\<lambda>e. if e = UniqueViolation then Conflict msg else Database e)"

definition submission_txn ::
  "awd_env \<Rightarrow> uuid \<Rightarrow> uuid \<Rightarrow> uuid \<Rightarrow> uuid \<Rightarrow> uuid \<Rightarrow> uuid \<Rightarrow> uuid \<Rightarrow> int \<Rightarrow> int \<Rightarrow> uuid \<Rightarrow>
   submission_result awdop" where
  "submission_txn env event_id round_id flag_issue_id attacker victim instance_id user_id
       attack_score first_bonus event_gamebox_id =
     (let txt = env_uuid_text env in
      bindM (dbM (has_submission event_id round_id attacker instance_id)) (\<lambda>already.
      bindM (guardM (\<not> already) (Conflict ''already submitted this round'')) (\<lambda>_.
      bindM (unique_as ''already submitted (concurrent request)''
               (create_submission event_id round_id flag_issue_id attacker victim instance_id user_id)) (\<lambda>_.
      bindM (unique_as ''attack already scored''
               (create_score_event event_id (Some round_id) attacker ScAttack attack_score
                  (key_attack (txt event_id) (txt round_id) (txt attacker) (txt instance_id))
                  (Some victim) (Some instance_id) None (Some ''flag capture''))) (\<lambda>_.
      bindM (dbM (create_score_event event_id (Some round_id) victim ScVictimLoss (- attack_score)
                  (key_victim_loss (txt event_id) (txt round_id) (txt attacker) (txt instance_id))
                  (Some attacker) (Some instance_id) None (Some ''flag stolen''))) (\<lambda>_.
      bindM (dbM (create_score_event_if_absent event_id (Some round_id) attacker ScFirstBonus first_bonus
                  (key_first_bonus (txt event_id) (txt event_gamebox_id))
                  None None (Some event_gamebox_id) (Some ''first blood''))) (\<lambda>was_first_blood.
      returnM \<lparr>sr_attack_score_delta = attack_score, sr_victim_loss_delta = attack_score,
               sr_first_bonus_delta = (if was_first_blood then first_bonus else 0),
               sr_was_first_blood = was_first_blood\<rparr>)))))))"

definition process_submission ::
  "awd_env \<Rightarrow> uuid \<Rightarrow> uuid \<Rightarrow> uuid \<Rightarrow> uuid \<Rightarrow> uuid \<Rightarrow> uuid \<Rightarrow> uuid \<Rightarrow> int \<Rightarrow> int \<Rightarrow> uuid \<Rightarrow>
   submission_result awdop" where
  "process_submission env event_id round_id flag_issue_id attacker victim instance_id user_id
       attack_score first_bonus event_gamebox_id =
     bindM (txnM (submission_txn env event_id round_id flag_issue_id attacker victim instance_id
              user_id attack_score first_bonus event_gamebox_id)) (\<lambda>result.
     bindM (publish ''score.changed'' event_id) (\<lambda>_.
     bindM (publish ''attack.success'' event_id) (\<lambda>_.
     returnM result)))"

section \<open>Scoreboard\<close>

record team_score =
  ts_team_id :: uuid
  ts_team_name :: string
  ts_attack_score :: int
  ts_defense_score :: int
  ts_total_score :: int
  ts_rank :: nat

definition team_score_row :: "uuid \<Rightarrow> uuid \<times> string \<Rightarrow> team_score awdop" where
  "team_score_row event_id t =
     bindM (dbM (team_score_for_types event_id (fst t) [ScInitialScore])) (\<lambda>initial.
     bindM (dbM (team_score_for_types event_id (fst t) [ScAttack, ScFirstBonus])) (\<lambda>attack.
     bindM (dbM (team_score_for_types event_id (fst t) [ScJudgeDown, ScVictimLoss])) (\<lambda>defense.
     bindM (dbM (team_score_for_types event_id (fst t) [ScResetPenalty, ScAdjustment])) (\<lambda>penalties.
     returnM \<lparr>ts_team_id = fst t, ts_team_name = snd t, ts_attack_score = attack,
              ts_defense_score = defense,
              ts_total_score = initial + attack + defense + penalties, ts_rank = 0\<rparr>))))"

fun collectM :: "('a \<Rightarrow> ('s, 'e, 'b) op) \<Rightarrow> 'a list \<Rightarrow> ('s, 'e, 'b list) op" where
  "collectM f [] = returnM []"
| "collectM f (x # xs) = bindM (f x) (\<lambda>y. bindM (collectM f xs) (\<lambda>ys. returnM (y # ys)))"

text \<open>
  The rank loop: the row at position \<open>i\<close> keeps the running rank unless its total is below the total
  before it, in which case its rank is its position.
\<close>

fun assign_ranks :: "nat \<Rightarrow> nat \<Rightarrow> int option \<Rightarrow> team_score list \<Rightarrow> team_score list" where
  "assign_ranks i rank prev [] = []"
| "assign_ranks i rank prev (s # ss) =
     (let rank' = (case prev of None \<Rightarrow> rank | Some p \<Rightarrow> if ts_total_score s < p then i + 1 else rank)
      in s\<lparr>ts_rank := rank'\<rparr> # assign_ranks (i + 1) rank' (Some (ts_total_score s)) ss)"

definition get_scoreboard :: "uuid \<Rightarrow> (uuid \<times> string) list \<Rightarrow> team_score list awdop" where
  "get_scoreboard event_id team_names =
     bindM (collectM (team_score_row event_id) team_names) (\<lambda>scores.
       returnM (assign_ranks 0 1 None (sort_key (\<lambda>s. - ts_total_score s) scores)))"

section \<open>Adjustments and initial scores\<close>

definition adjustment_event :: "awd_env \<Rightarrow> uuid \<Rightarrow> uuid \<Rightarrow> int \<Rightarrow> string \<Rightarrow> score_event dbop" where
  "adjustment_event env event_id team_id delta reason =
     bindM new_uuid (\<lambda>u.
       create_score_event event_id None team_id ScAdjustment delta
         (key_adjustment (env_uuid_text env u)) None None None (Some reason))"

definition record_adjustment :: "awd_env \<Rightarrow> uuid \<Rightarrow> uuid \<Rightarrow> int \<Rightarrow> string \<Rightarrow> unit awdop" where
  "record_adjustment env event_id team_id delta reason =
     bindM (dbM (find_by_event_id event_id)) (\<lambda>row.
     bindM (ok_orM row (NotFound ''AWD event'')) (\<lambda>event.
     bindM (guardM (\<not> event_is_terminal (ev_status event))
              (InvalidState ''Cannot adjust score after event is finished'')) (\<lambda>_.
     bindM (attemptM (adjustment_event env event_id team_id delta reason)) (\<lambda>result.
     case result of
       Inr _ \<Rightarrow> returnM ()
     | Inl e \<Rightarrow>
         if e = UniqueViolation
         then bindM (dbM (adjustment_event env event_id team_id delta reason)) (\<lambda>_. returnM ())
         else throwM (Database e)))))"

definition seed_initial_scores :: "awd_env \<Rightarrow> uuid \<Rightarrow> int \<Rightarrow> unit awdop" where
  "seed_initial_scores env event_id initial_score =
     bindM (readM (\<lambda>w. filter (\<lambda>t. tm_event_id t = event_id) (w_teams w))) (\<lambda>teams.
       forM teams (\<lambda>t.
         bindM (dbM (create_score_event_if_absent event_id None (tm_id t) ScInitialScore initial_score
                  (key_initial_score (env_uuid_text env event_id) (env_uuid_text env (tm_id t)))
                  None None None (Some ''initial score''))) (\<lambda>_. returnM ())))"

section \<open>The ledger as a keyed store\<close>

text \<open>
  What the services rely on: a posting is appended when its key is new and changes nothing when it
  is not, and the answer says which. \<open>entry\<close> is what a posting means to the reader of the ledger
  (everything but the row's identifier).
\<close>

locale keyed_ledger =
  fixes rows :: "'w \<Rightarrow> 'r list"
    and entry :: "'r \<Rightarrow> 'r"
    and key :: "'r \<Rightarrow> 'k"
    and post :: "'r \<Rightarrow> 'w \<Rightarrow> bool \<times> 'w"
  assumes key_entry: "key (entry r) = key r"
    and post_new: "key r \<notin> key ` set (rows w) \<Longrightarrow>
      fst (post r w) \<and> map entry (rows (snd (post r w))) = map entry (rows w) @ [entry r]"
    and post_taken: "key r \<in> key ` set (rows w) \<Longrightarrow>
      \<not> fst (post r w) \<and> rows (snd (post r w)) = rows w"
begin

definition post_all :: "'r list \<Rightarrow> 'w \<Rightarrow> 'w" where
  "post_all rs w = foldl (\<lambda>w r. snd (post r w)) w rs"

lemma keys_of_entries: "key ` set rs = key ` set (map entry rs)"
  by (simp add: image_image key_entry)

lemma post_keys: "key ` set (rows (snd (post r w))) = insert (key r) (key ` set (rows w))"
proof (cases "key r \<in> key ` set (rows w)")
  case True
  then show ?thesis using post_taken by auto
next
  case False
  then show ?thesis
    using post_new [OF False] keys_of_entries [of "rows (snd (post r w))"] keys_of_entries [of "rows w"]
    by (simp add: key_entry)
qed

lemma post_distinct: "distinct (map key (rows w)) \<Longrightarrow> distinct (map key (rows (snd (post r w))))"
proof (cases "key r \<in> key ` set (rows w)")
  case True
  then show "distinct (map key (rows w)) \<Longrightarrow> ?thesis" using post_taken by simp
next
  case False
  have k: "map key rs = map key (map entry rs)" for rs by (simp add: key_entry)
  show ?thesis if "distinct (map key (rows w))"
    using that False post_new [OF False] k [of "rows w"] k [of "rows (snd (post r w))"]
    by (simp add: key_entry)
qed

lemma post_all_keys: "key ` set (rows (post_all rs w)) = key ` set rs \<union> key ` set (rows w)"
  by (induction rs arbitrary: w) (auto simp: post_all_def post_keys)

text \<open>Posting a list again changes nothing: every key is taken by then.\<close>

lemma post_all_taken: "key ` set rs \<subseteq> key ` set (rows w) \<Longrightarrow> rows (post_all rs w) = rows w"
proof (induction rs arbitrary: w)
  case (Cons r rs)
  then have "rows (snd (post r w)) = rows w" using post_taken by simp
  then show ?case using Cons by (simp add: post_all_def)
qed (simp add: post_all_def)

lemma post_all_idempotent: "rows (post_all rs (post_all rs w)) = rows (post_all rs w)"
  by (rule post_all_taken) (simp add: post_all_keys)

end

definition strip_id :: "score_event \<Rightarrow> score_event" where
  "strip_id s = s\<lparr>sc_id := 0\<rparr>"

definition post_if_absent :: "score_event \<Rightarrow> awd_world \<Rightarrow> bool \<times> awd_world" where
  "post_if_absent s w =
     (case create_score_event_if_absent (sc_event_id s) (sc_round_id s) (sc_team_id s)
             (sc_event_type s) (sc_delta s) (sc_idempotency_key s) (sc_related_team_id s)
             (sc_gamebox_instance_id s) (sc_event_gamebox_id s) (sc_reason s) w of
        (Inr b, w') \<Rightarrow> (b, w') | (Inl _, w') \<Rightarrow> (False, w'))"

definition post_strict :: "score_event \<Rightarrow> awd_world \<Rightarrow> bool \<times> awd_world" where
  "post_strict s w =
     (case create_score_event (sc_event_id s) (sc_round_id s) (sc_team_id s)
             (sc_event_type s) (sc_delta s) (sc_idempotency_key s) (sc_related_team_id s)
             (sc_gamebox_instance_id s) (sc_event_gamebox_id s) (sc_reason s) w of
        (Inr _, w') \<Rightarrow> (True, w') | (Inl _, w') \<Rightarrow> (False, w'))"

lemma create_score_event_run [run_simps]:
  "create_score_event e r t ty d k rel i g rs w =
     (let w1 = w\<lparr>w_next_id := w_next_id w + 1\<rparr>;
          s = \<lparr>sc_id = w_next_id w, sc_event_id = e, sc_round_id = r, sc_team_id = t,
               sc_event_type = ty, sc_delta = d, sc_idempotency_key = k, sc_related_team_id = rel,
               sc_gamebox_instance_id = i, sc_event_gamebox_id = g, sc_reason = rs\<rparr> in
      if key_taken k (w_scores w) then (Inl UniqueViolation, w1)
      else (Inr s, w1\<lparr>w_scores := w_scores w @ [s]\<rparr>))"
  by (simp add: create_score_event_def bindM_run new_uuid_run Let_def)

lemma create_score_event_if_absent_run [run_simps]:
  "create_score_event_if_absent e r t ty d k rel i g rs w =
     (let w1 = w\<lparr>w_next_id := w_next_id w + 1\<rparr>;
          s = \<lparr>sc_id = w_next_id w, sc_event_id = e, sc_round_id = r, sc_team_id = t,
               sc_event_type = ty, sc_delta = d, sc_idempotency_key = k, sc_related_team_id = rel,
               sc_gamebox_instance_id = i, sc_event_gamebox_id = g, sc_reason = rs\<rparr> in
      if key_taken k (w_scores w) then (Inr False, w1)
      else (Inr True, w1\<lparr>w_scores := w_scores w @ [s]\<rparr>))"
  by (simp add: create_score_event_if_absent_def bindM_run new_uuid_run Let_def)

lemma key_taken_iff: "key_taken k xs \<longleftrightarrow> k \<in> sc_idempotency_key ` set xs"
  by (auto simp: key_taken_def)

interpretation ledger: keyed_ledger w_scores strip_id sc_idempotency_key post_if_absent
proof
  fix r :: score_event and w :: awd_world
  show "sc_idempotency_key (strip_id r) = sc_idempotency_key r" by (simp add: strip_id_def)
  assume "sc_idempotency_key r \<notin> sc_idempotency_key ` set (w_scores w)"
  then show "fst (post_if_absent r w) \<and>
      map strip_id (w_scores (snd (post_if_absent r w))) = map strip_id (w_scores w) @ [strip_id r]"
    by (simp add: post_if_absent_def create_score_event_if_absent_run key_taken_iff Let_def strip_id_def)
next
  fix r :: score_event and w :: awd_world
  assume "sc_idempotency_key r \<in> sc_idempotency_key ` set (w_scores w)"
  then show "\<not> fst (post_if_absent r w) \<and> w_scores (snd (post_if_absent r w)) = w_scores w"
    by (simp add: post_if_absent_def create_score_event_if_absent_run key_taken_iff Let_def)
qed

interpretation strict_ledger: keyed_ledger w_scores strip_id sc_idempotency_key post_strict
proof
  fix r :: score_event and w :: awd_world
  show "sc_idempotency_key (strip_id r) = sc_idempotency_key r" by (simp add: strip_id_def)
  assume "sc_idempotency_key r \<notin> sc_idempotency_key ` set (w_scores w)"
  then show "fst (post_strict r w) \<and>
      map strip_id (w_scores (snd (post_strict r w))) = map strip_id (w_scores w) @ [strip_id r]"
    by (simp add: post_strict_def create_score_event_run key_taken_iff Let_def strip_id_def)
next
  fix r :: score_event and w :: awd_world
  assume "sc_idempotency_key r \<in> sc_idempotency_key ` set (w_scores w)"
  then show "\<not> fst (post_strict r w) \<and> w_scores (snd (post_strict r w)) = w_scores w"
    by (simp add: post_strict_def create_score_event_run key_taken_iff Let_def)
qed

section \<open>Properties of submissions\<close>

definition submission_key :: "flag_submission \<Rightarrow> uuid \<times> uuid \<times> uuid \<times> uuid" where
  "submission_key f =
     (fs_event_id f, fs_round_id f, fs_attacker_team_id f, fs_gamebox_instance_id f)"

lemma submission_exists_iff:
  "submission_exists e r a g xs \<longleftrightarrow> (e, r, a, g) \<in> submission_key ` set xs"
  by (force simp: submission_exists_def submission_key_def)

lemma key_families_differ [simp]:
  "key_attack a b c d \<noteq> key_victim_loss a' b' c' d'" "key_victim_loss a' b' c' d' \<noteq> key_attack a b c d"
  "key_attack a b c d \<noteq> key_first_bonus x y" "key_victim_loss a b c d \<noteq> key_first_bonus x y"
  by (simp_all add: key_attack_def key_victim_loss_def key_first_bonus_def)

lemma process_submission_run:
  fixes env e r fi a v g u sc b eg w
  defines "ka \<equiv> key_attack (env_uuid_text env e) (env_uuid_text env r) (env_uuid_text env a) (env_uuid_text env g)"
    and "kl \<equiv> key_victim_loss (env_uuid_text env e) (env_uuid_text env r) (env_uuid_text env a) (env_uuid_text env g)"
    and "kb \<equiv> key_first_bonus (env_uuid_text env e) (env_uuid_text env eg)"
    and "n \<equiv> w_next_id w"
  shows "process_submission env e r fi a v g u sc b eg w =
    (if submission_exists e r a g (w_flag_submissions w)
     then (Inl (Conflict ''already submitted this round''), w)
     else if key_taken ka (w_scores w) then (Inl (Conflict ''attack already scored''), w)
     else if key_taken kl (w_scores w) then (Inl (Database UniqueViolation), w)
     else
       let first = \<not> key_taken kb (w_scores w) in
       (Inr \<lparr>sr_attack_score_delta = sc, sr_victim_loss_delta = sc,
             sr_first_bonus_delta = (if first then b else 0), sr_was_first_blood = first\<rparr>,
        w\<lparr>w_next_id := n + 4,
          w_flag_submissions := w_flag_submissions w @
            [\<lparr>fs_id = n, fs_event_id = e, fs_round_id = r, fs_flag_issue_id = fi, fs_attacker_team_id = a,
              fs_victim_team_id = v, fs_gamebox_instance_id = g, fs_submitted_by_user_id = u\<rparr>],
          w_scores := w_scores w @
            [\<lparr>sc_id = n + 1, sc_event_id = e, sc_round_id = Some r, sc_team_id = a,
              sc_event_type = ScAttack, sc_delta = sc, sc_idempotency_key = ka,
              sc_related_team_id = Some v, sc_gamebox_instance_id = Some g,
              sc_event_gamebox_id = None, sc_reason = Some ''flag capture''\<rparr>,
             \<lparr>sc_id = n + 2, sc_event_id = e, sc_round_id = Some r, sc_team_id = v,
              sc_event_type = ScVictimLoss, sc_delta = - sc, sc_idempotency_key = kl,
              sc_related_team_id = Some a, sc_gamebox_instance_id = Some g,
              sc_event_gamebox_id = None, sc_reason = Some ''flag stolen''\<rparr>] @
            (if first then
             [\<lparr>sc_id = n + 3, sc_event_id = e, sc_round_id = Some r, sc_team_id = a,
               sc_event_type = ScFirstBonus, sc_delta = b, sc_idempotency_key = kb,
               sc_related_team_id = None, sc_gamebox_instance_id = None,
               sc_event_gamebox_id = Some eg, sc_reason = Some ''first blood''\<rparr>] else []),
          w_log := w_log w @ [FxPublish ''score.changed'' e, FxPublish ''attack.success'' e]\<rparr>))"
  unfolding ka_def kl_def kb_def n_def
  by (simp add: process_submission_def submission_txn_def op_defs Let_def has_submission_def
      create_submission_def unique_as_def dbM_run new_uuid_run create_score_event_run
      create_score_event_if_absent_run key_taken_def publish_def emitM_run)

lemma submission_refused:
  "submission_exists e r a g (w_flag_submissions w) \<Longrightarrow>
   process_submission env e r fi a v g u sc b eg w = (Inl (Conflict ''already submitted this round''), w)"
  by (simp add: process_submission_run)

text \<open>
  C25. A flag capture is scored once, atomically and at the victim's expense. When a submission
  succeeds, the ledger grows by the attacker's gain and the victim's equal loss, in that order, and
  by the first-blood bonus exactly when nobody has it yet for that GameBox; the submission is
  recorded. When it fails, nothing at all has changed. And from then on every further submission of
  the same attacker for the same target in the same round, whatever the rest of the state has
  become, is a conflict that changes nothing.
\<close>

theorem submission_scored_once:
  fixes env e r fi a v g u sc b eg w
  defines "run \<equiv> process_submission env e r fi a v g u sc b eg w"
  shows "(case fst run of
      Inl _ \<Rightarrow> snd run = w
    | Inr res \<Rightarrow>
        \<not> submission_exists e r a g (w_flag_submissions w)
        \<and> submission_exists e r a g (w_flag_submissions (snd run))
        \<and> (\<exists>gain loss bonus. w_scores (snd run) = w_scores w @ [gain, loss] @ bonus
             \<and> sc_team_id gain = a \<and> sc_event_type gain = ScAttack \<and> sc_delta gain = sc
             \<and> sc_team_id loss = v \<and> sc_event_type loss = ScVictimLoss \<and> sc_delta gain + sc_delta loss = 0
             \<and> sr_was_first_blood res
                 = (\<not> key_taken (key_first_bonus (env_uuid_text env e) (env_uuid_text env eg)) (w_scores w))
             \<and> map sc_delta bonus = (if sr_was_first_blood res then [b] else [])
             \<and> sr_first_bonus_delta res = sum_list (map sc_delta bonus))
        \<and> (\<forall>w2 fi2 v2 u2 sc2 b2 eg2. set (w_flag_submissions (snd run)) \<subseteq> set (w_flag_submissions w2) \<longrightarrow>
             (\<exists>msg. process_submission env e r fi2 a v2 g u2 sc2 b2 eg2 w2 = (Inl (Conflict msg), w2))))"
proof (cases "fst run")
  case (Inl err)
  then show ?thesis
    by (simp add: run_def process_submission_run Let_def split: if_splits)
next
  case (Inr res)
  have no: "\<not> submission_exists e r a g (w_flag_submissions w)"
    and yes: "submission_exists e r a g (w_flag_submissions (snd run))"
    using Inr by (auto simp: run_def process_submission_run Let_def submission_exists_def split: if_splits)
  have "submission_exists e r a g (w_flag_submissions w2)"
    if "set (w_flag_submissions (snd run)) \<subseteq> set (w_flag_submissions w2)" for w2
    using yes that by (auto simp: submission_exists_def)
  then show ?thesis
    using Inr no yes submission_refused
    by (auto simp: run_def process_submission_run Let_def split: if_splits)
qed

theorem submission_scored_once_witness:
  "\<exists>w msg. fst (process_submission sample_env 1 2 3 4 5 6 7 50 20 8 empty_world)
         = Inr \<lparr>sr_attack_score_delta = 50, sr_victim_loss_delta = 50, sr_first_bonus_delta = 20,
                sr_was_first_blood = True\<rparr>
     \<and> w = snd (process_submission sample_env 1 2 3 4 5 6 7 50 20 8 empty_world)
     \<and> process_submission sample_env 1 2 9 4 5 6 7 50 20 8 w = (Inl (Conflict msg), w)"
proof -
  let ?run = "process_submission sample_env 1 2 3 4 5 6 7 50 20 8 empty_world"
  have ok: "fst ?run = Inr \<lparr>sr_attack_score_delta = 50, sr_victim_loss_delta = 50,
      sr_first_bonus_delta = 20, sr_was_first_blood = True\<rparr>"
    by (simp add: process_submission_run empty_world_def submission_exists_def key_taken_def)
  show ?thesis
    using submission_scored_once [of sample_env 1 2 3 4 5 6 7 50 20 8 empty_world] ok by auto
qed

section \<open>Properties of the scoreboard\<close>

lemma sum_by_types:
  "sum_list (map sc_delta (filter (\<lambda>s. P s \<and> sc_event_type s \<in> {ScInitialScore}) xs))
   + sum_list (map sc_delta (filter (\<lambda>s. P s \<and> sc_event_type s \<in> {ScAttack, ScFirstBonus}) xs))
   + sum_list (map sc_delta (filter (\<lambda>s. P s \<and> sc_event_type s \<in> {ScJudgeDown, ScVictimLoss}) xs))
   + sum_list (map sc_delta (filter (\<lambda>s. P s \<and> sc_event_type s \<in> {ScResetPenalty, ScAdjustment}) xs))
   = sum_list (map sc_delta (filter P xs))"
proof (induction xs)
  case (Cons s xs)
  then show ?case by (cases "sc_event_type s") auto
qed simp

lemma team_score_row_run:
  "\<exists>row. team_score_row e t w = (Inr row, w) \<and> ts_team_id row = fst t \<and> ts_team_name row = snd t
     \<and> fst (team_total_score e (fst t) w) = Inr (ts_total_score row)"
  using sum_by_types [of "\<lambda>s. sc_event_id s = e \<and> sc_team_id s = fst t" "w_scores w"]
  by (simp add: team_score_row_def op_defs dbM_run team_score_for_types_def team_total_score_def conj_assoc)

lemma collectM_readonly:
  assumes "\<And>x. x \<in> set xs \<Longrightarrow> \<exists>y. f x w = (Inr y, w) \<and> Q x y"
  shows "\<exists>ys. collectM f xs w = (Inr ys, w) \<and> list_all2 Q xs ys"
  using assms
proof (induction xs)
  case (Cons x xs)
  obtain y ys where "f x w = (Inr y, w)" "Q x y" "collectM f xs w = (Inr ys, w)" "list_all2 Q xs ys"
    using Cons by force
  then show ?case by (simp add: op_defs)
qed (simp add: op_defs)

lemma assign_ranks_other [simp]:
  "map ts_team_id (assign_ranks i rank prev ss) = map ts_team_id ss"
  "map ts_team_name (assign_ranks i rank prev ss) = map ts_team_name ss"
  "map ts_total_score (assign_ranks i rank prev ss) = map ts_total_score ss"
  "map (\<lambda>r. (ts_team_id r, ts_team_name r)) (assign_ranks i rank prev ss)
     = map (\<lambda>r. (ts_team_id r, ts_team_name r)) ss"
  "length (assign_ranks i rank prev ss) = length ss"
  by (induction ss arbitrary: i rank prev) (auto simp: Let_def)

text \<open>The loop invariant of the ranking: rows before position \<open>i\<close> are done and in order.\<close>

lemma assign_ranks_spec:
  assumes "sorted_wrt (\<lambda>a b. ts_total_score b \<le> ts_total_score a) (pre @ ss)"
    and "i = length pre"
    and "case prev of None \<Rightarrow> pre = [] \<and> rank = 1
         | Some p \<Rightarrow> pre \<noteq> [] \<and> p = ts_total_score (last pre)
             \<and> rank = 1 + length (filter (\<lambda>x. ts_total_score x > p) pre)"
  shows "map ts_rank (assign_ranks i rank prev ss)
    = map (\<lambda>s. 1 + length (filter (\<lambda>x. ts_total_score x > ts_total_score s) (pre @ ss))) ss"
  using assms
proof (induction ss arbitrary: i rank prev pre)
  case (Cons s ss)
  let ?rank = "case prev of None \<Rightarrow> rank | Some p \<Rightarrow> if ts_total_score s < p then i + 1 else rank"
  have below: "\<forall>x \<in> set ss. ts_total_score x \<le> ts_total_score s"
    and above: "\<forall>x \<in> set pre. ts_total_score s \<le> ts_total_score x"
    using Cons.prems(1) by (auto simp: sorted_wrt_append)
  have none: "filter (\<lambda>x. ts_total_score x > ts_total_score s) (s # ss) = []"
    using below by (auto simp: filter_empty_conv)
  have rank: "?rank = 1 + length (filter (\<lambda>x. ts_total_score x > ts_total_score s) pre)"
  proof (cases prev)
    case None
    then show ?thesis using Cons.prems by simp
  next
    case (Some p)
    then have p: "pre \<noteq> []" "p = ts_total_score (last pre)" using Cons.prems by auto
    have pre: "pre = butlast pre @ [last pre]" using p by simp
    have "\<forall>x \<in> set (butlast pre). ts_total_score (last pre) \<le> ts_total_score x"
      using Cons.prems(1) by (subst (asm) pre) (simp add: sorted_wrt_append)
    then have least: "\<forall>x \<in> set pre. p \<le> ts_total_score x"
      using p(2) by (subst pre) simp
    show ?thesis
    proof (cases "ts_total_score s < p")
      case True
      then have "filter (\<lambda>x. ts_total_score x > ts_total_score s) pre = pre"
        using least by (auto simp: filter_id_conv)
      then show ?thesis using Some True Cons.prems by simp
    next
      case False
      moreover have "ts_total_score s \<le> p" using above p by simp
      ultimately have "ts_total_score s = p" by simp
      then show ?thesis using Some Cons.prems by simp
    qed
  qed
  have "map ts_rank (assign_ranks (i + 1) ?rank (Some (ts_total_score s)) ss)
      = map (\<lambda>s'. 1 + length (filter (\<lambda>x. ts_total_score x > ts_total_score s') ((pre @ [s]) @ ss))) ss"
    by (rule Cons.IH) (use Cons.prems rank in auto)
  then show ?case using rank none by (simp add: Let_def)
qed simp



section \<open>Properties of initial scores\<close>

definition initial_row :: "awd_env \<Rightarrow> uuid \<Rightarrow> int \<Rightarrow> event_team \<Rightarrow> score_event" where
  "initial_row env event_id initial_score t =
     \<lparr>sc_id = 0, sc_event_id = event_id, sc_round_id = None, sc_team_id = tm_id t,
      sc_event_type = ScInitialScore, sc_delta = initial_score,
      sc_idempotency_key = key_initial_score (env_uuid_text env event_id) (env_uuid_text env (tm_id t)),
      sc_related_team_id = None, sc_gamebox_instance_id = None, sc_event_gamebox_id = None,
      sc_reason = Some ''initial score''\<rparr>"

lemma seed_loop:
  "forM ts (\<lambda>t. bindM (dbM (create_score_event_if_absent e None (tm_id t) ScInitialScore sc
       (key_initial_score (env_uuid_text env e) (env_uuid_text env (tm_id t)))
       None None None (Some ''initial score''))) (\<lambda>_. returnM ())) w
   = (Inr (), ledger.post_all (map (initial_row env e sc) ts) w)"
proof (induction ts arbitrary: w)
  case (Cons t ts)
  have "bindM (dbM (create_score_event_if_absent e None (tm_id t) ScInitialScore sc
       (key_initial_score (env_uuid_text env e) (env_uuid_text env (tm_id t)))
       None None None (Some ''initial score''))) (\<lambda>_. returnM ()) w
      = (Inr (), snd (post_if_absent (initial_row env e sc t) w))"
    by (simp add: bindM_run returnM_run dbM_run create_score_event_if_absent_run post_if_absent_def
        initial_row_def Let_def)
  then show ?case using Cons by (simp add: bindM_run ledger.post_all_def)
qed (simp add: returnM_run ledger.post_all_def)

lemma seed_initial_scores_run:
  "seed_initial_scores env e sc w =
     (Inr (), ledger.post_all (map (initial_row env e sc) (filter (\<lambda>t. tm_event_id t = e) (w_teams w))) w)"
  by (simp add: seed_initial_scores_def bindM_run readM_run seed_loop)

lemma post_if_absent_frame [simp]:
  "w_teams (snd (post_if_absent s w)) = w_teams w"
  "w_events (snd (post_if_absent s w)) = w_events w"
  "w_rounds (snd (post_if_absent s w)) = w_rounds w"
  "w_tasks (snd (post_if_absent s w)) = w_tasks w"
  "w_sched (snd (post_if_absent s w)) = w_sched w"
  "w_now (snd (post_if_absent s w)) = w_now w"
  "w_log (snd (post_if_absent s w)) = w_log w"
  by (simp_all add: post_if_absent_def create_score_event_if_absent_run Let_def)

lemma post_all_frame [simp]:
  "w_teams (ledger.post_all rs w) = w_teams w"
  "w_events (ledger.post_all rs w) = w_events w"
  "w_rounds (ledger.post_all rs w) = w_rounds w"
  "w_tasks (ledger.post_all rs w) = w_tasks w"
  "w_sched (ledger.post_all rs w) = w_sched w"
  "w_now (ledger.post_all rs w) = w_now w"
  "w_log (ledger.post_all rs w) = w_log w"
  by (induction rs arbitrary: w) (simp_all add: ledger.post_all_def)

text \<open>
  Initial scores are granted once: seeding always succeeds, afterwards every team of the event
  has its initial entry in the ledger and keys are still unique, so it has exactly one; and seeding
  again, even with another amount (a retried or repeated start), leaves the ledger as it is.
\<close>

theorem initial_score_once:
  assumes "distinct (map sc_idempotency_key (w_scores w))"
  shows "fst (seed_initial_scores env e sc w) = Inr ()
    \<and> distinct (map sc_idempotency_key (w_scores (snd (seed_initial_scores env e sc w))))
    \<and> (\<forall>t \<in> set (w_teams w). tm_event_id t = e \<longrightarrow>
         length (filter (\<lambda>s. sc_idempotency_key s
             = key_initial_score (env_uuid_text env e) (env_uuid_text env (tm_id t)))
           (w_scores (snd (seed_initial_scores env e sc w)))) = 1)
    \<and> w_scores (snd (seed_initial_scores env e sc2 (snd (seed_initial_scores env e sc w))))
        = w_scores (snd (seed_initial_scores env e sc w))"
proof -
  let ?ts = "filter (\<lambda>t. tm_event_id t = e) (w_teams w)"
  let ?w1 = "ledger.post_all (map (initial_row env e sc) ?ts) w"
  have dist: "distinct (map sc_idempotency_key (w_scores (ledger.post_all rs v)))"
    if "distinct (map sc_idempotency_key (w_scores v))" for rs v
    using that by (induction rs arbitrary: v) (auto simp: ledger.post_all_def dest: ledger.post_distinct)
  have keys: "sc_idempotency_key ` set (map (initial_row env e sc') ?ts)
      = sc_idempotency_key ` set (map (initial_row env e sc) ?ts)" for sc'
    by (auto simp: initial_row_def image_iff)
  have again: "w_scores (ledger.post_all (map (initial_row env e sc2) ?ts) ?w1) = w_scores ?w1"
    using keys [of sc2] ledger.post_all_keys [of "map (initial_row env e sc) ?ts" w]
    by (intro ledger.post_all_taken) blast
  have one: "length (filter (\<lambda>s. sc_idempotency_key s = k) (w_scores ?w1)) = 1"
    if "k \<in> sc_idempotency_key ` set (map (initial_row env e sc) ?ts)" for k
  proof -
    have "k \<in> set (map sc_idempotency_key (w_scores ?w1))"
      using that ledger.post_all_keys [of "map (initial_row env e sc) ?ts" w] by auto
    then have "length (filter (\<lambda>x. x = k) (map sc_idempotency_key (w_scores ?w1))) = 1"
      using distinct_filter_single [OF dist [OF assms]] by (metis One_nat_def length_Cons list.size(3))
    then show ?thesis unfolding filter_map length_map o_def .
  qed
  have "key_initial_score (env_uuid_text env e) (env_uuid_text env (tm_id t))
      \<in> sc_idempotency_key ` set (map (initial_row env e sc) ?ts)"
    if "t \<in> set (w_teams w)" "tm_event_id t = e" for t
    using that by (force simp: initial_row_def)
  then show ?thesis
    using dist [OF assms] again one by (auto simp: seed_initial_scores_run)
qed

theorem initial_score_once_witness:
  "length (filter (\<lambda>s. sc_idempotency_key s = key_initial_score (uuid_hyphenated 1) (uuid_hyphenated 4))
     (w_scores (snd (seed_initial_scores sample_env 1 1000 (empty_world\<lparr>w_teams :=
        [\<lparr>tm_id = 4, tm_event_id = 1, tm_name = ''red'', tm_banned = False\<rparr>]\<rparr>))))) = 1"
  using initial_score_once [of "empty_world\<lparr>w_teams :=
        [\<lparr>tm_id = 4, tm_event_id = 1, tm_name = ''red'', tm_banned = False\<rparr>]\<rparr>" sample_env 1 1000]
  by (simp add: empty_world_def)

section \<open>Properties of adjustments\<close>

text \<open>No adjustment in the ledger carries the key of an identifier that is yet to be drawn.\<close>

definition adjustments_fresh :: "awd_env \<Rightarrow> awd_world \<Rightarrow> bool" where
  "adjustments_fresh env w \<longleftrightarrow>
     (\<forall>s \<in> set (w_scores w). \<forall>u. sc_idempotency_key s = key_adjustment (env_uuid_text env u) \<longrightarrow> u < w_next_id w)"

lemma adjustment_event_run:
  assumes "adjustments_fresh env w"
  shows "\<exists>s. adjustment_event env e t d why w = (Inr s, w\<lparr>w_next_id := w_next_id w + 2, w_scores := w_scores w @ [s]\<rparr>)
    \<and> sc_event_id s = e \<and> sc_team_id s = t \<and> sc_delta s = d \<and> sc_event_type s = ScAdjustment
    \<and> sc_reason s = Some why \<and> sc_idempotency_key s = key_adjustment (env_uuid_text env (w_next_id w))"
proof -
  have "\<not> key_taken (key_adjustment (env_uuid_text env (w_next_id w))) (w_scores w)"
    using assms by (auto simp: key_taken_def adjustments_fresh_def)
  then show ?thesis
    by (simp add: adjustment_event_def bindM_run new_uuid_run create_score_event_run Let_def)
qed



end
