(* ===== verification/Awd_Judge.thy ===== *)
theory Awd_Judge
  imports Awd_Score
begin

text \<open>
  Judging: the pull-and-lease task queue (\<open>repo/judge_repo.rs\<close>), the creation of a round's batch
  (\<open>service/judge_service.rs\<close>) and the resolution of an event GameBox
  (\<open>service/gamebox_service.rs\<close>, \<open>modules/gamebox/library.rs\<close>). Workers claim pending tasks under
  a lease, renew it by heartbeats and submit a result; a lease that runs out is reclaimed and a
  deadline that passes ends the task. Lease tokens are random: the environment draws one per fresh
  identifier.
\<close>

section \<open>Task queue\<close>

record claimed_task =
  ct_task_id :: uuid
  ct_batch_id :: uuid
  ct_event_id :: uuid
  ct_round_id :: uuid
  ct_gamebox_instance_id :: uuid
  ct_event_gamebox_id :: "uuid option"
  ct_team_id :: uuid
  ct_attempt :: int
  ct_lease_token :: string
  ct_lease_expires_at :: timestamp
  ct_deadline_at :: timestamp

datatype heartbeat_result = HbOk | HbStale | HbNotFound
datatype submit_result_kind = SrOk | SrIdempotent | SrStale | SrNotFound

definition generate_lease_token :: "awd_env \<Rightarrow> string dbop" where
  "generate_lease_token env = bindM new_uuid (\<lambda>u. returnM (env_lease_token env u))"

definition hash_lease_token :: "awd_env \<Rightarrow> string \<Rightarrow> string" where
  "hash_lease_token env token = env_sha256_hex env token"

definition update_task :: "uuid \<Rightarrow> (judge_task \<Rightarrow> judge_task) \<Rightarrow> unit dbop" where
  "update_task i f = update_pk w_tasks w_tasks_update jt_id i f"

definition clear_lease :: "judge_task \<Rightarrow> judge_task" where
  "clear_lease t = t\<lparr>jt_worker_id := None, jt_lease_token_hash := None, jt_lease_expires_at := None,
     jt_heartbeat_at := None, jt_claimed_at := None\<rparr>"

definition judge_error_at :: "timestamp \<Rightarrow> judge_task \<Rightarrow> judge_task" where
  "judge_error_at now t = (clear_lease t)\<lparr>jt_status := JtJudgeError, jt_finished_at := Some now\<rparr>"

definition release_to_pending :: "judge_task \<Rightarrow> judge_task" where
  "release_to_pending t = (clear_lease t)\<lparr>jt_status := JtPending\<rparr>"

definition reclaim_one :: "timestamp \<Rightarrow> judge_task \<Rightarrow> unit dbop" where
  "reclaim_one now task =
     (if jt_attempt_count task < jt_max_attempts task \<and> jt_deadline_at task > now
      then update_task (jt_id task) release_to_pending
      else update_task (jt_id task) (judge_error_at now))"

definition lease_expired :: "timestamp \<Rightarrow> judge_task \<Rightarrow> bool" where
  "lease_expired now t \<longleftrightarrow>
     jt_status t = JtRunning \<and> (case jt_lease_expires_at t of None \<Rightarrow> False | Some x \<Rightarrow> x < now)"

text \<open>The events with a task ended here, each once and in order, as the source's \<open>BTreeSet\<close> gives them.\<close>

definition event_ids_of :: "judge_task list \<Rightarrow> uuid list" where
  "event_ids_of ts = sort (remdups (map jt_event_id ts))"

definition reclaim_expired_leases :: "timestamp \<Rightarrow> uuid list dbop" where
  "reclaim_expired_leases now =
     bindM (readM (\<lambda>w. filter (lease_expired now) (w_tasks w))) (\<lambda>expired.
     bindM (forM expired (reclaim_one now)) (\<lambda>_.
       returnM (event_ids_of (filter (\<lambda>t. \<not> (jt_attempt_count t < jt_max_attempts t \<and>
         jt_deadline_at t > now)) expired))))"

definition claim_one ::
  "awd_env \<Rightarrow> string \<Rightarrow> timestamp \<Rightarrow> timestamp \<Rightarrow> judge_task \<Rightarrow> claimed_task dbop" where
  "claim_one env worker_id now lease_expires row =
     bindM (generate_lease_token env) (\<lambda>token.
     bindM (update_task (jt_id row) (\<lambda>t. t\<lparr>
              jt_status := JtRunning,
              jt_worker_id := Some worker_id,
              jt_attempt_count := jt_attempt_count row + 1,
              jt_started_at := (if jt_attempt_count row = 0 then Some now else jt_started_at row),
              jt_claimed_at := Some now,
              jt_heartbeat_at := Some now,
              jt_lease_expires_at := Some lease_expires,
              jt_lease_token_hash := Some (hash_lease_token env token)\<rparr>)) (\<lambda>_.
     returnM \<lparr>ct_task_id = jt_id row, ct_batch_id = jt_batch_id row, ct_event_id = jt_event_id row,
              ct_round_id = jt_round_id row, ct_gamebox_instance_id = jt_gamebox_instance_id row,
              ct_event_gamebox_id = jt_event_gamebox_id row, ct_team_id = jt_team_id row,
              ct_attempt = jt_attempt_count row + 1, ct_lease_token = token,
              ct_lease_expires_at = lease_expires, ct_deadline_at = jt_deadline_at row\<rparr>))"

definition claim_tasks ::
  "awd_env \<Rightarrow> uuid \<Rightarrow> string \<Rightarrow> nat \<Rightarrow> int \<Rightarrow> (claimed_task list \<times> uuid list) dbop" where
  "claim_tasks env event_id worker_id limit lease_ttl_secs = txnM (
     bindM nowM (\<lambda>now.
     bindM (reclaim_expired_leases now) (\<lambda>terminalized.
     bindM (readM (\<lambda>w. take limit (sort_key jt_created_at
              (filter (\<lambda>t. jt_event_id t = event_id \<and> jt_status t = JtPending) (w_tasks w))))) (\<lambda>rows.
     bindM (collectM (claim_one env worker_id now (now + seconds lease_ttl_secs)) rows) (\<lambda>tasks.
       returnM (tasks, terminalized))))))"

text \<open>What makes a request of a worker current: the task runs under exactly this lease.\<close>

definition lease_held :: "awd_env \<Rightarrow> judge_task \<Rightarrow> string \<Rightarrow> int \<Rightarrow> string \<Rightarrow> timestamp \<Rightarrow> bool" where
  "lease_held env t worker_id attempt token now \<longleftrightarrow>
     jt_status t = JtRunning \<and> jt_worker_id t = Some worker_id \<and> jt_attempt_count t = attempt \<and>
     jt_lease_token_hash t = Some (hash_lease_token env token) \<and> \<not> jt_deadline_at t \<le> now"

definition find_task_by_id :: "uuid \<Rightarrow> judge_task option dbop" where
  "find_task_by_id i = readM (\<lambda>w. List.find (\<lambda>t. jt_id t = i) (w_tasks w))"

definition heartbeat_task ::
  "awd_env \<Rightarrow> uuid \<Rightarrow> string \<Rightarrow> int \<Rightarrow> string \<Rightarrow> int \<Rightarrow> timestamp \<Rightarrow> heartbeat_result dbop" where
  "heartbeat_task env task_id worker_id attempt token lease_ttl_secs now =
     bindM (find_task_by_id task_id) (\<lambda>row.
     case row of
       None \<Rightarrow> returnM HbNotFound
     | Some task \<Rightarrow>
         if jt_status task \<noteq> JtRunning then returnM HbStale
         else if jt_worker_id task \<noteq> Some worker_id then returnM HbStale
         else if jt_attempt_count task \<noteq> attempt then returnM HbStale
         else if jt_lease_token_hash task \<noteq> Some (hash_lease_token env token) then returnM HbStale
         else if jt_deadline_at task \<le> now then returnM HbStale
         else
           let new_expiry = now + seconds lease_ttl_secs;
               effective_expiry =
                 (if new_expiry > jt_deadline_at task then jt_deadline_at task else new_expiry) in
           bindM (update_task task_id (\<lambda>t. t\<lparr>jt_heartbeat_at := Some now,
                    jt_lease_expires_at := Some effective_expiry\<rparr>)) (\<lambda>_.
             returnM HbOk))"

record result_payload =
  rp_exit_code :: "int option"
  rp_stdout :: "string option"
  rp_stderr :: "string option"
  rp_duration_ms :: "int option"

definition finish_task ::
  "judge_task_status \<Rightarrow> string \<Rightarrow> result_payload \<Rightarrow> timestamp \<Rightarrow> judge_task \<Rightarrow> judge_task" where
  "finish_task status result_id p now t = (clear_lease t)\<lparr>
     jt_status := status, jt_finished_at := Some now, jt_exit_code := rp_exit_code p,
     jt_stdout_limited := rp_stdout p, jt_stderr_limited := rp_stderr p,
     jt_duration_ms := rp_duration_ms p, jt_callback_idempotency_key := Some result_id\<rparr>"

definition submit_result ::
  "awd_env \<Rightarrow> uuid \<Rightarrow> string \<Rightarrow> int \<Rightarrow> string \<Rightarrow> string \<Rightarrow> judge_task_status \<Rightarrow> result_payload \<Rightarrow>
   timestamp \<Rightarrow> submit_result_kind dbop" where
  "submit_result env task_id worker_id attempt token result_id status p now =
     bindM (find_task_by_id task_id) (\<lambda>row.
     case row of
       None \<Rightarrow> returnM SrNotFound
     | Some task \<Rightarrow>
         if jt_callback_idempotency_key task = Some result_id \<and> judge_is_terminal (jt_status task)
         then returnM SrIdempotent
         else if jt_status task \<noteq> JtRunning then returnM SrStale
         else if jt_worker_id task \<noteq> Some worker_id then returnM SrStale
         else if jt_attempt_count task \<noteq> attempt then returnM SrStale
         else if jt_lease_token_hash task \<noteq> Some (hash_lease_token env token) then returnM SrStale
         else if jt_deadline_at task \<le> now then returnM SrStale
         else bindM (update_task task_id (finish_task status result_id p now)) (\<lambda>_. returnM SrOk))"

section \<open>Deadlines and batches\<close>

definition open_task :: "judge_task \<Rightarrow> bool" where
  "open_task t \<longleftrightarrow> jt_status t \<in> {JtPending, JtRunning}"

definition terminalize_batch_deadline :: "uuid \<Rightarrow> timestamp \<Rightarrow> nat dbop" where
  "terminalize_batch_deadline batch_id now =
     bindM (readM (\<lambda>w. filter (\<lambda>t. jt_batch_id t = batch_id \<and> open_task t) (w_tasks w))) (\<lambda>tasks.
     bindM (forM tasks (\<lambda>t. whenM (jt_deadline_at t \<le> now) (update_task (jt_id t) (judge_error_at now)))) (\<lambda>_.
       returnM (length (filter (\<lambda>t. jt_deadline_at t \<le> now) tasks))))"

definition maybe_complete_batch :: "uuid \<Rightarrow> bool dbop" where
  "maybe_complete_batch batch_id =
     bindM (readM (\<lambda>w. filter (\<lambda>t. jt_batch_id t = batch_id) (w_tasks w))) (\<lambda>tasks.
     let all_terminal = list_all (\<lambda>t. judge_is_terminal (jt_status t)) tasks;
         completed = int (length (filter (\<lambda>t. jt_status t \<in> {JtUp, JtDown}) tasks));
         failed = int (length tasks) - completed in
     bindM (whenM all_terminal (update_pk w_batches w_batches_update jb_id batch_id (\<lambda>b. b\<lparr>
              jb_completed := True, jb_completed_tasks := completed, jb_failed_tasks := failed\<rparr>))) (\<lambda>_.
       returnM all_terminal))"

definition terminalize_past_deadline :: "timestamp \<Rightarrow> uuid list dbop" where
  "terminalize_past_deadline now =
     bindM (readM (\<lambda>w. filter (\<lambda>t. open_task t \<and> jt_deadline_at t \<le> now) (w_tasks w))) (\<lambda>tasks.
     bindM (forM tasks (\<lambda>t. update_task (jt_id t) (judge_error_at now))) (\<lambda>_.
       returnM (event_ids_of tasks)))"

definition insert_batch :: "uuid \<Rightarrow> uuid \<Rightarrow> int \<Rightarrow> judge_batch dbop" where
  "insert_batch event_id round_id total_tasks =
     bindM new_uuid (\<lambda>i. \<lambda>w.
       let b = \<lparr>jb_id = i, jb_event_id = event_id, jb_round_id = round_id,
                jb_total_tasks = total_tasks, jb_completed_tasks = 0, jb_failed_tasks = 0,
                jb_completed = False\<rparr> in
       (Inr b, w\<lparr>w_batches := w_batches w @ [b]\<rparr>))"

definition all_event_judge_tasks_terminal :: "uuid \<Rightarrow> bool dbop" where
  "all_event_judge_tasks_terminal event_id =
     readM (\<lambda>w. filter (\<lambda>t. jt_event_id t = event_id \<and> open_task t) (w_tasks w) = [])"

section \<open>Creating a round's batch\<close>

definition insert_judge_task ::
  "awd_env \<Rightarrow> uuid \<Rightarrow> uuid \<Rightarrow> uuid \<Rightarrow> timestamp \<Rightarrow> event_team \<Rightarrow> event_gamebox \<Rightarrow> gamebox_instance \<Rightarrow> unit dbop" where
  "insert_judge_task env batch_id event_id round_id deadline team eg inst =
     bindM new_uuid (\<lambda>i. bindM nowM (\<lambda>now. modifyM (\<lambda>w.
       let t = \<lparr>jt_id = i, jt_batch_id = batch_id, jt_event_id = event_id, jt_round_id = round_id,
                jt_gamebox_instance_id = gi_id inst, jt_team_id = tm_id team,
                jt_status = (if gi_status inst = GbResetting \<or> gi_status inst = GbPending
                             then JtSkippedResetting else JtPending),
                jt_attempt_count = 0, jt_max_attempts = 2, jt_deadline_at = deadline,
                jt_started_at = None, jt_finished_at = None, jt_exit_code = None,
                jt_stdout_limited = None, jt_stderr_limited = None, jt_duration_ms = None,
                jt_callback_idempotency_key = Some (''judge:'' @ env_uuid_text env event_id @ '':'' @
                  env_uuid_text env round_id @ '':'' @ env_uuid_text env (tm_id team) @ '':'' @
                  env_uuid_text env (gi_id inst)),
                jt_created_at = now, jt_event_gamebox_id = Some (eg_id eg), jt_worker_id = None,
                jt_lease_token_hash = None, jt_lease_expires_at = None, jt_heartbeat_at = None,
                jt_claimed_at = None\<rparr> in
       w\<lparr>w_tasks := w_tasks w @ [t]\<rparr>)))"

definition instances_of :: "awd_world \<Rightarrow> uuid \<Rightarrow> gamebox_instance list" where
  "instances_of w event_id =
     filter (\<lambda>g. gi_event_id g = event_id \<and> (\<exists>r \<in> set (w_roots w). ir_id r = gi_instance_id g))
       (w_instances w)"

definition create_batch :: "awd_env \<Rightarrow> uuid \<Rightarrow> uuid \<Rightarrow> uuid awdop" where
  "create_batch env event_id round_id =
     bindM (dbM (find_by_event_id event_id)) (\<lambda>row.
     bindM (ok_orM row (NotFound ''AWD event'')) (\<lambda>awd_event.
     bindM (readM (\<lambda>w. sort_key eg_host_offset
              (filter (\<lambda>g. eg_event_id g = event_id) (w_event_gameboxes w)))) (\<lambda>egs.
     bindM (guardM (egs \<noteq> []) (Validation ''No gameboxes configured for event'')) (\<lambda>_.
     bindM (readM (\<lambda>w. filter (\<lambda>t. tm_event_id t = event_id) (w_teams w))) (\<lambda>teams.
     bindM (readM (\<lambda>w. map bn_team_id
              (filter (\<lambda>b. bn_event_id b = event_id \<and> bn_status b = BnActive) (w_bans w)))) (\<lambda>banned.
     bindM (readM (\<lambda>w. instances_of w event_id)) (\<lambda>instances.
     bindM (dbM (insert_batch event_id round_id (int (length egs * length teams)))) (\<lambda>batch.
     bindM nowM (\<lambda>now.
     let deadline = now + seconds (ev_judge_default_timeout_secs awd_event +
                                   ev_judge_grace_period_secs awd_event) in
     bindM (forM teams (\<lambda>team.
              if tm_id team \<in> set banned then returnM ()
              else forM egs (\<lambda>eg.
                case List.find (\<lambda>g. gi_team_id g = tm_id team \<and> gi_event_gamebox_id g = eg_id eg) instances of
                  None \<Rightarrow> returnM ()
                | Some inst \<Rightarrow>
                    dbM (insert_judge_task env (jb_id batch) event_id round_id deadline team eg inst)))) (\<lambda>_.
     returnM (jb_id batch)))))))))))"

section \<open>Event GameBox resolution\<close>

definition build_status_ready :: string where "build_status_ready = ''ready''"

definition nonempty :: "string option \<Rightarrow> bool" where
  "nonempty v \<longleftrightarrow> v \<noteq> None \<and> v \<noteq> Some []"

definition effective_image_ref_from_gamebox :: "gamebox_row \<Rightarrow> awd_error + string" where
  "effective_image_ref_from_gamebox g =
     (if nonempty (gx_image_repo_digest g) then Inr (the (gx_image_repo_digest g))
      else if nonempty (gx_image_id g) then Inr (the (gx_image_id g))
      else if nonempty (gx_image_ref g) then
        if gx_build_status g = Some build_status_ready
        then Inl (Validation ''ready gamebox has no image pin'')
        else Inr (the (gx_image_ref g))
      else Inl (Validation ''gamebox has no usable image reference''))"

definition resolve_event_gamebox_spec :: "uuid \<Rightarrow> (event_gamebox \<times> gamebox_row) awdop" where
  "resolve_event_gamebox_spec event_gamebox_id =
     bindM (readM (\<lambda>w. List.find (\<lambda>g. eg_id g = event_gamebox_id) (w_event_gameboxes w))) (\<lambda>row.
     bindM (ok_orM row (NotFound ''event gamebox'')) (\<lambda>eg.
     bindM (readM (\<lambda>w. List.find (\<lambda>g. gx_id g = eg_gamebox_id eg) (w_gameboxes w))) (\<lambda>row2.
     bindM (ok_orM row2 (NotFound ''gamebox'')) (\<lambda>gamebox.
     bindM (guardM (gx_build_status gamebox = Some build_status_ready)
              (Validation ''GameBox is not ready'')) (\<lambda>_.
     bindM (liftM (effective_image_ref_from_gamebox gamebox)) (\<lambda>_.
     returnM (eg, gamebox)))))))"

section \<open>How the queue runs\<close>

lemma update_task_run [run_simps]:
  "update_task i f w =
     (if \<exists>t \<in> set (w_tasks w). jt_id t = i
      then (Inr (), w\<lparr>w_tasks := update_where (\<lambda>t. jt_id t = i) f (w_tasks w)\<rparr>)
      else (Inl RecordNotUpdated, w))"
  by (simp add: update_task_def update_pk_def)

lemma find_task_by_id_run [run_simps]:
  "find_task_by_id i w = (Inr (List.find (\<lambda>t. jt_id t = i) (w_tasks w)), w)"
  by (simp add: find_task_by_id_def readM_run)

lemma task_edit_fields [simp]:
  "jt_id (clear_lease t) = jt_id t" "jt_id (judge_error_at now t) = jt_id t"
  "jt_id (release_to_pending t) = jt_id t" "jt_id (finish_task st r p now t) = jt_id t"
  "jt_status (judge_error_at now t) = JtJudgeError" "jt_status (release_to_pending t) = JtPending"
  "jt_status (finish_task st r p now t) = st"
  "jt_batch_id (judge_error_at now t) = jt_batch_id t" "jt_event_id (judge_error_at now t) = jt_event_id t"
  "jt_attempt_count (judge_error_at now t) = jt_attempt_count t"
  "jt_attempt_count (release_to_pending t) = jt_attempt_count t"
  "jt_attempt_count (finish_task st r p now t) = jt_attempt_count t"
  "jt_max_attempts (judge_error_at now t) = jt_max_attempts t"
  "jt_max_attempts (release_to_pending t) = jt_max_attempts t"
  "jt_max_attempts (finish_task st r p now t) = jt_max_attempts t"
  by (simp_all add: clear_lease_def judge_error_at_def release_to_pending_def finish_task_def)

lemma forM_update_tasks:
  assumes "jt_id ` set ts \<subseteq> jt_id ` set (w_tasks w)" "\<And>t x. jt_id (g t x) = jt_id x"
  shows "forM ts (\<lambda>t. update_task (jt_id t) (g t)) w =
    (Inr (), w\<lparr>w_tasks := foldl (\<lambda>xs t. update_where (\<lambda>x. jt_id x = jt_id t) (g t) xs) (w_tasks w) ts\<rparr>)"
  using assms(1)
proof (induction ts arbitrary: w)
  case (Cons t ts)
  let ?w = "w\<lparr>w_tasks := update_where (\<lambda>x. jt_id x = jt_id t) (g t) (w_tasks w)\<rparr>"
  have "map jt_id (w_tasks ?w) = map jt_id (w_tasks w)" by (simp add: map_update_where assms(2))
  then have "jt_id ` set (w_tasks ?w) = jt_id ` set (w_tasks w)" by (metis set_map)
  moreover have "\<exists>x \<in> set (w_tasks w). jt_id x = jt_id t" using Cons.prems by force
  ultimately show ?case using Cons by (simp add: bindM_run update_task_run)
qed (simp add: returnM_run)

lemma forM_update_selected:
  assumes "distinct (map jt_id (w_tasks w))" "\<And>t x. jt_id (g t x) = jt_id x"
  shows "forM (filter P (w_tasks w)) (\<lambda>t. update_task (jt_id t) (g t)) w =
    (Inr (), w\<lparr>w_tasks := map (\<lambda>x. if P x then g x x else x) (w_tasks w)\<rparr>)"
  using assms by (subst forM_update_tasks) (auto simp: foldl_update_selected)

lemma terminalize_batch_deadline_run:
  assumes "distinct (map jt_id (w_tasks w))"
  shows "terminalize_batch_deadline b now w =
    (Inr (length (filter (\<lambda>t. jt_batch_id t = b \<and> open_task t \<and> jt_deadline_at t \<le> now) (w_tasks w))),
     w\<lparr>w_tasks := map (\<lambda>t. if jt_batch_id t = b \<and> open_task t \<and> jt_deadline_at t \<le> now
                           then judge_error_at now t else t) (w_tasks w)\<rparr>)"
  using forM_update_selected [OF assms, of "\<lambda>t. judge_error_at now"
      "\<lambda>t. jt_batch_id t = b \<and> open_task t \<and> jt_deadline_at t \<le> now"]
  by (simp add: terminalize_batch_deadline_def bindM_run readM_run forM_whenM returnM_run conj_commute conj_left_commute
      cong: conj_cong)

lemma terminalize_past_deadline_run:
  assumes "distinct (map jt_id (w_tasks w))"
  shows "terminalize_past_deadline now w =
    (Inr (event_ids_of (filter (\<lambda>t. open_task t \<and> jt_deadline_at t \<le> now) (w_tasks w))),
     w\<lparr>w_tasks := map (\<lambda>t. if open_task t \<and> jt_deadline_at t \<le> now then judge_error_at now t else t)
        (w_tasks w)\<rparr>)"
  using forM_update_selected [OF assms, of "\<lambda>t. judge_error_at now"
      "\<lambda>t. open_task t \<and> jt_deadline_at t \<le> now"]
  by (simp add: terminalize_past_deadline_def bindM_run readM_run returnM_run)

lemma reclaim_run:
  assumes "distinct (map jt_id (w_tasks w))"
  shows "reclaim_expired_leases now w =
    (Inr (event_ids_of (filter (\<lambda>t. lease_expired now t \<and>
            \<not> (jt_attempt_count t < jt_max_attempts t \<and> jt_deadline_at t > now)) (w_tasks w))),
     w\<lparr>w_tasks := map (\<lambda>t. if lease_expired now t
        then if jt_attempt_count t < jt_max_attempts t \<and> jt_deadline_at t > now
             then release_to_pending t else judge_error_at now t
        else t) (w_tasks w)\<rparr>)"
proof -
  have "reclaim_one now = (\<lambda>t. update_task (jt_id t)
      (if jt_attempt_count t < jt_max_attempts t \<and> jt_deadline_at t > now
       then release_to_pending else judge_error_at now))"
    by (simp add: reclaim_one_def fun_eq_iff)
  then show ?thesis
    using forM_update_selected [OF assms, of "\<lambda>t. if jt_attempt_count t < jt_max_attempts t \<and>
        jt_deadline_at t > now then release_to_pending else judge_error_at now" "lease_expired now"]
    by (simp add: reclaim_expired_leases_def bindM_run readM_run returnM_run if_distrib [of "\<lambda>f. f _"]
        conj_commute cong: map_cong if_cong)
qed

section \<open>Claims\<close>

definition claimed_as :: "awd_env \<Rightarrow> string \<Rightarrow> timestamp \<Rightarrow> timestamp \<Rightarrow> claimed_task \<Rightarrow> judge_task \<Rightarrow> bool" where
  "claimed_as env wk now expires ct t \<longleftrightarrow>
     jt_id t = ct_task_id ct \<and> jt_status t = JtRunning \<and> jt_worker_id t = Some wk \<and>
     jt_attempt_count t = ct_attempt ct \<and> jt_lease_expires_at t = Some expires \<and>
     jt_lease_token_hash t = Some (hash_lease_token env (ct_lease_token ct))"

definition claim_update ::
  "awd_env \<Rightarrow> string \<Rightarrow> timestamp \<Rightarrow> timestamp \<Rightarrow> judge_task \<Rightarrow> string \<Rightarrow> judge_task \<Rightarrow> judge_task" where
  "claim_update env wk now ex row token t = t\<lparr>
     jt_status := JtRunning, jt_worker_id := Some wk, jt_attempt_count := jt_attempt_count row + 1,
     jt_started_at := (if jt_attempt_count row = 0 then Some now else jt_started_at row),
     jt_claimed_at := Some now, jt_heartbeat_at := Some now, jt_lease_expires_at := Some ex,
     jt_lease_token_hash := Some (hash_lease_token env token)\<rparr>"

lemma claim_one_run:
  assumes "\<exists>t \<in> set (w_tasks w). jt_id t = jt_id r"
  shows "\<exists>ct. claim_one env wk now ex r w = (Inr ct, w\<lparr>w_next_id := w_next_id w + 1,
       w_tasks := update_where (\<lambda>t. jt_id t = jt_id r)
         (claim_update env wk now ex r (env_lease_token env (w_next_id w))) (w_tasks w)\<rparr>)
    \<and> ct_task_id ct = jt_id r \<and> ct_attempt ct = jt_attempt_count r + 1
    \<and> ct_lease_token ct = env_lease_token env (w_next_id w)"
proof -
  have f: "claim_update env wk now ex r (env_lease_token env (w_next_id w)) = (\<lambda>t. t\<lparr>
     jt_status := JtRunning, jt_worker_id := Some wk, jt_attempt_count := jt_attempt_count r + 1,
     jt_started_at := (if jt_attempt_count r = 0 then Some now else jt_started_at r),
     jt_claimed_at := Some now, jt_heartbeat_at := Some now, jt_lease_expires_at := Some ex,
     jt_lease_token_hash := Some (hash_lease_token env (env_lease_token env (w_next_id w)))\<rparr>)"
    by (simp add: claim_update_def fun_eq_iff)
  show ?thesis
    unfolding f using assms
    by (simp add: claim_one_def generate_lease_token_def bindM_run returnM_run new_uuid_run update_task_run)
qed

lemma claim_one_effect:
  assumes "\<exists>t \<in> set (w_tasks w). jt_id t = jt_id r"
  shows "\<exists>ct w1. claim_one env wk now ex r w = (Inr ct, w1) \<and> ct_task_id ct = jt_id r
    \<and> map jt_id (w_tasks w1) = map jt_id (w_tasks w)
    \<and> (\<forall>t \<in> set (w_tasks w). jt_id t \<noteq> jt_id r \<longrightarrow> t \<in> set (w_tasks w1))
    \<and> (\<exists>t \<in> set (w_tasks w1). claimed_as env wk now ex ct t)"
proof -
  let ?f = "claim_update env wk now ex r (env_lease_token env (w_next_id w))"
  let ?w1 = "w\<lparr>w_next_id := w_next_id w + 1,
       w_tasks := update_where (\<lambda>t. jt_id t = jt_id r) ?f (w_tasks w)\<rparr>"
  obtain ct where ct: "claim_one env wk now ex r w = (Inr ct, ?w1)" "ct_task_id ct = jt_id r"
    "ct_attempt ct = jt_attempt_count r + 1" "ct_lease_token ct = env_lease_token env (w_next_id w)"
    using claim_one_run [OF assms] by blast
  obtain t where t: "t \<in> set (w_tasks w)" "jt_id t = jt_id r" using assms by blast
  have "?f t \<in> set (w_tasks ?w1)" using t by (force simp: set_update_where)
  moreover have "claimed_as env wk now ex ct (?f t)"
    using ct t by (simp add: claimed_as_def claim_update_def)
  moreover have "map jt_id (w_tasks ?w1) = map jt_id (w_tasks w)"
    by (simp add: map_update_where claim_update_def)
  moreover have "\<forall>t \<in> set (w_tasks w). jt_id t \<noteq> jt_id r \<longrightarrow> t \<in> set (w_tasks ?w1)"
    by (force simp: set_update_where)
  ultimately show ?thesis using ct(1,2) by blast
qed

lemma claim_loop:
  assumes "distinct (map jt_id rows)" "jt_id ` set rows \<subseteq> jt_id ` set (w_tasks w)"
  shows "\<exists>cts w'. collectM (claim_one env wk now ex) rows w = (Inr cts, w')
    \<and> map ct_task_id cts = map jt_id rows \<and> map jt_id (w_tasks w') = map jt_id (w_tasks w)
    \<and> (\<forall>t \<in> set (w_tasks w). jt_id t \<notin> jt_id ` set rows \<longrightarrow> t \<in> set (w_tasks w'))
    \<and> (\<forall>ct \<in> set cts. \<exists>t \<in> set (w_tasks w'). claimed_as env wk now ex ct t)"
  using assms
proof (induction rows arbitrary: w)
  case (Cons r rows)
  have "\<exists>t \<in> set (w_tasks w). jt_id t = jt_id r" using Cons.prems(2) by force
  then obtain ct w1 where c1: "claim_one env wk now ex r w = (Inr ct, w1)"
    and id: "ct_task_id ct = jt_id r"
    and ids: "map jt_id (w_tasks w1) = map jt_id (w_tasks w)"
    and frame: "\<forall>t \<in> set (w_tasks w). jt_id t \<noteq> jt_id r \<longrightarrow> t \<in> set (w_tasks w1)"
    and mine: "\<exists>t \<in> set (w_tasks w1). claimed_as env wk now ex ct t"
    using claim_one_effect by blast
  have "jt_id ` set rows \<subseteq> jt_id ` set (w_tasks w1)"
    using Cons.prems(2) ids by (metis insert_subset list.simps(15) image_insert set_map)
  moreover have rest_distinct: "distinct (map jt_id rows)" using Cons.prems(1) by simp
  ultimately obtain cts w' where r: "collectM (claim_one env wk now ex) rows w1 = (Inr cts, w')"
    "map ct_task_id cts = map jt_id rows" "map jt_id (w_tasks w') = map jt_id (w_tasks w1)"
    "\<forall>t \<in> set (w_tasks w1). jt_id t \<notin> jt_id ` set rows \<longrightarrow> t \<in> set (w_tasks w')"
    "\<forall>ct \<in> set cts. \<exists>t \<in> set (w_tasks w'). claimed_as env wk now ex ct t"
    using Cons.IH [OF rest_distinct] by blast
  have "\<exists>t \<in> set (w_tasks w'). claimed_as env wk now ex ct t"
    using mine r(4) Cons.prems(1) id by (auto simp: claimed_as_def)
  then show ?case using c1 id ids frame r by (auto simp: bindM_run returnM_run)
qed (simp add: returnM_run)

lemma claim_tasks_run:
  fixes env e wk n ttl w
  assumes "distinct (map jt_id (w_tasks w))"
  defines "w0 \<equiv> snd (reclaim_expired_leases (w_now w) w)"
    and "rows \<equiv> take n (sort_key jt_created_at (filter (\<lambda>t. jt_event_id t = e \<and> jt_status t = JtPending)
           (w_tasks (snd (reclaim_expired_leases (w_now w) w)))))"
  shows "\<exists>cts ended w'. claim_tasks env e wk n ttl w = (Inr (cts, ended), w')
    \<and> collectM (claim_one env wk (w_now w) (w_now w + seconds ttl)) rows w0 = (Inr cts, w')
    \<and> distinct (map jt_id rows) \<and> set rows \<subseteq> set (w_tasks w0)
    \<and> map jt_id (w_tasks w0) = map jt_id (w_tasks w)
    \<and> map ct_task_id cts = map jt_id rows \<and> map jt_id (w_tasks w') = map jt_id (w_tasks w)
    \<and> (\<forall>ct \<in> set cts. \<exists>t \<in> set (w_tasks w'). claimed_as env wk (w_now w) (w_now w + seconds ttl) ct t)"
proof -
  obtain ended where rc: "reclaim_expired_leases (w_now w) w = (Inr ended, w0)"
    unfolding w0_def using reclaim_run [OF assms(1)] by simp
  have ids: "map jt_id (w_tasks w0) = map jt_id (w_tasks w)"
    unfolding w0_def using reclaim_run [OF assms(1)] by (auto simp: o_def)
  have rows: "rows = take n (sort_key jt_created_at
      (filter (\<lambda>t. jt_event_id t = e \<and> jt_status t = JtPending) (w_tasks w0)))"
    by (simp add: rows_def w0_def)
  have sub: "set rows \<subseteq> set (w_tasks w0)"
    unfolding rows by (auto dest: in_set_takeD)
  have "distinct (map jt_id (w_tasks w0))" using ids assms(1) by simp
  then have "distinct (map jt_id (sort_key jt_created_at
      (filter (\<lambda>t. jt_event_id t = e \<and> jt_status t = JtPending) (w_tasks w0))))"
    by (simp add: distinct_map inj_on_def)
  then have dist: "distinct (map jt_id rows)"
    unfolding rows by (simp add: take_map [symmetric])
  obtain cts w' where c: "collectM (claim_one env wk (w_now w) (w_now w + seconds ttl)) rows w0 = (Inr cts, w')"
    "map ct_task_id cts = map jt_id rows" "map jt_id (w_tasks w') = map jt_id (w_tasks w0)"
    "\<forall>ct \<in> set cts. \<exists>t \<in> set (w_tasks w'). claimed_as env wk (w_now w) (w_now w + seconds ttl) ct t"
    using claim_loop [OF dist, of w0 env wk "w_now w" "w_now w + seconds ttl"] sub by blast
  have "claim_tasks env e wk n ttl w = (Inr (cts, ended), w')"
    using c(1) unfolding rows by (simp add: claim_tasks_def op_defs nowM_run rc)
  then show ?thesis using c dist sub ids by auto
qed

lemma second_claim_disjoint:
  assumes d1: "distinct (map jt_id (w_tasks w1))"
    and held: "\<forall>ct \<in> set cts. \<exists>t \<in> set (w_tasks w1). claimed_as env wk now ex ct t"
    and early: "now2 \<le> ex"
    and second: "claim_tasks env e2 wk2 n2 ttl2 (w1\<lparr>w_now := now2\<rparr>) = (Inr (cts2, ended2), w2)"
  shows "ct_task_id ` set cts \<inter> ct_task_id ` set cts2 = {}"
proof -
  let ?v = "w1\<lparr>w_now := now2\<rparr>"
  have dv: "distinct (map jt_id (w_tasks ?v))" using d1 by simp
  define v0 where "v0 = snd (reclaim_expired_leases now2 ?v)"
  have "map ct_task_id cts2 = map jt_id (take n2 (sort_key jt_created_at
      (filter (\<lambda>t. jt_event_id t = e2 \<and> jt_status t = JtPending) (w_tasks v0))))"
    using claim_tasks_run [OF dv, of env e2 wk2 n2 ttl2] second unfolding v0_def by auto
  then have "ct_task_id ` set cts2 = jt_id ` set (take n2 (sort_key jt_created_at
      (filter (\<lambda>t. jt_event_id t = e2 \<and> jt_status t = JtPending) (w_tasks v0))))"
    by (metis set_map)
  also have "\<dots> \<subseteq> jt_id ` {t \<in> set (w_tasks v0). jt_status t = JtPending}"
    by (intro image_mono) (auto dest: in_set_takeD)
  finally have ids2: "ct_task_id ` set cts2 \<subseteq> jt_id ` {t \<in> set (w_tasks v0). jt_status t = JtPending}" .
  have running: "jt_status u = JtRunning"
    if ct: "ct \<in> set cts" and u: "u \<in> set (w_tasks v0)" "jt_id u = ct_task_id ct" for ct u
  proof -
    obtain t where t: "t \<in> set (w_tasks w1)" "claimed_as env wk now ex ct t" using held ct by blast
    obtain x where x: "x \<in> set (w_tasks w1)"
      "u = (if lease_expired now2 x
            then if jt_attempt_count x < jt_max_attempts x \<and> jt_deadline_at x > now2
                 then release_to_pending x else judge_error_at now2 x else x)"
      using u(1) reclaim_run [OF dv, of now2] unfolding v0_def by auto
    have "jt_id x = jt_id t" using x(2) u(2) t(2) by (auto simp: claimed_as_def split: if_splits)
    then have "x = t" using d1 x(1) t(1) by (auto simp: distinct_map inj_on_def)
    moreover have "\<not> lease_expired now2 t" using t(2) early by (simp add: lease_expired_def claimed_as_def)
    ultimately show ?thesis using x(2) t(2) by (simp add: claimed_as_def)
  qed
  show ?thesis using ids2 running by fastforce
qed

section \<open>Properties\<close>

text \<open>
  C28. Only the holder of the lease can act on a task. For every task and every request, a heartbeat
  and a result are accepted if and only if the task is running under exactly the request's worker,
  attempt and token and its deadline has not passed; an accepted result ends exactly that task with
  the submitted verdict and clears the lease, an accepted heartbeat moves the lease end but never
  beyond the task's deadline; a request that is not accepted, or names an unknown task, changes
  nothing.
\<close>

theorem lease_holder_only:
  "case List.find (\<lambda>t. jt_id t = i) (w_tasks w) of
     None \<Rightarrow> submit_result env i wk att tok rid st p now w = (Inr SrNotFound, w)
       \<and> heartbeat_task env i wk att tok ttl now w = (Inr HbNotFound, w)
   | Some t \<Rightarrow>
       if lease_held env t wk att tok now
       then submit_result env i wk att tok rid st p now w
              = (Inr SrOk, w\<lparr>w_tasks := update_where (\<lambda>t. jt_id t = i) (finish_task st rid p now) (w_tasks w)\<rparr>)
         \<and> (\<exists>ex. ex \<le> jt_deadline_at t \<and> ex \<le> now + seconds ttl \<and>
              heartbeat_task env i wk att tok ttl now w
                = (Inr HbOk, w\<lparr>w_tasks := update_where (\<lambda>t. jt_id t = i)
                     (\<lambda>t. t\<lparr>jt_heartbeat_at := Some now, jt_lease_expires_at := Some ex\<rparr>) (w_tasks w)\<rparr>))
       else (\<exists>k \<in> {SrStale, SrIdempotent}. submit_result env i wk att tok rid st p now w = (Inr k, w))
         \<and> heartbeat_task env i wk att tok ttl now w = (Inr HbStale, w)"
proof (cases "List.find (\<lambda>t. jt_id t = i) (w_tasks w)")
  case None
  then show ?thesis
    by (simp add: submit_result_def heartbeat_task_def bindM_run returnM_run find_task_by_id_run)
next
  case (Some t)
  have here: "\<exists>t \<in> set (w_tasks w). jt_id t = i" using find_SomeD [OF Some] by blast
  show ?thesis
  proof (cases "lease_held env t wk att tok now")
    case True
    have "submit_result env i wk att tok rid st p now w
        = (Inr SrOk, w\<lparr>w_tasks := update_where (\<lambda>t. jt_id t = i) (finish_task st rid p now) (w_tasks w)\<rparr>)"
      using True Some here
      by (simp add: submit_result_def bindM_run returnM_run find_task_by_id_run update_task_run
          lease_held_def judge_is_terminal_def)
    moreover have "heartbeat_task env i wk att tok ttl now w
        = (Inr HbOk, w\<lparr>w_tasks := update_where (\<lambda>t. jt_id t = i) (\<lambda>x. x\<lparr>jt_heartbeat_at := Some now,
             jt_lease_expires_at := Some (min (jt_deadline_at t) (now + seconds ttl))\<rparr>) (w_tasks w)\<rparr>)"
      using True Some here
      by (simp add: heartbeat_task_def bindM_run returnM_run find_task_by_id_run update_task_run
          lease_held_def Let_def min_def)
    ultimately show ?thesis using True Some by (auto intro!: exI [of _ "min (jt_deadline_at t) (now + seconds ttl)"])
  next
    case False
    then show ?thesis
      using Some
      by (auto simp: submit_result_def heartbeat_task_def bindM_run returnM_run find_task_by_id_run
          lease_held_def)
  qed
qed

text \<open>
  C29. Claims are exclusive. A claim always succeeds; it hands out at most the requested number of
  tasks, each once, and each is then running under the worker and the token it was handed out with,
  so that the worker's next request is current until the task's deadline; and no later claim, by any
  worker and for any event, hands out one of these tasks while its lease lasts.
\<close>

theorem claims_are_exclusive:
  assumes "distinct (map jt_id (w_tasks w))"
    and "claim_tasks env e wk n ttl w = (Inr (cts, ended), w1)"
  shows "length cts \<le> n \<and> distinct (map ct_task_id cts)
    \<and> (\<forall>ct \<in> set cts. \<exists>t \<in> set (w_tasks w1). jt_id t = ct_task_id ct \<and>
         (\<forall>now2 < jt_deadline_at t. lease_held env t wk (ct_attempt ct) (ct_lease_token ct) now2))
    \<and> (\<forall>e2 wk2 n2 ttl2 now2 cts2 ended2 w2. now2 \<le> w_now w + seconds ttl \<longrightarrow>
         claim_tasks env e2 wk2 n2 ttl2 (w1\<lparr>w_now := now2\<rparr>) = (Inr (cts2, ended2), w2) \<longrightarrow>
         ct_task_id ` set cts \<inter> ct_task_id ` set cts2 = {})"
proof (intro conjI)
  define rows where "rows = take n (sort_key jt_created_at (filter (\<lambda>t. jt_event_id t = e \<and> jt_status t = JtPending)
           (w_tasks (snd (reclaim_expired_leases (w_now w) w)))))"
  have c: "distinct (map jt_id rows)" "map ct_task_id cts = map jt_id rows"
    "map jt_id (w_tasks w1) = map jt_id (w_tasks w)"
    "\<forall>ct \<in> set cts. \<exists>t \<in> set (w_tasks w1). claimed_as env wk (w_now w) (w_now w + seconds ttl) ct t"
    using claim_tasks_run [OF assms(1), of env e wk n ttl] assms(2) unfolding rows_def by auto
  have "length cts = length rows" using c(2) by (metis length_map)
  then show "length cts \<le> n" by (simp add: rows_def)
  show "distinct (map ct_task_id cts)" using c(1,2) by simp
  show "\<forall>ct \<in> set cts. \<exists>t \<in> set (w_tasks w1). jt_id t = ct_task_id ct \<and>
         (\<forall>now2 < jt_deadline_at t. lease_held env t wk (ct_attempt ct) (ct_lease_token ct) now2)"
    using c(4) by (fastforce simp: claimed_as_def lease_held_def)
  show "\<forall>e2 wk2 n2 ttl2 now2 cts2 ended2 w2. now2 \<le> w_now w + seconds ttl \<longrightarrow>
         claim_tasks env e2 wk2 n2 ttl2 (w1\<lparr>w_now := now2\<rparr>) = (Inr (cts2, ended2), w2) \<longrightarrow>
         ct_task_id ` set cts \<inter> ct_task_id ` set cts2 = {}"
    using second_claim_disjoint [of w1 cts env wk "w_now w" "w_now w + seconds ttl"] c(3,4) assms(1) by auto
qed

definition sample_task :: judge_task where
  "sample_task = \<lparr>jt_id = 50, jt_batch_id = 40, jt_event_id = 1, jt_round_id = 2,
     jt_gamebox_instance_id = 6, jt_team_id = 5, jt_status = JtPending, jt_attempt_count = 0,
     jt_max_attempts = 2, jt_deadline_at = seconds 60, jt_started_at = None, jt_finished_at = None,
     jt_exit_code = None, jt_stdout_limited = None, jt_stderr_limited = None, jt_duration_ms = None,
     jt_callback_idempotency_key = Some ''judge'', jt_created_at = 0, jt_event_gamebox_id = Some 8,
     jt_worker_id = None, jt_lease_token_hash = None, jt_lease_expires_at = None,
     jt_heartbeat_at = None, jt_claimed_at = None\<rparr>"

definition sample_batch :: judge_batch where
  "sample_batch = \<lparr>jb_id = 40, jb_event_id = 1, jb_round_id = 2, jb_total_tasks = 1,
     jb_completed_tasks = 0, jb_failed_tasks = 0, jb_completed = False\<rparr>"

definition judge_world :: awd_world where
  "judge_world = empty_world\<lparr>w_tasks := [sample_task], w_batches := [sample_batch]\<rparr>"

theorem claims_are_exclusive_witness:
  "\<exists>cts ended w1. claim_tasks sample_env 1 ''worker-a'' 5 120 judge_world = (Inr (cts, ended), w1)
     \<and> map ct_task_id cts = [50] \<and> length cts \<le> 5
     \<and> (\<forall>cts2 ended2 w2. claim_tasks sample_env 1 ''worker-b'' 5 120 (w1\<lparr>w_now := seconds 100\<rparr>)
          = (Inr (cts2, ended2), w2) \<longrightarrow> 50 \<notin> ct_task_id ` set cts2)"
proof -
  have d: "distinct (map jt_id (w_tasks judge_world))" by (simp add: judge_world_def)
  have "w_tasks (snd (reclaim_expired_leases (w_now judge_world) judge_world)) = [sample_task]"
    by (simp add: reclaim_run [OF d]) (simp add: judge_world_def lease_expired_def sample_task_def)
  then obtain cts ended w1 where c:
    "claim_tasks sample_env 1 ''worker-a'' 5 120 judge_world = (Inr (cts, ended), w1)"
    "map ct_task_id cts = [50]"
    using claim_tasks_run [OF d, of sample_env 1 "''worker-a''" 5 120]
    by (auto simp: sample_task_def)
  have "ct_task_id ` set cts = {50}" using arg_cong [OF c(2), of set] by simp
  moreover have "seconds 100 \<le> w_now judge_world + seconds 120"
    by (simp add: judge_world_def empty_world_def seconds_def nanos_per_sec_def)
  ultimately show ?thesis using claims_are_exclusive [OF d c(1)] c by auto
qed

lemma maybe_complete_batch_run:
  assumes "\<forall>t \<in> set (w_tasks w). jt_batch_id t = b \<longrightarrow> judge_is_terminal (jt_status t)"
    and "\<exists>x \<in> set (w_batches w). jb_id x = b"
  shows "maybe_complete_batch b w = (Inr True, w\<lparr>w_batches := update_where (\<lambda>x. jb_id x = b) (\<lambda>x. x\<lparr>
      jb_completed := True,
      jb_completed_tasks := int (length (filter (\<lambda>t. jt_status t \<in> {JtUp, JtDown})
        (filter (\<lambda>t. jt_batch_id t = b) (w_tasks w)))),
      jb_failed_tasks := int (length (filter (\<lambda>t. jt_batch_id t = b) (w_tasks w))) -
        int (length (filter (\<lambda>t. jt_status t \<in> {JtUp, JtDown}) (filter (\<lambda>t. jt_batch_id t = b) (w_tasks w))))\<rparr>)
      (w_batches w)\<rparr>)"
proof -
  have "list_all (\<lambda>t. judge_is_terminal (jt_status t)) (filter (\<lambda>t. jt_batch_id t = b) (w_tasks w))"
    using assms(1) by (auto simp: list_all_iff)
  then show ?thesis
    using assms(2) by (simp add: maybe_complete_batch_def bindM_run readM_run whenM_run returnM_run
        update_pk_def Let_def)
qed

lemma maybe_complete_batch_counts:
  assumes "\<forall>t \<in> set (w_tasks w). jt_batch_id t = b \<longrightarrow> judge_is_terminal (jt_status t)"
    and "\<exists>x \<in> set (w_batches w). jb_id x = b"
  shows "\<exists>w'. maybe_complete_batch b w = (Inr True, w') \<and> w_tasks w' = w_tasks w
    \<and> (\<forall>x \<in> set (w_batches w'). jb_id x = b \<longrightarrow> jb_completed x
         \<and> jb_completed_tasks x + jb_failed_tasks x
             = int (length (filter (\<lambda>t. jt_batch_id t = b) (w_tasks w'))))"
  by (rule exI, rule conjI, rule maybe_complete_batch_run [OF assms]) (simp add: set_update_where ball_Un)

text \<open>
  C30. A batch is settled when its deadline passes: once every task of a batch is past its deadline,
  the deadline run ends every task that was still open, leaves every other task exactly as it was,
  reports how many it ended, and the batch is then found complete, with the numbers of judged and of
  failed tasks adding up to all tasks of the batch.
\<close>

theorem batch_deadline_settles:
  assumes d: "distinct (map jt_id (w_tasks w))"
    and late: "\<And>t. t \<in> set (w_tasks w) \<Longrightarrow> jt_batch_id t = b \<Longrightarrow> jt_deadline_at t \<le> now"
    and row: "\<exists>x \<in> set (w_batches w). jb_id x = b"
  shows "\<exists>n w1 w2. terminalize_batch_deadline b now w = (Inr n, w1)
    \<and> maybe_complete_batch b w1 = (Inr True, w2)
    \<and> n = length (filter (\<lambda>t. jt_batch_id t = b \<and> open_task t) (w_tasks w))
    \<and> (\<forall>t \<in> set (w_tasks w2). jt_batch_id t = b \<longrightarrow> judge_is_terminal (jt_status t))
    \<and> (\<forall>t \<in> set (w_tasks w). \<not> (jt_batch_id t = b \<and> open_task t) \<longrightarrow> t \<in> set (w_tasks w2))
    \<and> (\<forall>x \<in> set (w_batches w2). jb_id x = b \<longrightarrow> jb_completed x
         \<and> jb_completed_tasks x + jb_failed_tasks x
             = int (length (filter (\<lambda>t. jt_batch_id t = b) (w_tasks w2))))"
proof -
  let ?w1 = "w\<lparr>w_tasks := map (\<lambda>t. if jt_batch_id t = b \<and> open_task t then judge_error_at now t else t)
      (w_tasks w)\<rparr>"
  have sel: "(jt_batch_id t = b \<and> open_task t \<and> jt_deadline_at t \<le> now) = (jt_batch_id t = b \<and> open_task t)"
    if "t \<in> set (w_tasks w)" for t
    using late that by blast
  have run: "terminalize_batch_deadline b now w
      = (Inr (length (filter (\<lambda>t. jt_batch_id t = b \<and> open_task t) (w_tasks w))), ?w1)"
    unfolding terminalize_batch_deadline_run [OF d] using sel
    by (simp cong: filter_cong map_cong)
  have open_cases: "open_task t \<or> judge_is_terminal (jt_status t)" for t
    by (cases "jt_status t") (auto simp: open_task_def judge_is_terminal_def)
  have settled: "\<forall>t \<in> set (w_tasks ?w1). jt_batch_id t = b \<longrightarrow> judge_is_terminal (jt_status t)"
  proof (intro ballI impI)
    fix t' assume mem: "t' \<in> set (w_tasks ?w1)" and b': "jt_batch_id t' = b"
    have ts: "w_tasks ?w1 = map (\<lambda>t. if jt_batch_id t = b \<and> open_task t then judge_error_at now t else t) (w_tasks w)"
      by simp
    from mem obtain t where t': "t' = (if jt_batch_id t = b \<and> open_task t then judge_error_at now t else t)"
      unfolding ts set_map by (rule imageE)
    have b: "jt_batch_id t = b" using b' unfolding t' by (simp split: if_splits)
    show "judge_is_terminal (jt_status t')"
      using open_cases [of t] b unfolding t' by (cases "open_task t") (simp_all add: judge_is_terminal_def)
  qed
  have fr: "\<forall>t \<in> set (w_tasks w). \<not> (jt_batch_id t = b \<and> open_task t) \<longrightarrow> t \<in> set (w_tasks ?w1)"
    by force
  have "\<exists>x \<in> set (w_batches ?w1). jb_id x = b" using row by simp
  then obtain w2 where w2: "maybe_complete_batch b ?w1 = (Inr True, w2)" "w_tasks w2 = w_tasks ?w1"
    "\<forall>x \<in> set (w_batches w2). jb_id x = b \<longrightarrow> jb_completed x
       \<and> jb_completed_tasks x + jb_failed_tasks x = int (length (filter (\<lambda>t. jt_batch_id t = b) (w_tasks w2)))"
    using maybe_complete_batch_counts [OF settled] by blast
  show ?thesis
    unfolding run using w2 settled [folded w2(2)] fr [folded w2(2)] by blast
qed

theorem batch_deadline_settles_witness:
  "\<exists>n w1 w2. terminalize_batch_deadline 40 (seconds 60) judge_world = (Inr n, w1)
     \<and> maybe_complete_batch 40 w1 = (Inr True, w2)
     \<and> (\<forall>t \<in> set (w_tasks w2). jt_batch_id t = 40 \<longrightarrow> judge_is_terminal (jt_status t))"
  using batch_deadline_settles [of judge_world 40 "seconds 60"]
  by (auto simp: judge_world_def sample_task_def sample_batch_def)

section \<open>What judging leaves alone\<close>

text \<open>
  A fact about the state that mentions neither the queue's tables nor the identifier supply survives
  every operation of this theory. The services that call the queue between two reads rely on it.
\<close>

locale outside_judging =
  fixes I :: "awd_world \<Rightarrow> bool"
  assumes id_free: "I w \<Longrightarrow> w_next_id w \<le> n \<Longrightarrow> I (w\<lparr>w_next_id := n\<rparr>)"
    and batch_free: "I w \<Longrightarrow> I (w\<lparr>w_batches := bs\<rparr>)"
    and task_free: "I w \<Longrightarrow> I (w\<lparr>w_tasks := ts\<rparr>)"
begin

lemma keeps_new_uuid: "keeps I new_uuid"
  by (simp add: keeps_def new_uuid_run id_free)

lemma keeps_dbM: "keeps I m \<Longrightarrow> keeps I (dbM m)"
  unfolding dbM_def by (rule keeps_map_errM)

lemma keeps_nowM: "keeps I nowM"
  by (simp add: nowM_def keeps_readM)

lemma keeps_update_task: "keeps I (update_task i f)"
  by (simp add: keeps_def update_task_run task_free)

lemma keeps_find_task_by_id: "keeps I (find_task_by_id i)"
  by (simp add: find_task_by_id_def keeps_readM)

lemma keeps_collectM: "(\<And>x. keeps I (f x)) \<Longrightarrow> keeps I (collectM f xs)"
  by (induction xs) (auto intro!: keeps_intros)

lemma keeps_insert_judge_task: "keeps I (insert_judge_task env b e r d t g i)"
  unfolding insert_judge_task_def
  by (auto intro!: keeps_intros keeps_new_uuid keeps_nowM keeps_modifyM task_free simp: Let_def)

lemma keeps_insert_batch: "keeps I (insert_batch e r n)"
  by (simp add: keeps_def insert_batch_def bindM_run new_uuid_run batch_free id_free Let_def)

lemma keeps_find_by_event_id: "keeps I (find_by_event_id e)"
  by (simp add: find_by_event_id_def keeps_readM)

lemma keeps_create_batch: "keeps I (create_batch env e r)"
  unfolding create_batch_def Let_def
  by (intro keeps_intros keeps_dbM keeps_insert_judge_task keeps_insert_batch keeps_nowM keeps_find_by_event_id)

lemma keeps_reclaim_expired_leases: "keeps I (reclaim_expired_leases now)"
  unfolding reclaim_expired_leases_def reclaim_one_def
  by (intro keeps_intros keeps_update_task)

lemma keeps_claim_one: "keeps I (claim_one env wk now ex row)"
  unfolding claim_one_def generate_lease_token_def
  by (intro keeps_intros keeps_update_task keeps_new_uuid)

lemma keeps_claim_tasks: "keeps I (claim_tasks env e wk lim ttl)"
  unfolding claim_tasks_def
  by (intro keeps_intros keeps_nowM keeps_reclaim_expired_leases keeps_collectM keeps_claim_one)

lemma keeps_heartbeat_task: "keeps I (heartbeat_task env i wk a tok ttl now)"
  unfolding heartbeat_task_def Let_def
  by (intro keeps_intros keeps_find_task_by_id keeps_update_task)

lemma keeps_submit_result: "keeps I (submit_result env i wk a tok res st p now)"
  unfolding submit_result_def by (intro keeps_intros keeps_find_task_by_id keeps_update_task)

lemma keeps_terminalize_batch_deadline: "keeps I (terminalize_batch_deadline b now)"
  unfolding terminalize_batch_deadline_def by (intro keeps_intros keeps_update_task)

lemma keeps_terminalize_past_deadline: "keeps I (terminalize_past_deadline now)"
  unfolding terminalize_past_deadline_def by (intro keeps_intros keeps_update_task)

lemma keeps_edit_batch: "keeps I (update_pk w_batches w_batches_update jb_id b f)"
proof -
  have "I s \<Longrightarrow> I (w_batches_update h s)" for h s
    using batch_free [of s "h (w_batches s)"] by (cases s) simp
  then show ?thesis by (simp add: keeps_def update_pk_def)
qed

lemma keeps_maybe_complete_batch: "keeps I (maybe_complete_batch b)"
  unfolding maybe_complete_batch_def Let_def
  by (intro keeps_intros keeps_edit_batch)

end


interpretation outside_frame: outside_judging
  "\<lambda>w. w_rounds w = rs \<and> w_events w = es \<and> w_sched w = ss \<and> w_now w = now \<and> w_log w = l \<and>
     w_scores w = sc \<and> w_event_networks w = ns \<and> w_bans w = bs" for rs es ss now l sc ns bs
  by unfold_locales simp_all

end
