(* ===== verification/Awd_Lifecycle.thy ===== *)
theory Awd_Lifecycle
  imports Awd_Judge
begin

text \<open>
  The life of a competition: starting, pausing, resuming and finishing an event
  (\<open>service/event_service.rs\<close>), rounds and their scheduling (\<open>service/round_service.rs\<close>) and the
  handlers the scheduler calls (\<open>scheduler/mod.rs\<close>). Every operation is one function from the state
  to a result and a state; database transactions roll back on an error, effects after the commit
  do not. A handler runs at one instant of the clock.
\<close>

section \<open>Scheduling\<close>

definition schedule_round_task ::
  "uuid \<Rightarrow> task_key \<Rightarrow> timestamp \<Rightarrow> uuid option \<Rightarrow> int option \<Rightarrow> unit dbop" where
  "schedule_round_task event_id key execute_at round_id round_number =
     bindM new_uuid (\<lambda>i.
     bindM (insert_task (once_task i event_id key execute_at None round_id round_number None)) (\<lambda>_.
       returnM ()))"

definition schedule_batch_deadline_task :: "uuid \<Rightarrow> uuid \<Rightarrow> timestamp \<Rightarrow> unit dbop" where
  "schedule_batch_deadline_task event_id batch_id execute_at =
     bindM new_uuid (\<lambda>i.
     bindM (insert_task (once_task i event_id AwdJudgeBatchDeadline execute_at None None None (Some batch_id))) (\<lambda>_.
       returnM ()))"

definition schedule_hardening_end :: "uuid \<Rightarrow> timestamp \<Rightarrow> unit dbop" where
  "schedule_hardening_end event_id execute_at =
     bindM new_uuid (\<lambda>i.
     bindM (insert_task (once_task i event_id AwdHardeningEnd execute_at None None None None)) (\<lambda>_.
       returnM ()))"

definition delete_tasks :: "(scheduled_task \<Rightarrow> bool) \<Rightarrow> unit dbop" where
  "delete_tasks p = modifyM (\<lambda>w. w\<lparr>w_sched := filter (\<lambda>t. \<not> p t) (w_sched w)\<rparr>)"

definition cancel_pending_hardening_end :: "uuid \<Rightarrow> unit dbop" where
  "cancel_pending_hardening_end event_id =
     delete_tasks (\<lambda>t. st_group_id t = Some event_id \<and> st_task_key t = AwdHardeningEnd \<and>
       st_status t = TsPending)"

definition cancel_pending_event_lifecycle_schedules :: "uuid \<Rightarrow> unit dbop" where
  "cancel_pending_event_lifecycle_schedules event_id =
     delete_tasks (\<lambda>t. st_group_id t = Some event_id \<and> st_task_key t \<in> {AwdEventStart, AwdAutoPrecheck} \<and>
       st_status t = TsPending)"

definition active_tasks_of :: "awd_world \<Rightarrow> uuid \<Rightarrow> task_key \<Rightarrow> scheduled_task list" where
  "active_tasks_of w event_id key =
     filter (\<lambda>t. st_group_id t = Some event_id \<and> st_task_key t = key \<and>
       st_status t \<in> {TsPending, TsRunning}) (w_sched w)"

definition schedule_auto_precheck ::
  "uuid \<Rightarrow> timestamp \<Rightarrow> timestamp \<Rightarrow> scheduled_task option dbop" where
  "schedule_auto_precheck event_id start_time now =
     (case automatic_precheck_at start_time now of
        None \<Rightarrow> returnM None
      | Some execute_at \<Rightarrow>
          bindM (readM (\<lambda>w. active_tasks_of w event_id AwdAutoPrecheck)) (\<lambda>existing.
          if existing \<noteq> [] then returnM None
          else bindM new_uuid (\<lambda>i.
               bindM (insert_task (once_task i event_id AwdAutoPrecheck execute_at (Some start_time)
                        None None None)) (\<lambda>t. returnM (Some t)))))"

definition schedule_event_start :: "uuid \<Rightarrow> timestamp option \<Rightarrow> scheduled_task option dbop" where
  "schedule_event_start event_id planned_start_at =
     (case planned_start_at of
        None \<Rightarrow> returnM None
      | Some start_at \<Rightarrow>
          bindM (readM (\<lambda>w. active_tasks_of w event_id AwdEventStart)) (\<lambda>existing.
          if existing \<noteq> [] then returnM None
          else bindM new_uuid (\<lambda>i.
               bindM (insert_task (once_task i event_id AwdEventStart start_at
                        (Some (start_at + seconds (6 * 3600))) None None None)) (\<lambda>t. returnM (Some t)))))"

definition find_event_start_schedule :: "uuid \<Rightarrow> timestamp option dbop" where
  "find_event_start_schedule event_id =
     bindM (readM (\<lambda>w. filter st_enabled (active_tasks_of w event_id AwdEventStart))) (\<lambda>tasks.
     if length tasks > 1 then throwM (CustomErr ''multiple active planned-start tasks'')
     else returnM (case tasks of [] \<Rightarrow> None | t # _ \<Rightarrow> st_execute_at t))"

text \<open>Rescheduling changes a pending task in place and refuses one a worker has taken.\<close>

definition reschedule_task :: "uuid \<Rightarrow> timestamp \<Rightarrow> timestamp \<Rightarrow> unit dbop" where
  "reschedule_task i execute_at expires_at =
     update_pk w_sched w_sched_update st_id i (\<lambda>t. t\<lparr>st_enabled := True,
       st_execute_at := Some execute_at, st_expires_at := Some expires_at, st_attempt_count := 0\<rparr>)"

definition replace_auto_precheck_schedule :: "uuid \<Rightarrow> timestamp \<Rightarrow> timestamp \<Rightarrow> unit awdop" where
  "replace_auto_precheck_schedule event_id start_time now =
     bindM (readM (\<lambda>w. active_tasks_of w event_id AwdAutoPrecheck)) (\<lambda>active.
     bindM (guardM (length active \<le> 1) (Conflict ''multiple active automatic-precheck tasks'')) (\<lambda>_.
     let existing = (case active of [] \<Rightarrow> None | t # _ \<Rightarrow> Some t) in
     bindM (guardM (map_option st_status existing \<noteq> Some TsRunning)
              (Conflict ''automatic precheck is already running'')) (\<lambda>_.
     case (existing, automatic_precheck_at start_time now) of
       (Some task, Some execute_at) \<Rightarrow> dbM (reschedule_task (st_id task) execute_at start_time)
     | (Some task, None) \<Rightarrow> dbM (delete_tasks (\<lambda>t. st_id t = st_id task))
     | (None, Some _) \<Rightarrow>
         bindM (dbM (schedule_auto_precheck event_id start_time now)) (\<lambda>_. returnM ())
     | (None, None) \<Rightarrow> returnM ())))"

definition replace_event_start_schedule :: "uuid \<Rightarrow> timestamp option \<Rightarrow> unit awdop" where
  "replace_event_start_schedule event_id planned_start_at =
     bindM (readM (\<lambda>w. active_tasks_of w event_id AwdEventStart)) (\<lambda>active.
     bindM (guardM (length active \<le> 1) (Conflict ''multiple active planned-start tasks'')) (\<lambda>_.
     let existing = (case active of [] \<Rightarrow> None | t # _ \<Rightarrow> Some t) in
     bindM (guardM (map_option st_status existing \<noteq> Some TsRunning)
              (Conflict ''planned start is already being executed'')) (\<lambda>_.
     case (existing, planned_start_at) of
       (Some task, Some start_at) \<Rightarrow>
         dbM (reschedule_task (st_id task) start_at (start_at + seconds (6 * 3600)))
     | (Some task, None) \<Rightarrow> dbM (delete_tasks (\<lambda>t. st_id t = st_id task))
     | (None, Some start_at) \<Rightarrow>
         bindM (dbM (schedule_event_start event_id (Some start_at))) (\<lambda>_. returnM ())
     | (None, None) \<Rightarrow> returnM ())))"

section \<open>Rounds\<close>

record round_started =
  rs_round_id :: uuid
  rs_round_number :: int
  rs_phase :: awd_phase
  rs_created :: bool

definition next_round_number :: "uuid \<Rightarrow> int option \<Rightarrow> int dbop" where
  "next_round_number event_id expected =
     (case expected of
        Some n \<Rightarrow> if n \<ge> 1 then returnM n
                  else bindM (find_latest_round event_id) (\<lambda>latest.
                    returnM (case latest of None \<Rightarrow> 1 | Some r \<Rightarrow> as_i32 (rd_round_number r + 1)))
      | None \<Rightarrow> bindM (find_latest_round event_id) (\<lambda>latest.
                    returnM (case latest of None \<Rightarrow> 1 | Some r \<Rightarrow> as_i32 (rd_round_number r + 1))))"

definition start_round_txn :: "uuid \<Rightarrow> int option \<Rightarrow> (awd_round \<times> bool) awdop" where
  "start_round_txn event_id expected = txnM (
     bindM (dbM (find_by_event_id event_id)) (\<lambda>row.
     bindM (ok_orM row (NotFound ''AWD event'')) (\<lambda>awd_event.
     bindM (guardM (ev_status awd_event = EvRunning) (InvalidState ''Cannot start round in this status'')) (\<lambda>_.
     bindM (guardM (ev_phase awd_event = PhAttack) (InvalidState ''Cannot start round outside Attack phase'')) (\<lambda>_.
     bindM (dbM (next_round_number event_id expected)) (\<lambda>n.
     bindM (readM (\<lambda>w. List.find (\<lambda>r. rd_event_id r = event_id \<and> rd_round_number r = n) (w_rounds w))) (\<lambda>existing.
     case existing of
       Some round \<Rightarrow> returnM (round, False)
     | None \<Rightarrow>
         bindM nowM (\<lambda>now.
         let round_end = now + seconds (ev_round_duration_secs awd_event) in
         bindM (dbM (create_round event_id n PhAttack round_end)) (\<lambda>round.
         bindM (dbM (schedule_round_task event_id AwdRoundEnd round_end (Some (rd_id round)) None)) (\<lambda>_.
         returnM (round, True)))))))))))"

definition start_round :: "awd_env \<Rightarrow> uuid \<Rightarrow> int option \<Rightarrow> round_started awdop" where
  "start_round env event_id expected =
     bindM (start_round_txn event_id expected) (\<lambda>rc.
     if \<not> snd rc then
       returnM \<lparr>rs_round_id = rd_id (fst rc), rs_round_number = rd_round_number (fst rc),
                rs_phase = rd_phase (fst rc), rs_created = False\<rparr>
     else
       bindM next_network_revision (\<lambda>revision.
       bindM (attemptM (reconcile_global env revision)) (\<lambda>result.
       case result of
         Inr _ \<Rightarrow>
           bindM (require_event_network event_id) (\<lambda>_.
           bindM (flush_event_connections event_id) (\<lambda>_.
           bindM (publish ''network.policy.applied'' event_id) (\<lambda>_.
           bindM (publish ''round.started'' event_id) (\<lambda>_.
           returnM \<lparr>rs_round_id = rd_id (fst rc), rs_round_number = rd_round_number (fst rc),
                    rs_phase = PhAttack, rs_created = True\<rparr>))))
       | Inl e \<Rightarrow>
           bindM (publish ''network.policy.failed'' event_id) (\<lambda>_. throwM e))))"

definition max_task_deadline :: "uuid \<Rightarrow> timestamp awdop" where
  "max_task_deadline batch_id =
     bindM (readM (\<lambda>w. max_by jt_deadline_at (filter (\<lambda>t. jt_batch_id t = batch_id) (w_tasks w)))) (\<lambda>row.
     bindM (ok_orM row (NotFound ''No tasks in batch'')) (\<lambda>task. returnM (jt_deadline_at task)))"

section \<open>Finishing\<close>

definition is_final_settlement :: "awd_event \<Rightarrow> awd_round option \<Rightarrow> bool" where
  "is_final_settlement e latest =
     (if ev_status e \<noteq> EvRunning then False
      else if ev_phase e \<noteq> PhAttack then False
      else case ev_round_count e of
          None \<Rightarrow> False
        | Some round_count \<Rightarrow>
            (case latest of
               None \<Rightarrow> False
             | Some r \<Rightarrow> if rd_round_number r \<noteq> round_count then False
                         else rd_status r = RdCompleted))"

text \<open>
  The source builds the message \<open>event.finished\<close> but drops the future of \<open>publish\<close> without awaiting
  it, so nothing is sent.
\<close>

definition maybe_finish_event :: "awd_env \<Rightarrow> uuid \<Rightarrow> unit awdop" where
  "maybe_finish_event env event_id =
     bindM (dbM (find_by_event_id event_id)) (\<lambda>row.
     bindM (ok_orM row (NotFound ''AWD event'')) (\<lambda>awd_event.
     if ev_status awd_event = EvFinished then returnM ()
     else if ev_status awd_event \<noteq> EvRunning then returnM ()
     else bindM (dbM (find_latest_round event_id)) (\<lambda>latest.
       if \<not> is_final_settlement awd_event latest then returnM ()
       else bindM (dbM (all_event_judge_tasks_terminal event_id)) (\<lambda>all_terminal.
         if \<not> all_terminal then returnM ()
         else bindM nowM (\<lambda>now.
           bindM (attemptM (transition_event (ev_id awd_event) EvRunning EvFinished (patch_finished now))) (\<lambda>r.
           case r of
             Inl e \<Rightarrow> (case e of Conflict _ \<Rightarrow> returnM () | InvalidState _ \<Rightarrow> returnM () | _ \<Rightarrow> throwM e)
           | Inr _ \<Rightarrow>
               bindM next_network_revision (\<lambda>revision.
               bindM (ignoreM (reconcile_global env revision)) (\<lambda>_.
               bindM (attemptM (require_event_network event_id)) (\<lambda>net.
               case net of
                 Inr _ \<Rightarrow> flush_event_connections event_id
               | Inl _ \<Rightarrow> returnM ())))))))))"

definition finish_event :: "awd_env \<Rightarrow> uuid \<Rightarrow> unit awdop" where
  "finish_event env event_id = maybe_finish_event env event_id"

section \<open>Ending a round\<close>

definition complete_round_txn :: "uuid \<Rightarrow> uuid \<Rightarrow> (int \<times> bool) option awdop" where
  "complete_round_txn event_id round_id = txnM (
     bindM (dbM (find_round_by_id round_id)) (\<lambda>row.
     bindM (ok_orM row (NotFound ''round'')) (\<lambda>round.
     bindM (guardM (rd_event_id round = event_id) (Forbidden ''Round belongs to another event'')) (\<lambda>_.
     if rd_status round \<noteq> RdActive then returnM None
     else
       bindM (dbM (update_round_status round_id RdCompleted)) (\<lambda>_.
       bindM (dbM (find_by_event_id event_id)) (\<lambda>erow.
       bindM (ok_orM erow (NotFound ''AWD event'')) (\<lambda>awd_event.
       returnM (Some (rd_round_number round,
         (case ev_round_count awd_event of None \<Rightarrow> False | Some rc \<Rightarrow> rd_round_number round \<ge> rc))))))))))"

definition close_final_round :: "awd_env \<Rightarrow> uuid \<Rightarrow> unit awdop" where
  "close_final_round env event_id =
     bindM next_network_revision (\<lambda>revision.
     bindM (ignoreM (reconcile_global env revision)) (\<lambda>_.
     bindM (attemptM (require_event_network event_id)) (\<lambda>net.
     bindM (case net of Inr _ \<Rightarrow> flush_event_connections event_id | Inl _ \<Rightarrow> returnM ()) (\<lambda>_.
       ignoreM (maybe_finish_event env event_id)))))"

definition schedule_deadline_of :: "uuid \<Rightarrow> awd_error + uuid \<Rightarrow> unit awdop" where
  "schedule_deadline_of event_id judge_result =
     (case judge_result of
        Inl _ \<Rightarrow> returnM ()
      | Inr batch_id \<Rightarrow>
          bindM (attemptM (max_task_deadline batch_id)) (\<lambda>d.
          case d of
            Inl _ \<Rightarrow> returnM ()
          | Inr deadline \<Rightarrow>
              ignoreM (txnM (dbM (schedule_batch_deadline_task event_id batch_id deadline)))))"

definition end_round :: "awd_env \<Rightarrow> uuid \<Rightarrow> uuid \<Rightarrow> unit awdop" where
  "end_round env event_id round_id =
     bindM (complete_round_txn event_id round_id) (\<lambda>done.
     case done of
       None \<Rightarrow> returnM ()
     | Some (completed_round_number, is_final) \<Rightarrow>
         bindM (attemptM (create_batch env event_id round_id)) (\<lambda>judge_result.
         bindM (if is_final then close_final_round env event_id
                else ignoreM (start_round env event_id (Some (as_i32 (completed_round_number + 1))))) (\<lambda>_.
         bindM (schedule_deadline_of event_id judge_result) (\<lambda>_.
           publish ''round.completed'' event_id))))"

section \<open>Recovery of round scheduling\<close>

definition restore_round_end_task :: "uuid \<Rightarrow> uuid \<Rightarrow> timestamp \<Rightarrow> nat awdop" where
  "restore_round_end_task event_id round_id scheduled_end_at =
     bindM (readM (\<lambda>w. List.find (\<lambda>t. st_group_id t = Some event_id \<and> st_task_key t = AwdRoundEnd \<and>
              st_status t = TsPending) (w_sched w))) (\<lambda>found.
     if found \<noteq> None then returnM 0
     else bindM (txnM (dbM (schedule_round_task event_id AwdRoundEnd scheduled_end_at (Some round_id) None))) (\<lambda>_.
       returnM 1))"

definition recover_round_gap :: "awd_env \<Rightarrow> uuid \<Rightarrow> nat awdop" where
  "recover_round_gap env event_id =
     bindM (dbM (find_by_event_id event_id)) (\<lambda>row.
     bindM (ok_orM row (NotFound ''AWD event'')) (\<lambda>awd_event.
     case ev_round_count awd_event of
       None \<Rightarrow> returnM 0
     | Some round_count \<Rightarrow>
         if round_count \<le> 0 then returnM 0
         else bindM (dbM (find_latest_round event_id)) (\<lambda>highest.
           case highest of
             None \<Rightarrow> bindM (start_round env event_id (Some 1)) (\<lambda>_. returnM 1)
           | Some round \<Rightarrow>
               let n = rd_round_number round in
               if n > round_count then returnM 0
               else if n \<ge> round_count then returnM 0
               else bindM (start_round env event_id (Some (n + 1))) (\<lambda>_. returnM 1))))"

definition restore_round_scheduling :: "awd_env \<Rightarrow> uuid \<Rightarrow> nat awdop" where
  "restore_round_scheduling env event_id =
     bindM (dbM (find_active_round event_id)) (\<lambda>maybe_round.
     case maybe_round of
       Some round \<Rightarrow>
         (if rd_status round = RdActive
          then restore_round_end_task event_id (rd_id round) (rd_scheduled_end_at round)
          else returnM 0)
     | None \<Rightarrow>
         bindM (dbM (find_by_event_id event_id)) (\<lambda>row.
         bindM (ok_orM row (NotFound ''AWD event'')) (\<lambda>awd_event.
         if ev_status awd_event = EvRunning \<and> ev_phase awd_event = PhAttack
         then recover_round_gap env event_id else returnM 0)))"

section \<open>Starting an event\<close>

definition start_event :: "awd_env \<Rightarrow> uuid \<Rightarrow> unit awdop" where
  "start_event env event_id =
     bindM (dbM (find_by_event_id event_id)) (\<lambda>row.
     bindM (ok_orM row (NotFound ''AWD event'')) (\<lambda>awd_event.
     bindM (guardM (ev_status awd_event = EvVerified) (InvalidState ''not verified'')) (\<lambda>_.
     bindM (guardM (ev_verified_at awd_event \<noteq> None) (InvalidState ''AWD_NOT_VERIFIED'')) (\<lambda>_.
     if (case ev_verified_generation awd_event of
           None \<Rightarrow> True | Some g \<Rightarrow> g \<noteq> ev_configuration_generation awd_event)
     then bindM (ignoreM (transition_event (ev_id awd_event) EvVerified EvStartBlocked patch_config_changed)) (\<lambda>_.
            throwM (InvalidState ''AWD_CONFIG_CHANGED''))
     else
       bindM (dbM (find_generic_event_by_id event_id)) (\<lambda>grow.
       bindM (ok_orM grow (NotFound ''generic event'')) (\<lambda>generic_event.
       case compute_timing (ge_start_time generic_event) (ge_end_time generic_event)
              (ev_round_count awd_event) (ev_round_duration_secs awd_event) of
         Inl _ \<Rightarrow> throwM (InvalidState ''Invalid AWD timing'')
       | Inr timing \<Rightarrow>
           bindM nowM (\<lambda>now.
           bindM (seed_initial_scores env event_id (ev_initial_score awd_event)) (\<lambda>_.
           if hardening_duration_secs timing > 0 then
             (let hardening_ends_at = now + seconds (hardening_duration_secs timing) in
              bindM (transition_event (ev_id awd_event) EvVerified EvRunning
                       (patch_default\<lparr>tp_phase := Some PhHardening, tp_started_at := Some now,
                          tp_hardening_ends_at := Some (Some hardening_ends_at)\<rparr>)) (\<lambda>_.
              bindM (txnM (dbM (schedule_hardening_end event_id hardening_ends_at))) (\<lambda>_.
              bindM next_network_revision (\<lambda>revision.
                ignoreM (reconcile_global env revision)))))
           else
             bindM (transition_event (ev_id awd_event) EvVerified EvRunning
                      (patch_default\<lparr>tp_phase := Some PhAttack, tp_started_at := Some now\<rparr>)) (\<lambda>_.
             bindM next_network_revision (\<lambda>revision.
             bindM (ignoreM (reconcile_global env revision)) (\<lambda>_.
             bindM (start_round env event_id (Some 1)) (\<lambda>_. returnM ()))))))))))))"

section \<open>Pausing and resuming\<close>

definition pause_phase_remaining :: "awd_event \<Rightarrow> int awdop" where
  "pause_phase_remaining awd_event =
     bindM nowM (\<lambda>now.
     case ev_phase awd_event of
       PhHardening \<Rightarrow>
         bindM (ignoreM (dbM (cancel_pending_hardening_end (ev_event_id awd_event)))) (\<lambda>_.
         returnM (case ev_hardening_ends_at awd_event of
                    None \<Rightarrow> 0 | Some h \<Rightarrow> as_i32 (max (num_seconds (h - now)) 0)))
     | PhAttack \<Rightarrow>
         bindM (dbM (find_active_round (ev_event_id awd_event))) (\<lambda>row.
         case row of
           None \<Rightarrow> returnM 0
         | Some round \<Rightarrow>
             let remaining = as_i32 (max (num_seconds (rd_scheduled_end_at round - now)) 0) in
             bindM (dbM (pause_round (rd_id round) remaining)) (\<lambda>_. returnM remaining))
     | PhPause \<Rightarrow> returnM 0)"

definition pause_event :: "awd_env \<Rightarrow> uuid \<Rightarrow> unit awdop" where
  "pause_event env event_id =
     bindM (dbM (find_by_event_id event_id)) (\<lambda>row.
     bindM (ok_orM row (NotFound ''AWD event'')) (\<lambda>awd_event.
     bindM (guardM (ev_status awd_event = EvRunning) (InvalidState ''only a running event can be paused'')) (\<lambda>_.
     bindM (pause_phase_remaining awd_event) (\<lambda>remaining.
     bindM (transition_event (ev_id awd_event) EvRunning EvPaused
              ((patch_paused (ev_phase awd_event) remaining)\<lparr>tp_hardening_ends_at := Some None\<rparr>)) (\<lambda>_.
     bindM next_network_revision (\<lambda>revision.
     bindM (attemptM (reconcile_global env revision)) (\<lambda>result.
     case result of
       Inr _ \<Rightarrow> bindM (require_event_network event_id) (\<lambda>_. flush_event_connections event_id)
     | Inl e \<Rightarrow>
         bindM (ignoreM (transition_event (ev_id awd_event) EvPaused EvNetworkError patch_default)) (\<lambda>_.
           throwM (Network ''pause network reconcile failed'')))))))))"

definition resume_hardening :: "awd_event \<Rightarrow> int \<Rightarrow> unit awdop" where
  "resume_hardening awd_event remaining =
     bindM nowM (\<lambda>now.
     let hardening_ends_at = (if remaining > 0 then Some (now + seconds remaining) else None) in
     bindM (transition_event (ev_id awd_event) (ev_status awd_event) EvRunning
              (patch_default\<lparr>tp_phase := Some PhHardening, tp_pause_remaining_secs := Some 0,
                 tp_hardening_ends_at := Some hardening_ends_at\<rparr>)) (\<lambda>_.
     case hardening_ends_at of
       Some deadline \<Rightarrow> txnM (dbM (schedule_hardening_end (ev_event_id awd_event) deadline))
     | None \<Rightarrow> txnM (
         bindM (dbM (update_phase (ev_id awd_event) PhAttack)) (\<lambda>_.
         dbM (update_event (ev_id awd_event) (\<lambda>e. e\<lparr>ev_hardening_ends_at := None,
                ev_updated_at := now\<rparr>))))))"

definition resume_attack :: "awd_event \<Rightarrow> unit awdop" where
  "resume_attack awd_event =
     bindM nowM (\<lambda>now.
     bindM (dbM (find_active_round (ev_event_id awd_event))) (\<lambda>row.
     bindM (case row of
              None \<Rightarrow> returnM ()
            | Some round \<Rightarrow>
                let round_remaining = (case rd_remaining_secs round of
                                         None \<Rightarrow> ev_round_duration_secs awd_event | Some s \<Rightarrow> s) in
                dbM (update_round (rd_id round) (\<lambda>r. r\<lparr>rd_status := RdActive,
                  rd_scheduled_end_at := now + seconds round_remaining,
                  rd_remaining_secs := None, rd_paused_at := None\<rparr>))) (\<lambda>_.
     transition_event (ev_id awd_event) (ev_status awd_event) EvRunning
       (patch_default\<lparr>tp_phase := Some PhAttack, tp_pause_remaining_secs := Some 0\<rparr>))))"

definition resume_event :: "awd_env \<Rightarrow> uuid \<Rightarrow> unit awdop" where
  "resume_event env event_id =
     bindM (dbM (find_by_event_id event_id)) (\<lambda>row.
     bindM (ok_orM row (NotFound ''AWD event'')) (\<lambda>awd_event.
     bindM (guardM (ev_status awd_event = EvPaused \<or> ev_status awd_event = EvNetworkError)
              (InvalidState ''Can only resume a paused or network-error event'')) (\<lambda>_.
     let resume_phase = (case ev_paused_phase awd_event of None \<Rightarrow> PhHardening | Some p \<Rightarrow> p);
         remaining = (case ev_pause_remaining_secs awd_event of None \<Rightarrow> 0 | Some r \<Rightarrow> r) in
     bindM (case resume_phase of
              PhHardening \<Rightarrow> resume_hardening awd_event remaining
            | PhAttack \<Rightarrow> resume_attack awd_event
            | PhPause \<Rightarrow> throwM (InvalidState ''Cannot resume from this phase'')) (\<lambda>_.
     bindM next_network_revision (\<lambda>revision.
     bindM (attemptM (reconcile_global env revision)) (\<lambda>result.
     case result of
       Inr _ \<Rightarrow>
         bindM (require_event_network event_id) (\<lambda>_.
         bindM (flush_event_connections event_id) (\<lambda>_.
         if resume_phase = PhAttack
         then bindM (restore_round_scheduling env event_id) (\<lambda>_. returnM ())
         else returnM ()))
     | Inl e \<Rightarrow>
         bindM (ignoreM (transition_event (ev_id awd_event) EvRunning EvNetworkError patch_default)) (\<lambda>_.
           throwM (Network ''resume network reconcile failed''))))))))"

section \<open>Scheduler handlers\<close>

definition already_started :: "awd_event_status \<Rightarrow> bool" where
  "already_started s \<longleftrightarrow> s \<in> {EvRunning, EvPaused, EvNetworkError, EvFinished, EvArchived}"

text \<open>A payload that does not carry the event's identifier does not deserialise.\<close>

definition event_id_from_task :: "scheduled_task \<Rightarrow> uuid awdop" where
  "event_id_from_task task = ok_orM (st_payload_event_id task) (Internal ''invalid payload'')"

definition event_start_run :: "awd_env \<Rightarrow> scheduled_task \<Rightarrow> unit awdop" where
  "event_start_run env task =
     bindM (event_id_from_task task) (\<lambda>event_id.
     bindM (dbM (find_by_event_id event_id)) (\<lambda>row.
     if (case row of None \<Rightarrow> False | Some e \<Rightarrow> already_started (ev_status e)) then returnM ()
     else start_event env event_id))"

definition round_start_run :: "awd_env \<Rightarrow> scheduled_task \<Rightarrow> unit awdop" where
  "round_start_run env task =
     bindM (event_id_from_task task) (\<lambda>event_id.
     bindM (dbM (find_by_event_id event_id)) (\<lambda>row.
     if (case row of None \<Rightarrow> False | Some e \<Rightarrow> \<not> event_is_active (ev_status e)) then returnM ()
     else bindM (start_round env event_id (st_payload_round_number task)) (\<lambda>_. returnM ())))"

definition round_end_run :: "awd_env \<Rightarrow> scheduled_task \<Rightarrow> unit awdop" where
  "round_end_run env task =
     bindM (event_id_from_task task) (\<lambda>event_id.
     bindM (case st_payload_round_id task of
              Some i \<Rightarrow> returnM (Some i)
            | None \<Rightarrow> bindM (dbM (find_active_round event_id)) (\<lambda>r. returnM (map_option rd_id r))) (\<lambda>rid.
     case rid of
       None \<Rightarrow> returnM ()
     | Some round_id \<Rightarrow>
         bindM (dbM (find_by_event_id event_id)) (\<lambda>row.
         if (case row of None \<Rightarrow> False | Some e \<Rightarrow> ev_status e = EvNetworkError) then returnM ()
         else end_round env event_id round_id)))"

definition handle_hardening_end :: "awd_env \<Rightarrow> uuid \<Rightarrow> unit awdop" where
  "handle_hardening_end env event_id =
     bindM (dbM (find_by_event_id event_id)) (\<lambda>row.
     bindM (ok_orM row (NotFound ''AWD event'')) (\<lambda>event.
     bindM nowM (\<lambda>now.
     if ev_status event \<noteq> EvRunning \<or> ev_phase event \<noteq> PhHardening then returnM ()
     else if (case ev_hardening_ends_at event of None \<Rightarrow> False | Some deadline \<Rightarrow> deadline > now) then returnM ()
     else
       bindM (txnM (
         bindM (dbM (find_by_event_id event_id)) (\<lambda>row2.
         bindM (ok_orM row2 (NotFound ''AWD event'')) (\<lambda>ev.
         if ev_status ev \<noteq> EvRunning \<or> ev_phase ev \<noteq> PhHardening then returnM False
         else
           bindM (dbM (update_phase (ev_id ev) PhAttack)) (\<lambda>_.
           bindM (dbM (update_event (ev_id ev) (\<lambda>e. e\<lparr>ev_hardening_ends_at := None,
                    ev_updated_at := now\<rparr>))) (\<lambda>_.
           returnM True)))))) (\<lambda>moved.
       if \<not> moved then returnM ()
       else
         bindM next_network_revision (\<lambda>revision.
         bindM (ignoreM (reconcile_global env revision)) (\<lambda>_.
         bindM (start_round env event_id (Some 1)) (\<lambda>_. returnM ())))))))"

definition hardening_end_run :: "awd_env \<Rightarrow> scheduled_task \<Rightarrow> unit awdop" where
  "hardening_end_run env task =
     bindM (event_id_from_task task) (\<lambda>event_id. handle_hardening_end env event_id)"

definition judge_batch_deadline_run :: "awd_env \<Rightarrow> scheduled_task \<Rightarrow> unit awdop" where
  "judge_batch_deadline_run env task =
     bindM (ok_orM (st_payload_batch_id task) (Internal ''invalid payload'')) (\<lambda>batch_id.
     bindM (event_id_from_task task) (\<lambda>event_id.
     bindM nowM (\<lambda>now.
     bindM (dbM (terminalize_batch_deadline batch_id now)) (\<lambda>_.
     bindM (ignoreM (dbM (maybe_complete_batch batch_id))) (\<lambda>_.
       ignoreM (maybe_finish_event env event_id))))))"

definition restore_batch_deadline :: "uuid \<Rightarrow> judge_batch \<Rightarrow> nat dbop" where
  "restore_batch_deadline event_id batch =
     bindM (readM (\<lambda>w. List.find (\<lambda>t. st_group_id t = Some event_id \<and>
              st_task_key t = AwdJudgeBatchDeadline \<and> st_status t = TsPending) (w_sched w))) (\<lambda>existing.
     if existing \<noteq> None then returnM 0
     else
       bindM nowM (\<lambda>now.
       bindM (readM (\<lambda>w. case max_by jt_deadline_at
                 (filter (\<lambda>t. jt_batch_id t = jb_id batch) (w_tasks w)) of
                   None \<Rightarrow> now | Some t \<Rightarrow> jt_deadline_at t)) (\<lambda>max_deadline.
       bindM new_uuid (\<lambda>i.
       bindM (insert_task (once_task i event_id AwdJudgeBatchDeadline max_deadline None None None
                (Some (jb_id batch)))) (\<lambda>_.
       returnM 1)))))"

definition restore_batch_deadlines :: "uuid \<Rightarrow> nat dbop" where
  "restore_batch_deadlines event_id =
     bindM (readM (\<lambda>w. filter (\<lambda>b. jb_event_id b = event_id \<and> \<not> jb_completed b) (w_batches w))) (\<lambda>batches.
     bindM (collectM (restore_batch_deadline event_id) batches) (\<lambda>ns. returnM (sum_list ns)))"

definition start_awd_event :: "awd_env \<Rightarrow> uuid \<Rightarrow> unit awdop" where
  "start_awd_event env event_id =
     bindM (start_event env event_id) (\<lambda>_.
       ignoreM (dbM (cancel_pending_event_lifecycle_schedules event_id)))"

end
