(* ===== verification/Awd_Flag.thy ===== *)
theory Awd_Flag
  imports Awd_Lifecycle
begin

text \<open>
  Flags and bans: how a flag is derived and checked (\<open>domain/flag.rs\<close>), issued to a GameBox and
  validated when a player hands it in (\<open>service/flag_service.rs\<close>), the player's endpoint
  (\<open>api/player.rs\<close>), and banning and unbanning a team (\<open>service/ban_service.rs\<close> with the peer
  operations of \<open>service/wireguard_service.rs\<close>). The keyed and plain digests are the environment's,
  already in hexadecimal.
\<close>

section \<open>Flags\<close>

definition generate_flag :: "awd_env \<Rightarrow> string \<Rightarrow> string \<Rightarrow> string \<Rightarrow> string \<Rightarrow> string \<Rightarrow> string" where
  "generate_flag env event_secret event_id round_id gamebox_instance_id prefix =
     prefix @ ''{'' @
     take 32 (env_hmac_hex env event_secret (event_id @ ''||'' @ round_id @ ''||'' @ gamebox_instance_id)) @ ''}''"

definition hash_flag :: "awd_env \<Rightarrow> string \<Rightarrow> string" where
  "hash_flag env flag = env_sha256_hex env flag"

definition verify_flag :: "awd_env \<Rightarrow> string \<Rightarrow> string \<Rightarrow> bool" where
  "verify_flag env flag stored_hash \<longleftrightarrow> hash_flag env flag = stored_hash"

record flag_issue_result =
  fr_flag :: string
  fr_already_issued :: bool

definition issue_flag :: "awd_env \<Rightarrow> uuid \<Rightarrow> string \<Rightarrow> string \<Rightarrow> string \<Rightarrow> flag_issue_result awdop" where
  "issue_flag env event_id source_ip event_secret flag_prefix =
     bindM (dbM (find_by_event_id event_id)) (\<lambda>row.
     bindM (ok_orM row (NotFound ''AWD event'')) (\<lambda>awd_event.
     bindM (guardM (event_is_active (ev_status awd_event)) (Forbidden ''Event is not running'')) (\<lambda>_.
     bindM (guardM (phase_allows_flag_issue (ev_phase awd_event)) (Forbidden ''Flag issuing not allowed'')) (\<lambda>_.
     bindM (dbM (find_active_round event_id)) (\<lambda>rrow.
     bindM (ok_orM rrow (NotFound ''No active round'')) (\<lambda>round.
     bindM (dbM (find_instance_by_ip event_id source_ip)) (\<lambda>irow.
     bindM (ok_orM irow (NotFound ''No GameBox found for IP'')) (\<lambda>inst.
     bindM (guardM (gamebox_is_healthy (gi_status inst)) (Forbidden ''GameBox is not healthy'')) (\<lambda>_.
     bindM (dbM (find_active_ban event_id (gi_team_id inst))) (\<lambda>ban.
     bindM (guardM (ban = None) (Forbidden ''Team is banned'')) (\<lambda>_.
     let flag = generate_flag env event_secret (env_uuid_text env event_id)
                  (env_uuid_text env (rd_id round)) (env_uuid_text env (gi_id inst)) flag_prefix;
         flag_hash = hash_flag env flag in
     bindM (dbM (find_issue_by_hash event_id (rd_id round) flag_hash)) (\<lambda>existing.
     if (case existing of None \<Rightarrow> False | Some issue \<Rightarrow> flag_hash = fi_flag_hash issue)
     then returnM \<lparr>fr_flag = flag, fr_already_issued = True\<rparr>
     else bindM (dbM (find_or_create_issue event_id (rd_id round) (gi_id inst) flag_hash)) (\<lambda>_.
       returnM \<lparr>fr_flag = flag, fr_already_issued = False\<rparr>)))))))))))))"

definition validate_submission ::
  "awd_env \<Rightarrow> uuid \<Rightarrow> string \<Rightarrow> uuid \<Rightarrow> (uuid \<times> uuid \<times> uuid) awdop" where
  "validate_submission env event_id submitted_flag attacker_team_id =
     bindM (dbM (find_by_event_id event_id)) (\<lambda>row.
     bindM (ok_orM row (NotFound ''AWD event'')) (\<lambda>awd_event.
     bindM (guardM (event_is_active (ev_status awd_event)) (Forbidden ''Event is not running'')) (\<lambda>_.
     bindM (guardM (phase_allows_flag_submission (ev_phase awd_event))
              (Forbidden ''Flag submission not allowed in current phase'')) (\<lambda>_.
     bindM (dbM (find_active_round event_id)) (\<lambda>rrow.
     bindM (ok_orM rrow (NotFound ''No active round'')) (\<lambda>round.
     bindM (dbM (find_issue_by_hash event_id (rd_id round) (hash_flag env submitted_flag))) (\<lambda>fi.
     bindM (ok_orM fi (NotFound ''invalid or expired flag'')) (\<lambda>issue.
     bindM (dbM (find_instance_by_id (fi_gamebox_instance_id issue))) (\<lambda>irow.
     bindM (ok_orM irow (NotFound ''gamebox instance'')) (\<lambda>pair.
     let inst = fst pair; victim_team_id = gi_team_id inst in
     bindM (guardM (victim_team_id \<noteq> attacker_team_id) (Forbidden ''own flag'')) (\<lambda>_.
     bindM (dbM (find_active_ban event_id attacker_team_id)) (\<lambda>ban.
     bindM (guardM (ban = None) (Forbidden ''Your team is banned'')) (\<lambda>_.
     bindM (dbM (find_active_ban event_id victim_team_id)) (\<lambda>victim_ban.
     bindM (guardM (victim_ban = None) (Forbidden ''Target team is banned'')) (\<lambda>_.
     returnM (fi_id issue, victim_team_id, gi_id inst))))))))))))))))"

text \<open>
  The player's endpoint. The rate limiter's answer is the argument \<open>rate_ok\<close>; the error types of
  the HTTP layer are those of the services.
\<close>

definition submit_flag :: "awd_env \<Rightarrow> uuid \<Rightarrow> uuid \<Rightarrow> bool \<Rightarrow> string \<Rightarrow> submission_result awdop" where
  "submit_flag env event_id user_id rate_ok flag =
     bindM (dbM (find_by_event_id event_id)) (\<lambda>row.
     bindM (ok_orM row (NotFound ''AWD event'')) (\<lambda>awd_event.
     bindM (guardM (\<not> event_is_terminal (ev_status awd_event)) (Forbidden ''event finished'')) (\<lambda>_.
     bindM (guardM rate_ok (Conflict ''rate limited'')) (\<lambda>_.
     bindM (readM (\<lambda>w. List.find (\<lambda>m. mb_event_id m = event_id \<and> mb_user_id m = user_id) (w_members w))) (\<lambda>mrow.
     bindM (ok_orM mrow (NotFound ''no team'')) (\<lambda>membership.
     bindM (validate_submission env event_id flag (mb_team_id membership)) (\<lambda>v.
     case v of (flag_issue_id, victim_team_id, instance_id) \<Rightarrow>
     bindM (dbM (find_active_round event_id)) (\<lambda>rrow.
     bindM (ok_orM rrow (NotFound ''No active round'')) (\<lambda>round.
     bindM (dbM (find_instance_by_id instance_id)) (\<lambda>irow.
     bindM (ok_orM irow (Internal ''panic: unwrap on a missing instance'')) (\<lambda>pair.
     bindM (resolve_event_gamebox_spec (gi_event_gamebox_id (fst pair))) (\<lambda>resolved.
     process_submission env event_id (rd_id round) flag_issue_id (mb_team_id membership)
       victim_team_id instance_id user_id (eg_attack_score (fst resolved))
       (eg_first_bonus (fst resolved)) (eg_id (fst resolved))))))))))))))"

section \<open>WireGuard peers on the host\<close>

definition peer_op :: "awd_env \<Rightarrow> effect \<Rightarrow> unit awdop" where
  "peer_op env e = (\<lambda>w. (if env_peer_op env (w_log w) e then Inr () else Inl (Network ''wg failed''),
     w\<lparr>w_log := w_log w @ (if env_peer_op env (w_log w) e then [e] else [])\<rparr>))"

text \<open>The peers the host knows after a history of successful peer operations.\<close>

fun host_peers :: "effect list \<Rightarrow> string set" where
  "host_peers [] = {}"
| "host_peers (FxAddPeer k # es) = insert k (host_peers es)"
| "host_peers (FxRevokePeer k # es) = host_peers es - {k}"
| "host_peers (_ # es) = host_peers es"

definition peers_on_host :: "awd_world \<Rightarrow> string set" where
  "peers_on_host w = host_peers (rev (w_log w))"

definition suspend_team_peers_from_host :: "awd_env \<Rightarrow> uuid \<Rightarrow> uuid \<Rightarrow> unit awdop" where
  "suspend_team_peers_from_host env event_id team_id =
     bindM (dbM (find_by_event_id event_id)) (\<lambda>row.
     bindM (ok_orM row (NotFound ''AWD event'')) (\<lambda>_.
     bindM (require_event_network event_id) (\<lambda>_.
     bindM (readM (\<lambda>w. filter (\<lambda>p. wp_event_id p = event_id \<and> wp_team_id p = team_id) (w_peers w))) (\<lambda>peers.
       forM peers (\<lambda>p. peer_op env (FxRevokePeer (wp_public_key p)))))))"

definition restore_active_peers_to_host :: "awd_env \<Rightarrow> uuid \<Rightarrow> unit awdop" where
  "restore_active_peers_to_host env event_id =
     bindM (dbM (find_by_event_id event_id)) (\<lambda>row.
     bindM (ok_orM row (NotFound ''AWD event'')) (\<lambda>_.
     bindM (require_event_network event_id) (\<lambda>_.
     bindM (readM (\<lambda>w. filter (\<lambda>p. wp_event_id p = event_id \<and> wp_status p = WgActive) (w_peers w))) (\<lambda>peers.
       forM peers (\<lambda>p. peer_op env (FxAddPeer (wp_public_key p)))))))"

section \<open>Bans\<close>

definition sync_team_banned :: "uuid \<Rightarrow> uuid \<Rightarrow> bool \<Rightarrow> unit awdop" where
  "sync_team_banned event_id team_id b =
     modifyM (\<lambda>w. w\<lparr>w_teams := update_where (\<lambda>t. tm_id t = team_id \<and> tm_event_id t = event_id)
       (\<lambda>t. t\<lparr>tm_banned := b\<rparr>) (w_teams w)\<rparr>)"

definition ban_team :: "awd_env \<Rightarrow> uuid \<Rightarrow> uuid \<Rightarrow> string option \<Rightarrow> uuid option \<Rightarrow> uuid awdop" where
  "ban_team env event_id team_id reason banned_by =
     bindM (dbM (find_active_round event_id)) (\<lambda>active_round.
     bindM (dbM (create_ban event_id team_id reason (map_option rd_id active_round) banned_by)) (\<lambda>ban.
     bindM (sync_team_banned event_id team_id True) (\<lambda>_.
     bindM (suspend_team_peers_from_host env event_id team_id) (\<lambda>_.
     bindM next_network_revision (\<lambda>revision.
     bindM (reconcile_global env revision) (\<lambda>_.
     bindM (readM (\<lambda>w. List.find (\<lambda>t. tn_event_id t = event_id \<and> tn_team_id t = team_id) (w_team_networks w))) (\<lambda>net.
     bindM (if net \<noteq> None then emitM (FxFlushTeam event_id team_id) else returnM ()) (\<lambda>_.
     bindM (publish ''team.banned'' event_id) (\<lambda>_.
     returnM (bn_id ban))))))))))"

definition unban_team :: "awd_env \<Rightarrow> uuid \<Rightarrow> uuid \<Rightarrow> uuid option \<Rightarrow> unit awdop" where
  "unban_team env event_id team_id unbanned_by =
     bindM (dbM (find_active_ban event_id team_id)) (\<lambda>row.
     bindM (ok_orM row (NotFound ''No active ban found'')) (\<lambda>ban.
     bindM (dbM (complete_unban (bn_id ban) unbanned_by)) (\<lambda>_.
     bindM (sync_team_banned event_id team_id False) (\<lambda>_.
     bindM (restore_active_peers_to_host env event_id) (\<lambda>_.
     bindM next_network_revision (\<lambda>revision.
     bindM (reconcile_global env revision) (\<lambda>_.
       publish ''team.unbanned'' event_id)))))))"

end
