(* ===== verification/Awd_Judge_Api.thy ===== *)
theory Awd_Judge_Api
  imports Awd_Flag
begin

text \<open>
  The internal endpoints a JudgeServer calls (\<open>api/internal.rs\<close>): claiming tasks, renewing a lease
  and handing in a result, with the scoring of a Down verdict and the attempt to finish the event
  that follow it. The caller is the authenticated principal; the path's event identifier is ignored
  as in the source. The script and address fields of a claimed task's reply are presentation and
  are left out. Requests carry ASCII text.
\<close>

section \<open>Definitions\<close>

datatype internal_principal = FlagServer uuid | JudgeServer uuid

datatype app_error =
    AppForbidden string | AppNotFound string | AppBadRequest string | AppConflict string
  | AppDatabase db_err | AppRateLimited

type_synonym 'a apiop = "(awd_world, app_error, 'a) op"

definition apiM :: "'a dbop \<Rightarrow> 'a apiop" where
  "apiM = map_errM AppDatabase"

text \<open>A service call whose result is discarded.\<close>

definition fire :: "'a awdop \<Rightarrow> unit apiop" where
  "fire m = (\<lambda>w. (Inr (), snd (m w)))"

definition is_ws :: "char \<Rightarrow> bool" where
  "is_ws c \<longleftrightarrow> (of_char c :: nat) \<in> {9, 10, 11, 12, 13, 32}"

definition trim :: "string \<Rightarrow> string" where
  "trim s = rev (dropWhile is_ws (rev (dropWhile is_ws s)))"

definition judge_principal :: "internal_principal \<Rightarrow> uuid apiop" where
  "judge_principal p =
     (case p of JudgeServer event_id \<Rightarrow> returnM event_id
      | FlagServer _ \<Rightarrow> throwM (AppForbidden ''Not enough permission''))"

definition judge_claim ::
  "awd_env \<Rightarrow> internal_principal \<Rightarrow> bool \<Rightarrow> string \<Rightarrow> nat option \<Rightarrow> claimed_task list apiop" where
  "judge_claim env caller rate_ok raw_worker_id req_limit =
     bindM (judge_principal caller) (\<lambda>event_id.
     bindM (guardM rate_ok AppRateLimited) (\<lambda>_.
     let worker_id = trim raw_worker_id;
         limit = max (min (case req_limit of None \<Rightarrow> 5 | Some n \<Rightarrow> n) 20) 1 in
     bindM (guardM (worker_id \<noteq> [] \<and> length worker_id \<le> 256)
              (AppBadRequest ''worker_id must be 1-256 chars'')) (\<lambda>_.
     bindM nowM (\<lambda>now.
     bindM (attemptM (terminalize_past_deadline now)) (\<lambda>cleanup.
     let deadline_events = (case cleanup of Inl _ \<Rightarrow> [] | Inr es \<Rightarrow> es) in
     bindM (apiM (claim_tasks env event_id worker_id limit 120)) (\<lambda>claim_result.
     bindM (forM (sort (remdups (deadline_events @ snd claim_result)))
              (\<lambda>eid. fire (maybe_finish_event env eid))) (\<lambda>_.
     returnM (fst claim_result))))))))"

record lease_request =
  lr_worker_id :: string
  lr_attempt :: int
  lr_lease_token :: string

definition judge_heartbeat :: "awd_env \<Rightarrow> internal_principal \<Rightarrow> uuid \<Rightarrow> lease_request \<Rightarrow> unit apiop" where
  "judge_heartbeat env caller task_id req =
     bindM (judge_principal caller) (\<lambda>_.
     bindM nowM (\<lambda>now.
     bindM (apiM (heartbeat_task env task_id (lr_worker_id req) (lr_attempt req)
              (lr_lease_token req) 120 now)) (\<lambda>result.
     case result of
       HbOk \<Rightarrow> returnM ()
     | HbStale \<Rightarrow> throwM (AppConflict ''stale lease or attempt'')
     | HbNotFound \<Rightarrow> throwM (AppNotFound ''task not found''))))"

definition release_task_to_pending :: "uuid \<Rightarrow> unit dbop" where
  "release_task_to_pending task_id = update_task task_id release_to_pending"

text \<open>The score of a Down verdict; a duplicate key is ignored, any other error only logged.\<close>

definition score_judge_down :: "awd_env \<Rightarrow> uuid \<Rightarrow> judge_task \<Rightarrow> unit apiop" where
  "score_judge_down env event_id task =
     bindM (apiM (find_by_event_id event_id)) (\<lambda>row.
     bindM (ok_orM row (AppNotFound ''AWD event'')) (\<lambda>awd_event.
     let frozen = (ev_status awd_event \<noteq> EvRunning \<or> \<not> phase_allows_judge (ev_phase awd_event)) in
     bindM (if \<not> frozen
            then bindM (apiM (find_active_ban event_id (jt_team_id task))) (\<lambda>b. returnM (b \<noteq> None))
            else returnM False) (\<lambda>team_banned.
     if \<not> frozen \<and> \<not> team_banned then
       (case jt_event_gamebox_id task of
          None \<Rightarrow> returnM ()
        | Some egid \<Rightarrow>
            bindM (attemptM (resolve_event_gamebox_spec egid)) (\<lambda>resolved.
            case resolved of
              Inl _ \<Rightarrow> returnM ()
            | Inr spec \<Rightarrow>
                ignoreM (apiM (create_score_event event_id (Some (jt_round_id task)) (jt_team_id task)
                  ScJudgeDown (- eg_judge_down_penalty (fst spec))
                  (key_judge_down (env_uuid_text env (jt_id task))) None
                  (Some (jt_gamebox_instance_id task)) (Some egid) (Some ''judge check'')))))
     else returnM ())))"

datatype outcome = OutUp | OutDown | OutTargetTimeout | OutWorkerError | OutUnknown string

definition outcome_of :: "string \<Rightarrow> outcome" where
  "outcome_of s =
     (if s = ''up'' then OutUp else if s = ''down'' then OutDown
      else if s = ''target_timeout'' then OutTargetTimeout
      else if s = ''worker_error'' then OutWorkerError else OutUnknown s)"

definition submit_judged ::
  "awd_env \<Rightarrow> uuid \<Rightarrow> judge_task \<Rightarrow> lease_request \<Rightarrow> string \<Rightarrow> judge_task_status \<Rightarrow> result_payload \<Rightarrow>
   unit apiop" where
  "submit_judged env event_id task req result_id status p =
     bindM nowM (\<lambda>now.
     bindM (apiM (submit_result env (jt_id task) (lr_worker_id req) (lr_attempt req)
              (lr_lease_token req) result_id status p now)) (\<lambda>result.
     bindM (case result of
              SrOk \<Rightarrow> whenM (judge_is_down status) (score_judge_down env event_id task)
            | SrIdempotent \<Rightarrow> whenM (judge_is_down status) (score_judge_down env event_id task)
            | SrStale \<Rightarrow> throwM (AppConflict ''stale lease or attempt'')
            | SrNotFound \<Rightarrow> throwM (AppNotFound ''task not found'')) (\<lambda>_.
       fire (maybe_finish_event env event_id))))"

definition judge_result ::
  "awd_env \<Rightarrow> internal_principal \<Rightarrow> uuid \<Rightarrow> lease_request \<Rightarrow> string \<Rightarrow> string \<Rightarrow> result_payload \<Rightarrow>
   unit apiop" where
  "judge_result env caller task_id req result_id outcome p =
     bindM (judge_principal caller) (\<lambda>event_id.
     bindM (apiM (find_task_by_id task_id)) (\<lambda>row.
     bindM (ok_orM row (AppNotFound ''Judge task not found'')) (\<lambda>task.
     bindM (guardM (jt_event_id task = event_id) (AppForbidden ''Task does not belong to event'')) (\<lambda>_.
     bindM nowM (\<lambda>now.
     case outcome_of outcome of
       OutUp \<Rightarrow> submit_judged env event_id task req result_id JtUp p
     | OutDown \<Rightarrow> submit_judged env event_id task req result_id JtDown p
     | OutTargetTimeout \<Rightarrow> submit_judged env event_id task req result_id JtDown p
     | OutWorkerError \<Rightarrow>
         (if jt_attempt_count task < jt_max_attempts task \<and> now < jt_deadline_at task
          then apiM (release_task_to_pending task_id)
          else submit_judged env event_id task req result_id JtJudgeError p)
     | OutUnknown _ \<Rightarrow> throwM (AppBadRequest ''unknown outcome''))))))"

end
