(* ===== verification/Sched_Engine.thy ===== *)
theory Sched_Engine
  imports Awd_Db
begin

text \<open>
  The scheduler engine (\<open>scheduler/engine.rs\<close>): the registry of handlers, the query that takes the
  tasks that are due, the dispatch of one task and the bookkeeping after it, and the recovery at
  start-up. A task that was taken a few seconds early sleeps until its time; here a dispatch at an
  earlier instant does nothing. The cron library is a parameter: it answers an expression with a
  parse error or with the next instant, if any. A handler's run is not cut off by the engine's
  timeout, as handlers run at one instant. Task keys are typed, so every stored key parses.
\<close>

section \<open>Registry\<close>

type_synonym handler = "scheduled_task \<Rightarrow> unit awdop"
type_synonym registry = "task_key \<rightharpoonup> handler"
type_synonym cron_lib = "string \<Rightarrow> timestamp \<Rightarrow> string + timestamp option"

definition register :: "task_key \<Rightarrow> handler \<Rightarrow> registry \<Rightarrow> string + registry" where
  "register key h reg =
     (if reg key \<noteq> None then Inl (''duplicate scheduled task handler: '' @ task_key_as_str key)
      else Inr (reg(key \<mapsto> h)))"

section \<open>Taking due tasks\<close>

text \<open>The tasks the query selects: pending, enabled, due within five seconds, earliest first, at most 20.\<close>

definition is_due :: "timestamp \<Rightarrow> scheduled_task \<Rightarrow> bool" where
  "is_due now t \<longleftrightarrow> st_status t = TsPending \<and> st_enabled t \<and>
     (case st_execute_at t of None \<Rightarrow> False | Some x \<Rightarrow> x \<le> now + seconds 5)"

definition select_due :: "timestamp \<Rightarrow> scheduled_task list \<Rightarrow> scheduled_task list" where
  "select_due now ts = take 20 (sort_key (\<lambda>t. the (st_execute_at t)) (filter (is_due now) ts))"

definition mark_running :: "scheduled_task \<Rightarrow> scheduled_task" where
  "mark_running t = t\<lparr>st_status := TsRunning\<rparr>"

definition fetch_due :: "scheduled_task list dbop" where
  "fetch_due = (\<lambda>w.
     let chosen = select_due (w_now w) (w_sched w) in
     (Inr (map mark_running chosen),
      w\<lparr>w_sched := update_where (\<lambda>t. st_id t \<in> set (map st_id chosen)) mark_running (w_sched w)\<rparr>))"

section \<open>Running a task\<close>

definition is_expired :: "timestamp option \<Rightarrow> timestamp \<Rightarrow> bool" where
  "is_expired expires_at now = (case expires_at of None \<Rightarrow> False | Some deadline \<Rightarrow> deadline < now)"

definition saturating_succ_i32 :: "int \<Rightarrow> int" where
  "saturating_succ_i32 x = min (x + 1) (2 ^ 31 - 1)"

text \<open>What a finished run writes into the task's row; \<open>task\<close> is the row as it was taken.\<close>

definition after_failure :: "timestamp \<Rightarrow> scheduled_task \<Rightarrow> scheduled_task \<Rightarrow> scheduled_task" where
  "after_failure now task row =
     (let attempts = saturating_succ_i32 (st_attempt_count task);
          max_attempts = max (st_max_attempts task) 1 in
      if attempts < max_attempts
      then row\<lparr>st_attempt_count := attempts, st_status := TsPending,
               st_execute_at := Some (now + seconds (30 * attempts))\<rparr>
      else row\<lparr>st_attempt_count := attempts, st_status := TsFailed\<rparr>)"

definition after_success :: "cron_lib \<Rightarrow> timestamp \<Rightarrow> scheduled_task \<Rightarrow> scheduled_task \<Rightarrow> scheduled_task" where
  "after_success cron now task row0 =
     (let row = row0\<lparr>st_attempt_count := 0\<rparr> in
      case st_trigger_type task of
        TrCron \<Rightarrow>
          (case st_cron_expr task of
             None \<Rightarrow> row
           | Some cron_expr \<Rightarrow>
               (case cron cron_expr now of
                  Inl _ \<Rightarrow> row\<lparr>st_status := TsFailed\<rparr>
                | Inr None \<Rightarrow> row\<lparr>st_status := TsCompleted\<rparr>
                | Inr (Some next_time) \<Rightarrow>
                    if (case st_expires_at task of None \<Rightarrow> False | Some end_time \<Rightarrow> next_time > end_time)
                    then row\<lparr>st_status := TsCompleted\<rparr>
                    else row\<lparr>st_execute_at := Some next_time, st_status := TsPending\<rparr>))
      | TrStartup \<Rightarrow> row\<lparr>st_status := TsCompleted\<rparr>
      | TrOnce \<Rightarrow> row\<lparr>st_status := TsCompleted\<rparr>)"

definition mark_done :: "cron_lib \<Rightarrow> scheduled_task \<Rightarrow> awd_error + unit \<Rightarrow> unit awdop" where
  "mark_done cron task res =
     bindM nowM (\<lambda>now.
       ignoreM (dbM (update_pk w_sched w_sched_update st_id (st_id task)
         (case res of Inl _ \<Rightarrow> after_failure now task | Inr _ \<Rightarrow> after_success cron now task))))"

definition dispatch_with_precision :: "cron_lib \<Rightarrow> registry \<Rightarrow> scheduled_task \<Rightarrow> unit awdop" where
  "dispatch_with_precision cron reg task =
     (if \<not> st_enabled task then returnM ()
      else bindM nowM (\<lambda>now.
        if (case st_execute_at task of None \<Rightarrow> False | Some target_time \<Rightarrow> target_time > now)
        then returnM ()
        else if is_expired (st_expires_at task) now then mark_done cron task (Inr ())
        else case reg (st_task_key task) of
            None \<Rightarrow> mark_done cron task (Inl (Internal ''no handler registered''))
          | Some h \<Rightarrow> bindM (attemptM (h task)) (\<lambda>result. mark_done cron task result)))"

section \<open>Recovery at start-up\<close>

definition recover_running :: "unit awdop" where
  "recover_running = modifyM (\<lambda>w. w\<lparr>w_sched :=
     update_where (\<lambda>t. st_status t = TsRunning) (\<lambda>t. t\<lparr>st_status := TsPending\<rparr>) (w_sched w)\<rparr>)"

definition recover_recurring_task :: "cron_lib \<Rightarrow> scheduled_task \<Rightarrow> bool dbop" where
  "recover_recurring_task cron task =
     (case st_cron_expr task of
        None \<Rightarrow> returnM False
      | Some cron_expr \<Rightarrow>
          bindM nowM (\<lambda>now.
          case cron cron_expr now of
            Inl _ \<Rightarrow> returnM False
          | Inr None \<Rightarrow> returnM False
          | Inr (Some next_time) \<Rightarrow>
              bindM (update_pk w_sched w_sched_update st_id (st_id task) (\<lambda>t. t\<lparr>st_status := TsPending,
                st_execute_at := Some next_time, st_attempt_count := 0\<rparr>)) (\<lambda>_. returnM True)))"

definition init_and_recover :: "cron_lib \<Rightarrow> registry \<Rightarrow> scheduled_task list awdop" where
  "init_and_recover cron reg =
     bindM recover_running (\<lambda>_.
     bindM (readM (\<lambda>w. filter (\<lambda>t. st_status t = TsFailed \<and> st_trigger_type t = TrCron \<and>
              st_protected t \<and> st_enabled t) (w_sched w))) (\<lambda>failed_cron.
     bindM (forM failed_cron (\<lambda>t. ignoreM (dbM (recover_recurring_task cron t)))) (\<lambda>_.
     bindM (readM (\<lambda>w. filter (\<lambda>t. st_trigger_type t = TrStartup) (w_sched w))) (\<lambda>startup_tasks.
     bindM (forM startup_tasks (dispatch_with_precision cron reg)) (\<lambda>_.
     dbM fetch_due)))))"

definition validate_enabled_task_keys :: "registry \<Rightarrow> unit awdop" where
  "validate_enabled_task_keys reg =
     bindM (readM (\<lambda>w. filter (\<lambda>t. st_enabled t \<and> st_status t \<in> {TsPending, TsRunning} \<and>
              reg (st_task_key t) = None) (w_sched w))) (\<lambda>invalid.
     guardM (invalid = []) (Internal ''enabled scheduled tasks have invalid handlers''))"

section \<open>Properties\<close>

lemma is_due_mark_running [simp]: "\<not> is_due now (mark_running t)"
  by (simp add: is_due_def mark_running_def)

lemma select_due_subset: "set (select_due now ts) \<subseteq> {t \<in> set ts. is_due now t}"
  unfolding select_due_def using set_take_subset by fastforce


lemma mark_running_fields [simp]:
  "st_id (mark_running t) = st_id t" "st_execute_at (mark_running t) = st_execute_at t"
  "st_status (mark_running t) = TsRunning" "st_task_key (mark_running t) = st_task_key t"
  by (simp_all add: mark_running_def)

lemma sorted_take_le:
  assumes "sorted (map k xs)" "x \<in> set (take n xs)" "y \<in> set xs" "y \<notin> set (take n xs)"
  shows "k x \<le> k y"
proof -
  have "sorted (map k (take n xs) @ map k (drop n xs))"
    using assms(1) by (metis append_take_drop_id map_append)
  moreover have "y \<in> set (drop n xs)"
    using assms(3,4) by (metis Un_iff append_take_drop_id set_append)
  ultimately show ?thesis using assms(2) by (auto simp: sorted_append)
qed

lemma select_due_spec:
  assumes "distinct (map st_id ts)"
  shows "length (select_due now ts) \<le> 20" "distinct (map st_id (select_due now ts))"
    "t \<in> set (select_due now ts) \<Longrightarrow> u \<in> set ts \<Longrightarrow> is_due now u \<Longrightarrow> u \<notin> set (select_due now ts) \<Longrightarrow>
       the (st_execute_at t) \<le> the (st_execute_at u)"
    "length (filter (is_due now) ts) \<le> 20 \<Longrightarrow> set (select_due now ts) = {t \<in> set ts. is_due now t}"
proof -
  let ?s = "sort_key (\<lambda>t. the (st_execute_at t)) (filter (is_due now) ts)"
  show "length (select_due now ts) \<le> 20" by (simp add: select_due_def)
  have "distinct (map st_id (filter (is_due now) ts))" using assms by (rule distinct_map_filter)
  then have "distinct (map st_id ?s)" by (simp add: distinct_map)
  then show "distinct (map st_id (select_due now ts))"
    by (simp add: select_due_def take_map [symmetric] distinct_take)
  show "the (st_execute_at t) \<le> the (st_execute_at u)"
    if "t \<in> set (select_due now ts)" "u \<in> set ts" "is_due now u" "u \<notin> set (select_due now ts)"
    using that by (intro sorted_take_le [of "\<lambda>t. the (st_execute_at t)" ?s _ 20]) (auto simp: select_due_def)
  show "set (select_due now ts) = {t \<in> set ts. is_due now t}" if "length (filter (is_due now) ts) \<le> 20"
    using that by (simp add: select_due_def)
qed

lemma same_id_same_task: "distinct (map st_id ts) \<Longrightarrow> t \<in> set ts \<Longrightarrow> u \<in> set ts \<Longrightarrow> st_id t = st_id u \<Longrightarrow> t = u"
  by (auto simp: distinct_map dest: inj_onD)



text \<open>A failed run, as the engine performs it on the row it has taken.\<close>

fun failed_runs :: "(nat \<Rightarrow> timestamp) \<Rightarrow> nat \<Rightarrow> scheduled_task \<Rightarrow> scheduled_task" where
  "failed_runs clock 0 t = t"
| "failed_runs clock (Suc n) t =
     (let u = mark_running (failed_runs clock n t) in after_failure (clock n) u u)"

lemma failed_runs_spec:
  assumes "st_attempt_count t = 0" "st_max_attempts t < 2 ^ 31"
    "int n \<le> max (st_max_attempts t) 1"
  shows "st_attempt_count (failed_runs clock n t) = int n"
    "st_max_attempts (failed_runs clock n t) = st_max_attempts t"
    "st_id (failed_runs clock n t) = st_id t"
    "0 < n \<Longrightarrow> st_status (failed_runs clock n t) =
       (if int n < max (st_max_attempts t) 1 then TsPending else TsFailed)"
  using assms
proof (induction n)
  case (Suc n)
  { case 1 then show ?case using Suc by (simp add: after_failure_def saturating_succ_i32_def mark_running_def Let_def) }
  { case 2 then show ?case using Suc by (simp add: after_failure_def mark_running_def Let_def) }
  { case 3 then show ?case using Suc by (simp add: after_failure_def Let_def) }
  { case 4 then show ?case using Suc by (auto simp: after_failure_def saturating_succ_i32_def mark_running_def Let_def max_def) }
qed simp_all


lemma w_sched_edit: "w_sched_update f w = w\<lparr>w_sched := f (w_sched w)\<rparr>"
  by (cases w) simp

lemma mark_done_run:
  "mark_done cron task res w =
     (Inr (), w\<lparr>w_sched := update_where (\<lambda>r. st_id r = st_id task)
        (case res of Inl _ \<Rightarrow> after_failure (w_now w) task | Inr _ \<Rightarrow> after_success cron (w_now w) task) (w_sched w)\<rparr>)"
proof (cases "\<exists>r \<in> set (w_sched w). st_id r = st_id task")
  case True
  then show ?thesis
    by (simp add: mark_done_def bindM_run nowM_run ignoreM_run dbM_run update_pk_def w_sched_edit [of "update_where _ _"])
next
  case False
  then have "update_where (\<lambda>r. st_id r = st_id task) f (w_sched w) = w_sched w" for f
    by (auto simp: update_where_def intro!: map_idI)
  then show ?thesis
    using False by (simp add: mark_done_def bindM_run nowM_run ignoreM_run dbM_run update_pk_def)
qed

definition run_outcome :: "registry \<Rightarrow> scheduled_task \<Rightarrow> awd_world \<Rightarrow> (awd_error + unit) \<times> awd_world" where
  "run_outcome reg t w =
     (if is_expired (st_expires_at t) (w_now w) then (Inr (), w)
      else case reg (st_task_key t) of None \<Rightarrow> (Inl (Internal ''no handler registered''), w) | Some h \<Rightarrow> h t w)"

lemma dispatch_run:
  assumes "st_enabled t" "st_execute_at t = Some x" "x \<le> w_now w"
  shows "dispatch_with_precision cron reg t w = mark_done cron t (fst (run_outcome reg t w)) (snd (run_outcome reg t w))"
  using assms
  by (cases "reg (st_task_key t)")
     (simp_all add: dispatch_with_precision_def run_outcome_def bindM_run nowM_run attemptM_run)

lemma after_success_status:
  assumes "st_trigger_type t = TrCron \<longrightarrow> st_cron_expr t \<noteq> None"
  shows "st_status (after_success cron now t r) \<noteq> TsRunning"
    "st_trigger_type t \<noteq> TrCron \<Longrightarrow> st_status (after_success cron now t r) = TsCompleted"
  using assms
  by (auto simp: after_success_def Let_def split: trigger_type.splits option.splits sum.splits)

text \<open>
  C36. No task stays taken: dispatching a due task whose handler leaves the task's own row alone always
  succeeds and releases the row. An expired task, and one without a handler, changes nothing but
  that row; otherwise the state is the one the handler's single run leaves. A task that is not
  periodic is completed when the run succeeded or the task had expired; after a failure it is pending
  again, to be taken half a minute per attempt later, while attempts remain, and failed for good when
  none does. (A periodic task without an expression is the exception: its row stays running.)
\<close>

theorem dispatch_releases:
  assumes due: "st_enabled t" "st_execute_at t = Some x" "x \<le> w_now w"
    and row: "List.find (\<lambda>r. st_id r = st_id t) (w_sched (snd (run_outcome reg t w))) = Some t"
    and cron_ok: "st_trigger_type t = TrCron \<longrightarrow> st_cron_expr t \<noteq> None"
    and small: "st_attempt_count t + 1 < 2 ^ 31"
  shows "\<exists>w' r'. dispatch_with_precision cron reg t w = (Inr (), w')
    \<and> List.find (\<lambda>r. st_id r = st_id t) (w_sched w') = Some r' \<and> st_status r' \<noteq> TsRunning
    \<and> w'\<lparr>w_sched := []\<rparr> = (snd (run_outcome reg t w))\<lparr>w_sched := []\<rparr>
    \<and> (is_expired (st_expires_at t) (w_now w) \<or> reg (st_task_key t) = None \<longrightarrow> snd (run_outcome reg t w) = w)
    \<and> (fst (run_outcome reg t w) = Inr () \<and> st_trigger_type t \<noteq> TrCron \<longrightarrow> st_status r' = TsCompleted)
    \<and> (\<forall>e. fst (run_outcome reg t w) = Inl e \<longrightarrow>
         st_attempt_count r' = st_attempt_count t + 1 \<and>
         (if st_attempt_count r' < max (st_max_attempts t) 1
          then st_status r' = TsPending
            \<and> st_execute_at r' = Some (w_now (snd (run_outcome reg t w)) + seconds (30 * st_attempt_count r'))
          else st_status r' = TsFailed))"
proof -
  let ?o = "run_outcome reg t w"
  let ?f = "case fst ?o of Inl _ \<Rightarrow> after_failure (w_now (snd ?o)) t | Inr _ \<Rightarrow> after_success cron (w_now (snd ?o)) t"
  let ?w' = "(snd ?o)\<lparr>w_sched := update_where (\<lambda>r. st_id r = st_id t) ?f (w_sched (snd ?o))\<rparr>"
  have run: "dispatch_with_precision cron reg t w = (Inr (), ?w')"
    using dispatch_run [OF due] by (simp add: mark_done_run)
  have idf: "st_id (after_failure n t r) = st_id r" "st_id (after_success cron n t r) = st_id r" for n r
    by (auto simp: after_failure_def after_success_def Let_def
        split: trigger_type.splits option.splits sum.splits)
  have found: "List.find (\<lambda>r. st_id r = st_id t) (w_sched ?w') = Some (?f t)"
    using row by (simp add: find_update_where idf split: sum.splits)
  have same: "snd ?o = w" if "is_expired (st_expires_at t) (w_now w) \<or> reg (st_task_key t) = None"
    using that by (auto simp: run_outcome_def)
  show ?thesis
    using small after_success_status [OF cron_ok] same
    by (intro exI [of _ ?w'] exI [of _ "?f t"] conjI run found)
       (auto simp: after_failure_def saturating_succ_i32_def Let_def split: sum.splits)
qed


definition sample_sched :: scheduled_task where
  "sample_sched = once_task 5 1 AwdRoundEnd (seconds 10) None (Some 21) None None"



theorem dispatch_releases_witness:
  "\<exists>w' r'. dispatch_with_precision (\<lambda>_ _. Inr None) [AwdRoundEnd \<mapsto> (\<lambda>_. throwM (Conflict ''busy''))] sample_sched
       (empty_world\<lparr>w_now := seconds 10, w_sched := [sample_sched]\<rparr>) = (Inr (), w')
     \<and> List.find (\<lambda>r. st_id r = 5) (w_sched w') = Some r' \<and> st_status r' = TsPending
     \<and> st_execute_at r' = Some (seconds 10 + seconds 30)"
  using dispatch_releases [of sample_sched "seconds 10" "empty_world\<lparr>w_now := seconds 10, w_sched := [sample_sched]\<rparr>"
      "[AwdRoundEnd \<mapsto> (\<lambda>_. throwM (Conflict ''busy''))]" "\<lambda>_ _. Inr None"]
  by (auto simp: sample_sched_def once_task_def run_outcome_def is_expired_def throwM_run)

end
