(* ===== verification/Awd_Lifecycle_Facts.thy ===== *)
theory Awd_Lifecycle_Facts
  imports Awd_Lifecycle
begin

text \<open>
  What the lifecycle guarantees: when an event starts and what stops it, when it finishes, how one
  round follows the other, what the last one closes, and that a pause keeps the hardening time.
\<close>

section \<open>How rounds start and events finish\<close>

definition new_round :: "uuid \<Rightarrow> uuid \<Rightarrow> int \<Rightarrow> timestamp \<Rightarrow> timestamp \<Rightarrow> awd_round" where
  "new_round k event_id n now end_at =
     \<lparr>rd_id = k, rd_event_id = event_id, rd_round_number = n, rd_status = RdActive,
      rd_phase = PhAttack, rd_started_at = now, rd_scheduled_end_at = end_at, rd_paused_at = None,
      rd_remaining_secs = None, rd_completed_at = None\<rparr>"

lemma next_round_number_run: "next_round_number i n w = (Inr (case n of Some k \<Rightarrow> if 1 \<le> k then k else
     (case latest_round w i of None \<Rightarrow> 1 | Some r \<Rightarrow> as_i32 (rd_round_number r + 1))
   | None \<Rightarrow> (case latest_round w i of None \<Rightarrow> 1 | Some r \<Rightarrow> as_i32 (rd_round_number r + 1))), w)"
  by (simp add: next_round_number_def op_defs find_latest_round_run split: option.splits)

lemma create_round_run: "create_round i k ph at w =
  (let r = \<lparr>rd_id = w_next_id w, rd_event_id = i, rd_round_number = k, rd_status = RdActive, rd_phase = ph, rd_started_at = w_now w,
         rd_scheduled_end_at = at, rd_paused_at = None, rd_remaining_secs = None, rd_completed_at = None\<rparr>;
       w1 = w\<lparr>w_next_id := Suc (w_next_id w)\<rparr> in
   if rounds_unique (w_rounds w @ [r]) then (Inr r, w1\<lparr>w_rounds := w_rounds w @ [r]\<rparr>) else (Inl UniqueViolation, w1))"
  by (simp add: create_round_def insert_round_def op_defs new_uuid_run nowM_run Let_def)

lemma schedule_round_task_run:
  "key \<notin> {AwdEventStart, AwdAutoPrecheck} \<Longrightarrow> schedule_round_task i key at rid n w =
   (Inr (), w\<lparr>w_next_id := Suc (w_next_id w), w_sched := w_sched w @ [once_task (w_next_id w) i key at None rid n None]\<rparr>)"
  by (simp add: schedule_round_task_def op_defs new_uuid_run insert_task_other)

lemma start_round_txn_run:
  "start_round_txn i n w =
     (case List.find (\<lambda>e. ev_event_id e = i) (w_events w) of
        None \<Rightarrow> (Inl (NotFound ''AWD event''), w)
      | Some e \<Rightarrow>
          if ev_status e \<noteq> EvRunning then (Inl (InvalidState ''Cannot start round in this status''), w)
          else if ev_phase e \<noteq> PhAttack then (Inl (InvalidState ''Cannot start round outside Attack phase''), w)
          else
            (let k = (case fst (next_round_number i n w) of Inr k \<Rightarrow> k | Inl _ \<Rightarrow> 0);
                 at = w_now w + seconds (ev_round_duration_secs e);
                 r = new_round (w_next_id w) i k (w_now w) at in
             case List.find (\<lambda>r. rd_event_id r = i \<and> rd_round_number r = k) (w_rounds w) of
               Some r \<Rightarrow> (Inr (r, False), w)
             | None \<Rightarrow>
                 if rounds_unique (w_rounds w @ [r])
                 then (Inr (r, True), w\<lparr>w_next_id := Suc (Suc (w_next_id w)), w_rounds := w_rounds w @ [r],
                         w_sched := w_sched w @ [once_task (Suc (w_next_id w)) i AwdRoundEnd at None (Some (w_next_id w)) None None]\<rparr>)
                 else (Inl (Database UniqueViolation), w)))"
proof (cases "List.find (\<lambda>e. ev_event_id e = i) (w_events w)")
  case (Some e)
  obtain k where k: "next_round_number i n w = (Inr k, w)" by (simp add: next_round_number_run)
  show ?thesis
    by (cases "List.find (\<lambda>r. rd_event_id r = i \<and> rd_round_number r = k) (w_rounds w)")
       (simp_all add: start_round_txn_def Some k txnM_run bindM_run dbM_run find_by_event_id_run ok_orM_run guardM_run readM_run
         nowM_run create_round_run schedule_round_task_run returnM_run new_round_def Let_def)
qed (simp add: start_round_txn_def txnM_run bindM_run dbM_run find_by_event_id_run ok_orM_run)

lemma start_round_txn_new:
  assumes ev: "List.find (\<lambda>e. ev_event_id e = i) (w_events w) = Some e"
    and run: "ev_status e = EvRunning" "ev_phase e = PhAttack" and n: "1 \<le> n"
    and uniq: "rounds_unique (w_rounds w)"
    and fresh: "\<forall>r \<in> set (w_rounds w). rd_event_id r = i \<longrightarrow> rd_round_number r \<noteq> n \<and> rd_status r \<noteq> RdActive"
  shows "start_round_txn i (Some n) w =
    (let k = w_next_id w; end_at = w_now w + seconds (ev_round_duration_secs e);
         r = new_round k i n (w_now w) end_at in
     (Inr (r, True), w\<lparr>w_next_id := k + 2, w_rounds := w_rounds w @ [r],
        w_sched := w_sched w @ [once_task (k + 1) i AwdRoundEnd end_at None (Some k) None None]\<rparr>))"
proof -
  have none: "List.find (\<lambda>r. rd_event_id r = i \<and> rd_round_number r = n) (w_rounds w) = None"
    using fresh by (auto simp: find_None_iff)
  have "rounds_unique (w_rounds w @ [new_round (w_next_id w) i n (w_now w)
      (w_now w + seconds (ev_round_duration_secs e))])"
    using uniq fresh by (intro rounds_unique_snoc) (auto simp: new_round_def)
  then show ?thesis
    using ev run n none by (simp add: start_round_txn_run next_round_number_run Let_def)
qed

lemma start_round_txn_existing:
  assumes ev: "List.find (\<lambda>e. ev_event_id e = i) (w_events w) = Some e"
    and run: "ev_status e = EvRunning" "ev_phase e = PhAttack" and n: "1 \<le> n"
    and ex: "List.find (\<lambda>r. rd_event_id r = i \<and> rd_round_number r = n) (w_rounds w) = Some r"
  shows "start_round_txn i (Some n) w = (Inr (r, False), w)"
  using assms by (simp add: start_round_txn_run next_round_number_run)

text \<open>After its transaction a round start only informs the firewall and the listeners.\<close>

lemma start_round_after_txn:
  assumes "start_round_txn i n w = (Inr rc, w1)"
  shows "\<exists>res w'. start_round env i n w = (res, w') \<and> same_tables w1 w' \<and> w_next_id w' = w_next_id w1"
  using assms
  by (auto simp: start_round_def op_defs run_simps Let_def same_tables_def split: option.splits)

lemma start_round_txn_failed:
  "start_round_txn i n w = (Inl e, w1) \<Longrightarrow> start_round env i n w = (Inl e, w1)"
  by (simp add: start_round_def op_defs)


lemma maybe_finish_event_run:
  assumes ev: "List.find (\<lambda>e. ev_event_id e = i) (w_events w) = Some e"
    and own: "List.find (\<lambda>x. ev_id x = ev_id e) (w_events w) = Some e"
  shows "\<exists>w'. maybe_finish_event env i w = (Inr (), w') \<and>
    (if is_final_settlement e (latest_round w i)
        \<and> (\<forall>t \<in> set (w_tasks w). jt_event_id t = i \<longrightarrow> judge_is_terminal (jt_status t))
     then same_tables (w\<lparr>w_events := update_where (\<lambda>x. ev_id x = ev_id e)
            (active_model_from_patch EvFinished (patch_finished (w_now w)) (w_now w)) (w_events w)\<rparr>) w'
     else w' = w)"
proof (cases "is_final_settlement e (latest_round w i)")
  case False
  then show ?thesis
    using ev by (simp add: maybe_finish_event_def op_defs dbM_run find_by_event_id_run find_latest_round_run)
next
  case True
  then have run: "ev_status e = EvRunning" by (simp add: is_final_settlement_def split: if_splits)
  have "judge_is_terminal s \<longleftrightarrow> s \<notin> {JtPending, JtRunning}" for s
    by (cases s) (auto simp: judge_is_terminal_def)
  then have all: "(filter (\<lambda>t. jt_event_id t = i \<and> open_task t) (w_tasks w) = [])
      = (\<forall>t \<in> set (w_tasks w). jt_event_id t = i \<longrightarrow> judge_is_terminal (jt_status t))"
    by (auto simp: filter_empty_conv open_task_def)
  show ?thesis
    using ev own True run
    by (auto simp: maybe_finish_event_def op_defs run_simps all all_event_judge_tasks_terminal_def Let_def
        same_tables_def split: option.splits)
qed


section \<open>Properties of starting\<close>

text \<open>What the verification gate asks of a row.\<close>

definition verified_now :: "awd_event \<Rightarrow> bool" where
  "verified_now e \<longleftrightarrow> ev_status e = EvVerified \<and> ev_verified_at e \<noteq> None \<and>
     ev_verified_generation e = Some (ev_configuration_generation e)"

text \<open>
  Starting is refused, on every path on which it must be: an event that is not verified (or has
  no verification time) is left untouched; an event whose configuration changed since its
  verification is sent to StartBlocked, loses its verification and nothing else changes; an event
  without a calendar entry, or whose times admit no timing, is left untouched.
\<close>

lemma start_refused:
  assumes ids: "distinct (map ev_id (w_events w))"
    and ev: "List.find (\<lambda>x. ev_event_id x = i) (w_events w) = Some e"
  shows "(ev_status e \<noteq> EvVerified \<or> ev_verified_at e = None \<longrightarrow> (\<exists>x. start_event env i w = (Inl x, w)))
    \<and> (ev_status e = EvVerified \<and> ev_verified_at e \<noteq> None \<and>
         ev_verified_generation e \<noteq> Some (ev_configuration_generation e) \<longrightarrow>
         (\<exists>x f. start_event env i w =
            (Inl x, w\<lparr>w_events := update_where (\<lambda>y. ev_id y = ev_id e) f (w_events w)\<rparr>)
          \<and> ev_status (f e) = EvStartBlocked \<and> ev_verified_at (f e) = None \<and> ev_verified_generation (f e) = None
          \<and> ev_phase (f e) = ev_phase e \<and> ev_started_at (f e) = ev_started_at e))
    \<and> (verified_now e \<and> (case List.find (\<lambda>g. ge_id g = i) (w_generic_events w) of
           None \<Rightarrow> True
         | Some g \<Rightarrow> (\<exists>x. compute_timing (ge_start_time g) (ge_end_time g) (ev_round_count e)
                        (ev_round_duration_secs e) = Inl x)) \<longrightarrow>
         (\<exists>x. start_event env i w = (Inl x, w)))"
proof (intro conjI impI)
  assume "ev_status e \<noteq> EvVerified \<or> ev_verified_at e = None"
  then show "\<exists>x. start_event env i w = (Inl x, w)"
    using ev by (auto simp: start_event_def op_defs run_simps)
next
  assume a: "ev_status e = EvVerified \<and> ev_verified_at e \<noteq> None \<and>
    ev_verified_generation e \<noteq> Some (ev_configuration_generation e)"
  let ?f = "active_model_from_patch EvStartBlocked patch_config_changed (w_now w)"
  have "start_event env i w = (Inl (InvalidState ''AWD_CONFIG_CHANGED''),
      w\<lparr>w_events := update_where (\<lambda>y. ev_id y = ev_id e) ?f (w_events w)\<rparr>)"
    using ev find_own_row [OF ids ev] a
    by (auto simp: start_event_def op_defs run_simps split: option.splits)
  then show "\<exists>x f. start_event env i w =
            (Inl x, w\<lparr>w_events := update_where (\<lambda>y. ev_id y = ev_id e) f (w_events w)\<rparr>)
          \<and> ev_status (f e) = EvStartBlocked \<and> ev_verified_at (f e) = None \<and> ev_verified_generation (f e) = None
          \<and> ev_phase (f e) = ev_phase e \<and> ev_started_at (f e) = ev_started_at e"
    by (intro exI conjI, assumption)
       (simp_all add: active_model_from_patch_def patch_config_changed_def patch_default_def)
next
  assume "verified_now e \<and> (case List.find (\<lambda>g. ge_id g = i) (w_generic_events w) of
           None \<Rightarrow> True
         | Some g \<Rightarrow> (\<exists>x. compute_timing (ge_start_time g) (ge_end_time g) (ev_round_count e)
                        (ev_round_duration_secs e) = Inl x))"
  then show "\<exists>x. start_event env i w = (Inl x, w)"
    using ev by (auto simp: start_event_def op_defs run_simps verified_now_def split: option.splits)
qed


lemma start_event_hardening_run:
  assumes ids: "distinct (map ev_id (w_events w))"
    and ev: "List.find (\<lambda>x. ev_event_id x = i) (w_events w) = Some e" and v: "verified_now e"
    and g: "List.find (\<lambda>g. ge_id g = i) (w_generic_events w) = Some g"
    and tm: "compute_timing (ge_start_time g) (ge_end_time g) (ev_round_count e)
      (ev_round_duration_secs e) = Inr tm" and h: "0 < hardening_duration_secs tm"
  shows "\<exists>k w'. start_event env i w = (Inr (), w') \<and>
    (let end_at = w_now w + seconds (hardening_duration_secs tm);
         s = snd (seed_initial_scores env i (ev_initial_score e) w) in
     same_tables (s\<lparr>w_events := update_where (\<lambda>x. ev_id x = ev_id e)
         (active_model_from_patch EvRunning (patch_default\<lparr>tp_phase := Some PhHardening,
            tp_started_at := Some (w_now w), tp_hardening_ends_at := Some (Some end_at)\<rparr>) (w_now w)) (w_events w),
       w_sched := w_sched w @ [once_task k i AwdHardeningEnd end_at None None None None]\<rparr>) w')"
  using ev find_own_row [OF ids ev] v g tm h
  by (intro exI [of _ "w_next_id (snd (seed_initial_scores env i (ev_initial_score e) w))"])
     (auto simp: start_event_def op_defs run_simps verified_now_def seed_initial_scores_run
      schedule_hardening_end_def Let_def same_tables_def split: option.splits)

lemma start_event_attack_run:
  assumes ids: "distinct (map ev_id (w_events w))"
    and ev: "List.find (\<lambda>x. ev_event_id x = i) (w_events w) = Some e" and v: "verified_now e"
    and g: "List.find (\<lambda>g. ge_id g = i) (w_generic_events w) = Some g"
    and tm: "compute_timing (ge_start_time g) (ge_end_time g) (ev_round_count e)
      (ev_round_duration_secs e) = Inr tm" and h: "\<not> 0 < hardening_duration_secs tm"
    and rs: "rounds_unique (w_rounds w)" "\<forall>r \<in> set (w_rounds w). rd_event_id r \<noteq> i"
  shows "\<exists>res w' k. start_event env i w = (res, w') \<and>
    (let end_at = w_now w + seconds (ev_round_duration_secs e);
         s = snd (seed_initial_scores env i (ev_initial_score e) w) in
     same_tables (s\<lparr>w_events := update_where (\<lambda>x. ev_id x = ev_id e)
         (active_model_from_patch EvRunning (patch_default\<lparr>tp_phase := Some PhAttack,
            tp_started_at := Some (w_now w)\<rparr>) (w_now w)) (w_events w),
       w_rounds := w_rounds w @ [new_round k i 1 (w_now w) end_at],
       w_sched := w_sched w @ [once_task (k + 1) i AwdRoundEnd end_at None (Some k) None None]\<rparr>) w')"
proof -
  let ?s = "snd (seed_initial_scores env i (ev_initial_score e) w)"
  let ?f = "active_model_from_patch EvRunning (patch_default\<lparr>tp_phase := Some PhAttack,
      tp_started_at := Some (w_now w)\<rparr>) (w_now w)"
  let ?ev = "update_where (\<lambda>x. ev_id x = ev_id e) ?f (w_events w)"
  define w2 where "w2 = snd (reconcile_global env (w_network_revision ?s + 1)
      (?s\<lparr>w_events := ?ev, w_network_revision := w_network_revision ?s + 1\<rparr>))"
  have fields: "w_events w2 = ?ev" "w_rounds w2 = w_rounds w" "w_sched w2 = w_sched w" "w_now w2 = w_now w"
    by (simp_all add: w2_def reconcile_global_run seed_initial_scores_run Let_def)
  have run: "start_event env i w = bindM (start_round env i (Some 1)) (\<lambda>_. returnM ()) w2"
    using ev find_own_row [OF ids ev] v g tm h
    by (auto simp: start_event_def op_defs run_simps verified_now_def seed_initial_scores_run
        w2_def Let_def split: option.splits)
  have found: "List.find (\<lambda>x. ev_event_id x = i) (w_events w2) = Some (?f e)"
    unfolding fields using ev by (rule find_patched)
  have "start_round_txn i (Some 1) w2 =
    (let k = w_next_id w2; end_at = w_now w + seconds (ev_round_duration_secs e);
         r = new_round k i 1 (w_now w) end_at in
     (Inr (r, True), w2\<lparr>w_next_id := k + 2, w_rounds := w_rounds w @ [r],
        w_sched := w_sched w @ [once_task (k + 1) i AwdRoundEnd end_at None (Some k) None None]\<rparr>))"
    using start_round_txn_new [OF found, of 1] rs by (simp add: fields Let_def)
  then obtain res w' where w': "start_round env i (Some 1) w2 = (res, w')"
    "same_tables (w2\<lparr>w_next_id := w_next_id w2 + 2,
        w_rounds := w_rounds w @ [new_round (w_next_id w2) i 1 (w_now w) (w_now w + seconds (ev_round_duration_secs e))],
        w_sched := w_sched w @ [once_task (w_next_id w2 + 1) i AwdRoundEnd
           (w_now w + seconds (ev_round_duration_secs e)) None (Some (w_next_id w2)) None None]\<rparr>) w'"
    using start_round_after_txn by (metis (no_types, lifting))
  have "start_event env i w = (case res of Inl x \<Rightarrow> Inl x | Inr _ \<Rightarrow> Inr (), w')"
    unfolding run bindM_run w'(1) by (simp add: returnM_run split: sum.splits)
  moreover have "same_tables (?s\<lparr>w_events := ?ev,
       w_rounds := w_rounds w @ [new_round (w_next_id w2) i 1 (w_now w) (w_now w + seconds (ev_round_duration_secs e))],
       w_sched := w_sched w @ [once_task (w_next_id w2 + 1) i AwdRoundEnd
          (w_now w + seconds (ev_round_duration_secs e)) None (Some (w_next_id w2)) None None]\<rparr>) w'"
    using w'(2) by (auto simp: same_tables_iff w2_def reconcile_global_run Let_def)
  ultimately show ?thesis by (auto simp: Let_def)
qed


text \<open>
  Starting a verified event: with an admissible timing the event is Running from now on and every
  team has its initial score. With a hardening phase the deadline is now plus the computed duration,
  a pending task will end it then, and no round exists yet; without one the event is in Attack and
  round 1 is active for one round duration, with a pending task that will end it, even when the
  firewall refuses the new policy and the caller sees an error.
\<close>

lemma start_opens:
  assumes ids: "distinct (map ev_id (w_events w))"
    and ev: "List.find (\<lambda>x. ev_event_id x = i) (w_events w) = Some e" and v: "verified_now e"
    and g: "List.find (\<lambda>g. ge_id g = i) (w_generic_events w) = Some g"
    and tm: "compute_timing (ge_start_time g) (ge_end_time g) (ev_round_count e)
      (ev_round_duration_secs e) = Inr tm"
    and rs: "rounds_unique (w_rounds w)" "\<forall>r \<in> set (w_rounds w). rd_event_id r \<noteq> i"
  shows "\<exists>res w' e'. start_event env i w = (res, w')
    \<and> List.find (\<lambda>x. ev_event_id x = i) (w_events w') = Some e' \<and> ev_id e' = ev_id e
    \<and> ev_status e' = EvRunning \<and> ev_started_at e' = Some (w_now w)
    \<and> w_scores w' = w_scores (snd (seed_initial_scores env i (ev_initial_score e) w))
    \<and> (if 0 < hardening_duration_secs tm then
         res = Inr () \<and> ev_phase e' = PhHardening \<and> w_rounds w' = w_rounds w
         \<and> (\<exists>t \<in> set (w_sched w'). st_task_key t = AwdHardeningEnd \<and> st_status t = TsPending
              \<and> st_payload_event_id t = Some i \<and> st_execute_at t = ev_hardening_ends_at e')
         \<and> ev_hardening_ends_at e' = Some (w_now w + seconds (hardening_duration_secs tm))
       else
         ev_phase e' = PhAttack
         \<and> (\<exists>r \<in> set (w_rounds w'). rd_event_id r = i \<and> rd_round_number r = 1 \<and> rd_status r = RdActive
              \<and> rd_scheduled_end_at r = w_now w + seconds (ev_round_duration_secs e)
              \<and> (\<exists>t \<in> set (w_sched w'). st_task_key t = AwdRoundEnd \<and> st_status t = TsPending
                   \<and> st_payload_event_id t = Some i \<and> st_payload_round_id t = Some (rd_id r)
                   \<and> st_execute_at t = Some (rd_scheduled_end_at r))))"
proof (cases "0 < hardening_duration_secs tm")
  case True
  obtain k w' where w': "start_event env i w = (Inr (), w')"
    "same_tables ((snd (seed_initial_scores env i (ev_initial_score e) w))\<lparr>w_events :=
         update_where (\<lambda>x. ev_id x = ev_id e)
         (active_model_from_patch EvRunning (patch_default\<lparr>tp_phase := Some PhHardening,
            tp_started_at := Some (w_now w), tp_hardening_ends_at := Some (Some (w_now w +
            seconds (hardening_duration_secs tm)))\<rparr>) (w_now w)) (w_events w),
       w_sched := w_sched w @ [once_task k i AwdHardeningEnd (w_now w +
         seconds (hardening_duration_secs tm)) None None None None]\<rparr>) w'"
    using start_event_hardening_run [OF ids ev v g tm True] unfolding Let_def by blast
  show ?thesis
    using True w'(1) same_tables_fields [OF w'(2)] find_patched [OF ev]
    by (simp add: seed_initial_scores_run once_task_def active_model_from_patch_def Let_def)
next
  case False
  obtain res w' k where w': "start_event env i w = (res, w')"
    "same_tables ((snd (seed_initial_scores env i (ev_initial_score e) w))\<lparr>w_events :=
         update_where (\<lambda>x. ev_id x = ev_id e)
         (active_model_from_patch EvRunning (patch_default\<lparr>tp_phase := Some PhAttack,
            tp_started_at := Some (w_now w)\<rparr>) (w_now w)) (w_events w),
       w_rounds := w_rounds w @ [new_round k i 1 (w_now w) (w_now w + seconds (ev_round_duration_secs e))],
       w_sched := w_sched w @ [once_task (k + 1) i AwdRoundEnd
         (w_now w + seconds (ev_round_duration_secs e)) None (Some k) None None]\<rparr>) w'"
    using start_event_attack_run [OF ids ev v g tm False rs] unfolding Let_def by blast
  show ?thesis
    using False w'(1) same_tables_fields [OF w'(2)] find_patched [OF ev]
    by (simp add: once_task_def active_model_from_patch_def new_round_def Let_def)
qed


section \<open>Properties of finishing\<close>

lemma is_final_settlement_iff:
  "is_final_settlement e latest \<longleftrightarrow> ev_status e = EvRunning \<and> ev_phase e = PhAttack \<and>
     (\<exists>n r. ev_round_count e = Some n \<and> latest = Some r \<and> rd_round_number r = n \<and> rd_status r = RdCompleted)"
  by (auto simp: is_final_settlement_def split: option.splits)

lemma finish_tells_firewall:
  assumes ev: "List.find (\<lambda>e. ev_event_id e = i) (w_events w) = Some e"
    and own: "List.find (\<lambda>x. ev_id x = ev_id e) (w_events w) = Some e"
    and fin: "is_final_settlement e (latest_round w i)"
    and all: "\<forall>t \<in> set (w_tasks w). jt_event_id t = i \<longrightarrow> judge_is_terminal (jt_status t)"
    and net: "List.find (\<lambda>n. en_event_id n = i) (w_event_networks w) = Some n"
  shows "\<exists>d p. FxFirewall d \<in> set (w_log (snd (maybe_finish_event env i w)))
    \<and> p \<in> set (df_events d) \<and> dp_event_id p = i \<and> dp_is_finished p"
proof -
  let ?f = "active_model_from_patch EvFinished (patch_finished (w_now w)) (w_now w)"
  let ?w1 = "w\<lparr>w_events := update_where (\<lambda>x. ev_id x = ev_id e) ?f (w_events w),
      w_network_revision := w_network_revision w + 1\<rparr>"
  let ?d = "\<lparr>df_revision = w_network_revision w + 1, df_events = desired_events env ?w1\<rparr>"
  have e: "ev_event_id e = i" "e \<in> set (w_events w)" using find_SomeD [OF ev] by auto
  have none: "filter (\<lambda>t. jt_event_id t = i \<and> open_task t) (w_tasks w) = []"
    using all by (auto simp: filter_empty_conv open_task_def judge_is_terminal_def)
  have "FxFirewall ?d \<in> set (w_log (snd (maybe_finish_event env i w)))"
    using ev own fin none net unfolding is_final_settlement_iff
    by (auto simp: maybe_finish_event_def is_final_settlement_iff op_defs run_simps
        all_event_judge_tasks_terminal_def Let_def)
  moreover have "event_policy env ?w1 (?f e) n \<in> set (desired_events env ?w1)"
    using patched_mem [OF e(2)] net e(1)
    by (intro desired_events_mem) (simp_all add: in_firewall_desired_set_def)
  moreover have "dp_event_id (event_policy env ?w1 (?f e) n) = i" "dp_is_finished (event_policy env ?w1 (?f e) n)"
    using e(1) by (simp_all add: event_policy_def)
  ultimately show ?thesis by force
qed

text \<open>What it means for an event to be settled, in the terms of the competition rules.\<close>

definition settled :: "awd_world \<Rightarrow> awd_event \<Rightarrow> bool" where
  "settled w e \<longleftrightarrow> ev_status e = EvRunning \<and> ev_phase e = PhAttack
     \<and> (\<exists>r. latest_round w (ev_event_id e) = Some r \<and> ev_round_count e = Some (rd_round_number r)
            \<and> rd_status r = RdCompleted)
     \<and> (\<forall>t \<in> set (w_tasks w). jt_event_id t = ev_event_id e \<longrightarrow> judge_is_terminal (jt_status t))"

lemma settled_iff:
  assumes "List.find (\<lambda>x. ev_event_id x = i) (w_events w) = Some e"
  shows "settled w e \<longleftrightarrow> is_final_settlement e (latest_round w i)
     \<and> (\<forall>t \<in> set (w_tasks w). jt_event_id t = i \<longrightarrow> judge_is_terminal (jt_status t))"
  using find_SomeD [OF assms] by (auto simp: settled_def is_final_settlement_iff)


section \<open>Properties of ending a round\<close>

definition completed_at :: "timestamp \<Rightarrow> awd_round \<Rightarrow> awd_round" where
  "completed_at now r = r\<lparr>rd_status := RdCompleted, rd_completed_at := Some now\<rparr>"

lemma completed_at_fields [simp]:
  "rd_id (completed_at now r) = rd_id r" "rd_event_id (completed_at now r) = rd_event_id r"
  "rd_round_number (completed_at now r) = rd_round_number r" "rd_status (completed_at now r) = RdCompleted"
  by (simp_all add: completed_at_def)

lemma completed_at_eta: "(\<lambda>r. r\<lparr>rd_status := RdCompleted, rd_completed_at := Some t\<rparr>) = completed_at t"
  by (simp add: completed_at_def fun_eq_iff)

lemma rounds_unique_completed:
  assumes "rounds_unique rs"
  shows "rounds_unique (update_where p (completed_at now) rs)"
proof -
  have "filter (\<lambda>r. rd_status r \<in> {RdActive, RdPaused}) (update_where p (completed_at now) rs)
      = filter (\<lambda>r. \<not> p r) (filter (\<lambda>r. rd_status r \<in> {RdActive, RdPaused}) rs)"
    by (induction rs) auto
  then show ?thesis
    using assms unfolding rounds_unique_def by (simp only: map_update_where completed_at_fields distinct_map_filter)
qed

text \<open>One event never has two active rounds.\<close>

lemma active_round_unique:
  assumes "rounds_unique rs" "x \<in> set rs" "y \<in> set rs" "rd_event_id x = rd_event_id y"
    "rd_status x = RdActive" "rd_status y = RdActive"
  shows "x = y"
proof -
  let ?open = "filter (\<lambda>r. rd_status r \<in> {RdActive, RdPaused}) rs"
  have "inj_on (\<lambda>r. (rd_event_id r, rd_status r)) (set ?open)"
    using assms(1) by (simp add: rounds_unique_def distinct_map)
  then show ?thesis using assms by (auto dest: inj_onD)
qed

lemma complete_round_txn_run:
  assumes rd: "List.find (\<lambda>r. rd_id r = k) (w_rounds w) = Some r"
    and r: "rd_event_id r = i" "rd_status r = RdActive"
    and ev: "List.find (\<lambda>x. ev_event_id x = i) (w_events w) = Some e"
    and rs: "rounds_unique (w_rounds w)"
  shows "complete_round_txn i k w =
    (Inr (Some (rd_round_number r,
       (case ev_round_count e of None \<Rightarrow> False | Some rc \<Rightarrow> rd_round_number r \<ge> rc))),
     w\<lparr>w_rounds := update_where (\<lambda>x. rd_id x = k) (completed_at (w_now w)) (w_rounds w)\<rparr>)"
proof -
  have "\<exists>x \<in> set (w_rounds w). rd_id x = k" using find_SomeD [OF rd] by auto
  then show ?thesis
    using rd r ev rounds_unique_completed [OF rs, of "\<lambda>x. rd_id x = k" "w_now w"]
    by (simp add: complete_round_txn_def update_round_status_def update_round_def completed_at_eta op_defs run_simps Let_def)
qed

text \<open>The batch deadline is scheduled after everything else; it only adds a task.\<close>

lemma schedule_deadline_of_run:
  "\<exists>ts n. schedule_deadline_of i res w = (Inr (), w\<lparr>w_next_id := n, w_sched := w_sched w @ ts\<rparr>)"
proof (cases res)
  case (Inr b)
  show ?thesis
  proof (cases "max_by jt_deadline_at (filter (\<lambda>t. jt_batch_id t = b) (w_tasks w))")
    case None
    then show ?thesis
      using Inr by (auto simp: schedule_deadline_of_def max_task_deadline_def op_defs
          intro!: exI [of _ "[]"] exI [of _ "w_next_id w"])
  next
    case (Some t)
    then show ?thesis
      using Inr by (simp add: schedule_deadline_of_def max_task_deadline_def schedule_batch_deadline_task_def
          op_defs run_simps) (intro exI, rule refl)
  qed
qed (auto simp: schedule_deadline_of_def returnM_run intro!: exI [of _ "[]"] exI [of _ "w_next_id w"])

lemma create_batch_frame:
  assumes "create_batch env i k w = (res, w')"
  shows "w_rounds w' = w_rounds w" "w_events w' = w_events w" "w_sched w' = w_sched w" "w_now w' = w_now w"
    "w_log w' = w_log w" "w_scores w' = w_scores w" "w_event_networks w' = w_event_networks w" "w_bans w' = w_bans w"
  using keepsD_run [OF outside_frame.keeps_create_batch _ assms] by auto


lemma end_round_repeated:
  assumes "List.find (\<lambda>r. rd_id r = k) (w_rounds w) = Some r" "rd_event_id r = i" "rd_status r \<noteq> RdActive"
  shows "end_round env i k w = (Inr (), w)"
  using assms by (simp add: end_round_def complete_round_txn_def op_defs run_simps)

lemma end_round_unfold:
  assumes "complete_round_txn i k w = (Inr (Some (n, fin)), w1)" "create_batch env i k w1 = (res, w2)"
  shows "end_round env i k w =
    bindM (if fin then close_final_round env i else ignoreM (start_round env i (Some (as_i32 (n + 1))))) (\<lambda>_.
    bindM (schedule_deadline_of i res) (\<lambda>_. publish ''round.completed'' i)) w2"
  using assms by (simp add: end_round_def bindM_run attemptM_def)

text \<open>
  Rounds follow each other: ending the active round \<open>n\<close> of a running attack, when more rounds are
  configured, completes that round and no other, appends round \<open>n + 1\<close> as the event's only active
  round with a full duration ahead of it and a pending task that will end it, and touches neither the
  events nor the ledger, whether or not a judge batch could be created and the firewall answered.
  Ending the same round again changes nothing.
\<close>

lemma next_round_follows:
  assumes ev: "List.find (\<lambda>x. ev_event_id x = i) (w_events w) = Some e"
    and st: "ev_status e = EvRunning" "ev_phase e = PhAttack"
    and rd: "List.find (\<lambda>r. rd_id r = k) (w_rounds w) = Some r"
    and r: "rd_event_id r = i" "rd_status r = RdActive" "rd_round_number r = n" "1 \<le> n"
    and more: "ev_round_count e = Some rc" "n < rc" "in_i32 rc"
    and rs: "rounds_unique (w_rounds w)" "\<forall>x \<in> set (w_rounds w). rd_event_id x = i \<longrightarrow> rd_round_number x \<noteq> n + 1"
  shows "\<exists>w' r'. end_round env i k w = (Inr (), w')
    \<and> w_rounds w' = update_where (\<lambda>x. rd_id x = k) (completed_at (w_now w)) (w_rounds w) @ [r']
    \<and> rd_event_id r' = i \<and> rd_round_number r' = n + 1 \<and> rd_status r' = RdActive
    \<and> rd_scheduled_end_at r' = w_now w + seconds (ev_round_duration_secs e)
    \<and> (\<forall>x \<in> set (w_rounds w'). rd_event_id x = i \<and> rd_status x = RdActive \<longrightarrow> x = r')
    \<and> (\<exists>t \<in> set (w_sched w'). st_task_key t = AwdRoundEnd \<and> st_status t = TsPending
         \<and> st_payload_event_id t = Some i \<and> st_payload_round_id t = Some (rd_id r')
         \<and> st_execute_at t = Some (rd_scheduled_end_at r'))
    \<and> w_events w' = w_events w \<and> w_scores w' = w_scores w
    \<and> end_round env i k w' = (Inr (), w')"
proof -
  let ?done = "update_where (\<lambda>x. rd_id x = k) (completed_at (w_now w)) (w_rounds w)"
  let ?till = "w_now w + seconds (ev_round_duration_secs e)"
  have c: "complete_round_txn i k w = (Inr (Some (n, False)), w\<lparr>w_rounds := ?done\<rparr>)"
    using complete_round_txn_run [OF rd r(1,2) ev rs(1)] more r(3) by simp
  obtain res w2 where w2: "create_batch env i k (w\<lparr>w_rounds := ?done\<rparr>) = (res, w2)" by fastforce
  have run: "end_round env i k w = bindM (ignoreM (start_round env i (Some (as_i32 (n + 1))))) (\<lambda>_.
      bindM (schedule_deadline_of i res) (\<lambda>_. publish ''round.completed'' i)) w2"
    using end_round_unfold [OF c w2] by simp
  note f2 = create_batch_frame [OF w2, simplified]
  have n1: "as_i32 (n + 1) = n + 1" using more r(4) by (intro as_i32_id) (simp add: in_i32_def)
  have fresh: "\<forall>x \<in> set (w_rounds w2). rd_event_id x = i \<longrightarrow> rd_round_number x \<noteq> n + 1 \<and> rd_status x \<noteq> RdActive"
    unfolding f2 set_update_where
    using rs(2) active_round_unique [OF rs(1), of _ r] find_SomeD [OF rd] r(1,2)
    by (auto split: if_splits)
  let ?r = "new_round (w_next_id w2) i (n + 1) (w_now w) ?till"
  let ?w3 = "w2\<lparr>w_next_id := w_next_id w2 + 2, w_rounds := ?done @ [?r],
     w_sched := w_sched w @ [once_task (w_next_id w2 + 1) i AwdRoundEnd ?till None (Some (w_next_id w2)) None None]\<rparr>"
  have "start_round_txn i (Some (n + 1)) w2 = (Inr (?r, True), ?w3)"
    using start_round_txn_new [of i w2 e "n + 1"] ev st r(4) fresh rounds_unique_completed [OF rs(1)]
    by (simp add: f2 Let_def)
  then obtain x w4 where w4: "start_round env i (Some (n + 1)) w2 = (x, w4)" "same_tables ?w3 w4"
    using start_round_after_txn by blast
  note f4 = same_tables_fields [OF w4(2), simplified]
  obtain ts m where sd: "schedule_deadline_of i res w4 = (Inr (), w4\<lparr>w_next_id := m, w_sched := w_sched w4 @ ts\<rparr>)"
    using schedule_deadline_of_run by blast
  define w' where "w' = w4\<lparr>w_next_id := m, w_sched := w_sched w4 @ ts,
     w_log := w_log w4 @ [FxPublish ''round.completed'' i]\<rparr>"
  have run': "end_round env i k w = (Inr (), w')"
    using w4 sd by (simp add: run n1 bindM_run ignoreM_run publish_run w'_def)
  have rounds: "w_rounds w' = ?done @ [?r]" "w_events w' = w_events w" "w_scores w' = w_scores w"
    by (simp_all add: w'_def f4 f2)
  have "List.find (\<lambda>x. rd_id x = k) (w_rounds w') = Some (completed_at (w_now w) r)"
    using rd find_SomeD [OF rd] by (simp add: rounds find_append find_update_where)
  from end_round_repeated [OF this] have again: "end_round env i k w' = (Inr (), w')"
    using r(1) by simp
  have only: "\<forall>x \<in> set (w_rounds w'). rd_event_id x = i \<and> rd_status x = RdActive \<longrightarrow> x = ?r"
    using fresh unfolding rounds f2 by auto
  have task: "once_task (w_next_id w2 + 1) i AwdRoundEnd ?till None (Some (w_next_id w2)) None None \<in> set (w_sched w')"
    by (simp add: w'_def f4)
  show ?thesis
    using run' rounds only again
    by (intro exI [of _ w'] exI [of _ ?r] conjI bexI [OF _ task]) (simp_all add: new_round_def once_task_def)
qed


lemma latest_round_is:
  assumes "rounds_unique (w_rounds w)" "r \<in> set (w_rounds w)" "rd_event_id r = i"
    "\<forall>x \<in> set (w_rounds w). rd_event_id x = i \<longrightarrow> rd_round_number x \<le> rd_round_number r"
  shows "latest_round w i = Some r"
proof -
  let ?rs = "filter (\<lambda>r. rd_event_id r = i) (w_rounds w)"
  obtain x where x: "max_by rd_round_number ?rs = Some x"
    using assms(2,3) by (metis (mono_tags, lifting) filter_empty_conv max_by_None_iff not_Some_eq)
  then have "x \<in> set ?rs" "rd_round_number r \<le> rd_round_number x"
    using max_by_mem [OF x] max_by_ge [OF x, of r] assms(2,3) by auto
  then have "(rd_event_id x, rd_round_number x) = (rd_event_id r, rd_round_number r)" "x \<in> set (w_rounds w)"
    using assms(3,4) by force+
  then have "x = r" using assms(1,2) unfolding rounds_unique_def distinct_map by (auto dest: inj_onD)
  then show ?thesis using x by (simp add: latest_round_def)
qed

lemma close_final_round_run:
  assumes net: "List.find (\<lambda>n. en_event_id n = i) (w_event_networks w) = Some n"
  shows "\<exists>w1. close_final_round env i w = ignoreM (maybe_finish_event env i) w1 \<and> same_tables w w1
    \<and> w_event_networks w1 = w_event_networks w
    \<and> (\<exists>d. df_events d = desired_events env w \<and> FxFirewall d \<in> set (w_log w1))"
  using net
  by (intro exI [of _ "w\<lparr>w_network_revision := w_network_revision w + 1, w_log := w_log w @
        [FxFirewall \<lparr>df_revision = w_network_revision w + 1, df_events = desired_events env w\<rparr>, FxFlushEvent i]\<rparr>"])
     (auto simp: close_final_round_def op_defs run_simps Let_def same_tables_def
       intro!: exI [of _ "\<lparr>df_revision = w_network_revision w + 1, df_events = desired_events env w\<rparr>"])

lemma maybe_finish_log: "keeps (\<lambda>w. x \<in> set (w_log w)) (maybe_finish_event env i)"
  by (auto simp: keeps_def maybe_finish_event_def op_defs run_simps Let_def all_event_judge_tasks_terminal_def
      split: option.splits)


text \<open>The completed last round as the settlement tests see it.\<close>

lemma last_round_view:
  assumes rd: "r \<in> set (w_rounds w)" "rd_id r = k" "rd_event_id r = i"
    and rs: "rounds_unique (w_rounds w)" "\<forall>x \<in> set (w_rounds w). rd_event_id x = i \<longrightarrow>
        rd_round_number x \<le> rd_round_number r \<and> (x = r \<or> rd_status x = RdCompleted)"
    and v: "w_rounds v = update_where (\<lambda>x. rd_id x = k) (completed_at now) (w_rounds w)"
  shows "latest_round v i = Some (completed_at now r)" "\<not> has_open_round v i"
proof -
  have closed: "\<forall>x \<in> set (w_rounds v). rd_event_id x = i \<longrightarrow>
      rd_round_number x \<le> rd_round_number r \<and> rd_status x = RdCompleted"
    unfolding v set_update_where using rs(2) rd by auto
  have "completed_at now r \<in> set (w_rounds v)" unfolding v set_update_where using rd by force
  then show "latest_round v i = Some (completed_at now r)"
    using closed rd(3) rounds_unique_completed [OF rs(1)] by (intro latest_round_is) (simp_all add: v)
  show "\<not> has_open_round v i" using closed by (auto simp: has_open_round_def)
qed

lemma close_final_round_effect:
  assumes ids: "distinct (map ev_id (w_events w))"
    and ev: "List.find (\<lambda>x. ev_event_id x = i) (w_events w) = Some e"
    and fin: "is_final_settlement e (latest_round w i)"
    and net: "List.find (\<lambda>n. en_event_id n = i) (w_event_networks w) = Some n"
  shows "\<exists>w' d e'. close_final_round env i w = (Inr (), w')
    \<and> w_rounds w' = w_rounds w \<and> w_scores w' = w_scores w \<and> w_tasks w' = w_tasks w
    \<and> df_events d = desired_events env w \<and> FxFirewall d \<in> set (w_log w')
    \<and> List.find (\<lambda>x. ev_event_id x = i) (w_events w') = Some e'
    \<and> ev_status e' = (if \<forall>t \<in> set (w_tasks w). jt_event_id t = i \<longrightarrow> judge_is_terminal (jt_status t)
                       then EvFinished else EvRunning)"
proof -
  let ?all = "\<forall>t \<in> set (w_tasks w). jt_event_id t = i \<longrightarrow> judge_is_terminal (jt_status t)"
  obtain w3 d where w3: "close_final_round env i w = ignoreM (maybe_finish_event env i) w3" "same_tables w w3"
    and d: "df_events d = desired_events env w" "FxFirewall d \<in> set (w_log w3)"
    using close_final_round_run [of i w n env] net by auto
  note f3 = same_tables_fields [OF w3(2)]
  have ev3: "List.find (\<lambda>x. ev_event_id x = i) (w_events w3) = Some e"
    and own3: "List.find (\<lambda>x. ev_id x = ev_id e) (w_events w3) = Some e"
    using ev find_own_row(2) [OF ids ev] f3 by simp_all
  have fin3: "is_final_settlement e (latest_round w3 i)" using fin f3 by (simp add: latest_round_def)
  obtain w4 where w4: "maybe_finish_event env i w3 = (Inr (), w4)"
    and st4: "if ?all then same_tables (w3\<lparr>w_events := update_where (\<lambda>x. ev_id x = ev_id e)
            (active_model_from_patch EvFinished (patch_finished (w_now w3)) (w_now w3)) (w_events w3)\<rparr>) w4
     else w4 = w3"
    using maybe_finish_event_run [OF ev3 own3, of env] fin3 f3 by auto
  have "w_rounds w4 = w_rounds w" "w_scores w4 = w_scores w" "w_tasks w4 = w_tasks w"
    using st4 f3 by (auto split: if_splits dest: same_tables_fields)
  moreover obtain e' where "List.find (\<lambda>x. ev_event_id x = i) (w_events w4) = Some e'"
      "ev_status e' = (if ?all then EvFinished else EvRunning)"
    using st4 ev3 fin find_patched [OF ev3]
    by (auto simp: is_final_settlement_iff split: if_splits dest: same_tables_fields)
  moreover have "FxFirewall d \<in> set (w_log w4)" using keepsD_run [OF maybe_finish_log d(2) w4] .
  ultimately show ?thesis using w3(1) w4 d(1) by (auto simp: ignoreM_run)
qed

text \<open>
  The last round closes the competition: ending the last configured round completes it, starts no
  further round, posts no score, and hands the firewall a policy in which the event is in final
  settlement; the event is Finished at once if every judge task of the event has ended by then and
  is still Running otherwise.
\<close>

lemma last_round_closes:
  assumes ids: "distinct (map ev_id (w_events w))"
    and ev: "List.find (\<lambda>x. ev_event_id x = i) (w_events w) = Some e"
    and st: "ev_status e = EvRunning" "ev_phase e = PhAttack"
    and rd: "List.find (\<lambda>r. rd_id r = k) (w_rounds w) = Some r"
    and r: "rd_event_id r = i" "rd_status r = RdActive" "ev_round_count e = Some (rd_round_number r)"
    and rs: "rounds_unique (w_rounds w)" "\<forall>x \<in> set (w_rounds w). rd_event_id x = i \<longrightarrow>
        rd_round_number x \<le> rd_round_number r \<and> (x = r \<or> rd_status x = RdCompleted)"
    and net: "List.find (\<lambda>n. en_event_id n = i) (w_event_networks w) = Some n"
  shows "\<exists>w' e'. end_round env i k w = (Inr (), w')
    \<and> w_rounds w' = update_where (\<lambda>x. rd_id x = k) (completed_at (w_now w)) (w_rounds w)
    \<and> w_scores w' = w_scores w
    \<and> (\<exists>d p. FxFirewall d \<in> set (w_log w') \<and> p \<in> set (df_events d) \<and> dp_event_id p = i
          \<and> dp_is_final_settlement p)
    \<and> List.find (\<lambda>x. ev_event_id x = i) (w_events w') = Some e'
    \<and> ev_status e' = (if \<forall>t \<in> set (w_tasks w'). jt_event_id t = i \<longrightarrow> judge_is_terminal (jt_status t)
                       then EvFinished else EvRunning)"
proof -
  let ?done = "update_where (\<lambda>x. rd_id x = k) (completed_at (w_now w)) (w_rounds w)"
  have c: "complete_round_txn i k w = (Inr (Some (rd_round_number r, True)), w\<lparr>w_rounds := ?done\<rparr>)"
    using complete_round_txn_run [OF rd r(1,2) ev rs(1)] r(3) by simp
  obtain res w2 where w2: "create_batch env i k (w\<lparr>w_rounds := ?done\<rparr>) = (res, w2)" by fastforce
  have run: "end_round env i k w = bindM (close_final_round env i) (\<lambda>_.
      bindM (schedule_deadline_of i res) (\<lambda>_. publish ''round.completed'' i)) w2"
    using end_round_unfold [OF c w2] by simp
  note f2 = create_batch_frame [OF w2, simplified]
  have e: "e \<in> set (w_events w)" "ev_event_id e = i" using find_SomeD [OF ev] by auto
  have rm: "r \<in> set (w_rounds w)" "rd_id r = k" using find_SomeD [OF rd] by auto
  note view = last_round_view [OF rm r(1) rs f2(1)]
  have fin: "is_final_settlement e (latest_round w2 i)"
    using view(1) st r(3) by (simp add: is_final_settlement_iff)
  have mem: "event_policy env w2 e n \<in> set (desired_events env w2)"
    using e st net by (intro desired_events_mem) (simp_all add: f2 in_firewall_desired_set_def)
  have pol: "dp_event_id (event_policy env w2 e n) = i" "dp_is_final_settlement (event_policy env w2 e n)"
    using e st view r(3) by (simp_all add: event_policy_def policy_final_settlement_def)
  obtain w4 d e' where w4: "close_final_round env i w2 = (Inr (), w4)"
    and f4: "w_rounds w4 = w_rounds w2" "w_scores w4 = w_scores w2" "w_tasks w4 = w_tasks w2"
    and d: "df_events d = desired_events env w2" "FxFirewall d \<in> set (w_log w4)"
    and e': "List.find (\<lambda>x. ev_event_id x = i) (w_events w4) = Some e'"
      "ev_status e' = (if \<forall>t \<in> set (w_tasks w2). jt_event_id t = i \<longrightarrow> judge_is_terminal (jt_status t)
                       then EvFinished else EvRunning)"
    using close_final_round_effect [of w2 i e n env] ids ev net fin unfolding f2 by auto
  obtain ts m where sd: "schedule_deadline_of i res w4 = (Inr (), w4\<lparr>w_next_id := m, w_sched := w_sched w4 @ ts\<rparr>)"
    using schedule_deadline_of_run by blast
  define w' where "w' = w4\<lparr>w_next_id := m, w_sched := w_sched w4 @ ts,
     w_log := w_log w4 @ [FxPublish ''round.completed'' i]\<rparr>"
  have "end_round env i k w = (Inr (), w')"
    using w4 sd by (simp add: run bindM_run publish_run w'_def)
  then show ?thesis
    using mem pol d e' f4 f2
    by (intro exI [of _ w'] exI [of _ e'] conjI exI [of _ d] exI [of _ "event_policy env w2 e n"])
       (simp_all add: w'_def)
qed

section \<open>Properties of pausing\<close>

text \<open>The pending tasks that will end the hardening of an event.\<close>

definition pending_hardening_ends :: "awd_world \<Rightarrow> uuid \<Rightarrow> scheduled_task list" where
  "pending_hardening_ends w i =
     filter (\<lambda>t. st_group_id t = Some i \<and> st_task_key t = AwdHardeningEnd \<and> st_status t = TsPending) (w_sched w)"

lemma pause_hardening_run:
  assumes ids: "distinct (map ev_id (w_events w))"
    and ev: "List.find (\<lambda>x. ev_event_id x = i) (w_events w) = Some e"
    and st: "ev_status e = EvRunning" "ev_phase e = PhHardening" "ev_hardening_ends_at e = Some h"
    and fw: "\<And>l d. env_firewall env l d"
    and net: "List.find (\<lambda>n. en_event_id n = i) (w_event_networks w) = Some n"
  shows "\<exists>w'. pause_event env i w = (Inr (), w') \<and> same_tables (w\<lparr>
      w_events := update_where (\<lambda>x. ev_id x = ev_id e) (active_model_from_patch EvPaused
        ((patch_paused PhHardening (as_i32 (max (num_seconds (h - w_now w)) 0)))\<lparr>tp_hardening_ends_at := Some None\<rparr>)
        (w_now w)) (w_events w),
      w_sched := filter (\<lambda>t. \<not> (st_group_id t = Some i \<and> st_task_key t = AwdHardeningEnd \<and> st_status t = TsPending))
        (w_sched w)\<rparr>) w'"
proof -
  have "ev_event_id e = i" using find_SomeD [OF ev] by simp
  then show ?thesis
    using ev find_own_row [OF ids ev] st fw net
    by (auto simp: pause_event_def pause_phase_remaining_def cancel_pending_hardening_end_def delete_tasks_def
        op_defs run_simps Let_def same_tables_def)
qed

lemma resume_hardening_run:
  assumes ids: "distinct (map ev_id (w_events w))"
    and ev: "List.find (\<lambda>x. ev_event_id x = i) (w_events w) = Some e"
    and st: "ev_status e = EvPaused" "ev_paused_phase e = Some PhHardening" "ev_pause_remaining_secs e = Some s"
    and s: "0 < s"
    and fw: "\<And>l d. env_firewall env l d"
    and net: "List.find (\<lambda>n. en_event_id n = i) (w_event_networks w) = Some n"
  shows "\<exists>k w'. resume_event env i w = (Inr (), w') \<and> same_tables (w\<lparr>
      w_events := update_where (\<lambda>x. ev_id x = ev_id e) (active_model_from_patch EvRunning
        (patch_default\<lparr>tp_phase := Some PhHardening, tp_pause_remaining_secs := Some 0,
           tp_hardening_ends_at := Some (Some (w_now w + seconds s))\<rparr>) (w_now w)) (w_events w),
      w_sched := w_sched w @ [once_task k i AwdHardeningEnd (w_now w + seconds s) None None None None]\<rparr>) w'"
proof -
  have "ev_event_id e = i" using find_SomeD [OF ev] by simp
  then show ?thesis
    using ev find_own_row [OF ids ev] st fw net s
    by (intro exI [of _ "w_next_id w"]) (auto simp: resume_event_def resume_hardening_def schedule_hardening_end_def
        op_defs run_simps Let_def same_tables_def)
qed


text \<open>
  C33. A pause keeps the hardening time: pausing an event in hardening cancels the task that would
  have ended it, and resuming at any later instant \<open>t\<close> sets a new deadline that lies the remaining
  whole seconds after \<open>t\<close>, less than a second short of what was left at the pause, with exactly one
  pending task to end the phase, at that deadline. Here the firewall accepts every policy and the
  time left fits into 32 bits.
\<close>

theorem pause_keeps_hardening_time:
  assumes ids: "distinct (map ev_id (w_events w))"
    and ev: "List.find (\<lambda>x. ev_event_id x = i) (w_events w) = Some e"
    and st: "ev_status e = EvRunning" "ev_phase e = PhHardening" "ev_hardening_ends_at e = Some h"
    and left: "seconds 1 \<le> h - w_now w" "in_i32 (num_seconds (h - w_now w))"
    and fw: "\<And>l d. env_firewall env l d"
    and net: "List.find (\<lambda>n. en_event_id n = i) (w_event_networks w) = Some n"
  shows "\<exists>w1 w2 e2 t2. pause_event env i w = (Inr (), w1) \<and> pending_hardening_ends w1 i = []
    \<and> resume_event env i (w1\<lparr>w_now := t\<rparr>) = (Inr (), w2)
    \<and> List.find (\<lambda>x. ev_event_id x = i) (w_events w2) = Some e2
    \<and> ev_status e2 = EvRunning \<and> ev_phase e2 = PhHardening
    \<and> pending_hardening_ends w2 i = [t2] \<and> st_execute_at t2 = ev_hardening_ends_at e2
    \<and> ev_hardening_ends_at e2 = Some (t + seconds (num_seconds (h - w_now w)))
    \<and> seconds (num_seconds (h - w_now w)) \<le> h - w_now w
    \<and> h - w_now w < seconds (num_seconds (h - w_now w)) + seconds 1"
proof -
  let ?s = "num_seconds (h - w_now w)"
  have pos: "0 < ?s" and near: "seconds ?s \<le> h - w_now w" "h - w_now w < seconds ?s + seconds 1"
    using left seconds_num_seconds_le [of "h - w_now w"] seconds_num_seconds_gt [of "h - w_now w"]
    by (auto simp: seconds_def nanos_per_sec_def num_seconds_def)
  let ?p = "active_model_from_patch EvPaused
     ((patch_paused PhHardening ?s)\<lparr>tp_hardening_ends_at := Some None\<rparr>) (w_now w)"
  obtain w1 where w1: "pause_event env i w = (Inr (), w1)"
    and "same_tables (w\<lparr>w_events := update_where (\<lambda>x. ev_id x = ev_id e) ?p (w_events w),
      w_sched := filter (\<lambda>t. \<not> (st_group_id t = Some i \<and> st_task_key t = AwdHardeningEnd \<and> st_status t = TsPending))
        (w_sched w)\<rparr>) w1"
    using pause_hardening_run [OF ids ev st fw net] pos left(2) by (auto simp: max_def)
  note f1 = this(1) same_tables_fields [OF this(2), simplified]
  have nets: "w_event_networks w1 = w_event_networks w"
    using \<open>same_tables _ w1\<close> by (auto simp: same_tables_iff)
  have found1: "List.find (\<lambda>x. ev_event_id x = i) (w_events (w1\<lparr>w_now := t\<rparr>)) = Some (?p e)"
    using find_patched [OF ev] by (simp add: f1)
  have ids1: "distinct (map ev_id (w_events (w1\<lparr>w_now := t\<rparr>)))"
    using ids by (simp add: f1 map_update_where)
  obtain k w2 where w2: "resume_event env i (w1\<lparr>w_now := t\<rparr>) = (Inr (), w2)"
    and st2: "same_tables (w1\<lparr>w_now := t, w_events := update_where (\<lambda>x. ev_id x = ev_id (?p e))
       (active_model_from_patch EvRunning (patch_default\<lparr>tp_phase := Some PhHardening,
           tp_pause_remaining_secs := Some 0, tp_hardening_ends_at := Some (Some (t + seconds ?s))\<rparr>) t) (w_events w1),
      w_sched := w_sched w1 @ [once_task k i AwdHardeningEnd (t + seconds ?s) None None None None]\<rparr>) w2"
    using resume_hardening_run [OF ids1 found1, of ?s env n] pos fw net
    by (auto simp: patch_paused_def nets)
  note f2 = same_tables_fields [OF st2, simplified]
  have "List.find (\<lambda>x. ev_event_id x = i) (w_events w2) = Some
      (active_model_from_patch EvRunning (patch_default\<lparr>tp_phase := Some PhHardening,
         tp_pause_remaining_secs := Some 0, tp_hardening_ends_at := Some (Some (t + seconds ?s))\<rparr>) t (?p e))"
    using find_patched [OF found1] by (simp add: f2)
  moreover have "pending_hardening_ends w1 i = []"
    "pending_hardening_ends w2 i = [once_task k i AwdHardeningEnd (t + seconds ?s) None None None None]"
    by (simp_all add: pending_hardening_ends_def f1 f2 once_task_def)
  ultimately show ?thesis
    using w1 w2 near by (simp add: once_task_def)
qed

text \<open>
  C31. What starting an event does, on every path. An event that is not verified (or has no
  verification time) is left untouched; an event whose configuration changed since its verification
  is sent to StartBlocked, loses its verification and nothing else changes; an event without a
  calendar entry, or whose times admit no timing, is left untouched. Otherwise the event is Running
  from now on and every team has its initial score: with a hardening phase the deadline is now plus
  the computed duration, a pending task will end it then, and no round exists yet; without one the
  event is in Attack and round 1 is active for one round duration, with a pending task that will end
  it, even when the firewall refuses the new policy and the caller sees an error.
\<close>

theorem start_outcome:
  assumes ids: "distinct (map ev_id (w_events w))"
    and ev: "List.find (\<lambda>x. ev_event_id x = i) (w_events w) = Some e"
    and rs: "rounds_unique (w_rounds w)" "\<forall>r \<in> set (w_rounds w). rd_event_id r \<noteq> i"
  shows "if ev_status e \<noteq> EvVerified \<or> ev_verified_at e = None then \<exists>x. start_event env i w = (Inl x, w)
    else if ev_verified_generation e \<noteq> Some (ev_configuration_generation e) then
      \<exists>x f. start_event env i w = (Inl x, w\<lparr>w_events := update_where (\<lambda>y. ev_id y = ev_id e) f (w_events w)\<rparr>)
        \<and> ev_status (f e) = EvStartBlocked \<and> ev_verified_at (f e) = None \<and> ev_verified_generation (f e) = None
        \<and> ev_phase (f e) = ev_phase e \<and> ev_started_at (f e) = ev_started_at e
    else case List.find (\<lambda>g. ge_id g = i) (w_generic_events w) of
      None \<Rightarrow> \<exists>x. start_event env i w = (Inl x, w)
    | Some g \<Rightarrow> (case compute_timing (ge_start_time g) (ge_end_time g) (ev_round_count e) (ev_round_duration_secs e) of
        Inl _ \<Rightarrow> \<exists>x. start_event env i w = (Inl x, w)
      | Inr tm \<Rightarrow> \<exists>res w' e'. start_event env i w = (res, w')
          \<and> List.find (\<lambda>x. ev_event_id x = i) (w_events w') = Some e' \<and> ev_id e' = ev_id e
          \<and> ev_status e' = EvRunning \<and> ev_started_at e' = Some (w_now w)
          \<and> w_scores w' = w_scores (snd (seed_initial_scores env i (ev_initial_score e) w))
          \<and> (if 0 < hardening_duration_secs tm then
               res = Inr () \<and> ev_phase e' = PhHardening \<and> w_rounds w' = w_rounds w
               \<and> (\<exists>t \<in> set (w_sched w'). st_task_key t = AwdHardeningEnd \<and> st_status t = TsPending
                    \<and> st_payload_event_id t = Some i \<and> st_execute_at t = ev_hardening_ends_at e')
               \<and> ev_hardening_ends_at e' = Some (w_now w + seconds (hardening_duration_secs tm))
             else
               ev_phase e' = PhAttack
               \<and> (\<exists>r \<in> set (w_rounds w'). rd_event_id r = i \<and> rd_round_number r = 1 \<and> rd_status r = RdActive
                    \<and> rd_scheduled_end_at r = w_now w + seconds (ev_round_duration_secs e)
                    \<and> (\<exists>t \<in> set (w_sched w'). st_task_key t = AwdRoundEnd \<and> st_status t = TsPending
                         \<and> st_payload_event_id t = Some i \<and> st_payload_round_id t = Some (rd_id r)
                         \<and> st_execute_at t = Some (rd_scheduled_end_at r)))))"
proof (cases "verified_now e")
  case True
  then have v: "ev_status e = EvVerified" "(ev_verified_at e = None) = False"
      "ev_verified_generation e = Some (ev_configuration_generation e)"
    by (simp_all add: verified_now_def)
  show ?thesis
  proof (cases "List.find (\<lambda>g. ge_id g = i) (w_generic_events w)")
    case None
    then show ?thesis using start_refused [OF ids ev, of env] True by (simp add: verified_now_def)
  next
    case (Some g)
    show ?thesis
    proof (cases "compute_timing (ge_start_time g) (ge_end_time g) (ev_round_count e) (ev_round_duration_secs e)")
      case (Inl x)
      then show ?thesis using start_refused [OF ids ev, of env] Some True by (simp add: verified_now_def)
    next
      case (Inr tm)
      from start_opens [OF ids ev True Some Inr rs, of env] show ?thesis
        unfolding v Some option.case Inr sum.case by simp
    qed
  qed
next
  case False
  then show ?thesis using start_refused [OF ids ev, of env] by (auto simp: verified_now_def)
qed

text \<open>
  C34. What ending the active round \<open>n\<close> of a running attack does, when all earlier rounds are
  completed. It completes that round and no other and posts no score, whether or not a judge batch
  could be created and the firewall answered. When more rounds are configured, round \<open>n + 1\<close> follows
  as the event's only active round, with a full duration ahead of it and a pending task that will end
  it, and ending round \<open>n\<close> again changes nothing. When it was the last one, no round follows, the
  firewall is handed a policy in which the event is in final settlement, and the event is Finished at
  once if every judge task of the event has ended by then and still Running otherwise.
\<close>

theorem end_round_outcome:
  assumes ids: "distinct (map ev_id (w_events w))"
    and ev: "List.find (\<lambda>x. ev_event_id x = i) (w_events w) = Some e"
    and st: "ev_status e = EvRunning" "ev_phase e = PhAttack"
    and rd: "List.find (\<lambda>r. rd_id r = k) (w_rounds w) = Some r"
    and r: "rd_event_id r = i" "rd_status r = RdActive" "1 \<le> rd_round_number r"
    and rc: "ev_round_count e = Some rc" "rd_round_number r \<le> rc" "in_i32 rc"
    and rs: "rounds_unique (w_rounds w)" "\<forall>x \<in> set (w_rounds w). rd_event_id x = i \<longrightarrow>
        rd_round_number x \<le> rd_round_number r \<and> (x = r \<or> rd_status x = RdCompleted)"
    and net: "List.find (\<lambda>n. en_event_id n = i) (w_event_networks w) = Some n"
  shows "\<exists>w'. end_round env i k w = (Inr (), w') \<and> w_scores w' = w_scores w
    \<and> (let done = update_where (\<lambda>x. rd_id x = k) (completed_at (w_now w)) (w_rounds w) in
       if rd_round_number r < rc then
         w_events w' = w_events w \<and> end_round env i k w' = (Inr (), w')
         \<and> (\<exists>r'. w_rounds w' = done @ [r']
              \<and> rd_event_id r' = i \<and> rd_round_number r' = rd_round_number r + 1 \<and> rd_status r' = RdActive
              \<and> rd_scheduled_end_at r' = w_now w + seconds (ev_round_duration_secs e)
              \<and> (\<forall>x \<in> set (w_rounds w'). rd_event_id x = i \<and> rd_status x = RdActive \<longrightarrow> x = r')
              \<and> (\<exists>t \<in> set (w_sched w'). st_task_key t = AwdRoundEnd \<and> st_status t = TsPending
                   \<and> st_payload_event_id t = Some i \<and> st_payload_round_id t = Some (rd_id r')
                   \<and> st_execute_at t = Some (rd_scheduled_end_at r')))
       else w_rounds w' = done
         \<and> (\<exists>d p. FxFirewall d \<in> set (w_log w') \<and> p \<in> set (df_events d) \<and> dp_event_id p = i
              \<and> dp_is_final_settlement p)
         \<and> (\<exists>e'. List.find (\<lambda>x. ev_event_id x = i) (w_events w') = Some e'
              \<and> ev_status e' = (if \<forall>t \<in> set (w_tasks w'). jt_event_id t = i \<longrightarrow> judge_is_terminal (jt_status t)
                                 then EvFinished else EvRunning)))"
proof (cases "rd_round_number r < rc")
  case True
  have "\<forall>x \<in> set (w_rounds w). rd_event_id x = i \<longrightarrow> rd_round_number x \<noteq> rd_round_number r + 1"
    using rs(2) by fastforce
  from next_round_follows [OF ev st rd r(1,2) refl r(3) rc(1) True rc(3) rs(1) this, of env]
  show ?thesis unfolding Let_def if_P [OF True] by blast
next
  case False
  then have "ev_round_count e = Some (rd_round_number r)" using rc by simp
  from last_round_closes [OF ids ev st rd r(1,2) this rs net, of env]
  show ?thesis unfolding Let_def if_not_P [OF False] by blast
qed

section \<open>Witnesses\<close>

definition sample_event :: awd_event where
  "sample_event = \<lparr>ev_id = 11, ev_event_id = 1, ev_status = EvVerified, ev_phase = PhHardening,
     ev_free_reset_count = 1, ev_extra_reset_penalty = 10, ev_judge_max_concurrency = 4,
     ev_judge_default_timeout_secs = 30, ev_judge_retry_interval_secs = 5,
     ev_judge_grace_period_secs = 10, ev_round_duration_secs = 300, ev_archive_retention_hours = 24,
     ev_verified_at = Some 0, ev_verified_revision = Some ''r1'', ev_pause_remaining_secs = None,
     ev_started_at = None, ev_finished_at = None, ev_updated_at = 0, ev_paused_phase = None,
     ev_configuration_generation = 7, ev_verified_generation = Some 7, ev_round_count = Some 2,
     ev_initial_score = 1000, ev_hardening_ends_at = None, ev_key_version = 1,
     ev_flagserver_token_ciphertext = None, ev_flagserver_token_nonce = None, ev_judgeserver_token_ciphertext = None,
     ev_judgeserver_token_nonce = None, ev_wg_private_key_ciphertext = None, ev_wg_private_key_nonce = None,
     ev_wg_public_key = None\<rparr>"

definition sample_network :: event_network where
  "sample_network = \<lparr>en_id = 12, en_event_id = 1, en_allocation_mode = AmAutomatic,
     en_gamebox_cidr = sample_cidr, en_wireguard_cidr = sample_cidr,
     en_infrastructure_subnet = sample_cidr, en_flagserver_ip = 1, en_judgeserver_ip = 2,
     en_wireguard_interface_name = ''fawg_1'', en_wireguard_listen_port = 51820,
     en_docker_network_name = ''fctf-awd-1'', en_locked_at = None, en_created_at = 0\<rparr>"

definition life_world :: "awd_event \<Rightarrow> awd_world" where
  "life_world e = empty_world\<lparr>w_events := [e], w_event_networks := [sample_network],
     w_generic_events := [\<lparr>ge_id = 1, ge_start_time = 0, ge_end_time = Some (seconds 900)\<rparr>]\<rparr>"

lemma life_world_fields [simp]:
  "w_events (life_world e) = [e]" "w_event_networks (life_world e) = [sample_network]"
  "w_generic_events (life_world e) = [\<lparr>ge_id = 1, ge_start_time = 0, ge_end_time = Some (seconds 900)\<rparr>]"
  "w_rounds (life_world e) = []" "w_tasks (life_world e) = []" "w_now (life_world e) = 0"
  by (simp_all add: life_world_def empty_world_def)

lemma sample_event_fields [simp]:
  "ev_id sample_event = 11" "ev_event_id sample_event = 1" "ev_status sample_event = EvVerified"
  "ev_round_count sample_event = Some 2" "ev_round_duration_secs sample_event = 300"
  "en_event_id sample_network = 1"
  by (simp_all add: sample_event_def sample_network_def)

theorem start_outcome_witness:
  "\<exists>res w' e'. start_event sample_env 1 (life_world sample_event) = (res, w')
     \<and> List.find (\<lambda>x. ev_event_id x = 1) (w_events w') = Some e'
     \<and> ev_status e' = EvRunning \<and> ev_hardening_ends_at e' = Some (seconds 300)"
proof -
  have tm: "compute_timing 0 (Some (seconds 900)) (Some 2) 300
     = Inr \<lparr>event_duration_secs = 900, attack_duration_secs = 600, hardening_duration_secs = 300,
            timing_round_count = 2, timing_round_duration_secs = 300\<rparr>"
    by (simp add: compute_timing_def checked_mul_i64_def in_i64_def seconds_def num_seconds_def nanos_per_sec_def)
  have v: "ev_verified_at sample_event = Some 0" "ev_verified_generation sample_event = Some 7"
      "ev_configuration_generation sample_event = 7"
    by (simp_all add: sample_event_def)
  have "rounds_unique (w_rounds (life_world sample_event))" by (simp add: rounds_unique_def)
  from start_outcome [OF _ _ this, of 1 sample_event sample_env]
  show ?thesis by (simp add: v tm) blast
qed

definition final_round :: awd_round where
  "final_round = \<lparr>rd_id = 21, rd_event_id = 1, rd_round_number = 2, rd_status = RdCompleted,
     rd_phase = PhAttack, rd_started_at = 0, rd_scheduled_end_at = seconds 300, rd_paused_at = None,
     rd_remaining_secs = None, rd_completed_at = Some (seconds 300)\<rparr>"


theorem pause_keeps_hardening_time_witness:
  "\<exists>w1 w2 e2. pause_event sample_env 1 (life_world (sample_event\<lparr>ev_status := EvRunning,
        ev_hardening_ends_at := Some (seconds 100)\<rparr>)) = (Inr (), w1)
     \<and> resume_event sample_env 1 (w1\<lparr>w_now := seconds 5000\<rparr>) = (Inr (), w2)
     \<and> List.find (\<lambda>x. ev_event_id x = 1) (w_events w2) = Some e2
     \<and> ev_hardening_ends_at e2 = Some (seconds 5000 + seconds 100)"
proof -
  let ?e = "sample_event\<lparr>ev_status := EvRunning, ev_hardening_ends_at := Some (seconds 100)\<rparr>"
  have "ev_phase ?e = PhHardening" by (simp add: sample_event_def)
  moreover have "in_i32 (num_seconds (seconds 100))" by (simp add: in_i32_def)
  ultimately show ?thesis
    using pause_keeps_hardening_time [of "life_world ?e" 1 ?e "seconds 100" sample_env sample_network "seconds 5000"]
    by (auto simp: sample_env_def seconds_mono)
qed

definition running_event :: awd_event where
  "running_event = sample_event\<lparr>ev_status := EvRunning, ev_phase := PhAttack\<rparr>"

definition open_round :: "int \<Rightarrow> awd_round" where
  "open_round n = final_round\<lparr>rd_round_number := n, rd_status := RdActive, rd_completed_at := None\<rparr>"

definition round_world :: "int \<Rightarrow> awd_world" where
  "round_world n = (life_world running_event)\<lparr>w_rounds := [open_round n]\<rparr>"

lemma round_world_facts [simp]:
  "w_events (round_world n) = [running_event]" "w_rounds (round_world n) = [open_round n]"
  "w_event_networks (round_world n) = [sample_network]" "w_now (round_world n) = 0"
  "ev_id running_event = 11" "ev_event_id running_event = 1" "ev_status running_event = EvRunning"
  "ev_phase running_event = PhAttack" "ev_round_count running_event = Some 2"
  "ev_round_duration_secs running_event = 300"
  "rd_id (open_round n) = 21" "rd_event_id (open_round n) = 1" "rd_status (open_round n) = RdActive"
  "rd_round_number (open_round n) = n"
  by (simp_all add: round_world_def running_event_def open_round_def final_round_def)

theorem end_round_outcome_witness:
  "\<exists>w'. end_round sample_env 1 21 (round_world 2) = (Inr (), w')
     \<and> w_rounds w' = [completed_at 0 (open_round 2)]
     \<and> (\<exists>e'. List.find (\<lambda>x. ev_event_id x = 1) (w_events w') = Some e'
          \<and> ev_status e' \<in> {EvFinished, EvRunning})"
  using end_round_outcome [of "round_world 2" 1 running_event 21 "open_round 2" 2 sample_network sample_env]
  by (auto simp: rounds_unique_def in_i32_def Let_def split: if_splits)

end
