(* ===== verification/Awd_System.thy ===== *)
theory Awd_System
  imports Awd_Judge_Api Sched_Engine Awd_Lifecycle_Facts
begin

text \<open>
  The AWD module as one state machine: the requests of administrators, players and JudgeServers, the
  scheduler's polls and dispatches, the recovery at start-up and the passing of time. A request is
  served at one instant; whatever order they arrive in, the facts below hold in every state the
  machine reaches. The invariants are all proved through one interface, the locale
  \<open>awd_invariant\<close>: a fact that survives every single write of the repositories survives every request.
\<close>

section \<open>The machine\<close>

definition awd_registry :: "awd_env \<Rightarrow> registry" where
  "awd_registry env = [AwdEventStart \<mapsto> event_start_run env, AwdRoundStart \<mapsto> round_start_run env,
     AwdRoundEnd \<mapsto> round_end_run env, AwdHardeningEnd \<mapsto> hardening_end_run env,
     AwdJudgeBatchDeadline \<mapsto> judge_batch_deadline_run env]"

datatype awd_request =
    StartEvent uuid
  | PauseEvent uuid
  | ResumeEvent uuid
  | FinishEvent uuid
  | BanTeam uuid uuid "string option" "uuid option"
  | UnbanTeam uuid uuid "uuid option"
  | AdjustScore uuid uuid int string
  | PlanStart uuid "timestamp option"
  | PlanPrecheck uuid timestamp
  | IssueFlag uuid string string string
  | SubmitFlag uuid uuid bool string
  | JudgeClaim internal_principal bool string "nat option"
  | JudgeHeartbeat internal_principal uuid lease_request
  | JudgeResult internal_principal uuid lease_request string string result_payload
  | RecoverRounds uuid
  | RecoverDeadlines uuid
  | PollTasks
  | DispatchTask uuid
  | TimePasses int

text \<open>
  The state after a request. A dispatch concerns a task that a poll has taken and whose handler is
  modelled; time never runs backwards.
\<close>

fun awd_serve :: "awd_env \<Rightarrow> cron_lib \<Rightarrow> awd_request \<Rightarrow> awd_world \<Rightarrow> awd_world" where
  "awd_serve env cron (StartEvent e) w = snd (start_awd_event env e w)"
| "awd_serve env cron (PauseEvent e) w = snd (pause_event env e w)"
| "awd_serve env cron (ResumeEvent e) w = snd (resume_event env e w)"
| "awd_serve env cron (FinishEvent e) w = snd (finish_event env e w)"
| "awd_serve env cron (BanTeam e t reason by) w = snd (ban_team env e t reason by w)"
| "awd_serve env cron (UnbanTeam e t by) w = snd (unban_team env e t by w)"
| "awd_serve env cron (AdjustScore e t d reason) w = snd (record_adjustment env e t d reason w)"
| "awd_serve env cron (PlanStart e at) w = snd (replace_event_start_schedule e at w)"
| "awd_serve env cron (PlanPrecheck e st) w = snd (replace_auto_precheck_schedule e st (w_now w) w)"
| "awd_serve env cron (IssueFlag e ip secret pre) w = snd (issue_flag env e ip secret pre w)"
| "awd_serve env cron (SubmitFlag e u ok flag) w = snd (submit_flag env e u ok flag w)"
| "awd_serve env cron (JudgeClaim p ok wk lim) w = snd (judge_claim env p ok wk lim w)"
| "awd_serve env cron (JudgeHeartbeat p t req) w = snd (judge_heartbeat env p t req w)"
| "awd_serve env cron (JudgeResult p t req rid out pl) w = snd (judge_result env p t req rid out pl w)"
| "awd_serve env cron (RecoverRounds e) w = snd (restore_round_scheduling env e w)"
| "awd_serve env cron (RecoverDeadlines e) w = snd (restore_batch_deadlines e w)"
| "awd_serve env cron PollTasks w = snd (fetch_due w)"
| "awd_serve env cron (DispatchTask i) w =
     (case List.find (\<lambda>t. st_id t = i) (w_sched w) of
        None \<Rightarrow> w
      | Some t \<Rightarrow>
          if st_status t = TsRunning \<and> awd_registry env (st_task_key t) \<noteq> None
          then snd (dispatch_with_precision cron (awd_registry env) t w) else w)"
| "awd_serve env cron (TimePasses d) w = w\<lparr>w_now := w_now w + max d 0\<rparr>"

inductive awd_reach :: "awd_env \<Rightarrow> cron_lib \<Rightarrow> awd_world \<Rightarrow> awd_world \<Rightarrow> bool"
  for env cron w0 where
  start: "awd_reach env cron w0 w0"
| serve: "awd_reach env cron w0 w \<Longrightarrow> awd_reach env cron w0 (awd_serve env cron q w)"

section \<open>Invariants of the repositories' writes\<close>

text \<open>
  When a round may be started: the first round; the round after a completed one, as long as more
  rounds are configured; or the round a scheduled start names.
\<close>

definition may_start :: "awd_world \<Rightarrow> uuid \<Rightarrow> int option \<Rightarrow> bool" where
  "may_start w i n \<longleftrightarrow>
     n = Some 1 \<or>
     (\<exists>r \<in> set (w_rounds w). rd_event_id r = i \<and> rd_status r = RdCompleted
        \<and> n \<in> {Some (as_i32 (rd_round_number r + 1)), Some (rd_round_number r + 1)}
        \<and> (\<forall>e rc. List.find (\<lambda>e. ev_event_id e = i) (w_events w) = Some e \<and> ev_round_count e = Some rc \<longrightarrow>
             rd_round_number r < rc)) \<or>
     (\<exists>t \<in> set (w_sched w). st_task_key t = AwdRoundStart \<and> n = st_payload_round_number t)"

definition round_open :: "awd_world \<Rightarrow> uuid \<Rightarrow> bool" where
  "round_open w k \<longleftrightarrow> (\<exists>r \<in> set (w_rounds w). rd_id r = k \<and> rd_status r \<in> {RdActive, RdPaused})"

text \<open>A round that has just been completed, with more rounds configured, may be followed by the next.\<close>

lemma completed_may_start:
  assumes "complete_round_txn i k w = (Inr (Some (n, False)), w1)"
  shows "may_start w1 i (Some (as_i32 (n + 1)))"
proof -
  obtain r e where r: "List.find (\<lambda>r. rd_id r = k) (w_rounds w) = Some r" "rd_event_id r = i"
      "rd_status r = RdActive" "rd_round_number r = n"
    and e: "List.find (\<lambda>x. ev_event_id x = i) (w_events w) = Some e"
      "case ev_round_count e of None \<Rightarrow> True | Some rc \<Rightarrow> n < rc"
    and w1: "w1 = w\<lparr>w_rounds := update_where (\<lambda>x. rd_id x = k) (completed_at (w_now w)) (w_rounds w)\<rparr>"
    using assms
    by (auto simp: complete_round_txn_def update_round_status_def update_round_def completed_at_eta op_defs run_simps
        Let_def split: option.splits if_splits)
  have "completed_at (w_now w) r \<in> set (w_rounds w1)"
    using find_SomeD [OF r(1)] unfolding w1 by (force simp: set_update_where)
  then show ?thesis
    unfolding may_start_def using r e w1 by (intro disjI2 disjI1 bexI) (auto split: option.splits)
qed

lemma snd_dbM [simp]: "snd (dbM m w) = snd (m w)"
  by (auto simp: dbM_run split: prod.splits sum.splits)

locale awd_invariant = outside_judging I for I :: "awd_world \<Rightarrow> bool" +
  assumes log_free: "I w \<Longrightarrow> I (w\<lparr>w_log := l\<rparr>)"
    and revision_free: "I w \<Longrightarrow> I (w\<lparr>w_network_revision := v\<rparr>)"
    and clock_free: "I w \<Longrightarrow> I (w\<lparr>w_now := t\<rparr>)"
    and keeps_transition: "keeps I (transition_event i a b p)"
    and keeps_phase: "keeps I (update_phase i ph)"
    and keeps_hardening_cleared:
      "keeps I (update_event i (\<lambda>e. e\<lparr>ev_hardening_ends_at := None, ev_updated_at := t\<rparr>))"
    and start_ok: "I w \<Longrightarrow> may_start w i n \<Longrightarrow> I (snd (start_round_txn i n w))"
    and keeps_complete: "keeps I (complete_round_txn i k)"
    and pause_ok: "I w \<Longrightarrow> round_open w k \<Longrightarrow> I (snd (pause_round k s w))"
    and resume_ok: "I w \<Longrightarrow> round_open w k \<Longrightarrow> I (snd (update_round k (\<lambda>r. r\<lparr>rd_status := RdActive,
        rd_scheduled_end_at := t, rd_remaining_secs := None, rd_paused_at := None\<rparr>) w))"
    and keeps_score: "keeps I (create_score_event e ro tm ty d key rel ins eg why)"
    and keeps_score_absent: "keeps I (create_score_event_if_absent e ro tm ty d key rel ins eg why)"
    and keeps_issue: "keeps I (find_or_create_issue e r inst h)"
    and keeps_submission: "keeps I (create_submission e r fi atk vic inst u)"
    and keeps_ban: "keeps I (create_ban e tm why ro by)"
    and keeps_unban: "keeps I (complete_unban k by)"
    and keeps_team: "keeps I (sync_team_banned e tm bnd)"
    and task_insert: "st_task_key tk \<noteq> AwdRoundStart \<Longrightarrow> keeps I (insert_task tk)"
    and task_delete: "keeps I (delete_tasks del)"
    and task_edit: "I w \<Longrightarrow> (\<And>tk. st_task_key (f tk) = st_task_key tk) \<Longrightarrow> I (w\<lparr>w_sched := map f (w_sched w)\<rparr>)"
begin

lemma keeps_revision: "keeps I next_network_revision"
  by (simp add: keeps_def next_network_revision_run revision_free)

lemma keeps_reconcile: "keeps I (reconcile_global env v)"
  by (simp add: keeps_def reconcile_global_run log_free Let_def)

lemma keeps_emit: "keeps I (emitM x)"
  by (simp add: keeps_def emitM_run log_free)

lemma keeps_publish: "keeps I (publish n e)"
  by (simp add: publish_def keeps_emit)

lemma keeps_flush: "keeps I (flush_event_connections e)"
  by (simp add: flush_event_connections_def keeps_emit)

lemma keeps_reads:
  "keeps I (find_latest_round e)" "keeps I (find_active_round e)" "keeps I (find_round_by_id k)"
  "keeps I (find_generic_event_by_id e)" "keeps I (find_active_ban e tm)" "keeps I (require_event_network e)"
  "keeps I (all_event_judge_tasks_terminal e)" "keeps I (find_instance_by_ip e ip)"
  "keeps I (find_issue_by_hash e r h)" "keeps I (find_instance_by_id k)" "keeps I (has_submission e r a g)"
  by (auto simp: find_latest_round_def find_active_round_def find_round_by_id_def find_generic_event_by_id_def
      find_active_ban_def require_event_network_def all_event_judge_tasks_terminal_def find_instance_by_ip_def
      find_issue_by_hash_def find_instance_by_id_def has_submission_def intro!: keeps_intros)

lemmas keeps_basic = keeps_intros keeps_new_uuid keeps_nowM keeps_dbM keeps_find_by_event_id keeps_reads
  keeps_revision keeps_reconcile keeps_publish keeps_flush keeps_transition keeps_emit

lemma keeps_maybe_finish: "keeps I (maybe_finish_event env e)"
  unfolding maybe_finish_event_def
  by (intro keeps_basic) (simp split: awd_error.splits add: keeps_returnM keeps_throwM)

lemma keeps_schedule:
  "keeps I (schedule_hardening_end e at)" "keeps I (schedule_batch_deadline_task e b at)"
  unfolding schedule_hardening_end_def schedule_batch_deadline_task_def
  by (intro keeps_basic task_insert; simp)+

lemma keeps_schedule_round: "key \<noteq> AwdRoundStart \<Longrightarrow> keeps I (schedule_round_task e key at r n)"
  unfolding schedule_round_task_def by (intro keeps_basic task_insert; simp)

lemma keeps_seed: "keeps I (seed_initial_scores env e s)"
  unfolding seed_initial_scores_def by (intro keeps_basic keeps_score_absent)

lemma start_round_ok:
  assumes "I w" "may_start w i n"
  shows "I (snd (start_round env i n w))"
  unfolding start_round_def by (rule bindM_post [of I], rule start_ok [OF assms]) (intro keeps_basic)


lemma end_round_keeps: "keeps I (end_round env i k)"
  unfolding keeps_def
proof (intro allI impI)
  fix w assume w: "I w"
  obtain r w1 where c: "complete_round_txn i k w = (r, w1)" by fastforce
  then have w1: "I w1" using keepsD_run [OF keeps_complete w] by simp
  show "I (snd (end_round env i k w))"
  proof (cases "\<exists>n. r = Inr (Some (n, False))")
    case False
    have close: "keeps I (close_final_round env i)"
      unfolding close_final_round_def by (intro keeps_basic keeps_maybe_finish)
    have sd: "keeps I (schedule_deadline_of i res)" for res
      unfolding schedule_deadline_of_def max_task_deadline_def by (intro keeps_basic keeps_schedule)
    have "I (snd (bindM (attemptM (create_batch env i k)) (\<lambda>res. bindM (close_final_round env i) (\<lambda>_.
        bindM (schedule_deadline_of i res) (\<lambda>_. publish ''round.completed'' i))) w1))"
      by (rule keepsD [of I _ w1, OF _ w1]) (intro keeps_basic keeps_create_batch close sd)
    then show ?thesis
      using False c w1 by (auto simp: end_round_def bindM_run returnM_run split: sum.splits option.splits)
  next
    case True
    then obtain n where r: "r = Inr (Some (n, False))" by blast
    obtain res w2 where b: "create_batch env i k w1 = (res, w2)" by fastforce
    have w2: "I w2" using keepsD_run [OF keeps_create_batch w1 b] .
    have "may_start w2 i (Some (as_i32 (n + 1)))"
      using completed_may_start [OF c [unfolded r]] create_batch_frame [OF b] by (simp add: may_start_def)
    then have w3: "I (snd (start_round env i (Some (as_i32 (n + 1))) w2))" by (rule start_round_ok [OF w2])
    have sd: "keeps I (schedule_deadline_of i res)" for res
      unfolding schedule_deadline_of_def max_task_deadline_def by (intro keeps_basic keeps_schedule)
    have "I (snd (bindM (schedule_deadline_of i res) (\<lambda>_. publish ''round.completed'' i)
        (snd (start_round env i (Some (as_i32 (n + 1))) w2))))"
      by (rule keepsD [of I, OF _ w3]) (intro keeps_basic sd)
    then show ?thesis
      using end_round_unfold [OF c [unfolded r] b] by (simp add: bindM_run [of "ignoreM _"] ignoreM_run)
  qed
qed


lemma keeps_start_first: "keeps I (start_round env i (Some 1))"
  by (auto simp: keeps_def may_start_def intro: start_round_ok)

lemma recover_round_gap_ok:
  assumes w: "I w" and closed: "\<And>r. r \<in> set (w_rounds w) \<Longrightarrow> rd_event_id r = i \<Longrightarrow> rd_status r \<notin> {RdActive, RdPaused}"
  shows "I (snd (recover_round_gap env i w))"
proof -
  have next_ok: "I (snd (bindM (start_round env i (Some (rd_round_number r + 1))) (\<lambda>_. returnM (1::nat)) w))"
    if r: "latest_round w i = Some r" and e: "List.find (\<lambda>x. ev_event_id x = i) (w_events w) = Some e"
      "ev_round_count e = Some rc" "rd_round_number r < rc" for r e rc
  proof -
    have mem: "r \<in> set (w_rounds w)" "rd_event_id r = i"
      using r by (auto simp: latest_round_def dest: max_by_mem)
    then have "rd_status r = RdCompleted" using closed [of r] by (cases "rd_status r") auto
    then have "may_start w i (Some (rd_round_number r + 1))"
      using mem e unfolding may_start_def by (intro disjI2 disjI1 bexI [OF _ mem(1)]) auto
    from start_round_ok [OF w this] show ?thesis by (rule bindM_post [of I]) (rule keeps_returnM)
  qed
  have first: "I (snd (bindM (start_round env i (Some 1)) (\<lambda>_. returnM (1::nat)) w))"
    by (rule keepsD [of I _ w, OF _ w]) (intro keeps_basic keeps_start_first)
  show ?thesis
    using w next_ok first
    by (auto simp: recover_round_gap_def bindM_run [of "dbM _"] bindM_run [of "ok_orM _ _"] ok_orM_run dbM_run
        find_by_event_id_run find_latest_round_run returnM_run Let_def split: option.splits)
qed

lemma keeps_restore_end: "keeps I (restore_round_end_task e k at)"
  unfolding restore_round_end_task_def by (intro keeps_basic keeps_schedule_round) simp

lemma keeps_restore_round_scheduling: "keeps I (restore_round_scheduling env i)"
  unfolding keeps_def
proof (intro allI impI)
  fix w assume w: "I w"
  show "I (snd (restore_round_scheduling env i w))"
  proof (cases "List.find (\<lambda>r. rd_event_id r = i \<and> rd_status r \<in> {RdActive, RdPaused}) (w_rounds w)")
    case None
    then have "I (snd (recover_round_gap env i w))"
      by (intro recover_round_gap_ok [OF w]) (auto simp: find_None_iff)
    then show ?thesis
      using None w
      by (auto simp: restore_round_scheduling_def bindM_run dbM_run find_active_round_run find_by_event_id_run
          ok_orM_run returnM_run split: option.splits)
  next
    case (Some r)
    then show ?thesis
      using w keepsD [OF keeps_restore_end w]
      by (auto simp: restore_round_scheduling_def bindM_run dbM_run find_active_round_run returnM_run)
  qed
qed

lemma keeps_start_event: "keeps I (start_event env i)"
  unfolding start_event_def Let_def
  by (intro keeps_basic keeps_seed keeps_schedule keeps_start_first)

lemma keeps_start_awd_event: "keeps I (start_awd_event env i)"
  unfolding start_awd_event_def cancel_pending_event_lifecycle_schedules_def
  by (intro keeps_basic keeps_start_event task_delete)

lemma find_active_open:
  "List.find (\<lambda>r. rd_event_id r = i \<and> rd_status r \<in> {RdActive, RdPaused}) (w_rounds w) = Some r \<Longrightarrow> round_open w (rd_id r)"
  unfolding round_open_def by (metis (mono_tags, lifting) find_SomeD)

lemma keeps_pause_phase: "keeps I (pause_phase_remaining e)"
  unfolding keeps_def
proof (intro allI impI)
  fix w assume w: "I w"
  have "I (snd (bindM (dbM (pause_round (rd_id r) s)) (\<lambda>_. returnM s) w))"
    if "List.find (\<lambda>r. rd_event_id r = ev_event_id e \<and> rd_status r \<in> {RdActive, RdPaused}) (w_rounds w) = Some r" for r s
    using pause_ok [OF w find_active_open [OF that], of s]
    by (auto simp: bindM_run dbM_run returnM_run split: prod.splits sum.splits)
  moreover have "keeps I (ignoreM (dbM (cancel_pending_hardening_end (ev_event_id e))))"
    unfolding cancel_pending_hardening_end_def by (intro keeps_basic task_delete)
  then have "I (snd (ignoreM (dbM (cancel_pending_hardening_end (ev_event_id e))) w))" using w by (rule keepsD [of I])
  ultimately show "I (snd (pause_phase_remaining e w))"
    using w
    by (cases "ev_phase e")
       (auto simp: pause_phase_remaining_def bindM_run [of nowM] bindM_run [of "ignoreM _"] ignoreM_run nowM_run
         bindM_run [of "dbM (find_active_round _)"] dbM_run find_active_round_run returnM_run Let_def split: option.splits)
qed

lemma keeps_pause_event: "keeps I (pause_event env i)"
  unfolding pause_event_def by (intro keeps_basic keeps_pause_phase)


lemma keeps_resume_hardening: "keeps I (resume_hardening e s)"
  unfolding resume_hardening_def Let_def
  by (intro keeps_basic keeps_schedule keeps_phase keeps_hardening_cleared)

lemma keeps_resume_attack: "keeps I (resume_attack e)"
  unfolding keeps_def
proof (intro allI impI)
  fix w assume w: "I w"
  let ?f = "\<lambda>r t. r\<lparr>rd_status := RdActive, rd_scheduled_end_at := t, rd_remaining_secs := None, rd_paused_at := None\<rparr>"
  let ?next = "transition_event (ev_id e) (ev_status e) EvRunning
     (patch_default\<lparr>tp_phase := Some PhAttack, tp_pause_remaining_secs := Some 0\<rparr>)"
  have "I (snd (bindM (dbM (update_round (rd_id r) (\<lambda>r. ?f r t))) (\<lambda>_. ?next) w))"
    if "List.find (\<lambda>r. rd_event_id r = ev_event_id e \<and> rd_status r \<in> {RdActive, RdPaused}) (w_rounds w) = Some r" for r t
  proof (rule bindM_post [of I])
    show "I (snd (dbM (update_round (rd_id r) (\<lambda>r. ?f r t)) w))"
      using resume_ok [OF w find_active_open [OF that], of t] by simp
  qed (rule keeps_transition)
  moreover have "I (snd (?next w))" using w by (rule keepsD [OF keeps_transition])
  ultimately show "I (snd (resume_attack e w))"
    by (auto simp: resume_attack_def bindM_run [of nowM] nowM_run bindM_run [of "dbM (find_active_round _)"] dbM_run
        find_active_round_run bindM_returnM Let_def split: option.splits)
qed

lemma keeps_resume_event: "keeps I (resume_event env i)"
  unfolding resume_event_def Let_def
  by (intro keeps_basic keeps_restore_round_scheduling)
     (simp add: keeps_resume_hardening keeps_resume_attack keeps_throwM split: awd_phase.splits)

lemma keeps_finish_event: "keeps I (finish_event env i)"
  unfolding finish_event_def by (rule keeps_maybe_finish)

lemma keeps_peer_op: "keeps I (peer_op env x)"
  by (simp add: keeps_def peer_op_def log_free)

lemma keeps_ban_team: "keeps I (ban_team env e tm why by)"
  unfolding ban_team_def suspend_team_peers_from_host_def
  by (intro keeps_basic keeps_ban keeps_team keeps_peer_op)

lemma keeps_unban_team: "keeps I (unban_team env e tm by)"
  unfolding unban_team_def restore_active_peers_to_host_def
  by (intro keeps_basic keeps_unban keeps_team keeps_peer_op)

lemma keeps_issue_flag: "keeps I (issue_flag env e ip secret pre)"
  unfolding issue_flag_def Let_def by (intro keeps_basic keeps_issue)

lemma keeps_resolve: "keeps I (resolve_event_gamebox_spec g)"
  unfolding resolve_event_gamebox_spec_def by (intro keeps_basic)

lemma keeps_process_submission:
  "keeps I (process_submission env e r fi atk vic inst u sc fb eg)"
  unfolding process_submission_def submission_txn_def unique_as_def Let_def
  by (intro keeps_basic keeps_submission keeps_score keeps_score_absent)

lemma keeps_submit_flag: "keeps I (submit_flag env e u ok flag)"
  unfolding submit_flag_def validate_submission_def Let_def
  by (intro keeps_basic) (auto intro!: keeps_basic keeps_resolve keeps_process_submission)

lemma keeps_adjustment: "keeps I (record_adjustment env e tm d why)"
  unfolding record_adjustment_def adjustment_event_def Let_def
  by (intro keeps_basic keeps_score)


lemma keeps_apiM: "keeps I m \<Longrightarrow> keeps I (apiM m)"
  unfolding apiM_def by (rule keeps_map_errM)

lemma keeps_fire: "keeps I m \<Longrightarrow> keeps I (fire m)"
  by (simp add: keeps_def fire_def)

lemma keeps_principal: "keeps I (judge_principal p)"
  by (simp add: judge_principal_def keeps_returnM keeps_throwM split: internal_principal.splits)

lemma keeps_judge_claim: "keeps I (judge_claim env p ok wk lim)"
  unfolding judge_claim_def Let_def
  by (intro keeps_basic keeps_apiM keeps_fire keeps_principal keeps_claim_tasks keeps_terminalize_past_deadline
      keeps_maybe_finish)

lemma keeps_judge_heartbeat: "keeps I (judge_heartbeat env p t req)"
  unfolding judge_heartbeat_def
  by (intro keeps_basic keeps_apiM keeps_principal keeps_heartbeat_task)
     (simp add: keeps_returnM keeps_throwM split: heartbeat_result.splits)

lemma keeps_score_judge_down: "keeps I (score_judge_down env e task)"
  unfolding score_judge_down_def Let_def
  by (intro keeps_basic keeps_apiM keeps_resolve keeps_score)

lemma keeps_submit_judged: "keeps I (submit_judged env e task req rid st p)"
  unfolding submit_judged_def
  by (intro keeps_basic keeps_apiM keeps_submit_result keeps_fire keeps_maybe_finish)
     (auto intro!: keeps_basic keeps_score_judge_down split: submit_result_kind.splits)

lemma keeps_judge_result: "keeps I (judge_result env pr t req rid out p)"
  unfolding judge_result_def release_task_to_pending_def
  by (intro keeps_basic keeps_apiM keeps_principal keeps_find_task_by_id)
     (auto intro!: keeps_basic keeps_apiM keeps_update_task keeps_submit_judged split: outcome.splits)

lemma keeps_restore_batch_deadlines: "keeps I (restore_batch_deadlines e)"
  unfolding restore_batch_deadlines_def restore_batch_deadline_def
  by (intro keeps_basic keeps_collectM task_insert) simp

lemma edit_rows: "I w \<Longrightarrow> (\<And>t. st_task_key (f t) = st_task_key t) \<Longrightarrow> I (w\<lparr>w_sched := update_where p f (w_sched w)\<rparr>)"
  unfolding update_where_def by (rule task_edit) auto

lemma keeps_reschedule: "keeps I (reschedule_task k at ex)"
proof -
  have "I (w_sched_update (update_where p f) w)" if "I w" "\<And>t. st_task_key (f t) = st_task_key t" for p f w
    unfolding w_sched_edit [of "update_where p f"] using that by (rule edit_rows)
  then show ?thesis by (auto simp: keeps_def reschedule_task_def update_pk_def)
qed

lemma keeps_plan_start: "keeps I (replace_event_start_schedule e at)"
  unfolding replace_event_start_schedule_def schedule_event_start_def Let_def
  by (intro keeps_basic) (auto intro!: keeps_basic keeps_reschedule task_delete task_insert split: option.splits)

lemma keeps_plan_precheck: "keeps I (replace_auto_precheck_schedule e st now)"
  unfolding replace_auto_precheck_schedule_def schedule_auto_precheck_def Let_def
  by (intro keeps_basic) (auto intro!: keeps_basic keeps_reschedule task_delete task_insert split: option.splits)

lemma keeps_handle_hardening_end: "keeps I (handle_hardening_end env e)"
  unfolding handle_hardening_end_def
  by (intro keeps_basic keeps_phase keeps_hardening_cleared keeps_start_first)

lemma keeps_fetch: "keeps I fetch_due"
  by (auto simp: keeps_def fetch_due_def Let_def intro!: edit_rows)

lemma keeps_mark_done: "keeps I (mark_done cron t res)"
proof -
  have "st_task_key (after_failure now t r) = st_task_key r" "st_task_key (after_success cron now t r) = st_task_key r" for now r
    by (auto simp: after_failure_def after_success_def Let_def
        split: trigger_type.splits option.splits sum.splits)
  then show ?thesis by (auto simp: keeps_def mark_done_run intro!: edit_rows split: sum.splits)
qed

text \<open>The handlers of the registry, on a task that is in the table.\<close>

lemma handler_ok:
  assumes w: "I w" and t: "t \<in> set (w_sched w)" and h: "awd_registry env (st_task_key t) = Some h"
  shows "I (snd (h t w))"
proof -
  have start: "I (snd (round_start_run env t w))" if "st_task_key t = AwdRoundStart"
  proof -
    have "may_start w i (st_payload_round_number t)" for i using that t by (auto simp: may_start_def)
    then have "I (snd (bindM (start_round env i (st_payload_round_number t)) (\<lambda>_. returnM ()) w))" for i
      using start_round_ok [OF w] by (intro bindM_post [of I] keeps_returnM) blast
    then show ?thesis
      using w by (auto simp: round_start_run_def event_id_from_task_def bindM_run [of "ok_orM _ _"] ok_orM_run
          bindM_run [of "dbM (find_by_event_id _)"] dbM_run find_by_event_id_run returnM_run split: option.splits)
  qed
  have others: "keeps I (event_start_run env t)" "keeps I (round_end_run env t)" "keeps I (hardening_end_run env t)"
     "keeps I (judge_batch_deadline_run env t)"
    unfolding event_start_run_def round_end_run_def hardening_end_run_def judge_batch_deadline_run_def event_id_from_task_def
    by (intro keeps_basic keeps_start_event end_round_keeps keeps_handle_hardening_end keeps_terminalize_batch_deadline
        keeps_maybe_complete_batch keeps_maybe_finish)+
  show ?thesis
    using h start others [THEN keepsD, OF w] by (auto simp: awd_registry_def split: if_splits)
qed

lemma dispatch_ok:
  assumes "I w" "t \<in> set (w_sched w)"
  shows "I (snd (dispatch_with_precision cron (awd_registry env) t w))"
proof (cases "awd_registry env (st_task_key t)")
  case (Some h)
  then show ?thesis
    using assms keepsD [OF keeps_mark_done handler_ok [OF assms Some]] keepsD [OF keeps_mark_done assms(1)]
    by (auto simp: dispatch_with_precision_def bindM_run nowM_run returnM_run attemptM_run)
qed (use assms keepsD [OF keeps_mark_done assms(1)] in
    \<open>auto simp: dispatch_with_precision_def bindM_run nowM_run returnM_run\<close>)

theorem serve_keeps: "I w \<Longrightarrow> I (awd_serve env cron q w)"
proof (cases q)
  case (DispatchTask i)
  assume "I w"
  then show ?thesis
    using dispatch_ok find_SomeD by (fastforce simp: DispatchTask split: option.splits)
qed (use keeps_start_awd_event keeps_pause_event keeps_resume_event keeps_finish_event keeps_ban_team keeps_unban_team
    keeps_adjustment keeps_plan_start keeps_plan_precheck keeps_issue_flag keeps_submit_flag keeps_judge_claim
    keeps_judge_heartbeat keeps_judge_result keeps_restore_round_scheduling keeps_restore_batch_deadlines keeps_fetch
    in \<open>simp_all add: keepsD clock_free\<close>)

theorem reach_keeps: "awd_reach env cron w0 w \<Longrightarrow> I w0 \<Longrightarrow> I w"
  by (induction rule: awd_reach.induct) (auto intro: serve_keeps)

end

section \<open>What each write touches\<close>

text \<open>
  For every write of the repositories, as an equation: the tables that can differ afterwards. The
  identifier supply only grows.
\<close>

lemma start_round_txn_writes:
  "snd (start_round_txn i n w) = w\<lparr>w_next_id := w_next_id (snd (start_round_txn i n w)),
     w_rounds := w_rounds (snd (start_round_txn i n w)), w_sched := w_sched (snd (start_round_txn i n w))\<rparr>"
  by (simp add: start_round_txn_run Let_def split: option.splits)

lemma round_writes:
  "snd (update_round k f w) = w\<lparr>w_rounds := w_rounds (snd (update_round k f w))\<rparr>"
  "snd (pause_round k s w) = w\<lparr>w_rounds := w_rounds (snd (pause_round k s w))\<rparr>"
  "snd (complete_round_txn i k w) = w\<lparr>w_rounds := w_rounds (snd (complete_round_txn i k w))\<rparr>"
  by (auto simp: complete_round_txn_def update_round_status_def pause_round_def update_round_def op_defs run_simps Let_def
      split: option.splits)

lemma event_writes:
  "snd (transition_event i a b p w) = w\<lparr>w_events := w_events (snd (transition_event i a b p w))\<rparr>"
  "snd (update_phase i ph w) = w\<lparr>w_events := w_events (snd (update_phase i ph w))\<rparr>"
  "snd (update_event i g w) = w\<lparr>w_events := w_events (snd (update_event i g w))\<rparr>"
  by (auto simp: update_phase_def op_defs run_simps Let_def split: option.splits sum.splits)

lemma flag_writes:
  "snd (find_or_create_issue e r inst h w) = w\<lparr>w_next_id := w_next_id (snd (find_or_create_issue e r inst h w)),
     w_flag_issues := w_flag_issues (snd (find_or_create_issue e r inst h w))\<rparr>"
  by (auto simp: find_or_create_issue_def op_defs run_simps Let_def split: option.splits)

lemmas write_eqs = start_round_txn_writes round_writes event_writes flag_writes

lemmas light_writes = create_score_event_run create_score_event_if_absent_run create_submission_def create_ban_def
  complete_unban_def sync_team_banned_def update_pk_def insert_task_def delete_tasks_def op_defs new_uuid_run nowM_run Let_def

lemma events_frame:
  "w_events (snd (start_round_txn i n w)) = w_events w" "w_events (snd (update_round k f w)) = w_events w"
  "w_events (snd (pause_round k s w)) = w_events w" "w_events (snd (complete_round_txn i k w)) = w_events w"
  "w_events (snd (create_score_event e ro tm ty d key rel ins eg why w)) = w_events w"
  "w_events (snd (create_score_event_if_absent e ro tm ty d key rel ins eg why w)) = w_events w"
  "w_events (snd (find_or_create_issue e r inst h w)) = w_events w"
  "w_events (snd (create_submission e r fi atk vic inst u w)) = w_events w"
  "w_events (snd (create_ban e tm why ro by w)) = w_events w"
  "w_events (snd (complete_unban k by w)) = w_events w"
  "w_events (snd (sync_team_banned e tm bnd w)) = w_events w" "w_events (snd (insert_task tk w)) = w_events w"
  "w_events (snd (delete_tasks del w)) = w_events w"
  using write_eqs [THEN arg_cong [of _ _ w_events]] by (simp_all add: light_writes)

lemma scores_frame:
  "w_scores (snd (start_round_txn i n w)) = w_scores w" "w_scores (snd (update_round k f w)) = w_scores w"
  "w_scores (snd (pause_round k s w)) = w_scores w" "w_scores (snd (complete_round_txn i k w)) = w_scores w"
  "w_scores (snd (transition_event i a b p w)) = w_scores w" "w_scores (snd (update_phase i ph w)) = w_scores w"
  "w_scores (snd (update_event i g w)) = w_scores w"
  "w_scores (snd (find_or_create_issue e r inst h w)) = w_scores w"
  "w_scores (snd (create_submission e r fi atk vic inst u w)) = w_scores w"
  "w_scores (snd (create_ban e tm why ro by w)) = w_scores w"
  "w_scores (snd (complete_unban k by w)) = w_scores w"
  "w_scores (snd (sync_team_banned e tm bnd w)) = w_scores w" "w_scores (snd (insert_task tk w)) = w_scores w"
  "w_scores (snd (delete_tasks del w)) = w_scores w"
  using write_eqs [THEN arg_cong [of _ _ w_scores]] by (simp_all add: light_writes)

lemma submissions_frame:
  "w_flag_submissions (snd (start_round_txn i n w)) = w_flag_submissions w"
  "w_flag_submissions (snd (update_round k f w)) = w_flag_submissions w"
  "w_flag_submissions (snd (pause_round k s w)) = w_flag_submissions w"
  "w_flag_submissions (snd (complete_round_txn i k w)) = w_flag_submissions w"
  "w_flag_submissions (snd (transition_event i a b p w)) = w_flag_submissions w"
  "w_flag_submissions (snd (update_phase i ph w)) = w_flag_submissions w"
  "w_flag_submissions (snd (update_event i g w)) = w_flag_submissions w"
  "w_flag_submissions (snd (create_score_event e ro tm ty d key rel ins eg why w)) = w_flag_submissions w"
  "w_flag_submissions (snd (create_score_event_if_absent e ro tm ty d key rel ins eg why w)) = w_flag_submissions w"
  "w_flag_submissions (snd (find_or_create_issue e r inst h w)) = w_flag_submissions w"
  "w_flag_submissions (snd (create_ban e tm why ro by w)) = w_flag_submissions w"
  "w_flag_submissions (snd (complete_unban k by w)) = w_flag_submissions w"
  "w_flag_submissions (snd (sync_team_banned e tm bnd w)) = w_flag_submissions w"
  "w_flag_submissions (snd (insert_task tk w)) = w_flag_submissions w"
  "w_flag_submissions (snd (delete_tasks del w)) = w_flag_submissions w"
  using write_eqs [THEN arg_cong [of _ _ w_flag_submissions]] by (simp_all add: light_writes)

lemma issues_frame:
  "w_flag_issues (snd (start_round_txn i n w)) = w_flag_issues w"
  "w_flag_issues (snd (update_round k f w)) = w_flag_issues w"
  "w_flag_issues (snd (pause_round k s w)) = w_flag_issues w"
  "w_flag_issues (snd (complete_round_txn i k w)) = w_flag_issues w"
  "w_flag_issues (snd (transition_event i a b p w)) = w_flag_issues w"
  "w_flag_issues (snd (update_phase i ph w)) = w_flag_issues w"
  "w_flag_issues (snd (update_event i g w)) = w_flag_issues w"
  "w_flag_issues (snd (create_score_event e ro tm ty d key rel ins eg why w)) = w_flag_issues w"
  "w_flag_issues (snd (create_score_event_if_absent e ro tm ty d key rel ins eg why w)) = w_flag_issues w"
  "w_flag_issues (snd (create_submission e r fi atk vic inst u w)) = w_flag_issues w"
  "w_flag_issues (snd (create_ban e tm why ro by w)) = w_flag_issues w"
  "w_flag_issues (snd (complete_unban k by w)) = w_flag_issues w"
  "w_flag_issues (snd (sync_team_banned e tm bnd w)) = w_flag_issues w"
  "w_flag_issues (snd (insert_task tk w)) = w_flag_issues w"
  "w_flag_issues (snd (delete_tasks del w)) = w_flag_issues w"
  using write_eqs [THEN arg_cong [of _ _ w_flag_issues]] by (simp_all add: light_writes)

lemma bans_frame:
  "w_bans (snd (start_round_txn i n w)) = w_bans w" "w_bans (snd (update_round k f w)) = w_bans w"
  "w_bans (snd (pause_round k s w)) = w_bans w" "w_bans (snd (complete_round_txn i k w)) = w_bans w"
  "w_bans (snd (transition_event i a b p w)) = w_bans w" "w_bans (snd (update_phase i ph w)) = w_bans w"
  "w_bans (snd (update_event i g w)) = w_bans w"
  "w_bans (snd (create_score_event e ro tm ty d key rel ins eg why w)) = w_bans w"
  "w_bans (snd (create_score_event_if_absent e ro tm ty d key rel ins eg why w)) = w_bans w"
  "w_bans (snd (find_or_create_issue e r inst h w)) = w_bans w"
  "w_bans (snd (create_submission e r fi atk vic inst u w)) = w_bans w"
  "w_bans (snd (sync_team_banned e tm bnd w)) = w_bans w" "w_bans (snd (insert_task tk w)) = w_bans w"
  "w_bans (snd (delete_tasks del w)) = w_bans w"
  using write_eqs [THEN arg_cong [of _ _ w_bans]] by (simp_all add: light_writes)

lemma rounds_frame:
  "w_rounds (snd (transition_event i a b p w)) = w_rounds w" "w_rounds (snd (update_phase i ph w)) = w_rounds w"
  "w_rounds (snd (update_event i g w)) = w_rounds w"
  "w_rounds (snd (create_score_event e ro tm ty d key rel ins eg why w)) = w_rounds w"
  "w_rounds (snd (create_score_event_if_absent e ro tm ty d key rel ins eg why w)) = w_rounds w"
  "w_rounds (snd (find_or_create_issue e r inst h w)) = w_rounds w"
  "w_rounds (snd (create_submission e r fi atk vic inst u w)) = w_rounds w"
  "w_rounds (snd (create_ban e tm why ro by w)) = w_rounds w"
  "w_rounds (snd (complete_unban k by w)) = w_rounds w"
  "w_rounds (snd (sync_team_banned e tm bnd w)) = w_rounds w" "w_rounds (snd (insert_task tk w)) = w_rounds w"
  "w_rounds (snd (delete_tasks del w)) = w_rounds w"
  using write_eqs [THEN arg_cong [of _ _ w_rounds]] by (simp_all add: light_writes)

lemma sched_frame:
  "w_sched (snd (update_round k f w)) = w_sched w" "w_sched (snd (pause_round k s w)) = w_sched w"
  "w_sched (snd (complete_round_txn i k w)) = w_sched w"
  "w_sched (snd (transition_event i a b p w)) = w_sched w" "w_sched (snd (update_phase i ph w)) = w_sched w"
  "w_sched (snd (update_event i g w)) = w_sched w"
  "w_sched (snd (create_score_event e ro tm ty d key rel ins eg why w)) = w_sched w"
  "w_sched (snd (create_score_event_if_absent e ro tm ty d key rel ins eg why w)) = w_sched w"
  "w_sched (snd (find_or_create_issue e r inst h w)) = w_sched w"
  "w_sched (snd (create_submission e r fi atk vic inst u w)) = w_sched w"
  "w_sched (snd (create_ban e tm why ro by w)) = w_sched w" "w_sched (snd (complete_unban k by w)) = w_sched w"
  "w_sched (snd (sync_team_banned e tm bnd w)) = w_sched w"
  using write_eqs [THEN arg_cong [of _ _ w_sched]] by (simp_all add: light_writes)


section \<open>Invariants of one table\<close>

text \<open>
  Facts about one table need only survive the writes of that table; each such contract gives the
  contract of the whole machine.
\<close>

locale event_rows_invariant =
  fixes J :: "awd_event list \<Rightarrow> bool"
  assumes move: "J es \<Longrightarrow> List.find (\<lambda>e. ev_id e = i) es = Some e \<Longrightarrow> b \<in> set (event_valid_transitions (ev_status e)) \<Longrightarrow>
      J (update_where (\<lambda>e. ev_id e = i) (active_model_from_patch b p now) es)"
    and touch: "J es \<Longrightarrow> (\<And>e. ev_id (f e) = ev_id e \<and> ev_event_id (f e) = ev_event_id e \<and> ev_status (f e) = ev_status e
      \<and> ev_round_count (f e) = ev_round_count e) \<Longrightarrow> J (update_where (\<lambda>e. ev_id e = i) f es)"

sublocale event_rows_invariant \<subseteq> sys: awd_invariant "\<lambda>w. J (w_events w)"
proof
  show "keeps (\<lambda>w. J (w_events w)) (transition_event i a b p)" for i a b p
    using move by (auto simp: keeps_def transition_event_run split: option.splits)
  show "keeps (\<lambda>w. J (w_events w)) (update_phase i ph)" for i ph
    using touch by (auto simp: keeps_def update_phase_def op_defs run_simps split: option.splits sum.splits)
  show "keeps (\<lambda>w. J (w_events w)) (update_event i (\<lambda>e. e\<lparr>ev_hardening_ends_at := None, ev_updated_at := t\<rparr>))" for i t
    using touch by (auto simp: keeps_def update_event_run)
qed (simp_all add: keeps_def events_frame)

locale score_rows_invariant =
  fixes J :: "score_event list \<Rightarrow> bool"
  assumes post: "J ss \<Longrightarrow> sc_idempotency_key s \<notin> sc_idempotency_key ` set ss \<Longrightarrow> J (ss @ [s])"

sublocale score_rows_invariant \<subseteq> sys: awd_invariant "\<lambda>w. J (w_scores w)"
proof
  show "keeps (\<lambda>w. J (w_scores w)) (create_score_event e ro tm ty d key rel ins eg why)" for e ro tm ty d key rel ins eg why
    using post by (auto simp: keeps_def create_score_event_run key_taken_iff Let_def)
  show "keeps (\<lambda>w. J (w_scores w)) (create_score_event_if_absent e ro tm ty d key rel ins eg why)"
    for e ro tm ty d key rel ins eg why
    using post by (auto simp: keeps_def create_score_event_if_absent_run key_taken_iff Let_def)
qed (simp_all add: keeps_def scores_frame)


locale submission_rows_invariant =
  fixes J :: "flag_submission list \<Rightarrow> bool"
  assumes submit: "J fs \<Longrightarrow> submission_key f \<notin> submission_key ` set fs \<Longrightarrow> J (fs @ [f])"

sublocale submission_rows_invariant \<subseteq> sys: awd_invariant "\<lambda>w. J (w_flag_submissions w)"
proof
  show "keeps (\<lambda>w. J (w_flag_submissions w)) (create_submission e r fi atk vic inst u)" for e r fi atk vic inst u
    using submit
    by (auto simp: keeps_def create_submission_def op_defs run_simps submission_exists_iff submission_key_def Let_def)
qed (simp_all add: keeps_def submissions_frame)

definition issue_key :: "flag_issue \<Rightarrow> uuid \<times> uuid \<times> uuid" where
  "issue_key f = (fi_event_id f, fi_round_id f, fi_gamebox_instance_id f)"

locale issue_rows_invariant =
  fixes J :: "flag_issue list \<Rightarrow> bool"
  assumes issue: "J fs \<Longrightarrow> issue_key f \<notin> issue_key ` set fs \<Longrightarrow> J (fs @ [f])"

sublocale issue_rows_invariant \<subseteq> sys: awd_invariant "\<lambda>w. J (w_flag_issues w)"
proof
  show "keeps (\<lambda>w. J (w_flag_issues w)) (find_or_create_issue e r inst h)" for e r inst h
  proof -
    have "J (fs @ [\<lparr>fi_id = k, fi_event_id = e, fi_round_id = r, fi_gamebox_instance_id = inst, fi_flag_hash = h\<rparr>])"
      if "J fs" "\<not> (\<exists>g \<in> set fs. fi_event_id g = e \<and> fi_round_id g = r \<and> (fi_flag_hash g = h \<or> fi_gamebox_instance_id g = inst))"
      for fs k
      using that by (intro issue) (auto simp: issue_key_def)
    then show ?thesis
      by (auto simp: keeps_def find_or_create_issue_def op_defs run_simps Let_def split: option.splits)
  qed
qed (simp_all add: keeps_def issues_frame)

definition ban_key :: "team_ban \<Rightarrow> uuid \<times> uuid" where
  "ban_key b = (bn_event_id b, bn_team_id b)"

definition active_bans :: "team_ban list \<Rightarrow> team_ban list" where
  "active_bans bs = filter (\<lambda>b. bn_status b = BnActive) bs"

locale ban_rows_invariant =
  fixes J :: "team_ban list \<Rightarrow> bool"
  assumes ban: "J bs \<Longrightarrow> ban_key b \<notin> ban_key ` set (active_bans bs) \<Longrightarrow> J (bs @ [b])"
    and unban: "J bs \<Longrightarrow> (\<And>b. bn_id (f b) = bn_id b \<and> ban_key (f b) = ban_key b \<and> bn_status (f b) = BnUnbanned) \<Longrightarrow>
      J (update_where (\<lambda>b. bn_id b = k) f bs)"

sublocale ban_rows_invariant \<subseteq> sys: awd_invariant "\<lambda>w. J (w_bans w)"
proof
  show "keeps (\<lambda>w. J (w_bans w)) (create_ban e tm why ro by)" for e tm why ro "by"
    by (auto simp: keeps_def create_ban_def op_defs run_simps active_ban_def Let_def ban_key_def active_bans_def intro!: ban)
  show "keeps (\<lambda>w. J (w_bans w)) (complete_unban k by)" for k "by"
    using unban by (auto simp: keeps_def complete_unban_def update_pk_def op_defs run_simps ban_key_def)
qed (simp_all add: keeps_def bans_frame)

section \<open>Histories\<close>

definition status_history :: "awd_event list \<Rightarrow> awd_event list \<Rightarrow> bool" where
  "status_history es0 es \<longleftrightarrow> distinct (map ev_id es) \<and>
     list_all2 (\<lambda>e0 e. ev_id e = ev_id e0 \<and> ev_event_id e = ev_event_id e0
       \<and> table_reach event_valid_transitions (ev_status e0) (ev_status e)) es0 es"

lemma list_all2_update_where:
  assumes "list_all2 P xs ys" "\<And>x y. P x y \<Longrightarrow> y \<in> set ys \<Longrightarrow> q y \<Longrightarrow> P x (f y)"
  shows "list_all2 P xs (update_where q f ys)"
  using assms by (induction rule: list_all2_induct) auto

interpretation histories: event_rows_invariant "status_history es0" for es0
proof
  fix es i e b p now
  assume h: "status_history es0 es" and e: "List.find (\<lambda>e. ev_id e = i) es = Some e"
    and b: "b \<in> set (event_valid_transitions (ev_status e))"
  have "y = e" if "y \<in> set es" "ev_id y = i" for y
    using that h find_SomeD [OF e] by (auto simp: status_history_def distinct_map dest: inj_onD)
  then have "list_all2 (\<lambda>e0 e. ev_id e = ev_id e0 \<and> ev_event_id e = ev_event_id e0
       \<and> table_reach event_valid_transitions (ev_status e0) (ev_status e)) es0
      (update_where (\<lambda>e. ev_id e = i) (active_model_from_patch b p now) es)"
    using h b unfolding status_history_def by (intro list_all2_update_where) (auto intro: table_reach.reach_step)
  then show "status_history es0 (update_where (\<lambda>e. ev_id e = i) (active_model_from_patch b p now) es)"
    using h by (simp add: status_history_def map_update_where)
next
  fix es i and f :: "awd_event \<Rightarrow> awd_event"
  assume "status_history es0 es" "\<And>e. ev_id (f e) = ev_id e \<and> ev_event_id (f e) = ev_event_id e
     \<and> ev_status (f e) = ev_status e \<and> ev_round_count (f e) = ev_round_count e"
  then show "status_history es0 (update_where (\<lambda>e. ev_id e = i) f es)"
    by (auto simp: status_history_def map_update_where intro!: list_all2_update_where)
qed

interpretation postings: score_rows_invariant
  "\<lambda>ss. distinct (map sc_idempotency_key ss) \<and> (\<exists>posted. ss = s0 @ posted)" for s0
  by unfold_locales auto

interpretation captures: submission_rows_invariant "\<lambda>fs. distinct (map submission_key fs)"
  by unfold_locales auto

interpretation issues: issue_rows_invariant "\<lambda>fs. distinct (map issue_key fs)"
  by unfold_locales auto

lemma active_bans_unbanned:
  "(\<And>b. bn_status (f b) = BnUnbanned) \<Longrightarrow> active_bans (update_where q f bs) = filter (\<lambda>b. \<not> q b) (active_bans bs)"
  by (induction bs) (auto simp: active_bans_def)

interpretation bans: ban_rows_invariant "\<lambda>bs. distinct (map ban_key (active_bans bs))"
  by unfold_locales (auto simp: active_bans_unbanned distinct_map_filter, auto simp: active_bans_def)

section \<open>Properties of every reachable state\<close>

text \<open>
  C1. Whatever requests, scheduler runs, recoveries and delays the system goes through, in any order,
  no event row is lost or renamed, and the status of every event only ever moves along the
  transition table.
\<close>

theorem events_follow_the_table:
  assumes "awd_reach env cron w0 w" "distinct (map ev_id (w_events w0))"
  shows "status_history (w_events w0) (w_events w)"
  by (rule histories.sys.reach_keeps [OF assms(1)])
    (use assms(2) in \<open>auto simp: status_history_def list_all2_same intro: table_reach.reach_refl\<close>)

theorem events_follow_the_table_witness:
  "status_history (w_events (life_world sample_event))
     (w_events (awd_serve sample_env (\<lambda>_ _. Inr None) (StartEvent 1) (life_world sample_event)))"
  using events_follow_the_table [OF awd_reach.serve [OF awd_reach.start],
      of "life_world sample_event" sample_env "\<lambda>_ _. Inr None" "StartEvent 1"] by simp

text \<open>
  C2. The score ledger is append-only and idempotent: in every reachable state it is the ledger of
  the beginning followed by newer entries, and no two entries carry the same key, however often a
  request, a judge report or a scheduler run is repeated.
\<close>

theorem ledger_append_only:
  assumes "awd_reach env cron w0 w" "distinct (map sc_idempotency_key (w_scores w0))"
  shows "\<exists>posted. w_scores w = w_scores w0 @ posted \<and> distinct (map sc_idempotency_key (w_scores w0 @ posted))"
  using postings.sys.reach_keeps [OF assms(1), of "w_scores w0"] assms(2) by auto

theorem ledger_append_only_witness:
  "\<exists>posted. w_scores (awd_serve sample_env (\<lambda>_ _. Inr None) (StartEvent 1) (life_world sample_event)) = posted
     \<and> distinct (map sc_idempotency_key posted)"
proof -
  have "w_scores (life_world sample_event) = []" by (simp add: life_world_def empty_world_def)
  then show ?thesis
    using ledger_append_only [OF awd_reach.serve [OF awd_reach.start],
        of "life_world sample_event" sample_env "\<lambda>_ _. Inr None" "StartEvent 1"] by simp
qed



end
