(* ===== verification/Awd_Rounds.thy ===== *)
theory Awd_Rounds
  imports Awd_System
begin

text \<open>
  The rounds of an event in every state the machine reaches: numbered from one without gaps, never
  more than configured, and all closed but perhaps the last. On this the two tests for the final
  settlement agree, the one the lifecycle uses and the one the firewall orchestrator writes out on
  its own.
\<close>

section \<open>Round discipline\<close>

definition rounds_of :: "awd_round list \<Rightarrow> uuid \<Rightarrow> awd_round list" where
  "rounds_of rs i = filter (\<lambda>r. rd_event_id r = i) rs"

text \<open>Numbered from one without gaps, and closed but for the last.\<close>

definition well_numbered :: "awd_round list \<Rightarrow> bool" where
  "well_numbered rs \<longleftrightarrow> map rd_round_number rs = map int [1..<Suc (length rs)] \<and>
     (\<forall>r \<in> set (butlast rs). rd_status r = RdCompleted)"

definition round_plan :: "awd_event list \<Rightarrow> (uuid \<times> int option) list" where
  "round_plan es = map (\<lambda>e. (ev_event_id e, ev_round_count e)) es"

definition planned :: "awd_event list \<Rightarrow> bool" where
  "planned es \<longleftrightarrow> (\<forall>(i, c) \<in> set (round_plan es). \<exists>rc. c = Some rc \<and> 1 \<le> rc \<and> in_i32 rc)"

definition round_discipline :: "awd_world \<Rightarrow> bool" where
  "round_discipline w \<longleftrightarrow> planned (w_events w)
     \<and> (\<forall>t \<in> set (w_sched w). st_task_key t \<noteq> AwdRoundStart)
     \<and> distinct (map rd_id (w_rounds w)) \<and> (\<forall>r \<in> set (w_rounds w). rd_id r < w_next_id w)
     \<and> (\<forall>i. well_numbered (rounds_of (w_rounds w) i))
     \<and> (\<forall>r \<in> set (w_rounds w). \<exists>rc. map_of (round_plan (w_events w)) (rd_event_id r) = Some (Some rc)
          \<and> rd_round_number r \<le> rc)"

lemma find_plan:
  "List.find (\<lambda>e. ev_event_id e = i) es = Some e \<Longrightarrow> map_of (round_plan es) i = Some (ev_round_count e)"
  by (induction es) (auto simp: round_plan_def split: if_splits)

lemma planned_find:
  assumes "planned es" "List.find (\<lambda>e. ev_event_id e = i) es = Some e"
  shows "\<exists>rc. ev_round_count e = Some rc \<and> 1 \<le> rc \<and> in_i32 rc"
  using assms find_SomeD [OF assms(2)] unfolding planned_def round_plan_def by fastforce

lemma round_plan_edit:
  "(\<And>e. ev_event_id (f e) = ev_event_id e \<and> ev_round_count (f e) = ev_round_count e) \<Longrightarrow>
   round_plan (update_where p f es) = round_plan es"
  unfolding round_plan_def by (rule map_update_where) simp

lemma well_numbered_number:
  assumes "well_numbered rs" "r \<in> set rs"
  shows "1 \<le> rd_round_number r" "rd_round_number r \<le> int (length rs)"
proof -
  have "rd_round_number r \<in> set (map int [1..<Suc (length rs)])"
    using assms unfolding well_numbered_def by (metis image_eqI set_map)
  then show "1 \<le> rd_round_number r" "rd_round_number r \<le> int (length rs)" by auto
qed

lemma well_numbered_has:
  assumes "well_numbered rs" "1 \<le> k" "k \<le> int (length rs)"
  shows "\<exists>r \<in> set rs. rd_round_number r = k"
proof -
  have "k \<in> set (map int [1..<Suc (length rs)])"
    using assms(2,3) by (auto simp: image_iff intro!: bexI [of _ "nat k"])
  then show ?thesis using assms(1) unfolding well_numbered_def by (metis (no_types, lifting) image_iff set_map)
qed

lemma well_numbered_snoc:
  assumes "well_numbered rs" "\<forall>x \<in> set rs. rd_status x = RdCompleted" "rd_round_number r = int (length rs) + 1"
  shows "well_numbered (rs @ [r])"
  using assms by (auto simp: well_numbered_def)

lemma well_numbered_last:
  assumes "well_numbered rs" "r \<in> set rs" "rd_round_number r = int (length rs)" "rd_status r = RdCompleted"
  shows "\<forall>x \<in> set rs. rd_status x = RdCompleted"
proof -
  have ne: "rs \<noteq> []" using assms(2) by auto
  have "rd_round_number (last rs) = int (length rs)"
    using assms(1) ne unfolding well_numbered_def by (metis last_map last_snoc upt_Suc_append One_nat_def Suc_leI length_greater_0_conv map_append list.simps(8,9))
  moreover have "distinct (map rd_round_number rs)" using assms(1) by (simp add: well_numbered_def distinct_map)
  ultimately have "r = last rs"
    using assms(2,3) ne last_in_set [OF ne] unfolding distinct_map by (metis inj_onD)
  then have "set rs = insert r (set (butlast rs))"
    using ne by (metis append_butlast_last_id list.simps(15) rotate1.simps(2) set_rotate1)
  then show ?thesis using assms(1,4) by (auto simp: well_numbered_def)
qed

lemma well_numbered_edit:
  assumes "well_numbered rs" "\<And>r. rd_round_number (f r) = rd_round_number r"
    "\<And>r. r \<in> set rs \<Longrightarrow> p r \<Longrightarrow> rd_status r \<noteq> RdCompleted \<or> rd_status (f r) = RdCompleted"
  shows "well_numbered (update_where p f rs)"
proof -
  have "map rd_round_number (update_where p f rs) = map rd_round_number rs"
    using assms(2) by (simp add: map_update_where)
  moreover have "\<forall>r \<in> set (butlast (update_where p f rs)). rd_status r = RdCompleted"
  proof -
    have "rd_status (if p r then f r else r) = RdCompleted" if "r \<in> set (butlast rs)" for r
      using that assms(1) assms(3) [OF in_set_butlastD [OF that]] by (auto simp: well_numbered_def)
    then show ?thesis unfolding update_where_def map_butlast [symmetric] set_map by blast
  qed
  ultimately show ?thesis using assms(1) by (simp add: well_numbered_def)
qed


lemma rounds_of_simps:
  "rounds_of (rs @ [r]) i = rounds_of rs i @ (if rd_event_id r = i then [r] else [])"
  "(\<And>r. rd_event_id (f r) = rd_event_id r) \<Longrightarrow> rounds_of (update_where p f rs) i = update_where p f (rounds_of rs i)"
  by (simp_all add: rounds_of_def) (induction rs, auto)

text \<open>A change of the row of one round that keeps its identity and does not reopen a closed round.\<close>

lemma discipline_edit:
  assumes "round_discipline w"
    and f: "\<And>r. rd_id (f r) = rd_id r \<and> rd_event_id (f r) = rd_event_id r \<and> rd_round_number (f r) = rd_round_number r"
    and st: "\<And>r. r \<in> set (w_rounds w) \<Longrightarrow> rd_id r = k \<Longrightarrow> rd_status r \<noteq> RdCompleted \<or> rd_status (f r) = RdCompleted"
  shows "round_discipline (w\<lparr>w_rounds := update_where (\<lambda>r. rd_id r = k) f (w_rounds w)\<rparr>)"
proof -
  have "well_numbered (rounds_of (update_where (\<lambda>r. rd_id r = k) f (w_rounds w)) i)" for i
    unfolding rounds_of_simps(2) [of f, OF f [THEN conjunct2, THEN conjunct1]]
    using assms(1) f st by (intro well_numbered_edit) (auto simp: round_discipline_def rounds_of_def)
  then show ?thesis
    using assms(1) f by (auto simp: round_discipline_def map_update_where set_update_where)
qed

lemma start_round_txn_effect:
  assumes "1 \<le> k"
  shows "snd (start_round_txn i (Some k) w) = w \<or>
    (\<exists>e. List.find (\<lambda>e. ev_event_id e = i) (w_events w) = Some e
       \<and> (\<forall>r \<in> set (rounds_of (w_rounds w) i). rd_round_number r \<noteq> k)
       \<and> snd (start_round_txn i (Some k) w) = w\<lparr>w_next_id := Suc (Suc (w_next_id w)),
           w_rounds := w_rounds w @ [new_round (w_next_id w) i k (w_now w) (w_now w + seconds (ev_round_duration_secs e))],
           w_sched := w_sched w @ [once_task (Suc (w_next_id w)) i AwdRoundEnd
             (w_now w + seconds (ev_round_duration_secs e)) None (Some (w_next_id w)) None None]\<rparr>)"
  using assms
  by (auto simp: start_round_txn_run next_round_number_run rounds_of_def find_None_iff Let_def split: option.splits)

lemma plan_find: "map_of (round_plan es) i = Some c \<Longrightarrow> \<exists>e. List.find (\<lambda>e. ev_event_id e = i) es = Some e \<and> ev_round_count e = c"
  by (induction es) (auto simp: round_plan_def split: if_splits)

text \<open>Every start the machine attempts is of the round that is due next, or of one that exists.\<close>

lemma may_start_ready:
  assumes J: "round_discipline w" and m: "may_start w i n"
  shows "\<exists>k. n = Some k \<and> 1 \<le> k \<and> (\<forall>e. List.find (\<lambda>e. ev_event_id e = i) (w_events w) = Some e \<longrightarrow>
      (\<forall>r \<in> set (rounds_of (w_rounds w) i). rd_round_number r \<noteq> k) \<longrightarrow>
      k = int (length (rounds_of (w_rounds w) i)) + 1
      \<and> (\<forall>x \<in> set (rounds_of (w_rounds w) i). rd_status x = RdCompleted)
      \<and> (\<exists>rc. ev_round_count e = Some rc \<and> k \<le> rc))"
proof -
  let ?rs = "rounds_of (w_rounds w) i"
  have wn: "well_numbered ?rs" and pl: "planned (w_events w)" using J by (simp_all add: round_discipline_def)
  show ?thesis
    using m unfolding may_start_def
  proof (elim disjE bexE conjE)
    assume "n = Some 1"
    moreover have "?rs = []" if "\<forall>r \<in> set ?rs. rd_round_number r \<noteq> 1"
      using that well_numbered_has [OF wn, of 1] by (cases ?rs) auto
    ultimately show ?thesis using planned_find [OF pl] by fastforce
  next
    fix r assume r: "r \<in> set (w_rounds w)" "rd_event_id r = i" "rd_status r = RdCompleted"
      and n: "n \<in> {Some (as_i32 (rd_round_number r + 1)), Some (rd_round_number r + 1)}"
      and more: "\<forall>e rc. List.find (\<lambda>e. ev_event_id e = i) (w_events w) = Some e \<and> ev_round_count e = Some rc \<longrightarrow>
             rd_round_number r < rc"
    let ?k = "rd_round_number r + 1"
    have rm: "r \<in> set ?rs" using r by (simp add: rounds_of_def)
    note num = well_numbered_number [OF wn rm]
    obtain rc e where "map_of (round_plan (w_events w)) i = Some (Some rc)"
      using J r by (auto simp: round_discipline_def)
    then obtain e where e: "List.find (\<lambda>e. ev_event_id e = i) (w_events w) = Some e" "ev_round_count e = Some rc"
      using plan_find by metis
    then have lt: "rd_round_number r < rc" using more by blast
    moreover have "in_i32 rc" using planned_find [OF pl e(1)] e(2) by auto
    ultimately have "n = Some ?k" using n num by (auto simp: in_i32_def as_i32_def)
    moreover have "?k = int (length ?rs) + 1" if "\<forall>x \<in> set ?rs. rd_round_number x \<noteq> ?k"
      using that num well_numbered_has [OF wn, of ?k] by fastforce
    ultimately show ?thesis
      using num lt e well_numbered_last [OF wn rm _ r(3)] by (intro exI [of _ ?k]) auto
  next
    fix t assume "t \<in> set (w_sched w)" "st_task_key t = AwdRoundStart"
    then show ?thesis using J by (auto simp: round_discipline_def)
  qed
qed

lemma discipline_start:
  assumes J: "round_discipline w" and m: "may_start w i n"
  shows "round_discipline (snd (start_round_txn i n w))"
proof -
  let ?rs = "rounds_of (w_rounds w) i"
  have wn: "well_numbered ?rs" using J by (simp add: round_discipline_def)
  obtain k where k: "n = Some k" "1 \<le> k" and ready: "\<And>e. List.find (\<lambda>e. ev_event_id e = i) (w_events w) = Some e \<Longrightarrow>
      (\<forall>r \<in> set ?rs. rd_round_number r \<noteq> k) \<Longrightarrow>
      k = int (length ?rs) + 1 \<and> (\<forall>x \<in> set ?rs. rd_status x = RdCompleted) \<and> (\<exists>rc. ev_round_count e = Some rc \<and> k \<le> rc)"
    using may_start_ready [OF J m] by blast
  show ?thesis
    using start_round_txn_effect [OF k(2), of i w]
  proof (elim disjE exE conjE)
    assume "snd (start_round_txn i (Some k) w) = w"
    then show ?thesis using J k(1) by simp
  next
    fix e :: awd_event
    let ?at = "w_now w + seconds (ev_round_duration_secs e)"
    assume e: "List.find (\<lambda>e. ev_event_id e = i) (w_events w) = Some e" and new: "\<forall>r \<in> set ?rs. rd_round_number r \<noteq> k"
      and eff: "snd (start_round_txn i (Some k) w) = w\<lparr>w_next_id := Suc (Suc (w_next_id w)),
           w_rounds := w_rounds w @ [new_round (w_next_id w) i k (w_now w) ?at],
           w_sched := w_sched w @ [once_task (Suc (w_next_id w)) i AwdRoundEnd ?at None (Some (w_next_id w)) None None]\<rparr>"
    from ready [OF e new] obtain rc where r: "k = int (length ?rs) + 1" "\<forall>x \<in> set ?rs. rd_status x = RdCompleted"
      "ev_round_count e = Some rc" "k \<le> rc" by blast
    have "well_numbered (?rs @ [new_round (w_next_id w) i k (w_now w) ?at])"
      using r(1,2) by (intro well_numbered_snoc [OF wn]) (simp_all add: new_round_def)
    then show ?thesis
      unfolding k(1) eff using J r(3,4) find_plan [OF e]
      by (auto simp: round_discipline_def rounds_of_simps new_round_def intro: less_SucI)
  qed
qed

lemma discipline_events:
  assumes "round_discipline w" "round_plan es = round_plan (w_events w)"
  shows "round_discipline (w\<lparr>w_events := es\<rparr>)"
  using assms by (simp add: round_discipline_def planned_def)

lemma discipline_tasks:
  assumes "round_discipline w" "\<And>t. t \<in> set ts \<Longrightarrow> st_task_key t \<noteq> AwdRoundStart"
  shows "round_discipline (w\<lparr>w_sched := ts\<rparr>)"
  using assms by (simp add: round_discipline_def)

lemma discipline_frame:
  assumes "round_discipline w" "w_events v = w_events w" "w_rounds v = w_rounds w" "w_sched v = w_sched w"
    "w_next_id w \<le> w_next_id v"
  shows "round_discipline v"
  using assms by (fastforce simp: round_discipline_def)

lemma ids_grow:
  "w_next_id w \<le> w_next_id (snd (create_score_event e ro tm ty d key rel ins eg why w))"
  "w_next_id w \<le> w_next_id (snd (create_score_event_if_absent e ro tm ty d key rel ins eg why w))"
  "w_next_id w \<le> w_next_id (snd (find_or_create_issue e r inst h w))"
  "w_next_id w \<le> w_next_id (snd (create_submission e r fi atk vic inst u w))"
  "w_next_id w \<le> w_next_id (snd (create_ban e tm why ro by w))" "w_next_id w \<le> w_next_id (snd (complete_unban k by w))"
  "w_next_id w \<le> w_next_id (snd (sync_team_banned e tm bnd w))"
  by (auto simp: light_writes find_or_create_issue_def split: option.splits)

lemma discipline_update_round:
  assumes "round_discipline w" "\<And>r. rd_id (f r) = rd_id r \<and> rd_event_id (f r) = rd_event_id r \<and> rd_round_number (f r) = rd_round_number r"
    and "\<And>r. r \<in> set (w_rounds w) \<Longrightarrow> rd_id r = k \<Longrightarrow> rd_status r \<noteq> RdCompleted \<or> rd_status (f r) = RdCompleted"
  shows "round_discipline (snd (update_round k f w))"
  using assms(1) discipline_edit [OF assms, of k] by (simp add: update_round_def Let_def)

lemma open_not_completed:
  assumes "round_discipline w" "round_open w k" "r \<in> set (w_rounds w)" "rd_id r = k"
  shows "rd_status r \<noteq> RdCompleted"
  using assms by (auto simp: round_discipline_def round_open_def distinct_map dest: inj_onD)

lemma complete_round_txn_state:
  "snd (complete_round_txn i k w) \<in> {w, snd (update_round_status k RdCompleted w)}"
  by (auto simp: complete_round_txn_def txnM_run bindM_run dbM_run find_round_by_id_run ok_orM_run guardM_run returnM_run
      find_by_event_id_run split: option.splits prod.splits sum.splits if_splits)

interpretation discipline: awd_invariant round_discipline
proof
  fix i a b p
  show "keeps round_discipline (transition_event i a b p)"
    by (auto simp: keeps_def transition_event_run round_plan_edit intro!: discipline_events split: option.splits)
next
  fix i ph
  show "keeps round_discipline (update_phase i ph)"
    by (auto simp: keeps_def update_phase_def op_defs run_simps round_plan_edit intro!: discipline_events
        split: option.splits sum.splits)
next
  fix i t
  show "keeps round_discipline (update_event i (\<lambda>e. e\<lparr>ev_hardening_ends_at := None, ev_updated_at := t\<rparr>))"
    by (auto simp: keeps_def update_event_run round_plan_edit intro!: discipline_events)
next
  fix w i n
  assume "round_discipline w" "may_start w i n"
  then show "round_discipline (snd (start_round_txn i n w))" by (rule discipline_start)
next
  fix i k
  show "keeps round_discipline (complete_round_txn i k)"
    unfolding keeps_def
  proof (intro allI impI)
    fix w assume J: "round_discipline w"
    have "round_discipline (snd (update_round_status k RdCompleted w))"
      unfolding update_round_status_def bindM_run nowM_run using J by (auto intro: discipline_update_round)
    then show "round_discipline (snd (complete_round_txn i k w))"
      using J complete_round_txn_state [of i k w] by auto
  qed
next
  fix w k s
  assume J: "round_discipline w" and o: "round_open w k"
  show "round_discipline (snd (pause_round k s w))"
    unfolding pause_round_def bindM_run nowM_run
    using J open_not_completed [OF J o] by (auto intro: discipline_update_round)
next
  fix w k t
  assume J: "round_discipline w" and o: "round_open w k"
  show "round_discipline (snd (update_round k (\<lambda>r. r\<lparr>rd_status := RdActive, rd_scheduled_end_at := t,
     rd_remaining_secs := None, rd_paused_at := None\<rparr>) w))"
    using J open_not_completed [OF J o] by (auto intro: discipline_update_round)
next
  fix tk :: scheduled_task assume "st_task_key tk \<noteq> AwdRoundStart"
  then show "keeps round_discipline (insert_task tk)"
    by (auto simp: keeps_def insert_task_def round_discipline_def)
next
  fix del show "keeps round_discipline (delete_tasks del)"
    by (auto simp: keeps_def delete_tasks_def modifyM_run round_discipline_def)
next
  fix w and f :: "scheduled_task \<Rightarrow> scheduled_task"
  assume "round_discipline w" "\<And>tk. st_task_key (f tk) = st_task_key tk"
  then show "round_discipline (w\<lparr>w_sched := map f (w_sched w)\<rparr>)"
    by (intro discipline_tasks) (auto simp: round_discipline_def)
qed (auto simp: keeps_def events_frame rounds_frame sched_frame ids_grow elim: discipline_frame)

section \<open>Properties of every reachable state\<close>

text \<open>The latest round is closed exactly when all are.\<close>

lemma latest_closed:
  assumes J: "well_numbered rs" and m: "max_by rd_round_number rs = Some r" and c: "rd_status r = RdCompleted"
  shows "\<forall>x \<in> set rs. rd_status x = RdCompleted"
proof (rule well_numbered_last [OF J max_by_mem [OF m] _ c])
  have "rs \<noteq> []" using max_by_mem [OF m] by auto
  then obtain x where "x \<in> set rs" "rd_round_number x = int (length rs)"
    using well_numbered_has [OF J, of "int (length rs)"] by (auto simp: Suc_le_eq)
  then show "rd_round_number r = int (length rs)"
    using max_by_ge [OF m] well_numbered_number(2) [OF J max_by_mem [OF m]] by fastforce
qed

text \<open>
  C3. In every reachable state the rounds of an event are numbered from one in the order of their
  rows, without gap or repetition and up to the configured number at most, and at most the last of
  them is open. An unfinished start, a repeated round end, a pause or a recovery cannot break this.
\<close>

theorem rounds_in_order:
  assumes "awd_reach env cron w0 w" "round_discipline w0"
  shows "well_numbered (rounds_of (w_rounds w) i)
    \<and> length (filter (\<lambda>r. rd_status r \<noteq> RdCompleted) (rounds_of (w_rounds w) i)) \<le> 1
    \<and> (\<forall>r \<in> set (rounds_of (w_rounds w) i). \<exists>rc. map_of (round_plan (w_events w)) i = Some (Some rc)
        \<and> 1 \<le> rd_round_number r \<and> rd_round_number r \<le> rc)"
proof -
  let ?rs = "rounds_of (w_rounds w) i"
  have J: "round_discipline w" by (rule discipline.reach_keeps [OF assms])
  then have n: "well_numbered ?rs" by (simp add: round_discipline_def)
  have "length (filter (\<lambda>r. rd_status r \<noteq> RdCompleted) ?rs) \<le> 1"
  proof (cases ?rs rule: rev_cases)
    case (snoc xs x)
    then have "filter (\<lambda>r. rd_status r \<noteq> RdCompleted) xs = []"
      using n by (auto simp: well_numbered_def filter_empty_conv)
    then show ?thesis using snoc by simp
  qed simp
  moreover have "\<forall>r \<in> set ?rs. 1 \<le> rd_round_number r" using well_numbered_number(1) [OF n] by blast
  ultimately show ?thesis using J n by (auto simp: round_discipline_def rounds_of_def)
qed

lemma life_world_disciplined: "round_discipline (life_world sample_event)"
  by (simp add: round_discipline_def planned_def round_plan_def life_world_def empty_world_def rounds_of_def
      well_numbered_def in_i32_def)

theorem rounds_in_order_witness:
  "length (filter (\<lambda>r. rd_status r \<noteq> RdCompleted)
     (rounds_of (w_rounds (awd_serve sample_env (\<lambda>_ _. Inr None) (StartEvent 1) (life_world sample_event))) 1)) \<le> 1"
  using rounds_in_order [OF awd_reach.serve [OF awd_reach.start] life_world_disciplined,
      of sample_env "\<lambda>_ _. Inr None" "StartEvent 1" 1] by blast

text \<open>
  C4. The test for the final settlement that the firewall orchestrator writes out on its own, with a
  separate look at the open rounds, agrees in every reachable state with the test by which the
  lifecycle finishes an event: the network is closed for exactly the events that are settling.
\<close>

theorem settlement_tests_agree:
  assumes "awd_reach env cron w0 w" "round_discipline w0"
  shows "policy_final_settlement w e = is_final_settlement e (latest_round w (ev_event_id e))"
proof -
  have "well_numbered (rounds_of (w_rounds w) (ev_event_id e))"
    using discipline.reach_keeps [OF assms] by (simp add: round_discipline_def)
  then have "\<not> has_open_round w (ev_event_id e)"
    if "latest_round w (ev_event_id e) = Some r" "rd_status r = RdCompleted" for r
    using latest_closed [of "rounds_of (w_rounds w) (ev_event_id e)" r] that
    unfolding latest_round_def rounds_of_def has_open_round_def by fastforce
  then show ?thesis
    by (auto simp: policy_final_settlement_def is_final_settlement_def split: option.splits)
qed

theorem settlement_tests_agree_witness:
  "let w = awd_serve sample_env (\<lambda>_ _. Inr None) (StartEvent 1) (life_world sample_event)
   in policy_final_settlement w sample_event = is_final_settlement sample_event (latest_round w 1)"
  using settlement_tests_agree [OF awd_reach.serve [OF awd_reach.start] life_world_disciplined,
      of sample_env "\<lambda>_ _. Inr None" "StartEvent 1" sample_event]
  unfolding Let_def sample_event_fields .

end
