(* ===== verification/Rust_Text.thy ===== *)
theory Rust_Text
  imports Fctf_Prelude
begin

text \<open>
  The part of Rust's text library that the identity provider uses. A \<open>String\<close> is the list of its
  UTF-8 bytes, a \<open>char\<close> of it the chunk of bytes that encodes one code point; \<open>len()\<close>
  counts bytes and \<open>chars().count()\<close> chunks.
\<close>

section \<open>Bytes\<close>

definition byte :: "char \<Rightarrow> nat" where
  "byte c = of_char c"

definition is_ascii_digit :: "char \<Rightarrow> bool" where
  "is_ascii_digit c \<longleftrightarrow> 48 \<le> byte c \<and> byte c \<le> 57"

definition is_ascii_alphanumeric :: "char \<Rightarrow> bool" where
  "is_ascii_alphanumeric c \<longleftrightarrow> is_ascii_digit c \<or> (65 \<le> byte c \<and> byte c \<le> 90) \<or> (97 \<le> byte c \<and> byte c \<le> 122)"

definition to_ascii_lowercase :: "char \<Rightarrow> char" where
  "to_ascii_lowercase c = (if 65 \<le> byte c \<and> byte c \<le> 90 then char_of (byte c + 32) else c)"

definition eq_ignore_ascii_case :: "string \<Rightarrow> string \<Rightarrow> bool" where
  "eq_ignore_ascii_case s t \<longleftrightarrow> map to_ascii_lowercase s = map to_ascii_lowercase t"

section \<open>Code points\<close>

definition utf8_len :: "char \<Rightarrow> nat" where
  "utf8_len c = (if byte c < 128 then 1 else if byte c < 224 then 2 else if byte c < 240 then 3 else 4)"

function utf8_chars :: "string \<Rightarrow> string list" where
  "utf8_chars [] = []"
| "utf8_chars (c # s) = (c # take (utf8_len c - 1) s) # utf8_chars (drop (utf8_len c - 1) s)"
  by pat_completeness auto
termination by (relation "measure length") auto

text \<open>\<open>String::from_utf8\<close>: shortest encodings only, no surrogates, at most U+10FFFF.\<close>

definition is_cont :: "char \<Rightarrow> bool" where
  "is_cont c \<longleftrightarrow> 128 \<le> byte c \<and> byte c < 192"

fun utf8_chunk_ok :: "string \<Rightarrow> bool" where
  "utf8_chunk_ok [a] \<longleftrightarrow> byte a < 128"
| "utf8_chunk_ok [a, b] \<longleftrightarrow> 194 \<le> byte a \<and> byte a < 224 \<and> is_cont b"
| "utf8_chunk_ok [a, b, c] \<longleftrightarrow> 224 \<le> byte a \<and> byte a < 240 \<and> is_cont b \<and> is_cont c \<and>
     (byte a = 224 \<longrightarrow> 160 \<le> byte b) \<and> (byte a = 237 \<longrightarrow> byte b < 160)"
| "utf8_chunk_ok [a, b, c, d] \<longleftrightarrow> 240 \<le> byte a \<and> byte a < 245 \<and> is_cont b \<and> is_cont c \<and> is_cont d \<and>
     (byte a = 240 \<longrightarrow> 144 \<le> byte b) \<and> (byte a = 244 \<longrightarrow> byte b < 144)"
| "utf8_chunk_ok _ \<longleftrightarrow> False"

definition from_utf8 :: "string \<Rightarrow> string option" where
  "from_utf8 s = (if list_all utf8_chunk_ok (utf8_chars s) then Some s else None)"

fun code_point :: "string \<Rightarrow> nat" where
  "code_point [a] = byte a"
| "code_point [a, b] = (byte a - 192) * 64 + (byte b - 128)"
| "code_point [a, b, c] = (byte a - 224) * 4096 + (byte b - 128) * 64 + (byte c - 128)"
| "code_point [a, b, c, d] =
     (byte a - 240) * 262144 + (byte b - 128) * 4096 + (byte c - 128) * 64 + (byte d - 128)"
| "code_point _ = 0"

text \<open>Unicode \<open>White_Space\<close> and \<open>Cc\<close>.\<close>

definition is_whitespace :: "string \<Rightarrow> bool" where
  "is_whitespace ch \<longleftrightarrow> (let n = code_point ch in
     (9 \<le> n \<and> n \<le> 13) \<or> n = 32 \<or> n = 133 \<or> n = 160 \<or> n = 5760 \<or> (8192 \<le> n \<and> n \<le> 8202) \<or>
     n = 8232 \<or> n = 8233 \<or> n = 8239 \<or> n = 8287 \<or> n = 12288)"

definition is_control :: "string \<Rightarrow> bool" where
  "is_control ch \<longleftrightarrow> (let n = code_point ch in n < 32 \<or> (127 \<le> n \<and> n < 160))"

definition trim_text :: "string \<Rightarrow> string" where
  "trim_text s = concat (rev (dropWhile is_whitespace (rev (dropWhile is_whitespace (utf8_chars s)))))"

definition chars_count :: "string \<Rightarrow> nat" where
  "chars_count s = length (utf8_chars s)"

definition take_chars :: "nat \<Rightarrow> string \<Rightarrow> string" where
  "take_chars n s = concat (take n (utf8_chars s))"

section \<open>Splitting and numbers\<close>

fun split_on :: "char \<Rightarrow> string \<Rightarrow> string list" where
  "split_on d [] = [[]]"
| "split_on d (c # s) =
     (if c = d then [] # split_on d s
      else case split_on d s of [] \<Rightarrow> [[c]] | t # ts \<Rightarrow> (c # t) # ts)"

fun split_once :: "char \<Rightarrow> string \<Rightarrow> (string \<times> string) option" where
  "split_once d [] = None"
| "split_once d (c # s) =
     (if c = d then Some ([], s) else map_option (\<lambda>(a, b). (c # a, b)) (split_once d s))"

definition dec_value :: "string \<Rightarrow> int" where
  "dec_value s = foldl (\<lambda>n c. 10 * n + (int (byte c) - 48)) 0 s"

text \<open>\<open>str::parse::<i64>\<close>: an optional sign and digits, in range.\<close>

definition parse_i64 :: "string \<Rightarrow> int option" where
  "parse_i64 s =
     (let (neg, ds) = (case s of [] \<Rightarrow> (False, [])
          | c # r \<Rightarrow> if c = CHR ''-'' then (True, r) else if c = CHR ''+'' then (False, r) else (False, s));
          v = (if neg then - dec_value ds else dec_value ds) in
      if ds = [] \<or> \<not> list_all is_ascii_digit ds \<or> \<not> in_i64 v then None else Some v)"

definition parse_u32 :: "string \<Rightarrow> nat option" where
  "parse_u32 s = (case parse_i64 s of
     None \<Rightarrow> None
   | Some v \<Rightarrow> if hd s = CHR ''-'' \<or> 2 ^ 32 \<le> v then None else Some (nat v))"

definition hex_nibble :: "char \<Rightarrow> nat option" where
  "hex_nibble c =
     (if is_ascii_digit c then Some (byte c - 48)
      else if 65 \<le> byte c \<and> byte c \<le> 70 then Some (byte c - 55)
      else if 97 \<le> byte c \<and> byte c \<le> 102 then Some (byte c - 87) else None)"

text \<open>\<open>u8::from_str_radix(hex, 16)\<close> on two characters; a leading plus sign is accepted.\<close>

definition u8_hex :: "char \<Rightarrow> char \<Rightarrow> char option" where
  "u8_hex a b =
     (if a = CHR ''+'' then map_option char_of (hex_nibble b)
      else case (hex_nibble a, hex_nibble b) of
             (Some x, Some y) \<Rightarrow> Some (char_of (16 * x + y)) | _ \<Rightarrow> None)"

definition sat_sub_i64 :: "int \<Rightarrow> int \<Rightarrow> int" where
  "sat_sub_i64 a b = max (- (2 ^ 63)) (min (2 ^ 63 - 1) (a - b))"

lemma split_on_no_sep: "t \<in> set (split_on d s) \<Longrightarrow> d \<notin> set t"
  by (induction s arbitrary: t) (auto split: if_splits list.splits)

lemma concat_utf8_chars [simp]: "concat (utf8_chars s) = s"
  by (induction s rule: utf8_chars.induct) auto

end
