(* ===== verification/Awd_Cidr_Text.thy ===== *)
theory Awd_Cidr_Text
  imports Awd_Network Rust_Text
begin

text \<open>
  Addresses as text: printing and reading of IPv4 addresses and blocks, as \<open>Ipv4Cidr::parse\<close> and
  \<open>to_string\<close> of \<open>modules/event/awd/domain/network.rs\<close> do it with the standard library, the host
  part of a GameBox address (\<open>domain/gamebox_ext.rs\<close>), and the containment and overlap of network
  values as the database compares them.
\<close>

section \<open>Decimal numbers\<close>

fun dec_text :: "nat \<Rightarrow> string" where
  "dec_text n = (if n < 10 then [char_of (48 + n)] else dec_text (n div 10) @ [char_of (48 + n mod 10)])"

declare dec_text.simps [simp del]

text \<open>\<open>u8::from_str\<close>: an optional plus sign and decimal digits, at most 255.\<close>

definition parse_u8 :: "string \<Rightarrow> nat option" where
  "parse_u8 s = (case parse_u32 s of None \<Rightarrow> None | Some n \<Rightarrow> if n < 256 then Some n else None)"

text \<open>An octet of an address: one to three digits without a leading zero.\<close>

definition parse_octet :: "string \<Rightarrow> nat option" where
  "parse_octet s =
     (if s = [] \<or> 3 < length s \<or> \<not> list_all is_ascii_digit s \<or> (hd s = CHR ''0'' \<and> s \<noteq> ''0'') then None
      else let v = nat (dec_value s) in if v < 256 then Some v else None)"

section \<open>Addresses and blocks\<close>

definition octet :: "nat \<Rightarrow> ipv4 \<Rightarrow> nat" where
  "octet k ip = unat ip div 256 ^ k mod 256"

definition ipv4_text :: "ipv4 \<Rightarrow> string" where
  "ipv4_text ip = dec_text (octet 3 ip) @ ''.'' @ dec_text (octet 2 ip) @ ''.'' @ dec_text (octet 1 ip) @ ''.'' @
     dec_text (octet 0 ip)"

definition ipv4_parse :: "string \<Rightarrow> ipv4 option" where
  "ipv4_parse s = (case map parse_octet (split_on CHR ''.'' s) of
     [Some a, Some b, Some c, Some d] \<Rightarrow> Some (of_nat (((a * 256 + b) * 256 + c) * 256 + d)) | _ \<Rightarrow> None)"

definition cidr_text :: "ipv4_cidr \<Rightarrow> string" where
  "cidr_text c = ipv4_text (network c) @ ''/'' @ dec_text (unat (prefix_len c))"

definition cidr_parse :: "string \<Rightarrow> awd_error + ipv4_cidr" where
  "cidr_parse s = (case split_on CHR ''/'' s of
     [ip, prefix] \<Rightarrow>
       (case ipv4_parse ip of
          None \<Rightarrow> Inl (Validation ''Invalid IP in CIDR'')
        | Some a \<Rightarrow>
            (case parse_u8 prefix of
               None \<Rightarrow> Inl (Validation ''Invalid prefix length'')
             | Some p \<Rightarrow>
                 if 32 < p then Inl (Validation ''Prefix length must be <= 32'')
                 else Inr \<lparr>network = a, prefix_len = of_nat p\<rparr>))
   | _ \<Rightarrow> Inl (Validation ''Invalid CIDR format''))"

text \<open>The address of a GameBox: the subnet of its team plus the offset of the GameBox.\<close>

definition instance_ip_for_offset :: "string \<Rightarrow> int \<Rightarrow> string option" where
  "instance_ip_for_offset subnet host_offset =
     (if host_offset < 2 \<or> 254 < host_offset then None
      else case cidr_parse subnet of
             Inl _ \<Rightarrow> None
           | Inr cidr \<Rightarrow> map_option ipv4_text (nth_host cidr (of_int host_offset - 1)))"

section \<open>Network values in the database\<close>

text \<open>
  Two network values overlap when they agree on the bits of the shorter prefix; one is contained in
  the other when its prefix is at least as long and the bits of the other prefix agree.
\<close>

definition same_prefix :: "nat \<Rightarrow> ipv4 \<Rightarrow> ipv4 \<Rightarrow> bool" where
  "same_prefix p a b \<longleftrightarrow> drop_bit (32 - p) a = drop_bit (32 - p) b"

definition inet_overlap :: "ipv4_cidr \<Rightarrow> ipv4_cidr \<Rightarrow> bool" where
  "inet_overlap c d \<longleftrightarrow> same_prefix (min (unat (prefix_len c)) (unat (prefix_len d))) (network c) (network d)"

definition inet_within :: "ipv4_cidr \<Rightarrow> ipv4_cidr \<Rightarrow> bool" where
  "inet_within c d \<longleftrightarrow> prefix_len d \<le> prefix_len c \<and> same_prefix (unat (prefix_len d)) (network c) (network d)"

definition host_within :: "ipv4 \<Rightarrow> ipv4_cidr \<Rightarrow> bool" where
  "host_within ip d \<longleftrightarrow> prefix_len d < 32 \<and> same_prefix (unat (prefix_len d)) ip (network d)"

text \<open>The block with the bits right of the prefix cleared.\<close>

definition cidr_masked :: "ipv4_cidr \<Rightarrow> ipv4_cidr" where
  "cidr_masked c = c\<lparr>network := push_bit (host_bits c) (drop_bit (host_bits c) (network c))\<rparr>"


section \<open>Reading what was printed\<close>

lemma byte_zero: "byte CHR ''0'' = 48"
  by (simp add: byte_def)

lemma digit_char:
  assumes "d < 10"
  shows "byte (char_of (48 + d)) = 48 + d" "is_ascii_digit (char_of (48 + d))"
    "(char_of (48 + d) :: char) = CHR ''0'' \<longleftrightarrow> d = 0"
proof -
  have "(48 + d) mod 256 = 48 + d" using assms by simp
  then show *: "byte (char_of (48 + d)) = 48 + d" by (simp add: byte_def of_char_of)
  then show "is_ascii_digit (char_of (48 + d))" using assms by (simp add: is_ascii_digit_def)
  have "x = y \<longleftrightarrow> byte x = byte y" for x y by (simp add: byte_def)
  then show "(char_of (48 + d) :: char) = CHR ''0'' \<longleftrightarrow> d = 0" unfolding * by (metis (no_types) * add_cancel_left_right add_left_imp_eq byte_zero)
qed

lemma dec_text_digits: "list_all is_ascii_digit (dec_text n) \<and> dec_text n \<noteq> [] \<and> (hd (dec_text n) = CHR ''0'' \<longleftrightarrow> n = 0)"
proof (induction n rule: dec_text.induct)
  case (1 n)
  show ?case
    using 1 digit_char [of n] digit_char [of "n mod 10"] by (subst (1 2 3) dec_text.simps) (auto simp: hd_append)
qed

lemma dec_value_snoc: "dec_value (s @ [c]) = 10 * dec_value s + (int (byte c) - 48)"
  by (simp add: dec_value_def)

lemma dec_value_text: "dec_value (dec_text n) = int n"
proof (induction n rule: dec_text.induct)
  case (1 n)
  show ?case
  proof (cases "n < 10")
    case True
    then have "dec_text n = [char_of (48 + n)]" by (simp add: dec_text.simps)
    then show ?thesis using digit_char(1) [OF True] by (simp add: dec_value_def)
  next
    case False
    then have "dec_text n = dec_text (n div 10) @ [char_of (48 + n mod 10)]" by (subst dec_text.simps) simp
    then have "dec_value (dec_text n) = 10 * int (n div 10) + int (n mod 10)"
      using 1 [OF False] digit_char(1) [of "n mod 10"] by (simp add: dec_value_snoc)
    then show ?thesis by presburger
  qed
qed

lemma dec_text_length: "n < 1000 \<Longrightarrow> length (dec_text n) \<le> 3"
  by (subst dec_text.simps, subst dec_text.simps, subst dec_text.simps) auto

lemma dec_text_small:
  assumes "n < 256"
  shows "parse_octet (dec_text n) = Some n" "parse_u8 (dec_text n) = Some n"
    "CHR ''.'' \<notin> set (dec_text n)" "CHR ''/'' \<notin> set (dec_text n)"
proof -
  note d = dec_text_digits [of n]
  have zero: "dec_text 0 = ''0''" using digit_char(3) [of 0] by (simp add: dec_text.simps)
  show "parse_octet (dec_text n) = Some n"
    using assms d zero dec_text_length [of n] by (auto simp: parse_octet_def dec_value_text)
  have sign: "hd (dec_text n) \<noteq> CHR ''-''" "hd (dec_text n) \<noteq> CHR ''+''"
    using d by (cases "dec_text n"; auto simp: is_ascii_digit_def byte_def)+
  have "parse_i64 (dec_text n) = Some (int n)"
  proof -
    obtain c s where t: "dec_text n = c # s" using d by (cases "dec_text n") auto
    then have "parse_i64 (dec_text n) =
        (if \<not> list_all is_ascii_digit (dec_text n) \<or> \<not> in_i64 (dec_value (dec_text n)) then None else Some (dec_value (dec_text n)))"
      using sign by (simp add: parse_i64_def)
    then show ?thesis using assms d by (simp add: dec_value_text in_i64_def)
  qed
  then show "parse_u8 (dec_text n) = Some n" using assms sign by (simp add: parse_u8_def parse_u32_def)
  show "CHR ''.'' \<notin> set (dec_text n)" "CHR ''/'' \<notin> set (dec_text n)"
    using d by (auto simp: list_all_iff is_ascii_digit_def byte_def dest!: bspec)
qed

lemma split_on_plain: "d \<notin> set s \<Longrightarrow> split_on d s = [s]"
  by (induction s) auto

lemma split_on_sep: "d \<notin> set s \<Longrightarrow> split_on d (s @ d # t) = s # split_on d t"
  by (induction s) auto

lemma octet_small: "octet k ip < 256"
  by (simp add: octet_def)

lemma octets: "((octet 3 ip * 256 + octet 2 ip) * 256 + octet 1 ip) * 256 + octet 0 ip = unat ip"
proof -
  have "unat ip < 16777216 * 256" using unat_ipv4_less [of ip] by simp
  then have "unat ip div 16777216 < 256" by (simp add: less_mult_imp_div_less)
  then have "octet 3 ip = unat ip div 16777216" by (simp add: octet_def)
  moreover have "octet 2 ip = unat ip div 65536 mod 256" "octet 1 ip = unat ip div 256 mod 256" "octet 0 ip = unat ip mod 256"
    by (simp_all add: octet_def)
  moreover have "unat ip div 65536 div 256 = unat ip div 16777216" "unat ip div 256 div 256 = unat ip div 65536"
    by (simp_all flip: div_mult2_eq)
  ultimately show ?thesis by (metis div_mult_mod_eq)
qed

lemma ipv4_parse_text: "ipv4_parse (ipv4_text ip) = Some ip"
proof -
  have "split_on CHR ''.'' (ipv4_text ip) =
      [dec_text (octet 3 ip), dec_text (octet 2 ip), dec_text (octet 1 ip), dec_text (octet 0 ip)]"
    by (simp add: ipv4_text_def split_on_sep split_on_plain dec_text_small(3) octet_small)
  then have "ipv4_parse (ipv4_text ip) =
      Some (of_nat (((octet 3 ip * 256 + octet 2 ip) * 256 + octet 1 ip) * 256 + octet 0 ip))"
    by (simp add: ipv4_parse_def dec_text_small(1) octet_small del: of_nat_add of_nat_mult)
  then show ?thesis unfolding octets by simp
qed

lemma ipv4_text_no_slash: "CHR ''/'' \<notin> set (ipv4_text ip)"
  by (simp add: ipv4_text_def dec_text_small(4) octet_small)

lemma unat_u8_less: "unat (p :: 8 word) < 256"
  using unsigned_less [of p] by simp

lemma cidr_parse_text: "prefix_len c \<le> 32 \<Longrightarrow> cidr_parse (cidr_text c) = Inr c"
  using unat_le_32 [of "prefix_len c"]
  by (simp add: cidr_parse_def cidr_text_def split_on_sep split_on_plain ipv4_text_no_slash dec_text_small
      unat_u8_less ipv4_parse_text)

lemma cidr_parse_prefix: "cidr_parse s = Inr c \<Longrightarrow> prefix_len c \<le> 32"
  by (auto simp: cidr_parse_def word_le_nat_alt unat_of_nat split: list.splits option.splits if_splits)

section \<open>Overlap of network values\<close>

lemma same_prefix_div: "same_prefix p a b \<longleftrightarrow> unat a div 2 ^ (32 - p) = unat b div 2 ^ (32 - p)"
  unfolding same_prefix_def word_unat_eq_iff [of "drop_bit _ _"] unat_drop_bit_eq by (simp only: drop_bit_eq_div)

lemma same_prefix_mono:
  assumes "same_prefix q a b" "p \<le> q" "q \<le> 32"
  shows "same_prefix p a b"
proof -
  have "(2 :: nat) ^ (32 - p) = 2 ^ (32 - q) * 2 ^ (q - p)" using assms(2,3) by (simp add: power_add [symmetric])
  then show ?thesis using assms(1) by (simp add: same_prefix_div div_mult2_eq)
qed

lemma same_prefix_sym: "same_prefix p a b \<longleftrightarrow> same_prefix p b a"
  by (auto simp: same_prefix_def)

lemma inet_overlap_sym: "inet_overlap c d \<longleftrightarrow> inet_overlap d c"
  by (simp add: inet_overlap_def same_prefix_sym min.commute)

lemma cidr_contains_prefix:
  "1 \<le> prefix_len c \<Longrightarrow> prefix_len c \<le> 32 \<Longrightarrow>
   cidr_contains c ip \<longleftrightarrow> same_prefix (unat (prefix_len c)) ip (network c)"
  by (simp add: cidr_contains_div same_prefix_div host_bits_def)

lemma broadcast_prefix:
  assumes "1 \<le> prefix_len c" "prefix_len c \<le> 32"
  shows "same_prefix (unat (prefix_len c)) (broadcast_address c) (network c)"
proof -
  have "cidr_contains c (broadcast_address c)"
    unfolding cidr_contains_def broadcast_address_def by (rule bit_eqI) (auto simp: bit_simps)
  then show ?thesis by (simp add: cidr_contains_prefix assms)
qed

lemma same_prefix_trans: "same_prefix p a b \<Longrightarrow> same_prefix p b c \<Longrightarrow> same_prefix p a c"
  by (simp add: same_prefix_def)

text \<open>On blocks with a prefix, the test of the code is the test of the database.\<close>

lemma cidr_overlaps_inet:
  assumes c: "1 \<le> prefix_len c" "prefix_len c \<le> 32" and d: "1 \<le> prefix_len d" "prefix_len d \<le> 32"
  shows "cidr_overlaps c d \<longleftrightarrow> inet_overlap c d"
proof -
  have *: "cidr_overlaps a b \<longleftrightarrow> same_prefix (unat (prefix_len a)) (network b) (network a)"
    if p: "1 \<le> prefix_len a" "prefix_len a \<le> 32" "1 \<le> prefix_len b" "prefix_len b \<le> 32" "prefix_len a \<le> prefix_len b"
    for a b
  proof -
    have le: "unat (prefix_len a) \<le> unat (prefix_len b)" "unat (prefix_len b) \<le> 32"
      using p unat_le_32 by (auto simp: word_le_nat_alt)
    have down: "same_prefix (unat (prefix_len b)) x y \<Longrightarrow> same_prefix (unat (prefix_len a)) x y" for x y
      using same_prefix_mono le by blast
    have "same_prefix (unat (prefix_len a)) (broadcast_address b) (network b)"
      "same_prefix (unat (prefix_len a)) (broadcast_address a) (network a)"
      using down broadcast_prefix p by blast+
    then show ?thesis
      unfolding cidr_overlaps_def cidr_contains_prefix [OF p(1,2)] cidr_contains_prefix [OF p(3,4)]
      using down same_prefix_trans same_prefix_sym by metis
  qed
  show ?thesis
  proof (cases "prefix_len c \<le> prefix_len d")
    case True
    then show ?thesis
      using * [OF c d] by (simp add: inet_overlap_def same_prefix_sym min_def word_le_nat_alt)
  next
    case False
    have "cidr_overlaps c d \<longleftrightarrow> cidr_overlaps d c" by (auto simp: cidr_overlaps_def)
    then show ?thesis
      using False * [OF d c] by (simp add: inet_overlap_def same_prefix_sym min_def word_le_nat_alt)
  qed
qed

lemma inet_overlap_prefix: "\<not> inet_overlap c d \<Longrightarrow> 1 \<le> prefix_len c \<and> 1 \<le> prefix_len d"
proof (rule ccontr)
  assume n: "\<not> inet_overlap c d" "\<not> (1 \<le> prefix_len c \<and> 1 \<le> prefix_len d)"
  then have "min (unat (prefix_len c)) (unat (prefix_len d)) = 0" by (auto simp: word_le_nat_alt)
  moreover have "same_prefix 0 a b" for a b
    using unat_ipv4_less [of a] unat_ipv4_less [of b] by (simp add: same_prefix_div)
  ultimately show False using n(1) by (simp add: inet_overlap_def)
qed

lemma prefix_masked [simp]: "prefix_len (cidr_masked c) = prefix_len c"
  by (simp add: cidr_masked_def)

lemma unat_masked: "unat (network (cidr_masked c)) = unat (network c) div 2 ^ host_bits c * 2 ^ host_bits c"
proof -
  have "unat (drop_bit (host_bits c) (network c)) = unat (network c) div 2 ^ host_bits c"
    unfolding unat_drop_bit_eq by (rule drop_bit_eq_div)
  moreover have "unat (network c) div 2 ^ host_bits c * 2 ^ host_bits c < 2 ^ 32"
    using unat_ipv4_less [of "network c"] by (meson div_times_less_eq_dividend le_less_trans)
  moreover have "unat (network (cidr_masked c)) =
      take_bit 32 (unat (drop_bit (host_bits c) (network c)) * 2 ^ host_bits c)"
  proof -
    have "unat (push_bit n w) = take_bit 32 (unat w * 2 ^ n)" for n and w :: ipv4
      using unsigned_push_bit_eq [of n w, where ?'a = nat]
      unfolding push_bit_eq_mult [of n "unat w"] by simp
    moreover have "network (cidr_masked c) = push_bit (host_bits c) (drop_bit (host_bits c) (network c))"
      by (simp add: cidr_masked_def)
    ultimately show ?thesis by (simp only:)
  qed
  ultimately show ?thesis by (simp add: take_bit_nat_eq_self_iff)
qed

lemma masked_wf: "1 \<le> prefix_len c \<Longrightarrow> prefix_len c \<le> 32 \<Longrightarrow> cidr_wf (cidr_masked c)"
  by (simp add: cidr_wf_def unat_masked host_bits_def)

lemma same_prefix_masked:
  assumes "p \<le> unat (prefix_len c)" "prefix_len c \<le> 32"
  shows "same_prefix p (network (cidr_masked c)) (network c)"
proof -
  have "same_prefix (unat (prefix_len c)) (network (cidr_masked c)) (network c)"
    by (simp add: same_prefix_div unat_masked host_bits_def)
  then show ?thesis using same_prefix_mono assms unat_le_32 by blast
qed

lemma inet_overlap_masked:
  assumes "prefix_len c \<le> 32"
  shows "inet_overlap (cidr_masked c) d \<longleftrightarrow> inet_overlap c d"
  using same_prefix_masked [of "min (unat (prefix_len c)) (unat (prefix_len d))" c] assms
  unfolding inet_overlap_def by (auto simp: same_prefix_def)

lemma inet_disjoint_blocks:
  assumes "cidr_wf c" "cidr_wf d"
  shows "inet_overlap c d \<longleftrightarrow> block c \<inter> block d \<noteq> {}"
  using cidr_overlaps_iff [OF assms] cidr_overlaps_inet [of c d] assms by (simp add: cidr_wf_def)

end
