(* ===== verification/Awd_Net_Db.thy ===== *)
theory Awd_Net_Db
  imports Awd_Judge Awd_Cidr_Text
begin

text \<open>
  The tables behind the networks of an AWD competition: platform network settings, event networks and the
  ledger of allocated blocks (\<open>awd/repo/network_settings_repo.rs\<close>, \<open>event_network_repo.rs\<close>,
  \<open>network_allocation_repo.rs\<close>), with the checks and unique keys of the schema, and calls to the host that
  return a value.
\<close>

section \<open>Calls to the host\<close>

text \<open>A call is answered from the effects before it and is logged.\<close>

definition hostM :: "host_call \<Rightarrow> (effect list \<Rightarrow> 'a) \<Rightarrow> (awd_world, 'e, 'a) op" where
  "hostM c answer = (\<lambda>w. (Inr (answer (w_log w)), w\<lparr>w_log := w_log w @ [FxHost c]\<rparr>))"

text \<open>A call whose failure is the error \<open>e\<close>.\<close>

definition host_orM :: "host_call \<Rightarrow> (effect list \<Rightarrow> 'a option) \<Rightarrow> 'e \<Rightarrow> (awd_world, 'e, 'a) op" where
  "host_orM c answer e = bindM (hostM c answer) (\<lambda>r. ok_orM r e)"

definition check_violation :: awd_error where
  "check_violation = Database (CustomErr ''check constraint'')"

definition unique_violation :: awd_error where
  "unique_violation = Database UniqueViolation"

text \<open>Rust's \<open>as\<close> between integers of different widths.\<close>

definition as_u8 :: "int \<Rightarrow> 8 word" where "as_u8 x = of_int x"
definition as_u16 :: "int \<Rightarrow> 16 word" where "as_u16 x = of_int x"

definition as_i16 :: "int \<Rightarrow> int" where
  "as_i16 x = (x + 2 ^ 15) mod 2 ^ 16 - 2 ^ 15"

definition map_optionM :: "('a \<Rightarrow> 'e + 'b) \<Rightarrow> 'a option \<Rightarrow> ('s, 'e, 'b option) op" where
  "map_optionM f v = (case v of None \<Rightarrow> returnM None | Some x \<Rightarrow> bindM (liftM (f x)) (\<lambda>y. returnM (Some y)))"

section \<open>Platform network settings\<close>

definition network_settings_ok :: "network_settings \<Rightarrow> bool" where
  "network_settings_ok s \<longleftrightarrow>
     int (unat (prefix_len (nw_gamebox_pool s))) \<le> nw_gamebox_event_prefix s \<and>
     nw_gamebox_event_prefix s \<le> nw_gamebox_team_prefix s \<and>
     \<not> inet_overlap (nw_gamebox_pool s) (nw_wireguard_pool s) \<and>
     1 \<le> nw_wireguard_port_min s \<and> nw_wireguard_port_max s \<le> 65535 \<and>
     nw_wireguard_port_min s \<le> nw_wireguard_port_max s \<and>
     int (unat (prefix_len (nw_wireguard_pool s))) \<le> nw_wireguard_event_prefix s \<and>
     nw_wireguard_event_prefix s \<le> nw_wireguard_team_prefix s"

definition get_network_settings :: "network_settings awdop" where
  "get_network_settings =
     bindM (readM w_network_settings) (\<lambda>s. ok_orM s (NotFound ''awd_network_settings singleton''))"

record network_settings_patch =
  sp_gamebox_pool :: "string option"
  sp_gamebox_event_prefix :: "int option"
  sp_gamebox_team_prefix :: "int option"
  sp_wireguard_pool :: "string option"
  sp_wireguard_event_prefix :: "int option"
  sp_wireguard_team_prefix :: "int option"
  sp_wireguard_port_min :: "int option"
  sp_wireguard_port_max :: "int option"
  sp_wireguard_public_endpoint :: "string option option"

definition or_keep :: "'a option \<Rightarrow> 'a \<Rightarrow> 'a" where
  "or_keep v old = (case v of None \<Rightarrow> old | Some x \<Rightarrow> x)"

definition update_network_settings :: "awd_env \<Rightarrow> network_settings_patch \<Rightarrow> network_settings awdop" where
  "update_network_settings env p =
     bindM get_network_settings (\<lambda>s.
     bindM (map_optionM (hv_cidr_column (env_host env)) (sp_gamebox_pool p)) (\<lambda>gb.
     bindM (map_optionM (hv_cidr_column (env_host env)) (sp_wireguard_pool p)) (\<lambda>wg.
     bindM nowM (\<lambda>now.
     let new = \<lparr>nw_gamebox_pool = or_keep gb (nw_gamebox_pool s),
                nw_gamebox_event_prefix = or_keep (sp_gamebox_event_prefix p) (nw_gamebox_event_prefix s),
                nw_gamebox_team_prefix = or_keep (sp_gamebox_team_prefix p) (nw_gamebox_team_prefix s),
                nw_wireguard_pool = or_keep wg (nw_wireguard_pool s),
                nw_wireguard_event_prefix = or_keep (sp_wireguard_event_prefix p) (nw_wireguard_event_prefix s),
                nw_wireguard_team_prefix = or_keep (sp_wireguard_team_prefix p) (nw_wireguard_team_prefix s),
                nw_wireguard_port_min = or_keep (sp_wireguard_port_min p) (nw_wireguard_port_min s),
                nw_wireguard_port_max = or_keep (sp_wireguard_port_max p) (nw_wireguard_port_max s),
                nw_wireguard_public_endpoint =
                  or_keep (sp_wireguard_public_endpoint p) (nw_wireguard_public_endpoint s),
                nw_updated_at = now\<rparr> in
     bindM (guardM (network_settings_ok new) check_violation) (\<lambda>_.
     bindM (modifyM (\<lambda>w. w\<lparr>w_network_settings := Some new\<rparr>)) (\<lambda>_. returnM new))))))"

section \<open>Event networks\<close>

definition event_network_ok :: "event_network \<Rightarrow> bool" where
  "event_network_ok n \<longleftrightarrow>
     host_within (en_flagserver_ip n) (en_infrastructure_subnet n) \<and>
     en_flagserver_ip n \<noteq> en_judgeserver_ip n \<and>
     \<not> inet_overlap (en_gamebox_cidr n) (en_wireguard_cidr n) \<and>
     inet_within (en_infrastructure_subnet n) (en_gamebox_cidr n) \<and>
     host_within (en_judgeserver_ip n) (en_infrastructure_subnet n) \<and>
     (case en_locked_at n of None \<Rightarrow> True | Some t \<Rightarrow> en_created_at n \<le> t)"

definition event_networks_unique :: "event_network list \<Rightarrow> bool" where
  "event_networks_unique ns \<longleftrightarrow>
     distinct (map en_id ns) \<and> distinct (map en_event_id ns) \<and> distinct (map en_wireguard_interface_name ns) \<and>
     distinct (map en_wireguard_listen_port ns) \<and> distinct (map en_docker_network_name ns)"

definition find_event_network :: "uuid \<Rightarrow> event_network option awdop" where
  "find_event_network event_id =
     readM (\<lambda>w. List.find (\<lambda>n. en_event_id n = event_id) (w_event_networks w))"

definition find_awd_event :: "uuid \<Rightarrow> awd_event awdop" where
  "find_awd_event event_id =
     bindM (dbM (find_by_event_id event_id)) (\<lambda>row. ok_orM row (NotFound ''AWD event''))"

record new_event_network =
  ne_event_id :: uuid
  ne_allocation_mode :: alloc_mode
  ne_gamebox_cidr :: string
  ne_wireguard_cidr :: string
  ne_infrastructure_subnet :: string
  ne_flagserver_ip :: string
  ne_judgeserver_ip :: string
  ne_wireguard_interface_name :: string
  ne_wireguard_listen_port :: int
  ne_docker_network_name :: string
  ne_locked_at :: "timestamp option"

definition insert_event_network :: "event_network \<Rightarrow> event_network awdop" where
  "insert_event_network n = (\<lambda>w.
     if \<not> event_network_ok n then (Inl check_violation, w)
     else if \<not> event_networks_unique (w_event_networks w @ [n]) then (Inl unique_violation, w)
     else (Inr n, w\<lparr>w_event_networks := w_event_networks w @ [n]\<rparr>))"

definition create_event_network :: "awd_env \<Rightarrow> new_event_network \<Rightarrow> event_network awdop" where
  "create_event_network env net =
     (let cidr = (\<lambda>s. liftM (hv_cidr_column (env_host env) s)); inet = (\<lambda>s. liftM (hv_inet_column (env_host env) s)) in
      bindM new_uuid (\<lambda>i.
      bindM (cidr (ne_gamebox_cidr net)) (\<lambda>gb.
      bindM (cidr (ne_wireguard_cidr net)) (\<lambda>wg.
      bindM (cidr (ne_infrastructure_subnet net)) (\<lambda>infra.
      bindM (inet (ne_flagserver_ip net)) (\<lambda>flag.
      bindM (inet (ne_judgeserver_ip net)) (\<lambda>judge.
      bindM nowM (\<lambda>now.
        insert_event_network \<lparr>en_id = i, en_event_id = ne_event_id net,
          en_allocation_mode = ne_allocation_mode net, en_gamebox_cidr = gb, en_wireguard_cidr = wg,
          en_infrastructure_subnet = infra, en_flagserver_ip = flag, en_judgeserver_ip = judge,
          en_wireguard_interface_name = ne_wireguard_interface_name net,
          en_wireguard_listen_port = ne_wireguard_listen_port net,
          en_docker_network_name = ne_docker_network_name net, en_locked_at = ne_locked_at net,
          en_created_at = now\<rparr>))))))))"

record event_network_patch =
  ep_allocation_mode :: "alloc_mode option"
  ep_gamebox_cidr :: "string option"
  ep_wireguard_cidr :: "string option"
  ep_infrastructure_subnet :: "string option"
  ep_flagserver_ip :: "string option"
  ep_judgeserver_ip :: "string option"
  ep_wireguard_interface_name :: "string option"
  ep_wireguard_listen_port :: "int option"
  ep_docker_network_name :: "string option"
  ep_locked_at :: "timestamp option"
  ep_unlock :: "bool option"

definition network_patch_default :: event_network_patch where
  "network_patch_default = \<lparr>ep_allocation_mode = None, ep_gamebox_cidr = None, ep_wireguard_cidr = None,
     ep_infrastructure_subnet = None, ep_flagserver_ip = None, ep_judgeserver_ip = None,
     ep_wireguard_interface_name = None, ep_wireguard_listen_port = None, ep_docker_network_name = None,
     ep_locked_at = None, ep_unlock = None\<rparr>"

text \<open>Writing a changed row of \<open>awd_event_networks\<close> by its primary key.\<close>

definition write_event_network :: "uuid \<Rightarrow> (event_network \<Rightarrow> event_network) \<Rightarrow> event_network awdop" where
  "write_event_network i f = (\<lambda>w.
     case List.find (\<lambda>n. en_id n = i) (w_event_networks w) of
       None \<Rightarrow> (Inl (Database RecordNotUpdated), w)
     | Some n \<Rightarrow>
         let rows = update_where (\<lambda>n. en_id n = i) f (w_event_networks w) in
         if \<not> event_network_ok (f n) then (Inl check_violation, w)
         else if \<not> event_networks_unique rows then (Inl unique_violation, w)
         else (Inr (f n), w\<lparr>w_event_networks := rows\<rparr>))"

definition apply_network_patch ::
  "event_network_patch \<Rightarrow> ipv4_cidr option \<Rightarrow> ipv4_cidr option \<Rightarrow> ipv4_cidr option \<Rightarrow> ipv4 option \<Rightarrow> ipv4 option \<Rightarrow>
   event_network \<Rightarrow> event_network" where
  "apply_network_patch p gb wg infra flag judge n = n\<lparr>
     en_allocation_mode := or_keep (ep_allocation_mode p) (en_allocation_mode n),
     en_gamebox_cidr := or_keep gb (en_gamebox_cidr n),
     en_wireguard_cidr := or_keep wg (en_wireguard_cidr n),
     en_infrastructure_subnet := or_keep infra (en_infrastructure_subnet n),
     en_flagserver_ip := or_keep flag (en_flagserver_ip n),
     en_judgeserver_ip := or_keep judge (en_judgeserver_ip n),
     en_wireguard_interface_name := or_keep (ep_wireguard_interface_name p) (en_wireguard_interface_name n),
     en_wireguard_listen_port := or_keep (ep_wireguard_listen_port p) (en_wireguard_listen_port n),
     en_docker_network_name := or_keep (ep_docker_network_name p) (en_docker_network_name n),
     en_locked_at := (if ep_unlock p = Some True then None
        else case ep_locked_at p of None \<Rightarrow> en_locked_at n | Some t \<Rightarrow> Some t)\<rparr>"

definition update_event_network :: "awd_env \<Rightarrow> event_network \<Rightarrow> event_network_patch \<Rightarrow> event_network awdop" where
  "update_event_network env current p =
     (let cidr = map_optionM (hv_cidr_column (env_host env)); inet = map_optionM (hv_inet_column (env_host env)) in
      bindM (cidr (ep_gamebox_cidr p)) (\<lambda>gb.
      bindM (cidr (ep_wireguard_cidr p)) (\<lambda>wg.
      bindM (cidr (ep_infrastructure_subnet p)) (\<lambda>infra.
      bindM (inet (ep_flagserver_ip p)) (\<lambda>flag.
      bindM (inet (ep_judgeserver_ip p)) (\<lambda>judge.
        write_event_network (en_id current) (apply_network_patch p gb wg infra flag judge)))))))"

section \<open>The ledger of allocated blocks\<close>

definition active_allocations :: "awd_world \<Rightarrow> network_allocation list" where
  "active_allocations w = filter (\<lambda>a. na_released_at a = None) (w_allocations w)"

definition list_active_allocations :: "network_allocation list awdop" where
  "list_active_allocations = readM active_allocations"

definition create_allocation :: "awd_env \<Rightarrow> uuid \<Rightarrow> alloc_kind \<Rightarrow> string \<Rightarrow> network_allocation awdop" where
  "create_allocation env event_id kind cidr =
     bindM new_uuid (\<lambda>i.
     bindM (liftM (hv_cidr_column (env_host env) cidr)) (\<lambda>c.
     bindM nowM (\<lambda>now.
     let a = \<lparr>na_id = i, na_event_id = event_id, na_kind = kind, na_cidr = c, na_allocated_at = now,
              na_released_at = None\<rparr> in
     bindM (modifyM (\<lambda>w. w\<lparr>w_allocations := w_allocations w @ [a]\<rparr>)) (\<lambda>_. returnM a))))"

definition release_all_allocations :: "uuid \<Rightarrow> unit awdop" where
  "release_all_allocations event_id = (\<lambda>w.
     let mine = (\<lambda>a. na_event_id a = event_id \<and> na_released_at a = None) in
     if \<exists>a \<in> set (w_allocations w). mine a \<and> w_now w < na_allocated_at a then (Inl check_violation, w)
     else (Inr (), w\<lparr>w_allocations :=
            update_where mine (\<lambda>a. a\<lparr>na_released_at := Some (w_now w)\<rparr>) (w_allocations w)\<rparr>))"

section \<open>How the repositories run\<close>

lemma hostM_run [run_simps]: "hostM c f w = (Inr (f (w_log w)), w\<lparr>w_log := w_log w @ [FxHost c]\<rparr>)"
  by (simp add: hostM_def)

lemma host_orM_run [run_simps]:
  "host_orM c f e w = (case f (w_log w) of None \<Rightarrow> (Inl e, w\<lparr>w_log := w_log w @ [FxHost c]\<rparr>)
     | Some x \<Rightarrow> (Inr x, w\<lparr>w_log := w_log w @ [FxHost c]\<rparr>))"
  by (simp add: host_orM_def run_simps)

lemma map_optionM_run [run_simps]:
  "map_optionM f v w = (case v of None \<Rightarrow> (Inr None, w)
     | Some x \<Rightarrow> (case f x of Inl e \<Rightarrow> (Inl e, w) | Inr y \<Rightarrow> (Inr (Some y), w)))"
  by (simp add: map_optionM_def run_simps split: option.splits sum.splits)

lemma get_network_settings_run [run_simps]:
  "get_network_settings w = (case w_network_settings w of
     None \<Rightarrow> (Inl (NotFound ''awd_network_settings singleton''), w) | Some s \<Rightarrow> (Inr s, w))"
  by (simp add: get_network_settings_def run_simps)

lemma find_event_network_run [run_simps]:
  "find_event_network i w = (Inr (List.find (\<lambda>n. en_event_id n = i) (w_event_networks w)), w)"
  by (simp add: find_event_network_def run_simps)

lemma find_awd_event_run [run_simps]:
  "find_awd_event i w = (case List.find (\<lambda>e. ev_event_id e = i) (w_events w) of
     None \<Rightarrow> (Inl (NotFound ''AWD event''), w) | Some e \<Rightarrow> (Inr e, w))"
  by (simp add: find_awd_event_def run_simps)

lemma create_allocation_run [run_simps]:
  "create_allocation env e k s w = (case hv_cidr_column (env_host env) s of
     Inl x \<Rightarrow> (Inl x, w\<lparr>w_next_id := w_next_id w + 1\<rparr>)
   | Inr c \<Rightarrow> let a = \<lparr>na_id = w_next_id w, na_event_id = e, na_kind = k, na_cidr = c, na_allocated_at = w_now w,
                na_released_at = None\<rparr> in
       (Inr a, w\<lparr>w_next_id := w_next_id w + 1, w_allocations := w_allocations w @ [a]\<rparr>))"
  by (simp add: create_allocation_def run_simps Let_def split: sum.splits)

lemma apply_network_patch_fields [simp]:
  "en_id (apply_network_patch p gb wg infra flag judge n) = en_id n"
  "en_event_id (apply_network_patch p gb wg infra flag judge n) = en_event_id n"
  "en_gamebox_cidr (apply_network_patch p gb wg infra flag judge n) = or_keep gb (en_gamebox_cidr n)"
  "en_wireguard_cidr (apply_network_patch p gb wg infra flag judge n) = or_keep wg (en_wireguard_cidr n)"
  "en_infrastructure_subnet (apply_network_patch p gb wg infra flag judge n) = or_keep infra (en_infrastructure_subnet n)"
  "en_flagserver_ip (apply_network_patch p gb wg infra flag judge n) = or_keep flag (en_flagserver_ip n)"
  "en_judgeserver_ip (apply_network_patch p gb wg infra flag judge n) = or_keep judge (en_judgeserver_ip n)"
  "en_wireguard_listen_port (apply_network_patch p gb wg infra flag judge n) =
     or_keep (ep_wireguard_listen_port p) (en_wireguard_listen_port n)"
  "en_locked_at (apply_network_patch p gb wg infra flag judge n) = (if ep_unlock p = Some True then None
     else case ep_locked_at p of None \<Rightarrow> en_locked_at n | Some t \<Rightarrow> Some t)"
  by (simp_all add: apply_network_patch_def)

lemma or_keep_simps [simp]: "or_keep None x = x" "or_keep (Some y) x = y"
  by (simp_all add: or_keep_def)

lemma network_patch_default_fields [simp]:
  "ep_allocation_mode network_patch_default = None" "ep_gamebox_cidr network_patch_default = None"
  "ep_wireguard_cidr network_patch_default = None" "ep_infrastructure_subnet network_patch_default = None"
  "ep_flagserver_ip network_patch_default = None" "ep_judgeserver_ip network_patch_default = None"
  "ep_wireguard_interface_name network_patch_default = None" "ep_wireguard_listen_port network_patch_default = None"
  "ep_docker_network_name network_patch_default = None" "ep_locked_at network_patch_default = None"
  "ep_unlock network_patch_default = None"
  by (simp_all add: network_patch_default_def)

end
