(* ===== verification/Awd_Alloc.thy ===== *)
theory Awd_Alloc
  imports Awd_Net_Db "HOL-Library.List_Lexorder" "HOL-Library.Char_ord"
begin

text \<open>
  Allocation of addresses: the platform's pools (\<open>service/platform_network_service.rs\<close>), the blocks of
  an event (\<open>service/event_network_service.rs\<close>) and the subnets of its teams
  (\<open>service/team_network_allocator.rs\<close>). The allocator's advisory lock serialises the transactions; the
  model runs them one after the other. The theory shows that the blocks in use never overlap.
\<close>

section \<open>Platform settings\<close>

definition update_settings :: "awd_env \<Rightarrow> network_settings_patch \<Rightarrow> network_settings awdop" where
  "update_settings env p =
     bindM get_network_settings (\<lambda>s.
     let gb_pool_str = or_keep (sp_gamebox_pool p) (cidr_text (nw_gamebox_pool s));
         wg_pool_str = or_keep (sp_wireguard_pool p) (cidr_text (nw_wireguard_pool s));
         gb_event = as_u8 (or_keep (sp_gamebox_event_prefix p) (nw_gamebox_event_prefix s));
         gb_team = as_u8 (or_keep (sp_gamebox_team_prefix p) (nw_gamebox_team_prefix s));
         wg_event = as_u8 (or_keep (sp_wireguard_event_prefix p) (nw_wireguard_event_prefix s));
         wg_team = as_u8 (or_keep (sp_wireguard_team_prefix p) (nw_wireguard_team_prefix s));
         port_min = as_u16 (or_keep (sp_wireguard_port_min p) (nw_wireguard_port_min s));
         port_max = as_u16 (or_keep (sp_wireguard_port_max p) (nw_wireguard_port_max s)) in
     bindM (liftM (cidr_parse gb_pool_str)) (\<lambda>gb.
     bindM (liftM (network_pool_new gb gb_event gb_team)) (\<lambda>gb_pool.
     bindM (liftM (cidr_parse wg_pool_str)) (\<lambda>wg.
     bindM (liftM (network_pool_new wg wg_event wg_team)) (\<lambda>wg_pool.
     bindM (guardM (\<not> cidr_overlaps (np_pool gb_pool) (np_pool wg_pool)) (Validation ''pools overlap'')) (\<lambda>_.
     bindM (liftM (wg_port_range_new port_min port_max)) (\<lambda>_.
       update_network_settings env p)))))))"

section \<open>What the host already uses\<close>

definition parse_cidrs :: "string list \<Rightarrow> ipv4_cidr list" where
  "parse_cidrs ss = List.map_filter (\<lambda>s. case cidr_parse s of Inl _ \<Rightarrow> None | Inr c \<Rightarrow> Some c) ss"

definition collect_external_reserved_cidrs :: "awd_env \<Rightarrow> ipv4_cidr list awdop" where
  "collect_external_reserved_cidrs env =
     bindM (host_orM HcListNetworks (\<lambda>l. hv_cidrs (env_host env) l HcListNetworks)
              (Docker ''list docker network subnets'')) (\<lambda>docker.
     bindM (host_orM HcListRoutes (\<lambda>l. hv_cidrs (env_host env) l HcListRoutes)
              (Network ''list host routes'')) (\<lambda>routes.
       returnM (remdups_adj (sort_key cidr_text (parse_cidrs docker @ parse_cidrs routes)))))"

section \<open>Blocks of an event\<close>

definition wireguard_interface_name :: "awd_env \<Rightarrow> uuid \<Rightarrow> string" where
  "wireguard_interface_name env e = ''fawg_'' @ take 8 (hv_uuid_simple (env_host env) e)"

definition docker_network_name :: "awd_env \<Rightarrow> uuid \<Rightarrow> string" where
  "docker_network_name env e = ''fctf-awd-'' @ take 8 (hv_uuid_simple (env_host env) e)"

definition assert_network_editable :: "awd_event_status \<Rightarrow> unit awdop" where
  "assert_network_editable status = guardM (status \<in> {EvDraft, EvConfiguring}) (NetworkLocked ''network addressing locked'')"

definition run_allocator_tx :: "(network_settings \<Rightarrow> 'a awdop) \<Rightarrow> 'a awdop" where
  "run_allocator_tx f = txnM (bindM get_network_settings f)"

definition taken_by_db :: "network_allocation list \<Rightarrow> ipv4_cidr \<Rightarrow> bool" where
  "taken_by_db active candidate \<longleftrightarrow>
     (\<exists>a \<in> set active. case cidr_parse (cidr_text (na_cidr a)) of Inl _ \<Rightarrow> False | Inr c \<Rightarrow> cidr_overlaps c candidate)"

definition taken_external :: "ipv4_cidr list \<Rightarrow> ipv4_cidr \<Rightarrow> bool" where
  "taken_external reserved candidate \<longleftrightarrow> (\<exists>c \<in> set reserved. cidr_overlaps c candidate)"

fun first_free_from ::
  "network_pool \<Rightarrow> network_allocation list \<Rightarrow> ipv4_cidr list \<Rightarrow> nat list \<Rightarrow> awd_error + ipv4_cidr" where
  "first_free_from pool active reserved [] = Inl (PoolExhausted ''address pool exhausted'')"
| "first_free_from pool active reserved (i # is) =
     (case nth_event_subnet pool (of_nat i) of
        None \<Rightarrow> Inl (Internal ''event subnet beyond capacity'')
      | Some candidate \<Rightarrow>
          if \<not> taken_by_db active candidate \<and> \<not> taken_external reserved candidate then Inr candidate
          else first_free_from pool active reserved is)"

definition first_free_event_subnet ::
  "network_pool \<Rightarrow> network_allocation list \<Rightarrow> ipv4_cidr list \<Rightarrow> awd_error + ipv4_cidr" where
  "first_free_event_subnet pool active reserved =
     first_free_from pool active reserved [0..<unat (event_capacity pool)]"

definition allocate_port :: "wg_port_range \<Rightarrow> int list \<Rightarrow> awd_error + int" where
  "allocate_port ports used =
     (case List.find (\<lambda>p. p \<notin> set used) (map int [unat (wg_min ports)..<unat (wg_max ports) + 1]) of
        None \<Rightarrow> Inl (PoolExhausted ''WireGuard port pool exhausted'')
      | Some p \<Rightarrow> Inr p)"

definition list_used_ports :: "int list awdop" where
  "list_used_ports = readM (\<lambda>w. map en_wireguard_listen_port (w_event_networks w))"

text \<open>The addresses an event block determines: infrastructure subnet, FlagServer and JudgeServer.\<close>

definition derive_infra :: "ipv4_cidr \<Rightarrow> 8 word \<Rightarrow> (ipv4_cidr \<times> ipv4 \<times> ipv4) awdop" where
  "derive_infra gb_cidr team_prefix =
     bindM (ok_orM (nth_subnet gb_cidr team_prefix 0) (Validation ''infra block beyond capacity'')) (\<lambda>infra.
     bindM (ok_orM (service_ip infra flagserver_offset) (Internal ''flagserver ip'')) (\<lambda>flag_ip.
     bindM (ok_orM (service_ip infra judgeserver_offset) (Internal ''judgeserver ip'')) (\<lambda>judge_ip.
       returnM (infra, flag_ip, judge_ip))))"

definition build_and_persist ::
  "awd_env \<Rightarrow> uuid \<Rightarrow> alloc_mode \<Rightarrow> ipv4_cidr \<Rightarrow> ipv4_cidr \<Rightarrow> int \<Rightarrow> 8 word \<Rightarrow> event_network awdop" where
  "build_and_persist env event_id mode gb_cidr wg_cidr port team_prefix =
     bindM (derive_infra gb_cidr team_prefix) (\<lambda>(infra, flag_ip, judge_ip).
     bindM (create_event_network env
       \<lparr>ne_event_id = event_id, ne_allocation_mode = mode, ne_gamebox_cidr = cidr_text gb_cidr,
        ne_wireguard_cidr = cidr_text wg_cidr, ne_infrastructure_subnet = cidr_text infra,
        ne_flagserver_ip = ipv4_text flag_ip, ne_judgeserver_ip = ipv4_text judge_ip,
        ne_wireguard_interface_name = wireguard_interface_name env event_id, ne_wireguard_listen_port = port,
        ne_docker_network_name = docker_network_name env event_id, ne_locked_at = None\<rparr>) (\<lambda>model.
     bindM (create_allocation env event_id AkGamebox (cidr_text gb_cidr)) (\<lambda>_.
     bindM (create_allocation env event_id AkWireguard (cidr_text wg_cidr)) (\<lambda>_.
       returnM model))))"

text \<open>Both automatic paths look for the lowest free block of either pool and the lowest free port.\<close>

definition choose_blocks ::
  "ipv4_cidr list \<Rightarrow> network_settings \<Rightarrow> (network_pool \<times> ipv4_cidr \<times> ipv4_cidr \<times> int) awdop" where
  "choose_blocks reserved s =
     bindM (liftM (cidr_parse (cidr_text (nw_gamebox_pool s)))) (\<lambda>gb.
     bindM (liftM (network_pool_new gb (as_u8 (nw_gamebox_event_prefix s)) (as_u8 (nw_gamebox_team_prefix s)))) (\<lambda>gb_pool.
     bindM (liftM (cidr_parse (cidr_text (nw_wireguard_pool s)))) (\<lambda>wg.
     bindM (liftM (network_pool_new wg (as_u8 (nw_wireguard_event_prefix s)) (as_u8 (nw_wireguard_team_prefix s)))) (\<lambda>wg_pool.
     bindM list_active_allocations (\<lambda>active.
     bindM list_used_ports (\<lambda>used.
     bindM (liftM (first_free_event_subnet gb_pool active reserved)) (\<lambda>gb_cidr.
     bindM (liftM (first_free_event_subnet wg_pool active reserved)) (\<lambda>wg_cidr.
     bindM (liftM (wg_port_range_new (as_u16 (nw_wireguard_port_min s)) (as_u16 (nw_wireguard_port_max s)))) (\<lambda>ports.
     bindM (liftM (allocate_port ports used)) (\<lambda>port.
       returnM (gb_pool, gb_cidr, wg_cidr, port)))))))))))"

definition allocate_automatic :: "awd_env \<Rightarrow> uuid \<Rightarrow> ipv4_cidr list \<Rightarrow> event_network awdop" where
  "allocate_automatic env event_id reserved =
     bindM (find_awd_event event_id) (\<lambda>awd.
     bindM (assert_network_editable (ev_status awd)) (\<lambda>_.
     bindM (find_event_network event_id) (\<lambda>row.
     case row of
       Some existing \<Rightarrow>
         bindM (guardM (en_locked_at existing = None) (NetworkLocked ''network already locked after deploy'')) (\<lambda>_.
           returnM existing)
     | None \<Rightarrow> run_allocator_tx (\<lambda>s.
         bindM (choose_blocks reserved s) (\<lambda>(gb_pool, gb_cidr, wg_cidr, port).
           build_and_persist env event_id AmAutomatic gb_cidr wg_cidr port (np_team_prefix gb_pool))))))"

record manual_network_request =
  mr_gamebox_cidr :: string
  mr_wireguard_cidr :: string
  mr_wireguard_listen_port :: "int option"

definition manual_port :: "network_settings \<Rightarrow> int list \<Rightarrow> int option \<Rightarrow> int awdop" where
  "manual_port s used requested =
     bindM (liftM (wg_port_range_new (as_u16 (nw_wireguard_port_min s)) (as_u16 (nw_wireguard_port_max s)))) (\<lambda>ports.
     case requested of
       Some p \<Rightarrow>
         bindM (guardM (wg_contains ports (as_u16 p)) (Validation ''wg port outside the port pool'')) (\<lambda>_.
         bindM (guardM (p \<notin> set used) (Conflict ''wg port in use'')) (\<lambda>_. returnM p))
     | None \<Rightarrow> liftM (allocate_port ports used))"

definition persist_manual ::
  "awd_env \<Rightarrow> uuid \<Rightarrow> int option \<Rightarrow> ipv4_cidr \<Rightarrow> ipv4_cidr \<Rightarrow> network_settings \<Rightarrow> event_network awdop" where
  "persist_manual env event_id requested gb_cidr wg_cidr s =
     bindM list_active_allocations (\<lambda>active.
     bindM (forM active (\<lambda>a.
        bindM (liftM (cidr_parse (cidr_text (na_cidr a)))) (\<lambda>other.
          guardM (\<not> (cidr_overlaps other gb_cidr \<or> cidr_overlaps other wg_cidr))
            (NetworkOverlap ''used by another event'')))) (\<lambda>_.
     bindM list_used_ports (\<lambda>used.
     let team_prefix = as_u8 (nw_gamebox_team_prefix s) in
     bindM (guardM (prefix_len gb_cidr \<le> team_prefix) (Validation ''manual gamebox_cidr smaller than a team subnet'')) (\<lambda>_.
     bindM (manual_port s used requested) (\<lambda>port.
       build_and_persist env event_id AmManual gb_cidr wg_cidr port team_prefix)))))"

definition allocate_manual ::
  "awd_env \<Rightarrow> uuid \<Rightarrow> manual_network_request \<Rightarrow> ipv4_cidr list \<Rightarrow> event_network awdop" where
  "allocate_manual env event_id req reserved =
     bindM (find_awd_event event_id) (\<lambda>awd.
     bindM (assert_network_editable (ev_status awd)) (\<lambda>_.
     bindM (find_event_network event_id) (\<lambda>row.
     bindM (guardM (row = None) (Conflict ''event network already allocated'')) (\<lambda>_.
     bindM (liftM (cidr_parse (mr_gamebox_cidr req))) (\<lambda>gb_cidr.
     bindM (liftM (cidr_parse (mr_wireguard_cidr req))) (\<lambda>wg_cidr.
     bindM (guardM (\<not> cidr_overlaps gb_cidr wg_cidr) (NetworkOverlap ''gamebox and wireguard overlap'')) (\<lambda>_.
     bindM (guardM (\<not> (\<exists>c \<in> set reserved. cidr_overlaps c gb_cidr \<or> cidr_overlaps c wg_cidr))
              (NetworkOverlap ''used by the host'')) (\<lambda>_.
       run_allocator_tx (persist_manual env event_id (mr_wireguard_listen_port req) gb_cidr wg_cidr)))))))))"

definition reallocate :: "awd_env \<Rightarrow> uuid \<Rightarrow> ipv4_cidr list \<Rightarrow> event_network awdop" where
  "reallocate env event_id reserved =
     bindM (find_awd_event event_id) (\<lambda>awd.
     bindM (assert_network_editable (ev_status awd)) (\<lambda>_.
     bindM (require_event_network event_id) (\<lambda>current.
     bindM (guardM (en_locked_at current = None) (NetworkLocked ''network locked after deploy'')) (\<lambda>_.
     run_allocator_tx (\<lambda>s.
       bindM (choose_blocks reserved s) (\<lambda>(gb_pool, gb_cidr, wg_cidr, port).
       bindM (derive_infra gb_cidr (np_team_prefix gb_pool)) (\<lambda>(infra, flag_ip, judge_ip).
       bindM (update_event_network env current (network_patch_default\<lparr>
          ep_allocation_mode := Some AmAutomatic, ep_gamebox_cidr := Some (cidr_text gb_cidr),
          ep_wireguard_cidr := Some (cidr_text wg_cidr), ep_infrastructure_subnet := Some (cidr_text infra),
          ep_flagserver_ip := Some (ipv4_text flag_ip), ep_judgeserver_ip := Some (ipv4_text judge_ip),
          ep_wireguard_listen_port := Some port\<rparr>)) (\<lambda>updated.
       bindM (release_all_allocations event_id) (\<lambda>_.
       bindM (create_allocation env event_id AkGamebox (cidr_text gb_cidr)) (\<lambda>_.
       bindM (create_allocation env event_id AkWireguard (cidr_text wg_cidr)) (\<lambda>_.
         returnM updated)))))))))))"

definition lock_network :: "awd_env \<Rightarrow> uuid \<Rightarrow> unit awdop" where
  "lock_network env event_id =
     bindM (require_event_network event_id) (\<lambda>net.
     bindM nowM (\<lambda>now.
     if en_locked_at net = None
     then bindM (update_event_network env net (network_patch_default\<lparr>ep_locked_at := Some now\<rparr>)) (\<lambda>_. returnM ())
     else returnM ()))"

definition unlock_network :: "awd_env \<Rightarrow> uuid \<Rightarrow> unit awdop" where
  "unlock_network env event_id =
     bindM (require_event_network event_id) (\<lambda>net.
     if en_locked_at net \<noteq> None
     then bindM (update_event_network env net (network_patch_default\<lparr>ep_unlock := Some True\<rparr>)) (\<lambda>_. returnM ())
     else returnM ())"

definition release_allocations :: "uuid \<Rightarrow> unit awdop" where
  "release_allocations event_id = txnM (release_all_allocations event_id)"

definition is_locked :: "uuid \<Rightarrow> bool awdop" where
  "is_locked event_id =
     bindM (find_event_network event_id) (\<lambda>row.
       returnM (case row of None \<Rightarrow> False | Some n \<Rightarrow> en_locked_at n \<noteq> None))"

section \<open>Subnets of the teams\<close>

definition team_networks_unique :: "team_network list \<Rightarrow> bool" where
  "team_networks_unique ts \<longleftrightarrow>
     distinct (map (\<lambda>t. (tn_event_id t, tn_gamebox_subnet t)) ts) \<and>
     distinct (map (\<lambda>t. (tn_event_id t, tn_team_id t)) ts) \<and>
     distinct (map (\<lambda>t. (tn_event_id t, tn_wireguard_subnet t)) ts)"

definition insert_team_network :: "team_network \<Rightarrow> unit awdop" where
  "insert_team_network t = (\<lambda>w.
     if team_networks_unique (w_team_networks w @ [t])
     then (Inr (), w\<lparr>w_team_networks := w_team_networks w @ [t]\<rparr>) else (Inl unique_violation, w))"

definition build_aad :: "awd_env \<Rightarrow> uuid \<Rightarrow> string \<Rightarrow> string" where
  "build_aad env event_id field = env_uuid_text env event_id @ '':'' @ field"

definition encryptM :: "awd_env \<Rightarrow> string \<Rightarrow> string \<Rightarrow> (string \<times> string) awdop" where
  "encryptM env plaintext aad =
     bindM new_uuid (\<lambda>n. ok_orM (hv_seal (env_host env) n plaintext aad) (Crypto ''Encryption failed''))"

text \<open>One team of the loop: the slots given out so far and the rows collected.\<close>

definition ensure_team_network ::
  "awd_env \<Rightarrow> uuid \<Rightarrow> int \<Rightarrow> ipv4_cidr \<Rightarrow> ipv4_cidr \<Rightarrow> 8 word \<Rightarrow> team_network list \<Rightarrow> event_team \<Rightarrow>
   64 word list \<Rightarrow> (64 word list \<times> team_network) awdop" where
  "ensure_team_network env event_id key_version gb_cidr wg_cidr team_prefix existing team used =
     (case List.find (\<lambda>n. tn_team_id n = tm_id team) existing of
        Some n \<Rightarrow> returnM (used, n)
      | None \<Rightarrow>
          bindM (ok_orM (next_free_index \<lparr>ta_event_cidr = gb_cidr, ta_team_prefix = team_prefix, ta_used_indexes = used\<rparr>)
                   (PoolExhausted ''team subnets exhausted'')) (\<lambda>index.
          bindM (ok_orM (nth_subnet gb_cidr team_prefix index) (Internal ''team subnet'')) (\<lambda>gb_subnet.
          bindM (ok_orM (nth_subnet wg_cidr team_prefix index) (Internal ''wg subnet'')) (\<lambda>wg_subnet.
          bindM new_uuid (\<lambda>seed.
          bindM (encryptM env (hv_password (env_host env) seed) (build_aad env event_id ''ssh_password'')) (\<lambda>(ct, nonce).
          bindM new_uuid (\<lambda>i.
          let row = \<lparr>tn_id = i, tn_event_id = event_id, tn_team_id = tm_id team, tn_subnet_index = as_i16 (uint index),
                 tn_gamebox_subnet = gb_subnet, tn_wireguard_subnet = wg_subnet, tn_next_wireguard_host = 2,
                 tn_ssh_password_ciphertext = ct, tn_ssh_password_nonce = nonce, tn_key_version = key_version\<rparr> in
          bindM (insert_team_network row) (\<lambda>_. returnM (used @ [index], row)))))))))"

fun ensure_each_team ::
  "(event_team \<Rightarrow> 64 word list \<Rightarrow> (64 word list \<times> team_network) awdop) \<Rightarrow> event_team list \<Rightarrow> 64 word list \<Rightarrow>
   team_network list awdop" where
  "ensure_each_team step [] used = returnM []"
| "ensure_each_team step (t # ts) used =
     bindM (step t used) (\<lambda>(used', n). bindM (ensure_each_team step ts used') (\<lambda>ns. returnM (n # ns)))"

text \<open>The teams are served in the order in which they were created, the order of the table.\<close>

definition ensure_team_networks :: "awd_env \<Rightarrow> uuid \<Rightarrow> int \<Rightarrow> team_network list awdop" where
  "ensure_team_networks env event_id key_version =
     bindM (require_event_network event_id) (\<lambda>net.
     bindM (liftM (cidr_parse (cidr_text (en_gamebox_cidr net)))) (\<lambda>gb_cidr.
     bindM (liftM (cidr_parse (cidr_text (en_wireguard_cidr net)))) (\<lambda>wg_cidr.
     bindM (liftM (cidr_parse (cidr_text (en_infrastructure_subnet net)))) (\<lambda>infra.
     bindM (readM (\<lambda>w. filter (\<lambda>t. tm_event_id t = event_id) (w_teams w))) (\<lambda>teams.
     bindM (readM (\<lambda>w. filter (\<lambda>t. tn_event_id t = event_id) (w_team_networks w))) (\<lambda>existing.
       txnM (ensure_each_team
         (ensure_team_network env event_id key_version gb_cidr wg_cidr (prefix_len infra) existing) teams
         (map (\<lambda>t. of_int (tn_subnet_index t)) existing))))))))"

section \<open>What the allocator chooses\<close>

text \<open>
  The database stores a block with the bits right of its prefix cleared: what reading a printed block
  and storing it gives, if it gives anything.
\<close>

definition columns_canonical :: "awd_env \<Rightarrow> bool" where
  "columns_canonical env \<longleftrightarrow>
     (\<forall>c d. prefix_len c \<le> 32 \<longrightarrow> hv_cidr_column (env_host env) (cidr_text c) = Inr d \<longrightarrow> d = cidr_masked c)"

lemma columns_canonicalD:
  "columns_canonical env \<Longrightarrow> prefix_len c \<le> 32 \<Longrightarrow> hv_cidr_column (env_host env) (cidr_text c) = Inr d \<Longrightarrow>
   d = cidr_masked c"
  by (auto simp: columns_canonical_def)

lemma taken_by_db_iff:
  assumes "\<And>a. a \<in> set active \<Longrightarrow> prefix_len (na_cidr a) \<le> 32"
  shows "taken_by_db active c \<longleftrightarrow> (\<exists>a \<in> set active. cidr_overlaps (na_cidr a) c)"
  using assms by (auto simp: taken_by_db_def cidr_parse_text)

definition free_block :: "network_allocation list \<Rightarrow> ipv4_cidr list \<Rightarrow> ipv4_cidr \<Rightarrow> bool" where
  "free_block active reserved c \<longleftrightarrow> \<not> taken_by_db active c \<and> \<not> taken_external reserved c"

lemma first_free_from_Inr:
  "first_free_from pool active reserved is = Inr c \<Longrightarrow>
   \<exists>i \<in> set is. nth_event_subnet pool (of_nat i) = Some c \<and> free_block active reserved c"
  by (induction "is") (auto simp: free_block_def split: option.splits if_splits)

lemma pool_new_bounds:
  assumes "network_pool_new c ep tp = Inr pool"
  shows "np_pool pool = c" "np_event_prefix pool = ep" "np_team_prefix pool = tp"
    "prefix_len c \<le> ep" "ep \<le> tp" "tp \<le> 32"
  using assms by (auto simp: network_pool_new_def not_less split: if_splits)

lemma nth_subnet_prefix: "nth_subnet c q i = Some d \<Longrightarrow> prefix_len d = q \<and> q \<le> 32"
  by (auto simp: nth_subnet_def Let_def not_less split: if_splits)

lemma first_free_Inr:
  assumes "first_free_event_subnet pool active reserved = Inr c"
  shows "prefix_len c \<le> 32" "free_block active reserved c"
  using first_free_from_Inr [OF assms [unfolded first_free_event_subnet_def]]
  by (auto simp: nth_event_subnet_def dest: nth_subnet_prefix)

section \<open>Disjoint blocks\<close>

definition held :: "awd_world \<Rightarrow> uuid \<Rightarrow> (alloc_kind \<times> ipv4_cidr) list" where
  "held w e = map (\<lambda>a. (na_kind a, na_cidr a)) (filter (\<lambda>a. na_event_id a = e) (active_allocations w))"

definition blocks_sound :: "network_allocation list \<Rightarrow> bool" where
  "blocks_sound as \<longleftrightarrow> (\<forall>a \<in> set as. cidr_wf (na_cidr a)) \<and>
     sorted_wrt (\<lambda>a b. \<not> inet_overlap (na_cidr a) (na_cidr b)) as"

definition holds_own_blocks :: "awd_world \<Rightarrow> uuid \<Rightarrow> bool" where
  "holds_own_blocks w e \<longleftrightarrow> held w e = [] \<or> (\<exists>n \<in> set (w_event_networks w). en_event_id n = e \<and>
     held w e = [(AkGamebox, en_gamebox_cidr n), (AkWireguard, en_wireguard_cidr n)])"

definition alloc_inv :: "awd_world \<Rightarrow> bool" where
  "alloc_inv w \<longleftrightarrow> event_networks_unique (w_event_networks w) \<and> blocks_sound (active_allocations w) \<and>
     (\<forall>e. holds_own_blocks w e)"

lemma blocks_sound_filter: "blocks_sound as \<Longrightarrow> blocks_sound (filter P as)"
  by (auto simp: blocks_sound_def intro: sorted_wrt_filter)

lemma blocks_sound_prefix: "blocks_sound as \<Longrightarrow> a \<in> set as \<Longrightarrow> prefix_len (na_cidr a) \<le> 32"
  by (auto simp: blocks_sound_def cidr_wf_def)

text \<open>A free block, stored, meets none of the blocks in use.\<close>

lemma free_block_stored:
  assumes as: "blocks_sound as" and c: "free_block as reserved c" "1 \<le> prefix_len c" "prefix_len c \<le> 32"
    and a: "a \<in> set as"
  shows "\<not> inet_overlap (na_cidr a) (cidr_masked c)"
proof -
  have wf: "cidr_wf (na_cidr a)" using as a by (simp add: blocks_sound_def)
  have "\<not> cidr_overlaps (na_cidr a) c"
    using c(1) a taken_by_db_iff [of as c] blocks_sound_prefix [OF as] by (auto simp: free_block_def)
  then have "\<not> inet_overlap (na_cidr a) c"
    using wf c cidr_overlaps_inet by (simp add: cidr_wf_def)
  then show ?thesis using inet_overlap_masked [OF c(3)] inet_overlap_sym by metis
qed

lemma blocks_sound_append2:
  assumes "blocks_sound as" "free_block as r g" "free_block as r' h" "prefix_len g \<le> 32" "prefix_len h \<le> 32"
    "na_cidr a = cidr_masked g" "na_cidr b = cidr_masked h" "\<not> inet_overlap (na_cidr a) (na_cidr b)"
  shows "blocks_sound (as @ [a, b])"
proof -
  have "1 \<le> prefix_len g" "1 \<le> prefix_len h"
    using inet_overlap_prefix [OF assms(8)] by (simp_all add: assms(6,7))
  then show ?thesis
    using assms free_block_stored masked_wf by (auto simp: blocks_sound_def sorted_wrt_append)
qed

text \<open>What a successful creation of an event network writes.\<close>

definition alloc_row :: "uuid \<Rightarrow> uuid \<Rightarrow> alloc_kind \<Rightarrow> ipv4_cidr \<Rightarrow> timestamp \<Rightarrow> network_allocation" where
  "alloc_row i e k c t = \<lparr>na_id = i, na_event_id = e, na_kind = k, na_cidr = c, na_allocated_at = t, na_released_at = None\<rparr>"

lemma alloc_row_fields [simp]:
  "na_event_id (alloc_row i e k c t) = e" "na_kind (alloc_row i e k c t) = k" "na_cidr (alloc_row i e k c t) = c"
  "na_released_at (alloc_row i e k c t) = None" "na_allocated_at (alloc_row i e k c t) = t"
  by (simp_all add: alloc_row_def)

lemma build_and_persist_Inr:
  assumes "build_and_persist env e mode gb wg port tp w = (Inr n, w')"
  shows "w' = w\<lparr>w_next_id := w_next_id w + 3, w_event_networks := w_event_networks w @ [n],
      w_allocations := w_allocations w @ [alloc_row (w_next_id w + 1) e AkGamebox (en_gamebox_cidr n) (w_now w),
        alloc_row (w_next_id w + 2) e AkWireguard (en_wireguard_cidr n) (w_now w)]\<rparr>"
    and "event_network_ok n" "event_networks_unique (w_event_networks w @ [n])" "en_event_id n = e"
    and "hv_cidr_column (env_host env) (cidr_text gb) = Inr (en_gamebox_cidr n)"
    and "hv_cidr_column (env_host env) (cidr_text wg) = Inr (en_wireguard_cidr n)"
    and "en_locked_at n = None" "en_wireguard_listen_port n = port"
  using assms
  by (auto simp: build_and_persist_def derive_infra_def create_event_network_def insert_event_network_def alloc_row_def
      bindM_Inr_iff run_simps Let_def split: option.splits sum.splits if_splits)

lemma allocate_port_Inr:
  assumes "allocate_port ports used = Inr p"
  shows "p \<notin> set used" "\<exists>x. p = int x \<and> unat (wg_min ports) \<le> x \<and> x \<le> unat (wg_max ports)"
proof -
  have "List.find (\<lambda>p. p \<notin> set used) (map int [unat (wg_min ports)..<unat (wg_max ports) + 1]) = Some p"
    using assms by (simp only: allocate_port_def split: option.splits) simp_all
  from find_SomeD [OF this]
  show "p \<notin> set used" "\<exists>x. p = int x \<and> unat (wg_min ports) \<le> x \<and> x \<le> unat (wg_max ports)"
    by (simp_all del: upt.simps) (elim conjE imageE, intro exI conjI, auto)
qed

lemma choose_blocks_Inr:
  assumes "choose_blocks reserved s w = (Inr (pool, gb, wg, port), w')"
  shows "w' = w" "prefix_len gb \<le> 32" "prefix_len wg \<le> 32" "free_block (active_allocations w) reserved gb"
    "free_block (active_allocations w) reserved wg" "port \<notin> set (map en_wireguard_listen_port (w_event_networks w))"
proof -
  show "w' = w"
    using assms by (auto simp: choose_blocks_def list_active_allocations_def list_used_ports_def bindM_Inr_iff readM_Inr returnM_Inr liftM_run)
  have "\<exists>gp wp. first_free_event_subnet gp (active_allocations w) reserved = Inr gb \<and>
      first_free_event_subnet wp (active_allocations w) reserved = Inr wg"
    using assms by (auto simp: choose_blocks_def list_active_allocations_def list_used_ports_def bindM_Inr_iff readM_Inr returnM_Inr liftM_run)
  then show "prefix_len gb \<le> 32" "prefix_len wg \<le> 32" "free_block (active_allocations w) reserved gb"
    "free_block (active_allocations w) reserved wg"
    using first_free_Inr by blast+
  have "\<exists>r. allocate_port r (map en_wireguard_listen_port (w_event_networks w)) = Inr port"
    using assms by (auto simp: choose_blocks_def list_active_allocations_def list_used_ports_def bindM_Inr_iff readM_Inr returnM_Inr liftM_run)
  then show "port \<notin> set (map en_wireguard_listen_port (w_event_networks w))"
    using allocate_port_Inr(1) by blast
qed

lemma held_append: "held (w\<lparr>w_event_networks := ns, w_next_id := i, w_allocations := w_allocations w @ as\<rparr>) e =
  held w e @ map (\<lambda>a. (na_kind a, na_cidr a)) (filter (\<lambda>a. na_event_id a = e \<and> na_released_at a = None) as)"
  by (simp add: held_def active_allocations_def filter_filter conj_commute)

text \<open>A new event network with its two blocks keeps the ledger sound.\<close>

lemma persist_keeps_alloc_inv:
  assumes inv: "alloc_inv w" and none: "\<And>n. n \<in> set (w_event_networks w) \<Longrightarrow> en_event_id n \<noteq> e"
    and run: "build_and_persist env e mode gb wg port tp w = (Inr n, w')" and col: "columns_canonical env"
    and free: "free_block (active_allocations w) r gb" "free_block (active_allocations w) r' wg"
    and pre: "prefix_len gb \<le> 32" "prefix_len wg \<le> 32"
  shows "alloc_inv w'"
proof -
  note w' = build_and_persist_Inr [OF run]
  have cols: "en_gamebox_cidr n = cidr_masked gb" "en_wireguard_cidr n = cidr_masked wg"
    using columns_canonicalD [OF col pre(1) w'(5)] columns_canonicalD [OF col pre(2) w'(6)] by simp_all
  have act: "active_allocations w' = active_allocations w @
      [alloc_row (w_next_id w + 1) e AkGamebox (en_gamebox_cidr n) (w_now w),
       alloc_row (w_next_id w + 2) e AkWireguard (en_wireguard_cidr n) (w_now w)]"
    by (simp add: w'(1) active_allocations_def)
  have none_held: "held w e = []"
    using inv none by (auto simp: alloc_inv_def holds_own_blocks_def)
  have "blocks_sound (active_allocations w')"
    unfolding act using inv w'(2) free pre
    by (intro blocks_sound_append2) (auto simp: alloc_inv_def cols event_network_ok_def)
  moreover have "holds_own_blocks w' x" for x
  proof (cases "x = e")
    case True
    have "held w' e = [(AkGamebox, en_gamebox_cidr n), (AkWireguard, en_wireguard_cidr n)]"
      using none_held by (simp add: held_def act)
    then show ?thesis using True w'(4) by (auto simp: holds_own_blocks_def w'(1))
  next
    case False
    then have "held w' x = held w x" by (simp add: held_def act)
    then show ?thesis
      using inv by (auto simp: holds_own_blocks_def alloc_inv_def w'(1))
  qed
  ultimately show ?thesis using w'(3) by (simp add: alloc_inv_def w'(1))
qed

lemma keeps_txnM_run:
  assumes "\<And>w x w'. I w \<Longrightarrow> m w = (Inr x, w') \<Longrightarrow> I w'"
  shows "keeps I (txnM m)"
  using assms by (auto simp: keeps_def txnM_run split: prod.splits sum.splits)

lemma release_run:
  "release_all_allocations e w = (r, w') \<Longrightarrow>
   w' = w \<or> w' = w\<lparr>w_allocations := update_where (\<lambda>a. na_event_id a = e \<and> na_released_at a = None)
      (\<lambda>a. a\<lparr>na_released_at := Some (w_now w)\<rparr>) (w_allocations w)\<rparr>"
  by (auto simp: release_all_allocations_def Let_def split: if_splits)

lemma active_released:
  "active_allocations (w\<lparr>w_allocations := update_where (\<lambda>a. na_event_id a = e \<and> na_released_at a = None)
      (\<lambda>a. a\<lparr>na_released_at := Some t\<rparr>) (w_allocations w)\<rparr>) =
   filter (\<lambda>a. na_event_id a \<noteq> e) (active_allocations w)"
proof -
  have "filter (\<lambda>a. na_released_at a = None) (update_where (\<lambda>a. na_event_id a = e \<and> na_released_at a = None)
      (\<lambda>a. a\<lparr>na_released_at := Some t\<rparr>) as) = filter (\<lambda>a. na_event_id a \<noteq> e \<and> na_released_at a = None) as" for as
    by (induction as) (auto simp: update_where_def)
  then show ?thesis by (simp add: active_allocations_def conj_commute)
qed

lemma held_cong:
  "active_allocations w' = active_allocations w \<Longrightarrow> held w' e = held w e"
  by (simp add: held_def)

lemma keeps_release_all: "keeps alloc_inv (release_all_allocations e)"
  unfolding keeps_def
proof (intro allI impI)
  fix w assume inv: "alloc_inv w"
  obtain r w' where run: "release_all_allocations e w = (r, w')" by fastforce
  show "alloc_inv (snd (release_all_allocations e w))"
  proof (cases "w' = w")
    case False
    then have w': "w' = w\<lparr>w_allocations := update_where (\<lambda>a. na_event_id a = e \<and> na_released_at a = None)
        (\<lambda>a. a\<lparr>na_released_at := Some (w_now w)\<rparr>) (w_allocations w)\<rparr>"
      using release_run [OF run] by simp
    have act: "active_allocations w' = filter (\<lambda>a. na_event_id a \<noteq> e) (active_allocations w)"
      unfolding w' by (rule active_released)
    have "held w' x = (if x = e then [] else held w x)" for x
      unfolding held_def act by (auto simp: filter_filter intro!: arg_cong [where f = "map _"] filter_cong)
    moreover have "w_event_networks w' = w_event_networks w" by (simp add: w')
    moreover have "blocks_sound (active_allocations w')" using inv by (simp add: act alloc_inv_def blocks_sound_filter)
    ultimately have "alloc_inv w'" using inv by (simp add: alloc_inv_def holds_own_blocks_def)
    then show ?thesis by (simp add: run)
  qed (simp add: run inv)
qed

text \<open>An update of a network row that leaves its blocks alone.\<close>

lemma write_network_keeps:
  assumes "\<And>n. en_event_id (f n) = en_event_id n" "\<And>n. en_gamebox_cidr (f n) = en_gamebox_cidr n"
    "\<And>n. en_wireguard_cidr (f n) = en_wireguard_cidr n"
  shows "keeps alloc_inv (write_event_network i f)"
proof -
  have "holds_own_blocks (w\<lparr>w_event_networks := update_where P f (w_event_networks w)\<rparr>) e"
    if h: "holds_own_blocks w e" for w P e
  proof -
    let ?w = "w\<lparr>w_event_networks := update_where P f (w_event_networks w)\<rparr>"
    have held: "held ?w e = held w e" by (rule held_cong) (simp add: active_allocations_def)
    show ?thesis
    proof (cases "held w e = []")
      case False
      then obtain n where n: "n \<in> set (w_event_networks w)" "en_event_id n = e"
          "held w e = [(AkGamebox, en_gamebox_cidr n), (AkWireguard, en_wireguard_cidr n)]"
        using h by (auto simp: holds_own_blocks_def)
      let ?n = "if P n then f n else n"
      have "?n \<in> set (w_event_networks ?w)" using n(1) by (auto simp: set_update_where)
      moreover have "en_event_id ?n = e" "en_gamebox_cidr ?n = en_gamebox_cidr n" "en_wireguard_cidr ?n = en_wireguard_cidr n"
        by (simp_all add: assms n(2))
      ultimately show ?thesis
        unfolding holds_own_blocks_def held n(3) by (intro disjI2 bexI [of _ ?n] conjI) simp_all
    qed (simp add: holds_own_blocks_def held)
  qed
  moreover have "active_allocations (w\<lparr>w_event_networks := ns\<rparr>) = active_allocations w" for w ns
    by (simp add: active_allocations_def)
  ultimately have step: "alloc_inv (w\<lparr>w_event_networks := update_where P f (w_event_networks w)\<rparr>)"
    if "alloc_inv w" "event_networks_unique (update_where P f (w_event_networks w))" for w P
    using that by (simp add: alloc_inv_def)
  show ?thesis
    unfolding keeps_def write_event_network_def
    by (simp add: Let_def step split: option.splits)
qed

text \<open>What a reallocation writes: the row of the event with its new blocks.\<close>

definition reads_as :: "('a \<Rightarrow> 'e + 'b) \<Rightarrow> 'a option \<Rightarrow> 'b option \<Rightarrow> bool" where
  "reads_as c v y \<longleftrightarrow> (case v of None \<Rightarrow> y = None | Some g \<Rightarrow> \<exists>z. c g = Inr z \<and> y = Some z)"

lemma reads_as_simps [simp]: "reads_as c None y \<longleftrightarrow> y = None" "reads_as c (Some g) y \<longleftrightarrow> (\<exists>z. c g = Inr z \<and> y = Some z)"
  by (simp_all add: reads_as_def)

lemma map_optionM_Inr: "map_optionM c v w = (Inr y, w') \<longleftrightarrow> w' = w \<and> reads_as c v y"
  by (auto simp: map_optionM_run reads_as_def split: option.splits sum.splits)

lemma write_event_network_Inr:
  "write_event_network i f w = (Inr n', w') \<longleftrightarrow> (\<exists>n. List.find (\<lambda>n. en_id n = i) (w_event_networks w) = Some n \<and> n' = f n
    \<and> event_network_ok n' \<and> event_networks_unique (update_where (\<lambda>n. en_id n = i) f (w_event_networks w))
    \<and> w' = w\<lparr>w_event_networks := update_where (\<lambda>n. en_id n = i) f (w_event_networks w)\<rparr>)"
  by (auto simp: write_event_network_def Let_def split: option.splits)

lemma update_event_network_Inr:
  "update_event_network env cur p w = (Inr n', w') \<longleftrightarrow> (\<exists>gb wg infra flag judge.
     reads_as (hv_cidr_column (env_host env)) (ep_gamebox_cidr p) gb \<and>
     reads_as (hv_cidr_column (env_host env)) (ep_wireguard_cidr p) wg \<and>
     reads_as (hv_cidr_column (env_host env)) (ep_infrastructure_subnet p) infra \<and>
     reads_as (hv_inet_column (env_host env)) (ep_flagserver_ip p) flag \<and>
     reads_as (hv_inet_column (env_host env)) (ep_judgeserver_ip p) judge \<and>
     write_event_network (en_id cur) (apply_network_patch p gb wg infra flag judge) w = (Inr n', w'))"
  unfolding update_event_network_def Let_def bindM_Inr_iff map_optionM_Inr by simp

lemma map_optionM_None: "bindM (map_optionM c None) f = f None"
  by (simp add: fun_eq_iff map_optionM_run bindM_run)

lemma patch_lock_only:
  "update_event_network env cur (network_patch_default\<lparr>ep_locked_at := t\<rparr>) =
     write_event_network (en_id cur) (apply_network_patch (network_patch_default\<lparr>ep_locked_at := t\<rparr>) None None None None None)"
  "update_event_network env cur (network_patch_default\<lparr>ep_unlock := u\<rparr>) =
     write_event_network (en_id cur) (apply_network_patch (network_patch_default\<lparr>ep_unlock := u\<rparr>) None None None None None)"
  by (simp_all add: update_event_network_def map_optionM_None)

lemma keeps_require_network: "keeps I (require_event_network e)"
  by (simp add: keeps_def require_event_network_run split: option.splits)

lemma keeps_lock: "keeps alloc_inv (lock_network env e)" "keeps alloc_inv (unlock_network env e)"
  unfolding lock_network_def unlock_network_def patch_lock_only nowM_def
  by (intro keeps_intros keeps_require_network write_network_keeps; simp)+

lemma keeps_release_blocks: "keeps alloc_inv (release_allocations e)"
  unfolding release_allocations_def by (rule keeps_txnM_run) (use keepsD_run [OF keeps_release_all] in blast)

lemma release_all_Inr:
  "release_all_allocations e w = (Inr u, w') \<Longrightarrow>
   w' = w\<lparr>w_allocations := update_where (\<lambda>a. na_event_id a = e \<and> na_released_at a = None)
      (\<lambda>a. a\<lparr>na_released_at := Some (w_now w)\<rparr>) (w_allocations w)\<rparr>"
  by (auto simp: release_all_allocations_def Let_def split: if_splits)

lemma create_allocation_Inr:
  "create_allocation env e k s w = (Inr a, w') \<longleftrightarrow> (\<exists>c. hv_cidr_column (env_host env) s = Inr c \<and>
     a = alloc_row (w_next_id w) e k c (w_now w) \<and>
     w' = w\<lparr>w_next_id := w_next_id w + 1, w_allocations := w_allocations w @ [a]\<rparr>)"
  by (auto simp: create_allocation_run alloc_row_def Let_def split: sum.splits)

text \<open>Only the row of the event changes, because primary keys are unique.\<close>

lemma other_network_kept:
  assumes "event_networks_unique ns" "cur \<in> set ns" "n \<in> set ns" "en_event_id n \<noteq> en_event_id cur"
  shows "n \<in> set (update_where (\<lambda>n. en_id n = en_id cur) f ns)"
proof -
  have "en_id n \<noteq> en_id cur"
    using assms by (auto simp: event_networks_unique_def distinct_map inj_on_def)
  then show ?thesis using assms(3) by (force simp: set_update_where)
qed

lemma swap_keeps_alloc_inv:
  assumes inv: "alloc_inv w" and cur: "List.find (\<lambda>n. en_event_id n = e) (w_event_networks w) = Some cur"
    and upd: "update_event_network env cur p w = (Inr n', w1)"
      "ep_gamebox_cidr p = Some (cidr_text gb)" "ep_wireguard_cidr p = Some (cidr_text wg)"
    and rel: "release_all_allocations e w1 = (Inr u, w2)"
    and cre: "create_allocation env e AkGamebox (cidr_text gb) w2 = (Inr a, w3)"
      "create_allocation env e AkWireguard (cidr_text wg) w3 = (Inr b, w4)"
    and col: "columns_canonical env"
    and free: "free_block (active_allocations w) r gb" "free_block (active_allocations w) r' wg"
    and pre: "prefix_len gb \<le> 32" "prefix_len wg \<le> 32"
  shows "alloc_inv w4"
proof -
  obtain gc wc f where gc: "hv_cidr_column (env_host env) (cidr_text gb) = Inr gc"
    and wc: "hv_cidr_column (env_host env) (cidr_text wg) = Inr wc"
    and wr: "write_event_network (en_id cur) f w = (Inr n', w1)"
    and f: "\<And>x. en_event_id (f x) = en_event_id x" "\<And>x. en_gamebox_cidr (f x) = gc" "\<And>x. en_wireguard_cidr (f x) = wc"
    using upd(1) unfolding update_event_network_Inr upd(2,3) by fastforce
  have curD: "cur \<in> set (w_event_networks w)" "en_event_id cur = e" using find_SomeD [OF cur] by auto
  have uniq: "event_networks_unique (w_event_networks w)" using inv by (simp add: alloc_inv_def)
  then have "List.find (\<lambda>n. en_id n = en_id cur) (w_event_networks w) = Some cur"
    using find_distinct_key [OF _ curD(1), of en_id] by (simp add: event_networks_unique_def)
  then have w1: "w1 = w\<lparr>w_event_networks := update_where (\<lambda>n. en_id n = en_id cur) f (w_event_networks w)\<rparr>"
      "event_network_ok (f cur)" "event_networks_unique (w_event_networks w1)"
    using wr by (auto simp: write_event_network_Inr)
  have cols: "gc = cidr_masked gb" "wc = cidr_masked wg"
    using columns_canonicalD [OF col pre(1) gc] columns_canonicalD [OF col pre(2) wc] by simp_all
  have a: "a = alloc_row (w_next_id w2) e AkGamebox gc (w_now w2)" "w3 = w2\<lparr>w_next_id := w_next_id w2 + 1, w_allocations := w_allocations w2 @ [a]\<rparr>"
    using cre(1) by (simp_all add: create_allocation_Inr gc)
  have b: "b = alloc_row (w_next_id w3) e AkWireguard wc (w_now w3)" "w4 = w3\<lparr>w_next_id := w_next_id w3 + 1, w_allocations := w_allocations w3 @ [b]\<rparr>"
    using cre(2) by (simp_all add: create_allocation_Inr wc)
  have act2: "active_allocations w2 = filter (\<lambda>a. na_event_id a \<noteq> e) (active_allocations w)"
    unfolding release_all_Inr [OF rel] active_released by (simp add: w1(1) active_allocations_def)
  have act: "active_allocations w4 = filter (\<lambda>a. na_event_id a \<noteq> e) (active_allocations w) @ [a, b]"
    using act2 by (simp add: a b active_allocations_def)
  have nets: "w_event_networks w4 = update_where (\<lambda>n. en_id n = en_id cur) f (w_event_networks w)"
    by (simp add: b(2) a(2) release_all_Inr [OF rel] w1(1))
  have sub: "free_block (filter P (active_allocations w)) q c" if "free_block (active_allocations w) q c" for P q c
    using that by (auto simp: free_block_def taken_by_db_def)
  have "blocks_sound (active_allocations w4)"
    unfolding act
  proof (rule blocks_sound_append2 [OF _ sub [OF free(1)] sub [OF free(2)] pre])
    show "blocks_sound (filter (\<lambda>a. na_event_id a \<noteq> e) (active_allocations w))"
      using inv by (simp add: alloc_inv_def blocks_sound_filter)
    show "\<not> inet_overlap (na_cidr a) (na_cidr b)"
      using w1(2) by (simp add: a(1) b(1) event_network_ok_def f)
  qed (simp_all add: a(1) b(1) cols)
  moreover have "holds_own_blocks w4 x" for x
  proof (cases "x = e")
    case True
    have "held w4 e = [(AkGamebox, gc), (AkWireguard, wc)]" by (simp add: held_def act a(1) b(1))
    moreover have "f cur \<in> set (w_event_networks w4)" using curD(1) by (force simp: nets set_update_where)
    ultimately show ?thesis
      unfolding True holds_own_blocks_def by (intro disjI2 bexI [of _ "f cur"]) (simp_all add: f curD)
  next
    case False
    then have "filter (\<lambda>n. na_event_id n \<noteq> e \<and> na_event_id n = x) as = filter (\<lambda>n. na_event_id n = x) as" for as :: "network_allocation list"
      by (intro filter_cong) auto
    then have "held w4 x = held w x" using False by (simp add: held_def act a(1) b(1))
    moreover have "n \<in> set (w_event_networks w4)" if "n \<in> set (w_event_networks w)" "en_event_id n = x" for n
      unfolding nets using other_network_kept [OF uniq curD(1) that(1)] that(2) False curD(2) by simp
    ultimately show ?thesis using inv unfolding alloc_inv_def holds_own_blocks_def by metis
  qed
  moreover have "event_networks_unique (w_event_networks w4)" using w1 nets by simp
  ultimately show ?thesis by (simp add: alloc_inv_def)
qed

text \<open>The three requests that give out blocks.\<close>

lemma keeps_run_allocator_tx:
  assumes "\<And>s w x w'. I w \<Longrightarrow> f s w = (Inr x, w') \<Longrightarrow> I w'"
  shows "keeps I (run_allocator_tx f)"
  unfolding run_allocator_tx_def
  by (rule keeps_txnM_run) (use assms in \<open>auto simp: bindM_Inr_iff get_network_settings_run split: option.splits\<close>)

lemma find_none_network:
  "List.find (\<lambda>n. en_event_id n = e) ns = None \<Longrightarrow> n \<in> set ns \<Longrightarrow> en_event_id n \<noteq> e"
  by (auto simp: find_None_iff)

lemma keeps_allocate_automatic:
  assumes col: "columns_canonical env"
  shows "keeps alloc_inv (allocate_automatic env e reserved)"
  unfolding keeps_def
proof (intro allI impI)
  fix w assume inv: "alloc_inv w"
  show "alloc_inv (snd (allocate_automatic env e reserved w))"
  proof (cases "List.find (\<lambda>n. en_event_id n = e) (w_event_networks w)")
    case None
    have "alloc_inv w'" if run:
      "bindM (choose_blocks reserved s) (\<lambda>(gb_pool, gb, wg, port).
         build_and_persist env e AmAutomatic gb wg port (np_team_prefix gb_pool)) w = (Inr n, w')" for s n w'
    proof -
      obtain pool gb wg port w1 where c: "choose_blocks reserved s w = (Inr (pool, gb, wg, port), w1)"
        and b1: "build_and_persist env e AmAutomatic gb wg port (np_team_prefix pool) w1 = (Inr n, w')"
        using run by (auto simp: bindM_Inr_iff)
      have b: "build_and_persist env e AmAutomatic gb wg port (np_team_prefix pool) w = (Inr n, w')"
        using b1 choose_blocks_Inr(1) [OF c] by simp
      note ch = choose_blocks_Inr [OF c]
      show ?thesis
        by (rule persist_keeps_alloc_inv [OF inv find_none_network [OF None] b col ch(4,5,2,3)])
    qed
    then have "alloc_inv (snd (run_allocator_tx (\<lambda>s. bindM (choose_blocks reserved s) (\<lambda>(gb_pool, gb, wg, port).
         build_and_persist env e AmAutomatic gb wg port (np_team_prefix gb_pool))) w))"
      using inv by (auto simp: run_allocator_tx_def txnM_run bindM_run [of get_network_settings] get_network_settings_run
          split: option.splits prod.splits sum.splits)
    then show ?thesis
      using inv None
      by (auto simp: allocate_automatic_def assert_network_editable_def find_awd_event_run find_event_network_run guardM_run
          bindM_run [of "find_awd_event e"] bindM_run [of "guardM _ _"] bindM_run [of "find_event_network e"] split: option.splits)
  qed (use inv in \<open>auto simp: allocate_automatic_def assert_network_editable_def find_awd_event_run find_event_network_run
      guardM_run returnM_run bindM_run split: option.splits\<close>)
qed

lemma keeps_reallocate:
  assumes col: "columns_canonical env"
  shows "keeps alloc_inv (reallocate env e reserved)"
  unfolding keeps_def
proof (intro allI impI)
  fix w assume inv: "alloc_inv w"
  obtain r w' where run: "reallocate env e reserved w = (r, w')" by fastforce
  show "alloc_inv (snd (reallocate env e reserved w))"
  proof (cases r)
    case (Inl x)
    have "w' = w"
      using run Inl
      by (auto simp: reallocate_def assert_network_editable_def find_awd_event_run require_event_network_run guardM_run
          run_allocator_tx_def txnM_run
          bindM_run [of "find_awd_event e"] bindM_run [of "guardM _ _"] bindM_run [of "require_event_network e"]
          split: option.splits if_splits prod.splits sum.splits)
    then show ?thesis using run inv by simp
  next
    case (Inr n)
    obtain cur s pool gb wg port v where cur: "List.find (\<lambda>n. en_event_id n = e) (w_event_networks w) = Some cur"
      and c: "choose_blocks reserved s w = (Inr (pool, gb, wg, port), v)"
      and rest: "bindM (derive_infra gb (np_team_prefix pool)) (\<lambda>(infra, flag_ip, judge_ip).
       bindM (update_event_network env cur (network_patch_default\<lparr>
          ep_allocation_mode := Some AmAutomatic, ep_gamebox_cidr := Some (cidr_text gb),
          ep_wireguard_cidr := Some (cidr_text wg), ep_infrastructure_subnet := Some (cidr_text infra),
          ep_flagserver_ip := Some (ipv4_text flag_ip), ep_judgeserver_ip := Some (ipv4_text judge_ip),
          ep_wireguard_listen_port := Some port\<rparr>)) (\<lambda>updated.
       bindM (release_all_allocations e) (\<lambda>_.
       bindM (create_allocation env e AkGamebox (cidr_text gb)) (\<lambda>_.
       bindM (create_allocation env e AkWireguard (cidr_text wg)) (\<lambda>_.
         returnM updated))))) v = (Inr n, w')"
      using run Inr
      by (auto simp: reallocate_def assert_network_editable_def find_awd_event_run require_event_network_run guardM_run
          run_allocator_tx_def txnM_run get_network_settings_run bindM_run [of get_network_settings]
          bindM_run [of "find_awd_event e"] bindM_run [of "guardM _ _"] bindM_run [of "require_event_network e"]
          bindM_run [of "choose_blocks _ _"]
          split: option.splits if_splits prod.splits sum.splits)
    note ch = choose_blocks_Inr [OF c]
    obtain infra flag judge where d: "derive_infra gb (np_team_prefix pool) w = (Inr (infra, flag, judge), w)"
      using rest unfolding ch(1) by (auto simp: bindM_Inr_iff derive_infra_def ok_orM_Inr returnM_Inr)
    let ?p = "network_patch_default\<lparr>ep_allocation_mode := Some AmAutomatic, ep_gamebox_cidr := Some (cidr_text gb),
          ep_wireguard_cidr := Some (cidr_text wg), ep_infrastructure_subnet := Some (cidr_text infra),
          ep_flagserver_ip := Some (ipv4_text flag), ep_judgeserver_ip := Some (ipv4_text judge),
          ep_wireguard_listen_port := Some port\<rparr>"
    obtain n' w1 w2 a w3 b u where "update_event_network env cur ?p w = (Inr n', w1)"
        "release_all_allocations e w1 = (Inr u, w2)" "create_allocation env e AkGamebox (cidr_text gb) w2 = (Inr a, w3)"
        "create_allocation env e AkWireguard (cidr_text wg) w3 = (Inr b, w')"
      using rest d unfolding ch(1) bindM_run [of "derive_infra _ _"] by (auto simp: bindM_Inr_iff returnM_Inr)
    then have "alloc_inv w'"
      by (intro swap_keeps_alloc_inv [OF inv cur _ _ _ _ _ _ col ch(4,5,2,3), of ?p]) simp_all
    then show ?thesis by (simp add: run)
  qed
qed

lemma forM_guard_Inr:
  "forM xs (\<lambda>a. bindM (liftM (p a)) (\<lambda>y. guardM (q y) x)) w = (Inr u, w') \<longleftrightarrow>
     w' = w \<and> (\<forall>a \<in> set xs. \<exists>y. p a = Inr y \<and> q y)"
  by (induction xs) (auto simp: bindM_Inr_iff returnM_Inr liftM_run guardM_Inr)

lemma manual_port_pure: "manual_port s used p w = (Inr x, w') \<Longrightarrow> w' = w"
  by (auto simp: manual_port_def bindM_Inr_iff liftM_run guardM_Inr returnM_Inr split: option.splits)

lemma persist_manual_Inr:
  assumes "persist_manual env e p gb wg s w = (Inr n, w')"
  shows "free_block (active_allocations w) [] gb" "free_block (active_allocations w) [] wg"
    "\<exists>port. build_and_persist env e AmManual gb wg port (as_u8 (nw_gamebox_team_prefix s)) w = (Inr n, w')"
proof -
  have "(\<forall>a \<in> set (active_allocations w). \<exists>y. cidr_parse (cidr_text (na_cidr a)) = Inr y
      \<and> \<not> (cidr_overlaps y gb \<or> cidr_overlaps y wg)) \<and>
    (\<exists>port. build_and_persist env e AmManual gb wg port (as_u8 (nw_gamebox_team_prefix s)) w = (Inr n, w'))"
    using assms
    by (auto simp: persist_manual_def bindM_Inr_iff list_active_allocations_def list_used_ports_def readM_Inr guardM_Inr
        forM_guard_Inr Let_def dest!: manual_port_pure)
  then show "free_block (active_allocations w) [] gb" "free_block (active_allocations w) [] wg"
    "\<exists>port. build_and_persist env e AmManual gb wg port (as_u8 (nw_gamebox_team_prefix s)) w = (Inr n, w')"
    by (auto simp: free_block_def taken_by_db_def taken_external_def split: sum.splits)
qed

text \<open>A step that only reads, followed by the rest of a request.\<close>

lemma bindM_reads:
  assumes "I w" "snd (m w) = w" "\<And>x. m w = (Inr x, w) \<Longrightarrow> I (snd (f x w))"
  shows "I (snd (bindM m f w))"
  using assms by (cases "m w") (auto simp: bindM_run split: sum.splits)

lemma read_only [simp]:
  "snd (find_awd_event e w) = w" "snd (find_event_network e w) = w" "snd (guardM b x w) = w" "snd (liftM r w) = w"
  "snd (require_event_network e w) = w" "snd (readM g w) = w" "snd (ok_orM v x w) = w"
  by (simp_all add: find_awd_event_run find_event_network_run guardM_run liftM_run require_event_network_run readM_run
      ok_orM_run split: option.splits)

lemma keeps_allocate_manual:
  assumes col: "columns_canonical env"
  shows "keeps alloc_inv (allocate_manual env e req reserved)"
  unfolding keeps_def
proof (intro allI impI)
  fix w assume inv: "alloc_inv w"
  have tx: "alloc_inv (snd (run_allocator_tx (persist_manual env e p gb wg) w))"
    if none: "List.find (\<lambda>n. en_event_id n = e) (w_event_networks w) = None" and pre: "prefix_len gb \<le> 32" "prefix_len wg \<le> 32"
    for p gb wg
  proof -
    have "alloc_inv w'" if run: "persist_manual env e p gb wg s w = (Inr n, w')" for s n w'
      using persist_manual_Inr [OF run] persist_keeps_alloc_inv [OF inv find_none_network [OF none] _ col _ _ pre] by blast
    then show ?thesis
      using inv by (auto simp: run_allocator_tx_def txnM_run bindM_run [of get_network_settings] get_network_settings_run
          split: option.splits prod.splits sum.splits)
  qed
  show "alloc_inv (snd (allocate_manual env e req reserved w))"
    unfolding allocate_manual_def assert_network_editable_def
    by (intro bindM_reads [where I = alloc_inv] inv tx)
      (simp_all add: find_event_network_run guardM_run liftM_run cidr_parse_prefix split: if_splits)
qed

end
