(* ===== verification/Awd_Net_System.thy ===== *)
theory Awd_Net_System
  imports Awd_Alloc Awd_System Awd_Lifecycle_Facts "HOL-Library.Code_Target_Numeral"
begin

text \<open>
  The machine of the competition together with the administration of its networks: the handlers
  \<open>update_network\<close> and \<open>reallocate_network\<close> of \<open>awd/api/admin.rs\<close>, the change of the platform's pools, and
  the calls that deployment (lock, unlock, team subnets) and archiving (release) make to the allocation
  services. Whatever the order of requests, the blocks in use are disjoint and belong to the event network
  rows.
\<close>

section \<open>Requests\<close>

definition update_network ::
  "awd_env \<Rightarrow> uuid \<Rightarrow> string option \<Rightarrow> string option \<Rightarrow> int option \<Rightarrow> unit awdop" where
  "update_network env event_id gamebox_cidr wireguard_cidr port =
     bindM (find_event_network event_id) (\<lambda>row.
     case row of
       Some existing \<Rightarrow> guardM (en_locked_at existing = None) (NetworkLocked ''network locked after deploy'')
     | None \<Rightarrow>
         bindM (collect_external_reserved_cidrs env) (\<lambda>external_reserved.
         if gamebox_cidr \<noteq> None \<or> wireguard_cidr \<noteq> None
         then bindM (allocate_manual env event_id
                \<lparr>mr_gamebox_cidr = or_keep gamebox_cidr '''', mr_wireguard_cidr = or_keep wireguard_cidr '''',
                 mr_wireguard_listen_port = port\<rparr> external_reserved) (\<lambda>_. returnM ())
         else bindM (allocate_automatic env event_id external_reserved) (\<lambda>_. returnM ())))"

definition reallocate_network :: "awd_env \<Rightarrow> uuid \<Rightarrow> unit awdop" where
  "reallocate_network env event_id =
     bindM (collect_external_reserved_cidrs env) (\<lambda>external_reserved.
     bindM (reallocate env event_id external_reserved) (\<lambda>_. returnM ()))"

datatype net_request =
    CoreRequest awd_request
  | UpdatePlatform network_settings_patch
  | UpdateNetwork uuid "string option" "string option" "int option"
  | ReallocateNetwork uuid
  | LockNetwork uuid
  | UnlockNetwork uuid
  | EnsureTeams uuid int
  | ReleaseNetwork uuid

fun net_serve :: "awd_env \<Rightarrow> cron_lib \<Rightarrow> net_request \<Rightarrow> awd_world \<Rightarrow> awd_world" where
  "net_serve env cron (CoreRequest q) w = awd_serve env cron q w"
| "net_serve env cron (UpdatePlatform p) w = snd (update_settings env p w)"
| "net_serve env cron (UpdateNetwork e gb wg port) w = snd (update_network env e gb wg port w)"
| "net_serve env cron (ReallocateNetwork e) w = snd (reallocate_network env e w)"
| "net_serve env cron (LockNetwork e) w = snd (lock_network env e w)"
| "net_serve env cron (UnlockNetwork e) w = snd (unlock_network env e w)"
| "net_serve env cron (EnsureTeams e v) w = snd (ensure_team_networks env e v w)"
| "net_serve env cron (ReleaseNetwork e) w = snd (release_allocations e w)"

inductive net_reach :: "awd_env \<Rightarrow> cron_lib \<Rightarrow> awd_world \<Rightarrow> awd_world \<Rightarrow> bool"
  for env cron w0 where
  net_start: "net_reach env cron w0 w0"
| net_step: "net_reach env cron w0 w \<Longrightarrow> net_reach env cron w0 (net_serve env cron q w)"

section \<open>The ledger through a run\<close>

lemma alloc_inv_cong:
  "w_event_networks v = w_event_networks w \<Longrightarrow> w_allocations v = w_allocations w \<Longrightarrow> alloc_inv v = alloc_inv w"
  by (simp add: alloc_inv_def holds_own_blocks_def held_def active_allocations_def)

text \<open>The play of the competition, its schedule and its judges leave the ledger alone.\<close>

definition ledger_rows :: "awd_world \<Rightarrow> event_network list \<times> network_allocation list" where
  "ledger_rows w = (w_event_networks w, w_allocations w)"

lemma ledger_frame:
  "ledger_rows (snd (start_round_txn i n w)) = ledger_rows w" "ledger_rows (snd (update_round k f w)) = ledger_rows w"
  "ledger_rows (snd (pause_round k s w)) = ledger_rows w" "ledger_rows (snd (complete_round_txn i k w)) = ledger_rows w"
  "ledger_rows (snd (transition_event i a b p w)) = ledger_rows w" "ledger_rows (snd (update_phase i ph w)) = ledger_rows w"
  "ledger_rows (snd (update_event i g w)) = ledger_rows w"
  "ledger_rows (snd (create_score_event e ro tm ty d key rel ins eg why w)) = ledger_rows w"
  "ledger_rows (snd (create_score_event_if_absent e ro tm ty d key rel ins eg why w)) = ledger_rows w"
  "ledger_rows (snd (find_or_create_issue e r inst h w)) = ledger_rows w"
  "ledger_rows (snd (create_submission e r fi atk vic inst u w)) = ledger_rows w"
  "ledger_rows (snd (create_ban e tm why ro by w)) = ledger_rows w"
  "ledger_rows (snd (complete_unban k by w)) = ledger_rows w"
  "ledger_rows (snd (sync_team_banned e tm bnd w)) = ledger_rows w" "ledger_rows (snd (insert_task tk w)) = ledger_rows w"
  "ledger_rows (snd (delete_tasks del w)) = ledger_rows w"
  using write_eqs [THEN arg_cong [of _ _ ledger_rows]] by (simp_all add: light_writes ledger_rows_def)

interpretation ledger: awd_invariant "\<lambda>w. ledger_rows w = l" for l
proof
  show "ledger_rows w = l \<Longrightarrow> ledger_rows (w\<lparr>w_next_id := n\<rparr>) = l" for w n by (simp add: ledger_rows_def)
qed (simp_all add: keeps_def ledger_frame, simp_all add: ledger_rows_def)

lemma alloc_inv_rows: "ledger_rows v = ledger_rows w \<Longrightarrow> alloc_inv v = alloc_inv w"
  by (rule alloc_inv_cong) (simp_all add: ledger_rows_def)

lemma keeps_log: "keeps alloc_inv (host_orM c f e)"
  unfolding keeps_def host_orM_run
  by (auto split: option.splits simp: alloc_inv_cong [of "_\<lparr>w_log := _\<rparr>"])

lemma keeps_reserved: "keeps alloc_inv (collect_external_reserved_cidrs env)"
  unfolding collect_external_reserved_cidrs_def by (intro keeps_intros keeps_log)

lemma keeps_update_network:
  assumes "columns_canonical env"
  shows "keeps alloc_inv (update_network env e gb wg port)"
  unfolding update_network_def find_event_network_def
  by (intro keeps_intros keeps_reserved keeps_allocate_manual keeps_allocate_automatic assms)

lemma keeps_reallocate_network:
  assumes "columns_canonical env"
  shows "keeps alloc_inv (reallocate_network env e)"
  unfolding reallocate_network_def by (intro keeps_intros keeps_reserved keeps_reallocate assms)

text \<open>Team subnets and platform settings are other tables.\<close>

lemma keeps_ensure_each:
  assumes "\<And>t u. keeps I (step t u)"
  shows "keeps I (ensure_each_team step ts used)"
  by (induction ts arbitrary: used) (auto intro!: keeps_intros assms split: prod.splits)

lemma keeps_ensure_teams: "keeps (\<lambda>w. ledger_rows w = l) (ensure_team_networks env e v)"
proof -
  have ins: "keeps (\<lambda>w. ledger_rows w = l) (insert_team_network t)" for t
    by (simp add: keeps_def insert_team_network_def ledger_rows_def)
  show ?thesis
    unfolding ensure_team_networks_def ensure_team_network_def encryptM_def Let_def
    by (intro keeps_intros keeps_ensure_each keeps_require_network ledger.keeps_new_uuid ins)
      (auto split: prod.splits intro!: keeps_intros ledger.keeps_new_uuid ins)
qed

lemma keeps_update_settings: "keeps (\<lambda>w. ledger_rows w = l) (update_settings env p)"
  unfolding update_settings_def update_network_settings_def get_network_settings_def map_optionM_def Let_def
  by (intro keeps_intros ledger.keeps_nowM keeps_modifyM) (simp_all add: ledger_rows_def)

lemma net_serve_keeps:
  assumes inv: "alloc_inv w" and col: "columns_canonical env"
  shows "alloc_inv (net_serve env cron q w)"
proof (cases q)
  case (CoreRequest r)
  have "ledger_rows (awd_serve env cron r w) = ledger_rows w"
    using ledger.serve_keeps [OF refl] .
  from alloc_inv_rows [OF this] show ?thesis using inv CoreRequest by simp
next
  case (UpdatePlatform p)
  have "ledger_rows (snd (update_settings env p w)) = ledger_rows w"
    using keeps_update_settings by (simp add: keeps_def)
  from alloc_inv_rows [OF this] show ?thesis using inv UpdatePlatform by simp
next
  case (EnsureTeams e v)
  have "ledger_rows (snd (ensure_team_networks env e v w)) = ledger_rows w"
    using keeps_ensure_teams by (simp add: keeps_def)
  from alloc_inv_rows [OF this] show ?thesis using inv EnsureTeams by simp
qed (use inv keeps_update_network [OF col] keeps_reallocate_network [OF col] keeps_lock keeps_release_blocks in
    \<open>auto simp: keeps_def\<close>)

lemma net_reach_keeps:
  "net_reach env cron w0 w \<Longrightarrow> alloc_inv w0 \<Longrightarrow> columns_canonical env \<Longrightarrow> alloc_inv w"
  by (induction rule: net_reach.induct) (auto intro: net_serve_keeps)

lemma blocks_sound_disjoint:
  assumes "blocks_sound as"
  shows "sorted_wrt (\<lambda>a b. block (na_cidr a) \<inter> block (na_cidr b) = {}) as"
proof (rule sorted_wrt_mono_rel)
  show "sorted_wrt (\<lambda>a b. \<not> inet_overlap (na_cidr a) (na_cidr b)) as" using assms by (simp add: blocks_sound_def)
  show "block (na_cidr a) \<inter> block (na_cidr b) = {}"
    if "a \<in> set as" "b \<in> set as" "\<not> inet_overlap (na_cidr a) (na_cidr b)" for a b
    using that assms inet_disjoint_blocks [of "na_cidr a" "na_cidr b"] by (simp add: blocks_sound_def)
qed

section \<open>Example\<close>

definition net_host :: host_env where
  "net_host = sample_host\<lparr>
     hv_cidrs := (\<lambda>_ c. Some (if c = HcListNetworks then [''10.60.0.0/20''] else [''default''])),
     hv_uuid_simple := (\<lambda>u. replicate u CHR ''a''),
     hv_cidr_column := (\<lambda>s. map_sum id cidr_masked (cidr_parse s)),
     hv_inet_column := (\<lambda>s. case ipv4_parse s of None \<Rightarrow> Inl (Validation ''address'') | Some a \<Rightarrow> Inr a)\<rparr>"

definition net_env :: awd_env where
  "net_env = sample_env\<lparr>env_host := net_host\<rparr>"

definition net_settings :: network_settings where
  "net_settings = \<lparr>nw_gamebox_pool = \<lparr>network = 0x0A3C0000, prefix_len = 18\<rparr>, nw_gamebox_event_prefix = 20,
     nw_gamebox_team_prefix = 24, nw_wireguard_pool = \<lparr>network = 0x0A3D0000, prefix_len = 18\<rparr>,
     nw_wireguard_event_prefix = 20, nw_wireguard_team_prefix = 24, nw_wireguard_port_min = 51820,
     nw_wireguard_port_max = 51830, nw_wireguard_public_endpoint = None, nw_updated_at = 0\<rparr>"

definition slash20 :: "32 word \<Rightarrow> ipv4_cidr" where
  "slash20 a = \<lparr>network = a, prefix_len = 20\<rparr>"

text \<open>Event 2 holds the blocks \<open>10.60.16.0/20\<close> and \<open>10.61.0.0/20\<close>; \<open>10.60.0.0/20\<close> is a Docker network.\<close>

definition net_row :: event_network where
  "net_row = \<lparr>en_id = 50, en_event_id = 2, en_allocation_mode = AmAutomatic, en_gamebox_cidr = slash20 0x0A3C1000,
     en_wireguard_cidr = slash20 0x0A3D0000, en_infrastructure_subnet = \<lparr>network = 0x0A3C1000, prefix_len = 24\<rparr>,
     en_flagserver_ip = 0x0A3C1002, en_judgeserver_ip = 0x0A3C1003, en_wireguard_interface_name = ''fawg_aa'',
     en_wireguard_listen_port = 51820, en_docker_network_name = ''fctf-awd-aa'', en_locked_at = None, en_created_at = 0\<rparr>"

definition net_ledger :: "network_allocation list" where
  "net_ledger = [alloc_row 51 2 AkGamebox (slash20 0x0A3C1000) 0, alloc_row 52 2 AkWireguard (slash20 0x0A3D0000) 0]"

definition net_world :: awd_world where
  "net_world = empty_world\<lparr>w_events := [sample_event\<lparr>ev_event_id := 7, ev_status := EvDraft\<rparr>], w_network_settings := Some net_settings,
     w_event_networks := [net_row], w_allocations := net_ledger\<rparr>"

lemma net_world_fields [simp]:
  "w_event_networks net_world = [net_row]" "w_allocations net_world = net_ledger" "w_now net_world = 0"
  "w_network_settings net_world = Some net_settings" "w_events net_world = [sample_event\<lparr>ev_event_id := 7, ev_status := EvDraft\<rparr>]"
  "w_next_id net_world = 1000" "w_log net_world = []" "active_allocations net_world = net_ledger"
  by (simp_all add: net_world_def empty_world_def active_allocations_def net_ledger_def)

lemma net_row_fields [simp]:
  "en_id net_row = 50" "en_event_id net_row = 2" "en_gamebox_cidr net_row = slash20 0x0A3C1000"
  "en_wireguard_cidr net_row = slash20 0x0A3D0000" "en_wireguard_listen_port net_row = 51820"
  "en_wireguard_interface_name net_row = ''fawg_aa''" "en_docker_network_name net_row = ''fctf-awd-aa''"
  by (simp_all add: net_row_def)

lemma net_env_canonical: "columns_canonical net_env"
  by (auto simp: columns_canonical_def net_env_def net_host_def cidr_parse_text)

lemma net_ledger_sound: "blocks_sound net_ledger"
  by code_simp

lemma net_world_sound: "alloc_inv net_world"
  using net_ledger_sound
  by (auto simp: alloc_inv_def event_networks_unique_def holds_own_blocks_def held_def net_ledger_def)

lemma net_pools:
  "network_pool_new (nw_gamebox_pool net_settings) (as_u8 (nw_gamebox_event_prefix net_settings))
     (as_u8 (nw_gamebox_team_prefix net_settings)) = Inr \<lparr>np_pool = \<lparr>network = 0x0A3C0000, prefix_len = 18\<rparr>, np_event_prefix = 20, np_team_prefix = 24\<rparr>"
  "network_pool_new (nw_wireguard_pool net_settings) (as_u8 (nw_wireguard_event_prefix net_settings))
     (as_u8 (nw_wireguard_team_prefix net_settings)) = Inr \<lparr>np_pool = \<lparr>network = 0x0A3D0000, prefix_len = 18\<rparr>, np_event_prefix = 20, np_team_prefix = 24\<rparr>"
  by code_simp+

lemma net_pools_read:
  "cidr_parse (cidr_text (nw_gamebox_pool net_settings)) = Inr (nw_gamebox_pool net_settings)"
  "cidr_parse (cidr_text (nw_wireguard_pool net_settings)) = Inr (nw_wireguard_pool net_settings)"
  by (simp_all add: cidr_parse_text net_settings_def)

lemma net_taken:
  "taken_by_db net_ledger c \<longleftrightarrow> cidr_overlaps (slash20 0x0A3C1000) c \<or> cidr_overlaps (slash20 0x0A3D0000) c"
  by (auto simp: taken_by_db_def net_ledger_def slash20_def cidr_parse_text)

lemma net_free:
  "first_free_event_subnet \<lparr>np_pool = \<lparr>network = 0x0A3C0000, prefix_len = 18\<rparr>, np_event_prefix = 20, np_team_prefix = 24\<rparr>
     net_ledger [slash20 0x0A3C0000] = Inr (slash20 0x0A3C2000)"
  "first_free_event_subnet \<lparr>np_pool = \<lparr>network = 0x0A3D0000, prefix_len = 18\<rparr>, np_event_prefix = 20, np_team_prefix = 24\<rparr>
     net_ledger [slash20 0x0A3C0000] = Inr (slash20 0x0A3D1000)"
proof -
  let ?g = "\<lparr>np_pool = \<lparr>network = 0x0A3C0000, prefix_len = 18\<rparr>, np_event_prefix = 20, np_team_prefix = 24\<rparr>"
  let ?h = "\<lparr>np_pool = \<lparr>network = 0x0A3D0000, prefix_len = 18\<rparr>, np_event_prefix = 20, np_team_prefix = 24\<rparr>"
  have cap: "[0..<unat (event_capacity ?g)] = [0, 1, 2, 3]" "[0..<unat (event_capacity ?h)] = [0, 1, 2, 3]"
    by code_simp+
  have g: "nth_event_subnet ?g 0 = Some (slash20 0x0A3C0000)" "nth_event_subnet ?g 1 = Some (slash20 0x0A3C1000)"
      "nth_event_subnet ?g 2 = Some (slash20 0x0A3C2000)"
    by code_simp+
  have h: "nth_event_subnet ?h 0 = Some (slash20 0x0A3D0000)" "nth_event_subnet ?h 1 = Some (slash20 0x0A3D1000)"
    by code_simp+
  have o: "cidr_overlaps (slash20 0x0A3C0000) (slash20 0x0A3C0000)" "cidr_overlaps (slash20 0x0A3C1000) (slash20 0x0A3C1000)"
      "cidr_overlaps (slash20 0x0A3D0000) (slash20 0x0A3D0000)"
    by code_simp+
  have n: "\<not> cidr_overlaps (slash20 0x0A3C1000) (slash20 0x0A3C2000)" "\<not> cidr_overlaps (slash20 0x0A3D0000) (slash20 0x0A3C2000)"
      "\<not> cidr_overlaps (slash20 0x0A3C0000) (slash20 0x0A3C2000)"
    by code_simp+
  have m: "\<not> cidr_overlaps (slash20 0x0A3C1000) (slash20 0x0A3D1000)" "\<not> cidr_overlaps (slash20 0x0A3D0000) (slash20 0x0A3D1000)"
      "\<not> cidr_overlaps (slash20 0x0A3C0000) (slash20 0x0A3D1000)"
    by code_simp+
  show "first_free_event_subnet ?g net_ledger [slash20 0x0A3C0000] = Inr (slash20 0x0A3C2000)"
    using o n by (simp add: first_free_event_subnet_def cap g net_taken taken_external_def)
  show "first_free_event_subnet ?h net_ledger [slash20 0x0A3C0000] = Inr (slash20 0x0A3D1000)"
    using o m by (simp add: first_free_event_subnet_def cap h net_taken taken_external_def)
qed

lemma net_port:
  "wg_port_range_new (as_u16 (nw_wireguard_port_min net_settings)) (as_u16 (nw_wireguard_port_max net_settings)) =
     Inr \<lparr>wg_min = 51820, wg_max = 51830\<rparr>"
  "allocate_port \<lparr>wg_min = 51820, wg_max = 51830\<rparr> [51820] = Inr 51821"
  by code_simp+

lemma net_infra:
  "nth_subnet (slash20 0x0A3C2000) 24 0 = Some \<lparr>network = 0x0A3C2000, prefix_len = 24\<rparr>"
  "service_ip \<lparr>network = 0x0A3C2000, prefix_len = 24\<rparr> flagserver_offset = Some 0x0A3C2002"
  "service_ip \<lparr>network = 0x0A3C2000, prefix_len = 24\<rparr> judgeserver_offset = Some 0x0A3C2003"
  by code_simp+

lemma net_columns:
  "hv_cidr_column net_host (cidr_text (slash20 0x0A3C2000)) = Inr (slash20 0x0A3C2000)"
  "hv_cidr_column net_host (cidr_text (slash20 0x0A3D1000)) = Inr (slash20 0x0A3D1000)"
  "hv_cidr_column net_host (cidr_text \<lparr>network = 0x0A3C2000, prefix_len = 24\<rparr>) = Inr \<lparr>network = 0x0A3C2000, prefix_len = 24\<rparr>"
  "hv_inet_column net_host (ipv4_text 0x0A3C2002) = Inr 0x0A3C2002"
  "hv_inet_column net_host (ipv4_text 0x0A3C2003) = Inr 0x0A3C2003"
  by code_simp+

lemma net_reserved:
  "collect_external_reserved_cidrs net_env w =
     (Inr [slash20 0x0A3C0000], w\<lparr>w_log := w_log w @ [FxHost HcListNetworks, FxHost HcListRoutes]\<rparr>)"
proof -
  have "remdups_adj (sort_key cidr_text (parse_cidrs [''10.60.0.0/20''] @ parse_cidrs [''default''])) = [slash20 0x0A3C0000]"
    by code_simp
  then show ?thesis
    by (simp add: collect_external_reserved_cidrs_def run_simps net_env_def net_host_def)
qed

definition net_row_ok :: bool where
  "net_row_ok \<longleftrightarrow> host_within 0x0A3C2002 \<lparr>network = 0x0A3C2000, prefix_len = 24\<rparr> \<and>
     \<not> inet_overlap (slash20 0x0A3C2000) (slash20 0x0A3D1000) \<and>
     inet_within \<lparr>network = 0x0A3C2000, prefix_len = 24\<rparr> (slash20 0x0A3C2000) \<and>
     host_within 0x0A3C2003 \<lparr>network = 0x0A3C2000, prefix_len = 24\<rparr>"

lemma net_row_fits: "net_row_ok" by code_simp

lemma net_names: "env_host net_env = net_host" "wireguard_interface_name net_env 7 = ''fawg_aaaaaaa''" "docker_network_name net_env 7 = ''fctf-awd-aaaaaaa''"
  by (simp_all add: net_env_def wireguard_interface_name_def docker_network_name_def net_host_def numeral_eq_Suc)

lemma net_chosen:
  "choose_blocks [slash20 0x0A3C0000] net_settings (net_world\<lparr>w_log := l\<rparr>) =
     (Inr (\<lparr>np_pool = \<lparr>network = 0x0A3C0000, prefix_len = 18\<rparr>, np_event_prefix = 20, np_team_prefix = 24\<rparr>,
        slash20 0x0A3C2000, slash20 0x0A3D1000, 51821), net_world\<lparr>w_log := l\<rparr>)"
proof -
  have "active_allocations (net_world\<lparr>w_log := l\<rparr>) = net_ledger"
    by (simp add: active_allocations_def net_ledger_def)
  then show ?thesis
    by (simp add: choose_blocks_def bindM_run net_pools net_pools_read liftM_run list_active_allocations_def list_used_ports_def
        readM_run net_free net_port returnM_run)
qed

lemma net_persisted:
  "build_and_persist net_env 7 AmAutomatic (slash20 0x0A3C2000) (slash20 0x0A3D1000) 51821 24 (net_world\<lparr>w_log := l\<rparr>) = (r, w) \<Longrightarrow>
   (\<exists>n. r = Inr n) \<and> w_allocations w =
     net_ledger @ [alloc_row 1001 7 AkGamebox (slash20 0x0A3C2000) 0, alloc_row 1002 7 AkWireguard (slash20 0x0A3D1000) 0]"
  using net_row_fits
  by (auto simp: build_and_persist_def derive_infra_def bindM_run ok_orM_run net_infra returnM_run create_event_network_def
      new_uuid_run liftM_run net_names net_columns nowM_run insert_event_network_def event_network_ok_def net_row_ok_def
      event_networks_unique_def create_allocation_run alloc_row_def Let_def)

lemma net_allocated:
  "active_allocations (net_serve net_env cron (UpdateNetwork 7 None None None) net_world) =
     net_ledger @ [alloc_row 1001 7 AkGamebox (slash20 0x0A3C2000) 0, alloc_row 1002 7 AkWireguard (slash20 0x0A3D1000) 0]"
proof -
  let ?l = "[FxHost HcListNetworks, FxHost HcListRoutes]"
  obtain n w where b: "build_and_persist net_env 7 AmAutomatic (slash20 0x0A3C2000) (slash20 0x0A3D1000) 51821 24
      (net_world\<lparr>w_log := ?l\<rparr>) = (Inr n, w)" and w: "w_allocations w = net_ledger @ [alloc_row 1001 7 AkGamebox (slash20 0x0A3C2000) 0,
        alloc_row 1002 7 AkWireguard (slash20 0x0A3D1000) 0]"
    using net_persisted by (metis surj_pair)
  have "net_serve net_env cron (UpdateNetwork 7 None None None) net_world = w"
    by (simp add: update_network_def bindM_run find_event_network_run net_reserved allocate_automatic_def find_awd_event_run
        assert_network_editable_def guardM_run run_allocator_tx_def txnM_run get_network_settings_run net_chosen b returnM_run)
  then show ?thesis by (simp add: active_allocations_def w net_ledger_def)
qed

section \<open>Disjoint networks\<close>

text \<open>
  C22. No two competitions share an address. Whatever requests arrive and in whatever order, automatic
  and manual allocation, reallocation, locking, release, changes of the platform's pools and the whole play of
  the competitions, the blocks in use are pairwise disjoint, and every event holds either no block or
  exactly the game block and the WireGuard block written in its network row. The hypothesis on the environment is
  what the database documents for a CIDR column: it holds the block that was written with its host bits cleared.
\<close>

theorem event_blocks_disjoint:
  assumes "net_reach env cron w0 w" "alloc_inv w0" "columns_canonical env"
  shows "sorted_wrt (\<lambda>a b. block (na_cidr a) \<inter> block (na_cidr b) = {}) (active_allocations w) \<and>
    (\<forall>e. held w e = [] \<or> (\<exists>n \<in> set (w_event_networks w). en_event_id n = e \<and>
      held w e = [(AkGamebox, en_gamebox_cidr n), (AkWireguard, en_wireguard_cidr n)]))"
  using net_reach_keeps [OF assms] blocks_sound_disjoint by (simp add: alloc_inv_def holds_own_blocks_def)

theorem event_blocks_disjoint_witness:
  "let w = net_serve net_env (\<lambda>_ _. Inr None) (UpdateNetwork 7 None None None) net_world in
   map na_cidr (active_allocations w) = map slash20 [0x0A3C1000, 0x0A3D0000, 0x0A3C2000, 0x0A3D1000] \<and>
   sorted_wrt (\<lambda>a b. block (na_cidr a) \<inter> block (na_cidr b) = {}) (active_allocations w)"
  using event_blocks_disjoint [OF net_reach.net_step [OF net_reach.net_start] net_world_sound net_env_canonical,
      of "\<lambda>_ _. Inr None" "UpdateNetwork 7 None None None"]
  by (simp add: Let_def net_allocated net_ledger_def del: net_serve.simps)

end
