(* ===== verification/Awdp_Domain.thy ===== *)
theory Awdp_Domain
  imports Uuid_Text "HOL-Library.Signed_Division"
begin

text \<open>
  The AWDP mode (attack with defence plus), its pure part (\<open>modules/event/awdp/domain\<close> and
  \<open>error.rs\<close>): the phases of a run, the configuration with its defaults, derivation and validation,
  the windows of the Fix rounds, the ledger keys and the names of an event's network objects.
  Durations are \<open>i32\<close> seconds and scores \<open>i64\<close>; where the code adds or subtracts them the wrap of a
  release build is written out, where it saturates the saturation is. Error messages are left out.
\<close>

section \<open>Phases and errors\<close>

datatype awdp_phase = ApPending | ApBreak | ApFix | ApEnded | ApPreparingFix

datatype awdp_error =
    ApDatabase | ApNotFound | ApInvalidState | ApValidation | ApDocker | ApNetwork | ApForbidden
  | ApConflict | ApInternal | ApRetry

definition awdp_is_active :: "awdp_phase \<Rightarrow> bool" where
  "awdp_is_active p \<longleftrightarrow> p \<in> {ApBreak, ApPreparingFix, ApFix}"

definition awdp_is_terminal :: "awdp_phase \<Rightarrow> bool" where
  "awdp_is_terminal p \<longleftrightarrow> p = ApEnded"

fun awdp_can_transition_to :: "awdp_phase \<Rightarrow> awdp_phase \<Rightarrow> bool" where
  "awdp_can_transition_to ApPending ApBreak = True"
| "awdp_can_transition_to ApBreak ApPreparingFix = True"
| "awdp_can_transition_to ApPreparingFix ApFix = True"
| "awdp_can_transition_to ApFix ApEnded = True"
| "awdp_can_transition_to _ _ = False"

section \<open>Configuration\<close>

definition default_break_duration_secs :: int where "default_break_duration_secs = 3600"
definition default_fix_duration_secs :: int where "default_fix_duration_secs = 3600"
definition default_fix_round_interval_secs :: int where "default_fix_round_interval_secs = 600"
definition break_min_secs :: int where "break_min_secs = 60"
definition default_break_score :: int where "default_break_score = 540"
definition default_fix_round_score :: int where "default_fix_round_score = 150"
definition break_score_ratio_num :: int where "break_score_ratio_num = 3"
definition break_score_ratio_den :: int where "break_score_ratio_den = 5"
definition default_fix_round_penalty :: int where "default_fix_round_penalty = 100"
definition awdp_max_score :: int where "awdp_max_score = 1000000000"

lemmas awdp_constants = default_break_duration_secs_def default_fix_duration_secs_def
  default_fix_round_interval_secs_def break_min_secs_def default_break_score_def
  default_fix_round_score_def break_score_ratio_num_def break_score_ratio_den_def
  default_fix_round_penalty_def awdp_max_score_def

record awdp_config =
  ac_break_duration_secs :: int
  ac_fix_duration_secs :: int
  ac_fix_round_interval_secs :: int
  ac_break_score :: int
  ac_fix_round_score :: int

definition awdp_config_default :: awdp_config where
  "awdp_config_default =
     \<lparr>ac_break_duration_secs = default_break_duration_secs,
      ac_fix_duration_secs = default_fix_duration_secs,
      ac_fix_round_interval_secs = default_fix_round_interval_secs,
      ac_break_score = default_break_score,
      ac_fix_round_score = default_fix_round_score\<rparr>"

definition saturate_i64 :: "int \<Rightarrow> int" where
  "saturate_i64 x = max (- (2 ^ 63)) (min x (2 ^ 63 - 1))"

text \<open>Rust's \<open>/\<close> and \<open>%\<close> on signed integers round towards zero, as \<open>sdiv\<close> and \<open>smod\<close> do.\<close>

definition config_total_rounds :: "awdp_config \<Rightarrow> int" where
  "config_total_rounds c = ac_fix_duration_secs c sdiv ac_fix_round_interval_secs c"

definition derived_break_score :: "awdp_config \<Rightarrow> int" where
  "derived_break_score c =
     saturate_i64
       (saturate_i64 (saturate_i64 (ac_fix_round_score c * config_total_rounds c) * break_score_ratio_num)
        sdiv break_score_ratio_den)"

definition derive_for_total :: "int option \<Rightarrow> awdp_config" where
  "derive_for_total total_secs =
     (let cfg = awdp_config_default in
      case total_secs of
        None \<Rightarrow> cfg
      | Some tot \<Rightarrow>
          if tot \<le> 0 then cfg
          else
            let half = tot sdiv 2 in
            if half \<le> 0 then cfg
            else
              let cfg' =
                (if half \<ge> default_fix_round_interval_secs then
                   let rounds = half sdiv ac_fix_round_interval_secs cfg;
                       fixd = rounds * ac_fix_round_interval_secs cfg in
                   cfg\<lparr>ac_fix_duration_secs := fixd, ac_break_duration_secs := as_i32 (tot - fixd)\<rparr>
                 else
                   cfg\<lparr>ac_fix_round_interval_secs := half, ac_fix_duration_secs := half,
                       ac_break_duration_secs := as_i32 (tot - half)\<rparr>)
              in cfg'\<lparr>ac_break_score := derived_break_score cfg'\<rparr>)"

definition config_validate :: "awdp_config \<Rightarrow> awdp_error + unit" where
  "config_validate c =
     (if ac_break_duration_secs c \<le> 0 then Inl ApValidation
      else if ac_fix_duration_secs c \<le> 0 then Inl ApValidation
      else if ac_fix_round_interval_secs c \<le> 0 then Inl ApValidation
      else if ac_break_score c < 0 \<or> ac_fix_round_score c < 0 then Inl ApValidation
      else if ac_fix_duration_secs c smod ac_fix_round_interval_secs c \<noteq> 0 then Inl ApValidation
      else Inr ())"

record awdp_config_patch =
  acp_expected_updated_at :: "timestamp option"
  acp_break_duration_secs :: "int option"
  acp_fix_duration_secs :: "int option"
  acp_fix_round_interval_secs :: "int option"
  acp_break_score :: "int option"
  acp_fix_round_score :: "int option"

definition patch_duration_ok :: "int option \<Rightarrow> bool" where
  "patch_duration_ok v \<longleftrightarrow> (case v of None \<Rightarrow> True | Some x \<Rightarrow> \<not> x \<le> 0)"

definition patch_score_ok :: "int option \<Rightarrow> bool" where
  "patch_score_ok v \<longleftrightarrow> (case v of None \<Rightarrow> True | Some x \<Rightarrow> \<not> x < 0 \<and> \<not> x > awdp_max_score)"

definition config_patch_validate :: "awdp_config_patch \<Rightarrow> awdp_error + unit" where
  "config_patch_validate p =
     (if (\<forall>v \<in> set [acp_break_duration_secs p, acp_fix_duration_secs p, acp_fix_round_interval_secs p].
            patch_duration_ok v)
       \<and> (\<forall>v \<in> set [acp_break_score p, acp_fix_round_score p]. patch_score_ok v)
      then Inr () else Inl ApValidation)"

definition unwrap_or :: "'a option \<Rightarrow> 'a \<Rightarrow> 'a" where
  "unwrap_or v d = (case v of None \<Rightarrow> d | Some x \<Rightarrow> x)"

definition config_patch_apply_to :: "awdp_config_patch \<Rightarrow> awdp_config \<Rightarrow> awdp_config" where
  "config_patch_apply_to p base =
     \<lparr>ac_break_duration_secs = unwrap_or (acp_break_duration_secs p) (ac_break_duration_secs base),
      ac_fix_duration_secs = unwrap_or (acp_fix_duration_secs p) (ac_fix_duration_secs base),
      ac_fix_round_interval_secs = unwrap_or (acp_fix_round_interval_secs p) (ac_fix_round_interval_secs base),
      ac_break_score = unwrap_or (acp_break_score p) (ac_break_score base),
      ac_fix_round_score = unwrap_or (acp_fix_round_score p) (ac_fix_round_score base)\<rparr>"

section \<open>Windows of the Fix rounds\<close>

record round_window =
  rw_sequence :: int
  rw_starts_at :: timestamp
  rw_cutoff_at :: timestamp

definition timing_total_rounds :: "int \<Rightarrow> int \<Rightarrow> int" where
  "timing_total_rounds fix_duration_secs fix_round_interval_secs = fix_duration_secs sdiv fix_round_interval_secs"

definition round_windows :: "timestamp \<Rightarrow> int \<Rightarrow> int \<Rightarrow> round_window list" where
  "round_windows fix_start interval count =
     map (\<lambda>i. \<lparr>rw_sequence = i, rw_starts_at = fix_start + interval * (i - 1),
               rw_cutoff_at = fix_start + interval * i\<rparr>) [1..count]"

section \<open>Ledger keys\<close>

text \<open>
  \<open>subject_key\<close> panics unless exactly one owner is given; \<open>None\<close> is the panic.
\<close>

definition awdp_subject_key :: "(uuid \<Rightarrow> string) \<Rightarrow> uuid option \<Rightarrow> uuid option \<Rightarrow> string option" where
  "awdp_subject_key utx user_id team_id =
     (case (user_id, team_id) of
        (Some u, None) \<Rightarrow> Some (''user:'' @ utx u)
      | (None, Some t) \<Rightarrow> Some (''team:'' @ utx t)
      | _ \<Rightarrow> None)"

definition break_idempotency_key ::
  "(uuid \<Rightarrow> string) \<Rightarrow> uuid \<Rightarrow> uuid \<Rightarrow> uuid option \<Rightarrow> uuid option \<Rightarrow> string option" where
  "break_idempotency_key utx run_id gamebox_id user_id team_id =
     map_option (\<lambda>s. ''awdp:break:'' @ utx run_id @ '':'' @ utx gamebox_id @ '':'' @ s)
       (awdp_subject_key utx user_id team_id)"

definition fix_idempotency_key :: "(uuid \<Rightarrow> string) \<Rightarrow> uuid \<Rightarrow> uuid \<Rightarrow> uuid \<Rightarrow> string" where
  "fix_idempotency_key utx run_id fix_round_id instance_id =
     ''awdp:fix:'' @ utx run_id @ '':'' @ utx fix_round_id @ '':'' @ utx instance_id"

section \<open>Flags\<close>

text \<open>
  The derivation functions are those of the \<open>hkdf\<close>, \<open>hmac\<close> and \<open>sha2\<close> crates: \<open>hkdf salt secret info\<close>
  is the expanded key, \<open>hmac key input\<close> the code as lower-case hexadecimal text.
\<close>

definition derive_run_flag_key :: "(string \<Rightarrow> string \<Rightarrow> string \<Rightarrow> string) \<Rightarrow> string \<Rightarrow> string \<Rightarrow> string" where
  "derive_run_flag_key hkdf jwt_secret run_id = hkdf ''floatctf-awdp-flag'' jwt_secret run_id"

definition awdp_flag ::
  "(uuid \<Rightarrow> string) \<Rightarrow> (string \<Rightarrow> string \<Rightarrow> string \<Rightarrow> string) \<Rightarrow> (string \<Rightarrow> string \<Rightarrow> string) \<Rightarrow> string \<Rightarrow> uuid \<Rightarrow>
   uuid \<Rightarrow> uuid option \<Rightarrow> uuid option \<Rightarrow> string \<Rightarrow> string option" where
  "awdp_flag utx hkdf hmac_hex jwt_secret run_id gamebox_id user_id team_id prefix =
     map_option (\<lambda>subject.
       let key = derive_run_flag_key hkdf jwt_secret (utx run_id);
           inp = ''awdp:'' @ utx run_id @ '':'' @ utx gamebox_id @ '':'' @ subject;
           body = take 32 (hmac_hex key inp)
       in prefix @ ''{'' @ body @ ''}'')
       (awdp_subject_key utx user_id team_id)"

section \<open>Names of the network objects of an event\<close>

definition practice_network_name :: string where "practice_network_name = ''fctf-awdp-practice''"
definition practice_judge_container_name :: string where
  "practice_judge_container_name = ''fctf-awdp-practice-judge''"

definition strip_hyphens :: "string \<Rightarrow> string" where
  "strip_hyphens s = filter (\<lambda>c. c \<noteq> CHR ''-'') s"

definition event_network_name :: "(uuid \<Rightarrow> string) \<Rightarrow> uuid \<Rightarrow> string" where
  "event_network_name utx event_id = ''fctf-awdp-'' @ take 12 (strip_hyphens (utx event_id))"

definition is_practice_event :: "uuid \<Rightarrow> uuid \<Rightarrow> bool" where
  "is_practice_event practice_id event_id \<longleftrightarrow> event_id = practice_id"

definition event_judge_container_name :: "(uuid \<Rightarrow> string) \<Rightarrow> uuid \<Rightarrow> uuid \<Rightarrow> string" where
  "event_judge_container_name utx practice_id event_id =
     (if is_practice_event practice_id event_id then practice_judge_container_name
      else ''fctf-awdp-judge-'' @ take 12 (strip_hyphens (utx event_id)))"

definition event_judge_worker_id :: "(uuid \<Rightarrow> string) \<Rightarrow> uuid \<Rightarrow> string" where
  "event_judge_worker_id utx event_id = ''practice-judge-'' @ take 8 (strip_hyphens (utx event_id))"

definition event_acl_table_name :: "(uuid \<Rightarrow> string) \<Rightarrow> uuid \<Rightarrow> string" where
  "event_acl_table_name utx event_id = ''floatctf_awdp_'' @ take 8 (strip_hyphens (utx event_id))"

section \<open>Properties\<close>

lemma sdiv_nonneg_eq: "0 \<le> a \<Longrightarrow> 0 \<le> b \<Longrightarrow> (a :: int) sdiv b = a div b"
  by (auto simp: signed_divide_int_def sgn_if)

lemma smod_nonneg_eq: "0 \<le> a \<Longrightarrow> 0 \<le> b \<Longrightarrow> (a :: int) smod b = a mod b"
  by (cases "a = 0") (simp_all add: signed_modulo_int_def sdiv_nonneg_eq minus_div_mult_eq_mod sgn_if)

lemma config_validate_iff:
  "config_validate c = Inr () \<longleftrightarrow>
     0 < ac_break_duration_secs c \<and> 0 < ac_fix_duration_secs c \<and> 0 < ac_fix_round_interval_secs c
   \<and> 0 \<le> ac_break_score c \<and> 0 \<le> ac_fix_round_score c
   \<and> ac_fix_duration_secs c mod ac_fix_round_interval_secs c = 0"
  by (auto simp: config_validate_def smod_nonneg_eq)

text \<open>A validated configuration has a whole number of rounds, at least one, that fill the Fix phase.\<close>

lemma config_rounds_fill:
  assumes "config_validate c = Inr ()"
  shows "1 \<le> config_total_rounds c"
    and "config_total_rounds c * ac_fix_round_interval_secs c = ac_fix_duration_secs c"
proof -
  have pos: "0 < ac_fix_duration_secs c" "0 < ac_fix_round_interval_secs c"
    and dvd: "ac_fix_round_interval_secs c dvd ac_fix_duration_secs c"
    using assms by (auto simp: config_validate_iff dvd_eq_mod_eq_0)
  have eq: "config_total_rounds c = ac_fix_duration_secs c div ac_fix_round_interval_secs c"
    using pos by (simp add: config_total_rounds_def sdiv_nonneg_eq)
  then show "config_total_rounds c * ac_fix_round_interval_secs c = ac_fix_duration_secs c" using dvd by simp
  have "ac_fix_round_interval_secs c \<le> ac_fix_duration_secs c" using dvd pos by (simp add: zdvd_imp_le)
  then show "1 \<le> config_total_rounds c" unfolding eq using pos by (simp add: pos_imp_zdiv_pos_iff int_one_le_iff_zero_less)
qed

lemma derived_break_score_small:
  assumes "0 \<le> ac_fix_round_score c" "ac_fix_round_score c \<le> awdp_max_score" "0 \<le> config_total_rounds c"
    "config_total_rounds c < 2 ^ 31"
  shows "derived_break_score c = ac_fix_round_score c * config_total_rounds c * 3 div 5"
proof -
  have "ac_fix_round_score c * config_total_rounds c \<le> 1000000000 * 2 ^ 31"
    using assms by (intro mult_mono) (auto simp: awdp_max_score_def)
  moreover have "0 \<le> ac_fix_round_score c * config_total_rounds c" using assms by simp
  ultimately show ?thesis
    by (simp add: derived_break_score_def saturate_i64_def awdp_constants sdiv_nonneg_eq)
qed

lemma derive_for_total_eq:
  assumes "2 \<le> t" "t < 2 ^ 31"
  defines "d \<equiv> (if 600 \<le> t div 2 then 600 else t div 2)"
  defines "c \<equiv> \<lparr>ac_break_duration_secs = t - t div 2 div d * d, ac_fix_duration_secs = t div 2 div d * d,
    ac_fix_round_interval_secs = d, ac_break_score = 540, ac_fix_round_score = 150\<rparr>"
  shows "derive_for_total (Some t) = c\<lparr>ac_break_score := derived_break_score c\<rparr>"
proof -
  have half: "t sdiv 2 = t div 2" "\<not> t div 2 \<le> 0" "\<not> t \<le> 0" using assms(1) by (auto simp: sdiv_nonneg_eq)
  have "in_i32 (t - x)" if "0 \<le> x" "x \<le> t" for x using that assms(1,2) by (auto simp: in_i32_def)
  moreover have "t div 2 div 600 * 600 \<le> t" "t div 2 \<le> t" "0 \<le> t div 2 div 600 * 600" using assms(1) by simp_all
  ultimately have wrap: "as_i32 (t - t div 2 div 600 * 600) = t - t div 2 div 600 * 600" "as_i32 (t - t div 2) = t - t div 2"
    using half by simp_all
  have "t div 2 sdiv 600 = t div 2 div 600" using half by (simp add: sdiv_nonneg_eq)
  then show ?thesis
    using half by (simp add: derive_for_total_def Let_def awdp_config_default_def awdp_constants c_def d_def wrap)
qed

lemma derived_rounds:
  assumes "2 \<le> t" "t < 2 ^ 31"
  defines "c \<equiv> derive_for_total (Some t)"
  shows "ac_break_duration_secs c + ac_fix_duration_secs c = t"
    and "0 < ac_fix_round_interval_secs c" "0 < ac_fix_duration_secs c" "2 * ac_fix_duration_secs c \<le> t"
    and "ac_fix_duration_secs c mod ac_fix_round_interval_secs c = 0"
    and "ac_fix_round_score c = 150"
    and "ac_break_score c = derived_break_score c"
proof -
  define d where "d = (if 600 \<le> t div 2 then 600 else t div 2)"
  have d: "0 < d" "d \<le> t div 2" using assms(1) by (auto simp: d_def)
  then have F: "0 < t div 2 div d" "t div 2 div d * d \<le> t div 2"
    by (simp_all add: pos_imp_zdiv_pos_iff minus_mod_eq_div_mult [symmetric])
  note eq = derive_for_total_eq [OF assms(1,2), folded c_def d_def]
  show "ac_break_duration_secs c + ac_fix_duration_secs c = t" "0 < ac_fix_round_interval_secs c"
    "0 < ac_fix_duration_secs c" "ac_fix_duration_secs c mod ac_fix_round_interval_secs c = 0" "ac_fix_round_score c = 150"
    unfolding eq using d F by simp_all
  show "2 * ac_fix_duration_secs c \<le> t" unfolding eq using F by simp
  show "ac_break_score c = derived_break_score c"
    unfolding eq by (simp add: derived_break_score_def config_total_rounds_def)
qed

text \<open>
  The configuration derived for an event of at least two seconds splits its duration exactly:
  Break and Fix add up to the total, Fix takes at most half and is a whole, positive number of
  rounds; the configuration passes validation, all values fit their columns, and the Break score is
  three fifths of what a faultless defence earns, rounded down.
\<close>

lemma derived_config_splits:
  assumes "2 \<le> t" "t < 2 ^ 31"
  defines "c \<equiv> derive_for_total (Some t)"
  shows "config_validate c = Inr ()
    \<and> ac_break_duration_secs c + ac_fix_duration_secs c = t
    \<and> 2 * ac_fix_duration_secs c \<le> t
    \<and> 1 \<le> config_total_rounds c
    \<and> config_total_rounds c * ac_fix_round_interval_secs c = ac_fix_duration_secs c
    \<and> in_i32 (ac_break_duration_secs c) \<and> in_i32 (ac_fix_duration_secs c) \<and> in_i32 (ac_fix_round_interval_secs c)
    \<and> 5 * ac_break_score c \<le> 3 * (ac_fix_round_score c * config_total_rounds c)
    \<and> 3 * (ac_fix_round_score c * config_total_rounds c) < 5 * ac_break_score c + 5"
proof -
  note d = derived_rounds [OF assms(1,2), folded c_def]
  have eq: "config_total_rounds c = ac_fix_duration_secs c div ac_fix_round_interval_secs c"
    using d by (simp add: config_total_rounds_def sdiv_nonneg_eq)
  moreover have "ac_fix_duration_secs c div ac_fix_round_interval_secs c \<le> ac_fix_duration_secs c"
    using d by (simp add: zdiv_mono2 [of "ac_fix_duration_secs c" 1, simplified])
  ultimately have r: "0 \<le> config_total_rounds c" "config_total_rounds c < 2 ^ 31"
    using d assms by (simp_all add: pos_imp_zdiv_nonneg_iff)
  have score: "ac_break_score c = 150 * config_total_rounds c * 3 div 5"
    using derived_break_score_small [of c] d r by (simp add: awdp_max_score_def)
  have valid: "config_validate c = Inr ()"
    unfolding config_validate_iff score using d(1-6) r assms(1,2) by simp
  moreover have "ac_fix_round_interval_secs c \<le> ac_fix_duration_secs c"
    using d by (intro zdvd_imp_le) (auto simp: dvd_eq_mod_eq_0)
  moreover have "0 < ac_break_duration_secs c" using valid by (simp add: config_validate_iff)
  ultimately show ?thesis
    using d(1-4) assms(1,2) config_rounds_fill [OF valid] score d(6) r by (auto simp: in_i32_def)
qed

text \<open>
  The windows of the rounds tile the Fix phase: the first starts with it, each ends when the next
  starts, the last ends with it, and every instant of the phase lies in exactly one window.
\<close>

lemma round_windows_tile:
  fixes start :: timestamp
  assumes "config_validate c = Inr ()"
  defines "ws \<equiv> round_windows start (seconds (ac_fix_round_interval_secs c)) (config_total_rounds c)"
  shows "map rw_sequence ws = [1..config_total_rounds c]
    \<and> rw_starts_at (hd ws) = start
    \<and> rw_cutoff_at (last ws) = start + seconds (ac_fix_duration_secs c)
    \<and> (\<forall>i. Suc i < length ws \<longrightarrow> rw_cutoff_at (ws ! i) = rw_starts_at (ws ! Suc i))
    \<and> (\<forall>t. start \<le> t \<and> t < start + seconds (ac_fix_duration_secs c) \<longrightarrow>
         (\<exists>!k. k < length ws \<and> rw_starts_at (ws ! k) \<le> t \<and> t < rw_cutoff_at (ws ! k)))"
proof -
  define n I where "n = config_total_rounds c" and "I = seconds (ac_fix_round_interval_secs c)"
  note n = config_rounds_fill [OF assms(1), folded n_def]
  have I: "0 < I" using assms(1) by (simp add: I_def seconds_def nanos_per_sec_def config_validate_iff)
  have len: "length ws = nat n" by (simp add: ws_def round_windows_def n_def)
  have nth: "ws ! k = \<lparr>rw_sequence = int k + 1, rw_starts_at = start + I * int k, rw_cutoff_at = start + I * (int k + 1)\<rparr>"
    if "k < length ws" for k
    using that unfolding len by (simp add: ws_def round_windows_def n_def I_def nth_upto)
  have whole: "seconds (ac_fix_duration_secs c) = I * n"
    unfolding n(2) [symmetric] by (simp add: I_def seconds_def)
  have "\<exists>!k. k < length ws \<and> rw_starts_at (ws ! k) \<le> t \<and> t < rw_cutoff_at (ws ! k)"
    if t: "start \<le> t" "t < start + I * n" for t
  proof (rule ex1I [of _ "nat ((t - start) div I)"])
    let ?k = "(t - start) div I"
    have b: "I * ?k \<le> t - start" "t - start < I * (?k + 1)"
      using I pos_mod_bound [OF I, of "t - start"] pos_mod_sign [OF I, of "t - start"]
      by (simp_all add: minus_mod_eq_mult_div [symmetric] distrib_left)
    then have "I * ?k < I * n" using t by linarith
    then have k: "0 \<le> ?k" "?k < n" using t I by (simp_all add: pos_imp_zdiv_nonneg_iff)
    then show "nat ?k < length ws \<and> rw_starts_at (ws ! nat ?k) \<le> t \<and> t < rw_cutoff_at (ws ! nat ?k)"
      using b k nth [of "nat ?k"] len by simp
  next
    fix j assume j: "j < length ws \<and> rw_starts_at (ws ! j) \<le> t \<and> t < rw_cutoff_at (ws ! j)"
    then have "(t - start) div I = int j"
      using nth [of j] I by (intro int_div_pos_eq [where r = "t - start - I * int j"]) (auto simp: algebra_simps)
    then show "j = nat ((t - start) div I)" by simp
  qed
  moreover have "ws \<noteq> []" using len n(1) by auto
  ultimately show ?thesis
    using n(1) len nth [of 0] nth [of "length ws - 1"] nth whole
    by (auto simp: hd_conv_nth last_conv_nth ws_def round_windows_def n_def comp_def)
qed

text \<open>
  C19. The plan derived for an event of at least two seconds has no gaps and no remainder: Break and
  Fix add up to the total, Fix takes at most half and is a whole, positive number of rounds; the
  configuration passes validation, all values fit their columns, and the Break score is three fifths
  of what a faultless defence earns, rounded down. The windows of its rounds, numbered from one, tile
  the Fix phase: the first starts with it, each ends when the next starts, the last ends with it, and
  every instant of the phase lies in exactly one window.
\<close>

theorem derived_plan_tiles:
  fixes start :: timestamp
  assumes "2 \<le> secs" "secs < 2 ^ 31"
  defines "c \<equiv> derive_for_total (Some secs)"
  defines "ws \<equiv> round_windows start (seconds (ac_fix_round_interval_secs c)) (config_total_rounds c)"
  shows "config_validate c = Inr ()
    \<and> ac_break_duration_secs c + ac_fix_duration_secs c = secs
    \<and> 2 * ac_fix_duration_secs c \<le> secs
    \<and> 1 \<le> config_total_rounds c
    \<and> config_total_rounds c * ac_fix_round_interval_secs c = ac_fix_duration_secs c
    \<and> in_i32 (ac_break_duration_secs c) \<and> in_i32 (ac_fix_duration_secs c) \<and> in_i32 (ac_fix_round_interval_secs c)
    \<and> 5 * ac_break_score c \<le> 3 * (ac_fix_round_score c * config_total_rounds c)
    \<and> 3 * (ac_fix_round_score c * config_total_rounds c) < 5 * ac_break_score c + 5
    \<and> map rw_sequence ws = [1..config_total_rounds c]
    \<and> rw_starts_at (hd ws) = start
    \<and> rw_cutoff_at (last ws) = start + seconds (ac_fix_duration_secs c)
    \<and> (\<forall>i. Suc i < length ws \<longrightarrow> rw_cutoff_at (ws ! i) = rw_starts_at (ws ! Suc i))
    \<and> (\<forall>t. start \<le> t \<and> t < start + seconds (ac_fix_duration_secs c) \<longrightarrow>
         (\<exists>!k. k < length ws \<and> rw_starts_at (ws ! k) \<le> t \<and> t < rw_cutoff_at (ws ! k)))"
proof -
  note split = derived_config_splits [OF assms(1,2), folded c_def]
  have valid: "config_validate c = Inr ()" using split by blast
  show ?thesis using split round_windows_tile [OF valid, of start, folded ws_def] by blast
qed

theorem derived_plan_tiles_witness:
  "config_validate (derive_for_total (Some 7200)) = Inr () \<and> config_total_rounds (derive_for_total (Some 7200)) = 6
   \<and> rw_cutoff_at (last (round_windows 0 (seconds (ac_fix_round_interval_secs (derive_for_total (Some 7200)))) 6))
     = seconds (ac_fix_duration_secs (derive_for_total (Some 7200)))"
proof -
  have "config_total_rounds (derive_for_total (Some 7200)) = 6"
    by (simp add: derive_for_total_eq config_total_rounds_def sdiv_nonneg_eq)
  then show ?thesis using derived_plan_tiles [of 7200 0] by simp
qed

end
