(* ===== verification/Awdp_Db.thy ===== *)
theory Awdp_Db
  imports Awdp_Domain Awd_Types
begin

text \<open>
  Tables and repositories of the AWDP mode (\<open>modules/event/awdp/repo\<close>). A repository function that
  begins a transaction and fails leaves the tables as they were. Unique indexes are those of the
  migrations: a run of a practice is unique per event, GameBox and owner while it is Pending, Break
  or Fix (rows without GameBox or owner are never in conflict), official evaluations per round and
  instance, breaks per run, GameBox and subject, ledger entries per key. Deleting a Fix round deletes
  its evaluations and ledger entries and detaches its patches, as the foreign keys say. Texts that
  are only stored (script output, results) are left out.
\<close>

section \<open>Rows\<close>

datatype event_family = FamJeopardy | FamAwd | FamAwdp
datatype event_purpose = PurPractice | PurCompetition
datatype participant_mode = PmIndividual | PmTeam
datatype fix_round_status = FrPending | FrEvaluating | FrCompleted
datatype evaluation_kind = EkManual | EkOfficial
datatype evaluation_status =
    EsPending | EsRunning | EsNoPatch | EsServiceDown | EsFunctionalBroken | EsVulnerable | EsPatched
  | EsPlatformError
datatype patch_status = PsApplying | PsApplied | PsFailed

record event_row =
  er_id :: uuid
  er_family :: event_family
  er_purpose :: event_purpose
  er_participant_mode :: participant_mode
  er_start_time :: timestamp
  er_end_time :: "timestamp option"

record awdp_event_row =
  aw_event_id :: uuid
  aw_config :: awdp_config
  aw_configuration_generation :: int
  aw_updated_at :: timestamp

record awdp_run =
  ar_id :: uuid
  ar_event_id :: uuid
  ar_gamebox_id :: "uuid option"
  ar_owner_user_id :: "uuid option"
  ar_owner_team_id :: "uuid option"
  ar_phase :: awdp_phase
  ar_config :: awdp_config
  ar_started_at :: "timestamp option"
  ar_break_ends_at :: "timestamp option"
  ar_fix_started_at :: "timestamp option"
  ar_fix_ends_at :: "timestamp option"
  ar_finished_at :: "timestamp option"
  ar_current_round :: int
  ar_total_rounds :: int
  ar_next_action_at :: "timestamp option"
  ar_created_at :: timestamp
  ar_updated_at :: timestamp

record fix_round =
  fr_id :: uuid
  fr_run_id :: uuid
  fr_sequence :: int
  fr_starts_at :: timestamp
  fr_cutoff_at :: timestamp
  fr_status :: fix_round_status
  fr_started_at :: "timestamp option"
  fr_finished_at :: "timestamp option"
  fr_expected_eval_count :: "int option"

record evaluation =
  ae_id :: uuid
  ae_run_id :: uuid
  ae_instance_id :: uuid
  ae_fix_round_id :: "uuid option"
  ae_kind :: evaluation_kind
  ae_status :: evaluation_status
  ae_attempt_count :: int
  ae_claimed_by :: "string option"
  ae_claimed_at :: "timestamp option"
  ae_heartbeat_at :: "timestamp option"
  ae_lease_expires_at :: "timestamp option"
  ae_lease_token_hash :: "string option"
  ae_started_at :: "timestamp option"
  ae_finished_at :: "timestamp option"
  ae_created_at :: timestamp

record awdp_score =
  ax_id :: uuid
  ax_run_id :: uuid
  ax_event_id :: "uuid option"
  ax_user_id :: "uuid option"
  ax_team_id :: "uuid option"
  ax_gamebox_id :: uuid
  ax_score_type :: string
  ax_fix_round_id :: "uuid option"
  ax_delta :: int
  ax_idempotency_key :: string

record awdp_break =
  ab_id :: uuid
  ab_run_id :: uuid
  ab_gamebox_id :: uuid
  ab_user_id :: "uuid option"
  ab_team_id :: "uuid option"
  ab_flag_sha256 :: string

record patch_submission =
  pt_id :: uuid
  pt_run_id :: uuid
  pt_instance_id :: uuid
  pt_fix_round_id :: "uuid option"
  pt_user_id :: "uuid option"
  pt_team_id :: "uuid option"
  pt_status :: patch_status
  pt_submitted_at :: timestamp
  pt_apply_started_at :: "timestamp option"
  pt_applied_at :: "timestamp option"

record awdp_instance =
  ai_instance_id :: uuid
  ai_run_id :: uuid
  ai_gamebox_id :: uuid
  ai_event_id :: uuid
  ai_owner_user_id :: "uuid option"
  ai_owner_team_id :: "uuid option"
  ai_reset_count :: int

record event_instance =
  ei_id :: uuid
  ei_event_id :: uuid
  ei_owner_user_id :: "uuid option"
  ei_owner_team_id :: "uuid option"
  ei_container_name :: string
  ei_runtime_state :: string
  ei_runtime_generation :: int

record awdp_gamebox = gamebox_row +
  gb_hidden :: bool
  gb_awdp_source_artifact_key :: "string option"
  gb_has_judge_script :: bool
  gb_has_exploit_script :: bool

record awdp_event_gamebox =
  ag_id :: uuid
  ag_event_id :: uuid
  ag_gamebox_id :: uuid
  ag_hidden :: bool

record event_user =
  eu_event_id :: uuid
  eu_user_id :: uuid
  eu_banned :: bool

datatype awdp_effect =
    AfReset uuid
  | AfStart uuid
  | AfStop uuid
  | AfRestart uuid
  | AfPatch uuid
  | AfHealthcheck uuid
  | AfJudge uuid
  | AfExploit uuid
  | AfNetwork uuid
  | AfDeployJudge uuid
  | AfPhaseChanged uuid awdp_phase

record awdp_world =
  pw_now :: timestamp
  pw_next_id :: uuid
  pw_events :: "event_row list"
  pw_awdp_events :: "awdp_event_row list"
  pw_runs :: "awdp_run list"
  pw_rounds :: "fix_round list"
  pw_evals :: "evaluation list"
  pw_scores :: "awdp_score list"
  pw_breaks :: "awdp_break list"
  pw_patches :: "patch_submission list"
  pw_exts :: "awdp_instance list"
  pw_instances :: "event_instance list"
  pw_gameboxes :: "awdp_gamebox list"
  pw_event_gameboxes :: "awdp_event_gamebox list"
  pw_users :: "event_user list"
  pw_teams :: "event_team list"
  pw_members :: "team_member list"
  pw_log :: "awdp_effect list"

type_synonym 'a pop = "(awdp_world, awdp_error, 'a) op"

definition p_new_uuid :: "(awdp_world, 'e, uuid) op" where
  "p_new_uuid = (\<lambda>w. (Inr (pw_next_id w), w\<lparr>pw_next_id := pw_next_id w + 1\<rparr>))"

definition p_now :: "(awdp_world, 'e, timestamp) op" where
  "p_now = readM pw_now"

section \<open>Runs\<close>

definition require_run :: "uuid \<Rightarrow> awdp_run pop" where
  "require_run run_id =
     bindM (readM (\<lambda>w. List.find (\<lambda>r. ar_id r = run_id) (pw_runs w))) (\<lambda>row. ok_orM row ApNotFound)"

text \<open>The phases the queries for an active run and the unique index name.\<close>

definition run_counts_active :: "awdp_phase \<Rightarrow> bool" where
  "run_counts_active p \<longleftrightarrow> p \<in> {ApPending, ApBreak, ApFix}"

definition run_index_conflict :: "awdp_run \<Rightarrow> awdp_run list \<Rightarrow> bool" where
  "run_index_conflict x rs \<longleftrightarrow>
     run_counts_active (ar_phase x) \<and> ar_gamebox_id x \<noteq> None \<and> ar_owner_user_id x \<noteq> None \<and>
     (\<exists>r \<in> set rs. ar_id r \<noteq> ar_id x \<and> run_counts_active (ar_phase r) \<and> ar_event_id r = ar_event_id x
        \<and> ar_gamebox_id r = ar_gamebox_id x \<and> ar_owner_user_id r = ar_owner_user_id x)"

definition update_run :: "uuid \<Rightarrow> (awdp_run \<Rightarrow> awdp_run) \<Rightarrow> unit pop" where
  "update_run run_id f = (\<lambda>w.
     case List.find (\<lambda>r. ar_id r = run_id) (pw_runs w) of
       None \<Rightarrow> (Inl ApDatabase, w)
     | Some r \<Rightarrow>
         if run_index_conflict (f r) (pw_runs w) then (Inl ApDatabase, w)
         else (Inr (), w\<lparr>pw_runs := update_where (\<lambda>r. ar_id r = run_id) f (pw_runs w)\<rparr>))"

definition find_active_competition_for_event :: "uuid \<Rightarrow> awdp_run option pop" where
  "find_active_competition_for_event event_id =
     readM (\<lambda>w. List.find (\<lambda>r. ar_event_id r = event_id \<and> run_counts_active (ar_phase r)) (pw_runs w))"

definition find_active_practice_for :: "uuid \<Rightarrow> uuid \<Rightarrow> awdp_run option pop" where
  "find_active_practice_for gamebox_id owner_user_id =
     readM (\<lambda>w. List.find (\<lambda>r. ar_gamebox_id r = Some gamebox_id \<and> ar_owner_user_id r = Some owner_user_id
       \<and> run_counts_active (ar_phase r)) (pw_runs w))"

definition runs_of_event :: "awdp_world \<Rightarrow> uuid \<Rightarrow> awdp_run list" where
  "runs_of_event w event_id = sort_key ar_created_at (filter (\<lambda>r. ar_event_id r = event_id) (pw_runs w))"

definition find_latest_for_event :: "uuid \<Rightarrow> awdp_run option pop" where
  "find_latest_for_event event_id =
     readM (\<lambda>w. max_by ar_created_at (filter (\<lambda>r. ar_event_id r = event_id) (pw_runs w)))"

definition find_display_run_for_event :: "uuid \<Rightarrow> awdp_run option pop" where
  "find_display_run_for_event event_id =
     bindM (find_active_competition_for_event event_id) (\<lambda>active.
     case active of Some run \<Rightarrow> returnM (Some run) | None \<Rightarrow> find_latest_for_event event_id)"

definition blank_run :: "uuid \<Rightarrow> uuid \<Rightarrow> awdp_config \<Rightarrow> timestamp \<Rightarrow> awdp_run" where
  "blank_run i event_id config now =
     \<lparr>ar_id = i, ar_event_id = event_id, ar_gamebox_id = None, ar_owner_user_id = None, ar_owner_team_id = None,
      ar_phase = ApPending, ar_config = config, ar_started_at = None, ar_break_ends_at = None,
      ar_fix_started_at = None, ar_fix_ends_at = None, ar_finished_at = None, ar_current_round = 0,
      ar_total_rounds = config_total_rounds config, ar_next_action_at = None, ar_created_at = now,
      ar_updated_at = now\<rparr>"

definition create_practice_run :: "uuid \<Rightarrow> uuid \<Rightarrow> uuid \<Rightarrow> awdp_config \<Rightarrow> awdp_run pop" where
  "create_practice_run event_id gamebox_id owner_user_id config =
     bindM (liftM (config_validate config)) (\<lambda>_.
     bindM p_now (\<lambda>now.
     bindM p_new_uuid (\<lambda>i. \<lambda>w.
       let run = (blank_run i event_id config now)\<lparr>ar_gamebox_id := Some gamebox_id, ar_owner_user_id := Some owner_user_id\<rparr> in
       if run_index_conflict run (pw_runs w) then (Inl ApConflict, w)
       else (Inr run, w\<lparr>pw_runs := pw_runs w @ [run]\<rparr>))))"

definition create_competition_run :: "uuid \<Rightarrow> awdp_config \<Rightarrow> awdp_run pop" where
  "create_competition_run event_id config =
     bindM (liftM (config_validate config)) (\<lambda>_.
     bindM (find_active_competition_for_event event_id) (\<lambda>active.
     case active of
       Some existing \<Rightarrow> returnM existing
     | None \<Rightarrow>
         bindM (readM (\<lambda>w. runs_of_event w event_id)) (\<lambda>runs.
         if \<exists>r \<in> set runs. ar_phase r = ApEnded then throwM ApInvalidState
         else
           bindM (readM (\<lambda>w. List.find (\<lambda>e. er_id e = event_id) (pw_events w))) (\<lambda>erow.
           bindM (ok_orM erow ApNotFound) (\<lambda>event.
           bindM p_now (\<lambda>now.
           bindM p_new_uuid (\<lambda>i. \<lambda>w.
             let run = (blank_run i event_id config now)\<lparr>ar_next_action_at := Some (er_start_time event)\<rparr> in
             if run_index_conflict run (pw_runs w)
             then bindM (find_active_competition_for_event event_id) (\<lambda>again. ok_orM again ApInternal) w
             else (Inr run, w\<lparr>pw_runs := pw_runs w @ [run]\<rparr>))))))))"

record phase_transition_patch =
  pp_started_at :: "timestamp option"
  pp_break_ends_at :: "timestamp option"
  pp_fix_started_at :: "timestamp option"
  pp_fix_ends_at :: "timestamp option"
  pp_finished_at :: "timestamp option"
  pp_current_round :: "int option"
  pp_next_action_at :: "timestamp option"

definition phase_patch_default :: phase_transition_patch where
  "phase_patch_default = \<lparr>pp_started_at = None, pp_break_ends_at = None, pp_fix_started_at = None,
     pp_fix_ends_at = None, pp_finished_at = None, pp_current_round = None, pp_next_action_at = None\<rparr>"

definition keep_opt :: "'a option \<Rightarrow> 'a option \<Rightarrow> 'a option" where
  "keep_opt new old = (case new of None \<Rightarrow> old | Some x \<Rightarrow> Some x)"

definition apply_phase_patch :: "awdp_phase \<Rightarrow> phase_transition_patch \<Rightarrow> timestamp \<Rightarrow> awdp_run \<Rightarrow> awdp_run" where
  "apply_phase_patch target p now r =
     r\<lparr>ar_phase := target,
       ar_started_at := keep_opt (pp_started_at p) (ar_started_at r),
       ar_break_ends_at := keep_opt (pp_break_ends_at p) (ar_break_ends_at r),
       ar_fix_started_at := keep_opt (pp_fix_started_at p) (ar_fix_started_at r),
       ar_fix_ends_at := keep_opt (pp_fix_ends_at p) (ar_fix_ends_at r),
       ar_finished_at := keep_opt (pp_finished_at p) (ar_finished_at r),
       ar_current_round := unwrap_or (pp_current_round p) (ar_current_round r),
       ar_next_action_at := keep_opt (pp_next_action_at p) (ar_next_action_at r),
       ar_updated_at := now\<rparr>"

definition transition_phase ::
  "uuid \<Rightarrow> awdp_phase \<Rightarrow> awdp_phase \<Rightarrow> phase_transition_patch \<Rightarrow> unit pop" where
  "transition_phase run_id expected target p =
     bindM (guardM (awdp_can_transition_to expected target) ApInvalidState) (\<lambda>_.
     txnM (
       bindM (require_run run_id) (\<lambda>current.
       bindM (guardM (ar_phase current = expected) ApConflict) (\<lambda>_.
       bindM p_now (\<lambda>now. update_run run_id (apply_phase_patch target p now))))))"

section \<open>Fix rounds\<close>

text \<open>Deleting the rounds of a run, with what hangs on them.\<close>

definition clear_fix_session :: "uuid \<Rightarrow> unit pop" where
  "clear_fix_session run_id = modifyM (\<lambda>w.
     let gone = map fr_id (filter (\<lambda>r. fr_run_id r = run_id) (pw_rounds w));
         hangs = (\<lambda>k. case k of None \<Rightarrow> False | Some i \<Rightarrow> i \<in> set gone) in
     w\<lparr>pw_rounds := filter (\<lambda>r. fr_run_id r \<noteq> run_id) (pw_rounds w),
       pw_evals := filter (\<lambda>e. \<not> hangs (ae_fix_round_id e)) (pw_evals w),
       pw_scores := filter (\<lambda>s. \<not> hangs (ax_fix_round_id s)) (pw_scores w),
       pw_patches := update_where (\<lambda>p. hangs (pt_fix_round_id p)) (pt_fix_round_id_update (\<lambda>_. None)) (pw_patches w)\<rparr>)"

definition rewound_run :: "timestamp \<Rightarrow> awdp_run \<Rightarrow> awdp_run" where
  "rewound_run now r =
     (let break_ends = now + seconds (ac_break_duration_secs (ar_config r)) in
      r\<lparr>ar_phase := ApBreak, ar_started_at := Some now, ar_break_ends_at := Some break_ends,
        ar_fix_started_at := None, ar_fix_ends_at := None, ar_finished_at := None, ar_current_round := 0,
        ar_next_action_at := Some break_ends, ar_updated_at := now\<rparr>)"

definition transition_fix_to_break :: "uuid \<Rightarrow> unit pop" where
  "transition_fix_to_break run_id = txnM (
     bindM (require_run run_id) (\<lambda>current.
     bindM (guardM (ar_gamebox_id current \<noteq> None) ApInvalidState) (\<lambda>_.
     bindM (guardM (ar_phase current = ApFix) ApConflict) (\<lambda>_.
     bindM p_now (\<lambda>now.
     bindM (update_run run_id (rewound_run now)) (\<lambda>_.
     clear_fix_session run_id))))))"

definition launched_run :: "timestamp \<Rightarrow> awdp_run \<Rightarrow> awdp_run" where
  "launched_run now r =
     (let break_ends = now + seconds (ac_break_duration_secs (ar_config r)) in
      r\<lparr>ar_phase := ApBreak, ar_started_at := Some now, ar_break_ends_at := Some break_ends,
        ar_next_action_at := Some break_ends, ar_updated_at := now\<rparr>)"

definition launch_practice_run :: "uuid \<Rightarrow> unit pop" where
  "launch_practice_run run_id = txnM (
     bindM (require_run run_id) (\<lambda>current.
     bindM (guardM (ar_gamebox_id current \<noteq> None) ApInvalidState) (\<lambda>_.
     if ar_phase current \<noteq> ApPending then returnM ()
     else bindM p_now (\<lambda>now. update_run run_id (launched_run now)))))"

definition ended_run :: "timestamp \<Rightarrow> awdp_run \<Rightarrow> awdp_run" where
  "ended_run now r = r\<lparr>ar_phase := ApEnded, ar_finished_at := Some now, ar_next_action_at := None, ar_updated_at := now\<rparr>"

definition end_practice_session :: "uuid \<Rightarrow> unit pop" where
  "end_practice_session run_id = txnM (
     bindM (require_run run_id) (\<lambda>current.
     bindM (guardM (ar_gamebox_id current \<noteq> None) ApInvalidState) (\<lambda>_.
     if ar_phase current = ApEnded then returnM ()
     else bindM p_now (\<lambda>now. update_run run_id (ended_run now)))))"

definition touch_tick_state :: "uuid \<Rightarrow> int \<Rightarrow> timestamp \<Rightarrow> unit pop" where
  "touch_tick_state run_id current_round next_action_at =
     bindM (require_run run_id) (\<lambda>_.
     bindM p_now (\<lambda>now.
     update_run run_id (\<lambda>r. r\<lparr>ar_current_round := current_round, ar_next_action_at := Some next_action_at,
       ar_updated_at := now\<rparr>)))"

definition run_is_due :: "timestamp \<Rightarrow> awdp_run \<Rightarrow> bool" where
  "run_is_due now r \<longleftrightarrow> (case ar_next_action_at r of None \<Rightarrow> False | Some t \<Rightarrow> t \<le> now) \<and> ar_phase r \<noteq> ApEnded"

definition find_due_runs :: "timestamp \<Rightarrow> nat \<Rightarrow> awdp_run list pop" where
  "find_due_runs now limit =
     readM (\<lambda>w. take limit (sort_key (\<lambda>r. the (ar_next_action_at r)) (filter (run_is_due now) (pw_runs w))))"

definition new_fix_round :: "uuid \<Rightarrow> uuid \<Rightarrow> round_window \<Rightarrow> fix_round" where
  "new_fix_round i run_id x =
     \<lparr>fr_id = i, fr_run_id = run_id, fr_sequence = rw_sequence x, fr_starts_at = rw_starts_at x,
      fr_cutoff_at = rw_cutoff_at x, fr_status = FrPending, fr_started_at = None, fr_finished_at = None,
      fr_expected_eval_count = None\<rparr>"

definition materialize_window :: "uuid \<Rightarrow> round_window \<Rightarrow> unit pop" where
  "materialize_window run_id x =
     bindM (readM (\<lambda>w. \<exists>r \<in> set (pw_rounds w). fr_run_id r = run_id \<and> fr_sequence r = rw_sequence x)) (\<lambda>present.
     if present then returnM ()
     else
       bindM p_new_uuid (\<lambda>i.
       modifyM (\<lambda>w. w\<lparr>pw_rounds := pw_rounds w @ [new_fix_round i run_id x]\<rparr>)))"

definition materialize_rounds :: "uuid \<Rightarrow> unit pop" where
  "materialize_rounds run_id =
     bindM (require_run run_id) (\<lambda>run.
     bindM (ok_orM (ar_fix_started_at run) ApInvalidState) (\<lambda>fix_start.
     let count = ac_fix_duration_secs (ar_config run) sdiv ac_fix_round_interval_secs (ar_config run);
         windows = round_windows fix_start (seconds (ac_fix_round_interval_secs (ar_config run))) count in
     forM windows (materialize_window run_id)))"

definition rounds_by_sequence :: "(fix_round \<Rightarrow> bool) \<Rightarrow> awdp_world \<Rightarrow> fix_round list" where
  "rounds_by_sequence p w = sort_key fr_sequence (filter p (pw_rounds w))"

definition first_row :: "'r list \<Rightarrow> 'r option" where
  "first_row rs = (case rs of [] \<Rightarrow> None | r # _ \<Rightarrow> Some r)"

definition current_open_round :: "uuid \<Rightarrow> timestamp \<Rightarrow> fix_round option pop" where
  "current_open_round run_id now =
     readM (\<lambda>w. first_row (rounds_by_sequence (\<lambda>r. fr_run_id r = run_id \<and> fr_starts_at r \<le> now \<and> now < fr_cutoff_at r) w))"

definition next_due_round :: "uuid \<Rightarrow> fix_round option pop" where
  "next_due_round run_id =
     readM (\<lambda>w. first_row (rounds_by_sequence (\<lambda>r. fr_run_id r = run_id \<and> fr_status r \<noteq> FrCompleted) w))"

definition find_round_by_sequence :: "uuid \<Rightarrow> int \<Rightarrow> fix_round option pop" where
  "find_round_by_sequence run_id k =
     readM (\<lambda>w. List.find (\<lambda>r. fr_run_id r = run_id \<and> fr_sequence r = k) (pw_rounds w))"

definition find_fix_round :: "uuid \<Rightarrow> fix_round pop" where
  "find_fix_round i =
     bindM (readM (\<lambda>w. List.find (\<lambda>r. fr_id r = i) (pw_rounds w))) (\<lambda>row. ok_orM row ApNotFound)"

definition update_fix_round :: "uuid \<Rightarrow> (fix_round \<Rightarrow> fix_round) \<Rightarrow> unit pop" where
  "update_fix_round i f = modifyM (\<lambda>w. w\<lparr>pw_rounds := update_where (\<lambda>r. fr_id r = i) f (pw_rounds w)\<rparr>)"

text \<open>
  \<open>set_status\<close>: the row has just been read, so \<open>started_at\<close> is always a set field and is never
  written here.
\<close>

definition set_round_status :: "uuid \<Rightarrow> fix_round_status \<Rightarrow> unit pop" where
  "set_round_status i s =
     bindM p_now (\<lambda>now.
     bindM (find_fix_round i) (\<lambda>_.
     update_fix_round i (\<lambda>r. r\<lparr>fr_status := s,
       fr_finished_at := (if s = FrCompleted then Some now else fr_finished_at r)\<rparr>)))"

definition new_evaluation :: "uuid \<Rightarrow> uuid \<Rightarrow> uuid \<Rightarrow> uuid option \<Rightarrow> evaluation_kind \<Rightarrow> timestamp \<Rightarrow> evaluation" where
  "new_evaluation i run_id instance_id fix_round_id kind now =
     \<lparr>ae_id = i, ae_run_id = run_id, ae_instance_id = instance_id, ae_fix_round_id = fix_round_id,
      ae_kind = kind, ae_status = EsPending, ae_attempt_count = 0, ae_claimed_by = None, ae_claimed_at = None,
      ae_heartbeat_at = None, ae_lease_expires_at = None, ae_lease_token_hash = None, ae_started_at = None,
      ae_finished_at = None, ae_created_at = now\<rparr>"

definition round_evals :: "awdp_world \<Rightarrow> uuid \<Rightarrow> evaluation list" where
  "round_evals w round_id = filter (\<lambda>e. ae_fix_round_id e = Some round_id) (pw_evals w)"

text \<open>
  One instance in the loop of the materialisation: an instance that was never started has no
  evaluation, and neither the lookup nor the insert can collide while the round row is locked.
\<close>

definition materialize_for :: "uuid \<Rightarrow> uuid \<Rightarrow> timestamp \<Rightarrow> awdp_instance \<Rightarrow> nat \<Rightarrow> nat pop" where
  "materialize_for run_id round_id now ext expected =
     bindM (readM (\<lambda>w. List.find (\<lambda>i. ei_id i = ai_instance_id ext) (pw_instances w))) (\<lambda>row.
     case row of
       None \<Rightarrow> returnM expected
     | Some inst \<Rightarrow>
         if ei_runtime_state inst = ''pending'' then returnM expected
         else
           bindM (readM (\<lambda>w. \<exists>e \<in> set (pw_evals w). ae_fix_round_id e = Some round_id \<and> ae_instance_id e = ei_id inst)) (\<lambda>present.
           if present then returnM expected
           else
             bindM p_new_uuid (\<lambda>i.
             bindM (modifyM (\<lambda>w. w\<lparr>pw_evals := pw_evals w @ [new_evaluation i run_id (ei_id inst) (Some round_id) EkOfficial now]\<rparr>)) (\<lambda>_.
             returnM (Suc expected)))))"

fun materialize_all :: "uuid \<Rightarrow> uuid \<Rightarrow> timestamp \<Rightarrow> awdp_instance list \<Rightarrow> nat \<Rightarrow> nat pop" where
  "materialize_all run_id round_id now [] expected = returnM expected"
| "materialize_all run_id round_id now (x # xs) expected =
     bindM (materialize_for run_id round_id now x expected) (\<lambda>n. materialize_all run_id round_id now xs n)"

definition materialize_round_atomic :: "uuid \<Rightarrow> uuid \<Rightarrow> timestamp \<Rightarrow> nat pop" where
  "materialize_round_atomic run_id round_id now = txnM (
     bindM (find_fix_round round_id) (\<lambda>current.
     if fr_status current \<noteq> FrPending then returnM 0
     else
       bindM (readM (\<lambda>w. filter (\<lambda>x. ai_run_id x = run_id) (pw_exts w))) (\<lambda>exts.
       bindM (materialize_all run_id round_id now exts 0) (\<lambda>expected.
       bindM (update_fix_round round_id (\<lambda>r. r\<lparr>fr_status := FrEvaluating, fr_started_at := Some now,
         fr_expected_eval_count := Some (as_i32 (int expected))\<rparr>)) (\<lambda>_.
       returnM expected)))))"

definition next_pending_due_round :: "uuid \<Rightarrow> timestamp \<Rightarrow> fix_round option pop" where
  "next_pending_due_round run_id now =
     readM (\<lambda>w. first_row (rounds_by_sequence (\<lambda>r. fr_run_id r = run_id \<and> fr_status r = FrPending \<and> fr_cutoff_at r \<le> now) w))"

definition next_pending_round :: "uuid \<Rightarrow> fix_round option pop" where
  "next_pending_round run_id =
     readM (\<lambda>w. first_row (rounds_by_sequence (\<lambda>r. fr_run_id r = run_id \<and> fr_status r = FrPending) w))"

definition eval_unfinished :: "evaluation \<Rightarrow> bool" where
  "eval_unfinished e \<longleftrightarrow> ae_status e \<in> {EsPending, EsRunning}"

definition round_finished :: "awdp_world \<Rightarrow> fix_round \<Rightarrow> bool" where
  "round_finished w r =
     (let evs = round_evals w (fr_id r);
          actual = length evs;
          unfinished = length (filter eval_unfinished evs) in
      case fr_expected_eval_count r of
        Some expected \<Rightarrow>
          if expected > 0 then int actual = expected \<and> unfinished = 0 else actual > 0 \<and> unfinished = 0
      | None \<Rightarrow> actual > 0 \<and> unfinished = 0)"

fun complete_each :: "fix_round list \<Rightarrow> nat \<Rightarrow> nat pop" where
  "complete_each [] n = returnM n"
| "complete_each (r # rs) n =
     bindM (readM (\<lambda>w. round_finished w r)) (\<lambda>ok.
     if ok then bindM (set_round_status (fr_id r) FrCompleted) (\<lambda>_. complete_each rs (Suc n))
     else complete_each rs n)"

definition complete_finished_rounds :: "nat pop" where
  "complete_finished_rounds =
     bindM (readM (\<lambda>w. filter (\<lambda>r. fr_status r = FrEvaluating) (pw_rounds w))) (\<lambda>rs. complete_each rs 0)"

end
