(* ===== verification/Awdp_Eval.thy ===== *)
theory Awdp_Eval
  imports Awdp_Db
begin

text \<open>
  The remaining repositories of the AWDP mode: configuration rows with their optimistic lock, the
  queue of evaluations with its leases, the score ledger, the breaks, the patches and the instances.
  What the cryptographic crates compute is a parameter: \<open>pe_lease_token\<close> draws the token of a claim
  from the supply of identifiers and \<open>pe_sha256_hex\<close> hashes it for the table.
\<close>

record awdp_env =
  pe_uuid_text :: "uuid \<Rightarrow> string"
  pe_sha256_hex :: "string \<Rightarrow> string"
  pe_hkdf :: "string \<Rightarrow> string \<Rightarrow> string \<Rightarrow> string"
  pe_hmac_hex :: "string \<Rightarrow> string \<Rightarrow> string"
  pe_jwt_secret :: string
  pe_flag_prefix :: string
  pe_node_ip :: "string option"
  pe_lease_token :: "uuid \<Rightarrow> string"
  pe_practice_event :: uuid
  pe_eval_lease_duration_secs :: int
  pe_eval_max_attempts :: int
  pe_docker :: "awdp_effect list \<Rightarrow> awdp_effect \<Rightarrow> bool"
  pe_exec :: "awdp_effect list \<Rightarrow> awdp_effect \<Rightarrow> (unit + bool)"
  pe_container_ip :: "awdp_effect list \<Rightarrow> string \<Rightarrow> (unit + string option)"
  pe_script :: "awdp_effect list \<Rightarrow> awdp_effect \<Rightarrow> (unit + (unit + (string \<times> bool) list))"

section \<open>Configuration rows\<close>

definition ensure_by_event_id :: "uuid \<Rightarrow> awdp_config \<Rightarrow> awdp_event_row pop" where
  "ensure_by_event_id event_id config =
     bindM (readM (\<lambda>w. List.find (\<lambda>a. aw_event_id a = event_id) (pw_awdp_events w))) (\<lambda>row.
     case row of
       Some existing \<Rightarrow> returnM existing
     | None \<Rightarrow>
         bindM (readM (\<lambda>w. List.find (\<lambda>e. er_id e = event_id) (pw_events w))) (\<lambda>erow.
         let initial = (case erow of
               Some ev \<Rightarrow> derive_for_total (map_option (\<lambda>e. as_i32 (num_seconds (e - er_start_time ev))) (er_end_time ev))
             | None \<Rightarrow> config) in
         bindM (liftM (config_validate initial)) (\<lambda>_.
         bindM p_now (\<lambda>now.
         let new = \<lparr>aw_event_id = event_id, aw_config = initial, aw_configuration_generation = 1, aw_updated_at = now\<rparr> in
         bindM (modifyM (\<lambda>w. w\<lparr>pw_awdp_events := pw_awdp_events w @ [new]\<rparr>)) (\<lambda>_.
         returnM new)))))"

definition config_snapshot :: "uuid \<Rightarrow> awdp_config pop" where
  "config_snapshot event_id =
     bindM (ensure_by_event_id event_id awdp_config_default) (\<lambda>row. returnM (aw_config row))"

text \<open>The configuration a patch leads to for an event of \<open>total_secs\<close> seconds.\<close>

definition next_config :: "awdp_config_patch \<Rightarrow> awdp_config \<Rightarrow> int \<Rightarrow> awdp_error + awdp_config" where
  "next_config patch base total_secs =
     (let next = config_patch_apply_to patch base;
          derived_break = as_i32 (total_secs - ac_fix_duration_secs next) in
      if (case acp_break_duration_secs patch of None \<Rightarrow> False | Some b \<Rightarrow> b \<noteq> derived_break) then Inl ApValidation
      else
        let fixd = (ac_fix_duration_secs next sdiv ac_fix_round_interval_secs next) * ac_fix_round_interval_secs next in
        if fixd \<le> 0 then Inl ApValidation
        else
          let next' = next\<lparr>ac_fix_duration_secs := fixd, ac_break_duration_secs := as_i32 (total_secs - fixd)\<rparr> in
          if ac_break_duration_secs next' < break_min_secs then Inl ApValidation
          else case config_validate next' of Inl e \<Rightarrow> Inl e | Inr _ \<Rightarrow> Inr next')"

definition update_config :: "uuid \<Rightarrow> awdp_config_patch \<Rightarrow> unit pop" where
  "update_config event_id patch =
     bindM (liftM (config_patch_validate patch)) (\<lambda>_.
     bindM (ok_orM (acp_expected_updated_at patch) ApValidation) (\<lambda>expected.
     txnM (
       bindM (readM (\<lambda>w. List.find (\<lambda>e. er_id e = event_id) (pw_events w))) (\<lambda>erow.
       bindM (ok_orM erow ApNotFound) (\<lambda>event.
       bindM (guardM (er_family event = FamAwdp) ApValidation) (\<lambda>_.
       bindM (readM (\<lambda>w. List.find (\<lambda>a. aw_event_id a = event_id) (pw_awdp_events w))) (\<lambda>arow.
       bindM (ok_orM arow ApNotFound) (\<lambda>current.
       bindM (ok_orM (er_end_time event) ApValidation) (\<lambda>end_time.
       let total_secs = as_i32 (num_seconds (end_time - er_start_time event)) in
       bindM (find_active_competition_for_event event_id) (\<lambda>active.
       bindM (guardM (active = None) ApInvalidState) (\<lambda>_.
       bindM (guardM (expected = aw_updated_at current) ApConflict) (\<lambda>_.
       bindM (liftM (next_config patch (aw_config current) total_secs)) (\<lambda>next.
       bindM p_now (\<lambda>now.
       bindM (modifyM (\<lambda>w. w\<lparr>pw_awdp_events := update_where (\<lambda>a. aw_event_id a = event_id)
           (\<lambda>a. a\<lparr>aw_config := next, aw_configuration_generation := aw_configuration_generation current + 1,
                 aw_updated_at := now\<rparr>) (pw_awdp_events w)\<rparr>)) (\<lambda>_.
       let fix_end = er_start_time event + seconds (ac_break_duration_secs next) + seconds (ac_fix_duration_secs next) in
       modifyM (\<lambda>w. w\<lparr>pw_events := update_where (\<lambda>e. er_id e = event_id) (\<lambda>e. e\<lparr>er_end_time := Some fix_end\<rparr>)
         (pw_events w)\<rparr>))))))))))))))))"

definition find_unstarted_awdp_events :: "timestamp \<Rightarrow> nat \<Rightarrow> event_row list pop" where
  "find_unstarted_awdp_events now limit =
     readM (\<lambda>w. take limit
       (filter (\<lambda>e. \<not> (\<exists>r \<in> set (pw_runs w). ar_event_id r = er_id e))
         (sort_key er_start_time
           (filter (\<lambda>e. er_family e = FamAwdp \<and> er_purpose e = PurCompetition \<and> er_start_time e \<le> now) (pw_events w)))))"

section \<open>Evaluations and their leases\<close>

definition awdp_lease_token_hash :: "awdp_env \<Rightarrow> string \<Rightarrow> string" where
  "awdp_lease_token_hash env token = pe_sha256_hex env token"

definition official_taken :: "uuid \<Rightarrow> uuid \<Rightarrow> evaluation list \<Rightarrow> bool" where
  "official_taken round_id instance_id es \<longleftrightarrow>
     (\<exists>e \<in> set es. ae_kind e = EkOfficial \<and> ae_fix_round_id e = Some round_id \<and> ae_instance_id e = instance_id)"

definition create_official :: "uuid \<Rightarrow> uuid \<Rightarrow> uuid \<Rightarrow> evaluation pop" where
  "create_official run_id instance_id fix_round_id =
     bindM p_now (\<lambda>now.
     bindM p_new_uuid (\<lambda>i. \<lambda>w.
       let e = new_evaluation i run_id instance_id (Some fix_round_id) EkOfficial now in
       if official_taken fix_round_id instance_id (pw_evals w)
       then ok_orM (List.find (\<lambda>e. ae_fix_round_id e = Some fix_round_id \<and> ae_instance_id e = instance_id) (pw_evals w)) ApInternal w
       else (Inr e, w\<lparr>pw_evals := pw_evals w @ [e]\<rparr>)))"

definition create_manual :: "uuid \<Rightarrow> uuid \<Rightarrow> evaluation pop" where
  "create_manual run_id instance_id =
     bindM p_now (\<lambda>now.
     bindM p_new_uuid (\<lambda>i.
     let e = new_evaluation i run_id instance_id None EkManual now in
     bindM (modifyM (\<lambda>w. w\<lparr>pw_evals := pw_evals w @ [e]\<rparr>)) (\<lambda>_. returnM e)))"

definition update_eval :: "uuid \<Rightarrow> (evaluation \<Rightarrow> evaluation) \<Rightarrow> unit pop" where
  "update_eval i f = modifyM (\<lambda>w. w\<lparr>pw_evals := update_where (\<lambda>e. ae_id e = i) f (pw_evals w)\<rparr>)"

definition without_lease :: "evaluation \<Rightarrow> evaluation" where
  "without_lease e = e\<lparr>ae_claimed_by := None, ae_claimed_at := None, ae_heartbeat_at := None,
     ae_lease_expires_at := None, ae_lease_token_hash := None\<rparr>"

definition eval_stale :: "timestamp \<Rightarrow> evaluation \<Rightarrow> bool" where
  "eval_stale now e \<longleftrightarrow> ae_status e = EsRunning \<and> (case ae_lease_expires_at e of None \<Rightarrow> True | Some t \<Rightarrow> t < now)"

definition reclaimed :: "int \<Rightarrow> timestamp \<Rightarrow> evaluation \<Rightarrow> evaluation" where
  "reclaimed max_attempts now e =
     without_lease (if ae_attempt_count e \<ge> max_attempts
       then e\<lparr>ae_status := EsPlatformError, ae_finished_at := Some now\<rparr> else e\<lparr>ae_status := EsPending\<rparr>)"

definition recover_stale_running :: "int \<Rightarrow> timestamp \<Rightarrow> unit pop" where
  "recover_stale_running max_attempts now =
     modifyM (\<lambda>w. w\<lparr>pw_evals := update_where (eval_stale now) (reclaimed max_attempts now) (pw_evals w)\<rparr>)"

record claimed_job =
  cj_evaluation :: evaluation
  cj_lease_token :: string
  cj_attempt :: int

definition claimable :: "evaluation_kind list \<Rightarrow> uuid option \<Rightarrow> awdp_world \<Rightarrow> evaluation \<Rightarrow> bool" where
  "claimable kinds event_id w e \<longleftrightarrow>
     ae_status e = EsPending \<and> (kinds = [] \<or> ae_kind e \<in> set kinds) \<and>
     (case event_id of None \<Rightarrow> True
      | Some i \<Rightarrow> (\<exists>r \<in> set (pw_runs w). ar_id r = ae_run_id e \<and> ar_event_id r = i))"

definition leased :: "awdp_env \<Rightarrow> string \<Rightarrow> string \<Rightarrow> int \<Rightarrow> timestamp \<Rightarrow> evaluation \<Rightarrow> evaluation" where
  "leased env worker_id token lease_duration_secs now e =
     e\<lparr>ae_status := EsRunning, ae_started_at := Some now, ae_attempt_count := ae_attempt_count e + 1,
       ae_claimed_by := Some worker_id, ae_claimed_at := Some now, ae_heartbeat_at := Some now,
       ae_lease_expires_at := Some (now + seconds lease_duration_secs),
       ae_lease_token_hash := Some (awdp_lease_token_hash env token)\<rparr>"

definition claim_eval :: "awdp_env \<Rightarrow> string \<Rightarrow> int \<Rightarrow> timestamp \<Rightarrow> evaluation \<Rightarrow> claimed_job pop" where
  "claim_eval env worker_id lease_duration_secs now row =
     bindM p_new_uuid (\<lambda>i.
     let token = pe_lease_token env i in
     bindM (update_eval (ae_id row) (leased env worker_id token lease_duration_secs now)) (\<lambda>_.
     returnM \<lparr>cj_evaluation = row, cj_lease_token = token, cj_attempt = ae_attempt_count row + 1\<rparr>))"

fun claim_each :: "awdp_env \<Rightarrow> string \<Rightarrow> int \<Rightarrow> timestamp \<Rightarrow> evaluation list \<Rightarrow> claimed_job list pop" where
  "claim_each env wk secs now [] = returnM []"
| "claim_each env wk secs now (e # es) =
     bindM (claim_eval env wk secs now e) (\<lambda>job.
     bindM (claim_each env wk secs now es) (\<lambda>jobs. returnM (job # jobs)))"

definition claim_jobs ::
  "awdp_env \<Rightarrow> string \<Rightarrow> nat \<Rightarrow> int \<Rightarrow> int \<Rightarrow> evaluation_kind list \<Rightarrow> uuid option \<Rightarrow> claimed_job list pop" where
  "claim_jobs env worker_id capacity lease_duration_secs max_attempts kinds event_id = txnM (
     bindM p_now (\<lambda>now.
     bindM (recover_stale_running max_attempts now) (\<lambda>_.
     bindM (readM (\<lambda>w. take capacity (sort_key ae_created_at (filter (claimable kinds event_id w) (pw_evals w))))) (\<lambda>rows.
     claim_each env worker_id lease_duration_secs now rows))))"

datatype heartbeat_outcome = HoOk | HoNoLease
datatype finish_outcome = FoOk | FoStaleRejected

definition holds_lease :: "awdp_env \<Rightarrow> string \<Rightarrow> string \<Rightarrow> evaluation \<Rightarrow> bool" where
  "holds_lease env worker_id lease_token e \<longleftrightarrow>
     ae_status e = EsRunning \<and> ae_claimed_by e = Some worker_id
     \<and> ae_lease_token_hash e = Some (awdp_lease_token_hash env lease_token)"

definition eval_heartbeat :: "awdp_env \<Rightarrow> uuid \<Rightarrow> string \<Rightarrow> string \<Rightarrow> int \<Rightarrow> heartbeat_outcome pop" where
  "eval_heartbeat env evaluation_id worker_id lease_token lease_duration_secs =
     bindM (readM (\<lambda>w. List.find (\<lambda>e. ae_id e = evaluation_id) (pw_evals w))) (\<lambda>row.
     case row of
       None \<Rightarrow> returnM HoNoLease
     | Some e \<Rightarrow>
         bindM p_now (\<lambda>now.
         if \<not> (holds_lease env worker_id lease_token e
                \<and> (case ae_lease_expires_at e of None \<Rightarrow> False | Some t \<Rightarrow> t > now)) then returnM HoNoLease
         else
           bindM (update_eval evaluation_id (\<lambda>e. e\<lparr>ae_heartbeat_at := Some now,
             ae_lease_expires_at := Some (now + seconds lease_duration_secs)\<rparr>)) (\<lambda>_. returnM HoOk)))"

definition finish_with_lease ::
  "awdp_env \<Rightarrow> uuid \<Rightarrow> string \<Rightarrow> string \<Rightarrow> int \<Rightarrow> evaluation_status \<Rightarrow> finish_outcome pop" where
  "finish_with_lease env evaluation_id worker_id lease_token attempt status =
     bindM (readM (\<lambda>w. List.find (\<lambda>e. ae_id e = evaluation_id) (pw_evals w))) (\<lambda>row.
     case row of
       None \<Rightarrow> throwM ApNotFound
     | Some e \<Rightarrow>
         bindM p_now (\<lambda>now.
         if \<not> (holds_lease env worker_id lease_token e \<and> ae_attempt_count e = attempt
                \<and> (case ae_lease_expires_at e of None \<Rightarrow> False | Some t \<Rightarrow> t \<ge> now)) then returnM FoStaleRejected
         else
           bindM (update_eval evaluation_id (\<lambda>e. without_lease (e\<lparr>ae_status := status, ae_finished_at := Some now\<rparr>))) (\<lambda>_.
           returnM FoOk)))"

definition release_or_fail :: "awdp_env \<Rightarrow> uuid \<Rightarrow> string \<Rightarrow> string \<Rightarrow> int \<Rightarrow> int \<Rightarrow> finish_outcome pop" where
  "release_or_fail env evaluation_id worker_id lease_token attempt max_attempts =
     bindM (readM (\<lambda>w. List.find (\<lambda>e. ae_id e = evaluation_id) (pw_evals w))) (\<lambda>row.
     case row of
       None \<Rightarrow> throwM ApNotFound
     | Some e \<Rightarrow>
         bindM p_now (\<lambda>now.
         if \<not> (holds_lease env worker_id lease_token e \<and> ae_attempt_count e = attempt) then returnM FoStaleRejected
         else
           bindM (update_eval evaluation_id (\<lambda>e. without_lease (
             if attempt \<ge> max_attempts then e\<lparr>ae_status := EsPlatformError, ae_finished_at := Some now\<rparr>
             else e\<lparr>ae_status := EsPending\<rparr>))) (\<lambda>_. returnM FoOk)))"

definition finish_eval :: "uuid \<Rightarrow> evaluation_status \<Rightarrow> unit pop" where
  "finish_eval evaluation_id status =
     bindM p_now (\<lambda>now.
     bindM (readM (\<lambda>w. List.find (\<lambda>e. ae_id e = evaluation_id) (pw_evals w))) (\<lambda>row.
     bindM (ok_orM row ApNotFound) (\<lambda>_.
     update_eval evaluation_id (\<lambda>e. without_lease (e\<lparr>ae_status := status, ae_finished_at := Some now\<rparr>)))))"

definition find_eval :: "uuid \<Rightarrow> evaluation pop" where
  "find_eval i = bindM (readM (\<lambda>w. List.find (\<lambda>e. ae_id e = i) (pw_evals w))) (\<lambda>row. ok_orM row ApNotFound)"

definition has_unfinished_for_instance :: "uuid \<Rightarrow> uuid \<Rightarrow> bool pop" where
  "has_unfinished_for_instance instance_id fix_round_id =
     readM (\<lambda>w. \<exists>e \<in> set (pw_evals w). ae_instance_id e = instance_id \<and> ae_fix_round_id e = Some fix_round_id
       \<and> eval_unfinished e)"

section \<open>Ledger, breaks and patches\<close>

definition create_awdp_score ::
  "uuid \<Rightarrow> uuid option \<Rightarrow> uuid option \<Rightarrow> uuid \<Rightarrow> string \<Rightarrow> uuid option \<Rightarrow> int \<Rightarrow> string \<Rightarrow> bool pop" where
  "create_awdp_score run_id user_id team_id gamebox_id score_type fix_round_id delta key =
     bindM (require_run run_id) (\<lambda>run.
     bindM p_new_uuid (\<lambda>i. \<lambda>w.
       if \<exists>s \<in> set (pw_scores w). ax_idempotency_key s = key then (Inr False, w)
       else (Inr True, w\<lparr>pw_scores := pw_scores w @ [\<lparr>ax_id = i, ax_run_id = run_id,
         ax_event_id = Some (ar_event_id run), ax_user_id = user_id, ax_team_id = team_id,
         ax_gamebox_id = gamebox_id, ax_score_type = score_type, ax_fix_round_id = fix_round_id,
         ax_delta = delta, ax_idempotency_key = key\<rparr>]\<rparr>)))"

definition break_taken :: "uuid \<Rightarrow> uuid \<Rightarrow> uuid option \<Rightarrow> uuid option \<Rightarrow> awdp_break list \<Rightarrow> bool" where
  "break_taken run_id gamebox_id user_id team_id bs \<longleftrightarrow>
     (\<exists>b \<in> set bs. ab_run_id b = run_id \<and> ab_gamebox_id b = gamebox_id \<and>
        (team_id = None \<and> ab_team_id b = None \<and> user_id \<noteq> None \<and> ab_user_id b = user_id
         \<or> user_id = None \<and> ab_user_id b = None \<and> team_id \<noteq> None \<and> ab_team_id b = team_id))"

definition record_break :: "uuid \<Rightarrow> uuid \<Rightarrow> uuid option \<Rightarrow> uuid option \<Rightarrow> string \<Rightarrow> bool pop" where
  "record_break run_id gamebox_id user_id team_id flag_sha256 =
     bindM (require_run run_id) (\<lambda>_.
     bindM p_new_uuid (\<lambda>i. \<lambda>w.
       if break_taken run_id gamebox_id user_id team_id (pw_breaks w) then (Inr False, w)
       else (Inr True, w\<lparr>pw_breaks := pw_breaks w @ [\<lparr>ab_id = i, ab_run_id = run_id, ab_gamebox_id = gamebox_id,
         ab_user_id = user_id, ab_team_id = team_id, ab_flag_sha256 = flag_sha256\<rparr>]\<rparr>)))"

definition already_broken :: "uuid \<Rightarrow> uuid \<Rightarrow> uuid option \<Rightarrow> uuid option \<Rightarrow> bool pop" where
  "already_broken run_id gamebox_id user_id team_id =
     (case (user_id, team_id) of
        (Some u, None) \<Rightarrow> readM (\<lambda>w. \<exists>b \<in> set (pw_breaks w). ab_run_id b = run_id \<and> ab_gamebox_id b = gamebox_id \<and> ab_user_id b = Some u)
      | (None, Some t) \<Rightarrow> readM (\<lambda>w. \<exists>b \<in> set (pw_breaks w). ab_run_id b = run_id \<and> ab_gamebox_id b = gamebox_id \<and> ab_team_id b = Some t)
      | _ \<Rightarrow> throwM ApInternal)"

definition create_patch ::
  "uuid \<Rightarrow> uuid \<Rightarrow> uuid \<Rightarrow> uuid option \<Rightarrow> uuid option \<Rightarrow> patch_submission pop" where
  "create_patch run_id instance_id fix_round_id user_id team_id =
     bindM (require_run run_id) (\<lambda>_.
     bindM p_now (\<lambda>now.
     bindM p_new_uuid (\<lambda>i.
     let p = \<lparr>pt_id = i, pt_run_id = run_id, pt_instance_id = instance_id, pt_fix_round_id = Some fix_round_id,
              pt_user_id = user_id, pt_team_id = team_id, pt_status = PsApplying, pt_submitted_at = now,
              pt_apply_started_at = Some now, pt_applied_at = None\<rparr> in
     bindM (modifyM (\<lambda>w. w\<lparr>pw_patches := pw_patches w @ [p]\<rparr>)) (\<lambda>_. returnM p))))"

definition finish_apply :: "uuid \<Rightarrow> bool \<Rightarrow> unit pop" where
  "finish_apply submission_id ok =
     bindM p_now (\<lambda>now.
     bindM (readM (\<lambda>w. List.find (\<lambda>p. pt_id p = submission_id) (pw_patches w))) (\<lambda>row.
     bindM (ok_orM row ApNotFound) (\<lambda>_.
     modifyM (\<lambda>w. w\<lparr>pw_patches := update_where (\<lambda>p. pt_id p = submission_id)
       (\<lambda>p. p\<lparr>pt_status := (if ok then PsApplied else PsFailed), pt_applied_at := Some now\<rparr>) (pw_patches w)\<rparr>))))"

definition has_applied_patch :: "uuid \<Rightarrow> uuid \<Rightarrow> bool pop" where
  "has_applied_patch instance_id fix_round_id =
     bindM (find_fix_round fix_round_id) (\<lambda>round.
     readM (\<lambda>w. \<exists>p \<in> set (pw_patches w). pt_instance_id p = instance_id \<and> pt_fix_round_id p = Some fix_round_id
       \<and> pt_status p = PsApplied \<and> (case pt_applied_at p of None \<Rightarrow> False | Some t \<Rightarrow> t \<le> fr_cutoff_at round)))"

definition recover_stale_applying :: "uuid \<Rightarrow> timestamp \<Rightarrow> unit pop" where
  "recover_stale_applying instance_id stale_before =
     modifyM (\<lambda>w. w\<lparr>pw_patches := update_where
       (\<lambda>p. pt_instance_id p = instance_id \<and> pt_status p = PsApplying
            \<and> (case pt_apply_started_at p of None \<Rightarrow> False | Some t \<Rightarrow> t < stale_before))
       (pt_status_update (\<lambda>_. PsFailed)) (pw_patches w)\<rparr>)"

section \<open>Instances\<close>

definition find_by_instance_id :: "uuid \<Rightarrow> (event_instance \<times> awdp_instance) pop" where
  "find_by_instance_id instance_id =
     bindM (readM (\<lambda>w. List.find (\<lambda>x. ai_instance_id x = instance_id) (pw_exts w))) (\<lambda>xrow.
     bindM (ok_orM xrow ApNotFound) (\<lambda>ext.
     bindM (readM (\<lambda>w. List.find (\<lambda>i. ei_id i = instance_id) (pw_instances w))) (\<lambda>irow.
     bindM (ok_orM irow ApNotFound) (\<lambda>inst. returnM (inst, ext)))))"

definition find_instance_for_subject ::
  "uuid \<Rightarrow> uuid \<Rightarrow> uuid option \<Rightarrow> uuid option \<Rightarrow> (event_instance \<times> awdp_instance) option pop" where
  "find_instance_for_subject run_id gamebox_id user_id team_id =
     bindM (case (user_id, team_id) of
        (Some u, None) \<Rightarrow> readM (\<lambda>w. List.find (\<lambda>x. ai_run_id x = run_id \<and> ai_gamebox_id x = gamebox_id \<and> ai_owner_user_id x = Some u) (pw_exts w))
      | (None, Some t) \<Rightarrow> readM (\<lambda>w. List.find (\<lambda>x. ai_run_id x = run_id \<and> ai_gamebox_id x = gamebox_id \<and> ai_owner_team_id x = Some t) (pw_exts w))
      | _ \<Rightarrow> throwM ApInternal) (\<lambda>xrow.
     case xrow of
       None \<Rightarrow> returnM None
     | Some ext \<Rightarrow>
         bindM (readM (\<lambda>w. List.find (\<lambda>i. ei_id i = ai_instance_id ext) (pw_instances w))) (\<lambda>irow.
         bindM (ok_orM irow ApInternal) (\<lambda>inst. returnM (Some (inst, ext)))))"

definition ext_taken :: "uuid \<Rightarrow> uuid \<Rightarrow> uuid option \<Rightarrow> uuid option \<Rightarrow> awdp_instance list \<Rightarrow> bool" where
  "ext_taken run_id gamebox_id user_id team_id xs \<longleftrightarrow>
     (\<exists>x \<in> set xs. ai_run_id x = run_id \<and> ai_gamebox_id x = gamebox_id \<and>
        (team_id = None \<and> ai_owner_team_id x = None \<and> user_id \<noteq> None \<and> ai_owner_user_id x = user_id
         \<or> user_id = None \<and> ai_owner_user_id x = None \<and> team_id \<noteq> None \<and> ai_owner_team_id x = team_id))"

definition create_instance ::
  "uuid \<Rightarrow> uuid \<Rightarrow> uuid option \<Rightarrow> uuid option \<Rightarrow> string \<Rightarrow> (event_instance \<times> awdp_instance) pop" where
  "create_instance run_id gamebox_id user_id team_id container_name =
     bindM (require_run run_id) (\<lambda>run.
     bindM (guardM (\<not> (ar_gamebox_id run \<noteq> None \<and> team_id \<noteq> None)) ApValidation) (\<lambda>_.
     bindM (guardM (\<not> (ar_gamebox_id run = None \<and> user_id = None \<and> team_id = None)) ApInternal) (\<lambda>_.
     txnM (
       bindM p_new_uuid (\<lambda>i. \<lambda>w.
         let inst = \<lparr>ei_id = i, ei_event_id = ar_event_id run, ei_owner_user_id = user_id, ei_owner_team_id = team_id,
                     ei_container_name = container_name, ei_runtime_state = ''starting'', ei_runtime_generation = 1\<rparr>;
             ext = \<lparr>ai_instance_id = i, ai_run_id = run_id, ai_gamebox_id = gamebox_id, ai_event_id = ar_event_id run,
                    ai_owner_user_id = user_id, ai_owner_team_id = team_id, ai_reset_count = 0\<rparr> in
         if ext_taken run_id gamebox_id user_id team_id (pw_exts w) then (Inl ApConflict, w)
         else (Inr (inst, ext), w\<lparr>pw_instances := pw_instances w @ [inst], pw_exts := pw_exts w @ [ext]\<rparr>))))))"

definition increment_reset_count :: "uuid \<Rightarrow> unit pop" where
  "increment_reset_count instance_id =
     bindM (readM (\<lambda>w. List.find (\<lambda>x. ai_instance_id x = instance_id) (pw_exts w))) (\<lambda>xrow.
     bindM (ok_orM xrow ApNotFound) (\<lambda>ext.
     modifyM (\<lambda>w. w\<lparr>pw_exts := update_where (\<lambda>x. ai_instance_id x = instance_id)
       (ai_reset_count_update (\<lambda>_. ai_reset_count ext + 1)) (pw_exts w)\<rparr>)))"

definition update_runtime_state :: "uuid \<Rightarrow> string \<Rightarrow> int \<Rightarrow> unit pop" where
  "update_runtime_state instance_id runtime_state generation =
     bindM (readM (\<lambda>w. List.find (\<lambda>i. ei_id i = instance_id) (pw_instances w))) (\<lambda>irow.
     bindM (ok_orM irow ApNotFound) (\<lambda>_.
     modifyM (\<lambda>w. w\<lparr>pw_instances := update_where (\<lambda>i. ei_id i = instance_id)
       (\<lambda>i. i\<lparr>ei_runtime_state := runtime_state, ei_runtime_generation := generation\<rparr>) (pw_instances w)\<rparr>)))"

text \<open>The join of the instances of a run; a missing root row is an internal error.\<close>

fun join_instances :: "awdp_world \<Rightarrow> awdp_instance list \<Rightarrow> awdp_error + (event_instance \<times> awdp_instance) list" where
  "join_instances w [] = Inr []"
| "join_instances w (x # xs) =
     (case List.find (\<lambda>i. ei_id i = ai_instance_id x) (pw_instances w) of
        None \<Rightarrow> Inl ApInternal
      | Some inst \<Rightarrow> (case join_instances w xs of Inl e \<Rightarrow> Inl e | Inr ys \<Rightarrow> Inr ((inst, x) # ys)))"

definition list_instances_for_run :: "uuid \<Rightarrow> (event_instance \<times> awdp_instance) list pop" where
  "list_instances_for_run run_id = (\<lambda>w. (join_instances w (filter (\<lambda>x. ai_run_id x = run_id) (pw_exts w)), w))"

end
