(* ===== verification/Awdp_Runtime.thy ===== *)
theory Awdp_Runtime
  imports Awdp_Eval Awd_Judge
begin

text \<open>
  Instances and the lifecycle of a run in the AWDP mode: \<open>service/runtime.rs\<close>,
  \<open>service/event_service.rs\<close>, \<open>service/tick_service.rs\<close>, the administrator's start, finish and jump to
  Fix, and the practice endpoints that steer a run. Whether a step on the Docker host succeeds is
  answered by \<open>pe_docker\<close> from the steps taken before; every step is recorded in \<open>pw_log\<close>. The
  instance lock serialises handlers that the model runs one at a time anyway. Views that are only
  returned to the client, the published endpoints and the practice log are left out.
\<close>

definition dockerM :: "awdp_env \<Rightarrow> awdp_effect \<Rightarrow> unit pop" where
  "dockerM env fx = (\<lambda>w.
     (if pe_docker env (pw_log w) fx then Inr () else Inl ApDocker, w\<lparr>pw_log := pw_log w @ [fx]\<rparr>))"

definition p_emit :: "awdp_effect \<Rightarrow> unit pop" where
  "p_emit fx = modifyM (\<lambda>w. w\<lparr>pw_log := pw_log w @ [fx]\<rparr>)"

section \<open>Instances\<close>

record subject =
  sj_user_id :: "uuid option"
  sj_team_id :: "uuid option"

definition subject_user :: "uuid \<Rightarrow> subject" where
  "subject_user u = \<lparr>sj_user_id = Some u, sj_team_id = None\<rparr>"

definition subject_team :: "uuid \<Rightarrow> subject" where
  "subject_team t = \<lparr>sj_user_id = None, sj_team_id = Some t\<rparr>"

definition find_gamebox_identity :: "uuid \<Rightarrow> awdp_gamebox pop" where
  "find_gamebox_identity gamebox_id =
     bindM (readM (\<lambda>w. List.find (\<lambda>g. gx_id g = gamebox_id) (pw_gameboxes w))) (\<lambda>row. ok_orM row ApNotFound)"

definition find_for_event_and_gamebox :: "uuid \<Rightarrow> uuid \<Rightarrow> awdp_event_gamebox option pop" where
  "find_for_event_and_gamebox event_id gamebox_id =
     readM (\<lambda>w. List.find (\<lambda>g. ag_event_id g = event_id \<and> ag_gamebox_id g = gamebox_id) (pw_event_gameboxes w))"

definition resolve_run_gamebox_spec ::
  "awdp_run \<Rightarrow> uuid \<Rightarrow> (awdp_event_gamebox option \<times> awdp_gamebox) pop" where
  "resolve_run_gamebox_spec run gamebox_id =
     (if ar_gamebox_id run = Some gamebox_id then
        bindM (find_gamebox_identity gamebox_id) (\<lambda>gamebox. returnM (None, gamebox))
      else
        bindM (find_for_event_and_gamebox (ar_event_id run) gamebox_id) (\<lambda>row.
        bindM (ok_orM row ApValidation) (\<lambda>eg.
        bindM (find_gamebox_identity gamebox_id) (\<lambda>gamebox. returnM (Some eg, gamebox)))))"

definition awdp_image_ref :: "awdp_gamebox \<Rightarrow> string pop" where
  "awdp_image_ref gamebox =
     map_errM (\<lambda>_. ApValidation) (liftM (effective_image_ref_from_gamebox (gamebox_row.truncate gamebox)))"

definition short_id :: "awdp_env \<Rightarrow> nat \<Rightarrow> uuid \<Rightarrow> string" where
  "short_id env n i = take n (strip_hyphens (pe_uuid_text env i))"

definition instance_container_name ::
  "awdp_env \<Rightarrow> bool \<Rightarrow> uuid \<Rightarrow> uuid \<Rightarrow> uuid \<Rightarrow> subject \<Rightarrow> string" where
  "instance_container_name env practice instance_id run_id gamebox_id subject =
     (if practice then
        case sj_user_id subject of
          Some uid \<Rightarrow> ''AWDPP-'' @ short_id env 8 uid @ ''-'' @ short_id env 8 gamebox_id @ ''-'' @ short_id env 8 run_id
        | None \<Rightarrow> ''awdp-'' @ short_id env 20 instance_id
      else ''awdp-'' @ short_id env 20 instance_id)"

definition start_instance :: "awdp_env \<Rightarrow> uuid \<Rightarrow> uuid \<Rightarrow> subject \<Rightarrow> unit pop" where
  "start_instance env run_id gamebox_id subject =
     bindM (require_run run_id) (\<lambda>run.
     bindM (guardM (ar_phase run \<in> {ApBreak, ApFix}) ApInvalidState) (\<lambda>_.
     bindM (resolve_run_gamebox_spec run gamebox_id) (\<lambda>(eg, gamebox).
     bindM (awdp_image_ref gamebox) (\<lambda>_.
     bindM (ok_orM (pe_node_ip env) ApInternal) (\<lambda>_.
     bindM (dockerM env (AfNetwork (ar_event_id run))) (\<lambda>_.
     bindM (if eg = None then dockerM env (AfDeployJudge (ar_event_id run))
            else ignoreM (dockerM env (AfDeployJudge (ar_event_id run)))) (\<lambda>_.
     bindM (find_instance_for_subject run_id gamebox_id (sj_user_id subject) (sj_team_id subject)) (\<lambda>found.
     bindM (case found of
              Some x \<Rightarrow> returnM x
            | None \<Rightarrow>
                bindM p_new_uuid (\<lambda>i.
                create_instance run_id gamebox_id (sj_user_id subject) (sj_team_id subject)
                  (instance_container_name env (eg = None) i run_id gamebox_id subject))) (\<lambda>(inst, ext).
     if ei_runtime_state inst = ''running'' then returnM ()
     else
       bindM (dockerM env (AfStart (ei_id inst))) (\<lambda>_.
       update_runtime_state (ei_id inst) ''running'' (ei_runtime_generation inst)))))))))))"

definition reset_limit_competition :: int where "reset_limit_competition = 3"

definition check_reset_allowed :: "awdp_run \<Rightarrow> awdp_instance \<Rightarrow> awdp_error + unit" where
  "check_reset_allowed run ext =
     (if ar_gamebox_id run \<noteq> None then Inr ()
      else if ar_phase run \<noteq> ApFix then Inl ApInvalidState
      else if ai_reset_count ext \<ge> reset_limit_competition then Inl ApValidation
      else Inr ())"

definition reset_instance_unchecked :: "awdp_env \<Rightarrow> uuid \<Rightarrow> unit pop" where
  "reset_instance_unchecked env instance_id =
     bindM (find_by_instance_id instance_id) (\<lambda>(inst, ext).
     bindM (require_run (ai_run_id ext)) (\<lambda>run.
     bindM (resolve_run_gamebox_spec run (ai_gamebox_id ext)) (\<lambda>(eg, gamebox).
     bindM (awdp_image_ref gamebox) (\<lambda>_.
     bindM (ok_orM (pe_node_ip env) ApInternal) (\<lambda>_.
     bindM (dockerM env (AfReset instance_id)) (\<lambda>_.
     update_runtime_state (ei_id inst) ''running'' (ei_runtime_generation inst + 1)))))))"

definition is_owner :: "event_instance \<Rightarrow> subject \<Rightarrow> bool" where
  "is_owner inst subject \<longleftrightarrow>
     (case (sj_user_id subject, sj_team_id subject) of
        (Some u, None) \<Rightarrow> ei_owner_user_id inst = Some u
      | (None, Some t) \<Rightarrow> ei_owner_team_id inst = Some t
      | _ \<Rightarrow> False)"

definition reset_instance :: "awdp_env \<Rightarrow> uuid \<Rightarrow> subject \<Rightarrow> unit pop" where
  "reset_instance env instance_id subject =
     bindM (find_by_instance_id instance_id) (\<lambda>(inst, ext).
     bindM (guardM (is_owner inst subject) ApForbidden) (\<lambda>_.
     bindM (require_run (ai_run_id ext)) (\<lambda>run.
     bindM (liftM (check_reset_allowed run ext)) (\<lambda>_.
     bindM (reset_instance_unchecked env instance_id) (\<lambda>_.
     if ar_gamebox_id run = None then increment_reset_count instance_id else returnM ())))))"

definition stop_instance :: "awdp_env \<Rightarrow> uuid \<Rightarrow> subject \<Rightarrow> unit pop" where
  "stop_instance env instance_id subject =
     bindM (find_by_instance_id instance_id) (\<lambda>(inst, ext).
     bindM (guardM (is_owner inst subject) ApForbidden) (\<lambda>_.
     if ei_runtime_state inst \<noteq> ''running'' then returnM ()
     else
       bindM (dockerM env (AfStop instance_id)) (\<lambda>_.
       update_runtime_state instance_id ''stopped'' (ei_runtime_generation inst))))"

definition stop_one :: "awdp_env \<Rightarrow> uuid \<Rightarrow> unit pop" where
  "stop_one env instance_id =
     bindM (find_by_instance_id instance_id) (\<lambda>(inst, ext).
     if ei_runtime_state inst \<noteq> ''running'' then returnM ()
     else
       bindM (dockerM env (AfStop instance_id)) (\<lambda>_.
       update_runtime_state (ei_id inst) ''stopped'' (ei_runtime_generation inst)))"

text \<open>Every instance is tried; one failure makes the whole call an error, after the others ran.\<close>

fun stop_each :: "awdp_env \<Rightarrow> (event_instance \<times> awdp_instance) list \<Rightarrow> bool \<Rightarrow> unit pop" where
  "stop_each env [] failed = (if failed then throwM ApDocker else returnM ())"
| "stop_each env ((i, x) # xs) failed =
     bindM (attemptM (stop_one env (ei_id i))) (\<lambda>r. stop_each env xs (failed \<or> isl r))"

definition stop_all_run_instances :: "awdp_env \<Rightarrow> uuid \<Rightarrow> unit pop" where
  "stop_all_run_instances env run_id =
     bindM (list_instances_for_run run_id) (\<lambda>rows. stop_each env rows False)"

section \<open>From Break to Fix\<close>

definition transition_break_to_preparing_fix :: "uuid \<Rightarrow> unit pop" where
  "transition_break_to_preparing_fix run_id =
     bindM p_now (\<lambda>now.
     transition_phase run_id ApBreak ApPreparingFix (phase_patch_default\<lparr>pp_next_action_at := Some now\<rparr>))"

text \<open>The loop stops at the first reset that fails and reports whether all went through.\<close>

fun reset_started :: "awdp_env \<Rightarrow> (event_instance \<times> awdp_instance) list \<Rightarrow> bool pop" where
  "reset_started env [] = returnM True"
| "reset_started env ((i, x) # xs) =
     (if ei_runtime_state i = ''pending'' then reset_started env xs
      else
        bindM (attemptM (reset_instance_unchecked env (ei_id i))) (\<lambda>r.
        case r of Inl _ \<Rightarrow> returnM False | Inr _ \<Rightarrow> reset_started env xs))"

definition reconcile_preparing_fix :: "awdp_env \<Rightarrow> uuid \<Rightarrow> bool pop" where
  "reconcile_preparing_fix env run_id =
     bindM (require_run run_id) (\<lambda>run.
     if ar_phase run \<noteq> ApPreparingFix then returnM False
     else
       let config = ar_config run in
       bindM (liftM (config_validate config)) (\<lambda>_.
       bindM (list_instances_for_run run_id) (\<lambda>rows.
       bindM (reset_started env rows) (\<lambda>reset_ok.
       if \<not> reset_ok then
         bindM p_now (\<lambda>now.
         bindM (ignoreM (touch_tick_state run_id (ar_current_round run) (now + seconds 15))) (\<lambda>_. returnM False))
       else
         bindM p_now (\<lambda>now.
         bindM (transition_phase run_id ApPreparingFix ApFix
           (phase_patch_default\<lparr>pp_fix_started_at := Some now,
              pp_fix_ends_at := Some (now + seconds (ac_fix_duration_secs config)),
              pp_current_round := Some 0,
              pp_next_action_at := Some (now + seconds (ac_fix_round_interval_secs config))\<rparr>)) (\<lambda>_.
         bindM (materialize_rounds run_id) (\<lambda>_. returnM True)))))))"

definition transition_break_to_fix :: "awdp_env \<Rightarrow> uuid \<Rightarrow> unit pop" where
  "transition_break_to_fix env run_id =
     bindM (require_run run_id) (\<lambda>run.
     bindM (whenM (ar_phase run = ApBreak) (transition_break_to_preparing_fix run_id)) (\<lambda>_.
     bindM (reconcile_preparing_fix env run_id) (\<lambda>ok.
     guardM ok ApInvalidState)))"

fun reset_all :: "awdp_env \<Rightarrow> (event_instance \<times> awdp_instance) list \<Rightarrow> unit pop" where
  "reset_all env [] = returnM ()"
| "reset_all env ((i, x) # xs) =
     (if ei_runtime_state i = ''pending'' then reset_all env xs
      else bindM (reset_instance_unchecked env (ei_id i)) (\<lambda>_. reset_all env xs))"

definition reset_all_run_instances :: "awdp_env \<Rightarrow> uuid \<Rightarrow> unit pop" where
  "reset_all_run_instances env run_id =
     bindM (list_instances_for_run run_id) (\<lambda>rows. reset_all env rows)"

section \<open>Instances for all participants\<close>

definition event_subjects :: "uuid \<Rightarrow> subject list pop" where
  "event_subjects event_id =
     bindM (readM (\<lambda>w. List.find (\<lambda>e. er_id e = event_id) (pw_events w))) (\<lambda>erow.
     bindM (ok_orM erow ApNotFound) (\<lambda>event.
     case er_participant_mode event of
       PmIndividual \<Rightarrow> readM (\<lambda>w. map (\<lambda>u. subject_user (eu_user_id u)) (filter (\<lambda>u. eu_event_id u = event_id) (pw_users w)))
     | PmTeam \<Rightarrow> readM (\<lambda>w. map (\<lambda>t. subject_team (tm_id t)) (filter (\<lambda>t. tm_event_id t = event_id) (pw_teams w)))))"

definition auto_start_targets :: "uuid \<Rightarrow> (subject \<times> uuid) list pop" where
  "auto_start_targets run_id =
     bindM (require_run run_id) (\<lambda>run.
     bindM (event_subjects (ar_event_id run)) (\<lambda>subjects.
     readM (\<lambda>w. concat (map (\<lambda>s. map (\<lambda>g. (s, ag_gamebox_id g))
       (filter (\<lambda>g. ag_event_id g = ar_event_id run \<and> \<not> ag_hidden g) (pw_event_gameboxes w))) subjects))))"

text \<open>A start that fails is only logged; the others go on.\<close>

definition start_all_event_instances :: "awdp_env \<Rightarrow> uuid \<Rightarrow> unit pop" where
  "start_all_event_instances env run_id =
     bindM (require_run run_id) (\<lambda>run.
     if ar_phase run \<noteq> ApBreak then returnM ()
     else
       bindM (auto_start_targets run_id) (\<lambda>targets.
       forM targets (\<lambda>(s, g). ignoreM (start_instance env run_id g s))))"

definition start_gamebox_for_active_run :: "awdp_env \<Rightarrow> uuid \<Rightarrow> uuid \<Rightarrow> unit pop" where
  "start_gamebox_for_active_run env run_id gamebox_id =
     bindM (require_run run_id) (\<lambda>run.
     if ar_phase run \<notin> {ApBreak, ApFix} then returnM ()
     else
       bindM (event_subjects (ar_event_id run)) (\<lambda>subjects.
       forM subjects (\<lambda>s. ignoreM (start_instance env run_id gamebox_id s))))"

section \<open>The tick\<close>

definition auto_create_run :: "event_row \<Rightarrow> unit pop" where
  "auto_create_run ev =
     bindM (config_snapshot (er_id ev)) (\<lambda>config. ignoreM (create_competition_run (er_id ev) config))"

text \<open>
  The phase changes of a tick are collected and published by the task handler when the tick is over.
\<close>

type_synonym phase_changes = "(uuid \<times> awdp_phase) list"

definition process_fix_round_cutoffs :: "uuid \<Rightarrow> timestamp \<Rightarrow> phase_changes pop" where
  "process_fix_round_cutoffs run_id now =
     bindM (next_pending_due_round run_id now) (\<lambda>due.
     case due of
       None \<Rightarrow> returnM []
     | Some round \<Rightarrow>
         bindM (materialize_round_atomic run_id (fr_id round) now) (\<lambda>_.
         bindM (require_run run_id) (\<lambda>run.
         bindM (next_pending_round run_id) (\<lambda>nxt.
         case nxt of
           Some next \<Rightarrow> bindM (touch_tick_state run_id (fr_sequence next) (fr_cutoff_at next)) (\<lambda>_. returnM [])
         | None \<Rightarrow>
             let fix_end = unwrap_or (ar_fix_ends_at run) (now + seconds (ac_fix_duration_secs (ar_config run))) in
             bindM (attemptM (transition_phase run_id ApFix ApEnded
               (phase_patch_default\<lparr>pp_finished_at := Some fix_end, pp_current_round := Some (ar_current_round run)\<rparr>))) (\<lambda>r.
             returnM (if isl r then [] else [(ar_event_id run, ApEnded)]))))))"

definition tick_pending :: "awdp_env \<Rightarrow> awdp_run \<Rightarrow> timestamp \<Rightarrow> phase_changes pop" where
  "tick_pending env run now =
     bindM (readM (\<lambda>w. List.find (\<lambda>e. er_id e = ar_event_id run) (pw_events w))) (\<lambda>erow.
     case erow of
       None \<Rightarrow> returnM []
     | Some event \<Rightarrow>
         if er_start_time event \<le> now then
           let break_ends = now + seconds (ac_break_duration_secs (ar_config run)) in
           bindM (attemptM (transition_phase (ar_id run) ApPending ApBreak
             (phase_patch_default\<lparr>pp_started_at := Some now, pp_break_ends_at := Some break_ends,
                pp_next_action_at := Some break_ends\<rparr>))) (\<lambda>r.
           case r of
             Inl _ \<Rightarrow> returnM []
           | Inr _ \<Rightarrow>
               bindM (ignoreM (start_all_event_instances env (ar_id run))) (\<lambda>_.
               returnM [(ar_event_id run, ApBreak)]))
         else returnM [])"

definition tick_run :: "awdp_env \<Rightarrow> timestamp \<Rightarrow> awdp_run \<Rightarrow> phase_changes pop" where
  "tick_run env now run =
     (case ar_phase run of
        ApPending \<Rightarrow> tick_pending env run now
      | ApBreak \<Rightarrow>
          bindM (attemptM (transition_break_to_preparing_fix (ar_id run))) (\<lambda>r.
          returnM (if isl r then [] else [(ar_event_id run, ApPreparingFix)]))
      | ApPreparingFix \<Rightarrow>
          bindM (attemptM (reconcile_preparing_fix env (ar_id run))) (\<lambda>r.
          returnM (if r = Inr True then [(ar_event_id run, ApFix)] else []))
      | ApFix \<Rightarrow>
          bindM (readM (\<lambda>w. rounds_by_sequence (\<lambda>r. fr_run_id r = ar_id run) w)) (\<lambda>rounds.
          bindM (whenM (rounds = []) (materialize_rounds (ar_id run))) (\<lambda>_.
          process_fix_round_cutoffs (ar_id run) now))
      | ApEnded \<Rightarrow> returnM [])"

definition tick_once :: "awdp_env \<Rightarrow> phase_changes pop" where
  "tick_once env =
     bindM p_now (\<lambda>now.
     bindM (find_unstarted_awdp_events now 10) (\<lambda>unstarted.
     bindM (forM unstarted auto_create_run) (\<lambda>_.
     bindM (find_due_runs now 10) (\<lambda>due.
     bindM (collectM (tick_run env now) due) (\<lambda>changes.
     bindM complete_finished_rounds (\<lambda>_.
     returnM (concat changes)))))))"

definition awdp_tick_run :: "awdp_env \<Rightarrow> unit pop" where
  "awdp_tick_run env = bindM (tick_once env) (\<lambda>changes. forM changes (\<lambda>(i, ph). p_emit (AfPhaseChanged i ph)))"

section \<open>Administration of a competition\<close>

definition ensure_awdp_event :: "uuid \<Rightarrow> unit pop" where
  "ensure_awdp_event event_id =
     bindM (readM (\<lambda>w. List.find (\<lambda>e. er_id e = event_id) (pw_events w))) (\<lambda>erow.
     bindM (ok_orM erow ApNotFound) (\<lambda>event.
     bindM (guardM (er_family event = FamAwdp) ApValidation) (\<lambda>_.
     bindM (ensure_by_event_id event_id awdp_config_default) (\<lambda>_. returnM ()))))"

definition require_active_run :: "uuid \<Rightarrow> awdp_run pop" where
  "require_active_run event_id =
     bindM (find_active_competition_for_event event_id) (\<lambda>row. ok_orM row ApInvalidState)"

definition patch_awdp_config :: "uuid \<Rightarrow> awdp_config_patch \<Rightarrow> unit pop" where
  "patch_awdp_config event_id patch =
     bindM (ensure_awdp_event event_id) (\<lambda>_. update_config event_id patch)"

definition start_awdp_event :: "awdp_env \<Rightarrow> uuid \<Rightarrow> unit pop" where
  "start_awdp_event env event_id =
     bindM (ensure_awdp_event event_id) (\<lambda>_.
     bindM (readM (\<lambda>w. List.find (\<lambda>a. aw_event_id a = event_id) (pw_awdp_events w))) (\<lambda>arow.
     bindM (ok_orM arow ApNotFound) (\<lambda>row.
     let config = aw_config row in
     bindM (create_competition_run event_id config) (\<lambda>run.
     if ar_phase run = ApPending then
       bindM p_now (\<lambda>now.
       let break_ends = now + seconds (ac_break_duration_secs config) in
       bindM (transition_phase (ar_id run) ApPending ApBreak
         (phase_patch_default\<lparr>pp_started_at := Some now, pp_break_ends_at := Some break_ends,
            pp_next_action_at := Some break_ends\<rparr>)) (\<lambda>_.
       bindM (p_emit (AfPhaseChanged event_id ApBreak)) (\<lambda>_.
       ignoreM (start_all_event_instances env (ar_id run)))))
     else returnM ()))))"

definition admin_break_to_fix :: "awdp_env \<Rightarrow> uuid \<Rightarrow> unit pop" where
  "admin_break_to_fix env event_id =
     bindM (ensure_awdp_event event_id) (\<lambda>_.
     bindM (require_active_run event_id) (\<lambda>run.
     bindM (transition_break_to_fix env (ar_id run)) (\<lambda>_.
     p_emit (AfPhaseChanged event_id ApFix))))"

text \<open>The clean-up of the event network at the end is a step on the host.\<close>

definition finish_awdp_event :: "awdp_env \<Rightarrow> uuid \<Rightarrow> unit pop" where
  "finish_awdp_event env event_id =
     bindM (ensure_awdp_event event_id) (\<lambda>_.
     bindM (require_active_run event_id) (\<lambda>run.
     bindM p_now (\<lambda>now.
     bindM (transition_phase (ar_id run) ApFix ApEnded (phase_patch_default\<lparr>pp_finished_at := Some now\<rparr>)) (\<lambda>_.
     bindM (p_emit (AfPhaseChanged event_id ApEnded)) (\<lambda>_.
     ignoreM (stop_all_run_instances env (ar_id run)))))))"

section \<open>Practice runs\<close>

definition require_trainable_gamebox :: "uuid \<Rightarrow> awdp_gamebox pop" where
  "require_trainable_gamebox gamebox_id =
     bindM (find_gamebox_identity gamebox_id) (\<lambda>gamebox.
     bindM (guardM (\<not> gb_hidden gamebox) ApNotFound) (\<lambda>_.
     bindM (guardM (gx_build_status gamebox = Some build_status_ready) ApValidation) (\<lambda>_.
     bindM (guardM (gb_awdp_source_artifact_key gamebox \<noteq> None) ApValidation) (\<lambda>_.
     returnM gamebox))))"

text \<open>
  The virtual event of the practice is part of the seeded data; its creation on first use is left out.
\<close>

definition practice_start_training :: "awdp_env \<Rightarrow> uuid \<Rightarrow> uuid \<Rightarrow> awdp_run pop" where
  "practice_start_training env user_id gamebox_id =
     bindM (require_trainable_gamebox gamebox_id) (\<lambda>_.
     bindM (find_active_practice_for gamebox_id user_id) (\<lambda>active.
     case active of
       Some run \<Rightarrow> returnM run
     | None \<Rightarrow>
         bindM (config_snapshot (pe_practice_event env)) (\<lambda>config.
         bindM (create_practice_run (pe_practice_event env) gamebox_id user_id config) (\<lambda>run.
         bindM (find_for_event_and_gamebox (ar_event_id run) gamebox_id) (\<lambda>mounted.
         bindM (whenM (mounted = None)
           (bindM p_new_uuid (\<lambda>i. modifyM (\<lambda>w. w\<lparr>pw_event_gameboxes := pw_event_gameboxes w @
              [\<lparr>ag_id = i, ag_event_id = ar_event_id run, ag_gamebox_id = gamebox_id, ag_hidden = False\<rparr>]\<rparr>)))) (\<lambda>_.
         returnM run))))))"

definition practice_train_again :: "awdp_env \<Rightarrow> uuid \<Rightarrow> uuid \<Rightarrow> awdp_run pop" where
  "practice_train_again env user_id old_run_id =
     bindM (require_run old_run_id) (\<lambda>old.
     bindM (guardM (ar_owner_user_id old = Some user_id) ApForbidden) (\<lambda>_.
     bindM (guardM (ar_phase old = ApEnded) ApInvalidState) (\<lambda>_.
     bindM (ok_orM (ar_gamebox_id old) ApInternal) (\<lambda>gamebox_id.
     practice_start_training env user_id gamebox_id))))"

definition require_owned_run :: "uuid \<Rightarrow> uuid \<Rightarrow> awdp_run pop" where
  "require_owned_run run_id user_id =
     bindM (require_run run_id) (\<lambda>run.
     bindM (guardM (ar_owner_user_id run = Some user_id) ApForbidden) (\<lambda>_. returnM run))"

definition practice_start_run :: "awdp_env \<Rightarrow> uuid \<Rightarrow> uuid \<Rightarrow> unit pop" where
  "practice_start_run env run_id user_id =
     bindM (require_owned_run run_id user_id) (\<lambda>run.
     bindM (guardM (ar_phase run \<noteq> ApEnded) ApInvalidState) (\<lambda>_.
     bindM (ok_orM (ar_gamebox_id run) ApInvalidState) (\<lambda>gamebox_id.
     bindM (whenM (ar_phase run = ApPending) (launch_practice_run (ar_id run))) (\<lambda>_.
     start_instance env (ar_id run) gamebox_id (subject_user user_id)))))"

fun stop_owned :: "awdp_env \<Rightarrow> subject \<Rightarrow> (event_instance \<times> awdp_instance) list \<Rightarrow> unit pop" where
  "stop_owned env s [] = returnM ()"
| "stop_owned env s ((i, x) # xs) = bindM (stop_instance env (ei_id i) s) (\<lambda>_. stop_owned env s xs)"

definition practice_stop_run :: "awdp_env \<Rightarrow> uuid \<Rightarrow> uuid \<Rightarrow> unit pop" where
  "practice_stop_run env run_id user_id =
     bindM (require_owned_run run_id user_id) (\<lambda>run.
     bindM (list_instances_for_run run_id) (\<lambda>rows. stop_owned env (subject_user user_id) rows))"

definition practice_reset_run :: "awdp_env \<Rightarrow> uuid \<Rightarrow> uuid \<Rightarrow> unit pop" where
  "practice_reset_run env run_id user_id =
     bindM (require_owned_run run_id user_id) (\<lambda>run. reset_all_run_instances env (ar_id run))"

definition practice_end_run :: "awdp_env \<Rightarrow> uuid \<Rightarrow> uuid \<Rightarrow> unit pop" where
  "practice_end_run env run_id user_id =
     bindM (require_owned_run run_id user_id) (\<lambda>run.
     bindM (guardM (ar_gamebox_id run \<noteq> None) ApInvalidState) (\<lambda>_.
     bindM (guardM (ar_phase run \<notin> {ApPending, ApEnded}) ApInvalidState) (\<lambda>_.
     bindM (list_instances_for_run (ar_id run)) (\<lambda>rows.
     bindM (stop_owned env (subject_user user_id) rows) (\<lambda>_.
     end_practice_session (ar_id run))))))"

definition practice_set_phase :: "awdp_env \<Rightarrow> uuid \<Rightarrow> uuid \<Rightarrow> string \<Rightarrow> unit pop" where
  "practice_set_phase env run_id user_id target =
     bindM (require_owned_run run_id user_id) (\<lambda>run.
     bindM (guardM (ar_gamebox_id run \<noteq> None) ApInvalidState) (\<lambda>_.
     if target = ''fix'' then
       (case ar_phase run of
          ApFix \<Rightarrow> returnM ()
        | ApBreak \<Rightarrow>
            bindM (transition_break_to_fix env (ar_id run)) (\<lambda>_. p_emit (AfPhaseChanged (ar_id run) ApFix))
        | _ \<Rightarrow> throwM ApInvalidState)
     else if target = ''break'' then
       (case ar_phase run of
          ApBreak \<Rightarrow> returnM ()
        | ApFix \<Rightarrow>
            bindM (transition_fix_to_break (ar_id run)) (\<lambda>_. p_emit (AfPhaseChanged (ar_id run) ApBreak))
        | _ \<Rightarrow> throwM ApInvalidState)
     else throwM ApValidation))"

end
