(* ===== verification/Awdp_Play.thy ===== *)
theory Awdp_Play
  imports Awdp_Runtime
begin

text \<open>
  What players, workers and JudgeServers do in an AWDP run: submit a Flag in Break
  (\<open>service/break_service.rs\<close>), apply a patch in Fix (\<open>service/patch_service.rs\<close>), have it checked
  (\<open>service/evaluation.rs\<close>, \<open>service/judge_worker.rs\<close>), and the board (\<open>service/scoreboard.rs\<close>). A
  script run answers the rows of the checker's output, \<open>Inr (Inr rows)\<close>, an output that does not
  parse, \<open>Inr (Inl ())\<close>, or a runner that failed, \<open>Inl ()\<close>.
\<close>

section \<open>Break\<close>

record break_submission_result =
  br_accepted :: bool
  br_scored :: bool
  br_already_broken :: bool

text \<open>
  \<open>str::trim\<close> removes white space at both ends. A subject that is not exactly one owner makes the
  derivation of the Flag panic, which ends the request without any write; it is \<open>ApInternal\<close> here.
\<close>

definition is_space :: "char \<Rightarrow> bool" where
  "is_space c \<longleftrightarrow> c \<in> set [CHR '' '', CHR 0x09, CHR 0x0A, CHR 0x0B, CHR 0x0C, CHR 0x0D]"

definition str_trim :: "string \<Rightarrow> string" where
  "str_trim s = rev (dropWhile is_space (rev (dropWhile is_space s)))"

definition expected_flag :: "awdp_env \<Rightarrow> uuid \<Rightarrow> uuid \<Rightarrow> subject \<Rightarrow> string option" where
  "expected_flag env run_id gamebox_id subject =
     awdp_flag (pe_uuid_text env) (pe_hkdf env) (pe_hmac_hex env) (pe_jwt_secret env) run_id gamebox_id
       (sj_user_id subject) (sj_team_id subject) (pe_flag_prefix env)"

definition awdp_submit_flag :: "awdp_env \<Rightarrow> uuid \<Rightarrow> uuid \<Rightarrow> string \<Rightarrow> subject \<Rightarrow> break_submission_result pop" where
  "awdp_submit_flag env run_id gamebox_id flag subject =
     bindM (require_run run_id) (\<lambda>run.
     bindM (guardM (ar_phase run = ApBreak) ApInvalidState) (\<lambda>_.
     bindM (guardM (ar_gamebox_id run = None \<or> ar_gamebox_id run = Some gamebox_id) ApValidation) (\<lambda>_.
     bindM (ok_orM (expected_flag env run_id gamebox_id subject) ApInternal) (\<lambda>expected.
     if str_trim flag \<noteq> expected then
       returnM \<lparr>br_accepted = False, br_scored = False, br_already_broken = False\<rparr>
     else
       bindM (record_break run_id gamebox_id (sj_user_id subject) (sj_team_id subject) (pe_sha256_hex env expected)) (\<lambda>first_time.
       if \<not> first_time then returnM \<lparr>br_accepted = True, br_scored = False, br_already_broken = True\<rparr>
       else
         bindM (ok_orM (break_idempotency_key (pe_uuid_text env) run_id gamebox_id (sj_user_id subject) (sj_team_id subject)) ApInternal) (\<lambda>key.
         bindM (create_awdp_score run_id (sj_user_id subject) (sj_team_id subject) gamebox_id ''break'' None
           (ac_break_score (ar_config run)) key) (\<lambda>_.
         returnM \<lparr>br_accepted = True, br_scored = True, br_already_broken = False\<rparr>)))))))"

section \<open>Patches\<close>

definition patch_exec_timeout_secs :: int where "patch_exec_timeout_secs = 60"

datatype patch_result = PrApplied | PrFailed

text \<open>
  The steps on the container: the upload and the restart answer through \<open>pe_docker\<close>, the run of
  \<open>patch.sh\<close> through \<open>pe_exec\<close> (whether it left with code 0 in time, or a failure of the runtime).
\<close>

definition patch_on_container :: "awdp_env \<Rightarrow> event_instance \<Rightarrow> uuid \<Rightarrow> patch_result pop" where
  "patch_on_container env inst submission_id =
     bindM (attemptM (dockerM env (AfPatch submission_id))) (\<lambda>copied.
     case copied of
       Inl _ \<Rightarrow> bindM (finish_apply submission_id False) (\<lambda>_. throwM ApDocker)
     | Inr _ \<Rightarrow>
         bindM (readM (\<lambda>w. pe_exec env (pw_log w) (AfPatch submission_id))) (\<lambda>ran.
         case ran of
           Inl _ \<Rightarrow> throwM ApDocker
         | Inr exit_ok \<Rightarrow>
             if \<not> exit_ok then
               bindM (finish_apply submission_id False) (\<lambda>_. returnM PrFailed)
             else
               bindM (attemptM (dockerM env (AfRestart (ei_id inst)))) (\<lambda>restarted.
               case restarted of
                 Inl _ \<Rightarrow> bindM (finish_apply submission_id False) (\<lambda>_. throwM ApDocker)
               | Inr _ \<Rightarrow> bindM (finish_apply submission_id True) (\<lambda>_. returnM PrApplied))))"

definition apply_patch :: "awdp_env \<Rightarrow> uuid \<Rightarrow> uuid \<Rightarrow> subject \<Rightarrow> patch_result pop" where
  "apply_patch env run_id instance_id subject =
     bindM (require_run run_id) (\<lambda>run.
     bindM (guardM (ar_phase run = ApFix) ApInvalidState) (\<lambda>_.
     bindM p_now (\<lambda>now.
     bindM (recover_stale_applying instance_id (now - seconds (patch_exec_timeout_secs + 30))) (\<lambda>_.
     bindM (current_open_round run_id now) (\<lambda>open_row.
     bindM (ok_orM open_row ApInvalidState) (\<lambda>round.
     bindM (next_due_round run_id) (\<lambda>prior.
     bindM (case prior of
              None \<Rightarrow> returnM False
            | Some p \<Rightarrow>
                if fr_id p \<noteq> fr_id round \<and> fr_status p \<noteq> FrCompleted
                then has_unfinished_for_instance instance_id (fr_id p) else returnM False) (\<lambda>judging.
     bindM (guardM (\<not> judging) ApConflict) (\<lambda>_.
     bindM (create_patch run_id instance_id (fr_id round) (sj_user_id subject) (sj_team_id subject)) (\<lambda>submission.
     bindM (find_by_instance_id instance_id) (\<lambda>(inst, ext).
     if ei_runtime_state inst \<noteq> ''running'' then
       bindM (finish_apply (pt_id submission) False) (\<lambda>_. throwM ApInvalidState)
     else
       bindM (find_gamebox_identity (ai_gamebox_id ext)) (\<lambda>_.
       patch_on_container env inst (pt_id submission)))))))))))))"

section \<open>Checks\<close>

text \<open>The row of the target among the rows a script printed, or else the first row.\<close>

definition target_row :: "string \<Rightarrow> (string \<times> bool) list \<Rightarrow> (string \<times> bool) option" where
  "target_row ip rows =
     (case List.find (\<lambda>r. fst r = ip \<or> fst r = []) rows of Some r \<Rightarrow> Some r | None \<Rightarrow> first_row rows)"

definition script_verdict :: "string \<Rightarrow> (unit + (string \<times> bool) list) \<Rightarrow> bool" where
  "script_verdict ip out =
     (case out of
        Inl _ \<Rightarrow> False
      | Inr rows \<Rightarrow> (case target_row ip rows of Some r \<Rightarrow> snd r | None \<Rightarrow> False))"

definition run_script_on :: "awdp_env \<Rightarrow> awdp_effect \<Rightarrow> string \<Rightarrow> bool pop" where
  "run_script_on env fx ip = (\<lambda>w.
     (case pe_script env (pw_log w) fx of Inl _ \<Rightarrow> Inl ApInternal | Inr out \<Rightarrow> Inr (script_verdict ip out),
      w\<lparr>pw_log := pw_log w @ [fx]\<rparr>))"

definition container_ip_of :: "awdp_env \<Rightarrow> event_instance \<Rightarrow> string option pop" where
  "container_ip_of env inst =
     (if ei_runtime_state inst = ''running''
      then map_errM (\<lambda>_. ApDocker) (\<lambda>w. (pe_container_ip env (pw_log w) (ei_container_name inst), w))
      else returnM None)"

definition run_checks :: "awdp_env \<Rightarrow> awdp_gamebox \<Rightarrow> uuid \<Rightarrow> fix_round \<Rightarrow> evaluation_status pop" where
  "run_checks env gamebox instance_id round =
     bindM (has_applied_patch instance_id (fr_id round)) (\<lambda>patched.
     if \<not> patched then returnM EsNoPatch
     else
       bindM (find_by_instance_id instance_id) (\<lambda>(inst, ext).
       bindM (require_run (fr_run_id round)) (\<lambda>_.
       bindM (container_ip_of env inst) (\<lambda>ip_row.
       case ip_row of
         None \<Rightarrow> returnM EsServiceDown
       | Some ip \<Rightarrow>
           bindM (attemptM (dockerM env (AfHealthcheck instance_id))) (\<lambda>health.
           if isl health then returnM EsServiceDown
           else
             bindM (if gb_has_judge_script gamebox then run_script_on env (AfJudge instance_id) ip else returnM False) (\<lambda>judge_ok.
             if \<not> judge_ok then returnM EsFunctionalBroken
             else
               bindM (if gb_has_exploit_script gamebox then run_script_on env (AfExploit instance_id) ip else returnM False) (\<lambda>exploit_ok.
               returnM (if exploit_ok then EsVulnerable else EsPatched))))))))"

definition fix_key :: "awdp_env \<Rightarrow> uuid \<Rightarrow> uuid \<Rightarrow> uuid \<Rightarrow> string" where
  "fix_key env run_id round_id instance_id = fix_idempotency_key (pe_uuid_text env) run_id round_id instance_id"

definition score_fix_penalty :: "awdp_env \<Rightarrow> awdp_run \<Rightarrow> uuid \<Rightarrow> awdp_instance \<Rightarrow> unit pop" where
  "score_fix_penalty env run round_id ext =
     bindM (create_awdp_score (ar_id run) (ai_owner_user_id ext) (ai_owner_team_id ext) (ai_gamebox_id ext) ''fix''
       (Some round_id) (- default_fix_round_penalty) (fix_key env (ar_id run) round_id (ai_instance_id ext))) (\<lambda>_. returnM ())"

definition score_fix_round :: "awdp_env \<Rightarrow> awdp_run \<Rightarrow> uuid \<Rightarrow> uuid \<Rightarrow> awdp_instance \<Rightarrow> unit pop" where
  "score_fix_round env run round_id instance_id ext =
     bindM (create_awdp_score (ar_id run) (ai_owner_user_id ext) (ai_owner_team_id ext) (ai_gamebox_id ext) ''fix''
       (Some round_id) (ac_fix_round_score (ar_config run)) (fix_key env (ar_id run) round_id instance_id)) (\<lambda>_. returnM ())"

text \<open>The ledger is written first; a result whose lease is gone is only logged.\<close>

definition write_result :: "awdp_env \<Rightarrow> evaluation \<Rightarrow> string \<Rightarrow> string \<Rightarrow> int \<Rightarrow> evaluation_status \<Rightarrow> unit pop" where
  "write_result env ev worker_id lease_token attempt status =
     (if lease_token = [] then finish_eval (ae_id ev) status
      else bindM (finish_with_lease env (ae_id ev) worker_id lease_token attempt status) (\<lambda>_. returnM ()))"

definition run_official_pipeline ::
  "awdp_env \<Rightarrow> awdp_run \<Rightarrow> awdp_gamebox \<Rightarrow> evaluation \<Rightarrow> fix_round \<Rightarrow> string \<Rightarrow> string \<Rightarrow> int \<Rightarrow> evaluation_status pop" where
  "run_official_pipeline env run gamebox ev round worker_id lease_token attempt =
     bindM (find_by_instance_id (ae_instance_id ev)) (\<lambda>(inst, ext).
     bindM (run_checks env gamebox (ae_instance_id ev) round) (\<lambda>status.
     if status = EsPatched then
       bindM (score_fix_round env run (fr_id round) (ae_instance_id ev) ext) (\<lambda>_.
       bindM (write_result env ev worker_id lease_token attempt EsPatched) (\<lambda>_. returnM EsPatched))
     else if status \<in> {EsNoPatch, EsServiceDown, EsFunctionalBroken, EsVulnerable} then
       bindM (whenM (ar_gamebox_id run \<noteq> None) (score_fix_penalty env run (fr_id round) ext)) (\<lambda>_.
       bindM (write_result env ev worker_id lease_token attempt status) (\<lambda>_. returnM status))
     else throwM ApInternal))"

definition process_official :: "awdp_env \<Rightarrow> string \<Rightarrow> claimed_job \<Rightarrow> unit pop" where
  "process_official env worker_id job =
     (let ev = cj_evaluation job in
      bindM (find_by_instance_id (ae_instance_id ev)) (\<lambda>(inst, ext).
      bindM (require_run (ai_run_id ext)) (\<lambda>run.
      bindM (find_gamebox_identity (ai_gamebox_id ext)) (\<lambda>gamebox.
      bindM (ok_orM (ae_fix_round_id ev) ApInternal) (\<lambda>round_id.
      bindM (find_fix_round round_id) (\<lambda>round.
      bindM (run_official_pipeline env run gamebox ev round worker_id (cj_lease_token job) (cj_attempt job)) (\<lambda>_.
      returnM ())))))))"

definition worker_job :: "awdp_env \<Rightarrow> string \<Rightarrow> int \<Rightarrow> claimed_job \<Rightarrow> unit pop" where
  "worker_job env worker_id max_attempts job =
     bindM (attemptM (process_official env worker_id job)) (\<lambda>r.
     case r of
       Inr _ \<Rightarrow> returnM ()
     | Inl _ \<Rightarrow>
         ignoreM (release_or_fail env (ae_id (cj_evaluation job)) worker_id (cj_lease_token job) (cj_attempt job) max_attempts))"

definition worker_round :: "awdp_env \<Rightarrow> string \<Rightarrow> nat \<Rightarrow> int \<Rightarrow> int \<Rightarrow> unit pop" where
  "worker_round env worker_id concurrency lease_duration_secs max_attempts =
     bindM (claim_jobs env worker_id concurrency lease_duration_secs max_attempts [EkOfficial] None) (\<lambda>jobs.
     forM jobs (worker_job env worker_id max_attempts))"

section \<open>Checks on demand\<close>

definition manual_status :: "bool \<Rightarrow> bool \<Rightarrow> bool \<Rightarrow> evaluation_status" where
  "manual_status health_ok judge_ok exploit_ok =
     (if \<not> health_ok then EsServiceDown
      else if \<not> judge_ok then EsFunctionalBroken
      else if exploit_ok then EsVulnerable
      else EsPatched)"

definition manual_check_enqueue :: "uuid \<Rightarrow> uuid \<Rightarrow> subject \<Rightarrow> evaluation pop" where
  "manual_check_enqueue run_id instance_id subject =
     bindM (require_run run_id) (\<lambda>run.
     bindM (guardM (ar_phase run = ApFix) ApInvalidState) (\<lambda>_.
     bindM (find_by_instance_id instance_id) (\<lambda>(inst, ext).
     bindM (guardM (is_owner inst subject) ApForbidden) (\<lambda>_.
     create_manual run_id instance_id))))"

text \<open>Unlike the official check this one runs all three steps before it decides.\<close>

definition manual_check_run_now :: "awdp_env \<Rightarrow> evaluation \<Rightarrow> evaluation_status pop" where
  "manual_check_run_now env ev =
     bindM (find_by_instance_id (ae_instance_id ev)) (\<lambda>(inst, ext).
     bindM (find_gamebox_identity (ai_gamebox_id ext)) (\<lambda>gamebox.
     bindM (require_run (ai_run_id ext)) (\<lambda>_.
     bindM (container_ip_of env inst) (\<lambda>ip_row.
     bindM (case ip_row of
         None \<Rightarrow> returnM EsServiceDown
       | Some ip \<Rightarrow>
           bindM (attemptM (dockerM env (AfHealthcheck (ae_instance_id ev)))) (\<lambda>health.
           bindM (if gb_has_judge_script gamebox then run_script_on env (AfJudge (ae_instance_id ev)) ip else returnM False) (\<lambda>judge_ok.
           bindM (if gb_has_exploit_script gamebox then run_script_on env (AfExploit (ae_instance_id ev)) ip else returnM False) (\<lambda>exploit_ok.
           returnM (manual_status (\<not> isl health) judge_ok exploit_ok))))) (\<lambda>status.
     bindM (finish_eval (ae_id ev) status) (\<lambda>_. returnM status))))))"

definition manual_test_check :: "awdp_env \<Rightarrow> uuid \<Rightarrow> uuid \<Rightarrow> subject \<Rightarrow> evaluation_status pop" where
  "manual_test_check env run_id instance_id subject =
     bindM (manual_check_enqueue run_id instance_id subject) (\<lambda>ev. manual_check_run_now env ev)"

definition sweep_round :: "awdp_env \<Rightarrow> awdp_run \<Rightarrow> uuid \<Rightarrow> awdp_instance \<Rightarrow> int \<Rightarrow> unit pop" where
  "sweep_round env run instance_id ext k =
     bindM (find_round_by_sequence (ar_id run) k) (\<lambda>row.
     case row of
       None \<Rightarrow> returnM ()
     | Some r \<Rightarrow>
         bindM (create_official (ar_id run) instance_id (fr_id r)) (\<lambda>ev.
         bindM (finish_eval (ae_id ev) EsPatched) (\<lambda>_.
         score_fix_round env run (fr_id r) instance_id ext)))"

definition all_check :: "awdp_env \<Rightarrow> uuid \<Rightarrow> uuid \<Rightarrow> subject \<Rightarrow> evaluation_status pop" where
  "all_check env run_id instance_id subject =
     bindM (require_run run_id) (\<lambda>run.
     bindM (guardM (ar_gamebox_id run \<noteq> None) ApInvalidState) (\<lambda>_.
     bindM (guardM (ar_phase run = ApFix) ApInvalidState) (\<lambda>_.
     bindM (find_by_instance_id instance_id) (\<lambda>(inst, ext).
     bindM (guardM (is_owner inst subject) ApForbidden) (\<lambda>_.
     bindM (next_due_round run_id) (\<lambda>row.
     bindM (ok_orM row ApInvalidState) (\<lambda>round.
     bindM (find_gamebox_identity (ai_gamebox_id ext)) (\<lambda>gamebox.
     bindM (run_checks env gamebox instance_id round) (\<lambda>status.
     if status \<noteq> EsPatched then returnM status
     else
       bindM (forM [fr_sequence round..ar_total_rounds run] (sweep_round env run instance_id ext)) (\<lambda>_.
       bindM (end_practice_session run_id) (\<lambda>_.
       bindM (ignoreM (stop_all_run_instances env run_id)) (\<lambda>_.
       returnM status))))))))))))"

section \<open>The interface of the JudgeServer\<close>

definition parse_terminal_status :: "string \<Rightarrow> awdp_error + evaluation_status" where
  "parse_terminal_status s =
     (if s = ''no_patch'' then Inr EsNoPatch
      else if s = ''service_down'' then Inr EsServiceDown
      else if s = ''functional_broken'' then Inr EsFunctionalBroken
      else if s = ''vulnerable'' then Inr EsVulnerable
      else if s = ''patched'' then Inr EsPatched
      else if s = ''platform_error'' then Inr EsPlatformError
      else Inl ApValidation)"

text \<open>
  The answer to a claim: the jobs to run, without those whose round has no applied patch, which are
  settled at once. The payload of a job (target address, scripts, proof) is left out.
\<close>

definition prepare_job :: "awdp_env \<Rightarrow> string \<Rightarrow> claimed_job \<Rightarrow> claimed_job list pop" where
  "prepare_job env worker_id job =
     (let ev = cj_evaluation job in
      bindM (find_by_instance_id (ae_instance_id ev)) (\<lambda>(inst, ext).
      bindM (require_run (ai_run_id ext)) (\<lambda>run.
      bindM (find_gamebox_identity (ai_gamebox_id ext)) (\<lambda>_.
      bindM (case (ae_kind ev, ae_fix_round_id ev) of
               (EkOfficial, Some round_id) \<Rightarrow> bindM (has_applied_patch (ae_instance_id ev) round_id) (\<lambda>p. returnM (if p then None else Some round_id))
             | _ \<Rightarrow> returnM None) (\<lambda>unpatched.
      case unpatched of
        None \<Rightarrow> returnM [job]
      | Some round_id \<Rightarrow>
          bindM (whenM (ar_gamebox_id run \<noteq> None) (score_fix_penalty env run round_id ext)) (\<lambda>_.
          bindM (finish_with_lease env (ae_id ev) worker_id (cj_lease_token job) (cj_attempt job) EsNoPatch) (\<lambda>_.
          returnM [])))))))"

definition judge_claim_jobs ::
  "awdp_env \<Rightarrow> string \<Rightarrow> nat \<Rightarrow> int \<Rightarrow> int \<Rightarrow> uuid option \<Rightarrow> claimed_job list pop" where
  "judge_claim_jobs env worker_id capacity lease_seconds max_attempts event_id =
     bindM (claim_jobs env worker_id capacity lease_seconds max_attempts [EkOfficial] event_id) (\<lambda>claimed.
     bindM (collectM (prepare_job env worker_id) claimed) (\<lambda>jobs. returnM (concat jobs)))"

definition judge_jobs_claim ::
  "awdp_env \<Rightarrow> string \<Rightarrow> nat \<Rightarrow> int \<Rightarrow> int \<Rightarrow> uuid option \<Rightarrow> claimed_job list pop" where
  "judge_jobs_claim env worker_id capacity lease_seconds max_attempts event_id =
     bindM (guardM (str_trim worker_id \<noteq> []) ApValidation) (\<lambda>_.
     bindM (guardM (\<not> (capacity = 0 \<or> capacity > 64)) ApValidation) (\<lambda>_.
     judge_claim_jobs env worker_id capacity lease_seconds max_attempts event_id))"

record result_request =
  rq_evaluation_id :: uuid
  rq_worker_id :: string
  rq_lease_token :: string
  rq_attempt :: int
  rq_runtime_generation :: int
  rq_status :: string

definition record_result :: "awdp_env \<Rightarrow> result_request \<Rightarrow> int \<Rightarrow> unit pop" where
  "record_result env req max_attempts =
     bindM (find_eval (rq_evaluation_id req)) (\<lambda>ev.
     bindM (find_by_instance_id (ae_instance_id ev)) (\<lambda>(inst, ext).
     bindM (guardM (ei_runtime_generation inst = rq_runtime_generation req) ApConflict) (\<lambda>_.
     bindM (liftM (parse_terminal_status (rq_status req))) (\<lambda>status.
     if status = EsPlatformError then
       bindM (release_or_fail env (rq_evaluation_id req) (rq_worker_id req) (rq_lease_token req) (rq_attempt req) max_attempts) (\<lambda>outcome.
       guardM (outcome = FoOk) ApConflict)
     else
       bindM (finish_with_lease env (rq_evaluation_id req) (rq_worker_id req) (rq_lease_token req) (rq_attempt req) status) (\<lambda>outcome.
       bindM (guardM (outcome = FoOk) ApConflict) (\<lambda>_.
       if status = EsPatched \<and> ae_kind ev = EkOfficial then
         bindM (ok_orM (ae_fix_round_id ev) ApInternal) (\<lambda>round_id.
         bindM (require_run (ae_run_id ev)) (\<lambda>run.
         score_fix_round env run round_id (ae_instance_id ev) ext))
       else returnM ()))))))"

section \<open>The board\<close>

record awdp_score_row =
  sr_subject_id :: uuid
  sr_break_score :: int
  sr_fix_score :: int
  sr_total_score :: int
  sr_rank :: nat

text \<open>The two sums of a subject over all runs of the event, by the type of the entry.\<close>

definition scoreboard_sums :: "awdp_world \<Rightarrow> uuid \<Rightarrow> uuid option \<Rightarrow> uuid option \<Rightarrow> int \<times> int" where
  "scoreboard_sums w event_id user_id team_id =
     (let mine = filter (\<lambda>s. (\<exists>r \<in> set (pw_runs w). ar_event_id r = event_id \<and> ar_id r = ax_run_id s)
                   \<and> ax_user_id s = user_id \<and> ax_team_id s = team_id) (pw_scores w) in
      (sum_list (map ax_delta (filter (\<lambda>s. ax_score_type s = ''break'') mine)),
       sum_list (map ax_delta (filter (\<lambda>s. ax_score_type s \<noteq> ''break'') mine))))"

definition score_row :: "uuid \<Rightarrow> int \<times> int \<Rightarrow> awdp_score_row" where
  "score_row i sums = \<lparr>sr_subject_id = i, sr_break_score = fst sums, sr_fix_score = snd sums,
     sr_total_score = fst sums + snd sums, sr_rank = 0\<rparr>"

fun awdp_assign_ranks :: "nat \<Rightarrow> nat \<Rightarrow> int option \<Rightarrow> awdp_score_row list \<Rightarrow> awdp_score_row list" where
  "awdp_assign_ranks i rank prev [] = []"
| "awdp_assign_ranks i rank prev (r # rs) =
     (let rank' = (case prev of None \<Rightarrow> rank | Some p \<Rightarrow> if sr_total_score r < p then i + 1 else rank)
      in r\<lparr>sr_rank := rank'\<rparr> # awdp_assign_ranks (i + 1) rank' (Some (sr_total_score r)) rs)"

definition awdp_get_scoreboard :: "event_row \<Rightarrow> awdp_score_row list pop" where
  "awdp_get_scoreboard event =
     readM (\<lambda>w.
       let rows = (case er_participant_mode event of
             PmIndividual \<Rightarrow> map (\<lambda>u. score_row (eu_user_id u) (scoreboard_sums w (er_id event) (Some (eu_user_id u)) None))
               (filter (\<lambda>u. eu_event_id u = er_id event) (pw_users w))
           | PmTeam \<Rightarrow> map (\<lambda>t. score_row (tm_id t) (scoreboard_sums w (er_id event) None (Some (tm_id t))))
               (filter (\<lambda>t. tm_event_id t = er_id event) (pw_teams w)))
       in awdp_assign_ranks 0 1 None (sort_key (\<lambda>r. - sr_total_score r) rows))"

section \<open>Players of a competition\<close>

definition require_event_participant :: "uuid \<Rightarrow> uuid \<Rightarrow> unit pop" where
  "require_event_participant event_id user_id =
     bindM (readM (\<lambda>w. List.find (\<lambda>u. eu_event_id u = event_id \<and> eu_user_id u = user_id) (pw_users w))) (\<lambda>row.
     bindM (ok_orM row ApForbidden) (\<lambda>p. guardM (\<not> eu_banned p) ApForbidden))"

definition require_event_team_participant :: "uuid \<Rightarrow> uuid \<Rightarrow> uuid pop" where
  "require_event_team_participant event_id user_id =
     bindM (readM (\<lambda>w. List.find (\<lambda>m. mb_event_id m = event_id \<and> mb_user_id m = user_id) (pw_members w))) (\<lambda>mrow.
     bindM (ok_orM mrow ApForbidden) (\<lambda>m.
     bindM (readM (\<lambda>w. List.find (\<lambda>t. tm_id t = mb_team_id m \<and> tm_event_id t = event_id) (pw_teams w))) (\<lambda>trow.
     bindM (ok_orM trow ApForbidden) (\<lambda>team.
     bindM (guardM (\<not> tm_banned team) ApForbidden) (\<lambda>_. returnM (tm_id team))))))"

definition resolve_subject :: "uuid \<Rightarrow> uuid \<Rightarrow> subject pop" where
  "resolve_subject event_id user_id =
     bindM (readM (\<lambda>w. List.find (\<lambda>e. er_id e = event_id) (pw_events w))) (\<lambda>erow.
     bindM (ok_orM erow ApNotFound) (\<lambda>event.
     if er_participant_mode event = PmTeam then
       bindM (require_event_team_participant event_id user_id) (\<lambda>t. returnM (subject_team t))
     else
       bindM (require_event_participant event_id user_id) (\<lambda>_. returnM (subject_user user_id))))"

text \<open>What every player request of a competition resolves first: subject, active run, mounted GameBox.\<close>

definition player_context :: "uuid \<Rightarrow> uuid \<Rightarrow> uuid \<Rightarrow> (subject \<times> awdp_run \<times> awdp_event_gamebox) pop" where
  "player_context event_id mount_id user_id =
     bindM (resolve_subject event_id user_id) (\<lambda>subject.
     bindM (find_active_competition_for_event event_id) (\<lambda>rrow.
     bindM (ok_orM rrow ApInvalidState) (\<lambda>run.
     bindM (readM (\<lambda>w. List.find (\<lambda>g. ag_id g = mount_id) (pw_event_gameboxes w))) (\<lambda>grow.
     bindM (ok_orM grow ApNotFound) (\<lambda>eg. returnM (subject, run, eg))))))"

definition my_instance_id :: "subject \<times> awdp_run \<times> awdp_event_gamebox \<Rightarrow> uuid pop" where
  "my_instance_id c = (case c of (subject, run, eg) \<Rightarrow>
     bindM (find_instance_for_subject (ar_id run) (ag_gamebox_id eg) (sj_user_id subject) (sj_team_id subject)) (\<lambda>found.
     bindM (ok_orM found ApNotFound) (\<lambda>(inst, ext). returnM (ei_id inst))))"

definition start_my_instance :: "awdp_env \<Rightarrow> uuid \<Rightarrow> uuid \<Rightarrow> uuid \<Rightarrow> unit pop" where
  "start_my_instance env event_id mount_id user_id =
     bindM (player_context event_id mount_id user_id) (\<lambda>(subject, run, eg).
     start_instance env (ar_id run) (ag_gamebox_id eg) subject)"

definition stop_my_instance :: "awdp_env \<Rightarrow> uuid \<Rightarrow> uuid \<Rightarrow> uuid \<Rightarrow> unit pop" where
  "stop_my_instance env event_id mount_id user_id =
     bindM (player_context event_id mount_id user_id) (\<lambda>c.
     bindM (my_instance_id c) (\<lambda>i. stop_instance env i (fst c)))"

definition reset_my_instance :: "awdp_env \<Rightarrow> uuid \<Rightarrow> uuid \<Rightarrow> uuid \<Rightarrow> unit pop" where
  "reset_my_instance env event_id mount_id user_id =
     bindM (player_context event_id mount_id user_id) (\<lambda>c.
     bindM (my_instance_id c) (\<lambda>i. reset_instance env i (fst c)))"

definition submit_break_flag :: "awdp_env \<Rightarrow> uuid \<Rightarrow> uuid \<Rightarrow> uuid \<Rightarrow> string \<Rightarrow> break_submission_result pop" where
  "submit_break_flag env event_id mount_id user_id flag =
     bindM (player_context event_id mount_id user_id) (\<lambda>(subject, run, eg).
     awdp_submit_flag env (ar_id run) (ag_gamebox_id eg) flag subject)"

definition upload_patch :: "awdp_env \<Rightarrow> uuid \<Rightarrow> uuid \<Rightarrow> uuid \<Rightarrow> patch_result pop" where
  "upload_patch env event_id mount_id user_id =
     bindM (player_context event_id mount_id user_id) (\<lambda>c.
     bindM (my_instance_id c) (\<lambda>i. apply_patch env (ar_id (fst (snd c))) i (fst c)))"

end
