(* ===== verification/Awdp_System.thy ===== *)
theory Awdp_System
  imports Awdp_Play
begin

text \<open>
  The AWDP mode as one state machine: the scheduler's tick and worker, the requests of
  administrators, players, training users and JudgeServers, and the passing of time, in any order.
  The locale \<open>awdp_invariant\<close> states what an invariant has to survive (the writes of the
  repositories) and shows that it then survives every request; the contracts of the single tables
  extend to it by \<open>sublocale\<close>.
\<close>

section \<open>The machine\<close>

definition player_test_check :: "awdp_env \<Rightarrow> uuid \<Rightarrow> uuid \<Rightarrow> uuid \<Rightarrow> evaluation_status pop" where
  "player_test_check env event_id mount_id user_id =
     bindM (player_context event_id mount_id user_id) (\<lambda>c.
     bindM (my_instance_id c) (\<lambda>i. manual_test_check env (ar_id (fst (snd c))) i (fst c)))"

text \<open>The training endpoints act on the GameBox of the run and the instance of its owner.\<close>

definition training_context :: "uuid \<Rightarrow> uuid \<Rightarrow> (awdp_run \<times> uuid) pop" where
  "training_context run_id user_id =
     bindM (require_owned_run run_id user_id) (\<lambda>run.
     bindM (ok_orM (ar_gamebox_id run) ApInternal) (\<lambda>gamebox_id. returnM (run, gamebox_id)))"

definition training_instance :: "uuid \<Rightarrow> uuid \<Rightarrow> uuid pop" where
  "training_instance run_id user_id =
     bindM (training_context run_id user_id) (\<lambda>(run, gamebox_id).
     bindM (find_instance_for_subject (ar_id run) gamebox_id (Some user_id) None) (\<lambda>found.
     bindM (ok_orM found ApNotFound) (\<lambda>(inst, ext). returnM (ei_id inst))))"

definition training_break_flag :: "awdp_env \<Rightarrow> uuid \<Rightarrow> uuid \<Rightarrow> string \<Rightarrow> break_submission_result pop" where
  "training_break_flag env run_id user_id flag =
     bindM (training_context run_id user_id) (\<lambda>(run, gamebox_id).
     awdp_submit_flag env (ar_id run) gamebox_id flag (subject_user user_id))"

definition training_patch :: "awdp_env \<Rightarrow> uuid \<Rightarrow> uuid \<Rightarrow> patch_result pop" where
  "training_patch env run_id user_id =
     bindM (training_instance run_id user_id) (\<lambda>i. apply_patch env run_id i (subject_user user_id))"

definition training_test_check :: "awdp_env \<Rightarrow> uuid \<Rightarrow> uuid \<Rightarrow> evaluation_status pop" where
  "training_test_check env run_id user_id =
     bindM (training_instance run_id user_id) (\<lambda>i. manual_test_check env run_id i (subject_user user_id))"

definition training_all_check :: "awdp_env \<Rightarrow> uuid \<Rightarrow> uuid \<Rightarrow> evaluation_status pop" where
  "training_all_check env run_id user_id =
     bindM (training_instance run_id user_id) (\<lambda>i. all_check env run_id i (subject_user user_id))"

definition training_reset_instance :: "awdp_env \<Rightarrow> uuid \<Rightarrow> uuid \<Rightarrow> unit pop" where
  "training_reset_instance env run_id user_id =
     bindM (training_instance run_id user_id) (\<lambda>i. reset_instance env i (subject_user user_id))"

datatype awdp_request =
    Tick
  | Worker
  | ConfigPatch uuid awdp_config_patch
  | StartCompetition uuid
  | BreakToFix uuid
  | FinishCompetition uuid
  | StartInstance uuid uuid uuid
  | StopInstance uuid uuid uuid
  | ResetInstance uuid uuid uuid
  | BreakFlag uuid uuid uuid string
  | UploadPatch uuid uuid uuid
  | TestCheck uuid uuid uuid
  | ClaimJobs string nat "uuid option"
  | JobHeartbeat uuid string string
  | JobResult result_request
  | Train uuid uuid
  | TrainAgain uuid uuid
  | TrainStart uuid uuid
  | TrainStop uuid uuid
  | TrainReset uuid uuid
  | TrainEnd uuid uuid
  | TrainPhase uuid uuid string
  | TrainFlag uuid uuid string
  | TrainPatch uuid uuid
  | TrainCheck uuid uuid
  | TrainAllCheck uuid uuid
  | TrainResetInstance uuid uuid
  | Later int

fun awdp_serve :: "awdp_env \<Rightarrow> awdp_request \<Rightarrow> awdp_world \<Rightarrow> awdp_world" where
  "awdp_serve env Tick w = snd (awdp_tick_run env w)"
| "awdp_serve env Worker w =
     snd (worker_round env ''floatctf-api-worker'' 4 (pe_eval_lease_duration_secs env) (pe_eval_max_attempts env) w)"
| "awdp_serve env (ConfigPatch e p) w = snd (patch_awdp_config e p w)"
| "awdp_serve env (StartCompetition e) w = snd (start_awdp_event env e w)"
| "awdp_serve env (BreakToFix e) w = snd (admin_break_to_fix env e w)"
| "awdp_serve env (FinishCompetition e) w = snd (finish_awdp_event env e w)"
| "awdp_serve env (StartInstance e g u) w = snd (start_my_instance env e g u w)"
| "awdp_serve env (StopInstance e g u) w = snd (stop_my_instance env e g u w)"
| "awdp_serve env (ResetInstance e g u) w = snd (reset_my_instance env e g u w)"
| "awdp_serve env (BreakFlag e g u f) w = snd (submit_break_flag env e g u f w)"
| "awdp_serve env (UploadPatch e g u) w = snd (upload_patch env e g u w)"
| "awdp_serve env (TestCheck e g u) w = snd (player_test_check env e g u w)"
| "awdp_serve env (ClaimJobs wk n ev) w =
     snd (judge_jobs_claim env wk n (pe_eval_lease_duration_secs env) (pe_eval_max_attempts env) ev w)"
| "awdp_serve env (JobHeartbeat i wk t) w = snd (eval_heartbeat env i wk t (pe_eval_lease_duration_secs env) w)"
| "awdp_serve env (JobResult req) w = snd (record_result env req (pe_eval_max_attempts env) w)"
| "awdp_serve env (Train u g) w = snd (practice_start_training env u g w)"
| "awdp_serve env (TrainAgain u r) w = snd (practice_train_again env u r w)"
| "awdp_serve env (TrainStart r u) w = snd (practice_start_run env r u w)"
| "awdp_serve env (TrainStop r u) w = snd (practice_stop_run env r u w)"
| "awdp_serve env (TrainReset r u) w = snd (practice_reset_run env r u w)"
| "awdp_serve env (TrainEnd r u) w = snd (practice_end_run env r u w)"
| "awdp_serve env (TrainPhase r u t) w = snd (practice_set_phase env r u t w)"
| "awdp_serve env (TrainFlag r u f) w = snd (training_break_flag env r u f w)"
| "awdp_serve env (TrainPatch r u) w = snd (training_patch env r u w)"
| "awdp_serve env (TrainCheck r u) w = snd (training_test_check env r u w)"
| "awdp_serve env (TrainAllCheck r u) w = snd (training_all_check env r u w)"
| "awdp_serve env (TrainResetInstance r u) w = snd (training_reset_instance env r u w)"
| "awdp_serve env (Later d) w = w\<lparr>pw_now := pw_now w + max d 0\<rparr>"

inductive awdp_reach :: "awdp_env \<Rightarrow> awdp_world \<Rightarrow> awdp_world \<Rightarrow> bool" for env w0 where
  start: "awdp_reach env w0 w0"
| serve: "awdp_reach env w0 w \<Longrightarrow> awdp_reach env w0 (awdp_serve env q w)"

section \<open>How the repositories write\<close>

text \<open>How a request may change the row of a run, and how it may change an evaluation.\<close>

definition run_move :: "awdp_run \<Rightarrow> awdp_run \<Rightarrow> bool" where
  "run_move r r' \<longleftrightarrow>
     ar_id r' = ar_id r \<and> ar_event_id r' = ar_event_id r \<and> ar_gamebox_id r' = ar_gamebox_id r
     \<and> ar_owner_user_id r' = ar_owner_user_id r \<and> ar_config r' = ar_config r \<and> ar_total_rounds r' = ar_total_rounds r
     \<and> (ar_phase r' = ar_phase r \<or> awdp_can_transition_to (ar_phase r) (ar_phase r')
        \<or> ar_gamebox_id r \<noteq> None \<and> (ar_phase r = ApFix \<and> ar_phase r' = ApBreak \<or> ar_phase r' = ApEnded))"

definition terminal_status :: "evaluation_status \<Rightarrow> bool" where
  "terminal_status s \<longleftrightarrow> s \<notin> {EsPending, EsRunning}"

definition eval_move :: "int \<Rightarrow> evaluation \<Rightarrow> evaluation \<Rightarrow> bool" where
  "eval_move m e e' \<longleftrightarrow>
     ae_id e' = ae_id e \<and> ae_instance_id e' = ae_instance_id e \<and> ae_fix_round_id e' = ae_fix_round_id e
     \<and> ae_kind e' = ae_kind e
     \<and> (ae_status e' = ae_status e \<and> ae_attempt_count e' = ae_attempt_count e
        \<or> ae_status e = EsPending \<and> ae_status e' = EsRunning \<and> ae_attempt_count e' = ae_attempt_count e + 1
        \<or> ae_status e = EsRunning \<and> ae_status e' = EsPending \<and> ae_attempt_count e' = ae_attempt_count e \<and> ae_attempt_count e < m
        \<or> terminal_status (ae_status e') \<and> ae_attempt_count e' = ae_attempt_count e)"

lemma require_run_run:
  "require_run i w = (case List.find (\<lambda>r. ar_id r = i) (pw_runs w) of None \<Rightarrow> (Inl ApNotFound, w) | Some r \<Rightarrow> (Inr r, w))"
  by (simp add: require_run_def run_simps)

lemma reset_unchecked_exts: "pw_exts (snd (reset_instance_unchecked env i w)) = pw_exts w"
  by (auto simp: reset_instance_unchecked_def run_simps find_by_instance_id_def require_run_def resolve_run_gamebox_spec_def
      find_gamebox_identity_def find_for_event_and_gamebox_def awdp_image_ref_def dockerM_def update_runtime_state_def
      split: option.splits sum.splits prod.splits)

lemma find_by_instance_id_run:
  "find_by_instance_id i w =
     (case List.find (\<lambda>x. ai_instance_id x = i) (pw_exts w) of
        None \<Rightarrow> (Inl ApNotFound, w)
      | Some x \<Rightarrow> (case List.find (\<lambda>j. ei_id j = i) (pw_instances w) of
            None \<Rightarrow> (Inl ApNotFound, w) | Some j \<Rightarrow> (Inr (j, x), w)))"
  by (simp add: find_by_instance_id_def run_simps split: option.splits)

lemma bindM_skip: "snd (bindM m returnM w) = snd (m w)"
  by (simp add: bindM_run returnM_run split: prod.splits sum.splits)

lemma keeps_collect: "(\<And>x. keeps I (f x)) \<Longrightarrow> keeps I (collectM f xs)"
  by (induction xs) (auto intro!: keeps_intros)

lemma bind_case_option:
  "bindM (case v of None \<Rightarrow> m | Some x \<Rightarrow> n x) f = (case v of None \<Rightarrow> bindM m f | Some x \<Rightarrow> bindM (n x) f)"
  by (cases v) simp_all

lemma keeps_lifted: "(\<And>x. r = Inr x \<Longrightarrow> keeps I (f x)) \<Longrightarrow> keeps I (bindM (liftM r) f)"
  by (cases r) (simp_all add: keeps_def bindM_run liftM_run)

lemma p_now_run: "p_now w = (Inr (pw_now w), w)"
  by (simp add: p_now_def run_simps)

lemma others_stay:
  assumes "\<forall>e \<in> set rows. e \<in> set es \<and> Q e" "\<forall>e \<in> set rows. k e \<noteq> i"
  shows "\<forall>e \<in> set rows. e \<in> set (update_where (\<lambda>e. k e = i) h es) \<and> Q e"
proof
  fix e assume "e \<in> set rows"
  then have "e \<in> set es" "Q e" "(if k e = i then h e else e) = e" using assms by auto
  then show "e \<in> set (update_where (\<lambda>e. k e = i) h es) \<and> Q e"
    using image_eqI [of e "\<lambda>r. if k r = i then h r else r" e "set es"] by (simp add: set_update_where)
qed

locale awdp_invariant =
  fixes env :: awdp_env and I :: "awdp_world \<Rightarrow> bool"
  assumes log_free: "I w \<Longrightarrow> I (w\<lparr>pw_log := l\<rparr>)"
    and clock_free: "I w \<Longrightarrow> I (w\<lparr>pw_now := t\<rparr>)"
    and id_free: "I w \<Longrightarrow> pw_next_id w \<le> n \<Longrightarrow> I (w\<lparr>pw_next_id := n\<rparr>)"
    and config_free: "I w \<Longrightarrow> I (w\<lparr>pw_awdp_events := as\<rparr>)"
    and events_free: "I w \<Longrightarrow> I (w\<lparr>pw_events := es\<rparr>)"
    and mounts_free: "I w \<Longrightarrow> I (w\<lparr>pw_event_gameboxes := gs\<rparr>)"
    and patches_free: "I w \<Longrightarrow> I (w\<lparr>pw_patches := ps\<rparr>)"
    and instances_free: "I w \<Longrightarrow> I (w\<lparr>pw_instances := is\<rparr>)"
    and rounds_free: "I w \<Longrightarrow> I (w\<lparr>pw_rounds := rs\<rparr>)"
    and run_new: "I w \<Longrightarrow> ar_phase r = ApPending \<Longrightarrow> ar_id r = pw_next_id w \<Longrightarrow>
      config_validate (ar_config r) = Inr () \<Longrightarrow> ar_total_rounds r = config_total_rounds (ar_config r) \<Longrightarrow>
      I (w\<lparr>pw_next_id := Suc (pw_next_id w), pw_runs := pw_runs w @ [r]\<rparr>)"
    and run_step: "I w \<Longrightarrow> List.find (\<lambda>x. ar_id x = i) (pw_runs w) = Some r \<Longrightarrow> run_move r (f r) \<Longrightarrow>
      I (w\<lparr>pw_runs := update_where (\<lambda>x. ar_id x = i) f (pw_runs w)\<rparr>)"
    and eval_ids: "I w \<Longrightarrow> distinct (map ae_id (pw_evals w))"
    and eval_new: "I w \<Longrightarrow> (\<And>k. fr = Some k \<Longrightarrow> \<not> official_taken k inst (pw_evals w)) \<Longrightarrow>
      I (w\<lparr>pw_next_id := Suc (pw_next_id w),
         pw_evals := pw_evals w @ [new_evaluation (pw_next_id w) run inst fr kind now]\<rparr>)"
    and eval_edit: "I w \<Longrightarrow> (\<And>e. e \<in> set (pw_evals w) \<Longrightarrow> eval_move (pe_eval_max_attempts env) e (g e)) \<Longrightarrow>
      I (w\<lparr>pw_evals := map g (pw_evals w)\<rparr>)"
    and eval_drop: "I w \<Longrightarrow> I (w\<lparr>pw_evals := filter p (pw_evals w)\<rparr>)"
    and score_new: "I w \<Longrightarrow> ax_idempotency_key s \<notin> ax_idempotency_key ` set (pw_scores w) \<Longrightarrow>
      I (w\<lparr>pw_scores := pw_scores w @ [s]\<rparr>)"
    and score_drop: "I w \<Longrightarrow> I (w\<lparr>pw_scores := filter q (pw_scores w)\<rparr>)"
    and break_new: "I w \<Longrightarrow> \<not> break_taken (ab_run_id b) (ab_gamebox_id b) (ab_user_id b) (ab_team_id b) (pw_breaks w) \<Longrightarrow>
      I (w\<lparr>pw_breaks := pw_breaks w @ [b]\<rparr>)"
    and ext_new: "I w \<Longrightarrow> ai_reset_count x = 0 \<Longrightarrow> ai_instance_id x = pw_next_id w \<Longrightarrow>
      I (w\<lparr>pw_next_id := Suc (pw_next_id w), pw_exts := pw_exts w @ [x]\<rparr>)"
    and ext_reset: "I w \<Longrightarrow> List.find (\<lambda>x. ai_instance_id x = i) (pw_exts w) = Some x \<Longrightarrow>
      ai_reset_count x < reset_limit_competition \<Longrightarrow>
      I (w\<lparr>pw_exts := update_where (\<lambda>x. ai_instance_id x = i) (ai_reset_count_update (\<lambda>_. ai_reset_count x + 1)) (pw_exts w)\<rparr>)"
begin

lemma keeps_uuid: "keeps I p_new_uuid"
  using id_free by (simp add: keeps_def p_new_uuid_def)

lemma keeps_p_now: "keeps I p_now"
  unfolding p_now_def by (rule keeps_readM)

lemma keeps_find: "keeps I (require_run i)" "keeps I (find_fix_round k)" "keeps I (find_eval e)"
  "keeps I (find_by_instance_id j)" "keeps I (find_gamebox_identity g)" "keeps I (awdp_image_ref gb)"
  "keeps I (find_active_competition_for_event ev)" "keeps I (find_active_practice_for g u)"
  "keeps I (find_for_event_and_gamebox ev g)" "keeps I (resolve_run_gamebox_spec run g)"
  "keeps I (list_instances_for_run i)" "keeps I (next_due_round i)" "keeps I (next_pending_round i)"
  "keeps I (next_pending_due_round i t)" "keeps I (current_open_round i t)" "keeps I (find_round_by_sequence i n)"
  "keeps I (find_due_runs t lim)" "keeps I (find_unstarted_awdp_events t lim)"
  "keeps I (has_applied_patch j k)" "keeps I (has_unfinished_for_instance j k)"
  "keeps I (find_instance_for_subject i g us tm)" "keeps I (event_subjects ev)" "keeps I (auto_start_targets i)"
  "keeps I (require_active_run ev)" "keeps I (container_ip_of env inst)" "keeps I (resolve_subject ev u)"
  "keeps I (player_context ev g u)" "keeps I (my_instance_id c)" "keeps I (require_owned_run i u)"
  "keeps I (require_trainable_gamebox g)" "keeps I (training_context i u)" "keeps I (training_instance i u)"
  unfolding keeps_def
  by (auto simp: run_simps p_now_def require_run_def find_fix_round_def find_eval_def find_by_instance_id_def
      find_gamebox_identity_def awdp_image_ref_def find_active_competition_for_event_def
      find_active_practice_for_def find_for_event_and_gamebox_def resolve_run_gamebox_spec_def
      list_instances_for_run_def next_due_round_def next_pending_round_def next_pending_due_round_def
      current_open_round_def find_round_by_sequence_def find_due_runs_def find_unstarted_awdp_events_def
      has_applied_patch_def has_unfinished_for_instance_def find_instance_for_subject_def event_subjects_def
      auto_start_targets_def require_active_run_def container_ip_of_def resolve_subject_def
      require_event_team_participant_def require_event_participant_def player_context_def my_instance_id_def
      require_owned_run_def require_trainable_gamebox_def training_context_def training_instance_def
      split: option.splits sum.splits prod.splits if_splits participant_mode.splits)

lemmas keeps_basic = keeps_case_prod keeps_intros keeps_uuid keeps_p_now keeps_find

lemma keeps_dockerM: "keeps I (dockerM env fx)"
  using log_free by (simp add: keeps_def dockerM_def)

lemma keeps_p_emit: "keeps I (p_emit fx)"
  using log_free by (simp add: keeps_def p_emit_def modifyM_run)

lemma update_run_ok:
  assumes "I w" "\<And>r. List.find (\<lambda>x. ar_id x = i) (pw_runs w) = Some r \<Longrightarrow> run_move r (f r)"
  shows "I (snd (update_run i f w))"
  using assms run_step by (auto simp: update_run_def split: option.splits)

lemma update_run_okD:
  "update_run i f w = (x, w') \<Longrightarrow> I w \<Longrightarrow> (\<And>r. List.find (\<lambda>x. ar_id x = i) (pw_runs w) = Some r \<Longrightarrow> run_move r (f r)) \<Longrightarrow> I w'"
  using update_run_ok [of w i f] by simp

lemma keeps_transition_phase: "keeps I (transition_phase i a b p)"
  unfolding keeps_def
  by (auto simp: transition_phase_def run_simps require_run_def p_now_def run_move_def apply_phase_patch_def
      split: option.splits sum.splits prod.splits elim!: update_run_okD)

lemma keeps_touch: "keeps I (touch_tick_state i n t)"
  unfolding keeps_def
  by (auto simp: touch_tick_state_def run_simps require_run_def p_now_def run_move_def split: option.splits intro!: update_run_ok)

lemma cleared_ok:
  "I w \<Longrightarrow> I (w\<lparr>pw_rounds := a, pw_evals := filter p (pw_evals w), pw_scores := filter q (pw_scores w), pw_patches := b\<rparr>)"
  using patches_free [OF score_drop [OF eval_drop [OF rounds_free [of w a], of p], of q], of b] by simp

lemma keeps_clear: "keeps I (clear_fix_session i)"
  unfolding keeps_def clear_fix_session_def modifyM_run Let_def snd_conv by (intro allI impI cleared_ok)

lemma keeps_practice_runs: "keeps I (launch_practice_run i)" "keeps I (end_practice_session i)"
  unfolding keeps_def
  by (auto simp: launch_practice_run_def end_practice_session_def run_simps require_run_def p_now_def run_move_def
      launched_run_def ended_run_def Let_def split: option.splits sum.splits prod.splits elim!: update_run_okD)

lemma keeps_fix_to_break: "keeps I (transition_fix_to_break i)"
  unfolding keeps_def transition_fix_to_break_def
proof (intro allI impI)
  fix w assume w: "I w"
  have "I (snd (bindM (update_run i (rewound_run t)) (\<lambda>_. clear_fix_session i) w))"
    if "List.find (\<lambda>x. ar_id x = i) (pw_runs w) = Some r" "ar_gamebox_id r = Some g" "ar_phase r = ApFix" for r g t
    by (rule bindM_post [OF update_run_ok keeps_clear]) (use w that in \<open>auto simp: run_move_def rewound_run_def Let_def\<close>)
  then have "I (snd (bindM (require_run i) (\<lambda>current. bindM (guardM (ar_gamebox_id current \<noteq> None) ApInvalidState)
      (\<lambda>_. bindM (guardM (ar_phase current = ApFix) ApConflict)
      (\<lambda>_. bindM p_now (\<lambda>now. bindM (update_run i (rewound_run now)) (\<lambda>_. clear_fix_session i))))) w))"
    using w by (auto simp: bindM_run [of "require_run i"] bindM_run [of "guardM _ _"] bindM_run [of p_now]
        require_run_run guardM_run p_now_run split: option.splits)
  then show "I (snd (txnM (bindM (require_run i) (\<lambda>current. bindM (guardM (ar_gamebox_id current \<noteq> None) ApInvalidState)
      (\<lambda>_. bindM (guardM (ar_phase current = ApFix) ApConflict)
      (\<lambda>_. bindM p_now (\<lambda>now. bindM (update_run i (rewound_run now)) (\<lambda>_. clear_fix_session i)))))) w))"
    by (rule txnM_post [of I, OF w])
qed

lemma keeps_create_runs: "keeps I (create_competition_run e c)" "keeps I (create_practice_run e g u c)"
  unfolding keeps_def
  by (auto simp: create_competition_run_def create_practice_run_def run_simps p_now_def p_new_uuid_def blank_run_def Let_def
      find_active_competition_for_event_def split: option.splits sum.splits intro!: id_free run_new)

lemma fresh_round: "I w \<Longrightarrow> I (w\<lparr>pw_next_id := Suc (pw_next_id w), pw_rounds := rs\<rparr>)"
  using rounds_free [OF id_free [of w "Suc (pw_next_id w)"]] by simp

lemma keeps_materialize_window: "keeps I (materialize_window i x)"
  unfolding keeps_def
  by (auto simp: materialize_window_def run_simps p_new_uuid_def intro!: fresh_round)

lemma keeps_materialize_rounds: "keeps I (materialize_rounds i)"
  unfolding materialize_rounds_def by (intro keeps_basic keeps_materialize_window)

lemma keeps_edit_round: "keeps I (update_fix_round i h)"
  unfolding update_fix_round_def by (intro keeps_modifyM rounds_free)

lemma keeps_round_status: "keeps I (set_round_status i st)"
  unfolding set_round_status_def by (intro keeps_basic keeps_edit_round)

lemma keeps_materialize_for: "keeps I (materialize_for r k t x n)"
  unfolding keeps_def
  by (auto simp: materialize_for_def run_simps p_new_uuid_def official_taken_def split: option.splits intro!: eval_new)

lemma keeps_materialize_all: "keeps I (materialize_all r k t xs n)"
  by (induction xs arbitrary: n) (auto intro!: keeps_basic keeps_materialize_for)

lemma keeps_materialize_atomic: "keeps I (materialize_round_atomic r k t)"
  unfolding materialize_round_atomic_def
  by (intro keeps_basic keeps_materialize_all keeps_edit_round)

lemma keeps_complete_each: "keeps I (complete_each rs n)"
  by (induction rs arbitrary: n) (auto intro!: keeps_basic keeps_round_status)

lemma keeps_complete_finished: "keeps I complete_finished_rounds"
  unfolding complete_finished_rounds_def by (intro keeps_basic keeps_complete_each)

lemma fresh_score: "I w \<Longrightarrow> ax_idempotency_key s \<notin> ax_idempotency_key ` set (pw_scores w) \<Longrightarrow>
    I (w\<lparr>pw_next_id := Suc (pw_next_id w), pw_scores := pw_scores w @ [s]\<rparr>)"
  using score_new [OF id_free [of w "Suc (pw_next_id w)"]] by simp

lemma fresh_break: "I w \<Longrightarrow> \<not> break_taken (ab_run_id b) (ab_gamebox_id b) (ab_user_id b) (ab_team_id b) (pw_breaks w) \<Longrightarrow>
    I (w\<lparr>pw_next_id := Suc (pw_next_id w), pw_breaks := pw_breaks w @ [b]\<rparr>)"
  using break_new [OF id_free [of w "Suc (pw_next_id w)"]] by simp

lemma keeps_scores: "keeps I (create_awdp_score r us tm g ty fr d key)"
  unfolding keeps_def
  by (auto simp: create_awdp_score_def run_simps require_run_def p_new_uuid_def split: option.splits intro!: id_free fresh_score)

lemma keeps_breaks: "keeps I (record_break r g us tm h)"
  unfolding keeps_def
  by (auto simp: record_break_def run_simps require_run_def p_new_uuid_def split: option.splits intro!: id_free fresh_break)

lemma keeps_patches: "keeps I (create_patch r j k us tm)" "keeps I (finish_apply k ok)" "keeps I (recover_stale_applying j t)"
  unfolding create_patch_def finish_apply_def recover_stale_applying_def
  by (intro keeps_basic keeps_modifyM patches_free; assumption)+

text \<open>Evaluations.\<close>

lemma eval_update_ok:
  assumes "I w" "\<And>e. e \<in> set (pw_evals w) \<Longrightarrow> ae_id e = i \<Longrightarrow> eval_move (pe_eval_max_attempts env) e (h e)"
  shows "I (w\<lparr>pw_evals := update_where (\<lambda>e. ae_id e = i) h (pw_evals w)\<rparr>)"
  unfolding update_where_def using assms by (intro eval_edit) (auto simp: eval_move_def)

lemma eval_row:
  assumes "I w" "List.find (\<lambda>e. ae_id e = i) (pw_evals w) = Some e" "x \<in> set (pw_evals w)" "ae_id x = i"
  shows "x = e"
  using find_SomeD [OF assms(2)] assms(3,4) eval_ids [OF assms(1)] by (auto simp: distinct_map dest: inj_onD)

lemma found_eval_ok:
  assumes "I w" "List.find (\<lambda>e. ae_id e = i) (pw_evals w) = Some e" "eval_move (pe_eval_max_attempts env) e (h e)"
  shows "I (w\<lparr>pw_evals := update_where (\<lambda>e. ae_id e = i) h (pw_evals w)\<rparr>)"
  using assms eval_row [OF assms(1,2)] by (intro eval_update_ok) auto

lemma keeps_new_evals: "keeps I (create_official r j k)" "keeps I (create_manual r j)"
  unfolding keeps_def
  by (auto simp: create_official_def create_manual_def run_simps p_now_run p_new_uuid_def Let_def
      split: option.splits intro!: id_free eval_new)

lemma keeps_recover: "keeps I (recover_stale_running (pe_eval_max_attempts env) t)"
  unfolding recover_stale_running_def update_where_def
  by (intro keeps_modifyM eval_edit)
    (auto simp: eval_move_def eval_stale_def reclaimed_def without_lease_def terminal_status_def)

lemma keeps_eval_heartbeat: "keeps I (eval_heartbeat env i wk tok secs)"
  unfolding keeps_def
  by (auto simp: eval_heartbeat_def run_simps p_now_run update_eval_def eval_move_def
      split: option.splits intro!: found_eval_ok)

lemma keeps_finish_leased: "terminal_status st \<Longrightarrow> keeps I (finish_with_lease env i wk tok n st)"
  unfolding keeps_def
  by (auto simp: finish_with_lease_def run_simps p_now_run update_eval_def eval_move_def without_lease_def
      split: option.splits intro!: found_eval_ok)

lemma keeps_release: "keeps I (release_or_fail env i wk tok n (pe_eval_max_attempts env))"
  unfolding keeps_def
  by (auto simp: release_or_fail_def run_simps p_now_run update_eval_def eval_move_def without_lease_def
      holds_lease_def terminal_status_def split: option.splits intro!: found_eval_ok)

lemma keeps_finish_eval: "terminal_status st \<Longrightarrow> keeps I (finish_eval i st)"
  unfolding keeps_def
  by (auto simp: finish_eval_def run_simps p_now_run update_eval_def eval_move_def without_lease_def
      split: option.splits intro!: found_eval_ok)

lemma claim_each_ok:
  assumes "I w" "distinct (map ae_id rows)" "\<forall>e \<in> set rows. e \<in> set (pw_evals w) \<and> ae_status e = EsPending"
  shows "I (snd (claim_each env wk secs t rows w))"
  using assms
proof (induction rows arbitrary: w)
  case (Cons r rows)
  let ?w = "w\<lparr>pw_next_id := Suc (pw_next_id w),
    pw_evals := update_where (\<lambda>e. ae_id e = ae_id r) (leased env wk (pe_lease_token env (pw_next_id w)) secs t) (pw_evals w)\<rparr>"
  have r: "List.find (\<lambda>e. ae_id e = ae_id r) (pw_evals w) = Some r"
    using Cons.prems find_distinct_key [OF eval_ids [OF Cons.prems(1)], of r] by simp
  have "I ?w"
    using found_eval_ok [OF id_free [OF Cons.prems(1), of "Suc (pw_next_id w)"], of "ae_id r" r] r Cons.prems(3)
    by (simp add: eval_move_def leased_def)
  moreover have "\<forall>e \<in> set rows. ae_id e \<noteq> ae_id r" using Cons.prems(2) by (auto simp: image_iff)
  then have "\<forall>e \<in> set rows. e \<in> set (pw_evals ?w) \<and> ae_status e = EsPending"
    using others_stay [of rows "pw_evals w" "\<lambda>e. ae_status e = EsPending" ae_id "ae_id r"] Cons.prems(3) by simp
  ultimately have "I (snd (claim_each env wk secs t rows ?w))" using Cons.prems(2) by (intro Cons.IH) auto
  then show ?case
    by (auto simp: claim_eval_def run_simps p_new_uuid_def update_eval_def Let_def split: prod.splits sum.splits)
qed (simp add: run_simps)

lemma keeps_claim_jobs: "keeps I (claim_jobs env wk n secs (pe_eval_max_attempts env) kinds ev)"
  unfolding keeps_def
proof (intro allI impI)
  fix w assume w: "I w"
  let ?w = "snd (recover_stale_running (pe_eval_max_attempts env) (pw_now w) w :: (awdp_error + unit) \<times> awdp_world)"
  let ?rows = "take n (sort_key ae_created_at (filter (claimable kinds ev ?w) (pw_evals ?w)))"
  have I: "I ?w" by (rule keepsD [OF keeps_recover w])
  have "distinct (map ae_id (sort_key ae_created_at (filter (claimable kinds ev ?w) (pw_evals ?w))))"
    using eval_ids [OF I] by (simp add: distinct_map distinct_sort inj_on_def)
  then have d: "distinct (map ae_id ?rows)" by (simp add: take_map [symmetric])
  have "\<forall>e \<in> set ?rows. e \<in> set (pw_evals ?w) \<and> ae_status e = EsPending"
    by (auto dest!: in_set_takeD simp: claimable_def)
  from claim_each_ok [OF I d this, of wk secs "pw_now w"]
  show "I (snd (claim_jobs env wk n secs (pe_eval_max_attempts env) kinds ev w))"
    using w by (auto simp: claim_jobs_def txnM_run bindM_run p_now_run readM_run recover_stale_running_def modifyM_run
        split: prod.splits sum.splits)
qed

text \<open>Configuration and instances.\<close>

lemma keeps_ensure: "keeps I (ensure_by_event_id i c)"
  unfolding ensure_by_event_id_def by (auto intro!: keeps_basic keeps_modifyM config_free simp: Let_def)

lemma keeps_snapshot: "keeps I (config_snapshot i)"
  unfolding config_snapshot_def by (intro keeps_basic keeps_ensure)

lemma keeps_update_config: "keeps I (update_config i p)"
  unfolding update_config_def
  by (auto intro!: keeps_basic keeps_modifyM config_free events_free simp: Let_def)

lemma fresh_ext: "I w \<Longrightarrow> ai_reset_count x = 0 \<Longrightarrow> ai_instance_id x = pw_next_id w \<Longrightarrow>
    I (w\<lparr>pw_next_id := Suc (pw_next_id w), pw_instances := is, pw_exts := pw_exts w @ [x]\<rparr>)"
  using instances_free [OF ext_new [of w x], of "is"]
  by (rule back_subst) (simp_all add: awdp_world.equality)

lemma keeps_create_instance: "keeps I (create_instance r g us tm nm)"
  unfolding keeps_def
  by (auto simp: create_instance_def run_simps require_run_run p_new_uuid_def Let_def
      split: option.splits intro!: id_free fresh_ext)

lemma keeps_runtime_state: "keeps I (update_runtime_state i st n)"
  unfolding update_runtime_state_def by (intro keeps_basic keeps_modifyM instances_free)

lemmas keeps_host = keeps_basic keeps_dockerM keeps_p_emit keeps_runtime_state keeps_create_instance
  keeps_snapshot keeps_ensure

lemma keeps_start_instance: "keeps I (start_instance env r g s)"
  unfolding start_instance_def by (intro keeps_host)

lemma keeps_reset_unchecked: "keeps I (reset_instance_unchecked env i)"
  unfolding reset_instance_unchecked_def by (intro keeps_host)

lemma increment_ok:
  assumes "I w" "List.find (\<lambda>x. ai_instance_id x = i) (pw_exts w) = Some x" "ai_reset_count x < reset_limit_competition"
  shows "I (snd (increment_reset_count i w))"
  using assms ext_reset by (simp add: increment_reset_count_def run_simps)

lemma keeps_reset_instance: "keeps I (reset_instance env i s)"
  unfolding keeps_def
proof (intro allI impI)
  fix w assume w: "I w"
  let ?m = "bindM (reset_instance_unchecked env i) (\<lambda>_. increment_reset_count i)"
  have "I (snd (?m w))" if "List.find (\<lambda>x. ai_instance_id x = i) (pw_exts w) = Some x" "ai_reset_count x < reset_limit_competition" for x
    using keepsD [OF keeps_reset_unchecked w, of i] reset_unchecked_exts [of env i w] that increment_ok
    by (auto simp: bindM_run split: prod.splits sum.splits)
  then show "I (snd (reset_instance env i s w))"
    using w keepsD [OF keeps_reset_unchecked w, of i]
    by (auto simp: reset_instance_def bindM_run [of "find_by_instance_id i"] bindM_run [of "require_run _"] bindM_run [of "guardM _ _"]
        bindM_run [of "liftM _"] guardM_run liftM_run require_run_run find_by_instance_id_run check_reset_allowed_def bindM_skip
        split: option.splits if_splits)
qed

lemma keeps_stop_instance: "keeps I (stop_instance env i s)" "keeps I (stop_one env i)"
  unfolding stop_instance_def stop_one_def by (intro keeps_host)+

lemma keeps_stop_each: "keeps I (stop_each env xs b)"
  by (induction xs arbitrary: b) (auto intro!: keeps_host keeps_stop_instance)

lemma keeps_stop_all: "keeps I (stop_all_run_instances env i)"
  unfolding stop_all_run_instances_def by (intro keeps_host keeps_stop_each)

lemma keeps_to_preparing: "keeps I (transition_break_to_preparing_fix i)"
  unfolding transition_break_to_preparing_fix_def by (intro keeps_host keeps_transition_phase)

lemma keeps_reset_started: "keeps I (reset_started env xs)"
  by (induction xs) (auto intro!: keeps_host keeps_reset_unchecked)

lemma keeps_reset_all: "keeps I (reset_all env xs)"
  by (induction xs) (auto intro!: keeps_host keeps_reset_unchecked)

lemma keeps_reset_runs: "keeps I (reset_all_run_instances env i)"
  unfolding reset_all_run_instances_def by (intro keeps_host keeps_reset_all)

lemma keeps_reconcile: "keeps I (reconcile_preparing_fix env i)"
  unfolding reconcile_preparing_fix_def
  by (intro keeps_host keeps_reset_started keeps_touch keeps_transition_phase keeps_materialize_rounds)

lemma keeps_to_fix: "keeps I (transition_break_to_fix env i)"
  unfolding transition_break_to_fix_def by (intro keeps_host keeps_to_preparing keeps_reconcile)

lemma keeps_start_all: "keeps I (start_all_event_instances env i)"
  unfolding start_all_event_instances_def by (intro keeps_host keeps_start_instance)

lemma keeps_tick_run: "keeps I (tick_run env t r)"
  unfolding tick_run_def tick_pending_def process_fix_round_cutoffs_def
  by (cases "ar_phase r")
    (simp_all, (intro keeps_host keeps_start_all keeps_transition_phase keeps_to_preparing keeps_reconcile
      keeps_materialize_rounds keeps_materialize_atomic keeps_touch)+)

lemma keeps_tick: "keeps I (awdp_tick_run env)"
  unfolding awdp_tick_run_def tick_once_def auto_create_run_def
  by (intro keeps_host keeps_create_runs keeps_tick_run keeps_collect keeps_complete_finished)

text \<open>Administrators, players and practice.\<close>

lemma keeps_admin: "keeps I (patch_awdp_config i p)" "keeps I (start_awdp_event env i)"
  "keeps I (admin_break_to_fix env i)" "keeps I (finish_awdp_event env i)"
  unfolding patch_awdp_config_def start_awdp_event_def admin_break_to_fix_def finish_awdp_event_def ensure_awdp_event_def
  by (intro keeps_host keeps_update_config keeps_create_runs keeps_transition_phase keeps_start_all keeps_to_fix keeps_stop_all)+

lemma keeps_training: "keeps I (practice_start_training env u g)"
  unfolding practice_start_training_def by (intro keeps_host keeps_create_runs keeps_modifyM mounts_free)

lemma keeps_stop_owned: "keeps I (stop_owned env s xs)"
  by (induction xs) (auto intro!: keeps_host keeps_stop_instance)

lemma keeps_practice: "keeps I (practice_train_again env u i)" "keeps I (practice_start_run env i u)"
  "keeps I (practice_stop_run env i u)" "keeps I (practice_reset_run env i u)" "keeps I (practice_end_run env i u)"
  unfolding practice_train_again_def practice_start_run_def practice_stop_run_def practice_reset_run_def practice_end_run_def
  by (intro keeps_host keeps_training keeps_practice_runs keeps_start_instance keeps_stop_owned keeps_reset_runs)+

lemma keeps_set_phase: "keeps I (practice_set_phase env i u t)"
  unfolding practice_set_phase_def
  by (auto intro!: keeps_host keeps_to_fix keeps_fix_to_break split: awdp_phase.splits)

lemma keeps_submit: "keeps I (awdp_submit_flag env i g f s)"
  unfolding awdp_submit_flag_def by (intro keeps_host keeps_breaks keeps_scores)

lemma keeps_exec: "keeps I (run_script_on env fx ip)"
  using log_free by (simp add: keeps_def run_script_on_def)

lemma keeps_apply_patch: "keeps I (apply_patch env i j s)"
  unfolding apply_patch_def patch_on_container_def by (intro keeps_host keeps_patches)

lemma keeps_checks: "keeps I (run_checks env gb j rd)"
  unfolding run_checks_def by (intro keeps_host keeps_exec)

lemma keeps_ledger: "keeps I (score_fix_penalty env r k x)" "keeps I (score_fix_round env r k j x)"
  unfolding score_fix_penalty_def score_fix_round_def by (intro keeps_host keeps_scores)+

lemma keeps_write_result: "terminal_status st \<Longrightarrow> keeps I (write_result env ev wk tok n st)"
  unfolding write_result_def by (intro keeps_host keeps_finish_eval keeps_finish_leased)

lemma keeps_pipeline: "keeps I (run_official_pipeline env r gb ev rd wk tok n)"
  unfolding run_official_pipeline_def
  by (intro keeps_host keeps_checks keeps_ledger keeps_write_result) (auto simp: terminal_status_def)

lemma keeps_worker: "keeps I (worker_round env wk n secs (pe_eval_max_attempts env))"
  unfolding worker_round_def worker_job_def process_official_def
  by (intro keeps_host keeps_claim_jobs keeps_pipeline keeps_release)

lemma manual_terminal: "terminal_status (manual_status a b c)"
  by (simp add: manual_status_def terminal_status_def)

lemma keeps_manual_run: "keeps I (manual_check_run_now env ev)"
  unfolding manual_check_run_now_def bind_case_option bindM_assoc bindM_returnM
  by (intro keeps_host keeps_exec keeps_finish_eval manual_terminal) (simp add: terminal_status_def)

lemma keeps_manual: "keeps I (manual_test_check env i j s)"
  unfolding manual_test_check_def manual_check_enqueue_def
  by (intro keeps_host keeps_new_evals keeps_manual_run)

lemma keeps_sweep: "keeps I (sweep_round env r j x k)"
  unfolding sweep_round_def
  by (intro keeps_host keeps_new_evals keeps_finish_eval keeps_ledger) (simp add: terminal_status_def)

lemma keeps_all_check: "keeps I (all_check env i j s)"
  unfolding all_check_def by (intro keeps_host keeps_checks keeps_sweep keeps_practice_runs keeps_stop_all)

lemma keeps_prepare_job: "keeps I (prepare_job env wk job)"
  unfolding prepare_job_def
  by (auto intro!: keeps_host keeps_ledger keeps_finish_leased split: evaluation_kind.splits option.splits
      simp: Let_def terminal_status_def)

lemma keeps_judge_claim: "keeps I (judge_jobs_claim env wk n secs (pe_eval_max_attempts env) ev)"
  unfolding judge_jobs_claim_def judge_claim_jobs_def
  by (intro keeps_host keeps_claim_jobs keeps_collect keeps_prepare_job)

lemma parsed_terminal: "parse_terminal_status s = Inr st \<Longrightarrow> terminal_status st"
  by (auto simp: parse_terminal_status_def terminal_status_def split: if_splits)

lemma keeps_record_result: "keeps I (record_result env req (pe_eval_max_attempts env))"
  unfolding record_result_def
  by (rule keeps_lifted keeps_bindM keeps_case_prod keeps_if keeps_find keeps_guardM keeps_release keeps_finish_leased
      keeps_ok_orM keeps_ledger keeps_returnM parsed_terminal | assumption)+

text \<open>Players and training.\<close>

lemma keeps_players: "keeps I (start_my_instance env ev g u)" "keeps I (stop_my_instance env ev g u)"
  "keeps I (reset_my_instance env ev g u)" "keeps I (submit_break_flag env ev g u f)" "keeps I (upload_patch env ev g u)"
  "keeps I (player_test_check env ev g u)"
  unfolding start_my_instance_def stop_my_instance_def reset_my_instance_def submit_break_flag_def upload_patch_def
    player_test_check_def
  by (intro keeps_host keeps_start_instance keeps_stop_instance keeps_reset_instance keeps_submit keeps_apply_patch keeps_manual)+

lemma keeps_trainees: "keeps I (training_break_flag env i u f)" "keeps I (training_patch env i u)"
  "keeps I (training_test_check env i u)" "keeps I (training_all_check env i u)" "keeps I (training_reset_instance env i u)"
  unfolding training_break_flag_def training_patch_def training_test_check_def training_all_check_def training_reset_instance_def
  by (intro keeps_host keeps_submit keeps_apply_patch keeps_manual keeps_all_check keeps_reset_instance)+

lemmas keeps_requests = keeps_tick keeps_worker keeps_admin keeps_training keeps_practice keeps_set_phase keeps_judge_claim
  keeps_eval_heartbeat keeps_record_result keeps_players keeps_trainees

lemma awdp_serve_keeps: "I w \<Longrightarrow> I (awdp_serve env q w)"
  by (cases q) (auto simp: keepsD [OF keeps_requests(1)] clock_free intro: keeps_requests [THEN keepsD])

lemma awdp_reach_keeps: "awdp_reach env w0 w \<Longrightarrow> I w0 \<Longrightarrow> I w"
  by (induction rule: awdp_reach.induct) (auto intro: awdp_serve_keeps)

end

end
