(* ===== verification/Awdp_Tables.thy ===== *)
theory Awdp_Tables
  imports Awdp_System
begin

text \<open>
  What the tables of the AWDP mode look like in every reachable state, whatever requests arrive in
  whatever order: identifiers are unique, a round judges an instance at most once, an evaluation is
  tried at most \<open>eval_max_attempts\<close> times, the ledger has one entry per key, a subject breaks a GameBox
  once per run, an instance of a competition is reset at most three times, and the row of a
  competition run only moves forward under the configuration it was created with.
\<close>

section \<open>The tables\<close>

definition runs_keyed :: "uuid \<Rightarrow> awdp_run list \<Rightarrow> bool" where
  "runs_keyed n rs \<longleftrightarrow> distinct (map ar_id rs) \<and> (\<forall>r \<in> set rs. ar_id r < n)"

definition official_key :: "evaluation \<Rightarrow> uuid option \<times> uuid" where
  "official_key e = (ae_fix_round_id e, ae_instance_id e)"

definition is_official :: "evaluation \<Rightarrow> bool" where
  "is_official e \<longleftrightarrow> ae_kind e = EkOfficial \<and> ae_fix_round_id e \<noteq> None"

definition attempts_ok :: "int \<Rightarrow> evaluation \<Rightarrow> bool" where
  "attempts_ok m e \<longleftrightarrow> 0 \<le> ae_attempt_count e \<and> ae_attempt_count e \<le> max 1 m
     \<and> (ae_status e = EsPending \<longrightarrow> ae_attempt_count e < max 1 m)"

definition evals_keyed :: "int \<Rightarrow> uuid \<Rightarrow> evaluation list \<Rightarrow> bool" where
  "evals_keyed m n es \<longleftrightarrow> distinct (map ae_id es) \<and> (\<forall>e \<in> set es. ae_id e < n)
     \<and> distinct (map official_key (filter is_official es)) \<and> (\<forall>e \<in> set es. attempts_ok m e)"

definition single_owner :: "awdp_break \<Rightarrow> bool" where
  "single_owner b \<longleftrightarrow> (ab_user_id b = None) \<noteq> (ab_team_id b = None)"

definition break_key :: "awdp_break \<Rightarrow> uuid \<times> uuid \<times> uuid option \<times> uuid option" where
  "break_key b = (ab_run_id b, ab_gamebox_id b, ab_user_id b, ab_team_id b)"

definition breaks_keyed :: "awdp_break list \<Rightarrow> bool" where
  "breaks_keyed bs \<longleftrightarrow> distinct (map break_key (filter single_owner bs))"

definition resets_bounded :: "uuid \<Rightarrow> awdp_instance list \<Rightarrow> bool" where
  "resets_bounded n xs \<longleftrightarrow> distinct (map ai_instance_id xs) \<and> (\<forall>x \<in> set xs. ai_instance_id x < n)
     \<and> (\<forall>x \<in> set xs. 0 \<le> ai_reset_count x \<and> ai_reset_count x \<le> reset_limit_competition)"

definition awdp_tables_ok :: "int \<Rightarrow> awdp_world \<Rightarrow> bool" where
  "awdp_tables_ok m w \<longleftrightarrow>
     runs_keyed (pw_next_id w) (pw_runs w) \<and> evals_keyed m (pw_next_id w) (pw_evals w)
     \<and> distinct (map ax_idempotency_key (pw_scores w)) \<and> breaks_keyed (pw_breaks w)
     \<and> resets_bounded (pw_next_id w) (pw_exts w)"

lemmas awdp_tables_defs = awdp_tables_ok_def runs_keyed_def evals_keyed_def breaks_keyed_def resets_bounded_def

lemma official_keyD:
  assumes "eval_move m e e'"
  shows "official_key e' = official_key e" "is_official e' = is_official e" "ae_id e' = ae_id e"
  using assms by (auto simp: eval_move_def official_key_def is_official_def)

lemma map_same_filter:
  assumes "\<And>x. x \<in> set xs \<Longrightarrow> p (g x) = p x" "\<And>x. x \<in> set xs \<Longrightarrow> k (g x) = k x"
  shows "map k (filter p (map g xs)) = map k (filter p xs)"
  using assms by (induction xs) auto

lemma evals_distinct: "evals_keyed m n es \<Longrightarrow> distinct (map ae_id es)"
  by (simp add: evals_keyed_def)

lemma evals_edit_ok:
  assumes "evals_keyed m n es" "\<And>e. e \<in> set es \<Longrightarrow> eval_move m e (g e)"
  shows "evals_keyed m n (map g es)"
proof -
  have ids: "map ae_id (map g es) = map ae_id es" using assms(2) official_keyD(3) by simp blast
  have keys: "map official_key (filter is_official (map g es)) = map official_key (filter is_official es)"
    using assms(2) official_keyD by (intro map_same_filter) blast+
  have "attempts_ok m (g e)" if "e \<in> set es" for e
    using assms(1) assms(2) [OF that] that by (auto simp: evals_keyed_def attempts_ok_def eval_move_def terminal_status_def)
  moreover have "ae_id (g e) < n" if "e \<in> set es" for e
    using assms(1) official_keyD(3) [OF assms(2) [OF that]] that by (simp add: evals_keyed_def)
  ultimately show ?thesis using assms(1) unfolding evals_keyed_def ids keys by simp
qed

lemma evals_new_ok:
  assumes "evals_keyed m n es" "\<And>k. fr = Some k \<Longrightarrow> \<not> official_taken k inst es"
  shows "evals_keyed m (Suc n) (es @ [new_evaluation n run inst fr kind now])"
  using assms
  by (auto simp: evals_keyed_def new_evaluation_def attempts_ok_def official_key_def is_official_def official_taken_def
      dest: less_SucI)

lemma breaks_new_ok:
  assumes "breaks_keyed bs" "\<not> break_taken (ab_run_id b) (ab_gamebox_id b) (ab_user_id b) (ab_team_id b) bs"
  shows "breaks_keyed (bs @ [b])"
proof -
  have "break_key b \<notin> break_key ` {x \<in> set bs. single_owner x}" if "single_owner b"
  proof
    assume "break_key b \<in> break_key ` {x \<in> set bs. single_owner x}"
    then obtain x where "x \<in> set bs" "break_key x = break_key b" by auto
    with assms(2) that show False
      by (auto simp: break_taken_def break_key_def single_owner_def)
  qed
  then show ?thesis using assms(1) by (auto simp: breaks_keyed_def)
qed

lemma keyed_distinct_filter: "distinct (map k xs) \<Longrightarrow> distinct (map k (filter p xs))"
  by (rule distinct_map_filter)

lemma filter_swap: "filter p (filter q xs) = filter q (filter p xs)"
  by (induction xs) auto

lemma evals_drop_ok: "evals_keyed m n es \<Longrightarrow> evals_keyed m n (filter p es)"
  unfolding evals_keyed_def filter_swap [of is_official p] by (auto intro: keyed_distinct_filter simp del: filter_filter)

lemma resets_ok:
  assumes "resets_bounded n xs" "List.find (\<lambda>x. ai_instance_id x = i) xs = Some x" "ai_reset_count x < reset_limit_competition"
  shows "resets_bounded n (update_where (\<lambda>x. ai_instance_id x = i) (ai_reset_count_update (\<lambda>_. ai_reset_count x + 1)) xs)"
  using assms find_SomeD [OF assms(2)]
  by (auto simp: resets_bounded_def set_update_where map_update_where)

lemma keyed_later:
  assumes "n \<le> n'"
  shows "runs_keyed n rs \<Longrightarrow> runs_keyed n' rs" "evals_keyed m n es \<Longrightarrow> evals_keyed m n' es"
    "resets_bounded n xs \<Longrightarrow> resets_bounded n' xs"
  using assms by (auto simp: runs_keyed_def evals_keyed_def resets_bounded_def)

lemmas keyed_Suc = keyed_later [OF le_SucI [OF order_refl]]

lemma runs_new_ok: "runs_keyed n rs \<Longrightarrow> ar_id r = n \<Longrightarrow> runs_keyed (Suc n) (rs @ [r])"
  by (auto simp: runs_keyed_def)

lemma exts_new_ok: "resets_bounded n xs \<Longrightarrow> ai_reset_count x = 0 \<Longrightarrow> ai_instance_id x = n \<Longrightarrow> resets_bounded (Suc n) (xs @ [x])"
  by (auto simp: resets_bounded_def reset_limit_competition_def)

section \<open>Runs over time\<close>

text \<open>
  An invariant of the rows of \<open>awdp_runs\<close> alone is enough: with the table invariant above it is an
  invariant of the whole machine.
\<close>

locale run_table =
  fixes env :: awdp_env and J :: "awdp_run list \<Rightarrow> bool"
  assumes J_new: "J rs \<Longrightarrow> ar_phase r = ApPending \<Longrightarrow> config_validate (ar_config r) = Inr () \<Longrightarrow>
      ar_total_rounds r = config_total_rounds (ar_config r) \<Longrightarrow> J (rs @ [r])"
    and J_step: "J rs \<Longrightarrow> (\<And>x. x \<in> set rs \<Longrightarrow> run_move x (g x)) \<Longrightarrow> J (map g rs)"

lemma run_move_refl: "run_move r r"
  by (simp add: run_move_def)

lemma run_step_moves:
  assumes "runs_keyed n rs" "List.find (\<lambda>x. ar_id x = i) rs = Some r" "run_move r (f r)" "x \<in> set rs"
  shows "run_move x (if ar_id x = i then f x else x)"
proof (cases "ar_id x = i")
  case True
  then have "x = r"
    using assms find_SomeD [OF assms(2)] by (auto simp: runs_keyed_def distinct_map dest: inj_onD)
  then show ?thesis using True assms(3) by simp
qed (simp add: run_move_refl)

lemma runs_edit_keyed:
  assumes "runs_keyed n rs" "\<And>x. x \<in> set rs \<Longrightarrow> run_move x (g x)"
  shows "runs_keyed n (map g rs)"
proof -
  have id: "ar_id (g x) = ar_id x" if "x \<in> set rs" for x using assms(2) [OF that] by (simp add: run_move_def)
  then have ids: "map ar_id (map g rs) = map ar_id rs" by simp
  show ?thesis using assms(1) id unfolding runs_keyed_def ids by simp
qed

sublocale run_table \<subseteq> rt: awdp_invariant env "\<lambda>w. awdp_tables_ok (pe_eval_max_attempts env) w \<and> J (pw_runs w)"
proof (unfold_locales, goal_cases)
  case (10 w r)
  then show ?case using J_new by (auto simp: awdp_tables_ok_def intro: runs_new_ok keyed_Suc)
next
  case (11 w i r f)
  let ?g = "\<lambda>x. if ar_id x = i then f x else x"
  have moves: "run_move x (?g x)" if "x \<in> set (pw_runs w)" for x
    using run_step_moves [of "pw_next_id w" "pw_runs w" i r f x] 11 that by (auto simp: awdp_tables_ok_def)
  then have "runs_keyed (pw_next_id w) (map ?g (pw_runs w))"
    using 11(1) by (intro runs_edit_keyed) (auto simp: awdp_tables_ok_def)
  then show ?case
    using 11(1) J_step [of "pw_runs w" ?g] moves by (simp add: awdp_tables_ok_def update_where_def)
qed (auto simp: awdp_tables_ok_def intro: evals_edit_ok evals_drop_ok
  keyed_distinct_filter evals_new_ok breaks_new_ok resets_ok keyed_later keyed_Suc exts_new_ok evals_distinct)

text \<open>The phases in the order a run goes through them.\<close>

fun phase_index :: "awdp_phase \<Rightarrow> nat" where
  "phase_index ApPending = 0"
| "phase_index ApBreak = 1"
| "phase_index ApPreparingFix = 2"
| "phase_index ApFix = 3"
| "phase_index ApEnded = 4"

lemma phase_index_inj: "phase_index p = phase_index q \<Longrightarrow> p = q"
  by (cases p; cases q) simp_all

instantiation awdp_phase :: linorder
begin

definition less_eq_awdp_phase :: "awdp_phase \<Rightarrow> awdp_phase \<Rightarrow> bool" where
  "less_eq_awdp_phase p q \<longleftrightarrow> phase_index p \<le> phase_index q"

definition less_awdp_phase :: "awdp_phase \<Rightarrow> awdp_phase \<Rightarrow> bool" where
  "less_awdp_phase p q \<longleftrightarrow> phase_index p < phase_index q"

instance
  by standard (auto simp: less_eq_awdp_phase_def less_awdp_phase_def intro: phase_index_inj)

end

lemma transition_forward: "awdp_can_transition_to p q \<Longrightarrow> p < q"
  by (cases p; cases q) (simp_all add: less_awdp_phase_def)

definition run_past :: "awdp_run \<Rightarrow> awdp_run \<Rightarrow> bool" where
  "run_past r0 r \<longleftrightarrow>
     ar_id r = ar_id r0 \<and> ar_event_id r = ar_event_id r0 \<and> ar_gamebox_id r = ar_gamebox_id r0
     \<and> ar_owner_user_id r = ar_owner_user_id r0 \<and> ar_config r = ar_config r0 \<and> ar_total_rounds r = ar_total_rounds r0
     \<and> (ar_gamebox_id r0 = None \<longrightarrow> ar_phase r0 \<le> ar_phase r)"

definition run_history :: "awdp_run list \<Rightarrow> awdp_run list \<Rightarrow> bool" where
  "run_history rs0 rs \<longleftrightarrow> list_all2 run_past rs0 (take (length rs0) rs)"

definition configured :: "awdp_run \<Rightarrow> bool" where
  "configured r \<longleftrightarrow> config_validate (ar_config r) = Inr () \<and> ar_total_rounds r = config_total_rounds (ar_config r)"

lemma list_all2_partner: "list_all2 P xs ys \<Longrightarrow> x \<in> set xs \<Longrightarrow> \<exists>y \<in> set ys. P x y"
  by (induction rule: list_all2_induct) auto

lemma run_past_step: "run_past r0 r \<Longrightarrow> run_move r r' \<Longrightarrow> run_past r0 r'"
  by (auto simp: run_past_def run_move_def dest: transition_forward)

interpretation history: run_table env "run_history rs0" for env rs0
proof
  fix rs r assume "run_history rs0 rs"
  then show "run_history rs0 (rs @ [r])"
    using list_all2_lengthD [of run_past rs0 "take (length rs0) rs"] by (simp add: run_history_def min_def split: if_splits)
next
  fix rs and g :: "awdp_run \<Rightarrow> awdp_run"
  assume h: "run_history rs0 rs" and m: "\<And>x. x \<in> set rs \<Longrightarrow> run_move x (g x)"
  have "run_past r0 (g r)" if "run_past r0 r" "r \<in> set (take (length rs0) rs)" for r0 r
    using run_past_step [OF that(1) m [OF in_set_takeD [OF that(2)]]] .
  then show "run_history rs0 (map g rs)"
    using h unfolding run_history_def take_map list_all2_map2 by (auto elim: list.rel_mono_strong)
qed

interpretation config_kept: run_table env "\<lambda>rs. \<forall>r \<in> set rs. configured r" for env
  by unfold_locales (auto simp: configured_def run_move_def)

section \<open>A world to start from\<close>

definition sample_env :: awdp_env where
  "sample_env = \<lparr>pe_uuid_text = (\<lambda>i. ''u''), pe_sha256_hex = (\<lambda>s. s), pe_hkdf = (\<lambda>a b c. c), pe_hmac_hex = (\<lambda>a b. b),
     pe_jwt_secret = ''s'', pe_flag_prefix = ''flag'', pe_node_ip = Some ''10.0.0.1'', pe_lease_token = (\<lambda>i. ''t''),
     pe_practice_event = 9, pe_eval_lease_duration_secs = 60, pe_eval_max_attempts = 3, pe_docker = (\<lambda>l f. True),
     pe_exec = (\<lambda>l f. Inr True), pe_container_ip = (\<lambda>l c. Inr (Some ''10.0.0.2'')), pe_script = (\<lambda>l f. Inr (Inr []))\<rparr>"

definition sample_run :: awdp_run where
  "sample_run = blank_run 5 1 awdp_config_default 0"

definition sample_event :: event_row where
  "sample_event = \<lparr>er_id = 1, er_family = FamAwdp, er_purpose = PurCompetition, er_participant_mode = PmTeam,
     er_start_time = 0, er_end_time = Some (seconds 7200)\<rparr>"

definition sample_ext :: awdp_instance where
  "sample_ext = \<lparr>ai_instance_id = 6, ai_run_id = 5, ai_gamebox_id = 2, ai_event_id = 1, ai_owner_user_id = None,
     ai_owner_team_id = Some 3, ai_reset_count = 3\<rparr>"

definition sample_instance :: event_instance where
  "sample_instance = \<lparr>ei_id = 6, ei_event_id = 1, ei_owner_user_id = None, ei_owner_team_id = Some 3,
     ei_container_name = ''c'', ei_runtime_state = ''running'', ei_runtime_generation = 1\<rparr>"

definition sample_world :: awdp_world where
  "sample_world = \<lparr>pw_now = 0, pw_next_id = 10, pw_events = [sample_event], pw_awdp_events = [], pw_runs = [sample_run],
     pw_rounds = [], pw_evals = [new_evaluation 7 5 6 (Some 8) EkOfficial 0], pw_scores = [], pw_breaks = [], pw_patches = [],
     pw_exts = [sample_ext], pw_instances = [sample_instance],
     pw_gameboxes = [], pw_event_gameboxes = [], pw_users = [], pw_teams = [], pw_members = [], pw_log = []\<rparr>"

lemmas sample_defs = sample_env_def sample_run_def sample_event_def sample_ext_def sample_instance_def sample_world_def

lemma sample_tables: "awdp_tables_ok (pe_eval_max_attempts sample_env) sample_world"
  by (simp add: awdp_tables_defs sample_defs blank_run_def new_evaluation_def attempts_ok_def reset_limit_competition_def)

lemma sample_reach: "awdp_reach sample_env sample_world (awdp_serve sample_env Tick sample_world)"
  by (rule awdp_reach.serve [OF awdp_reach.start])

section \<open>Properties\<close>

text \<open>
  C11. From tables in order every request, in any order, leads to tables in order: identifiers of runs,
  evaluations and instances are unique, an official evaluation is the only one of its round and
  instance, no two ledger entries share a key, no subject breaks the same GameBox of a run twice.
\<close>
theorem awdp_tables_hold:
  assumes "awdp_reach env w0 w" "awdp_tables_ok (pe_eval_max_attempts env) w0"
  shows "awdp_tables_ok (pe_eval_max_attempts env) w"
  using history.rt.awdp_reach_keeps [OF assms(1), of "[]"] assms(2) by (simp add: run_history_def)

theorem awdp_tables_hold_witness:
  "awdp_tables_ok (pe_eval_max_attempts sample_env) (awdp_serve sample_env Tick sample_world)"
  using awdp_tables_hold [OF sample_reach sample_tables] .



text \<open>
  C13. A competition run only moves forward through Pending, Break, PreparingFix, Fix and Ended, and
  keeps the event, the configuration and the number of rounds it was created with: changing the
  configuration of the event does not touch it.
\<close>
theorem competition_moves_forward:
  assumes "awdp_reach env w0 w" "awdp_tables_ok (pe_eval_max_attempts env) w0"
    and "r0 \<in> set (pw_runs w0)" "ar_gamebox_id r0 = None"
  shows "\<exists>r \<in> set (pw_runs w). ar_id r = ar_id r0 \<and> ar_event_id r = ar_event_id r0 \<and> ar_config r = ar_config r0
    \<and> ar_total_rounds r = ar_total_rounds r0 \<and> ar_phase r0 \<le> ar_phase r"
proof -
  have "run_history (pw_runs w0) (pw_runs w0)"
    by (simp add: run_history_def run_past_def list.rel_refl)
  then have past: "list_all2 run_past (pw_runs w0) (take (length (pw_runs w0)) (pw_runs w))"
    using history.rt.awdp_reach_keeps [OF assms(1), of "pw_runs w0"] assms(2) by (simp add: run_history_def)
  obtain r where "r \<in> set (take (length (pw_runs w0)) (pw_runs w))" "run_past r0 r"
    using list_all2_partner [OF past assms(3)] by blast
  then show ?thesis using assms(4) by (auto simp: run_past_def dest: in_set_takeD)
qed

theorem competition_moves_forward_witness:
  "\<exists>r \<in> set (pw_runs (awdp_serve sample_env Tick sample_world)). ar_id r = 5 \<and> ar_config r = awdp_config_default"
  using competition_moves_forward [OF sample_reach sample_tables, of sample_run]
  by (simp add: sample_world_def sample_run_def blank_run_def) blast

text \<open>
  C17. Every run of a reachable state carries a valid configuration and at least one Fix round, and
  its rounds fill the Fix phase exactly: the divisions of the code never meet a zero interval.
\<close>
theorem runs_have_rounds:
  assumes "awdp_reach env w0 w" "awdp_tables_ok (pe_eval_max_attempts env) w0" "\<forall>r \<in> set (pw_runs w0). configured r"
    and "r \<in> set (pw_runs w)"
  shows "1 \<le> ar_total_rounds r \<and> 0 < ac_fix_round_interval_secs (ar_config r)
    \<and> ar_total_rounds r * ac_fix_round_interval_secs (ar_config r) = ac_fix_duration_secs (ar_config r)"
proof -
  have "configured r"
    using config_kept.rt.awdp_reach_keeps [OF assms(1)] assms(2-4) by blast
  then have v: "config_validate (ar_config r) = Inr ()" "ar_total_rounds r = config_total_rounds (ar_config r)"
    by (simp_all add: configured_def)
  with config_rounds_fill [OF v(1)] show ?thesis by (simp add: config_validate_iff)
qed

theorem runs_have_rounds_witness:
  "1 \<le> ar_total_rounds sample_run \<and> ar_total_rounds sample_run * 600 = 3600"
  using runs_have_rounds [OF awdp_reach.start sample_tables, of sample_run]
  by (simp add: sample_world_def sample_run_def blank_run_def configured_def config_validate_iff awdp_config_default_def
      awdp_constants smod_nonneg_eq)

text \<open>
  C18. Whatever its owner requests, an instance is reset through the limited endpoint at most three
  times; the fourth request of a competition is refused and changes nothing.
\<close>
theorem resets_limited:
  assumes "awdp_reach env w0 w" "awdp_tables_ok (pe_eval_max_attempts env) w0" "x \<in> set (pw_exts w)"
    and "List.find (\<lambda>r. ar_id r = ai_run_id x) (pw_runs w) = Some run" "ar_gamebox_id run = None" "ar_phase run = ApFix"
    and "List.find (\<lambda>j. ei_id j = ai_instance_id x) (pw_instances w) = Some inst" "is_owner inst s"
  shows "ai_reset_count x \<le> 3 \<and>
    (ai_reset_count x = 3 \<longrightarrow> reset_instance env (ai_instance_id x) s w = (Inl ApValidation, w))"
proof -
  have ok: "resets_bounded (pw_next_id w) (pw_exts w)"
    using history.rt.awdp_reach_keeps [OF assms(1), of "[]"] assms(2) by (simp add: run_history_def awdp_tables_ok_def)
  then have "List.find (\<lambda>y. ai_instance_id y = ai_instance_id x) (pw_exts w) = Some x"
    using assms(3) by (intro find_distinct_key) (simp_all add: resets_bounded_def)
  then have "ai_reset_count x = 3 \<Longrightarrow> reset_instance env (ai_instance_id x) s w = (Inl ApValidation, w)"
    using assms(4-) by (simp add: reset_instance_def bindM_run find_by_instance_id_run require_run_run guardM_run liftM_run
        check_reset_allowed_def reset_limit_competition_def)
  then show ?thesis using ok assms(3) by (auto simp: resets_bounded_def reset_limit_competition_def)
qed

definition fix_world :: awdp_world where
  "fix_world = sample_world\<lparr>pw_runs := [sample_run\<lparr>ar_phase := ApFix\<rparr>]\<rparr>"

theorem resets_limited_witness:
  "reset_instance sample_env 6 (subject_team 3) fix_world = (Inl ApValidation, fix_world)"
proof -
  have "awdp_tables_ok (pe_eval_max_attempts sample_env) fix_world"
    using sample_tables by (simp add: fix_world_def awdp_tables_ok_def runs_keyed_def sample_defs blank_run_def)
  then show ?thesis
    using resets_limited [OF awdp_reach.start, of sample_env fix_world sample_ext "sample_run\<lparr>ar_phase := ApFix\<rparr>" sample_instance "subject_team 3"]
    by (simp add: fix_world_def sample_defs blank_run_def is_owner_def subject_team_def)
qed

end
