(* ===== verification/Awdp_Facts.thy ===== *)
theory Awdp_Facts
  imports Awdp_Tables
begin

text \<open>
  What single operations of the AWDP mode achieve: the ticks of a Fix phase judge every round and end
  the run, a Flag is scored once, and a change of the configuration is applied whole or not at all.
\<close>

section \<open>A Fix phase ends\<close>

text \<open>What the scheduler does to one run in \<open>n\<close> ticks at the same instant.\<close>

fun tick_times :: "awdp_env \<Rightarrow> uuid \<Rightarrow> nat \<Rightarrow> awdp_world \<Rightarrow> awdp_world" where
  "tick_times env i 0 w = w"
| "tick_times env i (Suc n) w = tick_times env i n (snd (bindM (require_run i) (tick_run env (pw_now w)) w))"

definition pending_rounds :: "uuid \<Rightarrow> awdp_world \<Rightarrow> fix_round list" where
  "pending_rounds i w = filter (\<lambda>r. fr_run_id r = i \<and> fr_status r = FrPending) (pw_rounds w)"

definition same_fix :: "awdp_world \<Rightarrow> awdp_world \<Rightarrow> bool" where
  "same_fix w w' \<longleftrightarrow> pw_runs w' = pw_runs w \<and> pw_rounds w' = pw_rounds w \<and> pw_now w' = pw_now w"

lemma materialize_for_frame: "\<exists>n' w'. materialize_for i k t x n w = (Inr n', w') \<and> same_fix w w'"
  by (auto simp: materialize_for_def run_simps p_new_uuid_def same_fix_def split: option.splits)

lemma materialize_all_frame: "\<exists>n' w'. materialize_all i k t xs n w = (Inr n', w') \<and> same_fix w w'"
proof (induction xs arbitrary: n w)
  case (Cons x xs)
  obtain m v where "materialize_for i k t x n w = (Inr m, v)" "same_fix w v" using materialize_for_frame by blast
  with Cons [of m v] show ?case by (auto simp: bindM_run same_fix_def)
qed (simp add: returnM_run same_fix_def)

lemma materialize_round_run:
  assumes "List.find (\<lambda>r. fr_id r = k) (pw_rounds w) = Some rd" "fr_status rd = FrPending"
  obtains n w' where "materialize_round_atomic i k t w = (Inr n, w')" "pw_runs w' = pw_runs w" "pw_now w' = pw_now w"
    "pw_rounds w' = update_where (\<lambda>r. fr_id r = k) (\<lambda>r. r\<lparr>fr_status := FrEvaluating, fr_started_at := Some t,
       fr_expected_eval_count := Some (as_i32 (int n))\<rparr>) (pw_rounds w)"
proof -
  obtain n v where v: "materialize_all i k t (filter (\<lambda>x. ai_run_id x = i) (pw_exts w)) 0 w = (Inr n, v)" "same_fix w v"
    using materialize_all_frame by blast
  show thesis
    by (rule that [of n "v\<lparr>pw_rounds := update_where (\<lambda>r. fr_id r = k) (\<lambda>r. r\<lparr>fr_status := FrEvaluating, fr_started_at := Some t,
       fr_expected_eval_count := Some (as_i32 (int n))\<rparr>) (pw_rounds v)\<rparr>"])
      (use v assms in \<open>simp_all add: materialize_round_atomic_def find_fix_round_def update_fix_round_def run_simps same_fix_def\<close>)
qed

lemma first_row_sorted:
  "first_row (sort_key f xs) = None \<longleftrightarrow> xs = []"
  "first_row (sort_key f xs) = Some x \<Longrightarrow> x \<in> set xs"
proof -
  have e: "sort_key f xs = [] \<longleftrightarrow> xs = []" using length_sort by (metis length_0_conv)
  then show "first_row (sort_key f xs) = None \<longleftrightarrow> xs = []" by (auto simp: first_row_def split: list.splits)
  show "first_row (sort_key f xs) = Some x \<Longrightarrow> x \<in> set xs"
    by (metis first_row_def list.case_eq_if list.set_sel(1) option.distinct(1) option.inject set_sort)
qed

text \<open>Judging one pending round leaves the others.\<close>

lemma pending_after:
  assumes "distinct (map fr_id rs)" "rd \<in> set rs" "p rd" "\<And>r. \<not> p (f r)"
  shows "filter p (update_where (\<lambda>r. fr_id r = fr_id rd) f rs) = filter (\<lambda>r. fr_id r \<noteq> fr_id rd) (filter p rs)"
  using assms(4) by (induction rs) auto

lemma length_filter_key:
  assumes "distinct (map k xs)" "x \<in> set xs"
  shows "Suc (length (filter (\<lambda>y. k y \<noteq> k x) xs)) = length xs"
  using assms
proof (induction xs)
  case (Cons y ys)
  show ?case
  proof (cases "x = y")
    case True
    then have "filter (\<lambda>z. k z \<noteq> k x) ys = ys" using Cons.prems by (auto simp: filter_id_conv image_iff)
    then show ?thesis using True by simp
  next
    case False
    then have "x \<in> set ys" "k y \<noteq> k x" using Cons.prems by (auto simp: image_iff)
    then show ?thesis using Cons by simp
  qed
qed simp

text \<open>A competition run is never in conflict with the index, so its row is simply written.\<close>

lemma update_competition_run:
  assumes "List.find (\<lambda>r. ar_id r = i) (pw_runs w) = Some r" "ar_gamebox_id (f r) = None" "\<And>x. ar_id (f x) = ar_id x"
  shows "update_run i f w = (Inr (), w\<lparr>pw_runs := update_where (\<lambda>r. ar_id r = i) f (pw_runs w)\<rparr>)"
    and "List.find (\<lambda>r. ar_id r = i) (update_where (\<lambda>r. ar_id r = i) f (pw_runs w)) = Some (f r)"
  using assms find_SomeD [OF assms(1)] by (simp_all add: update_run_def run_index_conflict_def find_update_where)

text \<open>The steps after the due round was judged: on to the next round, or the end of the run.\<close>

definition after_cutoff :: "uuid \<Rightarrow> timestamp \<Rightarrow> awdp_run \<Rightarrow> phase_changes pop" where
  "after_cutoff i t r = bindM (next_pending_round i) (\<lambda>nxt.
     case nxt of
       Some nx \<Rightarrow> bindM (touch_tick_state i (fr_sequence nx) (fr_cutoff_at nx)) (\<lambda>_. returnM [])
     | None \<Rightarrow>
         let fix_end = unwrap_or (ar_fix_ends_at r) (t + seconds (ac_fix_duration_secs (ar_config r))) in
         bindM (attemptM (transition_phase i ApFix ApEnded
           (phase_patch_default\<lparr>pp_finished_at := Some fix_end, pp_current_round := Some (ar_current_round r)\<rparr>))) (\<lambda>x.
         returnM (if isl x then [] else [(ar_event_id r, ApEnded)])))"

lemma cutoffs_run:
  assumes r: "List.find (\<lambda>r. ar_id r = i) (pw_runs w) = Some r"
    and d: "distinct (map fr_id (pw_rounds w))" and P: "pending_rounds i w \<noteq> []"
    and due: "\<forall>p \<in> set (pending_rounds i w). fr_cutoff_at p \<le> t"
  obtains rd v where "rd \<in> set (pending_rounds i w)" "process_fix_round_cutoffs i t w = after_cutoff i t r v"
    "pending_rounds i v = filter (\<lambda>p. fr_id p \<noteq> fr_id rd) (pending_rounds i w)" "pw_now v = pw_now w" "pw_runs v = pw_runs w"
    "map fr_id (pw_rounds v) = map fr_id (pw_rounds w)"
proof -
  have same: "filter (\<lambda>x. fr_run_id x = i \<and> fr_status x = FrPending \<and> fr_cutoff_at x \<le> t) (pw_rounds w) = pending_rounds i w"
    unfolding pending_rounds_def using due by (intro filter_cong) (auto simp: pending_rounds_def)
  obtain rd where rd: "first_row (sort_key fr_sequence (pending_rounds i w)) = Some rd" "rd \<in> set (pending_rounds i w)"
    using P first_row_sorted by (metis not_None_eq)
  then have find_rd: "List.find (\<lambda>x. fr_id x = fr_id rd) (pw_rounds w) = Some rd" "fr_status rd = FrPending"
    using find_distinct_key [OF d] by (auto simp: pending_rounds_def)
  obtain n v where v: "materialize_round_atomic i (fr_id rd) t w = (Inr n, v)" "pw_runs v = pw_runs w" "pw_now v = pw_now w"
    "pw_rounds v = update_where (\<lambda>r. fr_id r = fr_id rd) (\<lambda>r. r\<lparr>fr_status := FrEvaluating, fr_started_at := Some t,
       fr_expected_eval_count := Some (as_i32 (int n))\<rparr>) (pw_rounds w)"
    using materialize_round_run [OF find_rd] by metis
  have "pending_rounds i v = filter (\<lambda>p. fr_id p \<noteq> fr_id rd) (pending_rounds i w)"
    unfolding pending_rounds_def v(4) using rd(2) by (intro pending_after [OF d]) (auto simp: pending_rounds_def)
  moreover have "process_fix_round_cutoffs i t w = after_cutoff i t r v"
    unfolding process_fix_round_cutoffs_def after_cutoff_def Let_def
    using rd(1) v(1,2) r by (simp add: next_pending_due_round_def
        rounds_by_sequence_def same require_run_run bindM_run [of "readM _"] readM_run bindM_run [of "materialize_round_atomic _ _ _"]
        bindM_run [of "require_run _"])
  ultimately show thesis using that [of rd v] rd(2) v by (simp add: map_update_where)
qed

lemma after_cutoff_moves:
  assumes r: "List.find (\<lambda>r. ar_id r = i) (pw_runs v) = Some r" "ar_phase r = ApFix" "ar_gamebox_id r = None"
  obtains f where "snd (after_cutoff i t r v) = v\<lparr>pw_runs := update_where (\<lambda>r. ar_id r = i) f (pw_runs v)\<rparr>"
    "List.find (\<lambda>r. ar_id r = i) (update_where (\<lambda>r. ar_id r = i) f (pw_runs v)) = Some (f r)"
    "ar_gamebox_id (f r) = None" "ar_phase (f r) = (if pending_rounds i v = [] then ApEnded else ApFix)"
proof (cases "first_row (sort_key fr_sequence (pending_rounds i v))")
  case None
  let ?f = "apply_phase_patch ApEnded (phase_patch_default\<lparr>
      pp_finished_at := Some (unwrap_or (ar_fix_ends_at r) (t + seconds (ac_fix_duration_secs (ar_config r)))),
      pp_current_round := Some (ar_current_round r)\<rparr>) (pw_now v)"
  have "snd (after_cutoff i t r v) = v\<lparr>pw_runs := update_where (\<lambda>r. ar_id r = i) ?f (pw_runs v)\<rparr>"
    using None update_competition_run(1) [OF r(1), of ?f] r
    by (simp add: after_cutoff_def next_pending_round_def rounds_by_sequence_def pending_rounds_def [symmetric]
        transition_phase_def run_simps require_run_run p_now_run apply_phase_patch_def)
  then show thesis
    using that [of ?f] update_competition_run(2) [OF r(1), of ?f] None r
    by (simp add: apply_phase_patch_def first_row_sorted(1))
next
  case (Some nx)
  let ?f = "\<lambda>r. r\<lparr>ar_current_round := fr_sequence nx, ar_next_action_at := Some (fr_cutoff_at nx), ar_updated_at := pw_now v\<rparr>"
  have "snd (after_cutoff i t r v) = v\<lparr>pw_runs := update_where (\<lambda>r. ar_id r = i) ?f (pw_runs v)\<rparr>"
    using Some update_competition_run(1) [OF r(1), of ?f] r
    by (simp add: after_cutoff_def next_pending_round_def rounds_by_sequence_def pending_rounds_def [symmetric]
        touch_tick_state_def run_simps require_run_run p_now_run)
  moreover have "pending_rounds i v \<noteq> []" using Some by (metis first_row_sorted(1) option.distinct(1))
  ultimately show thesis
    using that [of ?f] update_competition_run(2) [OF r(1), of ?f] r by simp
qed

lemma fix_step:
  assumes r: "List.find (\<lambda>r. ar_id r = i) (pw_runs w) = Some r" "ar_phase r = ApFix" "ar_gamebox_id r = None"
    and d: "distinct (map fr_id (pw_rounds w))" and P: "pending_rounds i w \<noteq> []"
    and due: "\<forall>p \<in> set (pending_rounds i w). fr_cutoff_at p \<le> pw_now w"
  obtains rd r' w' where "snd (bindM (require_run i) (tick_run env (pw_now w)) w) = w'" "rd \<in> set (pending_rounds i w)"
    "pending_rounds i w' = filter (\<lambda>p. fr_id p \<noteq> fr_id rd) (pending_rounds i w)" "pw_now w' = pw_now w"
    "map fr_id (pw_rounds w') = map fr_id (pw_rounds w)" "List.find (\<lambda>r. ar_id r = i) (pw_runs w') = Some r'"
    "ar_gamebox_id r' = None" "ar_phase r' = (if pending_rounds i w' = [] then ApEnded else ApFix)"
proof -
  have "ar_id r = i" using find_SomeD [OF r(1)] by simp
  moreover have "sort_key fr_sequence (filter (\<lambda>x. fr_run_id x = i) (pw_rounds w)) \<noteq> []"
    using P first_row_sorted(1) [of fr_sequence "filter (\<lambda>x. fr_run_id x = i) (pw_rounds w)"]
    by (auto simp: first_row_def pending_rounds_def filter_empty_conv)
  ultimately have tick: "bindM (require_run i) (tick_run env (pw_now w)) w = process_fix_round_cutoffs i (pw_now w) w"
    using r by (simp add: bindM_run [of "require_run _"] require_run_run tick_run_def bindM_run [of "readM _"] readM_run
        rounds_by_sequence_def bindM_run [of "whenM _ _"] whenM_run)
  obtain rd v where v: "rd \<in> set (pending_rounds i w)" "process_fix_round_cutoffs i (pw_now w) w = after_cutoff i (pw_now w) r v"
    "pending_rounds i v = filter (\<lambda>p. fr_id p \<noteq> fr_id rd) (pending_rounds i w)" "pw_now v = pw_now w" "pw_runs v = pw_runs w"
    "map fr_id (pw_rounds v) = map fr_id (pw_rounds w)"
    using cutoffs_run [OF r(1) d P due] by metis
  have rv: "List.find (\<lambda>r. ar_id r = i) (pw_runs v) = Some r" using r(1) v(5) by simp
  obtain f where f: "snd (after_cutoff i (pw_now w) r v) = v\<lparr>pw_runs := update_where (\<lambda>r. ar_id r = i) f (pw_runs v)\<rparr>"
    "List.find (\<lambda>r. ar_id r = i) (update_where (\<lambda>r. ar_id r = i) f (pw_runs v)) = Some (f r)"
    "ar_gamebox_id (f r) = None" "ar_phase (f r) = (if pending_rounds i v = [] then ApEnded else ApFix)"
    using after_cutoff_moves [OF rv r(2,3)] by metis
  then show thesis
    using that [of "v\<lparr>pw_runs := update_where (\<lambda>r. ar_id r = i) f (pw_runs v)\<rparr>" rd "f r"] v tick by (simp add: pending_rounds_def)
qed


definition late_world :: awdp_world where
  "late_world = fix_world\<lparr>pw_rounds := [new_fix_round 20 5 \<lparr>rw_sequence = 1, rw_starts_at = 0, rw_cutoff_at = 600\<rparr>,
     new_fix_round 21 5 \<lparr>rw_sequence = 2, rw_starts_at = 600, rw_cutoff_at = 1200\<rparr>], pw_now := 2000\<rparr>"


section \<open>Flags\<close>

definition break_entry :: "uuid \<Rightarrow> awdp_run \<Rightarrow> uuid \<Rightarrow> subject \<Rightarrow> string \<Rightarrow> awdp_score" where
  "break_entry k run gamebox_id s key = \<lparr>ax_id = k, ax_run_id = ar_id run, ax_event_id = Some (ar_event_id run),
     ax_user_id = sj_user_id s, ax_team_id = sj_team_id s, ax_gamebox_id = gamebox_id, ax_score_type = ''break'',
     ax_fix_round_id = None, ax_delta = ac_break_score (ar_config run), ax_idempotency_key = key\<rparr>"

lemma expected_flag_owner:
  "expected_flag env i g s = Some f \<Longrightarrow> (sj_user_id s = None) \<noteq> (sj_team_id s = None)"
  by (auto simp: expected_flag_def awdp_flag_def awdp_subject_key_def split: option.splits)

text \<open>
  C15. The right Flag of a subject, in the Break phase, is scored the first time with the Break score of
  the run's configuration and answered as already broken every later time, without another entry; a
  wrong Flag is answered as not accepted and changes nothing.
\<close>
theorem break_scored_once:
  assumes run: "List.find (\<lambda>r. ar_id r = i) (pw_runs w) = Some r" "ar_phase r = ApBreak"
    and g: "ar_gamebox_id r = None \<or> ar_gamebox_id r = Some g"
    and f: "expected_flag env i g s = Some f"
    and fresh: "\<not> break_taken i g (sj_user_id s) (sj_team_id s) (pw_breaks w)"
    and key: "break_idempotency_key (pe_uuid_text env) i g (sj_user_id s) (sj_team_id s) = Some key"
      "\<forall>x \<in> set (pw_scores w). ax_idempotency_key x \<noteq> key"
  shows "(str_trim bad \<noteq> f \<longrightarrow>
      awdp_submit_flag env i g bad s w = (Inr \<lparr>br_accepted = False, br_scored = False, br_already_broken = False\<rparr>, w))
    \<and> (str_trim good = f \<longrightarrow> (\<exists>w' w''.
      awdp_submit_flag env i g good s w = (Inr \<lparr>br_accepted = True, br_scored = True, br_already_broken = False\<rparr>, w')
      \<and> pw_scores w' = pw_scores w @ [break_entry (Suc (pw_next_id w)) r g s key]
      \<and> awdp_submit_flag env i g good s w' = (Inr \<lparr>br_accepted = True, br_scored = False, br_already_broken = True\<rparr>, w'')
      \<and> pw_scores w'' = pw_scores w'))"
proof (intro conjI impI)
  have id: "ar_id r = i" using find_SomeD [OF run(1)] by simp
  have owner: "(sj_user_id s = None) \<noteq> (sj_team_id s = None)" by (rule expected_flag_owner [OF f])
  show "awdp_submit_flag env i g bad s w = (Inr \<lparr>br_accepted = False, br_scored = False, br_already_broken = False\<rparr>, w)"
    if "str_trim bad \<noteq> f"
    using that run g f by (simp add: awdp_submit_flag_def run_simps require_run_run)
  show "\<exists>w' w''. awdp_submit_flag env i g good s w = (Inr \<lparr>br_accepted = True, br_scored = True, br_already_broken = False\<rparr>, w')
      \<and> pw_scores w' = pw_scores w @ [break_entry (Suc (pw_next_id w)) r g s key]
      \<and> awdp_submit_flag env i g good s w' = (Inr \<lparr>br_accepted = True, br_scored = False, br_already_broken = True\<rparr>, w'')
      \<and> pw_scores w'' = pw_scores w'" if "str_trim good = f"
    using that run g f fresh key id owner
    by (auto simp: awdp_submit_flag_def run_simps require_run_run record_break_def p_new_uuid_def create_awdp_score_def
        break_taken_def break_entry_def)
qed

definition break_world :: awdp_world where
  "break_world = sample_world\<lparr>pw_runs := [sample_run\<lparr>ar_phase := ApBreak\<rparr>]\<rparr>"

theorem break_scored_once_witness:
  "\<exists>w'. awdp_submit_flag sample_env 5 2 '' flag{awdp:u:u:team:u}'' (subject_team 3) break_world
     = (Inr \<lparr>br_accepted = True, br_scored = True, br_already_broken = False\<rparr>, w')
   \<and> map ax_delta (pw_scores w') = [540]"
proof -
  have f: "expected_flag sample_env 5 2 (subject_team 3) = Some ''flag{awdp:u:u:team:u}''"
    by (simp add: expected_flag_def awdp_flag_def awdp_subject_key_def subject_team_def sample_env_def derive_run_flag_key_def)
  have k: "break_idempotency_key (pe_uuid_text sample_env) 5 2 (sj_user_id (subject_team 3)) (sj_team_id (subject_team 3))
      = Some ''awdp:break:u:u:team:u''"
    by (simp add: break_idempotency_key_def awdp_subject_key_def subject_team_def sample_env_def)
  have "str_trim '' flag{awdp:u:u:team:u}'' = ''flag{awdp:u:u:team:u}''" by (simp add: str_trim_def is_space_def)
  with break_scored_once [where i = 5 and w = break_world and r = "sample_run\<lparr>ar_phase := ApBreak\<rparr>" and g = 2 and
      good = "'' flag{awdp:u:u:team:u}''", OF _ _ _ f _ k]
  obtain w' w'' where "awdp_submit_flag sample_env 5 2 '' flag{awdp:u:u:team:u}'' (subject_team 3) break_world
      = (Inr \<lparr>br_accepted = True, br_scored = True, br_already_broken = False\<rparr>, w')"
    "pw_scores w' = pw_scores break_world @ [break_entry (Suc (pw_next_id break_world)) (sample_run\<lparr>ar_phase := ApBreak\<rparr>) 2
       (subject_team 3) ''awdp:break:u:u:team:u'']"
    by (auto simp: break_world_def sample_world_def sample_run_def blank_run_def break_taken_def)
  then show ?thesis
    by (simp add: break_world_def sample_world_def break_entry_def sample_run_def blank_run_def awdp_config_default_def awdp_constants)
qed

section \<open>Changing the configuration\<close>

lemma next_config_splits:
  assumes n: "next_config p base secs = Inr c" and t: "0 \<le> secs" "in_i32 secs"
    and f: "in_i32 (ac_fix_duration_secs (config_patch_apply_to p base))"
  shows "config_validate c = Inr () \<and> ac_break_duration_secs c + ac_fix_duration_secs c = secs \<and> break_min_secs \<le> ac_break_duration_secs c"
proof -
  let ?F = "ac_fix_duration_secs (config_patch_apply_to p base)"
  let ?I = "ac_fix_round_interval_secs (config_patch_apply_to p base)"
  let ?fx = "(?F sdiv ?I) * ?I"
  have v: "config_validate c = Inr ()" "0 < ?fx" "ac_fix_duration_secs c = ?fx" "ac_break_duration_secs c = as_i32 (secs - ?fx)"
    "ac_fix_round_interval_secs c = ?I" "break_min_secs \<le> ac_break_duration_secs c"
    using n by (auto simp: next_config_def Let_def split: if_splits sum.splits)
  have I: "0 < ?I" using v(1,5) by (simp add: config_validate_iff)
  have F: "0 < ?F"
  proof (rule ccontr)
    assume "\<not> 0 < ?F"
    then have "?F sdiv ?I \<le> 0" using I by (auto simp: signed_divide_int_def sgn_if pos_imp_zdiv_nonneg_iff)
    then have "?fx \<le> 0" using I by (simp add: mult_nonpos_nonneg)
    then show False using v(2) by simp
  qed
  then have "?fx = ?F div ?I * ?I" using I by (simp add: sdiv_nonneg_eq)
  also have "\<dots> \<le> ?F" using I by (simp add: minus_mod_eq_div_mult [symmetric])
  finally have "in_i32 (secs - ?fx)" using t f v(2) by (simp add: in_i32_def)
  then show ?thesis using v by simp
qed

lemma update_config_run:
  assumes "update_config i p w = (Inr (), w')"
    and "List.find (\<lambda>e. er_id e = i) (pw_events w) = Some ev" "er_end_time ev = Some t"
    and "List.find (\<lambda>a. aw_event_id a = i) (pw_awdp_events w) = Some row"
  obtains c where "acp_expected_updated_at p = Some (aw_updated_at row)"
    "List.find (\<lambda>r. ar_event_id r = i \<and> run_counts_active (ar_phase r)) (pw_runs w) = None"
    "next_config p (aw_config row) (as_i32 (num_seconds (t - er_start_time ev))) = Inr c"
    "List.find (\<lambda>a. aw_event_id a = i) (pw_awdp_events w') = Some (row\<lparr>aw_config := c,
       aw_configuration_generation := aw_configuration_generation row + 1, aw_updated_at := pw_now w\<rparr>)"
    "List.find (\<lambda>e. er_id e = i) (pw_events w') = Some (ev\<lparr>er_end_time := Some (er_start_time ev
       + seconds (ac_break_duration_secs c) + seconds (ac_fix_duration_secs c))\<rparr>)"
  using assms find_SomeD [OF assms(2)] find_SomeD [OF assms(4)]
  by (auto simp: update_config_def run_simps find_active_competition_for_event_def p_now_run Let_def find_update_where
      split: option.splits sum.splits if_splits)


definition sample_row :: awdp_event_row where
  "sample_row = \<lparr>aw_event_id = 1, aw_config = awdp_config_default, aw_configuration_generation = 1, aw_updated_at = 0\<rparr>"

definition config_world :: awdp_world where
  "config_world = sample_world\<lparr>pw_runs := [], pw_awdp_events := [sample_row]\<rparr>"

definition sample_patch :: awdp_config_patch where
  "sample_patch = \<lparr>acp_expected_updated_at = Some 0, acp_break_duration_secs = None, acp_fix_duration_secs = Some 3100,
     acp_fix_round_interval_secs = None, acp_break_score = None, acp_fix_round_score = None\<rparr>"

lemma sample_patch_accepted: "\<exists>w'. update_config 1 sample_patch config_world = (Inr (), w')"
  by (simp add: update_config_def run_simps find_active_competition_for_event_def p_now_run Let_def config_world_def sample_row_def
      sample_world_def sample_event_def sample_patch_def config_patch_validate_def patch_duration_ok_def patch_score_ok_def
      next_config_def config_patch_apply_to_def unwrap_or_def sdiv_nonneg_eq smod_nonneg_eq config_validate_def awdp_config_default_def
      awdp_constants as_i32_def)


text \<open>
  The phases that count as active leave out PreparingFix: starting an event again while its run
  prepares the Fix phase gives the event a second run.
\<close>

definition preparing_world :: awdp_world where
  "preparing_world = sample_world\<lparr>pw_awdp_events := [sample_row], pw_runs := [sample_run\<lparr>ar_phase := ApPreparingFix\<rparr>]\<rparr>"

lemma preparing_run_is_doubled:
  "map ar_phase (pw_runs (snd (start_awdp_event sample_env 1 preparing_world))) = [ApPreparingFix, ApBreak]"
  by (simp add: start_awdp_event_def ensure_awdp_event_def ensure_by_event_id_def create_competition_run_def run_simps
      find_active_competition_for_event_def run_counts_active_def runs_of_event_def p_now_run p_new_uuid_def preparing_world_def
      sample_world_def sample_event_def sample_row_def sample_run_def blank_run_def run_index_conflict_def
      config_validate_def awdp_config_default_def awdp_constants smod_nonneg_eq transition_phase_def require_run_run update_run_def
      apply_phase_patch_def p_emit_def start_all_event_instances_def auto_start_targets_def event_subjects_def Let_def)

end
