(* ===== verification/Jeopardy_Domain.thy ===== *)
theory Jeopardy_Domain
  imports Awdp_Db Complex_Main
begin

text \<open>
  The rules the Jeopardy mode is played by: the legal combinations of family, purpose and participant
  mode and what each of them offers (\<open>modules/event/common/domain\<close>), the policy of a Jeopardy event,
  the wall-clock window of an event and the dynamic score
  (\<open>modules/event/jeopardy/domain\<close>). Points are real numbers: \<open>f64\<close> is exact arithmetic here, and the
  value that a quotient which is not a number leads to (\<open>f64::max\<close> ignores it) is written out.
\<close>

section \<open>Event modes\<close>

record event_mode =
  em_family :: event_family
  em_purpose :: event_purpose
  em_participant_mode :: participant_mode

definition mode_validate :: "event_mode \<Rightarrow> bool" where
  "mode_validate m =
     ((em_family m, em_purpose m, em_participant_mode m) \<in> set
       [(FamJeopardy, PurPractice, PmIndividual),
        (FamJeopardy, PurCompetition, PmIndividual),
        (FamJeopardy, PurCompetition, PmTeam),
        (FamAwd, PurCompetition, PmTeam),
        (FamAwdp, PurPractice, PmIndividual),
        (FamAwdp, PurCompetition, PmIndividual),
        (FamAwdp, PurCompetition, PmTeam)])"

text \<open>\<open>EventMode::new\<close>; the error is the invalid combination itself.\<close>

definition event_mode_new ::
  "event_family \<Rightarrow> event_purpose \<Rightarrow> participant_mode \<Rightarrow> event_mode + event_mode" where
  "event_mode_new f p m =
     (let mode = \<lparr>em_family = f, em_purpose = p, em_participant_mode = m\<rparr>
      in if mode_validate mode then Inr mode else Inl mode)"

definition event_mode_of :: "'a event_row_scheme \<Rightarrow> event_mode + event_mode" where
  "event_mode_of e = event_mode_new (er_family e) (er_purpose e) (er_participant_mode e)"

record event_capabilities =
  ec_participant_mode :: participant_mode
  ec_instances :: bool
  ec_standard_flag_submission :: bool
  ec_teams :: bool
  ec_wireguard :: bool
  ec_gameboxes :: bool
  ec_rounds :: bool
  ec_judge :: bool
  ec_reset :: bool

definition capabilities_for_mode :: "event_mode \<Rightarrow> event_capabilities" where
  "capabilities_for_mode m = (case em_family m of
       FamJeopardy \<Rightarrow>
         \<lparr>ec_participant_mode = em_participant_mode m, ec_instances = True,
          ec_standard_flag_submission = True, ec_teams = (em_participant_mode m = PmTeam),
          ec_wireguard = False, ec_gameboxes = False, ec_rounds = False, ec_judge = False,
          ec_reset = False\<rparr>
     | FamAwd \<Rightarrow>
         \<lparr>ec_participant_mode = em_participant_mode m, ec_instances = False,
          ec_standard_flag_submission = False, ec_teams = (em_participant_mode m = PmTeam),
          ec_wireguard = True, ec_gameboxes = True, ec_rounds = True, ec_judge = True,
          ec_reset = True\<rparr>
     | FamAwdp \<Rightarrow>
         \<lparr>ec_participant_mode = em_participant_mode m, ec_instances = True,
          ec_standard_flag_submission = False, ec_teams = (em_participant_mode m = PmTeam),
          ec_wireguard = False, ec_gameboxes = True, ec_rounds = True, ec_judge = True,
          ec_reset = True\<rparr>)"

section \<open>The window of an event\<close>

datatype time_window_status = TsNotStarted | TsOngoing | TsEnded

definition event_time_status ::
  "timestamp \<Rightarrow> timestamp option \<Rightarrow> event_family \<Rightarrow> event_purpose \<Rightarrow> timestamp \<Rightarrow> time_window_status" where
  "event_time_status start_time end_time family purpose now =
     (if now < start_time then TsNotStarted
      else case purpose of
        PurPractice \<Rightarrow>
          (if family = FamAwdp then
             (case end_time of Some e \<Rightarrow> if now > e then TsEnded else TsOngoing | None \<Rightarrow> TsOngoing)
           else TsOngoing)
      | PurCompetition \<Rightarrow>
          (case end_time of Some e \<Rightarrow> if now > e then TsEnded else TsOngoing | None \<Rightarrow> TsOngoing))"

definition event_time_status_of :: "'a event_row_scheme \<Rightarrow> timestamp \<Rightarrow> time_window_status" where
  "event_time_status_of e now =
     event_time_status (er_start_time e) (er_end_time e) (er_family e) (er_purpose e) now"

lemma not_started_iff: "event_time_status_of e now = TsNotStarted \<longleftrightarrow> now < er_start_time e"
  by (simp add: event_time_status_of_def event_time_status_def split: event_purpose.splits option.splits)

section \<open>The policy of a Jeopardy event\<close>

datatype jeop_error =
    JInvalidMode | JWrongFamily | JUnsupportedPurpose | JMissing | JNotJoined | JNotStarted | JEnded
  | JNoTeam | JNotInEvent | JUnpublished | JTooManyInstances | JNotReady | JFlagType | JNoImagePin
  | JSetting | JPanic | JDocker | JDb | JUnique | JInstanceGone | JWrongFlag | JCompetitionInstance
  | JNotActive | JNotOwner | JBadRequest | JForbidden | JRosterClosed | JRosterLocked

record jeopardy_policy =
  jp_purpose :: event_purpose
  jp_participant_mode :: participant_mode

definition policy_from_mode :: "event_mode \<Rightarrow> jeopardy_policy option" where
  "policy_from_mode m =
     (if em_family m \<noteq> FamJeopardy then None
      else Some \<lparr>jp_purpose = em_purpose m, jp_participant_mode = em_participant_mode m\<rparr>)"

definition policy_from_event :: "'a event_row_scheme \<Rightarrow> jeop_error + jeopardy_policy" where
  "policy_from_event e = (case event_mode_of e of
       Inl _ \<Rightarrow> Inl JInvalidMode
     | Inr m \<Rightarrow> (case policy_from_mode m of None \<Rightarrow> Inl JInvalidMode | Some p \<Rightarrow> Inr p))"

definition require_jeopardy_family :: "'a event_row_scheme \<Rightarrow> jeop_error + unit" where
  "require_jeopardy_family e = (if er_family e \<noteq> FamJeopardy then Inl JWrongFamily else Inr ())"

definition policy_is_practice :: "jeopardy_policy \<Rightarrow> bool" where
  "policy_is_practice p \<longleftrightarrow> jp_purpose p = PurPractice"

definition policy_is_competition :: "jeopardy_policy \<Rightarrow> bool" where
  "policy_is_competition p \<longleftrightarrow> jp_purpose p = PurCompetition"

definition requires_event_challenge :: "jeopardy_policy \<Rightarrow> bool" where
  "requires_event_challenge = policy_is_competition"

definition contributes_to_official_score :: "jeopardy_policy \<Rightarrow> bool" where
  "contributes_to_official_score = policy_is_competition"

definition supports_official_scoreboard :: "jeopardy_policy \<Rightarrow> bool" where
  "supports_official_scoreboard = policy_is_competition"

definition saturating_mul_u64 :: "nat \<Rightarrow> nat \<Rightarrow> nat" where
  "saturating_mul_u64 a b = min (a * b) (2 ^ 64 - 1)"

definition max_concurrent_instances :: "jeopardy_policy \<Rightarrow> nat option \<Rightarrow> nat" where
  "max_concurrent_instances p team_member_count =
     (case (jp_purpose p, jp_participant_mode p) of
        (PurPractice, _) \<Rightarrow> 1
      | (PurCompetition, PmIndividual) \<Rightarrow> 2
      | (PurCompetition, PmTeam) \<Rightarrow> max (saturating_mul_u64 (unwrap_or team_member_count 1) 2) 2)"

lemma policy_from_event_Inr:
  "policy_from_event e = Inr p \<longleftrightarrow>
     er_family e = FamJeopardy \<and> jp_purpose p = er_purpose e \<and>
     jp_participant_mode p = er_participant_mode e \<and>
     (er_purpose e = PurPractice \<longrightarrow> er_participant_mode e = PmIndividual)"
  by (cases p; cases "er_family e"; cases "er_purpose e"; cases "er_participant_mode e")
     (auto simp: policy_from_event_def event_mode_of_def event_mode_new_def mode_validate_def
       policy_from_mode_def Let_def)

section \<open>Solves\<close>

datatype solve_subject = SubjectUser | SubjectTeam

record jeopardy_submit_request =
  sq_event_id :: uuid
  sq_user_id :: uuid
  sq_instance_id :: uuid
  sq_flag :: string
  sq_subject :: solve_subject

definition dynamic_score :: "real \<Rightarrow> nat \<Rightarrow> real \<Rightarrow> real \<Rightarrow> real" where
  "dynamic_score base_points solves decay min_percent =
     (if solves = 0 then base_points
      else let min_points = base_points * min_percent; d = decay + real solves in
        if d = 0 \<or> decay / d < 0 then min_points
        else max (min_points + (base_points - min_points) * sqrt (decay / d)) min_points)"

definition validate_points :: "real \<Rightarrow> jeop_error + real" where
  "validate_points points =
     (if points \<le> 0 \<or> points > 1000000 then Inl JBadRequest else Inr points)"

lemma dynamic_score_first [simp]: "dynamic_score b 0 d m = b"
  by (simp add: dynamic_score_def)

text \<open>With a minimum share of at most one, the score is the minimum and a share of the rest.\<close>

lemma dynamic_score_form:
  assumes "0 \<le> b" "m \<le> 1" "0 < d"
  shows "dynamic_score b n d m = b * m + (b - b * m) * sqrt (d / (d + real n))"
proof -
  have "b * m \<le> b" using mult_left_mono[OF assms(2,1)] by simp
  moreover have "0 \<le> sqrt (d / (d + real n))" using assms(3) by simp
  ultimately have "0 \<le> (b - b * m) * sqrt (d / (d + real n))" by simp
  then have "max (b * m + (b - b * m) * sqrt (d / (d + real n))) (b * m) =
      b * m + (b - b * m) * sqrt (d / (d + real n))"
    by (intro max_absorb1) linarith
  moreover have "d + real n \<noteq> 0" "\<not> d / (d + real n) < 0" using assms(3) by (auto simp: not_less)
  ultimately show ?thesis using assms(3) by (cases n) (simp_all add: dynamic_score_def Let_def)
qed

lemma share_decreasing:
  assumes "0 < d" "n < n'"
  shows "sqrt (d / (d + real n')) < sqrt (d / (d + real n))"
proof -
  have "d / (d + real n') < d / (d + real n)"
    using assms by (intro divide_strict_left_mono) (auto intro: add_pos_nonneg)
  then show ?thesis by simp
qed

lemma share_bounds: "0 < d \<Longrightarrow> 0 \<le> sqrt (d / (d + real n)) \<and> sqrt (d / (d + real n)) \<le> 1"
  by simp

text \<open>A share between nothing and everything of the way from the minimum to the base.\<close>

lemma share_between:
  fixes b :: real
  assumes "0 \<le> b" "m \<le> 1" "0 \<le> x" "x \<le> 1"
  shows "b * m \<le> b * m + (b - b * m) * x \<and> b * m + (b - b * m) * x \<le> b"
proof -
  have "b * m \<le> b" using mult_left_mono[OF assms(2,1)] by simp
  then have "0 \<le> (b - b * m) * x" "(b - b * m) * x \<le> (b - b * m) * 1"
    using assms by (simp, intro mult_left_mono) auto
  then show ?thesis by simp
qed

lemma dynamic_score_bounds:
  assumes "0 \<le> b" "m \<le> 1" "0 < d"
  shows "b * m \<le> dynamic_score b n d m \<and> dynamic_score b n d m \<le> b"
  unfolding dynamic_score_form[OF assms] using share_between[OF assms(1,2)] share_bounds[OF assms(3)] by blast

lemma dynamic_score_decreasing:
  assumes "0 < b" "m < 1" "0 < d" "n < n'"
  shows "dynamic_score b n' d m < dynamic_score b n d m"
proof -
  have "0 < b - b * m" using assms(1,2) by simp
  then have "(b - b * m) * sqrt (d / (d + real n')) < (b - b * m) * sqrt (d / (d + real n))"
    by (intro mult_strict_left_mono share_decreasing assms)
  then show ?thesis using assms by (simp add: dynamic_score_form)
qed

end
