(* ===== verification/Jeopardy_Db.thy ===== *)
theory Jeopardy_Db
  imports Jeopardy_Domain
begin

text \<open>
  Tables and repositories of the Jeopardy mode: \<open>infrastructure/solve_repository.rs\<close>,
  \<open>infrastructure/instance_repository.rs\<close> and the writes to the roster. Unique indexes, foreign keys
  and triggers are those of the migrations: one solve per event, challenge and user (or team), one
  team per user and event, one captain per team, team names unique in an event, container names
  unique; a membership needs its team and its enrolment in the same event, and a team that is deleted
  takes its members, solves and instances with it, an enrolment its membership. The order in which a
  table is listed is the order of insertion.
\<close>

section \<open>Rows\<close>

datatype member_role = RoleCaptain | RoleMember

record jeop_event = event_row +
  er_hidden :: bool
  er_allow_join :: bool
  er_system_key :: "string option"
  er_flag_prefix :: "string option"

record jeop_user = event_user +
  eu_points :: real

record jeop_team = event_team +
  tm_points :: real

record jeop_member = team_member +
  mb_role :: member_role

record jeop_account =
  us_id :: uuid
  us_nickname :: string
  us_avatar :: "string option"

record jeop_challenge =
  ch_id :: uuid
  ch_name :: string
  ch_build_status :: "string option"
  ch_flag_type :: "string option"
  ch_static_flag_value :: "string option"
  ch_container_port :: "int option"
  ch_image_repo_digest :: "string option"
  ch_image_id :: "string option"

record jeop_event_challenge =
  jc_event_id :: uuid
  jc_challenge_id :: uuid
  jc_points :: real
  jc_hidden :: bool

record jeop_solve =
  sv_id :: uuid
  sv_event_id :: uuid
  sv_challenge_id :: uuid
  sv_user_id :: uuid
  sv_team_id :: "uuid option"
  sv_obtained_points :: real
  sv_bonus_points :: real
  sv_created_at :: timestamp

record jeop_instance = event_instance +
  ei_image_ref :: "string option"
  ei_expires_at :: "timestamp option"
  ei_stopped_at :: "timestamp option"
  ei_updated_at :: timestamp

record challenge_instance =
  ci_id :: uuid
  ci_flag :: string
  ci_content :: string
  ci_challenge_id :: uuid
  ci_user_id :: uuid
  ci_event_id :: uuid
  ci_team_id :: "uuid option"

datatype jeop_effect =
    JfEnsureImage string
  | JfCreateStart string string "string option" nat
  | JfInspect string nat
  | JfStopRemove string
  | JfList

record jeop_world =
  jw_now :: timestamp
  jw_next_id :: uuid
  jw_events :: "jeop_event list"
  jw_accounts :: "jeop_account list"
  jw_challenges :: "jeop_challenge list"
  jw_event_challenges :: "jeop_event_challenge list"
  jw_users :: "jeop_user list"
  jw_teams :: "jeop_team list"
  jw_members :: "jeop_member list"
  jw_solves :: "jeop_solve list"
  jw_runtimes :: "jeop_instance list"
  jw_instances :: "challenge_instance list"
  jw_log :: "jeop_effect list"

type_synonym 'a jop = "(jeop_world, jeop_error, 'a) op"

text \<open>
  What the mode is given: the text of an identifier, the settings table with its templates resolved,
  the numbers a setting's text denotes, and the answers of the Docker host, which may depend on
  everything done to it before.
\<close>

record jeop_env =
  je_uuid_text :: "uuid \<Rightarrow> string"
  je_setting :: "string \<Rightarrow> string option"
  je_parse_f64 :: "string \<Rightarrow> real option"
  je_parse_i64 :: "string \<Rightarrow> int option"
  je_num_text :: "nat \<Rightarrow> string"
  je_docker :: "jeop_effect list \<Rightarrow> jeop_effect \<Rightarrow> bool"
  je_published_port :: "jeop_effect list \<Rightarrow> string \<Rightarrow> nat \<Rightarrow> nat option"
  je_containers :: "jeop_effect list \<Rightarrow> (string \<times> string) list option"

definition j_now :: "(jeop_world, 'e, timestamp) op" where
  "j_now = readM jw_now"

definition j_new_uuid :: "(jeop_world, 'e, uuid) op" where
  "j_new_uuid = (\<lambda>w. (Inr (jw_next_id w), w\<lparr>jw_next_id := jw_next_id w + 1\<rparr>))"

definition get_setting :: "jeop_env \<Rightarrow> string \<Rightarrow> string jop" where
  "get_setting env key = ok_orM (je_setting env key) JSetting"

definition find_event :: "uuid \<Rightarrow> jeop_event option jop" where
  "find_event event_id = readM (\<lambda>w. List.find (\<lambda>e. er_id e = event_id) (jw_events w))"

definition find_visible_event :: "uuid \<Rightarrow> jeop_event option jop" where
  "find_visible_event event_id =
     readM (\<lambda>w. List.find (\<lambda>e. er_id e = event_id \<and> \<not> er_hidden e) (jw_events w))"

definition find_account :: "uuid \<Rightarrow> jeop_account option jop" where
  "find_account user_id = readM (\<lambda>w. List.find (\<lambda>u. us_id u = user_id) (jw_accounts w))"

definition find_challenge :: "uuid \<Rightarrow> jeop_challenge option jop" where
  "find_challenge challenge_id = readM (\<lambda>w. List.find (\<lambda>c. ch_id c = challenge_id) (jw_challenges w))"

definition find_event_challenge :: "uuid \<Rightarrow> uuid \<Rightarrow> jeop_event_challenge option jop" where
  "find_event_challenge event_id challenge_id =
     readM (\<lambda>w. List.find (\<lambda>c. jc_event_id c = event_id \<and> jc_challenge_id c = challenge_id) (jw_event_challenges w))"

definition is_enrolled :: "uuid \<Rightarrow> uuid \<Rightarrow> 'u event_user_scheme \<Rightarrow> bool" where
  "is_enrolled event_id user_id u \<longleftrightarrow> eu_event_id u = event_id \<and> eu_user_id u = user_id"

definition is_member :: "uuid \<Rightarrow> uuid \<Rightarrow> 'm team_member_scheme \<Rightarrow> bool" where
  "is_member event_id user_id m \<longleftrightarrow> mb_event_id m = event_id \<and> mb_user_id m = user_id"

definition find_enrolment :: "uuid \<Rightarrow> uuid \<Rightarrow> jeop_user option jop" where
  "find_enrolment event_id user_id = readM (\<lambda>w. List.find (is_enrolled event_id user_id) (jw_users w))"

definition find_membership :: "uuid \<Rightarrow> uuid \<Rightarrow> jeop_member option jop" where
  "find_membership event_id user_id = readM (\<lambda>w. List.find (is_member event_id user_id) (jw_members w))"

definition find_event_team :: "uuid \<Rightarrow> uuid \<Rightarrow> jeop_team option jop" where
  "find_event_team event_id team_id =
     readM (\<lambda>w. List.find (\<lambda>t. tm_id t = team_id \<and> tm_event_id t = event_id) (jw_teams w))"

section \<open>Solves\<close>

definition find_team_id_for_user :: "uuid \<Rightarrow> uuid \<Rightarrow> uuid option jop" where
  "find_team_id_for_user event_id user_id =
     bindM (find_membership event_id user_id) (\<lambda>m. returnM (map_option mb_team_id m))"

definition solve_of :: "uuid \<Rightarrow> uuid \<Rightarrow> jeop_solve \<Rightarrow> bool" where
  "solve_of event_id challenge_id s \<longleftrightarrow> sv_event_id s = event_id \<and> sv_challenge_id s = challenge_id"

definition already_solved ::
  "uuid \<Rightarrow> uuid \<Rightarrow> uuid \<Rightarrow> uuid option \<Rightarrow> solve_subject \<Rightarrow> bool jop" where
  "already_solved event_id challenge_id user_id team_id subject = (case subject of
       SubjectUser \<Rightarrow>
         readM (\<lambda>w. list_ex (\<lambda>s. solve_of event_id challenge_id s \<and> sv_user_id s = user_id) (jw_solves w))
     | SubjectTeam \<Rightarrow>
         bindM (ok_orM team_id JDb) (\<lambda>t.
         readM (\<lambda>w. list_ex (\<lambda>s. solve_of event_id challenge_id s \<and> sv_team_id s = Some t) (jw_solves w))))"

definition solved_count :: "uuid \<Rightarrow> uuid \<Rightarrow> nat jop" where
  "solved_count event_id challenge_id =
     readM (\<lambda>w. length (filter (solve_of event_id challenge_id) (jw_solves w)))"

definition find_event_challenge_points :: "uuid \<Rightarrow> uuid \<Rightarrow> real option jop" where
  "find_event_challenge_points event_id challenge_id =
     bindM (find_event_challenge event_id challenge_id) (\<lambda>c. returnM (map_option jc_points c))"

definition award_user_points :: "uuid \<Rightarrow> uuid \<Rightarrow> real \<Rightarrow> unit jop" where
  "award_user_points event_id user_id points =
     bindM (readM (\<lambda>w. length (filter (\<lambda>u. is_enrolled event_id user_id u \<and> \<not> eu_banned u) (jw_users w)))) (\<lambda>n.
     bindM (modifyM (\<lambda>w. w\<lparr>jw_users := update_where (\<lambda>u. is_enrolled event_id user_id u \<and> \<not> eu_banned u)
              (\<lambda>u. u\<lparr>eu_points := eu_points u + points\<rparr>) (jw_users w)\<rparr>)) (\<lambda>_.
     guardM (n = 1) JNotActive))"

definition award_team_points :: "uuid \<Rightarrow> real \<Rightarrow> unit jop" where
  "award_team_points team_id points =
     bindM (readM (\<lambda>w. length (filter (\<lambda>t. tm_id t = team_id \<and> \<not> tm_banned t) (jw_teams w)))) (\<lambda>n.
     bindM (modifyM (\<lambda>w. w\<lparr>jw_teams := update_where (\<lambda>t. tm_id t = team_id \<and> \<not> tm_banned t)
              (\<lambda>t. t\<lparr>tm_points := tm_points t + points\<rparr>) (jw_teams w)\<rparr>)) (\<lambda>_.
     guardM (n = 1) JNotActive))"

text \<open>
  The triggers on the table require a Jeopardy event and a team exactly in team events; the two
  partial unique indexes one solve per subject.
\<close>

definition ownership_ok :: "jeop_event list \<Rightarrow> uuid \<Rightarrow> uuid option \<Rightarrow> bool" where
  "ownership_ok events event_id team_id = (case List.find (\<lambda>e. er_id e = event_id) events of
       None \<Rightarrow> False
     | Some e \<Rightarrow> er_family e = FamJeopardy \<and> (er_participant_mode e = PmTeam \<longleftrightarrow> team_id \<noteq> None))"

definition solve_clash :: "uuid \<Rightarrow> uuid \<Rightarrow> uuid \<Rightarrow> uuid option \<Rightarrow> jeop_solve \<Rightarrow> bool" where
  "solve_clash event_id challenge_id user_id team_id s \<longleftrightarrow>
     solve_of event_id challenge_id s \<and>
     (case team_id of None \<Rightarrow> sv_team_id s = None \<and> sv_user_id s = user_id | Some t \<Rightarrow> sv_team_id s = Some t)"

definition solve_references :: "jeop_world \<Rightarrow> uuid \<Rightarrow> uuid \<Rightarrow> uuid \<Rightarrow> uuid option \<Rightarrow> bool" where
  "solve_references w event_id challenge_id user_id team_id \<longleftrightarrow>
     list_ex (\<lambda>c. ch_id c = challenge_id) (jw_challenges w) \<and>
     list_ex (\<lambda>u. us_id u = user_id) (jw_accounts w) \<and>
     (case team_id of None \<Rightarrow> True
      | Some t \<Rightarrow> list_ex (\<lambda>r. tm_id r = t \<and> tm_event_id r = event_id) (jw_teams w))"

definition insert_solve :: "uuid \<Rightarrow> uuid \<Rightarrow> uuid \<Rightarrow> uuid option \<Rightarrow> real \<Rightarrow> unit jop" where
  "insert_solve event_id challenge_id user_id team_id points =
     bindM (readM (\<lambda>w. ownership_ok (jw_events w) event_id team_id)) (\<lambda>owner_ok.
     bindM (guardM owner_ok JDb) (\<lambda>_.
     bindM (readM (\<lambda>w. list_ex (solve_clash event_id challenge_id user_id team_id) (jw_solves w))) (\<lambda>clash.
     bindM (guardM (\<not> clash) JUnique) (\<lambda>_.
     bindM (readM (\<lambda>w. solve_references w event_id challenge_id user_id team_id)) (\<lambda>refs_ok.
     bindM (guardM refs_ok JDb) (\<lambda>_.
     bindM j_new_uuid (\<lambda>i.
     modifyM (\<lambda>w. w\<lparr>jw_solves := jw_solves w @
       [\<lparr>sv_id = i, sv_event_id = event_id, sv_challenge_id = challenge_id, sv_user_id = user_id,
         sv_team_id = team_id, sv_obtained_points = points, sv_bonus_points = 0,
         sv_created_at = jw_now w\<rparr>]\<rparr>))))))))"

section \<open>Instances\<close>

definition runtime_of :: "jeop_world \<Rightarrow> uuid \<Rightarrow> jeop_instance option" where
  "runtime_of w i = List.find (\<lambda>r. ei_id r = i) (jw_runtimes w)"

definition find_instance_with_runtime ::
  "uuid \<Rightarrow> (challenge_instance \<Rightarrow> bool) \<Rightarrow> (challenge_instance \<times> jeop_instance) option jop" where
  "find_instance_with_runtime instance_id p = readM (\<lambda>w.
     case List.find (\<lambda>c. ci_id c = instance_id \<and> p c) (jw_instances w) of
       None \<Rightarrow> None
     | Some c \<Rightarrow> (case runtime_of w (ci_id c) of
           None \<Rightarrow> None
         | Some r \<Rightarrow> if ei_runtime_state r \<noteq> ''running'' then None else Some (c, r)))"

definition find_owned_running :: "uuid \<Rightarrow> uuid \<Rightarrow> (challenge_instance \<times> jeop_instance) option jop" where
  "find_owned_running instance_id user_id =
     find_instance_with_runtime instance_id (\<lambda>c. ci_user_id c = user_id)"

definition find_team_running :: "uuid \<Rightarrow> uuid \<Rightarrow> uuid \<Rightarrow> (challenge_instance \<times> jeop_instance) option jop" where
  "find_team_running instance_id event_id team_id =
     find_instance_with_runtime instance_id (\<lambda>c. ci_event_id c = event_id \<and> ci_team_id c = Some team_id)"

definition list_cleanup_candidates :: "(challenge_instance \<times> jeop_instance) list jop" where
  "list_cleanup_candidates = readM (\<lambda>w.
     List.map_filter (\<lambda>r. map_option (\<lambda>c. (c, r)) (List.find (\<lambda>c. ci_id c = ei_id r) (jw_instances w)))
       (filter (\<lambda>r. ei_runtime_state r = ''failed'' \<or>
          (ei_runtime_state r = ''running'' \<and> (\<exists>t \<in> set_option (ei_expires_at r). t \<le> jw_now w)))
        (jw_runtimes w)))"

definition list_running_older_than :: "int \<Rightarrow> jeop_instance list jop" where
  "list_running_older_than min_age_secs = readM (\<lambda>w.
     filter (\<lambda>r. ei_runtime_state r = ''running'' \<and> ei_updated_at r \<le> jw_now w - seconds min_age_secs)
       (jw_runtimes w))"

text \<open>Deleting a runtime row deletes the challenge instance with the same identifier.\<close>

definition drop_runtimes :: "(jeop_instance \<Rightarrow> bool) \<Rightarrow> jeop_world \<Rightarrow> jeop_world" where
  "drop_runtimes p w = w\<lparr>jw_runtimes := filter (\<lambda>r. \<not> p r) (jw_runtimes w),
     jw_instances := filter (\<lambda>c. \<not> list_ex (\<lambda>r. p r \<and> ei_id r = ci_id c) (jw_runtimes w)) (jw_instances w)\<rparr>"

definition delete_completed_by_container_name :: "string \<Rightarrow> unit jop" where
  "delete_completed_by_container_name name =
     modifyM (drop_runtimes (\<lambda>r. ei_container_name r = name \<and> ei_runtime_state r = ''completed''))"

definition event_exists_by_prefix :: "jeop_env \<Rightarrow> string \<Rightarrow> bool jop" where
  "event_exists_by_prefix env p =
     readM (\<lambda>w. list_ex (\<lambda>e. take (length p) (je_uuid_text env (er_id e)) = p) (jw_events w))"

definition transition_runtime_state :: "uuid \<Rightarrow> string \<Rightarrow> string \<Rightarrow> unit jop" where
  "transition_runtime_state instance_id expected nxt =
     bindM (readM (\<lambda>w. length (filter (\<lambda>r. ei_id r = instance_id \<and> ei_runtime_state r = expected) (jw_runtimes w)))) (\<lambda>n.
     bindM (modifyM (\<lambda>w. w\<lparr>jw_runtimes :=
        update_where (\<lambda>r. ei_id r = instance_id \<and> ei_runtime_state r = expected)
          (\<lambda>r. r\<lparr>ei_runtime_state := nxt,
             ei_stopped_at := (if nxt = ''completed'' then Some (jw_now w) else None),
             ei_updated_at := jw_now w\<rparr>) (jw_runtimes w)\<rparr>)) (\<lambda>_.
     guardM (n = 1) JDb))"

text \<open>The two rows of a launch, written in one transaction.\<close>

definition insert_instance_rows :: "jeop_instance \<Rightarrow> challenge_instance \<Rightarrow> unit jop" where
  "insert_instance_rows r c = txnM (
     bindM (readM (\<lambda>w. list_ex (\<lambda>q. ei_id q = ei_id r \<or> ei_container_name q = ei_container_name r) (jw_runtimes w))) (\<lambda>clash.
     bindM (guardM (\<not> clash) JUnique) (\<lambda>_.
     bindM (readM (\<lambda>w. ownership_ok (jw_events w) (ci_event_id c) (ci_team_id c) \<and>
        solve_references w (ci_event_id c) (ci_challenge_id c) (ci_user_id c) (ci_team_id c))) (\<lambda>refs_ok.
     bindM (guardM refs_ok JDb) (\<lambda>_.
     modifyM (\<lambda>w. w\<lparr>jw_runtimes := jw_runtimes w @ [r], jw_instances := jw_instances w @ [c]\<rparr>))))))"

section \<open>The roster\<close>

definition insert_enrolment :: "uuid \<Rightarrow> uuid \<Rightarrow> unit jop" where
  "insert_enrolment event_id user_id =
     bindM (readM (\<lambda>w. list_ex (is_enrolled event_id user_id) (jw_users w))) (\<lambda>clash.
     bindM (guardM (\<not> clash) JUnique) (\<lambda>_.
     bindM (readM (\<lambda>w. list_ex (\<lambda>u. us_id u = user_id) (jw_accounts w) \<and>
                       list_ex (\<lambda>e. er_id e = event_id) (jw_events w))) (\<lambda>refs_ok.
     bindM (guardM refs_ok JDb) (\<lambda>_.
     modifyM (\<lambda>w. w\<lparr>jw_users := jw_users w @
       [\<lparr>eu_event_id = event_id, eu_user_id = user_id, eu_banned = False, eu_points = 0\<rparr>]\<rparr>)))))"

definition insert_team :: "uuid \<Rightarrow> string \<Rightarrow> uuid jop" where
  "insert_team event_id name =
     bindM (readM (\<lambda>w. list_ex (\<lambda>t. tm_event_id t = event_id \<and> tm_name t = name) (jw_teams w))) (\<lambda>clash.
     bindM (guardM (\<not> clash) JUnique) (\<lambda>_.
     bindM (readM (\<lambda>w. list_ex (\<lambda>e. er_id e = event_id) (jw_events w))) (\<lambda>refs_ok.
     bindM (guardM refs_ok JDb) (\<lambda>_.
     bindM j_new_uuid (\<lambda>i.
     bindM (modifyM (\<lambda>w. w\<lparr>jw_teams := jw_teams w @
       [\<lparr>tm_id = i, tm_event_id = event_id, tm_name = name, tm_banned = False, tm_points = 0\<rparr>]\<rparr>)) (\<lambda>_.
     returnM i))))))"

definition member_clash :: "uuid \<Rightarrow> uuid \<Rightarrow> uuid \<Rightarrow> member_role \<Rightarrow> jeop_member \<Rightarrow> bool" where
  "member_clash event_id team_id user_id role m \<longleftrightarrow>
     is_member event_id user_id m \<or>
     (role = RoleCaptain \<and> mb_event_id m = event_id \<and> mb_team_id m = team_id \<and> mb_role m = RoleCaptain)"

definition insert_member :: "uuid \<Rightarrow> uuid \<Rightarrow> uuid \<Rightarrow> member_role \<Rightarrow> unit jop" where
  "insert_member event_id team_id user_id role =
     bindM (readM (\<lambda>w. list_ex (member_clash event_id team_id user_id role) (jw_members w))) (\<lambda>clash.
     bindM (guardM (\<not> clash) JUnique) (\<lambda>_.
     bindM (readM (\<lambda>w. list_ex (\<lambda>t. tm_id t = team_id \<and> tm_event_id t = event_id) (jw_teams w) \<and>
                       list_ex (is_enrolled event_id user_id) (jw_users w))) (\<lambda>refs_ok.
     bindM (guardM refs_ok JDb) (\<lambda>_.
     modifyM (\<lambda>w. w\<lparr>jw_members := jw_members w @
       [\<lparr>mb_event_id = event_id, mb_team_id = team_id, mb_user_id = user_id, mb_role = role\<rparr>]\<rparr>)))))"

definition drop_enrolments :: "uuid \<Rightarrow> uuid list \<Rightarrow> jeop_world \<Rightarrow> jeop_world" where
  "drop_enrolments event_id ids w =
     (let gone = (\<lambda>u. eu_event_id u = event_id \<and> eu_user_id u \<in> set ids) in
      w\<lparr>jw_users := filter (\<lambda>u. \<not> gone u) (jw_users w),
        jw_members := filter (\<lambda>m. \<not> list_ex (\<lambda>u. gone u \<and> is_member (eu_event_id u) (eu_user_id u) m) (jw_users w))
          (jw_members w)\<rparr>)"

definition delete_enrolments :: "uuid \<Rightarrow> uuid list \<Rightarrow> unit jop" where
  "delete_enrolments event_id ids = modifyM (drop_enrolments event_id ids)"

definition delete_member :: "jeop_member \<Rightarrow> unit jop" where
  "delete_member m = modifyM (\<lambda>w. w\<lparr>jw_members := filter (\<lambda>r.
     \<not> (mb_event_id r = mb_event_id m \<and> mb_team_id r = mb_team_id m \<and> mb_user_id r = mb_user_id m)) (jw_members w)\<rparr>)"

definition drop_teams :: "uuid \<Rightarrow> uuid list \<Rightarrow> jeop_world \<Rightarrow> jeop_world" where
  "drop_teams event_id ids w =
     (let gone = (\<lambda>e t. e = event_id \<and> t \<in> set ids \<and>
                list_ex (\<lambda>r. tm_id r = t \<and> tm_event_id r = event_id) (jw_teams w)) in
      drop_runtimes (\<lambda>r. \<exists>t \<in> set_option (ei_owner_team_id r). gone (ei_event_id r) t)
       (w\<lparr>jw_teams := filter (\<lambda>t. \<not> (tm_event_id t = event_id \<and> tm_id t \<in> set ids)) (jw_teams w),
          jw_members := filter (\<lambda>m. \<not> gone (mb_event_id m) (mb_team_id m)) (jw_members w),
          jw_solves := filter (\<lambda>s. \<not> (\<exists>t \<in> set_option (sv_team_id s). gone (sv_event_id s) t)) (jw_solves w),
          jw_instances := filter (\<lambda>c. \<not> (\<exists>t \<in> set_option (ci_team_id c). gone (ci_event_id c) t)) (jw_instances w)\<rparr>))"

definition delete_teams :: "uuid \<Rightarrow> uuid list \<Rightarrow> unit jop" where
  "delete_teams event_id ids = modifyM (drop_teams event_id ids)"

end
