(* ===== verification/Jeopardy_Play.thy ===== *)
theory Jeopardy_Play
  imports Jeopardy_Db
begin

text \<open>
  Playing a Jeopardy event (\<open>modules/event/jeopardy\<close>): the container runtime, the instance service
  with its clean-up loops, launching and destroying instances, submitting flags for points and for
  practice, and the scoreboard and trend that are computed from the solves. A transaction that fails
  leaves the tables as they were; the advisory lock of a challenge serialises submissions, which are
  single steps here. A panic is the error \<open>JPanic\<close>.
\<close>

section \<open>Containers\<close>

definition j_dockerM :: "jeop_env \<Rightarrow> jeop_effect \<Rightarrow> unit jop" where
  "j_dockerM env fx = (\<lambda>w.
     (if je_docker env (jw_log w) fx then Inr () else Inl JDocker, w\<lparr>jw_log := jw_log w @ [fx]\<rparr>))"

record challenge_runtime_spec =
  cs_image_ref :: string
  cs_container_port :: nat
  cs_flag :: "string option"

definition runtime_stop_and_remove :: "jeop_env \<Rightarrow> string \<Rightarrow> unit jop" where
  "runtime_stop_and_remove env name = j_dockerM env (JfStopRemove name)"

definition finalize_launch :: "jeop_env \<Rightarrow> string \<Rightarrow> nat \<Rightarrow> nat jop" where
  "finalize_launch env name container_port =
     bindM (attemptM (bindM (j_dockerM env (JfInspect name container_port)) (\<lambda>_.
        bindM (readM (\<lambda>w. je_published_port env (jw_log w) name container_port)) (\<lambda>port.
        ok_orM port JDocker)))) (\<lambda>result.
     case result of
       Inr port \<Rightarrow> returnM port
     | Inl e \<Rightarrow> bindM (ignoreM (runtime_stop_and_remove env name)) (\<lambda>_. throwM e))"

definition runtime_launch :: "jeop_env \<Rightarrow> challenge_runtime_spec \<Rightarrow> string \<Rightarrow> nat jop" where
  "runtime_launch env spec name =
     bindM (j_dockerM env (JfEnsureImage (cs_image_ref spec))) (\<lambda>_.
     bindM (j_dockerM env (JfCreateStart name (cs_image_ref spec)
        (map_option (\<lambda>f. ''FLAG='' @ f) (cs_flag spec)) (cs_container_port spec))) (\<lambda>_.
     finalize_launch env name (cs_container_port spec)))"

definition trim_slashes :: "string \<Rightarrow> string" where
  "trim_slashes = dropWhile (\<lambda>c. c = CHR ''/'')"

definition starts_with :: "string \<Rightarrow> string \<Rightarrow> bool" where
  "starts_with p s \<longleftrightarrow> take (length p) s = p"

definition list_containers :: "jeop_env \<Rightarrow> (string \<times> string) list jop" where
  "list_containers env =
     bindM (readM (\<lambda>w. je_containers env (jw_log w))) (\<lambda>cs.
     bindM (modifyM (\<lambda>w. w\<lparr>jw_log := jw_log w @ [JfList]\<rparr>)) (\<lambda>_. ok_orM cs JDocker))"

definition list_instance_containers :: "jeop_env \<Rightarrow> string list jop" where
  "list_instance_containers env =
     bindM (list_containers env) (\<lambda>cs.
     returnM (filter (\<lambda>n. starts_with ''JS-'' n \<or> starts_with ''JT-'' n) (map (trim_slashes \<circ> snd) cs)))"

definition container_exists :: "jeop_env \<Rightarrow> string \<Rightarrow> bool jop" where
  "container_exists env name =
     bindM (list_containers env) (\<lambda>cs.
     returnM (list_ex (\<lambda>(cid, n). trim_slashes n = trim_slashes name \<or> starts_with (trim_slashes name) cid) cs))"

section \<open>The instance service\<close>

definition get_uuid_prefix :: "jeop_env \<Rightarrow> uuid \<Rightarrow> string" where
  "get_uuid_prefix env i = takeWhile (\<lambda>c. c \<noteq> CHR ''-'') (je_uuid_text env i)"

definition gen_instance_flag :: "jeop_env \<Rightarrow> string option \<Rightarrow> string jop" where
  "gen_instance_flag env flag_prefix =
     bindM j_new_uuid (\<lambda>i.
     returnM ((case flag_prefix of Some p \<Rightarrow> p
               | None \<Rightarrow> unwrap_or (je_setting env ''FLAG_PREFIX'') ''flag'')
       @ ''{'' @ je_uuid_text env i @ ''}''))"

definition nonempty_opt :: "string option \<Rightarrow> string option" where
  "nonempty_opt v = (case v of None \<Rightarrow> None | Some s \<Rightarrow> if s = '''' then None else Some s)"

definition effective_image_ref :: "string option \<Rightarrow> string option \<Rightarrow> string option" where
  "effective_image_ref repo_digest image_id =
     (case nonempty_opt repo_digest of Some d \<Rightarrow> Some d | None \<Rightarrow> nonempty_opt image_id)"

definition launch_flag :: "jeop_env \<Rightarrow> jeop_challenge \<Rightarrow> string option \<Rightarrow> string jop" where
  "launch_flag env challenge flag_prefix =
     (if ch_flag_type challenge = Some ''dynamic'' then gen_instance_flag env flag_prefix
      else if ch_flag_type challenge = Some ''static'' then ok_orM (ch_static_flag_value challenge) JFlagType
      else throwM JFlagType)"

definition launch_spec :: "jeop_challenge \<Rightarrow> string \<Rightarrow> challenge_runtime_spec option jop" where
  "launch_spec challenge flag = (case ch_container_port challenge of
       None \<Rightarrow> returnM None
     | Some port \<Rightarrow>
         bindM (ok_orM (effective_image_ref (ch_image_repo_digest challenge) (ch_image_id challenge)) JNoImagePin)
           (\<lambda>pin. returnM (Some \<lparr>cs_image_ref = pin, cs_container_port = nat (port mod 65536),
              cs_flag = (if ch_flag_type challenge = Some ''dynamic'' then Some flag else None)\<rparr>)))"

text \<open>The instants \<open>chrono\<close> can represent; an addition that leaves them panics.\<close>

definition chrono_ok :: "timestamp \<Rightarrow> bool" where
  "chrono_ok t \<longleftrightarrow> seconds (- 8334601228800) \<le> t \<and> t < seconds 8210266876800"

definition launch_content :: "jeop_env \<Rightarrow> challenge_runtime_spec option \<Rightarrow> string \<Rightarrow> string \<Rightarrow> string \<Rightarrow> string jop" where
  "launch_content env spec name node_ip http_prefix = (case spec of
       None \<Rightarrow> returnM ''''
     | Some s \<Rightarrow> bindM (runtime_launch env s name) (\<lambda>port.
         let url = http_prefix @ node_ip @ '':'' @ je_num_text env port
         in returnM (''<a href=\"'' @ url @
              ''\" target=\"_blank\" rel=\"noopener noreferrer\" download >'' @ url @ ''</a>'')))"

definition launch ::
  "jeop_env \<Rightarrow> uuid \<Rightarrow> uuid \<Rightarrow> string \<Rightarrow> uuid \<Rightarrow> uuid option \<Rightarrow> string option \<Rightarrow> challenge_instance jop" where
  "launch env event_id challenge_id name user_id team_id flag_prefix =
     bindM (delete_completed_by_container_name name) (\<lambda>_.
     bindM (find_challenge challenge_id) (\<lambda>crow.
     bindM (ok_orM crow JMissing) (\<lambda>challenge.
     bindM (guardM (ch_build_status challenge = Some ''ready'') JNotReady) (\<lambda>_.
     bindM (launch_flag env challenge flag_prefix) (\<lambda>flag.
     bindM (launch_spec challenge flag) (\<lambda>spec.
     bindM (get_setting env ''NODE_IP'') (\<lambda>node_ip.
     bindM (get_setting env ''HTTP_PREFIX'') (\<lambda>http_prefix.
     bindM (get_setting env ''INSTANCE_DESTROY_DELAY'') (\<lambda>delay_text.
     bindM (ok_orM (je_parse_i64 env delay_text) JSetting) (\<lambda>delay.
     bindM (find_account user_id) (\<lambda>account.
     bindM (guardM (account \<noteq> None) JMissing) (\<lambda>_.
     bindM j_now (\<lambda>now.
     bindM (guardM (chrono_ok (now + seconds (60 * delay))) JPanic) (\<lambda>_.
     bindM j_new_uuid (\<lambda>i.
     bindM (launch_content env spec name node_ip http_prefix) (\<lambda>content.
     let c = \<lparr>ci_id = i, ci_flag = flag, ci_content = content, ci_challenge_id = challenge_id,
              ci_user_id = user_id, ci_event_id = event_id, ci_team_id = team_id\<rparr>;
         r = \<lparr>ei_id = i, ei_event_id = event_id, ei_owner_user_id = Some user_id,
              ei_owner_team_id = team_id, ei_container_name = name, ei_runtime_state = ''running'',
              ei_runtime_generation = 1, ei_image_ref = map_option cs_image_ref spec,
              ei_expires_at = Some (now + seconds (60 * delay)), ei_stopped_at = None,
              ei_updated_at = now\<rparr>
     in bindM (attemptM (insert_instance_rows r c)) (\<lambda>persisted.
        case persisted of
          Inr _ \<Rightarrow> returnM (c\<lparr>ci_flag := ''''\<rparr>)
        | Inl e \<Rightarrow>
            bindM (whenM (spec \<noteq> None) (ignoreM (runtime_stop_and_remove env name))) (\<lambda>_. throwM e))))))))))))))))))"

definition remove_runtime_if_needed :: "jeop_env \<Rightarrow> challenge_instance \<Rightarrow> jeop_instance \<Rightarrow> unit jop" where
  "remove_runtime_if_needed env inst runtime =
     bindM (find_challenge (ci_challenge_id inst)) (\<lambda>crow.
     bindM (ok_orM crow JMissing) (\<lambda>challenge.
     whenM (ch_container_port challenge \<noteq> None) (runtime_stop_and_remove env (ei_container_name runtime))))"

definition destroy_model :: "jeop_env \<Rightarrow> challenge_instance \<times> jeop_instance \<Rightarrow> unit jop" where
  "destroy_model env p =
     bindM (attemptM (remove_runtime_if_needed env (fst p) (snd p))) (\<lambda>result.
     case result of
       Inr _ \<Rightarrow> transition_runtime_state (ci_id (fst p)) (ei_runtime_state (snd p)) ''completed''
     | Inl e \<Rightarrow>
         bindM (whenM (ei_runtime_state (snd p) = ''running'')
           (ignoreM (transition_runtime_state (ci_id (fst p)) ''running'' ''failed''))) (\<lambda>_. throwM e))"

definition destroy_found :: "jeop_env \<Rightarrow> (challenge_instance \<times> jeop_instance) option \<Rightarrow> bool jop" where
  "destroy_found env found = (case found of
       None \<Rightarrow> returnM False
     | Some p \<Rightarrow> bindM (destroy_model env p) (\<lambda>_. returnM True))"

definition destroy_owned :: "jeop_env \<Rightarrow> uuid \<Rightarrow> uuid \<Rightarrow> bool jop" where
  "destroy_owned env instance_id user_id = bindM (find_owned_running instance_id user_id) (destroy_found env)"

definition destroy_team_owned :: "jeop_env \<Rightarrow> uuid \<Rightarrow> uuid \<Rightarrow> uuid \<Rightarrow> bool jop" where
  "destroy_team_owned env instance_id event_id team_id =
     bindM (find_team_running instance_id event_id team_id) (destroy_found env)"

fun split_dash :: "string \<Rightarrow> string list" where
  "split_dash [] = [[]]"
| "split_dash (c # s) =
     (if c = CHR ''-'' then [] # split_dash s
      else case split_dash s of p # ps \<Rightarrow> (c # p) # ps | [] \<Rightarrow> [[c]])"

definition orphan_event_prefix :: "string \<Rightarrow> string option" where
  "orphan_event_prefix name = (case split_dash (trim_slashes name) of
       kind # event_prefix # _ \<Rightarrow>
         (if (kind = ''JS'' \<or> kind = ''JT'') \<and> 8 \<le> length event_prefix then Some (take 8 event_prefix) else None)
     | _ \<Rightarrow> None)"

fun reap_each :: "jeop_env \<Rightarrow> string list \<Rightarrow> nat \<Rightarrow> nat jop" where
  "reap_each env [] reaped = returnM reaped"
| "reap_each env (name # names) reaped = (case orphan_event_prefix name of
       None \<Rightarrow> reap_each env names reaped
     | Some p \<Rightarrow>
         bindM (event_exists_by_prefix env p) (\<lambda>present.
         if present then reap_each env names reaped
         else bindM (attemptM (runtime_stop_and_remove env name)) (\<lambda>r.
              case r of Inr _ \<Rightarrow> reap_each env names (reaped + 1) | Inl _ \<Rightarrow> reap_each env names reaped)))"

definition reap_orphan_containers :: "jeop_env \<Rightarrow> nat jop" where
  "reap_orphan_containers env = bindM (list_instance_containers env) (\<lambda>names. reap_each env names 0)"

fun reconcile_each :: "jeop_env \<Rightarrow> jeop_instance list \<Rightarrow> nat \<Rightarrow> nat jop" where
  "reconcile_each env [] n = returnM n"
| "reconcile_each env (r # rs) n =
     bindM (attemptM (container_exists env (ei_container_name r))) (\<lambda>e.
     case e of
       Inr False \<Rightarrow> bindM (transition_runtime_state (ei_id r) ''running'' ''failed'') (\<lambda>_. reconcile_each env rs (n + 1))
     | _ \<Rightarrow> reconcile_each env rs n)"

definition reconcile_missing_containers :: "jeop_env \<Rightarrow> int \<Rightarrow> nat jop" where
  "reconcile_missing_containers env min_age_secs =
     bindM (list_running_older_than min_age_secs) (\<lambda>rs. reconcile_each env rs 0)"

record cleanup_report =
  cr_completed :: "uuid list"
  cr_failed :: "(uuid \<times> jeop_error) list"

fun cleanup_each ::
  "jeop_env \<Rightarrow> (challenge_instance \<times> jeop_instance) list \<Rightarrow> cleanup_report \<Rightarrow> cleanup_report jop" where
  "cleanup_each env [] report = returnM report"
| "cleanup_each env (p # ps) report =
     bindM (attemptM (destroy_model env p)) (\<lambda>r.
     cleanup_each env ps (case r of
       Inr _ \<Rightarrow> report\<lparr>cr_completed := cr_completed report @ [ci_id (fst p)]\<rparr>
     | Inl e \<Rightarrow> report\<lparr>cr_failed := cr_failed report @ [(ci_id (fst p), e)]\<rparr>))"

definition cleanup_running :: "jeop_env \<Rightarrow> cleanup_report jop" where
  "cleanup_running env =
     bindM list_cleanup_candidates (\<lambda>ps. cleanup_each env ps \<lparr>cr_completed = [], cr_failed = []\<rparr>)"

section \<open>Who acts\<close>

record resolved_participant =
  rp_subject :: solve_subject
  rp_team_id :: "uuid option"
  rp_user_id :: uuid
  rp_team_member_count :: "nat option"

definition should_ongoing :: "jeop_event \<Rightarrow> unit jop" where
  "should_ongoing e = bindM j_now (\<lambda>now. case event_time_status_of e now of
       TsNotStarted \<Rightarrow> throwM JNotStarted | TsOngoing \<Rightarrow> returnM () | TsEnded \<Rightarrow> throwM JEnded)"

definition should_ongoing_or_ended :: "jeop_event \<Rightarrow> unit jop" where
  "should_ongoing_or_ended e = bindM j_now (\<lambda>now.
     guardM (event_time_status_of e now \<noteq> TsNotStarted) JNotStarted)"

definition should_user_joined :: "jeop_event \<Rightarrow> uuid \<Rightarrow> unit jop" where
  "should_user_joined e user_id =
     bindM (find_enrolment (er_id e) user_id) (\<lambda>row. guardM (row \<noteq> None) JNotJoined)"

definition resolve_participant :: "jeop_event \<Rightarrow> uuid \<Rightarrow> resolved_participant jop" where
  "resolve_participant e user_id =
     bindM (liftM (policy_from_event e)) (\<lambda>policy.
     case er_participant_mode e of
       PmIndividual \<Rightarrow> returnM \<lparr>rp_subject = SubjectUser, rp_team_id = None, rp_user_id = user_id,
                                rp_team_member_count = None\<rparr>
     | PmTeam \<Rightarrow>
         bindM (find_membership (er_id e) user_id) (\<lambda>row.
         bindM (ok_orM row JNoTeam) (\<lambda>membership.
         bindM (readM (\<lambda>w. length (filter (\<lambda>m. mb_team_id m = mb_team_id membership) (jw_members w)))) (\<lambda>n.
         returnM \<lparr>rp_subject = SubjectTeam, rp_team_id = Some (mb_team_id membership),
                  rp_user_id = user_id, rp_team_member_count = Some n\<rparr>))))"

section \<open>Launching and destroying\<close>

definition is_running :: "jeop_world \<Rightarrow> challenge_instance \<Rightarrow> bool" where
  "is_running w c \<longleftrightarrow> list_ex (\<lambda>r. ei_id r = ci_id c \<and> ei_runtime_state r = ''running'') (jw_runtimes w)"

definition owned_by :: "solve_subject \<Rightarrow> uuid \<Rightarrow> uuid option \<Rightarrow> challenge_instance \<Rightarrow> bool" where
  "owned_by subject user_id team_id c = (case subject of
       SubjectUser \<Rightarrow> ci_user_id c = user_id
     | SubjectTeam \<Rightarrow> ci_team_id c = team_id)"

definition running_instances ::
  "uuid \<Rightarrow> solve_subject \<Rightarrow> uuid \<Rightarrow> uuid option \<Rightarrow> jeop_world \<Rightarrow> challenge_instance list" where
  "running_instances event_id subject user_id team_id w =
     filter (\<lambda>c. ci_event_id c = event_id \<and> is_running w c \<and> owned_by subject user_id team_id c) (jw_instances w)"

definition instance_identifier ::
  "jeop_env \<Rightarrow> jeopardy_policy \<Rightarrow> uuid \<Rightarrow> solve_subject \<Rightarrow> uuid \<Rightarrow> uuid option \<Rightarrow> uuid \<Rightarrow> string" where
  "instance_identifier env policy event_id subject user_id team_id challenge_id =
     (case subject of
        SubjectUser \<Rightarrow>
          (if policy_is_practice policy then
             ''JP-'' @ get_uuid_prefix env user_id @ ''-'' @ get_uuid_prefix env challenge_id
           else ''JS-'' @ get_uuid_prefix env event_id @ ''-'' @ get_uuid_prefix env user_id @ ''-'' @
             get_uuid_prefix env challenge_id)
      | SubjectTeam \<Rightarrow>
          ''JT-'' @ get_uuid_prefix env event_id @ ''-'' @
            (case team_id of None \<Rightarrow> '''' | Some t \<Rightarrow> get_uuid_prefix env t) @ ''-'' @
            get_uuid_prefix env challenge_id)"

definition require_published :: "uuid \<Rightarrow> uuid \<Rightarrow> unit jop" where
  "require_published event_id challenge_id =
     bindM (find_event_challenge event_id challenge_id) (\<lambda>row.
     bindM (ok_orM row JNotInEvent) (\<lambda>ec. guardM (\<not> jc_hidden ec) JUnpublished))"

definition launch_instance :: "jeop_env \<Rightarrow> jeop_event \<Rightarrow> uuid \<Rightarrow> uuid \<Rightarrow> challenge_instance jop" where
  "launch_instance env e user_id challenge_id =
     bindM (liftM (require_jeopardy_family e)) (\<lambda>_.
     bindM (liftM (policy_from_event e)) (\<lambda>policy.
     bindM (whenM (policy_is_competition policy)
       (bindM (should_user_joined e user_id) (\<lambda>_. should_ongoing e))) (\<lambda>_.
     bindM (resolve_participant e user_id) (\<lambda>p.
     bindM (whenM (requires_event_challenge policy) (require_published (er_id e) challenge_id)) (\<lambda>_.
     bindM (readM (running_instances (er_id e) (rp_subject p) user_id (rp_team_id p))) (\<lambda>running.
     bindM (guardM (length running < max_concurrent_instances policy (rp_team_member_count p)) JTooManyInstances) (\<lambda>_.
     case List.find (\<lambda>c. ci_challenge_id c = challenge_id) running of
       Some c \<Rightarrow> returnM c
     | None \<Rightarrow>
         launch env (er_id e) challenge_id
           (instance_identifier env policy (er_id e) (rp_subject p) user_id (rp_team_id p) challenge_id)
           user_id (rp_team_id p) (er_flag_prefix e))))))))"

definition destroy_instance :: "jeop_env \<Rightarrow> jeop_event \<Rightarrow> uuid \<Rightarrow> uuid \<Rightarrow> unit jop" where
  "destroy_instance env e user_id instance_id =
     bindM (liftM (require_jeopardy_family e)) (\<lambda>_.
     bindM (resolve_participant e user_id) (\<lambda>p.
     bindM (case rp_subject p of
              SubjectUser \<Rightarrow> destroy_owned env instance_id (rp_user_id p)
            | SubjectTeam \<Rightarrow> bindM (ok_orM (rp_team_id p) JPanic) (\<lambda>t.
                destroy_team_owned env instance_id (er_id e) t)) (\<lambda>destroyed.
     guardM destroyed JNotOwner)))"

definition find_instance_by_challenge_id ::
  "jeop_event \<Rightarrow> uuid \<Rightarrow> uuid \<Rightarrow> challenge_instance option jop" where
  "find_instance_by_challenge_id e user_id challenge_id =
     bindM (liftM (require_jeopardy_family e)) (\<lambda>_.
     bindM (liftM (policy_from_event e)) (\<lambda>policy.
     bindM (whenM (policy_is_competition policy)
       (bindM (should_user_joined e user_id) (\<lambda>_. should_ongoing_or_ended e))) (\<lambda>_.
     bindM (resolve_participant e user_id) (\<lambda>p.
     readM (\<lambda>w. List.find (\<lambda>c. ci_challenge_id c = challenge_id)
        (running_instances (er_id e) (rp_subject p) user_id (rp_team_id p) w))))))"

definition challenge_solve_status :: "uuid \<Rightarrow> uuid \<Rightarrow> uuid \<Rightarrow> participant_mode \<Rightarrow> (bool \<times> nat) jop" where
  "challenge_solve_status event_id challenge_id user_id mode =
     bindM (case mode of
       PmIndividual \<Rightarrow> readM (\<lambda>w. List.find (\<lambda>s. solve_of event_id challenge_id s \<and> sv_user_id s = user_id
                                               \<and> sv_team_id s = None) (jw_solves w))
     | PmTeam \<Rightarrow>
         bindM (find_team_id_for_user event_id user_id) (\<lambda>t.
         bindM (ok_orM t JNoTeam) (\<lambda>team_id.
         readM (\<lambda>w. List.find (\<lambda>s. solve_of event_id challenge_id s \<and> sv_team_id s = Some team_id) (jw_solves w)))))
     (\<lambda>found. case found of
        None \<Rightarrow> returnM (False, 0)
      | Some s \<Rightarrow> readM (\<lambda>w. (True, length (filter (\<lambda>o'. solve_of event_id challenge_id o' \<and>
          sv_created_at o' < sv_created_at s) (jw_solves w)) + 1)))"

end
