(* ===== verification/Jeopardy_Score.thy ===== *)
theory Jeopardy_Score
  imports Jeopardy_Play
begin

text \<open>
  Flags and points: \<open>application/submission_service.rs\<close>, \<open>application/submit.rs\<close> and the endpoint
  \<open>POST /api/submit/flag\<close>, and the two views over the solves, \<open>application/scoreboard.rs\<close> and
  \<open>application/trend.rs\<close>. A query without a complete order lists its rows in insertion order; the
  trend of an owner is listed in the order the owners first solved.
\<close>

section \<open>Scoring\<close>

datatype score_outcome = AlreadySolved | Scored "uuid option"

definition running_instance :: "uuid \<Rightarrow> challenge_instance jop" where
  "running_instance instance_id =
     bindM (readM (\<lambda>w. List.find (\<lambda>c. ci_id c = instance_id \<and> is_running w c) (jw_instances w))) (\<lambda>row.
     ok_orM row JInstanceGone)"

definition score_body :: "real \<Rightarrow> real \<Rightarrow> jeopardy_submit_request \<Rightarrow> score_outcome jop" where
  "score_body decay min_percent req =
     bindM (running_instance (sq_instance_id req)) (\<lambda>inst.
     bindM (require_published (sq_event_id req) (ci_challenge_id inst)) (\<lambda>_.
     bindM (find_challenge (ci_challenge_id inst)) (\<lambda>crow.
     bindM (ok_orM crow JMissing) (\<lambda>challenge.
     bindM (guardM (sq_flag req = ci_flag inst) JWrongFlag) (\<lambda>_.
     bindM (case sq_subject req of
              SubjectUser \<Rightarrow> returnM None
            | SubjectTeam \<Rightarrow>
                bindM (find_team_id_for_user (sq_event_id req) (sq_user_id req)) (\<lambda>t.
                bindM (ok_orM t JNoTeam) (\<lambda>team_id. returnM (Some team_id)))) (\<lambda>team_id.
     bindM (already_solved (sq_event_id req) (ch_id challenge) (sq_user_id req) team_id (sq_subject req)) (\<lambda>solved.
     if solved then returnM AlreadySolved
     else
       bindM (find_event_challenge_points (sq_event_id req) (ch_id challenge)) (\<lambda>points.
       bindM (ok_orM points JNotInEvent) (\<lambda>base_points.
       bindM (solved_count (sq_event_id req) (ch_id challenge)) (\<lambda>n.
       let current_points = dynamic_score base_points n decay min_percent in
       bindM (case sq_subject req of
                SubjectUser \<Rightarrow> award_user_points (sq_event_id req) (sq_user_id req) current_points
              | SubjectTeam \<Rightarrow>
                  bindM (ok_orM team_id JPanic) (\<lambda>t. award_team_points t current_points)) (\<lambda>_.
       bindM (insert_solve (sq_event_id req) (ch_id challenge) (sq_user_id req) team_id current_points) (\<lambda>_.
       returnM (Scored team_id)))))))))))))"

definition parse_setting_f64 :: "jeop_env \<Rightarrow> string \<Rightarrow> real jop" where
  "parse_setting_f64 env key =
     bindM (get_setting env key) (\<lambda>t. ok_orM (je_parse_f64 env t) JSetting)"

definition score_in_transaction :: "jeop_env \<Rightarrow> jeopardy_submit_request \<Rightarrow> score_outcome jop" where
  "score_in_transaction env req =
     bindM (parse_setting_f64 env ''EVENT_SCORE_DECAY'') (\<lambda>decay.
     bindM (parse_setting_f64 env ''EVENT_SCORE_MIN_PERCENT'') (\<lambda>min_percent.
     bindM (attemptM (txnM (score_body decay min_percent req))) (\<lambda>result.
     case result of
       Inr outcome \<Rightarrow> returnM outcome
     | Inl e \<Rightarrow> if e = JUnique then returnM AlreadySolved else throwM e)))"

definition submit :: "jeop_env \<Rightarrow> jeopardy_submit_request \<Rightarrow> unit jop" where
  "submit env req =
     bindM (score_in_transaction env req) (\<lambda>outcome.
     case outcome of
       AlreadySolved \<Rightarrow> returnM ()
     | Scored team_id \<Rightarrow> ignoreM (case team_id of
           Some t \<Rightarrow> destroy_team_owned env (sq_instance_id req) (sq_event_id req) t
         | None \<Rightarrow> destroy_owned env (sq_instance_id req) (sq_user_id req)))"

definition submit_practice :: "jeop_env \<Rightarrow> uuid \<Rightarrow> uuid \<Rightarrow> string \<Rightarrow> unit jop" where
  "submit_practice env user_id instance_id flag =
     bindM (running_instance instance_id) (\<lambda>inst.
     bindM (find_event (ci_event_id inst)) (\<lambda>erow.
     bindM (ok_orM erow JMissing) (\<lambda>solve_event.
     bindM (guardM (er_purpose solve_event = PurPractice) JCompetitionInstance) (\<lambda>_.
     bindM (find_challenge (ci_challenge_id inst)) (\<lambda>crow.
     bindM (ok_orM crow JMissing) (\<lambda>challenge.
     bindM (guardM (flag = ci_flag inst) JWrongFlag) (\<lambda>_.
     bindM (readM (\<lambda>w. list_ex (\<lambda>s. solve_of (ci_event_id inst) (ch_id challenge) s \<and>
        sv_user_id s = user_id \<and> sv_team_id s = None) (jw_solves w))) (\<lambda>already.
     bindM (whenM (\<not> already) (insert_solve (ci_event_id inst) (ch_id challenge) user_id None 0)) (\<lambda>_.
     ignoreM (destroy_owned env instance_id user_id))))))))))"

definition submit_event_flag :: "jeop_env \<Rightarrow> jeop_event \<Rightarrow> uuid \<Rightarrow> uuid option \<Rightarrow> string \<Rightarrow> unit jop" where
  "submit_event_flag env e user_id instance_id flag =
     bindM (liftM (require_jeopardy_family e)) (\<lambda>_.
     bindM (liftM (policy_from_event e)) (\<lambda>policy.
     bindM (ok_orM instance_id JBadRequest) (\<lambda>i.
     if \<not> contributes_to_official_score policy then submit_practice env user_id i flag
     else
       bindM (should_user_joined e user_id) (\<lambda>_.
       bindM (should_ongoing e) (\<lambda>_.
       bindM (resolve_participant e user_id) (\<lambda>p.
       submit env \<lparr>sq_event_id = er_id e, sq_user_id = user_id, sq_instance_id = i, sq_flag = flag,
                   sq_subject = rp_subject p\<rparr>))))))"

definition practice_jeopardy_system_key :: string where
  "practice_jeopardy_system_key = ''practice:jeopardy''"

definition require_practice_jeopardy_event :: "jeop_event jop" where
  "require_practice_jeopardy_event =
     bindM (readM (\<lambda>w. List.find (\<lambda>e. er_system_key e = Some practice_jeopardy_system_key) (jw_events w)))
       (\<lambda>row. ok_orM row JMissing)"

definition is_ascii_whitespace :: "char \<Rightarrow> bool" where
  "is_ascii_whitespace c \<longleftrightarrow> c = CHR '' '' \<or> (9 \<le> (of_char c :: nat) \<and> (of_char c :: nat) \<le> 13)"

definition trim_flag :: "string \<Rightarrow> string" where
  "trim_flag s = rev (dropWhile is_ascii_whitespace (rev (dropWhile is_ascii_whitespace s)))"

definition api_submit_flag ::
  "jeop_env \<Rightarrow> uuid \<Rightarrow> uuid option \<Rightarrow> uuid option \<Rightarrow> string \<Rightarrow> unit jop" where
  "api_submit_flag env user_id event_id instance_id flag =
     bindM (case event_id of
              Some e \<Rightarrow> returnM (Some e)
            | None \<Rightarrow> (case instance_id of
                None \<Rightarrow> returnM None
              | Some i \<Rightarrow> readM (\<lambda>w. map_option ci_event_id (List.find (\<lambda>c. ci_id c = i) (jw_instances w))))) (\<lambda>requested.
     bindM (case requested of
              Some e \<Rightarrow> bindM (find_event e) (\<lambda>row. ok_orM row JMissing)
            | None \<Rightarrow> require_practice_jeopardy_event) (\<lambda>event.
     submit_event_flag env event user_id instance_id (trim_flag flag)))"

definition api_launch_instance :: "jeop_env \<Rightarrow> uuid \<Rightarrow> uuid option \<Rightarrow> uuid \<Rightarrow> challenge_instance jop" where
  "api_launch_instance env user_id event_id challenge_id =
     bindM (case event_id of
              Some e \<Rightarrow> bindM (find_event e) (\<lambda>row. ok_orM row JMissing)
            | None \<Rightarrow> require_practice_jeopardy_event) (\<lambda>event.
     launch_instance env event user_id challenge_id)"

definition api_destroy_instance :: "jeop_env \<Rightarrow> uuid \<Rightarrow> uuid \<Rightarrow> unit jop" where
  "api_destroy_instance env user_id instance_id =
     bindM (readM (\<lambda>w. List.find (\<lambda>c. ci_id c = instance_id) (jw_instances w))) (\<lambda>row.
     bindM (ok_orM row JMissing) (\<lambda>inst.
     bindM (find_event (ci_event_id inst)) (\<lambda>erow.
     bindM (ok_orM erow JMissing) (\<lambda>event.
     destroy_instance env event user_id instance_id))))"

section \<open>The scoreboard\<close>

record challenge_scoreboard =
  cb_name :: string
  cb_solved :: bool
  cb_solved_no :: nat

record scoreboard_item =
  sb_id :: uuid
  sb_no :: nat
  sb_name :: string
  sb_avatar :: "string option"
  sb_score :: real
  sb_solved_count :: nat
  sb_challenges :: "challenge_scoreboard list"

definition load_event_challenges :: "uuid \<Rightarrow> jeop_event_challenge list jop" where
  "load_event_challenges event_id =
     readM (\<lambda>w. filter (\<lambda>c. jc_event_id c = event_id \<and> \<not> jc_hidden c) (jw_event_challenges w))"

definition load_solves_ordered :: "uuid \<Rightarrow> jeop_solve list jop" where
  "load_solves_ordered event_id =
     readM (\<lambda>w. sort_key sv_challenge_id (sort_key sv_created_at
       (filter (\<lambda>s. sv_event_id s = event_id) (jw_solves w))))"

type_synonym solve_maps = "(uuid \<times> uuid) list \<times> (uuid \<times> uuid \<Rightarrow> nat option) \<times> (uuid \<Rightarrow> nat option)"

fun solve_maps_step :: "(jeop_solve \<Rightarrow> uuid option) \<Rightarrow> jeop_solve \<Rightarrow> solve_maps \<Rightarrow> solve_maps" where
  "solve_maps_step owner_of s (solved, order, totals) = (case owner_of s of
       None \<Rightarrow> (solved, order, totals)
     | Some o' \<Rightarrow>
         (let key = (o', sv_challenge_id s);
              entry = unwrap_or (totals (sv_challenge_id s)) 0 + 1
          in (List.insert key solved,
              (case order key of None \<Rightarrow> order(key \<mapsto> entry) | Some _ \<Rightarrow> order),
              totals(sv_challenge_id s \<mapsto> entry))))"

definition solve_maps_by_owner ::
  "jeop_solve list \<Rightarrow> (jeop_solve \<Rightarrow> uuid option) \<Rightarrow> (uuid \<times> uuid) list \<times> (uuid \<times> uuid \<Rightarrow> nat option)" where
  "solve_maps_by_owner solves owner_of =
     (let (solved, order, _) = fold (solve_maps_step owner_of) solves ([], Map.empty, Map.empty) in (solved, order))"

fun challenge_cells ::
  "jeop_challenge list \<Rightarrow> uuid \<Rightarrow> jeop_event_challenge list \<Rightarrow> (uuid \<times> uuid) list \<times> (uuid \<times> uuid \<Rightarrow> nat option)
     \<Rightarrow> jeop_error + challenge_scoreboard list" where
  "challenge_cells challenges owner [] maps = Inr []"
| "challenge_cells challenges owner (ec # ecs) maps =
     (case List.find (\<lambda>c. ch_id c = jc_challenge_id ec) challenges of
        None \<Rightarrow> Inl JMissing
      | Some c \<Rightarrow> (case challenge_cells challenges owner ecs maps of
            Inl e \<Rightarrow> Inl e
          | Inr cells \<Rightarrow> Inr (\<lparr>cb_name = ch_name c,
              cb_solved = ((owner, jc_challenge_id ec) \<in> set (fst maps)),
              cb_solved_no = unwrap_or (snd maps (owner, jc_challenge_id ec)) 0\<rparr> # cells)))"

definition owner_solved_count :: "uuid \<Rightarrow> (uuid \<times> uuid) list \<Rightarrow> nat" where
  "owner_solved_count owner solved = length (filter (\<lambda>(o', _). o' = owner) solved)"

fun individual_rows ::
  "jeop_world \<Rightarrow> jeop_event_challenge list \<Rightarrow> (uuid \<times> uuid) list \<times> (uuid \<times> uuid \<Rightarrow> nat option) \<Rightarrow> nat
     \<Rightarrow> jeop_user list \<Rightarrow> jeop_error + scoreboard_item list" where
  "individual_rows w ecs maps no [] = Inr []"
| "individual_rows w ecs maps no (u # us) =
     (case List.find (\<lambda>a. us_id a = eu_user_id u) (jw_accounts w) of
        None \<Rightarrow> Inl JMissing
      | Some a \<Rightarrow> (case challenge_cells (jw_challenges w) (eu_user_id u) ecs maps of
            Inl e \<Rightarrow> Inl e
          | Inr cells \<Rightarrow> (case individual_rows w ecs maps (no + 1) us of
                Inl e \<Rightarrow> Inl e
              | Inr rows \<Rightarrow> Inr (\<lparr>sb_id = us_id a, sb_no = no + 1, sb_name = us_nickname a,
                  sb_avatar = us_avatar a, sb_score = eu_points u,
                  sb_solved_count = owner_solved_count (eu_user_id u) (fst maps),
                  sb_challenges = cells\<rparr> # rows))))"

definition assemble_individual :: "uuid \<Rightarrow> jeop_event_challenge list \<Rightarrow> scoreboard_item list jop" where
  "assemble_individual event_id challenge_rows =
     bindM (readM (\<lambda>w. sort_key (\<lambda>u. - eu_points u)
        (filter (\<lambda>u. eu_event_id u = event_id \<and> \<not> eu_banned u) (jw_users w)))) (\<lambda>event_users.
     bindM (load_solves_ordered event_id) (\<lambda>solves.
     bindM (readM (\<lambda>w. individual_rows w challenge_rows
        (solve_maps_by_owner solves (\<lambda>s. Some (sv_user_id s))) 0 event_users)) liftM))"

fun team_rows ::
  "jeop_world \<Rightarrow> jeop_event_challenge list \<Rightarrow> (uuid \<times> uuid) list \<times> (uuid \<times> uuid \<Rightarrow> nat option) \<Rightarrow> nat
     \<Rightarrow> jeop_team list \<Rightarrow> jeop_error + scoreboard_item list" where
  "team_rows w ecs maps no [] = Inr []"
| "team_rows w ecs maps no (t # ts) =
     (case challenge_cells (jw_challenges w) (tm_id t) ecs maps of
        Inl e \<Rightarrow> Inl e
      | Inr cells \<Rightarrow> (case team_rows w ecs maps (no + 1) ts of
            Inl e \<Rightarrow> Inl e
          | Inr rows \<Rightarrow> Inr (\<lparr>sb_id = tm_id t, sb_no = no + 1, sb_name = tm_name t,
              sb_avatar = None, sb_score = tm_points t,
              sb_solved_count = owner_solved_count (tm_id t) (fst maps), sb_challenges = cells\<rparr> # rows)))"

definition assemble_team :: "uuid \<Rightarrow> jeop_event_challenge list \<Rightarrow> scoreboard_item list jop" where
  "assemble_team event_id challenge_rows =
     bindM (readM (\<lambda>w. filter (\<lambda>t. tm_event_id t = event_id) (jw_teams w))) (\<lambda>event_teams.
     bindM (load_solves_ordered event_id) (\<lambda>solves.
     bindM (readM (\<lambda>w. team_rows w challenge_rows (solve_maps_by_owner solves sv_team_id) 0 event_teams)) liftM))"

definition jeopardy_scoreboard :: "jeop_event \<Rightarrow> scoreboard_item list jop" where
  "jeopardy_scoreboard e =
     bindM (liftM (require_jeopardy_family e)) (\<lambda>_.
     bindM (liftM (policy_from_event e)) (\<lambda>policy.
     bindM (guardM (supports_official_scoreboard policy) JUnsupportedPurpose) (\<lambda>_.
     bindM (load_event_challenges (er_id e)) (\<lambda>rows.
     case jp_participant_mode policy of
       PmIndividual \<Rightarrow> assemble_individual (er_id e) rows
     | PmTeam \<Rightarrow> assemble_team (er_id e) rows))))"

section \<open>The trend\<close>

record trend_point =
  tp_name :: string
  tp_score :: real
  tp_time :: timestamp

definition name_of_challenge :: "jeop_challenge list \<Rightarrow> uuid \<Rightarrow> string" where
  "name_of_challenge challenges i =
     (case List.find (\<lambda>c. ch_id c = i) challenges of None \<Rightarrow> '''' | Some c \<Rightarrow> ch_name c)"

text \<open>The points of one owner at each of the times at which anybody solved.\<close>

fun trend_points :: "jeop_challenge list \<Rightarrow> jeop_solve list \<Rightarrow> real \<Rightarrow> timestamp list \<Rightarrow> trend_point list" where
  "trend_points challenges solves score [] = []"
| "trend_points challenges solves score (t # ts) =
     (let score' = foldl (\<lambda>acc s. acc + (sv_obtained_points s + sv_bonus_points s)) score
                     (filter (\<lambda>s. sv_created_at s = t) solves);
          name = (case List.find (\<lambda>s. sv_created_at s = t) solves of
                    None \<Rightarrow> '''' | Some s \<Rightarrow> name_of_challenge challenges (sv_challenge_id s))
      in \<lparr>tp_name = name, tp_score = score', tp_time = t\<rparr> # trend_points challenges solves score' ts)"

definition build_points ::
  "jeop_challenge list \<Rightarrow> (jeop_solve \<Rightarrow> uuid option) \<Rightarrow> jeop_solve list \<Rightarrow> (uuid \<times> trend_point list) list" where
  "build_points challenges owner_of solves =
     (let owned = filter (\<lambda>s. owner_of s \<noteq> None) solves;
          times = sort (remdups (map sv_created_at owned));
          owners = rev (remdups (rev (List.map_filter owner_of owned)))
      in map (\<lambda>i. (i, trend_points challenges (filter (\<lambda>s. owner_of s = Some i) owned) 0 times)) owners)"

definition get_trend :: "jeop_event \<Rightarrow> (string \<times> trend_point list) list jop" where
  "get_trend e =
     bindM (liftM (require_jeopardy_family e)) (\<lambda>_.
     bindM (liftM (policy_from_event e)) (\<lambda>policy.
     bindM (guardM (supports_official_scoreboard policy) JUnsupportedPurpose) (\<lambda>_.
     bindM (readM (\<lambda>w. sort_key sv_created_at (filter (\<lambda>s. sv_event_id s = er_id e) (jw_solves w)))) (\<lambda>solves.
     readM (\<lambda>w. case jp_participant_mode policy of
         PmIndividual \<Rightarrow>
           map (\<lambda>(i, ps). (case List.find (\<lambda>a. us_id a = i) (jw_accounts w) of
                  None \<Rightarrow> '''' | Some a \<Rightarrow> us_nickname a, ps))
             (build_points (jw_challenges w) (\<lambda>s. Some (sv_user_id s)) solves)
       | PmTeam \<Rightarrow>
           map (\<lambda>(i, ps). (case List.find (\<lambda>t. tm_id t = i) (jw_teams w) of
                  None \<Rightarrow> '''' | Some t \<Rightarrow> tm_name t, ps))
             (build_points (jw_challenges w) sv_team_id solves))))))"

end
