(* ===== verification/Event_Roster.thy ===== *)
theory Event_Roster
  imports Jeopardy_Db
begin

text \<open>
  Who takes part and in what: the team and enrolment workflows of the players
  (\<open>modules/event/common/application/player_service.rs\<close>) and the administration of participants,
  teams and the challenges of an event (\<open>modules/event/common/api\<close>: \<open>event_users.rs\<close>,
  \<open>event_teams.rs\<close>, \<open>event_challenges.rs\<close>). Audit log entries and the returned views are left out.
\<close>

section \<open>Players\<close>

definition require_competition :: "jeop_event \<Rightarrow> jeop_error + unit" where
  "require_competition e =
     (if er_purpose e \<noteq> PurCompetition then Inl JUnsupportedPurpose
      else if er_system_key e \<noteq> None then Inl JBadRequest else Inr ())"

definition require_team_mode :: "jeop_event \<Rightarrow> jeop_error + unit" where
  "require_team_mode e = (case require_competition e of
       Inl x \<Rightarrow> Inl x
     | Inr _ \<Rightarrow> if er_participant_mode e \<noteq> PmTeam then Inl JBadRequest else Inr ())"

definition require_roster_mutable :: "jeop_event \<Rightarrow> timestamp \<Rightarrow> jeop_error + unit" where
  "require_roster_mutable e now =
     (if \<not> er_allow_join e then Inl JRosterClosed
      else case event_time_status_of e now of
        TsNotStarted \<Rightarrow> Inr () | TsOngoing \<Rightarrow> Inl JRosterLocked | TsEnded \<Rightarrow> Inl JRosterLocked)"

definition roster_event :: "jeop_event option \<Rightarrow> jeop_event jop" where
  "roster_event row =
     bindM (ok_orM row JMissing) (\<lambda>e.
     bindM (liftM (require_team_mode e)) (\<lambda>_.
     bindM j_now (\<lambda>now.
     bindM (liftM (require_roster_mutable e now)) (\<lambda>_. returnM e))))"

definition ensure_enrolment :: "uuid \<Rightarrow> uuid \<Rightarrow> unit jop" where
  "ensure_enrolment event_id user_id =
     bindM (find_enrolment event_id user_id) (\<lambda>row. whenM (row = None) (insert_enrolment event_id user_id))"

definition create_team :: "uuid \<Rightarrow> uuid \<Rightarrow> string \<Rightarrow> uuid jop" where
  "create_team event_id user_id name = txnM (
     bindM (find_visible_event event_id) (\<lambda>erow.
     bindM (roster_event erow) (\<lambda>e.
     bindM (find_membership event_id user_id) (\<lambda>m.
     bindM (guardM (m = None) JBadRequest) (\<lambda>_.
     bindM (map_errM (\<lambda>x. if x = JUnique then JBadRequest else x) (insert_team event_id name)) (\<lambda>team_id.
     bindM (ensure_enrolment event_id user_id) (\<lambda>_.
     bindM (insert_member event_id team_id user_id RoleCaptain) (\<lambda>_.
     returnM team_id))))))))"

definition find_team_member :: "uuid \<Rightarrow> uuid \<Rightarrow> uuid \<Rightarrow> jeop_member option jop" where
  "find_team_member event_id team_id user_id =
     readM (\<lambda>w. List.find (\<lambda>m. mb_event_id m = event_id \<and> mb_team_id m = team_id \<and> mb_user_id m = user_id)
       (jw_members w))"

definition team_member_ids :: "uuid \<Rightarrow> uuid list \<Rightarrow> uuid list jop" where
  "team_member_ids event_id team_ids = readM (\<lambda>w.
     map mb_user_id (filter (\<lambda>m. mb_event_id m = event_id \<and> mb_team_id m \<in> set team_ids) (jw_members w)))"

definition quit_team :: "uuid \<Rightarrow> uuid \<Rightarrow> uuid \<Rightarrow> unit jop" where
  "quit_team event_id team_id user_id = txnM (
     bindM (find_event event_id) (\<lambda>erow.
     bindM (roster_event erow) (\<lambda>e.
     bindM (find_team_member event_id team_id user_id) (\<lambda>mrow.
     bindM (ok_orM mrow JMissing) (\<lambda>team_member.
     bindM (find_event_team event_id team_id) (\<lambda>trow.
     bindM (guardM (trow \<noteq> None) JMissing) (\<lambda>_.
     if mb_role team_member = RoleCaptain then
       bindM (team_member_ids event_id [team_id]) (\<lambda>ids.
       bindM (delete_teams event_id [team_id]) (\<lambda>_.
       whenM (ids \<noteq> []) (delete_enrolments event_id ids)))
     else
       bindM (delete_member team_member) (\<lambda>_. delete_enrolments event_id [user_id]))))))))"

definition join_team :: "uuid \<Rightarrow> uuid \<Rightarrow> uuid \<Rightarrow> unit jop" where
  "join_team event_id team_id user_id = txnM (
     bindM (find_visible_event event_id) (\<lambda>erow.
     bindM (roster_event erow) (\<lambda>e.
     bindM (find_membership event_id user_id) (\<lambda>m.
     bindM (guardM (m = None) JBadRequest) (\<lambda>_.
     bindM (find_event_team event_id team_id) (\<lambda>trow.
     bindM (ok_orM trow JMissing) (\<lambda>team.
     bindM (ensure_enrolment event_id user_id) (\<lambda>_.
     insert_member event_id (tm_id team) user_id RoleMember))))))))"

definition leave_team :: "uuid \<Rightarrow> uuid \<Rightarrow> uuid \<Rightarrow> unit jop" where
  "leave_team event_id team_id user_id = txnM (
     bindM (find_event event_id) (\<lambda>erow.
     bindM (roster_event erow) (\<lambda>e.
     bindM (find_team_member event_id team_id user_id) (\<lambda>mrow.
     bindM (ok_orM mrow JMissing) (\<lambda>team_member.
     bindM (guardM (mb_role team_member \<noteq> RoleCaptain) JBadRequest) (\<lambda>_.
     bindM (find_event_team event_id team_id) (\<lambda>trow.
     bindM (guardM (trow \<noteq> None) JMissing) (\<lambda>_.
     bindM (delete_member team_member) (\<lambda>_.
     delete_enrolments event_id [user_id])))))))))"

text \<open>\<open>EventStatus::check\<close> loads the event again; nothing changes in between.\<close>

definition solo_event :: "uuid \<Rightarrow> jeop_event jop" where
  "solo_event event_id =
     bindM (find_visible_event event_id) (\<lambda>erow.
     bindM (ok_orM erow JMissing) (\<lambda>e.
     bindM (liftM (require_competition e)) (\<lambda>_.
     bindM (guardM (er_participant_mode e = PmIndividual) JBadRequest) (\<lambda>_.
     bindM (guardM (er_allow_join e) JRosterClosed) (\<lambda>_.
     bindM j_now (\<lambda>now.
     bindM (guardM (event_time_status_of e now = TsNotStarted) JRosterLocked) (\<lambda>_. returnM e)))))))"

definition join_event :: "uuid \<Rightarrow> uuid \<Rightarrow> unit jop" where
  "join_event event_id user_id =
     bindM (solo_event event_id) (\<lambda>e. ensure_enrolment event_id user_id)"

definition leave_event :: "uuid \<Rightarrow> uuid \<Rightarrow> unit jop" where
  "leave_event event_id user_id =
     bindM (solo_event event_id) (\<lambda>e.
     bindM (find_enrolment event_id user_id) (\<lambda>row.
     bindM (guardM (row \<noteq> None) JMissing) (\<lambda>_. delete_enrolments event_id [user_id])))"

section \<open>Administration of participants\<close>

definition add_one_user :: "uuid \<Rightarrow> uuid \<Rightarrow> unit jop" where
  "add_one_user event_id user_id =
     bindM (find_account user_id) (\<lambda>account.
     bindM (guardM (account \<noteq> None) JMissing) (\<lambda>_. insert_enrolment event_id user_id))"

definition add_user :: "uuid \<Rightarrow> uuid list option \<Rightarrow> uuid option \<Rightarrow> unit jop" where
  "add_user event_id user_id_list user_id =
     bindM (find_event event_id) (\<lambda>erow.
     bindM (ok_orM erow JMissing) (\<lambda>e.
     bindM (guardM (er_participant_mode e \<noteq> PmTeam) JBadRequest) (\<lambda>_.
     case user_id_list of
       Some ids \<Rightarrow> forM ids (add_one_user (er_id e))
     | None \<Rightarrow> (case user_id of
           Some u \<Rightarrow> add_one_user (er_id e) u
         | None \<Rightarrow> throwM JBadRequest))))"

definition remove_user :: "uuid \<Rightarrow> uuid list \<Rightarrow> unit jop" where
  "remove_user event_id ids =
     bindM (find_event event_id) (\<lambda>erow.
     bindM (ok_orM erow JMissing) (\<lambda>e.
     bindM (guardM (er_participant_mode e \<noteq> PmTeam) JBadRequest) (\<lambda>_.
     delete_enrolments (er_id e) ids)))"

definition set_user_banned :: "bool \<Rightarrow> uuid \<Rightarrow> uuid \<Rightarrow> unit jop" where
  "set_user_banned banned event_id user_id =
     bindM (find_event event_id) (\<lambda>erow.
     bindM (ok_orM erow JMissing) (\<lambda>e.
     bindM (find_account user_id) (\<lambda>urow.
     bindM (guardM (urow \<noteq> None) JMissing) (\<lambda>_.
     bindM (find_enrolment event_id user_id) (\<lambda>row.
     bindM (guardM (row \<noteq> None) JMissing) (\<lambda>_.
     modifyM (\<lambda>w. w\<lparr>jw_users := update_where (is_enrolled event_id user_id)
       (\<lambda>u. u\<lparr>eu_banned := banned\<rparr>) (jw_users w)\<rparr>)))))))"

definition ban_event_user :: "uuid \<Rightarrow> uuid \<Rightarrow> unit jop" where
  "ban_event_user = set_user_banned True"

definition unban_event_user :: "uuid \<Rightarrow> uuid \<Rightarrow> unit jop" where
  "unban_event_user = set_user_banned False"

definition add_team :: "uuid \<Rightarrow> string \<Rightarrow> unit jop" where
  "add_team event_id name =
     bindM (find_event event_id) (\<lambda>erow.
     bindM (ok_orM erow JMissing) (\<lambda>e.
     bindM (guardM (er_participant_mode e = PmTeam) JBadRequest) (\<lambda>_.
     bindM (insert_team (er_id e) name) (\<lambda>_. returnM ()))))"

definition remove_team :: "uuid \<Rightarrow> uuid list \<Rightarrow> unit jop" where
  "remove_team event_id ids = txnM (
     bindM (team_member_ids event_id ids) (\<lambda>member_ids.
     bindM (delete_teams event_id ids) (\<lambda>_.
     whenM (member_ids \<noteq> []) (delete_enrolments event_id member_ids))))"

definition add_user_to_team :: "uuid \<Rightarrow> uuid \<Rightarrow> uuid \<Rightarrow> unit jop" where
  "add_user_to_team event_id team_id user_id = txnM (
     bindM (find_event event_id) (\<lambda>erow.
     bindM (ok_orM erow JMissing) (\<lambda>e.
     bindM (guardM (er_participant_mode e = PmTeam) JBadRequest) (\<lambda>_.
     bindM (find_event_team event_id team_id) (\<lambda>trow.
     bindM (guardM (trow \<noteq> None) JMissing) (\<lambda>_.
     bindM (find_account user_id) (\<lambda>urow.
     bindM (guardM (urow \<noteq> None) JMissing) (\<lambda>_.
     bindM (find_membership event_id user_id) (\<lambda>m.
     bindM (guardM (m = None) JBadRequest) (\<lambda>_.
     bindM (ensure_enrolment event_id user_id) (\<lambda>_.
     insert_member event_id team_id user_id RoleMember)))))))))))"

definition remove_user_from_team :: "uuid \<Rightarrow> uuid \<Rightarrow> uuid list \<Rightarrow> unit jop" where
  "remove_user_from_team event_id team_id ids = txnM (
     bindM (readM (\<lambda>w. filter (\<lambda>m. mb_event_id m = event_id \<and> mb_team_id m = team_id \<and>
        mb_user_id m \<in> set ids) (jw_members w))) (\<lambda>selected.
     bindM (guardM (\<not> list_ex (\<lambda>m. mb_role m = RoleCaptain) selected) JBadRequest) (\<lambda>_.
     whenM (selected \<noteq> []) (delete_enrolments event_id (map mb_user_id selected)))))"

definition set_team_banned :: "bool \<Rightarrow> uuid \<Rightarrow> uuid \<Rightarrow> unit jop" where
  "set_team_banned banned event_id team_id =
     bindM (find_event_team event_id team_id) (\<lambda>trow.
     bindM (guardM (trow \<noteq> None) JMissing) (\<lambda>_.
     modifyM (\<lambda>w. w\<lparr>jw_teams := update_where (\<lambda>t. tm_id t = team_id)
       (\<lambda>t. t\<lparr>tm_banned := banned\<rparr>) (jw_teams w)\<rparr>)))"

definition ban_event_team :: "uuid \<Rightarrow> uuid \<Rightarrow> unit jop" where
  "ban_event_team = set_team_banned True"

definition unban_event_team :: "uuid \<Rightarrow> uuid \<Rightarrow> unit jop" where
  "unban_event_team = set_team_banned False"

section \<open>Administration of the challenges of an event\<close>

definition add_one_challenge :: "uuid \<Rightarrow> real option \<Rightarrow> uuid \<Rightarrow> unit jop" where
  "add_one_challenge event_id points challenge_id =
     bindM (find_challenge challenge_id) (\<lambda>crow.
     bindM (ok_orM crow JMissing) (\<lambda>challenge.
     bindM (find_event_challenge event_id (ch_id challenge)) (\<lambda>existing.
     case existing of
       Some _ \<Rightarrow> returnM ()
     | None \<Rightarrow>
         bindM (guardM (ch_build_status challenge = Some ''ready'') JBadRequest) (\<lambda>_.
         bindM (liftM (validate_points (unwrap_or points 100))) (\<lambda>p.
         bindM (readM (\<lambda>w. list_ex (\<lambda>e. er_id e = event_id \<and> er_family e = FamJeopardy) (jw_events w))) (\<lambda>family_ok.
         bindM (guardM family_ok JDb) (\<lambda>_.
         modifyM (\<lambda>w. w\<lparr>jw_event_challenges := jw_event_challenges w @
           [\<lparr>jc_event_id = event_id, jc_challenge_id = ch_id challenge, jc_points = p, jc_hidden = True\<rparr>]\<rparr>))))))))"

definition add_challenge :: "uuid \<Rightarrow> uuid option \<Rightarrow> uuid list option \<Rightarrow> real option \<Rightarrow> unit jop" where
  "add_challenge event_id challenge_id challenge_id_list points =
     bindM (find_event event_id) (\<lambda>erow.
     bindM (ok_orM erow JMissing) (\<lambda>e.
     forM (case_option [] (\<lambda>c. [c]) challenge_id @ unwrap_or challenge_id_list [])
       (add_one_challenge (er_id e) points)))"

definition remove_challenge :: "uuid \<Rightarrow> uuid list \<Rightarrow> unit jop" where
  "remove_challenge event_id ids = modifyM (\<lambda>w. w\<lparr>jw_event_challenges :=
     filter (\<lambda>c. \<not> (jc_event_id c = event_id \<and> jc_challenge_id c \<in> set ids)) (jw_event_challenges w)\<rparr>)"

definition update_event_challenge ::
  "uuid \<Rightarrow> uuid \<Rightarrow> (jeop_event_challenge \<Rightarrow> jeop_event_challenge) \<Rightarrow> unit jop" where
  "update_event_challenge event_id challenge_id f =
     bindM (find_event_challenge event_id challenge_id) (\<lambda>row.
     bindM (guardM (row \<noteq> None) JMissing) (\<lambda>_.
     modifyM (\<lambda>w. w\<lparr>jw_event_challenges := update_where
       (\<lambda>c. jc_event_id c = event_id \<and> jc_challenge_id c = challenge_id) f (jw_event_challenges w)\<rparr>)))"

definition set_challenge_points :: "uuid \<Rightarrow> uuid option \<Rightarrow> uuid list option \<Rightarrow> real \<Rightarrow> unit jop" where
  "set_challenge_points event_id challenge_id challenge_id_list points =
     bindM (liftM (validate_points points)) (\<lambda>p.
     bindM (find_event event_id) (\<lambda>erow.
     bindM (ok_orM erow JMissing) (\<lambda>e.
     let ids = case_option [] (\<lambda>c. [c]) challenge_id @ unwrap_or challenge_id_list []
     in bindM (guardM (ids \<noteq> []) JBadRequest) (\<lambda>_.
        forM ids (\<lambda>c. update_event_challenge (er_id e) c (\<lambda>ec. ec\<lparr>jc_points := p\<rparr>))))))"

definition set_challenge_hidden :: "bool \<Rightarrow> uuid \<Rightarrow> uuid \<Rightarrow> unit jop" where
  "set_challenge_hidden hidden event_id challenge_id =
     bindM (find_challenge challenge_id) (\<lambda>crow.
     bindM (ok_orM crow JMissing) (\<lambda>challenge.
     update_event_challenge event_id (ch_id challenge) (\<lambda>ec. ec\<lparr>jc_hidden := hidden\<rparr>)))"

definition hide_challenges :: "bool \<Rightarrow> uuid \<Rightarrow> uuid option \<Rightarrow> uuid list option \<Rightarrow> unit jop" where
  "hide_challenges hidden event_id challenge_id challenge_id_list =
     bindM (find_event event_id) (\<lambda>erow.
     bindM (ok_orM erow JMissing) (\<lambda>e.
     bindM (case challenge_id of None \<Rightarrow> returnM () | Some c \<Rightarrow> set_challenge_hidden hidden (er_id e) c) (\<lambda>_.
     case challenge_id_list of
       None \<Rightarrow> returnM ()
     | Some ids \<Rightarrow> forM ids (set_challenge_hidden hidden (er_id e)))))"

definition hidden_challenges :: "uuid \<Rightarrow> uuid option \<Rightarrow> uuid list option \<Rightarrow> unit jop" where
  "hidden_challenges = hide_challenges True"

definition open_challenges :: "uuid \<Rightarrow> uuid option \<Rightarrow> uuid list option \<Rightarrow> unit jop" where
  "open_challenges = hide_challenges False"

end
