(* ===== verification/Jeopardy_System.thy ===== *)
theory Jeopardy_System
  imports Jeopardy_Score Event_Roster
begin

text \<open>
  The Jeopardy mode as one state machine: the requests of players and administrators, the timers that
  destroy instances, the clean-up loops and the passing of time, in any order. The locale
  \<open>jeop_invariant\<close> states what an invariant has to survive (the writes of the repositories, one
  scored flag, one launched instance) and shows that it then survives every request.
\<close>

section \<open>The machine\<close>

datatype jeop_request =
    Launch uuid "uuid option" uuid
  | Destroy uuid uuid
  | SubmitFlag uuid "uuid option" "uuid option" string
  | AutoDestroy uuid uuid
  | Cleanup
  | Reconcile int
  | ReapOrphans
  | CreateTeam uuid uuid string
  | QuitTeam uuid uuid uuid
  | JoinTeam uuid uuid uuid
  | LeaveTeam uuid uuid uuid
  | JoinEvent uuid uuid
  | LeaveEvent uuid uuid
  | AddUsers uuid "uuid list option" "uuid option"
  | RemoveUsers uuid "uuid list"
  | BanUser uuid uuid
  | UnbanUser uuid uuid
  | AddTeam uuid string
  | RemoveTeams uuid "uuid list"
  | AddToTeam uuid uuid uuid
  | RemoveFromTeam uuid uuid "uuid list"
  | BanTeam uuid uuid
  | UnbanTeam uuid uuid
  | AddChallenges uuid "uuid option" "uuid list option" "real option"
  | RemoveChallenges uuid "uuid list"
  | SetPoints uuid "uuid option" "uuid list option" real
  | HideChallenges uuid "uuid option" "uuid list option"
  | OpenChallenges uuid "uuid option" "uuid list option"
  | Wait int

fun jeop_serve :: "jeop_env \<Rightarrow> jeop_request \<Rightarrow> jeop_world \<Rightarrow> jeop_world" where
  "jeop_serve env (Launch u e c) w = snd (api_launch_instance env u e c w)"
| "jeop_serve env (Destroy u i) w = snd (api_destroy_instance env u i w)"
| "jeop_serve env (SubmitFlag u e i f) w = snd (api_submit_flag env u e i f w)"
| "jeop_serve env (AutoDestroy i u) w = snd (destroy_owned env i u w)"
| "jeop_serve env Cleanup w = snd (cleanup_running env w)"
| "jeop_serve env (Reconcile secs) w = snd (reconcile_missing_containers env secs w)"
| "jeop_serve env ReapOrphans w = snd (reap_orphan_containers env w)"
| "jeop_serve env (CreateTeam e u n) w = snd (create_team e u n w)"
| "jeop_serve env (QuitTeam e t u) w = snd (quit_team e t u w)"
| "jeop_serve env (JoinTeam e t u) w = snd (join_team e t u w)"
| "jeop_serve env (LeaveTeam e t u) w = snd (leave_team e t u w)"
| "jeop_serve env (JoinEvent e u) w = snd (join_event e u w)"
| "jeop_serve env (LeaveEvent e u) w = snd (leave_event e u w)"
| "jeop_serve env (AddUsers e us u) w = snd (add_user e us u w)"
| "jeop_serve env (RemoveUsers e us) w = snd (remove_user e us w)"
| "jeop_serve env (BanUser e u) w = snd (ban_event_user e u w)"
| "jeop_serve env (UnbanUser e u) w = snd (unban_event_user e u w)"
| "jeop_serve env (AddTeam e n) w = snd (add_team e n w)"
| "jeop_serve env (RemoveTeams e ts) w = snd (remove_team e ts w)"
| "jeop_serve env (AddToTeam e t u) w = snd (add_user_to_team e t u w)"
| "jeop_serve env (RemoveFromTeam e t us) w = snd (remove_user_from_team e t us w)"
| "jeop_serve env (BanTeam e t) w = snd (ban_event_team e t w)"
| "jeop_serve env (UnbanTeam e t) w = snd (unban_event_team e t w)"
| "jeop_serve env (AddChallenges e c cs p) w = snd (add_challenge e c cs p w)"
| "jeop_serve env (RemoveChallenges e cs) w = snd (remove_challenge e cs w)"
| "jeop_serve env (SetPoints e c cs p) w = snd (set_challenge_points e c cs p w)"
| "jeop_serve env (HideChallenges e c cs) w = snd (hidden_challenges e c cs w)"
| "jeop_serve env (OpenChallenges e c cs) w = snd (open_challenges e c cs w)"
| "jeop_serve env (Wait d) w = w\<lparr>jw_now := jw_now w + max d 0\<rparr>"

inductive jeop_reach :: "jeop_env \<Rightarrow> jeop_world \<Rightarrow> jeop_world \<Rightarrow> bool" for env w0 where
  start: "jeop_reach env w0 w0"
| serve: "jeop_reach env w0 w \<Longrightarrow> jeop_reach env w0 (jeop_serve env q w)"

section \<open>One scored flag\<close>

definition user_active :: "uuid \<Rightarrow> uuid \<Rightarrow> jeop_user \<Rightarrow> bool" where
  "user_active event_id user_id u \<longleftrightarrow> is_enrolled event_id user_id u \<and> \<not> eu_banned u"

definition team_active :: "uuid \<Rightarrow> jeop_team \<Rightarrow> bool" where
  "team_active team_id t \<longleftrightarrow> tm_id t = team_id \<and> \<not> tm_banned t"

definition add_solve :: "uuid \<Rightarrow> uuid \<Rightarrow> uuid \<Rightarrow> uuid option \<Rightarrow> real \<Rightarrow> jeop_world \<Rightarrow> jeop_world" where
  "add_solve e c u t p w = w\<lparr>jw_next_id := jw_next_id w + 1, jw_solves := jw_solves w @
     [\<lparr>sv_id = jw_next_id w, sv_event_id = e, sv_challenge_id = c, sv_user_id = u, sv_team_id = t,
       sv_obtained_points = p, sv_bonus_points = 0, sv_created_at = jw_now w\<rparr>]\<rparr>"

definition pay_user :: "uuid \<Rightarrow> uuid \<Rightarrow> real \<Rightarrow> jeop_world \<Rightarrow> jeop_world" where
  "pay_user e u p w = w\<lparr>jw_users :=
     update_where (user_active e u) (\<lambda>r. r\<lparr>eu_points := eu_points r + p\<rparr>) (jw_users w)\<rparr>"

definition pay_team :: "uuid \<Rightarrow> real \<Rightarrow> jeop_world \<Rightarrow> jeop_world" where
  "pay_team t p w = w\<lparr>jw_teams :=
     update_where (team_active t) (\<lambda>r. r\<lparr>tm_points := tm_points r + p\<rparr>) (jw_teams w)\<rparr>"

text \<open>What has to hold for a solve to be inserted, and that this is all the insertion does.\<close>

definition solve_allowed :: "jeop_world \<Rightarrow> uuid \<Rightarrow> uuid \<Rightarrow> uuid \<Rightarrow> uuid option \<Rightarrow> bool" where
  "solve_allowed w e c u t \<longleftrightarrow> ownership_ok (jw_events w) e t \<and>
     \<not> list_ex (solve_clash e c u t) (jw_solves w) \<and> solve_references w e c u t"

lemma insert_solve_run:
  "insert_solve e c u t p w =
     (if solve_allowed w e c u t then (Inr (), add_solve e c u t p w)
      else if ownership_ok (jw_events w) e t \<and> list_ex (solve_clash e c u t) (jw_solves w) then (Inl JUnique, w)
      else (Inl JDb, w))"
  by (simp add: insert_solve_def solve_allowed_def add_solve_def run_simps j_new_uuid_def)

lemma award_user_points_run:
  "award_user_points e u p w =
     (if length (filter (user_active e u) (jw_users w)) = 1 then Inr () else Inl JNotActive, pay_user e u p w)"
  by (simp add: award_user_points_def pay_user_def user_active_def[abs_def] run_simps)

lemma award_team_points_run:
  "award_team_points t p w =
     (if length (filter (team_active t) (jw_teams w)) = 1 then Inr () else Inl JNotActive, pay_team t p w)"
  by (simp add: award_team_points_def pay_team_def team_active_def[abs_def] run_simps)

lemma solve_allowed_pay [simp]:
  "solve_allowed (pay_user e' u' p w) e c u t = solve_allowed w e c u t"
  "solve_allowed (pay_team t' p w) e c u t = solve_allowed w e c u t"
  by (simp_all add: solve_allowed_def solve_references_def pay_user_def pay_team_def
      list_ex_update_where split: option.splits)

definition solves_so_far :: "jeop_world \<Rightarrow> uuid \<Rightarrow> uuid \<Rightarrow> nat" where
  "solves_so_far w e c = length (filter (solve_of e c) (jw_solves w))"

text \<open>A published challenge of the event and the points its next solve is worth.\<close>

definition offered :: "jeop_world \<Rightarrow> uuid \<Rightarrow> uuid \<Rightarrow> real \<Rightarrow> bool" where
  "offered w e c base \<longleftrightarrow> (\<exists>r. List.find (\<lambda>r. jc_event_id r = e \<and> jc_challenge_id r = c) (jw_event_challenges w) = Some r
     \<and> \<not> jc_hidden r \<and> jc_points r = base)"

definition scored_step :: "real \<Rightarrow> real \<Rightarrow> jeop_world \<Rightarrow> uuid \<Rightarrow> uuid \<Rightarrow> uuid \<Rightarrow> uuid option \<Rightarrow> jeop_world \<Rightarrow> bool" where
  "scored_step decay min_percent w e c u t w' \<longleftrightarrow> solve_allowed w e c u t \<and>
     (\<exists>base. offered w e c base \<and>
       (let p = dynamic_score base (solves_so_far w e c) decay min_percent in
        case t of
          None \<Rightarrow> length (filter (user_active e u) (jw_users w)) = 1 \<and>
            w' = add_solve e c u None p (pay_user e u p w)
        | Some i \<Rightarrow> length (filter (team_active i) (jw_teams w)) = 1 \<and>
            w' = add_solve e c u (Some i) p (pay_team i p w)))"

lemma require_published_run:
  "require_published e c w = (Inr x, w') \<longleftrightarrow> w' = w \<and> (\<exists>base. offered w e c base)"
  by (auto simp: require_published_def find_event_challenge_def offered_def run_simps split: option.splits if_splits)


lemma scored_step_user:
  "solve_allowed w e c u None \<Longrightarrow> offered w e c base \<Longrightarrow> length (filter (user_active e u) (jw_users w)) = 1 \<Longrightarrow>
   p = dynamic_score base (solves_so_far w e c) d m \<Longrightarrow>
   scored_step d m w e c u None (add_solve e c u None p (pay_user e u p w))"
  by (auto simp: scored_step_def Let_def)

lemma scored_step_team:
  "solve_allowed w e c u (Some i) \<Longrightarrow> offered w e c base \<Longrightarrow> length (filter (team_active i) (jw_teams w)) = 1 \<Longrightarrow>
   p = dynamic_score base (solves_so_far w e c) d m \<Longrightarrow>
   scored_step d m w e c u (Some i) (add_solve e c u (Some i) p (pay_team i p w))"
  by (auto simp: scored_step_def Let_def)

lemma scored_stepE:
  assumes "scored_step d m w e c u t w'"
  obtains (user) base p where "t = None" "solve_allowed w e c u None" "offered w e c base"
      "p = dynamic_score base (solves_so_far w e c) d m" "length (filter (user_active e u) (jw_users w)) = 1"
      "w' = add_solve e c u None p (pay_user e u p w)"
  | (team) i base p where "t = Some i" "solve_allowed w e c u (Some i)" "offered w e c base"
      "p = dynamic_score base (solves_so_far w e c) d m" "length (filter (team_active i) (jw_teams w)) = 1"
      "w' = add_solve e c u (Some i) p (pay_team i p w)"
  using assms by (cases t) (auto simp: scored_step_def Let_def)

lemma find_challenge_id: "List.find (\<lambda>c. ch_id c = i) cs = Some c \<Longrightarrow> ch_id c = i"
  by (drule find_SomeD) simp

lemma score_body_user:
  assumes "score_body d m req w = (Inr out, w')" "sq_subject req = SubjectUser"
  shows "out = AlreadySolved \<and> w' = w \<or>
    (\<exists>c. out = Scored None \<and> scored_step d m w (sq_event_id req) c (sq_user_id req) None w')"
  using assms unfolding score_body_def
  by (simp add: op_Inr require_published_run running_instance_def find_challenge_def already_solved_def)
     (auto simp: op_Inr solved_count_def insert_solve_run award_user_points_run solves_so_far_def offered_def
        find_event_challenge_points_def find_event_challenge_def Let_def
        dest!: find_challenge_id intro!: exI scored_step_user split: if_splits)

lemma score_body_team:
  assumes "score_body d m req w = (Inr out, w')" "sq_subject req = SubjectTeam"
  shows "out = AlreadySolved \<and> w' = w \<or>
    (\<exists>c t. out = Scored (Some t) \<and> scored_step d m w (sq_event_id req) c (sq_user_id req) (Some t) w')"
  using assms unfolding score_body_def
  by (simp add: op_Inr require_published_run running_instance_def find_challenge_def already_solved_def
        find_team_id_for_user_def find_membership_def)
     (auto simp: op_Inr solved_count_def insert_solve_run award_team_points_run solves_so_far_def offered_def
        find_event_challenge_points_def find_event_challenge_def Let_def
        dest!: find_challenge_id intro!: exI scored_step_team split: if_splits)

lemma score_body_Inr:
  assumes "score_body d m req w = (Inr out, w')"
  shows "out = AlreadySolved \<and> w' = w \<or>
    (\<exists>c t. out = Scored t \<and> scored_step d m w (sq_event_id req) c (sq_user_id req) t w' \<and>
       (t = None \<longleftrightarrow> sq_subject req = SubjectUser))"
  by (cases "sq_subject req") (use score_body_user[OF assms] score_body_team[OF assms] in auto)

section \<open>What an invariant has to survive\<close>

definition setting_f64 :: "jeop_env \<Rightarrow> string \<Rightarrow> real option" where
  "setting_f64 env key = Option.bind (je_setting env key) (je_parse_f64 env)"

definition points_allowed :: "real \<Rightarrow> bool" where
  "points_allowed p \<longleftrightarrow> 0 < p \<and> p \<le> 1000000"

text \<open>Room for one more instance in an event; the number of a team's instances follows its size.\<close>

definition solo_limit :: "jeop_event \<Rightarrow> nat" where
  "solo_limit e = (if er_purpose e = PurPractice then 1 else 2)"

definition has_room :: "jeop_world \<Rightarrow> jeop_event \<Rightarrow> uuid \<Rightarrow> uuid option \<Rightarrow> bool" where
  "has_room w e u t \<longleftrightarrow> e \<in> set (jw_events w) \<and>
     (er_participant_mode e = PmIndividual \<longrightarrow>
        t = None \<and> length (running_instances (er_id e) SubjectUser u None w) < solo_limit e)"

definition launch_rows :: "jeop_event \<Rightarrow> jeop_instance \<Rightarrow> challenge_instance \<Rightarrow> bool" where
  "launch_rows e r c \<longleftrightarrow> ci_event_id c = er_id e \<and> ei_id r = ci_id c \<and> ei_event_id r = er_id e \<and>
     ei_owner_team_id r = ci_team_id c \<and> ei_runtime_state r = ''running''"

text \<open>Steps that touch only the log, the supply of identifiers and finished instances.\<close>

locale jeop_quiet =
  fixes I :: "jeop_world \<Rightarrow> bool"
  assumes keep_log: "I w \<Longrightarrow> I (w\<lparr>jw_log := l\<rparr>)"
    and keep_id: "I w \<Longrightarrow> I (w\<lparr>jw_next_id := Suc (jw_next_id w)\<rparr>)"
    and keep_completed:
      "I w \<Longrightarrow> I (drop_runtimes (\<lambda>r. ei_container_name r = name \<and> ei_runtime_state r = ''completed'') w)"
begin

lemma keeps_j_dockerM [keeps_intros]: "keeps I (j_dockerM env fx)"
  by (simp add: keeps_def j_dockerM_def keep_log)

lemma keeps_j_new_uuid [keeps_intros]: "keeps I j_new_uuid"
  by (simp add: keeps_def j_new_uuid_def keep_id)

lemma keeps_list_containers [keeps_intros]: "keeps I (list_containers env)"
  unfolding list_containers_def by (intro keeps_intros keeps_modifyM) (simp add: keep_log)

lemma keeps_delete_completed: "keeps I (delete_completed_by_container_name name)"
  unfolding delete_completed_by_container_name_def by (intro keeps_modifyM keep_completed)

lemma keeps_reads [keeps_intros]:
  "keeps I j_now" "keeps I (get_setting env key)" "keeps I (find_event ev)" "keeps I (find_visible_event ev)"
  "keeps I (find_account u)" "keeps I (find_challenge ch)" "keeps I (find_event_challenge ev ch)"
  "keeps I (find_enrolment ev u)" "keeps I (find_membership ev u)" "keeps I (find_event_team ev t)"
  "keeps I (find_team_member ev t u)" "keeps I (team_member_ids ev ts)" "keeps I (event_exists_by_prefix env s)"
  "keeps I list_cleanup_candidates" "keeps I (list_running_older_than n)"
  "keeps I (find_owned_running i u)" "keeps I (find_team_running i ev t)"
  by (simp_all add: keeps_readM keeps_ok_orM j_now_def get_setting_def find_event_def find_visible_event_def
      find_account_def find_challenge_def find_event_challenge_def find_enrolment_def find_membership_def
      find_event_team_def find_team_member_def team_member_ids_def event_exists_by_prefix_def
      list_cleanup_candidates_def list_running_older_than_def find_owned_running_def find_team_running_def
      find_instance_with_runtime_def)

lemma keeps_finalize_launch [keeps_intros]: "keeps I (finalize_launch env name port)"
  unfolding finalize_launch_def runtime_stop_and_remove_def by (intro keeps_intros)

lemma keeps_launch_parts [keeps_intros]:
  "keeps I (launch_flag env challenge flag_prefix)" "keeps I (launch_spec challenge flag)"
  "keeps I (launch_content env spec name node_ip http_prefix)"
  unfolding launch_flag_def gen_instance_flag_def launch_spec_def launch_content_def runtime_launch_def Let_def
  by (intro keeps_intros)+

end

lemma running_instances_more [simp]:
  "running_instances e s u t (w\<lparr>jw_log := l\<rparr>) = running_instances e s u t w"
  "running_instances e s u t (w\<lparr>jw_next_id := n\<rparr>) = running_instances e s u t w"
  by (simp_all add: running_instances_def is_running_def)

text \<open>Deleting runtime rows never adds a running instance.\<close>

lemma is_running_drop: "is_running (drop_runtimes p w) c \<Longrightarrow> is_running w c"
  by (auto simp: is_running_def drop_runtimes_def list_ex_iff)

lemma running_instances_drop:
  "length (running_instances e s u t (drop_runtimes p w)) \<le> length (running_instances e s u t w)"
proof -
  have "length (running_instances e s u t (drop_runtimes p w)) \<le>
      length (filter (\<lambda>c. ci_event_id c = e \<and> is_running w c \<and> owned_by s u t c) (jw_instances (drop_runtimes p w)))"
    unfolding running_instances_def by (intro length_filter_less_eq) (auto dest: is_running_drop)
  also have "\<dots> \<le> length (running_instances e s u t w)"
    unfolding running_instances_def by (auto simp: drop_runtimes_def intro: length_filter_less_eq)
  finally show ?thesis .
qed

lemma has_room_more [simp]:
  "has_room (w\<lparr>jw_log := l\<rparr>) e u t = has_room w e u t"
  "has_room (w\<lparr>jw_next_id := n\<rparr>) e u t = has_room w e u t"
  by (simp_all add: has_room_def)

lemma has_room_drop: "has_room w e u t \<Longrightarrow> has_room (drop_runtimes p w) e u t"
  using running_instances_drop[of "er_id e" SubjectUser u None p w]
  by (auto simp: has_room_def drop_runtimes_def)

text \<open>The checks before a launch leave room for the instance.\<close>

lemma max_concurrent_solo:
  "policy_from_event e = Inr p \<Longrightarrow> er_participant_mode e = PmIndividual \<Longrightarrow>
   max_concurrent_instances p n = solo_limit e"
  by (auto simp: policy_from_event_Inr max_concurrent_instances_def solo_limit_def split: event_purpose.splits)

locale jeop_invariant = jeop_quiet I for I :: "jeop_world \<Rightarrow> bool" +
  fixes env :: jeop_env
  assumes keep_time: "I w \<Longrightarrow> 0 \<le> dt \<Longrightarrow> I (w\<lparr>jw_now := jw_now w + dt\<rparr>)"
    and keep_transition: "I w \<Longrightarrow> nxt \<noteq> ''running'' \<Longrightarrow> I (snd (transition_runtime_state i ex nxt w))"
    and keep_rows: "I w \<Longrightarrow> has_room w e (ci_user_id c) (ci_team_id c) \<Longrightarrow> launch_rows e r c \<Longrightarrow>
      I (snd (insert_instance_rows r c w))"
    and keep_enrol: "I w \<Longrightarrow> I (snd (insert_enrolment ev u w))"
    and keep_team: "I w \<Longrightarrow> I (snd (insert_team ev name w))"
    and keep_member: "I w \<Longrightarrow> I (snd (insert_member ev t u role w))"
    and keep_unmember: "I w \<Longrightarrow> I (snd (delete_member m w))"
    and keep_unenrol: "I w \<Longrightarrow> I (drop_enrolments ev ids w)"
    and keep_unteam: "I w \<Longrightarrow> I (drop_teams ev ids w)"
    and keep_user_ban: "I w \<Longrightarrow>
      I (w\<lparr>jw_users := update_where p (\<lambda>u. u\<lparr>eu_banned := b\<rparr>) (jw_users w)\<rparr>)"
    and keep_team_ban: "I w \<Longrightarrow>
      I (w\<lparr>jw_teams := update_where q (\<lambda>t. t\<lparr>tm_banned := b\<rparr>) (jw_teams w)\<rparr>)"
    and keep_challenges: "I w \<Longrightarrow>
      (\<And>c. c \<in> set cs \<Longrightarrow> points_allowed (jc_points c) \<or> jc_points c \<in> jc_points ` set (jw_event_challenges w)) \<Longrightarrow>
      I (w\<lparr>jw_event_challenges := cs\<rparr>)"
    and keep_score: "I w \<Longrightarrow> setting_f64 env ''EVENT_SCORE_DECAY'' = Some decay \<Longrightarrow>
      setting_f64 env ''EVENT_SCORE_MIN_PERCENT'' = Some share \<Longrightarrow> scored_step decay share w ev ch u tm w' \<Longrightarrow> I w'"
    and keep_practice: "I w \<Longrightarrow> List.find (\<lambda>x. er_id x = ev) (jw_events w) = Some x \<Longrightarrow>
      er_purpose x = PurPractice \<Longrightarrow> solve_allowed w ev ch u None \<Longrightarrow> I (add_solve ev ch u None 0 w)"
begin

lemma keeps_transition: "nxt \<noteq> ''running'' \<Longrightarrow> keeps I (transition_runtime_state i ex nxt)"
  by (simp add: keeps_def keep_transition)

lemma keeps_roster_writes [keeps_intros]:
  "keeps I (insert_enrolment ev u)" "keeps I (insert_team ev name)" "keeps I (insert_member ev t u role)"
  "keeps I (delete_member m)" "keeps I (delete_enrolments ev ids)" "keeps I (delete_teams ev ids)"
  by (simp_all add: keeps_def keep_enrol keep_team keep_member keep_unmember keep_unenrol keep_unteam
      delete_enrolments_def delete_teams_def modifyM_run)

section \<open>Instances\<close>

lemma keeps_destroy_model: "keeps I (destroy_model env' p)"
  unfolding destroy_model_def remove_runtime_if_needed_def runtime_stop_and_remove_def
  by (intro keeps_intros keeps_transition) simp_all

lemma keeps_destroys [keeps_intros]:
  "keeps I (destroy_owned env' i u)" "keeps I (destroy_team_owned env' i ev t)"
  unfolding destroy_owned_def destroy_team_owned_def destroy_found_def
  by (intro keeps_intros keeps_destroy_model)+

lemma keeps_cleanup_each: "keeps I (cleanup_each env' ps report)"
proof (induction ps arbitrary: report)
  case Nil show ?case by (simp add: keeps_returnM)
next
  case (Cons p ps) show ?case
    unfolding cleanup_each.simps by (intro keeps_bindM keeps_attemptM keeps_destroy_model Cons.IH)
qed

lemma keeps_reconcile_each: "keeps I (reconcile_each env' rs n)"
proof (induction rs arbitrary: n)
  case Nil show ?case by (simp add: keeps_returnM)
next
  case (Cons r rs)
  have "keeps I (container_exists env' x)" for x
    unfolding container_exists_def by (intro keeps_intros)
  then show ?case
    by (auto intro!: keeps_bindM keeps_attemptM keeps_transition Cons.IH split: sum.splits bool.splits)
qed

lemma keeps_reap_each: "keeps I (reap_each env' names n)"
proof (induction names arbitrary: n)
  case Nil show ?case by (simp add: keeps_returnM)
next
  case (Cons name names) show ?case
    unfolding reap_each.simps runtime_stop_and_remove_def by (intro keeps_intros Cons.IH)
qed

lemma keeps_loops:
  "keeps I (cleanup_running env')" "keeps I (reconcile_missing_containers env' n)"
  "keeps I (reap_orphan_containers env')"
  unfolding cleanup_running_def reconcile_missing_containers_def reap_orphan_containers_def
    list_instance_containers_def
  by (intro keeps_intros keeps_cleanup_each keeps_reconcile_each keeps_reap_each)+

lemma quiet_with_room: "jeop_quiet (\<lambda>w. I w \<and> has_room w e u t)"
  by unfold_locales (auto intro: keep_log keep_id keep_completed has_room_drop)

lemma launch_leads:
  "leads (\<lambda>w. I w \<and> has_room w e u t) (launch env' (er_id e) ch name u t fp) I"
proof -
  note [keeps_intros] = jeop_quiet.keeps_reads[OF quiet_with_room] jeop_quiet.keeps_j_new_uuid[OF quiet_with_room]
    jeop_quiet.keeps_launch_parts[OF quiet_with_room] jeop_quiet.keeps_delete_completed[OF quiet_with_room]
  have rows: "leads (\<lambda>w. I w \<and> has_room w e u t) (insert_instance_rows r c) I"
    if "launch_rows e r c" "ci_user_id c = u" "ci_team_id c = t" for r c
    using that by (auto intro!: leadsI intro: keep_rows)
  show ?thesis
    unfolding launch_def Let_def runtime_stop_and_remove_def
    by ((rule leads_bindM, (intro keeps_intros; fail)[1])+,
        intro leads_then leads_attemptM rows keeps_intros) (simp_all add: launch_rows_def)
qed

lemma keep_launch_instance:
  assumes "I w" "e \<in> set (jw_events w)"
  shows "I (snd (launch_instance env' e u ch w))"
proof -
  have "I (snd (launch env' (er_id e) ch name u t fp w))" if "has_room w e u t" for name t fp
    using leadsD[OF launch_leads] assms(1) that by blast
  moreover have "has_room w e u t"
    if "policy_from_event e = Inr p" "er_participant_mode e = PmIndividual \<longrightarrow> t = None \<and>
        length (running_instances (er_id e) SubjectUser u None w) < max_concurrent_instances p n" for p t n
    using that assms(2) by (auto simp: has_room_def max_concurrent_solo)
  ultimately show ?thesis
    using assms(1)
    by (simp add: launch_instance_def should_user_joined_def should_ongoing_def find_enrolment_def j_now_def
        resolve_participant_def require_published_def find_event_challenge_def find_membership_def run_simps
        split: sum.splits option.splits if_splits participant_mode.splits time_window_status.splits prod.splits)
qed

section \<open>Flags\<close>

lemma parse_setting_f64_Inr:
  "parse_setting_f64 env' key w = (Inr x, w') \<longleftrightarrow> setting_f64 env' key = Some x \<and> w' = w"
  by (auto simp: parse_setting_f64_def get_setting_def setting_f64_def op_Inr bind_eq_Some_conv)

lemma keeps_parse_setting_f64: "keeps I (parse_setting_f64 env' key)"
  unfolding parse_setting_f64_def by (intro keeps_intros)

lemma keep_score_in_transaction: "I w \<Longrightarrow> I (snd (score_in_transaction env req w))"
proof -
  assume "I w"
  have "commits I (score_body d m req)"
    if "setting_f64 env ''EVENT_SCORE_DECAY'' = Some d" "setting_f64 env ''EVENT_SCORE_MIN_PERCENT'' = Some m" for d m
    unfolding commits_def
  proof (intro allI impI)
    fix s x s' assume "I s" and run: "score_body d m req s = (Inr x, s')"
    from score_body_Inr[OF run] consider "s' = s"
      | c t where "scored_step d m s (sq_event_id req) c (sq_user_id req) t s'" by blast
    then show "I s'"
    proof cases
      case 1 then show ?thesis using \<open>I s\<close> by simp
    next
      case 2 show ?thesis by (rule keep_score[OF \<open>I s\<close> that 2])
    qed
  qed
  then have "I (snd (txnM (score_body d m req) w))"
    if "setting_f64 env ''EVENT_SCORE_DECAY'' = Some d" "setting_f64 env ''EVENT_SCORE_MIN_PERCENT'' = Some m" for d m
    using keepsD[of I "txnM (score_body d m req)" w] keeps_txnM_commits[of I "score_body d m req"] that \<open>I w\<close> by simp
  then show ?thesis
    using \<open>I w\<close>
    by (auto simp: score_in_transaction_def parse_setting_f64_def get_setting_def setting_f64_def run_simps
        split: option.splits sum.splits prod.splits)
qed

lemma keeps_submit: "keeps I (submit env req)"
  unfolding submit_def
proof (rule keeps_bindM)
  show "keeps I (score_in_transaction env req)" by (simp add: keeps_def keep_score_in_transaction)
  show "keeps I (case x of AlreadySolved \<Rightarrow> returnM ()
      | Scored team_id \<Rightarrow> ignoreM (case team_id of
           Some t \<Rightarrow> destroy_team_owned env (sq_instance_id req) (sq_event_id req) t
         | None \<Rightarrow> destroy_owned env (sq_instance_id req) (sq_user_id req)))" for x
    by (cases x) (auto intro!: keeps_intros)
qed

lemma keeps_submit_practice: "keeps I (submit_practice env' u i flag)"
proof -
  have "I (snd (destroy_owned env' i u w))" if "I w" for w
    using keepsD[OF keeps_destroys(1) that] .
  then show ?thesis
    unfolding keeps_def
    by (auto simp: submit_practice_def running_instance_def find_event_def find_challenge_def run_simps insert_solve_run
        intro: keep_practice split: option.splits)
qed

lemma keeps_submit_event_flag: "keeps I (submit_event_flag env e u i flag)"
  unfolding submit_event_flag_def should_user_joined_def should_ongoing_def resolve_participant_def
  by (intro keeps_intros keeps_submit keeps_submit_practice)
     (auto intro!: keeps_intros split: time_window_status.splits participant_mode.splits)

lemma keeps_api_submit_flag: "keeps I (api_submit_flag env u e i flag)"
  unfolding api_submit_flag_def require_practice_jeopardy_event_def
  by (intro keeps_intros keeps_submit_event_flag)

lemma keep_api_launch_instance: "I w \<Longrightarrow> I (snd (api_launch_instance env' u e ch w))"
  by (auto simp: api_launch_instance_def require_practice_jeopardy_event_def find_event_def run_simps
      intro!: keep_launch_instance dest: find_SomeD split: option.splits)

lemma keeps_api_destroy_instance: "keeps I (api_destroy_instance env' u i)"
  unfolding api_destroy_instance_def destroy_instance_def resolve_participant_def
  by (intro keeps_intros) (auto intro!: keeps_intros split: solve_subject.splits participant_mode.splits)

section \<open>Roster and challenges\<close>

lemma keeps_roster_parts [keeps_intros]:
  "keeps I (roster_event row)" "keeps I (ensure_enrolment ev u)" "keeps I (solo_event ev)"
  "keeps I (add_one_user ev u)"
  unfolding roster_event_def ensure_enrolment_def solo_event_def add_one_user_def by (intro keeps_intros)+

lemma keeps_player_roster:
  "keeps I (create_team ev u name)" "keeps I (quit_team ev t u)" "keeps I (join_team ev t u)"
  "keeps I (leave_team ev t u)" "keeps I (join_event ev u)" "keeps I (leave_event ev u)"
  unfolding create_team_def quit_team_def join_team_def leave_team_def join_event_def leave_event_def
  by (intro keeps_intros)+

lemma keeps_set_user_banned [keeps_intros]: "keeps I (set_user_banned b ev u)"
  unfolding set_user_banned_def by (intro keeps_intros keeps_modifyM keep_user_ban)

lemma keeps_set_team_banned [keeps_intros]: "keeps I (set_team_banned b ev t)"
  unfolding set_team_banned_def by (intro keeps_intros keeps_modifyM keep_team_ban)

lemma keeps_admin_roster:
  "keeps I (add_user ev us uo)" "keeps I (remove_user ev ids)" "keeps I (ban_event_user ev u)"
  "keeps I (unban_event_user ev u)" "keeps I (add_team ev name)" "keeps I (remove_team ev ids)"
  "keeps I (add_user_to_team ev t u)" "keeps I (remove_user_from_team ev t ids)"
  "keeps I (ban_event_team ev t)" "keeps I (unban_event_team ev t)"
  unfolding add_user_def remove_user_def ban_event_user_def unban_event_user_def add_team_def remove_team_def
    add_user_to_team_def remove_user_from_team_def ban_event_team_def unban_event_team_def
  by (intro keeps_intros)+

lemma keeps_update_event_challenge:
  assumes "\<And>c. points_allowed (jc_points (f c)) \<or> jc_points (f c) = jc_points c"
  shows "keeps I (update_event_challenge ev ch f)"
proof -
  have "points_allowed (jc_points c') \<or> jc_points c' \<in> jc_points ` set cs"
    if "c' \<in> set (update_where p f cs)" for p c' cs
    using that assms by (auto simp: set_update_where)
  then show ?thesis
    unfolding update_event_challenge_def by (intro keeps_intros keeps_modifyM keep_challenges)
qed

lemma validate_points_Inr: "validate_points p = Inr x \<Longrightarrow> points_allowed x"
  by (auto simp: validate_points_def points_allowed_def split: if_splits)

lemma keeps_add_one_challenge: "keeps I (add_one_challenge ev p ch)"
  unfolding keeps_def
  by (auto simp: add_one_challenge_def find_challenge_def find_event_challenge_def run_simps
      intro!: keep_challenges dest!: validate_points_Inr split: option.splits sum.splits)

lemma keeps_add_challenge: "keeps I (add_challenge ev c cs p)"
  unfolding add_challenge_def by (intro keeps_intros keeps_add_one_challenge)

lemma keeps_remove_challenge: "keeps I (remove_challenge ev ids)"
  unfolding remove_challenge_def by (auto intro!: keeps_modifyM keep_challenges)

lemma keeps_hide_challenges: "keeps I (hide_challenges b ev c cs)"
  unfolding hide_challenges_def set_challenge_hidden_def
  by (intro keeps_intros keeps_update_event_challenge) simp_all

lemma keeps_set_challenge_points: "keeps I (set_challenge_points ev c cs pts)"
proof (cases "validate_points pts")
  case (Inl e) then show ?thesis
    by (simp add: set_challenge_points_def keeps_def run_simps)
next
  case (Inr p)
  have "keeps I (update_event_challenge ev' ch (\<lambda>c. c\<lparr>jc_points := p\<rparr>))" for ev' ch
    using validate_points_Inr[OF Inr] by (intro keeps_update_event_challenge) simp
  then show ?thesis
    unfolding set_challenge_points_def Inr bindM_liftM_Inr Let_def by (intro keeps_intros)
qed

lemmas keeps_challenge_admin =
  keeps_add_challenge keeps_remove_challenge keeps_hide_challenges keeps_set_challenge_points

lemma keep_serve: "I w \<Longrightarrow> I (jeop_serve env q w)"
  by (cases q) (simp_all add: keepsD keeps_player_roster keeps_admin_roster keeps_challenge_admin keeps_loops
     keep_api_launch_instance keeps_api_destroy_instance keeps_api_submit_flag keeps_destroys keep_time
     hidden_challenges_def open_challenges_def)

theorem keep_reach: "jeop_reach env w0 w \<Longrightarrow> I w0 \<Longrightarrow> I w"
  by (induction rule: jeop_reach.induct) (auto intro: keep_serve)

end

end
