(* ===== verification/Jeopardy_Tables.thy ===== *)
theory Jeopardy_Tables
  imports Jeopardy_System
begin

text \<open>
  What the tables of the Jeopardy mode satisfy in every state the machine reaches: the roster is
  consistent, a subject solves a challenge at most once, and nobody who plays alone has more
  instances running than the policy allows.
\<close>

section \<open>The roster\<close>

definition enrolment_key :: "'u event_user_scheme \<Rightarrow> uuid \<times> uuid" where
  "enrolment_key u = (eu_event_id u, eu_user_id u)"

definition member_key :: "'m team_member_scheme \<Rightarrow> uuid \<times> uuid" where
  "member_key m = (mb_event_id m, mb_user_id m)"

definition team_key :: "'t event_team_scheme \<Rightarrow> uuid \<times> uuid" where
  "team_key t = (tm_event_id t, tm_id t)"

definition captains_agree :: "jeop_member \<Rightarrow> jeop_member \<Rightarrow> bool" where
  "captains_agree m m' \<longleftrightarrow>
     (mb_role m = RoleCaptain \<and> mb_role m' = RoleCaptain \<and> mb_event_id m = mb_event_id m' \<and>
      mb_team_id m = mb_team_id m' \<longrightarrow> mb_user_id m = mb_user_id m')"

definition member_backed :: "jeop_team list \<Rightarrow> jeop_user list \<Rightarrow> jeop_member \<Rightarrow> bool" where
  "member_backed teams users m \<longleftrightarrow>
     (mb_event_id m, mb_team_id m) \<in> team_key ` set teams \<and> member_key m \<in> enrolment_key ` set users"

definition roster_ok :: "jeop_world \<Rightarrow> bool" where
  "roster_ok w \<longleftrightarrow>
     distinct (map enrolment_key (jw_users w)) \<and>
     distinct (map tm_id (jw_teams w)) \<and> (\<forall>i \<in> snd ` team_key ` set (jw_teams w). i < jw_next_id w) \<and>
     distinct (map member_key (jw_members w)) \<and>
     (\<forall>m \<in> set (jw_members w). member_backed (jw_teams w) (jw_users w) m) \<and>
     (\<forall>m \<in> set (jw_members w). \<forall>m' \<in> set (jw_members w). captains_agree m m')"

lemma is_enrolled_key: "is_enrolled e u r \<longleftrightarrow> enrolment_key r = (e, u)"
  by (simp add: is_enrolled_def enrolment_key_def)

lemma is_member_key: "is_member e u m \<longleftrightarrow> member_key m = (e, u)"
  by (simp add: is_member_def member_key_def)

lemma tm_id_team_key: "tm_id t = snd (team_key t)"
  by (simp add: team_key_def)

lemma roster_ok_cong:
  assumes "roster_ok w" "jw_next_id w \<le> jw_next_id w'"
    "map enrolment_key (jw_users w') = map enrolment_key (jw_users w)"
    "map team_key (jw_teams w') = map team_key (jw_teams w)" "jw_members w' = jw_members w"
  shows "roster_ok w'"
proof -
  have ids: "map tm_id (jw_teams w') = map tm_id (jw_teams w)"
    using arg_cong[OF assms(4), of "map snd"] by (simp add: o_def team_key_def)
  have "enrolment_key ` set (jw_users w') = enrolment_key ` set (jw_users w)"
    "team_key ` set (jw_teams w') = team_key ` set (jw_teams w)"
    using arg_cong[OF assms(3), of set] arg_cong[OF assms(4), of set] by simp_all
  then show ?thesis
    using assms(1,2,3,5) ids unfolding roster_ok_def member_backed_def by (auto intro: less_le_trans)
qed

lemma roster_ok_insert_enrolment: "roster_ok w \<Longrightarrow> roster_ok (snd (insert_enrolment e u w))"
  by (auto simp: insert_enrolment_def run_simps roster_ok_def list_ex_iff is_enrolled_key member_backed_def
      enrolment_key_def)

lemma roster_ok_insert_team: "roster_ok w \<Longrightarrow> roster_ok (snd (insert_team e n w))"
  by (auto simp: insert_team_def run_simps roster_ok_def j_new_uuid_def member_backed_def less_Suc_eq team_key_def)

lemma insert_member_run:
  "insert_member e t u r w =
     (if list_ex (member_clash e t u r) (jw_members w) then (Inl JUnique, w)
      else if list_ex (\<lambda>x. tm_id x = t \<and> tm_event_id x = e) (jw_teams w) \<and> list_ex (is_enrolled e u) (jw_users w)
      then (Inr (), w\<lparr>jw_members := jw_members w @ [\<lparr>mb_event_id = e, mb_team_id = t, mb_user_id = u, mb_role = r\<rparr>]\<rparr>)
      else (Inl JDb, w))"
  by (simp add: insert_member_def run_simps)

lemma roster_ok_add_member:
  assumes "roster_ok w" "member_backed (jw_teams w) (jw_users w) m"
    "\<And>m'. m' \<in> set (jw_members w) \<Longrightarrow> member_key m' \<noteq> member_key m \<and> captains_agree m m' \<and> captains_agree m' m"
  shows "roster_ok (w\<lparr>jw_members := jw_members w @ [m]\<rparr>)"
proof -
  have "member_key m \<notin> member_key ` set (jw_members w)" using assms(3) by (metis imageE)
  then show ?thesis using assms by (auto simp: roster_ok_def captains_agree_def[of m m])
qed

lemma roster_ok_insert_member:
  assumes "roster_ok w"
  shows "roster_ok (snd (insert_member e t u r w))"
proof -
  let ?m = "\<lparr>mb_event_id = e, mb_team_id = t, mb_user_id = u, mb_role = r\<rparr>"
  have "roster_ok (w\<lparr>jw_members := jw_members w @ [?m]\<rparr>)"
    if "\<not> list_ex (member_clash e t u r) (jw_members w)"
      "list_ex (\<lambda>x. tm_id x = t \<and> tm_event_id x = e) (jw_teams w)" "list_ex (is_enrolled e u) (jw_users w)"
  proof (rule roster_ok_add_member[OF assms])
    show "member_backed (jw_teams w) (jw_users w) ?m"
      using that(2,3) by (force simp: member_backed_def team_key_def member_key_def list_ex_iff is_enrolled_key)
    show "member_key m' \<noteq> member_key ?m \<and> captains_agree ?m m' \<and> captains_agree m' ?m"
      if "m' \<in> set (jw_members w)" for m'
      using that \<open>\<not> list_ex (member_clash e t u r) (jw_members w)\<close>
      by (auto simp: list_ex_iff member_clash_def is_member_def member_key_def captains_agree_def)
  qed
  then show ?thesis using assms by (simp add: insert_member_run)
qed

lemma roster_ok_delete_member: "roster_ok w \<Longrightarrow> roster_ok (snd (delete_member m w))"
  by (simp add: delete_member_def run_simps roster_ok_def distinct_map_filter)

text \<open>A row that loses what it refers to is deleted with it.\<close>

lemma roster_ok_drop_enrolments:
  assumes "roster_ok w"
  shows "roster_ok (drop_enrolments e ids w)"
proof -
  let ?w = "drop_enrolments e ids w"
  have "member_backed (jw_teams ?w) (jw_users ?w) m" if "m \<in> set (jw_members ?w)" for m
  proof -
    have m: "m \<in> set (jw_members w)" and
      gone: "\<And>u. u \<in> set (jw_users w) \<Longrightarrow> enrolment_key u = member_key m \<Longrightarrow> \<not> (eu_event_id u = e \<and> eu_user_id u \<in> set ids)"
      using that by (auto simp: drop_enrolments_def Let_def list_ex_iff is_member_key enrolment_key_def)
    have "member_backed (jw_teams w) (jw_users w) m" using assms m by (simp add: roster_ok_def)
    then show ?thesis using gone by (auto simp: member_backed_def drop_enrolments_def Let_def image_iff)
  qed
  then show ?thesis using assms
    by (auto simp: drop_enrolments_def Let_def roster_ok_def distinct_map_filter)
qed

lemma roster_ok_drop_teams:
  assumes "roster_ok w"
  shows "roster_ok (drop_teams e ids w)"
proof -
  let ?w = "drop_teams e ids w"
  have "member_backed (jw_teams ?w) (jw_users ?w) m" if "m \<in> set (jw_members ?w)" for m
  proof -
    have m: "m \<in> set (jw_members w)" and
      gone: "\<And>t. t \<in> set (jw_teams w) \<Longrightarrow> team_key t = (mb_event_id m, mb_team_id m) \<Longrightarrow> \<not> (tm_event_id t = e \<and> tm_id t \<in> set ids)"
      using that by (auto simp: drop_teams_def drop_runtimes_def Let_def list_ex_iff team_key_def)
    have "member_backed (jw_teams w) (jw_users w) m" using assms m by (simp add: roster_ok_def)
    then show ?thesis using gone
      by (auto simp: member_backed_def drop_teams_def drop_runtimes_def Let_def image_iff)
  qed
  then show ?thesis using assms
    by (auto simp: drop_teams_def drop_runtimes_def Let_def roster_ok_def distinct_map_filter)
qed

text \<open>Steps that leave the keys of the roster alone.\<close>

lemma pay_keeps_keys [simp]:
  "map enrolment_key (jw_users (pay_user e u p w)) = map enrolment_key (jw_users w)"
  "map team_key (jw_teams (pay_team t p w)) = map team_key (jw_teams w)"
  by (simp_all add: pay_user_def pay_team_def map_update_where enrolment_key_def team_key_def)

lemma scored_step_keeps_keys:
  assumes "scored_step d m w e c u t w'"
  shows "map enrolment_key (jw_users w') = map enrolment_key (jw_users w)"
    "map team_key (jw_teams w') = map team_key (jw_teams w)" "jw_members w' = jw_members w"
    "jw_next_id w' = Suc (jw_next_id w)"
  using assms pay_keeps_keys
  by (auto elim!: scored_stepE simp: add_solve_def pay_user_def pay_team_def)

lemma roster_ok_insert_rows: "roster_ok w \<Longrightarrow> roster_ok (snd (insert_instance_rows r c w))"
  by (auto simp: insert_instance_rows_def run_simps intro: roster_ok_cong)

interpretation roster: jeop_invariant roster_ok env for env
proof unfold_locales
  show "roster_ok w \<Longrightarrow> roster_ok w'" if "scored_step d m w e c u t w'" for w w' d m e c u t
    by (rule roster_ok_cong) (simp_all add: scored_step_keeps_keys[OF that])
qed (auto intro: roster_ok_insert_enrolment roster_ok_insert_team roster_ok_insert_member roster_ok_delete_member
    roster_ok_drop_enrolments roster_ok_drop_teams roster_ok_insert_rows roster_ok_cong
    simp: drop_runtimes_def transition_runtime_state_def run_simps add_solve_def map_update_where enrolment_key_def
      team_key_def)

section \<open>Solves\<close>

datatype solver = ByUser uuid | ByTeam uuid

definition solver_of :: "uuid \<Rightarrow> uuid option \<Rightarrow> solver" where
  "solver_of u t = (case t of None \<Rightarrow> ByUser u | Some i \<Rightarrow> ByTeam i)"

definition solve_key :: "jeop_solve \<Rightarrow> uuid \<times> uuid \<times> solver" where
  "solve_key s = (sv_event_id s, sv_challenge_id s, solver_of (sv_user_id s) (sv_team_id s))"

definition solve_backed :: "jeop_event list \<Rightarrow> jeop_team list \<Rightarrow> jeop_solve \<Rightarrow> bool" where
  "solve_backed events teams s \<longleftrightarrow> ownership_ok events (sv_event_id s) (sv_team_id s) \<and>
     (\<forall>i \<in> set_option (sv_team_id s). (sv_event_id s, i) \<in> team_key ` set teams)"

definition solves_ok :: "jeop_world \<Rightarrow> bool" where
  "solves_ok w \<longleftrightarrow> distinct (map solve_key (jw_solves w)) \<and>
     (\<forall>s \<in> set (jw_solves w). solve_backed (jw_events w) (jw_teams w) s)"

lemma solve_clash_key:
  "solve_clash e c u t s \<longleftrightarrow> solve_key s = (e, c, solver_of u t)"
  by (auto simp: solve_clash_def solve_of_def solve_key_def solver_of_def split: option.splits)

lemma solve_allowed_key:
  "solve_allowed w e c u t \<Longrightarrow> (e, c, solver_of u t) \<notin> solve_key ` set (jw_solves w)"
  by (auto simp: solve_allowed_def list_ex_iff solve_clash_key)

lemma solve_allowed_team: "solve_allowed w e c u (Some i) \<Longrightarrow> (e, i) \<in> team_key ` set (jw_teams w)"
  by (force simp: solve_allowed_def solve_references_def list_ex_iff team_key_def)

lemma solves_ok_cong:
  assumes "solves_ok w" "jw_solves w' = jw_solves w" "jw_events w' = jw_events w"
    "team_key ` set (jw_teams w) \<subseteq> team_key ` set (jw_teams w')"
  shows "solves_ok w'"
  using assms unfolding solves_ok_def solve_backed_def by fastforce

lemma solves_ok_add_solve:
  assumes "solves_ok w" "solve_allowed w e c u t"
  shows "solves_ok (add_solve e c u t p w)"
proof -
  have "(e, c, solver_of u t) \<notin> solve_key ` set (jw_solves w)" by (rule solve_allowed_key[OF assms(2)])
  moreover have "ownership_ok (jw_events w) e t" using assms(2) by (simp add: solve_allowed_def)
  moreover have "\<forall>i \<in> set_option t. (e, i) \<in> team_key ` set (jw_teams w)"
    using solve_allowed_team assms(2) by auto
  ultimately show ?thesis
    using assms(1) by (simp add: solves_ok_def add_solve_def solve_backed_def solve_key_def)
qed

lemma pay_keeps_solves [simp]:
  "solves_ok (pay_user e u p w) = solves_ok w" "solves_ok (pay_team t p w) = solves_ok w"
proof -
  have "team_key ` set (jw_teams (pay_team t p w)) = team_key ` set (jw_teams w)"
    by (metis list.set_map pay_keeps_keys(2))
  then show "solves_ok (pay_team t p w) = solves_ok w"
    by (simp add: solves_ok_def solve_backed_def) (simp add: pay_team_def)
qed (simp add: solves_ok_def pay_user_def)

lemma solves_ok_scored: "scored_step d m w e c u t w' \<Longrightarrow> solves_ok w \<Longrightarrow> solves_ok w'"
  by (erule scored_stepE) (simp_all add: solves_ok_add_solve)

lemma solves_ok_drop_teams:
  assumes "solves_ok w"
  shows "solves_ok (drop_teams e ids w)"
proof -
  let ?w = "drop_teams e ids w"
  have "solve_backed (jw_events ?w) (jw_teams ?w) s" if "s \<in> set (jw_solves ?w)" for s
  proof -
    have s: "s \<in> set (jw_solves w)" and
      gone: "\<And>t. t \<in> set (jw_teams w) \<Longrightarrow> sv_team_id s = Some (tm_id t) \<Longrightarrow> sv_event_id s = tm_event_id t \<Longrightarrow>
        \<not> (tm_event_id t = e \<and> tm_id t \<in> set ids)"
      using that by (auto simp: drop_teams_def drop_runtimes_def Let_def list_ex_iff)
    have "solve_backed (jw_events w) (jw_teams w) s" using assms s by (simp add: solves_ok_def)
    then show ?thesis using gone
      by (auto simp: solve_backed_def drop_teams_def drop_runtimes_def Let_def image_iff team_key_def) blast
  qed
  then show ?thesis using assms
    by (auto simp: drop_teams_def drop_runtimes_def Let_def solves_ok_def distinct_map_filter)
qed

lemma solves_ok_steps:
  "solves_ok w \<Longrightarrow> solves_ok (snd (insert_instance_rows r c w))"
  "solves_ok w \<Longrightarrow> solves_ok (snd (insert_enrolment e u w))"
  "solves_ok w \<Longrightarrow> solves_ok (snd (insert_team e n w))"
  "solves_ok w \<Longrightarrow> solves_ok (snd (insert_member e t u role w))"
  by (auto simp: insert_instance_rows_def insert_enrolment_def insert_team_def insert_member_run j_new_uuid_def run_simps
      intro: solves_ok_cong)

lemma solves_ok_ban:
  "solves_ok w \<Longrightarrow> solves_ok (w\<lparr>jw_teams := update_where q (\<lambda>t. t\<lparr>tm_banned := b\<rparr>) (jw_teams w)\<rparr>)"
proof (rule solves_ok_cong)
  have "map team_key (update_where q (\<lambda>t. t\<lparr>tm_banned := b\<rparr>) (jw_teams w)) = map team_key (jw_teams w)"
    by (simp add: map_update_where team_key_def)
  then show "team_key ` set (jw_teams w) \<subseteq>
      team_key ` set (jw_teams (w\<lparr>jw_teams := update_where q (\<lambda>t. t\<lparr>tm_banned := b\<rparr>) (jw_teams w)\<rparr>))"
    by (metis jeop_world.select_convs(8) jeop_world.surjective jeop_world.update_convs(8) list.set_map order_refl)
qed simp_all

interpretation solves: jeop_invariant solves_ok env for env
  by unfold_locales
     (auto intro: solves_ok_scored solves_ok_drop_teams solves_ok_steps solves_ok_ban solves_ok_add_solve
       intro: solves_ok_cong simp: drop_runtimes_def transition_runtime_state_def run_simps delete_member_def
       drop_enrolments_def Let_def)

section \<open>Prices\<close>

definition prices_ok :: "jeop_world \<Rightarrow> bool" where
  "prices_ok w \<longleftrightarrow> (\<forall>c \<in> set (jw_event_challenges w). points_allowed (jc_points c))"

lemma prices_ok_cong: "prices_ok w \<Longrightarrow> jw_event_challenges w' = jw_event_challenges w \<Longrightarrow> prices_ok w'"
  by (simp add: prices_ok_def)

lemma scored_step_challenges: "scored_step d m w e c u t w' \<Longrightarrow> jw_event_challenges w' = jw_event_challenges w"
  by (erule scored_stepE) (simp_all add: add_solve_def pay_user_def pay_team_def)

lemma prices_ok_changed:
  "prices_ok w \<Longrightarrow>
   (\<And>c. c \<in> set cs \<Longrightarrow> points_allowed (jc_points c) \<or> jc_points c \<in> jc_points ` set (jw_event_challenges w)) \<Longrightarrow>
   prices_ok (w\<lparr>jw_event_challenges := cs\<rparr>)"
  by (force simp: prices_ok_def)

interpretation prices: jeop_invariant prices_ok env for env
proof unfold_locales
  show "prices_ok (w\<lparr>jw_event_challenges := cs\<rparr>)" if "prices_ok w"
    "\<And>c. c \<in> set cs \<Longrightarrow> points_allowed (jc_points c) \<or> jc_points c \<in> jc_points ` set (jw_event_challenges w)" for w cs
    by (rule prices_ok_changed[OF that])
qed (auto intro: prices_ok_cong scored_step_challenges
       simp: drop_runtimes_def transition_runtime_state_def run_simps delete_member_def drop_enrolments_def Let_def
       insert_instance_rows_def insert_enrolment_def insert_team_def insert_member_run j_new_uuid_def drop_teams_def
       add_solve_def)

section \<open>Running instances\<close>

definition limits_ok :: "jeop_world \<Rightarrow> bool" where
  "limits_ok w \<longleftrightarrow> distinct (map er_id (jw_events w)) \<and>
     (\<forall>c \<in> set (jw_instances w). ci_id c \<in> ei_id ` set (jw_runtimes w)) \<and>
     (\<forall>e \<in> set (jw_events w). er_participant_mode e = PmIndividual \<longrightarrow>
        (\<forall>c \<in> set (jw_instances w).
           length (running_instances (er_id e) SubjectUser (ci_user_id c) None w) \<le> solo_limit e))"

lemma running_instances_none:
  "u \<notin> ci_user_id ` set (jw_instances w) \<Longrightarrow> running_instances e SubjectUser u t w = []"
  by (auto simp: running_instances_def filter_empty_conv owned_by_def)

lemma limits_ok_bound:
  assumes "limits_ok w" "e \<in> set (jw_events w)" "er_participant_mode e = PmIndividual"
  shows "length (running_instances (er_id e) SubjectUser u None w) \<le> solo_limit e"
  by (cases "u \<in> ci_user_id ` set (jw_instances w)")
     (use assms in \<open>auto simp: limits_ok_def running_instances_none\<close>)

text \<open>Fewer rows, or rows that stopped running, keep the limits.\<close>

lemma limits_ok_fewer:
  assumes "limits_ok w" "jw_events w' = jw_events w"
    "\<And>e u. length (running_instances e SubjectUser u None w') \<le> length (running_instances e SubjectUser u None w)"
    "\<And>c. c \<in> set (jw_instances w') \<Longrightarrow> ci_id c \<in> ei_id ` set (jw_runtimes w')"
  shows "limits_ok w'"
  using assms(1,2,4) limits_ok_bound[OF assms(1)] assms(3) unfolding limits_ok_def
  by (metis order_trans)

lemma limits_ok_cong:
  "limits_ok w \<Longrightarrow> jw_events w' = jw_events w \<Longrightarrow> jw_instances w' = jw_instances w \<Longrightarrow>
   jw_runtimes w' = jw_runtimes w \<Longrightarrow> limits_ok w'"
  by (simp add: limits_ok_def running_instances_def is_running_def)

lemma limits_ok_drop_runtimes:
  assumes "limits_ok w"
  shows "limits_ok (drop_runtimes p w)"
proof (rule limits_ok_fewer[OF assms])
  show "ci_id c \<in> ei_id ` set (jw_runtimes (drop_runtimes p w))" if "c \<in> set (jw_instances (drop_runtimes p w))" for c
  proof -
    have "c \<in> set (jw_instances w)" "\<And>r. r \<in> set (jw_runtimes w) \<Longrightarrow> ei_id r = ci_id c \<Longrightarrow> \<not> p r"
      using that by (auto simp: drop_runtimes_def list_ex_iff)
    moreover from this assms obtain r where "r \<in> set (jw_runtimes w)" "ei_id r = ci_id c"
      by (auto simp: limits_ok_def)
    ultimately show ?thesis by (auto simp: drop_runtimes_def image_iff intro!: exI[of _ r])
  qed
qed (simp_all add: drop_runtimes_def[of p w] running_instances_drop[unfolded drop_runtimes_def])

lemma limits_ok_instances:
  assumes "limits_ok w"
  shows "limits_ok (w\<lparr>jw_instances := filter p (jw_instances w)\<rparr>)"
  by (rule limits_ok_fewer[OF assms])
     (use assms in \<open>auto simp: running_instances_def is_running_def limits_ok_def intro: length_filter_less_eq\<close>)

lemma limits_ok_drop_teams: "limits_ok w \<Longrightarrow> limits_ok (drop_teams e ids w)"
  unfolding drop_teams_def Let_def
  by (rule limits_ok_drop_runtimes, rule limits_ok_cong[OF limits_ok_instances]) simp_all

lemma limits_ok_transition:
  assumes "limits_ok w" "nxt \<noteq> ''running''"
  shows "limits_ok (snd (transition_runtime_state i ex nxt w))"
proof (rule limits_ok_fewer[OF assms(1)])
  let ?w = "snd (transition_runtime_state i ex nxt w)"
  have running: "is_running ?w c \<Longrightarrow> is_running w c" for c
    using assms(2) by (auto simp: is_running_def transition_runtime_state_def run_simps list_ex_iff set_update_where
        split: if_splits)
  show "length (running_instances e SubjectUser u None ?w) \<le> length (running_instances e SubjectUser u None w)" for e u
    unfolding running_instances_def using running
    by (auto simp: transition_runtime_state_def run_simps intro!: length_filter_less_eq)
  have "map ei_id (jw_runtimes ?w) = map ei_id (jw_runtimes w)"
    by (simp add: transition_runtime_state_def run_simps map_update_where)
  then have "ei_id ` set (jw_runtimes ?w) = ei_id ` set (jw_runtimes w)" by (metis list.set_map)
  moreover have "jw_instances ?w = jw_instances w" by (simp add: transition_runtime_state_def run_simps)
  ultimately show "ci_id c \<in> ei_id ` set (jw_runtimes ?w)" if "c \<in> set (jw_instances ?w)" for c
    using that assms(1) by (simp add: limits_ok_def)
qed (simp add: transition_runtime_state_def run_simps)

lemma insert_instance_rows_run:
  "insert_instance_rows r c w =
     (if list_ex (\<lambda>q. ei_id q = ei_id r \<or> ei_container_name q = ei_container_name r) (jw_runtimes w) then (Inl JUnique, w)
      else if ownership_ok (jw_events w) (ci_event_id c) (ci_team_id c) \<and>
        solve_references w (ci_event_id c) (ci_challenge_id c) (ci_user_id c) (ci_team_id c)
      then (Inr (), w\<lparr>jw_runtimes := jw_runtimes w @ [r], jw_instances := jw_instances w @ [c]\<rparr>)
      else (Inl JDb, w))"
  by (simp add: insert_instance_rows_def run_simps)

lemma limits_ok_insert_rows:
  assumes ok: "limits_ok w" and room: "has_room w e (ci_user_id c) (ci_team_id c)" and rows: "launch_rows e r c"
  shows "limits_ok (snd (insert_instance_rows r c w))"
proof -
  let ?w = "w\<lparr>jw_runtimes := jw_runtimes w @ [r], jw_instances := jw_instances w @ [c]\<rparr>"
  have "limits_ok ?w" if "\<not> list_ex (\<lambda>q. ei_id q = ei_id r \<or> ei_container_name q = ei_container_name r) (jw_runtimes w)"
  proof -
    have others: "is_running ?w c' = is_running w c'" if "c' \<in> set (jw_instances w)" for c'
      using that ok rows \<open>\<not> list_ex _ _\<close> by (fastforce simp: limits_ok_def is_running_def list_ex_iff launch_rows_def)
    have "is_running ?w c" using rows by (simp add: is_running_def launch_rows_def)
    moreover have "filter (\<lambda>c'. ci_event_id c' = e' \<and> is_running ?w c' \<and> owned_by SubjectUser u None c') (jw_instances w) =
        running_instances e' SubjectUser u None w" for e' u
      unfolding running_instances_def by (rule filter_cong) (auto simp: others)
    ultimately have runs: "running_instances e' SubjectUser u None ?w = running_instances e' SubjectUser u None w @
        (if e' = er_id e \<and> u = ci_user_id c then [c] else [])" for e' u
      using rows by (simp add: running_instances_def launch_rows_def owned_by_def)
    have "length (running_instances (er_id e') SubjectUser u None ?w) \<le> solo_limit e'"
      if "e' \<in> set (jw_events w)" "er_participant_mode e' = PmIndividual" for e' u
    proof (cases "er_id e' = er_id e \<and> u = ci_user_id c")
      case True
      then have "e' = e" using ok room that(1) by (auto simp: limits_ok_def has_room_def distinct_map dest: inj_onD)
      then show ?thesis using room that True by (simp add: runs has_room_def)
    next
      case False
      then show ?thesis using limits_ok_bound[OF ok that] by (auto simp: runs)
    qed
    moreover have "\<forall>c' \<in> set (jw_instances ?w). ci_id c' \<in> ei_id ` set (jw_runtimes ?w)"
      using ok rows by (auto simp: limits_ok_def launch_rows_def)
    ultimately show ?thesis using ok by (simp add: limits_ok_def)
  qed
  then show ?thesis using ok by (simp add: insert_instance_rows_run)
qed

lemma scored_step_instances:
  "scored_step d m w e c u t w' \<Longrightarrow> jw_events w' = jw_events w \<and> jw_instances w' = jw_instances w \<and> jw_runtimes w' = jw_runtimes w"
  by (erule scored_stepE) (simp_all add: add_solve_def pay_user_def pay_team_def)

interpretation limits: jeop_invariant limits_ok env for env
proof unfold_locales
  show "limits_ok w'" if "limits_ok w" "scored_step d m w e c u t w'" for w w' d m e c u t
    using limits_ok_cong[OF that(1)] scored_step_instances[OF that(2)] by blast
qed (auto intro: limits_ok_drop_runtimes limits_ok_drop_teams limits_ok_transition limits_ok_insert_rows limits_ok_cong
    simp: delete_member_def drop_enrolments_def Let_def insert_enrolment_def insert_team_def insert_member_run
      j_new_uuid_def add_solve_def run_simps)

end
