(* ===== verification/Jeopardy_Ledger.thy ===== *)
theory Jeopardy_Ledger
  imports Jeopardy_Tables
begin

text \<open>
  What the Jeopardy mode promises about points, as an abstract machine: accounts that are opened and
  closed, and a ledger of solves. A solve is entered at most once per challenge and subject and pays
  the dynamic score of that moment into the subject's account. Every request of the detailed machine
  is a sequence of such steps, so what holds of the ledger holds of the tables.
\<close>

section \<open>The specification\<close>

record ledger_entry =
  le_event :: uuid
  le_challenge :: uuid
  le_solver :: solver
  le_points :: real

record ledger =
  lg_accounts :: "uuid \<times> solver \<Rightarrow> real option"
  lg_entries :: "ledger_entry list"

definition entry_key :: "ledger_entry \<Rightarrow> uuid \<times> uuid \<times> solver" where
  "entry_key x = (le_event x, le_challenge x, le_solver x)"

definition entries_for :: "uuid \<Rightarrow> uuid \<Rightarrow> ledger_entry list \<Rightarrow> nat" where
  "entries_for e c xs = length (filter (\<lambda>x. le_event x = e \<and> le_challenge x = c) xs)"

definition account_of :: "ledger_entry \<Rightarrow> uuid \<times> solver" where
  "account_of x = (le_event x, le_solver x)"

text \<open>The sum of an account's entries, added in the order they were made.\<close>

definition account_total :: "uuid \<times> solver \<Rightarrow> ledger_entry list \<Rightarrow> real" where
  "account_total k xs = foldl (\<lambda>b x. b + le_points x) 0 (filter (\<lambda>x. account_of x = k) xs)"

inductive ledger_step :: "jeop_env \<Rightarrow> ledger \<Rightarrow> ledger \<Rightarrow> bool" for env where
  open_account: "lg_accounts l k = None \<Longrightarrow>
    ledger_step env l (l\<lparr>lg_accounts := (lg_accounts l)(k \<mapsto> 0)\<rparr>)"
| close_user: "ledger_step env l (l\<lparr>lg_accounts := (lg_accounts l)((e, ByUser u) := None)\<rparr>)"
| close_team: "ledger_step env l
    (l\<lparr>lg_accounts := (lg_accounts l)((e, ByTeam t) := None),
       lg_entries := filter (\<lambda>x. account_of x \<noteq> (e, ByTeam t)) (lg_entries l)\<rparr>)"
| score: "setting_f64 env ''EVENT_SCORE_DECAY'' = Some d \<Longrightarrow>
    setting_f64 env ''EVENT_SCORE_MIN_PERCENT'' = Some m \<Longrightarrow> points_allowed base \<Longrightarrow>
    (e, c, s) \<notin> entry_key ` set (lg_entries l) \<Longrightarrow> lg_accounts l (e, s) = Some b \<Longrightarrow>
    p = dynamic_score base (entries_for e c (lg_entries l)) d m \<Longrightarrow>
    ledger_step env l
      (l\<lparr>lg_accounts := (lg_accounts l)((e, s) \<mapsto> b + p),
         lg_entries := lg_entries l @ [\<lparr>le_event = e, le_challenge = c, le_solver = s, le_points = p\<rparr>]\<rparr>)"
| practise: "(e, c, ByUser u) \<notin> entry_key ` set (lg_entries l) \<Longrightarrow>
    ledger_step env l
      (l\<lparr>lg_entries := lg_entries l @ [\<lparr>le_event = e, le_challenge = c, le_solver = ByUser u, le_points = 0\<rparr>]\<rparr>)"

definition ledger_ok :: "ledger \<Rightarrow> bool" where
  "ledger_ok l \<longleftrightarrow> distinct (map entry_key (lg_entries l)) \<and>
     (\<forall>x e t. x \<in> set (lg_entries l) \<longrightarrow> account_of x = (e, ByTeam t) \<longrightarrow> lg_accounts l (e, ByTeam t) \<noteq> None) \<and>
     (\<forall>e t b. lg_accounts l (e, ByTeam t) = Some b \<longrightarrow> b = account_total (e, ByTeam t) (lg_entries l)) \<and>
     (\<forall>e u b. lg_accounts l (e, ByUser u) = Some b \<longrightarrow> (\<exists>n. b = account_total (e, ByUser u) (drop n (lg_entries l))))"

lemma account_total_snoc:
  "account_total k (xs @ [x]) = account_total k xs + (if account_of x = k then le_points x else 0)"
  by (simp add: account_total_def)

lemma account_total_none: "(\<And>x. x \<in> set xs \<Longrightarrow> account_of x \<noteq> k) \<Longrightarrow> account_total k xs = 0"
  by (simp add: account_total_def filter_empty_conv)

lemma account_total_other:
  "k \<noteq> k' \<Longrightarrow> account_total k (filter (\<lambda>x. account_of x \<noteq> k') xs) = account_total k xs"
  by (auto simp: account_total_def intro!: arg_cong[of _ _ "foldl _ _"] filter_cong)

text \<open>What is left of a suffix is a suffix of what is left.\<close>

lemma filter_drop: "\<exists>n'. filter p (drop n xs) = drop n' (filter p xs)"
proof (intro exI)
  have "filter p xs = filter p (take n xs) @ filter p (drop n xs)"
    by (metis append_take_drop_id filter_append)
  then show "filter p (drop n xs) = drop (length (filter p (take n xs))) (filter p xs)" by simp
qed

lemma drop_snoc: "\<exists>n'. drop n xs @ [x] = drop n' (xs @ [x])"
  by (rule exI[of _ "min n (length xs)"]) (simp add: min_def)

text \<open>The three ways a step changes the sums.\<close>

lemma ledger_ok_open:
  assumes "ledger_ok l" "lg_accounts l k = None"
  shows "ledger_ok (l\<lparr>lg_accounts := (lg_accounts l)(k \<mapsto> 0)\<rparr>)"
proof -
  have "account_total (e, ByTeam t) (lg_entries l) = 0" if "k = (e, ByTeam t)" for e t
    using assms that by (intro account_total_none) (auto simp: ledger_ok_def)
  moreover have "\<exists>n. 0 = account_total (e, ByUser u) (drop n (lg_entries l))" for e u
    by (rule exI[of _ "length (lg_entries l)"]) (simp add: account_total_def)
  ultimately show ?thesis using assms by (auto simp: ledger_ok_def)
qed

lemma ledger_ok_close_team:
  assumes "ledger_ok l"
  shows "ledger_ok (l\<lparr>lg_accounts := (lg_accounts l)((e, ByTeam t) := None),
       lg_entries := filter (\<lambda>x. account_of x \<noteq> (e, ByTeam t)) (lg_entries l)\<rparr>)"
proof -
  have "\<exists>n'. account_total (e', ByUser u) (drop n (lg_entries l)) =
      account_total (e', ByUser u) (drop n' (filter (\<lambda>x. account_of x \<noteq> (e, ByTeam t)) (lg_entries l)))" for e' u n
    using filter_drop[of "\<lambda>x. account_of x \<noteq> (e, ByTeam t)" n "lg_entries l"]
    by (metis account_total_other prod.inject solver.distinct(1))
  then show ?thesis
    using assms unfolding ledger_ok_def
    by (auto simp: account_total_other distinct_map_filter) metis
qed

lemma suffix_total_snoc:
  assumes "\<exists>n. b = account_total k (drop n xs)"
  shows "\<exists>n. b + (if account_of x = k then le_points x else 0) = account_total k (drop n (xs @ [x]))"
proof -
  obtain n where "b = account_total k (drop n xs)" using assms by blast
  then have "b + (if account_of x = k then le_points x else 0) = account_total k (drop n xs @ [x])"
    by (simp add: account_total_snoc)
  then show ?thesis using drop_snoc[of n xs x] by metis
qed

text \<open>A new entry and the account it belongs to, if that is open.\<close>

lemma ledger_ok_enter:
  assumes ok: "ledger_ok l" and key: "entry_key x \<notin> entry_key ` set (lg_entries l)"
    and other: "\<And>k. k \<noteq> account_of x \<Longrightarrow> a k = lg_accounts l k"
    and own: "a (account_of x) = map_option (\<lambda>b. b + le_points x) (lg_accounts l (account_of x))"
    and team: "\<And>e t. account_of x = (e, ByTeam t) \<Longrightarrow> lg_accounts l (account_of x) \<noteq> None"
  shows "ledger_ok (l\<lparr>lg_accounts := a, lg_entries := lg_entries l @ [x]\<rparr>)"
proof -
  have a: "a k = map_option (\<lambda>b. b + (if account_of x = k then le_points x else 0)) (lg_accounts l k)" for k
    using other[of k] own by (cases "account_of x = k") (auto simp: option.map_ident)
  have none: "a k = None \<longleftrightarrow> lg_accounts l k = None" for k by (simp add: a)
  have team_sum: "b' = account_total (e, ByTeam t) (lg_entries l @ [x])" if "a (e, ByTeam t) = Some b'" for e t b'
    using ok that by (auto simp: a ledger_ok_def account_total_snoc)
  have user_sum: "\<exists>n. b' = account_total (e, ByUser u) (drop n (lg_entries l @ [x]))" if acc: "a (e, ByUser u) = Some b'" for e u b'
  proof -
    obtain b where "lg_accounts l (e, ByUser u) = Some b"
      and b': "b' = b + (if account_of x = (e, ByUser u) then le_points x else 0)"
      using acc unfolding a map_option_eq_Some by blast
    then have "\<exists>n. b = account_total (e, ByUser u) (drop n (lg_entries l))" using ok by (simp add: ledger_ok_def)
    then show ?thesis unfolding b' by (rule suffix_total_snoc)
  qed
  show ?thesis
    using ok key team unfolding ledger_ok_def
    by (auto simp: none team_sum simp del: drop_append intro: user_sum)
qed

lemma ledger_ok_step: "ledger_step env l l' \<Longrightarrow> ledger_ok l \<Longrightarrow> ledger_ok l'"
proof (induction rule: ledger_step.induct)
  case (score d m base e c s l b p)
  show ?case
    by (rule ledger_ok_enter) (use score in \<open>auto simp: entry_key_def account_of_def\<close>)
next
  case (practise e c u l)
  have "ledger_ok (l\<lparr>lg_accounts := lg_accounts l,
      lg_entries := lg_entries l @ [\<lparr>le_event = e, le_challenge = c, le_solver = ByUser u, le_points = 0\<rparr>]\<rparr>)"
    by (rule ledger_ok_enter) (use practise in \<open>auto simp: entry_key_def account_of_def option.map_ident\<close>)
  then show ?case by simp
next
  case (close_user l e u)
  then show ?case by (auto simp: ledger_ok_def)
qed (intro ledger_ok_open ledger_ok_close_team; assumption)+

lemma ledger_ok_steps: "(ledger_step env)\<^sup>*\<^sup>* l l' \<Longrightarrow> ledger_ok l \<Longrightarrow> ledger_ok l'"
  by (induction rule: rtranclp_induct) (auto intro: ledger_ok_step)

section \<open>What the tables say of the ledger\<close>

definition entry_of :: "jeop_solve \<Rightarrow> ledger_entry" where
  "entry_of s = \<lparr>le_event = sv_event_id s, le_challenge = sv_challenge_id s,
     le_solver = solver_of (sv_user_id s) (sv_team_id s), le_points = sv_obtained_points s\<rparr>"

definition account_in :: "jeop_world \<Rightarrow> uuid \<times> solver \<Rightarrow> real option" where
  "account_in w k = (case k of
       (e, ByUser u) \<Rightarrow> map_option eu_points (List.find (\<lambda>r. enrolment_key r = (e, u)) (jw_users w))
     | (e, ByTeam t) \<Rightarrow> map_option tm_points (List.find (\<lambda>r. team_key r = (e, t)) (jw_teams w)))"

definition ledger_of :: "jeop_world \<Rightarrow> ledger" where
  "ledger_of w = \<lparr>lg_accounts = account_in w, lg_entries = map entry_of (jw_solves w)\<rparr>"

definition follows :: "jeop_env \<Rightarrow> ledger \<Rightarrow> jeop_world \<Rightarrow> bool" where
  "follows env l w \<longleftrightarrow> roster_ok w \<and> solves_ok w \<and> prices_ok w \<and> (ledger_step env)\<^sup>*\<^sup>* l (ledger_of w)"

lemma entry_key_of [simp]: "entry_key (entry_of s) = solve_key s"
  by (simp add: entry_key_def entry_of_def solve_key_def)

lemma entries_for_of [simp]: "entries_for e c (map entry_of ss) = length (filter (solve_of e c) ss)"
  by (simp add: entries_for_def filter_map o_def solve_of_def[abs_def] entry_of_def)

lemma follows_keep:
  "follows env l w \<Longrightarrow> (roster_ok w \<Longrightarrow> roster_ok w') \<Longrightarrow> (solves_ok w \<Longrightarrow> solves_ok w') \<Longrightarrow>
   (prices_ok w \<Longrightarrow> prices_ok w') \<Longrightarrow>
   (roster_ok w \<Longrightarrow> solves_ok w \<Longrightarrow> prices_ok w \<Longrightarrow> (ledger_step env)\<^sup>*\<^sup>* (ledger_of w) (ledger_of w')) \<Longrightarrow>
   follows env l w'"
  by (auto simp: follows_def)

lemma ledger_of_same:
  "jw_users w' = jw_users w \<Longrightarrow> jw_teams w' = jw_teams w \<Longrightarrow> jw_solves w' = jw_solves w \<Longrightarrow> ledger_of w' = ledger_of w"
  by (simp add: ledger_of_def account_in_def fun_eq_iff)

text \<open>Accounts opened.\<close>

lemma find_key_snoc:
  "k r \<notin> k ` set xs \<Longrightarrow>
   List.find (\<lambda>x. k x = y) (xs @ [r]) = (if y = k r then Some r else List.find (\<lambda>x. k x = y) xs)"
  by (induction xs) auto

lemma find_key_none: "y \<notin> k ` set xs \<Longrightarrow> List.find (\<lambda>x. k x = y) xs = None"
  by (auto simp: find_None_iff)

lemma ledger_open_user:
  assumes "enrolment_key r \<notin> enrolment_key ` set (jw_users w)" "eu_points r = 0"
  shows "ledger_step env (ledger_of w) (ledger_of (w\<lparr>jw_users := jw_users w @ [r]\<rparr>))"
proof -
  let ?k = "(eu_event_id r, ByUser (eu_user_id r))"
  have "account_in (w\<lparr>jw_users := jw_users w @ [r]\<rparr>) = (account_in w)(?k \<mapsto> 0)"
    using assms find_key_snoc[OF assms(1)]
    by (auto simp: account_in_def fun_eq_iff enrolment_key_def split: solver.splits)
  moreover have "account_in w ?k = None"
    using find_key_none[OF assms(1)] by (simp add: account_in_def enrolment_key_def)
  ultimately show ?thesis using open_account[of "ledger_of w" ?k env] by (simp add: ledger_of_def)
qed

lemma ledger_open_team:
  assumes "team_key r \<notin> team_key ` set (jw_teams w)" "tm_points r = 0"
  shows "ledger_step env (ledger_of w) (ledger_of (w\<lparr>jw_next_id := n, jw_teams := jw_teams w @ [r]\<rparr>))"
proof -
  let ?k = "(tm_event_id r, ByTeam (tm_id r))"
  have "account_in (w\<lparr>jw_next_id := n, jw_teams := jw_teams w @ [r]\<rparr>) = (account_in w)(?k \<mapsto> 0)"
    using assms find_key_snoc[OF assms(1)]
    by (auto simp: account_in_def fun_eq_iff team_key_def split: solver.splits)
  moreover have "account_in w ?k = None"
    using find_key_none[OF assms(1)] by (simp add: account_in_def team_key_def)
  ultimately show ?thesis using open_account[of "ledger_of w" ?k env] by (simp add: ledger_of_def)
qed

text \<open>Accounts closed, one after the other.\<close>

lemma ledger_close_users:
  "(ledger_step env)\<^sup>*\<^sup>* l
     (l\<lparr>lg_accounts := (\<lambda>k. if k \<in> (\<lambda>u. (e, ByUser u)) ` set us then None else lg_accounts l k)\<rparr>)"
proof (induction us)
  case Nil then show ?case by simp
next
  case (Cons u us)
  let ?l = "l\<lparr>lg_accounts := (\<lambda>k. if k \<in> (\<lambda>u. (e, ByUser u)) ` set us then None else lg_accounts l k)\<rparr>"
  have eq: "l\<lparr>lg_accounts := (\<lambda>k. if k \<in> (\<lambda>u. (e, ByUser u)) ` set (u # us) then None else lg_accounts l k)\<rparr> =
      ?l\<lparr>lg_accounts := (lg_accounts ?l)((e, ByUser u) := None)\<rparr>"
    by (auto simp: fun_eq_iff intro!: arg_cong[of _ _ "\<lambda>a. lg_accounts_update (\<lambda>_. a) l"])
  show ?case unfolding eq by (rule rtranclp.rtrancl_into_rtrancl[OF Cons.IH close_user])
qed

lemma ledger_close_teams:
  "(ledger_step env)\<^sup>*\<^sup>* l
     (l\<lparr>lg_accounts := (\<lambda>k. if k \<in> (\<lambda>t. (e, ByTeam t)) ` set ts then None else lg_accounts l k),
        lg_entries := filter (\<lambda>x. account_of x \<notin> (\<lambda>t. (e, ByTeam t)) ` set ts) (lg_entries l)\<rparr>)"
proof (induction ts)
  case Nil then show ?case by simp
next
  case (Cons t ts)
  let ?l = "l\<lparr>lg_accounts := (\<lambda>k. if k \<in> (\<lambda>t. (e, ByTeam t)) ` set ts then None else lg_accounts l k),
        lg_entries := filter (\<lambda>x. account_of x \<notin> (\<lambda>t. (e, ByTeam t)) ` set ts) (lg_entries l)\<rparr>"
  have eq: "l\<lparr>lg_accounts := (\<lambda>k. if k \<in> (\<lambda>t. (e, ByTeam t)) ` set (t # ts) then None else lg_accounts l k),
        lg_entries := filter (\<lambda>x. account_of x \<notin> (\<lambda>t. (e, ByTeam t)) ` set (t # ts)) (lg_entries l)\<rparr> =
      ?l\<lparr>lg_accounts := (lg_accounts ?l)((e, ByTeam t) := None),
         lg_entries := filter (\<lambda>x. account_of x \<noteq> (e, ByTeam t)) (lg_entries ?l)\<rparr>"
    by (auto simp: fun_eq_iff conj_commute intro!: ledger.equality)
  show ?case unfolding eq by (rule rtranclp.rtrancl_into_rtrancl[OF Cons.IH close_team])
qed

lemma find_key_filter:
  "(\<And>x. p x \<longleftrightarrow> k x \<notin> K) \<Longrightarrow>
   List.find (\<lambda>x. k x = y) (filter p xs) = (if y \<in> K then None else List.find (\<lambda>x. k x = y) xs)"
  by (induction xs) auto

lemma ledger_drop_enrolments: "(ledger_step env)\<^sup>*\<^sup>* (ledger_of w) (ledger_of (drop_enrolments e ids w))"
proof -
  let ?K = "(\<lambda>u. (e, u)) ` set ids"
  have users: "jw_users (drop_enrolments e ids w) = filter (\<lambda>u. enrolment_key u \<notin> ?K) (jw_users w)"
    by (auto simp: drop_enrolments_def Let_def enrolment_key_def intro: filter_cong)
  have "List.find (\<lambda>r. enrolment_key r = y) (jw_users (drop_enrolments e ids w)) =
      (if y \<in> ?K then None else List.find (\<lambda>r. enrolment_key r = y) (jw_users w))" for y
    unfolding users by (rule find_key_filter) simp
  then have "account_in (drop_enrolments e ids w) =
      (\<lambda>k. if k \<in> (\<lambda>u. (e, ByUser u)) ` set ids then None else account_in w k)"
    by (auto simp: account_in_def fun_eq_iff image_iff drop_enrolments_def Let_def split: solver.splits)
  moreover have "jw_solves (drop_enrolments e ids w) = jw_solves w"
    by (simp add: drop_enrolments_def Let_def)
  ultimately show ?thesis
    using ledger_close_users[of env "ledger_of w" e ids] by (simp add: ledger_of_def cong: if_cong)
qed

lemma ledger_drop_teams:
  assumes "solves_ok w"
  shows "(ledger_step env)\<^sup>*\<^sup>* (ledger_of w) (ledger_of (drop_teams e ids w))"
proof -
  let ?K = "(\<lambda>t. (e, t)) ` set ids"
  have teams: "jw_teams (drop_teams e ids w) = filter (\<lambda>t. team_key t \<notin> ?K) (jw_teams w)"
    by (auto simp: drop_teams_def drop_runtimes_def Let_def team_key_def intro: filter_cong)
  have "List.find (\<lambda>r. team_key r = y) (jw_teams (drop_teams e ids w)) =
      (if y \<in> ?K then None else List.find (\<lambda>r. team_key r = y) (jw_teams w))" for y
    unfolding teams by (rule find_key_filter) simp
  then have "account_in (drop_teams e ids w) =
      (\<lambda>k. if k \<in> (\<lambda>t. (e, ByTeam t)) ` set ids then None else account_in w k)"
    by (auto simp: account_in_def fun_eq_iff image_iff drop_teams_def drop_runtimes_def Let_def split: solver.splits)
  moreover have "map entry_of (jw_solves (drop_teams e ids w)) =
      filter (\<lambda>x. account_of x \<notin> (\<lambda>t. (e, ByTeam t)) ` set ids) (map entry_of (jw_solves w))"
  proof -
    have "(\<exists>t \<in> set_option (sv_team_id s). sv_event_id s = e \<and> t \<in> set ids \<and>
          list_ex (\<lambda>r. tm_id r = t \<and> tm_event_id r = e) (jw_teams w)) \<longleftrightarrow>
        account_of (entry_of s) \<in> (\<lambda>t. (e, ByTeam t)) ` set ids" if "s \<in> set (jw_solves w)" for s
    proof -
      have "\<forall>i \<in> set_option (sv_team_id s). (sv_event_id s, i) \<in> team_key ` set (jw_teams w)"
        using assms that by (simp add: solves_ok_def solve_backed_def)
      then show ?thesis
        by (cases "sv_team_id s") (auto simp: account_of_def entry_of_def solver_of_def list_ex_iff team_key_def)
    qed
    then show ?thesis
      by (auto simp: drop_teams_def drop_runtimes_def Let_def filter_map o_def
          intro!: arg_cong[of _ _ "map entry_of"] filter_cong)
  qed
  ultimately show ?thesis
    using ledger_close_teams[of env "ledger_of w" e ids] by (simp add: ledger_of_def cong: if_cong)
qed

text \<open>Payments: exactly the active row with the key changes.\<close>

lemma find_unique_active:
  assumes "distinct (map k xs)" "length (filter q xs) = 1" "\<And>x. q x \<Longrightarrow> k x = y"
  obtains x where "List.find (\<lambda>r. k r = y) xs = Some x" "q x"
proof -
  obtain x where "filter q xs = [x]" using assms(2) by (auto simp: length_Suc_conv)
  then have "x \<in> set xs" "q x" by (metis filter_eq_ConsD in_set_conv_decomp list.set_intros(1) mem_Collect_eq set_filter Int_iff)+
  then show ?thesis using that find_distinct_key[OF assms(1), of x] assms(3) by blast
qed

lemma account_in_pay_user:
  assumes "roster_ok w" "length (filter (user_active e u) (jw_users w)) = 1"
  obtains b where "account_in w (e, ByUser u) = Some b"
    "account_in (pay_user e u p w) = (account_in w)((e, ByUser u) \<mapsto> b + p)"
proof -
  obtain x where x: "List.find (\<lambda>r. enrolment_key r = (e, u)) (jw_users w) = Some x" "user_active e u x"
    using find_unique_active[of enrolment_key "jw_users w" "user_active e u" "(e, u)"] assms
    by (auto simp: roster_ok_def user_active_def is_enrolled_key)
  have other: "List.find (\<lambda>r. enrolment_key r = y) (update_where (user_active e u) (\<lambda>r. r\<lparr>eu_points := eu_points r + p\<rparr>) (jw_users w)) =
      map_option (\<lambda>r. if user_active e u r then r\<lparr>eu_points := eu_points r + p\<rparr> else r)
        (List.find (\<lambda>r. enrolment_key r = y) (jw_users w))" for y
    by (rule find_update_where) (simp add: enrolment_key_def)
  have "account_in (pay_user e u p w) k = ((account_in w)((e, ByUser u) \<mapsto> eu_points x + p)) k" for k
  proof -
    have "\<not> user_active e u r" if "List.find (\<lambda>r. enrolment_key r = y) (jw_users w) = Some r" "y \<noteq> (e, u)" for r y
      using find_SomeD[OF that(1)] that(2) by (auto simp: user_active_def is_enrolled_key)
    then show ?thesis using x
      by (cases k rule: prod.exhaust; cases "snd k")
         (auto simp: account_in_def pay_user_def other map_option_case split: solver.splits option.splits)
  qed
  then show ?thesis using that[of "eu_points x"] x by (simp add: account_in_def fun_eq_iff)
qed

lemma account_in_pay_team:
  assumes "roster_ok w" "length (filter (team_active i) (jw_teams w)) = 1" "(e, i) \<in> team_key ` set (jw_teams w)"
  obtains b where "account_in w (e, ByTeam i) = Some b"
    "account_in (pay_team i p w) = (account_in w)((e, ByTeam i) \<mapsto> b + p)"
proof -
  have ids: "distinct (map tm_id (jw_teams w))" using assms(1) by (simp add: roster_ok_def)
  obtain x where x: "List.find (\<lambda>r. tm_id r = i) (jw_teams w) = Some x" "team_active i x"
    using find_unique_active[OF ids, of "team_active i" i] assms(2) by (auto simp: team_active_def)
  obtain y where y: "y \<in> set (jw_teams w)" "team_key y = (e, i)" using assms(3) by fastforce
  have "y = x" using x y find_SomeD[OF x(1)] ids by (auto simp: team_key_def distinct_map dest: inj_onD)
  then have found: "List.find (\<lambda>r. team_key r = (e, i)) (jw_teams w) = Some x"
    using y(1) ids find_distinct_key[of team_key "jw_teams w" y] y(2)
    by (auto simp: distinct_map team_key_def inj_on_def)
  have other: "List.find (\<lambda>r. team_key r = k) (update_where (team_active i) (\<lambda>r. r\<lparr>tm_points := tm_points r + p\<rparr>) (jw_teams w)) =
      map_option (\<lambda>r. if team_active i r then r\<lparr>tm_points := tm_points r + p\<rparr> else r)
        (List.find (\<lambda>r. team_key r = k) (jw_teams w))" for k
    by (rule find_update_where) (simp add: team_key_def)
  have "account_in (pay_team i p w) k = ((account_in w)((e, ByTeam i) \<mapsto> tm_points x + p)) k" for k
  proof -
    have "\<not> team_active i r" if "List.find (\<lambda>r. team_key r = k) (jw_teams w) = Some r" "k \<noteq> (e, i)" for r k
    proof
      assume "team_active i r"
      then have "tm_id r = tm_id x" using find_SomeD[OF x(1)] by (simp add: team_active_def)
      then have "r = x" using find_SomeD[OF that(1)] find_SomeD[OF x(1)] ids
        by (auto simp: distinct_map dest: inj_onD)
      then show False using find_SomeD[OF that(1)] that(2) \<open>y = x\<close> y(2) by simp
    qed
    then show ?thesis using found x(2)
      by (cases k rule: prod.exhaust; cases "snd k")
         (auto simp: account_in_def pay_team_def other map_option_case split: solver.splits option.splits)
  qed
  then show ?thesis using that[of "tm_points x"] found by (simp add: account_in_def fun_eq_iff)
qed

lemma account_in_add_solve [simp]: "account_in (add_solve e c u t p w) = account_in w"
  by (simp add: account_in_def add_solve_def fun_eq_iff split: solver.splits)

lemma entries_add_solve:
  "map entry_of (jw_solves (add_solve e c u t p w)) = map entry_of (jw_solves w) @
     [\<lparr>le_event = e, le_challenge = c, le_solver = solver_of u t, le_points = p\<rparr>]"
  by (simp add: add_solve_def entry_of_def)

lemma offered_price: "offered w e c base \<Longrightarrow> prices_ok w \<Longrightarrow> points_allowed base"
  by (auto simp: offered_def prices_ok_def dest: find_SomeD)

lemma ledger_scored:
  assumes sets: "setting_f64 env ''EVENT_SCORE_DECAY'' = Some d" "setting_f64 env ''EVENT_SCORE_MIN_PERCENT'' = Some m"
    and ok: "roster_ok w" "prices_ok w" and st: "scored_step d m w e c u t w'"
  shows "ledger_step env (ledger_of w) (ledger_of w')"
  using st
proof (cases rule: scored_stepE)
  case (user base p)
  obtain b where b: "account_in w (e, ByUser u) = Some b"
    "account_in (pay_user e u p w) = (account_in w)((e, ByUser u) \<mapsto> b + p)"
    using account_in_pay_user[OF ok(1) user(5)] by blast
  have "jw_solves (pay_user e u p w) = jw_solves w" by (simp add: pay_user_def)
  then have eq: "ledger_of w' = (ledger_of w)\<lparr>lg_accounts := (lg_accounts (ledger_of w))((e, ByUser u) \<mapsto> b + p),
      lg_entries := lg_entries (ledger_of w) @ [\<lparr>le_event = e, le_challenge = c, le_solver = ByUser u, le_points = p\<rparr>]\<rparr>"
    using b(2) by (simp add: user(6) ledger_of_def entries_add_solve solver_of_def)
  show ?thesis unfolding eq
    by (rule score[OF sets offered_price[OF user(3) ok(2)]])
       (use b(1) user(4) solve_allowed_key[OF user(2)] in
         \<open>auto simp: ledger_of_def solver_of_def solves_so_far_def image_image\<close>)
next
  case (team i base p)
  obtain b where b: "account_in w (e, ByTeam i) = Some b"
    "account_in (pay_team i p w) = (account_in w)((e, ByTeam i) \<mapsto> b + p)"
    using account_in_pay_team[OF ok(1) team(5) solve_allowed_team[OF team(2)]] by blast
  have "jw_solves (pay_team i p w) = jw_solves w" by (simp add: pay_team_def)
  then have eq: "ledger_of w' = (ledger_of w)\<lparr>lg_accounts := (lg_accounts (ledger_of w))((e, ByTeam i) \<mapsto> b + p),
      lg_entries := lg_entries (ledger_of w) @ [\<lparr>le_event = e, le_challenge = c, le_solver = ByTeam i, le_points = p\<rparr>]\<rparr>"
    using b(2) by (simp add: team(6) ledger_of_def entries_add_solve solver_of_def)
  show ?thesis unfolding eq
    by (rule score[OF sets offered_price[OF team(3) ok(2)]])
       (use b(1) team(4) solve_allowed_key[OF team(2)] in
         \<open>auto simp: ledger_of_def solver_of_def solves_so_far_def image_image\<close>)
qed

lemma ledger_practised:
  assumes "solve_allowed w e c u None"
  shows "ledger_step env (ledger_of w) (ledger_of (add_solve e c u None 0 w))"
proof -
  have "(e, c, ByUser u) \<notin> entry_key ` set (lg_entries (ledger_of w))"
    using solve_allowed_key[OF assms] by (auto simp: ledger_of_def solver_of_def)
  from practise[OF this, of env] show ?thesis by (simp add: ledger_of_def entries_add_solve solver_of_def)
qed

text \<open>The steps a request is made of, each as steps of the ledger.\<close>

lemma ledger_still:
  "jw_users w' = jw_users w \<Longrightarrow> jw_teams w' = jw_teams w \<Longrightarrow> jw_solves w' = jw_solves w \<Longrightarrow>
   (ledger_step env)\<^sup>*\<^sup>* (ledger_of w) (ledger_of w')"
  by (drule (2) ledger_of_same) simp

lemma ledger_insert_enrolment: "(ledger_step env)\<^sup>*\<^sup>* (ledger_of w) (ledger_of (snd (insert_enrolment e u w)))"
  by (auto simp: insert_enrolment_def run_simps list_ex_iff is_enrolled_key enrolment_key_def
      intro!: r_into_rtranclp ledger_open_user)

lemma ledger_insert_team:
  assumes "roster_ok w"
  shows "(ledger_step env)\<^sup>*\<^sup>* (ledger_of w) (ledger_of (snd (insert_team e n w)))"
proof -
  have "(e, jw_next_id w) \<notin> team_key ` set (jw_teams w)"
  proof
    assume "(e, jw_next_id w) \<in> team_key ` set (jw_teams w)"
    then have "jw_next_id w \<in> snd ` team_key ` set (jw_teams w)" by (metis imageI snd_conv)
    then show False using assms unfolding roster_ok_def by blast
  qed
  then show ?thesis
    by (auto simp: insert_team_def run_simps j_new_uuid_def team_key_def intro!: r_into_rtranclp ledger_open_team)
qed

lemma ledger_ban:
  "ledger_of (w\<lparr>jw_users := update_where p (\<lambda>u. u\<lparr>eu_banned := b\<rparr>) (jw_users w)\<rparr>) = ledger_of w"
  "ledger_of (w\<lparr>jw_teams := update_where q (\<lambda>t. t\<lparr>tm_banned := b\<rparr>) (jw_teams w)\<rparr>) = ledger_of w"
proof -
  have "map_option eu_points (List.find (\<lambda>r. enrolment_key r = y) (update_where p (\<lambda>u. u\<lparr>eu_banned := b\<rparr>) (jw_users w))) =
      map_option eu_points (List.find (\<lambda>r. enrolment_key r = y) (jw_users w))" for y
    by (subst find_update_where) (auto simp: enrolment_key_def option.map_comp o_def intro!: option.map_cong)
  moreover have "map_option tm_points (List.find (\<lambda>r. team_key r = y) (update_where q (\<lambda>t. t\<lparr>tm_banned := b\<rparr>) (jw_teams w))) =
      map_option tm_points (List.find (\<lambda>r. team_key r = y) (jw_teams w))" for y
    by (subst find_update_where) (auto simp: team_key_def option.map_comp o_def intro!: option.map_cong)
  ultimately show
    "ledger_of (w\<lparr>jw_users := update_where p (\<lambda>u. u\<lparr>eu_banned := b\<rparr>) (jw_users w)\<rparr>) = ledger_of w"
    "ledger_of (w\<lparr>jw_teams := update_where q (\<lambda>t. t\<lparr>tm_banned := b\<rparr>) (jw_teams w)\<rparr>) = ledger_of w"
    by (simp_all add: ledger_of_def account_in_def fun_eq_iff split: solver.splits)
qed

lemma ledger_quiet_writes:
  "(ledger_step env)\<^sup>*\<^sup>* (ledger_of w) (ledger_of (snd (transition_runtime_state i ex nxt w)))"
  "(ledger_step env)\<^sup>*\<^sup>* (ledger_of w) (ledger_of (snd (insert_instance_rows r c w)))"
  "(ledger_step env)\<^sup>*\<^sup>* (ledger_of w) (ledger_of (snd (insert_member e t u role w)))"
  "(ledger_step env)\<^sup>*\<^sup>* (ledger_of w) (ledger_of (snd (delete_member m w)))"
  "(ledger_step env)\<^sup>*\<^sup>* (ledger_of w) (ledger_of (drop_runtimes p w))"
  by (rule ledger_still;
      simp add: transition_runtime_state_def insert_instance_rows_run insert_member_run delete_member_def
        drop_runtimes_def run_simps)+

interpretation ledger: jeop_invariant "follows env l" env for env l
proof unfold_locales
  note tables = roster.keep_log solves.keep_log prices.keep_log roster.keep_id solves.keep_id prices.keep_id
    roster.keep_completed solves.keep_completed prices.keep_completed roster.keep_time solves.keep_time prices.keep_time
    roster.keep_transition solves.keep_transition prices.keep_transition
    roster.keep_enrol solves.keep_enrol prices.keep_enrol roster.keep_team solves.keep_team prices.keep_team
    roster.keep_member solves.keep_member prices.keep_member roster.keep_unmember solves.keep_unmember prices.keep_unmember
    roster.keep_unenrol solves.keep_unenrol prices.keep_unenrol roster.keep_unteam solves.keep_unteam prices.keep_unteam
    roster.keep_user_ban solves.keep_user_ban prices.keep_user_ban
    roster.keep_team_ban solves.keep_team_ban prices.keep_team_ban
  fix w
  assume f: "follows env l w"
  show "follows env l (w\<lparr>jw_log := x\<rparr>)" for x
    by (rule follows_keep[OF f]) (simp_all add: tables ledger_still)
  show "follows env l (w\<lparr>jw_next_id := Suc (jw_next_id w)\<rparr>)"
    by (rule follows_keep[OF f]) (simp_all add: tables ledger_still)
  show "follows env l (drop_runtimes (\<lambda>r. ei_container_name r = name \<and> ei_runtime_state r = ''completed'') w)" for name
    by (rule follows_keep[OF f]) (simp_all add: tables ledger_quiet_writes)
  show "follows env l (w\<lparr>jw_now := jw_now w + dt\<rparr>)" if "0 \<le> dt" for dt
    by (rule follows_keep[OF f]) (simp_all add: tables ledger_still that)
  show "follows env l (snd (transition_runtime_state i ex nxt w))" if "nxt \<noteq> ''running''" for i ex nxt
    by (rule follows_keep[OF f]) (simp_all add: tables ledger_quiet_writes that)
  show "follows env l (snd (insert_instance_rows r c w))"
    if "has_room w e (ci_user_id c) (ci_team_id c)" "launch_rows e r c" for e r c
    by (rule follows_keep[OF f roster.keep_rows[OF _ that] solves.keep_rows[OF _ that] prices.keep_rows[OF _ that]
        ledger_quiet_writes(2)])
  show "follows env l (snd (insert_enrolment ev u w))" for ev u
    by (rule follows_keep[OF f]) (simp_all add: tables ledger_insert_enrolment)
  show "follows env l (snd (insert_team ev name w))" for ev name
    by (rule follows_keep[OF f]) (simp_all add: tables ledger_insert_team)
  show "follows env l (snd (insert_member ev t u role w))" for ev t u role
    by (rule follows_keep[OF f]) (simp_all add: tables ledger_quiet_writes)
  show "follows env l (snd (delete_member m w))" for m
    by (rule follows_keep[OF f]) (simp_all add: tables ledger_quiet_writes)
  show "follows env l (drop_enrolments ev ids w)" for ev ids
    by (rule follows_keep[OF f]) (simp_all add: tables ledger_drop_enrolments)
  show "follows env l (drop_teams ev ids w)" for ev ids
    by (rule follows_keep[OF f]) (simp_all add: tables ledger_drop_teams)
  show "follows env l (w\<lparr>jw_users := update_where p (\<lambda>u. u\<lparr>eu_banned := b\<rparr>) (jw_users w)\<rparr>)" for p b
    by (rule follows_keep[OF f]) (simp_all add: tables ledger_ban)
  show "follows env l (w\<lparr>jw_teams := update_where q (\<lambda>t. t\<lparr>tm_banned := b\<rparr>) (jw_teams w)\<rparr>)" for q b
    by (rule follows_keep[OF f]) (simp_all add: tables ledger_ban)
  show "follows env l (w\<lparr>jw_event_challenges := cs\<rparr>)"
    if "\<And>c. c \<in> set cs \<Longrightarrow> points_allowed (jc_points c) \<or> jc_points c \<in> jc_points ` set (jw_event_challenges w)" for cs
    by (rule follows_keep[OF f roster.keep_challenges[OF _ that] solves.keep_challenges[OF _ that]
        prices.keep_challenges[OF _ that]]) (simp_all add: ledger_still)
  show "follows env l w'"
    if "setting_f64 env ''EVENT_SCORE_DECAY'' = Some d" "setting_f64 env ''EVENT_SCORE_MIN_PERCENT'' = Some m"
      "scored_step d m w ev ch u tm w'" for d m ev ch u tm w'
    by (rule follows_keep[OF f roster.keep_score[OF _ that] solves.keep_score[OF _ that] prices.keep_score[OF _ that]])
       (simp_all add: ledger_scored[OF that(1,2) _ _ that(3)] r_into_rtranclp)
  show "follows env l (add_solve ev ch u None 0 w)"
    if "List.find (\<lambda>x. er_id x = ev) (jw_events w) = Some x" "er_purpose x = PurPractice"
      "solve_allowed w ev ch u None" for ev ch u x
    by (rule follows_keep[OF f roster.keep_practice[OF _ that] solves.keep_practice[OF _ that] prices.keep_practice[OF _ that]])
       (simp_all add: ledger_practised[OF that(3)] r_into_rtranclp)
qed

text \<open>What follows for the tables of a state that is reached.\<close>

lemma follows_start: "roster_ok w \<Longrightarrow> solves_ok w \<Longrightarrow> prices_ok w \<Longrightarrow> follows env (ledger_of w) w"
  by (simp add: follows_def)

lemma reach_follows:
  assumes "jeop_reach env w w'" "roster_ok w" "solves_ok w" "prices_ok w"
  shows "(ledger_step env)\<^sup>*\<^sup>* (ledger_of w) (ledger_of w')"
  using ledger.keep_reach[OF assms(1) follows_start[OF assms(2-4)]] by (simp add: follows_def)

end
