(* ===== verification/Jeopardy_Facts.thy ===== *)
theory Jeopardy_Facts
  imports Jeopardy_Ledger
begin

text \<open>
  The properties of the Jeopardy mode: it refines the ledger of solves, what every state reached from
  empty tables satisfies, and when and what a submitted flag pays.
\<close>

section \<open>When a flag is due\<close>

text \<open>
  The submitted flag is the one of a running instance of the published challenge, the subject that
  submits has not solved it yet and is in the event with exactly one row that is not banned.
\<close>

definition flag_due :: "jeop_world \<Rightarrow> jeopardy_submit_request \<Rightarrow> uuid \<Rightarrow> uuid option \<Rightarrow> real \<Rightarrow> bool" where
  "flag_due w req c t base \<longleftrightarrow>
     (\<exists>inst. List.find (\<lambda>x. ci_id x = sq_instance_id req \<and> is_running w x) (jw_instances w) = Some inst \<and>
        ci_challenge_id inst = c \<and> ci_flag inst = sq_flag req) \<and>
     offered w (sq_event_id req) c base \<and> solve_allowed w (sq_event_id req) c (sq_user_id req) t \<and>
     (case sq_subject req of
        SubjectUser \<Rightarrow> t = None \<and>
          \<not> list_ex (\<lambda>s. solve_of (sq_event_id req) c s \<and> sv_user_id s = sq_user_id req) (jw_solves w) \<and>
          length (filter (user_active (sq_event_id req) (sq_user_id req)) (jw_users w)) = 1
      | SubjectTeam \<Rightarrow> (\<exists>m. List.find (is_member (sq_event_id req) (sq_user_id req)) (jw_members w) = Some m \<and>
          t = Some (mb_team_id m) \<and> length (filter (team_active (mb_team_id m)) (jw_teams w)) = 1))"

definition paid :: "jeopardy_submit_request \<Rightarrow> uuid \<Rightarrow> uuid option \<Rightarrow> real \<Rightarrow> jeop_world \<Rightarrow> jeop_world" where
  "paid req c t p w = add_solve (sq_event_id req) c (sq_user_id req) t p
     (case t of None \<Rightarrow> pay_user (sq_event_id req) (sq_user_id req) p w | Some i \<Rightarrow> pay_team i p w)"

lemma find_challenge_ex:
  "list_ex (\<lambda>c. ch_id c = i) cs \<longleftrightarrow> (\<exists>c. List.find (\<lambda>c. ch_id c = i) cs = Some c \<and> ch_id c = i)"
  by (induction cs) auto

lemmas score_body_runs = score_body_def running_instance_def require_published_def find_event_challenge_def
  find_challenge_def already_solved_def find_team_id_for_user_def find_membership_def find_event_challenge_points_def
  solved_count_def solves_so_far_def Let_def

lemma score_body_pays:
  assumes "flag_due w req c t base"
  shows "score_body d m req w =
    (Inr (Scored t), paid req c t (dynamic_score base (solves_so_far w (sq_event_id req) c) d m) w)"
proof -
  obtain inst where inst: "List.find (\<lambda>x. ci_id x = sq_instance_id req \<and> is_running w x) (jw_instances w) = Some inst"
    "ci_challenge_id inst = c" "ci_flag inst = sq_flag req" using assms by (auto simp: flag_due_def)
  have due: "solve_allowed w (sq_event_id req) c (sq_user_id req) t" using assms by (simp add: flag_due_def)
  then obtain x where x: "List.find (\<lambda>r. ch_id r = c) (jw_challenges w) = Some x" "ch_id x = c"
    by (auto simp: solve_allowed_def solve_references_def find_challenge_ex)
  obtain r where r: "List.find (\<lambda>r. jc_event_id r = sq_event_id req \<and> jc_challenge_id r = c) (jw_event_challenges w) = Some r"
    "\<not> jc_hidden r" "jc_points r = base" using assms by (auto simp: flag_due_def offered_def)
  have unsolved: "\<not> list_ex (\<lambda>s. solve_of (sq_event_id req) c s \<and> sv_team_id s = Some i) (jw_solves w)" if "t = Some i" for i
    using due that by (simp add: solve_allowed_def solve_clash_def[abs_def])
  show ?thesis
  proof (cases "sq_subject req")
    case SubjectUser
    then show ?thesis using inst x r due assms
      by (simp add: score_body_runs run_simps flag_due_def award_user_points_run insert_solve_run paid_def)
  next
    case SubjectTeam
    then obtain k where "List.find (is_member (sq_event_id req) (sq_user_id req)) (jw_members w) = Some k"
      "t = Some (mb_team_id k)" "length (filter (team_active (mb_team_id k)) (jw_teams w)) = 1"
      using assms by (auto simp: flag_due_def)
    then show ?thesis using SubjectTeam inst x r due unsolved
      by (simp add: score_body_runs run_simps award_team_points_run insert_solve_run paid_def)
  qed
qed

lemma score_body_only_due:
  assumes "score_body d m req w = (Inr (Scored t), w')"
  shows "\<exists>c base. flag_due w req c t base"
proof (cases "sq_subject req")
  case SubjectUser
  then show ?thesis using assms unfolding score_body_def
    by (simp add: op_Inr require_published_run running_instance_def find_challenge_def already_solved_def)
       (auto simp: op_Inr solved_count_def insert_solve_run award_user_points_run offered_def
        find_event_challenge_points_def find_event_challenge_def Let_def flag_due_def
        dest!: find_challenge_id split: if_splits)
next
  case SubjectTeam
  then show ?thesis using assms unfolding score_body_def
    by (simp add: op_Inr require_published_run running_instance_def find_challenge_def already_solved_def
        find_team_id_for_user_def find_membership_def)
       (auto simp: op_Inr solved_count_def insert_solve_run award_team_points_run offered_def
        find_event_challenge_points_def find_event_challenge_def Let_def flag_due_def
        dest!: find_challenge_id split: if_splits)
qed

lemma score_in_transaction_run:
  assumes "setting_f64 env ''EVENT_SCORE_DECAY'' = Some d" "setting_f64 env ''EVENT_SCORE_MIN_PERCENT'' = Some m"
  shows "score_in_transaction env req w = (case score_body d m req w of
      (Inr out, w') \<Rightarrow> (Inr out, w') | (Inl e, _) \<Rightarrow> (if e = JUnique then Inr AlreadySolved else Inl e, w))"
  using assms
  by (auto simp: score_in_transaction_def parse_setting_f64_def get_setting_def setting_f64_def run_simps
      bind_eq_Some_conv split: prod.splits sum.splits)

lemma not_due_unchanged:
  assumes "setting_f64 env ''EVENT_SCORE_DECAY'' = Some d" "setting_f64 env ''EVENT_SCORE_MIN_PERCENT'' = Some m"
    and none: "\<not> (\<exists>c t base. flag_due w req c t base)"
  shows "snd (score_in_transaction env req w) = w \<and>
    (fst (score_in_transaction env req w) = Inr AlreadySolved \<or> (\<exists>e. fst (score_in_transaction env req w) = Inl e))"
proof (cases "score_body d m req w")
  case (Pair r w')
  show ?thesis
  proof (cases r)
    case (Inl e) then show ?thesis using Pair by (simp add: score_in_transaction_run[OF assms(1,2)])
  next
    case (Inr out)
    then have run: "score_body d m req w = (Inr out, w')" using Pair by simp
    have "out = AlreadySolved" using score_body_only_due none run by (cases out) blast+
    moreover from this have "w' = w" using score_body_Inr[OF run] by simp
    ultimately show ?thesis using run by (simp add: score_in_transaction_run[OF assms(1,2)])
  qed
qed

text \<open>Paying leaves the instances, the challenges and the memberships alone.\<close>

lemma paid_keeps:
  "jw_instances (paid req c t p w) = jw_instances w" "jw_challenges (paid req c t p w) = jw_challenges w"
  "jw_event_challenges (paid req c t p w) = jw_event_challenges w" "jw_members (paid req c t p w) = jw_members w"
  "is_running (paid req c t p w) i = is_running w i"
  by (simp_all add: paid_def add_solve_def pay_user_def pay_team_def is_running_def split: option.splits)

lemma paid_solves:
  "jw_solves (paid req c t p w) = jw_solves w @ [\<lparr>sv_id = jw_next_id w, sv_event_id = sq_event_id req, sv_challenge_id = c,
     sv_user_id = sq_user_id req, sv_team_id = t, sv_obtained_points = p, sv_bonus_points = 0, sv_created_at = jw_now w\<rparr>]"
  by (simp add: paid_def add_solve_def pay_user_def pay_team_def split: option.splits)

lemma score_body_again:
  assumes "flag_due w req c t base"
  shows "score_body d m req (paid req c t p w) = (Inr AlreadySolved, paid req c t p w)"
proof -
  obtain inst where inst: "List.find (\<lambda>x. ci_id x = sq_instance_id req \<and> is_running w x) (jw_instances w) = Some inst"
    "ci_challenge_id inst = c" "ci_flag inst = sq_flag req" using assms by (auto simp: flag_due_def)
  have "solve_allowed w (sq_event_id req) c (sq_user_id req) t" using assms by (simp add: flag_due_def)
  then obtain x where x: "List.find (\<lambda>r. ch_id r = c) (jw_challenges w) = Some x" "ch_id x = c"
    by (auto simp: solve_allowed_def solve_references_def find_challenge_ex)
  obtain r where r: "List.find (\<lambda>r. jc_event_id r = sq_event_id req \<and> jc_challenge_id r = c) (jw_event_challenges w) = Some r"
    "\<not> jc_hidden r" using assms by (auto simp: flag_due_def offered_def)
  show ?thesis
    using assms inst x r
    by (cases "sq_subject req")
       (auto simp: score_body_runs run_simps flag_due_def paid_keeps paid_solves solve_of_def)
qed

section \<open>From empty tables\<close>

definition jeop_fresh :: "jeop_world \<Rightarrow> bool" where
  "jeop_fresh w \<longleftrightarrow> distinct (map er_id (jw_events w)) \<and> jw_event_challenges w = [] \<and> jw_users w = [] \<and>
     jw_teams w = [] \<and> jw_members w = [] \<and> jw_solves w = [] \<and> jw_runtimes w = [] \<and> jw_instances w = []"

lemma jeop_fresh_ok:
  "jeop_fresh w \<Longrightarrow> roster_ok w" "jeop_fresh w \<Longrightarrow> solves_ok w" "jeop_fresh w \<Longrightarrow> prices_ok w"
  "jeop_fresh w \<Longrightarrow> limits_ok w" "jeop_fresh w \<Longrightarrow> ledger_ok (ledger_of w)"
  by (simp_all add: jeop_fresh_def roster_ok_def solves_ok_def prices_ok_def limits_ok_def ledger_ok_def ledger_of_def
      account_in_def)

lemma fresh_reach_ledger:
  "jeop_fresh w \<Longrightarrow> jeop_reach env w w' \<Longrightarrow> ledger_ok (ledger_of w')"
  using reach_follows[OF _ jeop_fresh_ok(1-3)] ledger_ok_steps jeop_fresh_ok(5) by blast

lemma account_in_team:
  assumes "roster_ok w" "t \<in> set (jw_teams w)"
  shows "account_in w (tm_event_id t, ByTeam (tm_id t)) = Some (tm_points t)"
proof -
  have "distinct (map team_key (jw_teams w))"
    using assms(1) by (auto simp: roster_ok_def distinct_map inj_on_def team_key_def)
  from find_distinct_key[OF this assms(2)] show ?thesis by (simp add: account_in_def team_key_def)
qed

lemma account_in_user:
  assumes "roster_ok w" "u \<in> set (jw_users w)"
  shows "account_in w (eu_event_id u, ByUser (eu_user_id u)) = Some (eu_points u)"
proof -
  have "distinct (map enrolment_key (jw_users w))" using assms(1) by (simp add: roster_ok_def)
  from find_distinct_key[OF this assms(2)] show ?thesis by (simp add: account_in_def enrolment_key_def)
qed

lemma jeop_reach_fold: "jeop_reach env w (fold (jeop_serve env) qs w)"
  by (induction qs rule: rev_induct) (auto intro: jeop_reach.intros)

section \<open>A competition\<close>

definition sample_jeop_env :: jeop_env where
  "sample_jeop_env = \<lparr>je_uuid_text = (\<lambda>i. replicate i CHR ''x''),
     je_setting = map_of [(''EVENT_SCORE_DECAY'', ''10''), (''EVENT_SCORE_MIN_PERCENT'', ''0.2''),
       (''NODE_IP'', ''10.0.0.1''), (''HTTP_PREFIX'', ''http://''), (''INSTANCE_DESTROY_DELAY'', ''60'')],
     je_parse_f64 = map_of [(''10'', 10), (''0.2'', 1 / 5)], je_parse_i64 = map_of [(''60'', 60)],
     je_num_text = (\<lambda>n. ''32768''), je_docker = (\<lambda>log fx. True),
     je_published_port = (\<lambda>log name port. Some 32768), je_containers = (\<lambda>log. Some [])\<rparr>"

definition sample_contest :: jeop_event where
  "sample_contest = \<lparr>er_id = 0, er_family = FamJeopardy, er_purpose = PurCompetition, er_participant_mode = PmIndividual,
     er_start_time = 0, er_end_time = Some (seconds 86400), er_hidden = False, er_allow_join = True,
     er_system_key = None, er_flag_prefix = None\<rparr>"

definition sample_fresh :: jeop_world where
  "sample_fresh = \<lparr>jw_now = 0, jw_next_id = 3, jw_events = [sample_contest],
     jw_accounts = [\<lparr>us_id = 1, us_nickname = ''ann'', us_avatar = None\<rparr>],
     jw_challenges = [\<lparr>ch_id = 2, ch_name = ''pwn'', ch_build_status = Some ''ready'', ch_flag_type = Some ''dynamic'',
       ch_static_flag_value = None, ch_container_port = Some 80, ch_image_repo_digest = None, ch_image_id = Some ''sha''\<rparr>],
     jw_event_challenges = [], jw_users = [], jw_teams = [], jw_members = [], jw_solves = [], jw_runtimes = [],
     jw_instances = [], jw_log = []\<rparr>"

definition sample_requests :: "jeop_request list" where
  "sample_requests = [AddUsers 0 None (Some 1), AddChallenges 0 (Some 2) None (Some 100), OpenChallenges 0 (Some 2) None,
     Launch 1 (Some 0) 2]"

definition sample_flag :: jeop_request where
  "sample_flag = SubmitFlag 1 (Some 0) (Some 4) '' flag{xxx} ''"

definition sample_entered :: jeop_world where
  "sample_entered = sample_fresh
     \<lparr>jw_users := [\<lparr>eu_event_id = 0, eu_user_id = 1, eu_banned = False, eu_points = 0\<rparr>],
      jw_event_challenges := [\<lparr>jc_event_id = 0, jc_challenge_id = 2, jc_points = 100, jc_hidden = False\<rparr>]\<rparr>"

lemmas sample_runs = run_simps Let_def sample_fresh_def sample_contest_def sample_jeop_env_def find_event_def
  find_account_def find_challenge_def find_event_challenge_def find_enrolment_def get_setting_def j_now_def j_new_uuid_def
  unwrap_or_def

lemmas sample_policy = require_jeopardy_family_def policy_from_event_def event_mode_of_def event_mode_new_def
  mode_validate_def policy_from_mode_def policy_is_competition_def should_user_joined_def should_ongoing_def
  event_time_status_of_def event_time_status_def resolve_participant_def requires_event_challenge_def
  require_published_def max_concurrent_instances_def policy_is_practice_def is_enrolled_def

lemma sample_enrol:
  "jeop_serve sample_jeop_env (AddUsers 0 None (Some 1)) sample_fresh =
     sample_fresh\<lparr>jw_users := [\<lparr>eu_event_id = 0, eu_user_id = 1, eu_banned = False, eu_points = 0\<rparr>]\<rparr>"
  by (simp add: sample_runs add_user_def add_one_user_def insert_enrolment_def)

lemma sample_enter:
  "jeop_serve sample_jeop_env (OpenChallenges 0 (Some 2) None)
     (jeop_serve sample_jeop_env (AddChallenges 0 (Some 2) None (Some 100))
       (jeop_serve sample_jeop_env (AddUsers 0 None (Some 1)) sample_fresh)) = sample_entered"
  unfolding sample_enrol
  by (simp add: sample_runs sample_entered_def add_challenge_def add_one_challenge_def validate_points_def
      open_challenges_def hide_challenges_def set_challenge_hidden_def update_event_challenge_def update_where_def)

definition sample_box :: challenge_instance where
  "sample_box = \<lparr>ci_id = 4, ci_flag = ''flag{xxx}'',
     ci_content = ''<a href=\"http://10.0.0.1:32768\" target=\"_blank\" rel=\"noopener noreferrer\" download >http://10.0.0.1:32768</a>'',
     ci_challenge_id = 2, ci_user_id = 1, ci_event_id = 0, ci_team_id = None\<rparr>"

definition sample_launched :: jeop_world where
  "sample_launched = sample_entered\<lparr>jw_next_id := 5, jw_instances := [sample_box],
     jw_runtimes := [\<lparr>ei_id = 4, ei_event_id = 0, ei_owner_user_id = Some 1, ei_owner_team_id = None,
       ei_container_name = ''JS--x-xx'', ei_runtime_state = ''running'', ei_runtime_generation = 1, ei_image_ref = Some ''sha'',
       ei_expires_at = Some (seconds 3600), ei_stopped_at = None, ei_updated_at = 0\<rparr>],
     jw_log := [JfEnsureImage ''sha'', JfCreateStart ''JS--x-xx'' ''sha'' (Some ''FLAG=flag{xxx}'') 80, JfInspect ''JS--x-xx'' 80]\<rparr>"

lemma sample_launch: "fold (jeop_serve sample_jeop_env) sample_requests sample_fresh = sample_launched"
proof -
  have "jeop_serve sample_jeop_env (Launch 1 (Some 0) 2) sample_entered = sample_launched"
    by (simp add: sample_runs sample_policy sample_entered_def sample_launched_def sample_box_def
        api_launch_instance_def launch_instance_def running_instances_def launch_def instance_identifier_def
        get_uuid_prefix_def delete_completed_by_container_name_def drop_runtimes_def launch_flag_def gen_instance_flag_def
        launch_spec_def effective_image_ref_def nonempty_opt_def chrono_ok_def launch_content_def runtime_launch_def
        j_dockerM_def finalize_launch_def insert_instance_rows_run ownership_ok_def solve_references_def seconds_def
        nanos_per_sec_def numeral_2_eq_2 numeral_3_eq_3)
  then show ?thesis by (simp only: sample_requests_def fold.simps o_apply id_apply sample_enter)
qed

definition sample_request :: jeopardy_submit_request where
  "sample_request = \<lparr>sq_event_id = 0, sq_user_id = 1, sq_instance_id = 4, sq_flag = ''flag{xxx}'', sq_subject = SubjectUser\<rparr>"

lemma sample_settings:
  "setting_f64 sample_jeop_env ''EVENT_SCORE_DECAY'' = Some 10"
  "setting_f64 sample_jeop_env ''EVENT_SCORE_MIN_PERCENT'' = Some (1 / 5)"
  by (simp_all add: setting_f64_def sample_jeop_env_def)

lemma sample_due: "flag_due sample_launched sample_request 2 None 100"
  by (simp add: flag_due_def sample_launched_def sample_entered_def sample_box_def sample_request_def sample_fresh_def
      sample_contest_def is_running_def offered_def solve_allowed_def ownership_ok_def solve_references_def user_active_def
      is_enrolled_def)

lemma sample_submit:
  "api_submit_flag sample_jeop_env 1 (Some 0) (Some 4) '' flag{xxx} '' sample_launched =
     submit sample_jeop_env sample_request sample_launched"
proof -
  have "trim_flag '' flag{xxx} '' = ''flag{xxx}''" by (simp add: trim_flag_def is_ascii_whitespace_def)
  then show ?thesis
    by (simp add: api_submit_flag_def submit_event_flag_def sample_launched_def sample_entered_def sample_runs sample_policy
        contributes_to_official_score_def sample_request_def seconds_def nanos_per_sec_def)
qed

lemma sample_scored:
  "account_in (jeop_serve sample_jeop_env sample_flag sample_launched) (0, ByUser 1) = Some 100"
  "map solve_key (jw_solves (jeop_serve sample_jeop_env sample_flag sample_launched)) = [(0, 2, ByUser 1)]"
proof -
  have run: "score_in_transaction sample_jeop_env sample_request sample_launched =
      (Inr (Scored None), paid sample_request 2 None (dynamic_score 100 0 10 (1 / 5)) sample_launched)"
    using score_body_pays[OF sample_due, of 10 "1 / 5"]
    by (simp add: score_in_transaction_run[OF sample_settings] solves_so_far_def sample_launched_def sample_entered_def
        sample_fresh_def)
  have kept: "jw_users (snd (destroy_owned env i u w)) = jw_users w" "jw_teams (snd (destroy_owned env i u w)) = jw_teams w"
    "jw_solves (snd (destroy_owned env i u w)) = jw_solves w" for env i u w
    by (simp_all add: destroy_owned_def find_owned_running_def find_instance_with_runtime_def destroy_found_def
        destroy_model_def remove_runtime_if_needed_def find_challenge_def runtime_stop_and_remove_def j_dockerM_def
        transition_runtime_state_def run_simps split: option.splits)
  have after: "jw_users (jeop_serve sample_jeop_env sample_flag sample_launched) = jw_users (paid sample_request 2 None 100 sample_launched)"
    "jw_solves (jeop_serve sample_jeop_env sample_flag sample_launched) = jw_solves (paid sample_request 2 None 100 sample_launched)"
    by (simp only: sample_flag_def jeop_serve.simps sample_submit, simp add: submit_def run_simps run kept)+
  show "account_in (jeop_serve sample_jeop_env sample_flag sample_launched) (0, ByUser 1) = Some 100"
    by (simp only: account_in_def prod.case solver.case after)
       (simp add: paid_def add_solve_def pay_user_def sample_request_def sample_launched_def
        sample_entered_def update_where_def user_active_def is_enrolled_def enrolment_key_def)
  show "map solve_key (jw_solves (jeop_serve sample_jeop_env sample_flag sample_launched)) = [(0, 2, ByUser 1)]"
    by (simp only: after) (simp add: paid_solves sample_request_def solve_key_def solver_of_def sample_launched_def sample_entered_def
        sample_fresh_def)
qed

lemma sample_fresh_ok: "jeop_fresh sample_fresh"
  by (simp add: jeop_fresh_def sample_fresh_def)

lemma sample_contest_reach: "jeop_reach sample_jeop_env sample_fresh (jeop_serve sample_jeop_env sample_flag sample_launched)"
  using jeop_reach_fold[of sample_jeop_env sample_fresh sample_requests] by (auto simp: sample_launch intro: serve)

section \<open>Properties\<close>

text \<open>
  C38. The Jeopardy mode refines the ledger of solves. Whatever players, administrators, timers and
  clean-up loops do, from tables that are consistent, is a sequence of steps of the abstract machine:
  an account is opened with nothing, closed, or paid the dynamic score of a challenge its subject has
  not solved before, and entered into the ledger with the same step.
\<close>

theorem jeopardy_refines_ledger:
  assumes "jeop_reach env w w'" "roster_ok w" "solves_ok w" "prices_ok w"
  shows "(ledger_step env)\<^sup>*\<^sup>* (ledger_of w) (ledger_of w') \<and> roster_ok w' \<and> solves_ok w' \<and> prices_ok w'"
  using reach_follows[OF assms] roster.keep_reach[OF assms(1,2)] solves.keep_reach[OF assms(1,3)]
    prices.keep_reach[OF assms(1,4)] by blast

theorem jeopardy_refines_ledger_witness:
  "(ledger_step sample_jeop_env)\<^sup>*\<^sup>* (ledger_of sample_fresh)
     (ledger_of (jeop_serve sample_jeop_env sample_flag sample_launched)) \<and>
   lg_accounts (ledger_of sample_fresh) (0, ByUser 1) = None \<and>
   lg_accounts (ledger_of (jeop_serve sample_jeop_env sample_flag sample_launched)) (0, ByUser 1) = Some 100"
  using jeopardy_refines_ledger[OF sample_contest_reach] jeop_fresh_ok[OF sample_fresh_ok] sample_scored(1)
  by (simp add: ledger_of_def) (simp add: account_in_def sample_fresh_def)





end
