(* ===== verification/Oidc_Domain.thy ===== *)
theory Oidc_Domain
  imports Rust_Text "HOL-Library.List_Lexorder" "HOL-Library.Char_ord"
begin

text \<open>
  The protocol rules of the OpenID provider that need no storage: \<open>modules/identity/oidc/domain/\<close>
  (errors, PKCE, redirect addresses, scopes, client authentication, authorization requests, claims)
  and the input rules and status machine of \<open>clients.rs\<close>. What the \<open>url\<close>, \<open>base64\<close> and
  \<open>sha2\<close> crates compute is an argument of the definitions that use it.
\<close>

section \<open>Errors (error.rs)\<close>

record oauth_error =
  oa_error :: string
  oa_description :: string

definition is_nqschar :: "char \<Rightarrow> bool" where
  "is_nqschar c \<longleftrightarrow> (let n = byte c in n = 32 \<or> n = 33 \<or> (35 \<le> n \<and> n \<le> 91) \<or> (93 \<le> n \<and> n \<le> 126))"

definition sanitize :: "string \<Rightarrow> string" where
  "sanitize d = take 200 (filter is_nqschar d)"

definition oauth :: "string \<Rightarrow> string \<Rightarrow> oauth_error" where
  "oauth code description = \<lparr>oa_error = code, oa_description = sanitize description\<rparr>"

abbreviation invalid_request :: "string \<Rightarrow> oauth_error" where
  "invalid_request \<equiv> oauth ''invalid_request''"

abbreviation invalid_scope :: "string \<Rightarrow> oauth_error" where
  "invalid_scope \<equiv> oauth ''invalid_scope''"

abbreviation invalid_client :: "string \<Rightarrow> oauth_error" where
  "invalid_client \<equiv> oauth ''invalid_client''"

abbreviation invalid_grant :: "string \<Rightarrow> oauth_error" where
  "invalid_grant \<equiv> oauth ''invalid_grant''"

section \<open>PKCE (pkce.rs)\<close>

definition is_unreserved :: "char \<Rightarrow> bool" where
  "is_unreserved b \<longleftrightarrow> is_ascii_alphanumeric b \<or> b \<in> set ''-._~''"

definition is_valid_code_verifier :: "string \<Rightarrow> bool" where
  "is_valid_code_verifier v \<longleftrightarrow> 43 \<le> length v \<and> length v \<le> 128 \<and> list_all is_unreserved v"

definition is_valid_s256_challenge :: "string \<Rightarrow> bool" where
  "is_valid_s256_challenge ch \<longleftrightarrow>
     length ch = 43 \<and> list_all (\<lambda>b. is_ascii_alphanumeric b \<or> b = CHR ''-'' \<or> b = CHR ''_'') ch"

text \<open>\<open>s256\<close> is \<open>BASE64URL(SHA256(_))\<close>.\<close>

definition verify_s256 :: "(string \<Rightarrow> string) \<Rightarrow> string \<Rightarrow> string \<Rightarrow> bool" where
  "verify_s256 s256 verifier challenge \<longleftrightarrow>
     is_valid_code_verifier verifier \<and> is_valid_s256_challenge challenge \<and> s256 verifier = challenge"

section \<open>Redirect addresses (redirect\_uri.rs)\<close>

record url_parts =
  u_scheme :: string
  u_username :: string
  u_password :: "string option"
  u_host :: "string option"
  u_fragment :: "string option"

datatype input_error =
    IeUriLength | IeUriChars | IeUriFragment | IeUriSyntax | IeUriUserinfo | IeUriHost | IeUriWildcard
  | IeLoopbackOff | IeHttpsRequired | IeScheme string
  | IeScope string | IeNoOpenid
  | IeName | IeDescription | IeHomepage input_error | IeLogo input_error | IeUrlLength
  | IeNoRedirect | IeTooManyRedirects | IePostLogout input_error | IeTooManyPostLogout
  | IeBackchannel input_error | IePublicAuth | IeConfidentialAuth | IeNoSecret | IePublicPkce

definition max_redirect_uri_len :: nat where
  "max_redirect_uri_len = 2000"

definition max_redirect_uris :: nat where
  "max_redirect_uris = 10"

definition is_loopback_host :: "string \<Rightarrow> bool" where
  "is_loopback_host h \<longleftrightarrow> h \<in> {''localhost'', ''127.0.0.1'', ''[::1]'', ''::1''}"

definition validate_registration ::
  "(string \<Rightarrow> url_parts option) \<Rightarrow> string \<Rightarrow> bool \<Rightarrow> input_error + unit" where
  "validate_registration url_parse uri allow_loopback =
     (if uri = [] \<or> max_redirect_uri_len < length uri then Inl IeUriLength
      else if list_ex (\<lambda>c. is_whitespace c \<or> is_control c) (utf8_chars uri) then Inl IeUriChars
      else if CHR ''#'' \<in> set uri then Inl IeUriFragment
      else case url_parse uri of
        None \<Rightarrow> Inl IeUriSyntax
      | Some p \<Rightarrow>
          if u_username p \<noteq> [] \<or> u_password p \<noteq> None then Inl IeUriUserinfo
          else case u_host p of
            None \<Rightarrow> Inl IeUriHost
          | Some host \<Rightarrow>
              if CHR ''*'' \<in> set host then Inl IeUriWildcard
              else if u_scheme p = ''https'' then Inr ()
              else if u_scheme p = ''http'' \<and> is_loopback_host host
                then (if allow_loopback then Inr () else Inl IeLoopbackOff)
              else if u_scheme p = ''http'' then Inl IeHttpsRequired
              else Inl (IeScheme (u_scheme p)))"

definition is_registered :: "string list \<Rightarrow> string \<Rightarrow> bool" where
  "is_registered registered requested \<longleftrightarrow> requested \<in> set registered"

text \<open>
  \<open>append_pairs\<close> is what the \<open>url\<close> crate serializes when the pairs are appended to the query of a
  parsed address.
\<close>

definition append_query ::
  "(string \<Rightarrow> url_parts option) \<Rightarrow> (string \<Rightarrow> (string \<times> string) list \<Rightarrow> string) \<Rightarrow>
   string \<Rightarrow> (string \<times> string) list \<Rightarrow> string" where
  "append_query url_parse append_pairs redirect_uri params =
     (case url_parse redirect_uri of None \<Rightarrow> redirect_uri | Some _ \<Rightarrow> append_pairs redirect_uri params)"

section \<open>Scopes (scope.rs)\<close>

definition OPENID :: string where "OPENID = ''openid''"

definition PROFILE :: string where "PROFILE = ''profile''"

definition EMAIL :: string where "EMAIL = ''email''"

definition SUPPORTED :: "string list" where
  "SUPPORTED = [OPENID, PROFILE, EMAIL]"

definition is_scope_token :: "string \<Rightarrow> bool" where
  "is_scope_token t \<longleftrightarrow> t \<noteq> [] \<and>
     list_all (\<lambda>b. let n = byte b in n = 33 \<or> (35 \<le> n \<and> n \<le> 91) \<or> (93 \<le> n \<and> n \<le> 126)) t"

definition scope_parse :: "string \<Rightarrow> string list option" where
  "scope_parse raw =
     (let tokens = filter (\<lambda>t. t \<noteq> []) (split_on CHR '' '' raw) in
      if list_all is_scope_token tokens then Some tokens else None)"

definition grantable :: "string list \<Rightarrow> string list \<Rightarrow> string list" where
  "grantable requested client_allowed =
     filter (\<lambda>s. s \<in> set requested \<and> s \<in> set client_allowed) SUPPORTED"

definition covers :: "string list \<Rightarrow> string list \<Rightarrow> bool" where
  "covers granted requested \<longleftrightarrow> list_all (\<lambda>r. r \<in> set granted) requested"

definition scope_union :: "string list \<Rightarrow> string list \<Rightarrow> string list" where
  "scope_union a b = filter (\<lambda>s. s \<in> set a \<or> s \<in> set b) SUPPORTED"

fun join_scopes :: "string list \<Rightarrow> string" where
  "join_scopes [] = []"
| "join_scopes [s] = s"
| "join_scopes (s # t # ss) = s @ '' '' @ join_scopes (t # ss)"

definition normalize_client_scopes :: "string list \<Rightarrow> input_error + string list" where
  "normalize_client_scopes input =
     (case List.find (\<lambda>s. s \<notin> set SUPPORTED) input of
        Some s \<Rightarrow> Inl (IeScope s)
      | None \<Rightarrow>
          let normalized = scope_union input [] in
          if OPENID \<notin> set normalized then Inl IeNoOpenid else Inr normalized)"

section \<open>Shape of tokens (secret.rs)\<close>

definition max_token_input_len :: nat where
  "max_token_input_len = 512"

definition is_plausible_token :: "string \<Rightarrow> bool" where
  "is_plausible_token v \<longleftrightarrow> v \<noteq> [] \<and> length v \<le> max_token_input_len \<and>
     list_all (\<lambda>b. is_ascii_alphanumeric b \<or> b \<in> set ''-_.~'') v"

text \<open>\<open>argon2\<close> answers \<open>None\<close> for a stored string it cannot parse.\<close>

definition verify_client_secret :: "(string \<Rightarrow> string \<Rightarrow> bool option) \<Rightarrow> string \<Rightarrow> string \<Rightarrow> bool" where
  "verify_client_secret argon2 secret phc \<longleftrightarrow>
     secret \<noteq> [] \<and> length secret \<le> max_token_input_len \<and> argon2 secret phc = Some True"

section \<open>Client authentication (client\_auth.rs)\<close>

datatype presented_client_auth =
    PresentedBasic string string
  | PresentedPost string string
  | PresentedNone string

fun presented_client_id :: "presented_client_auth \<Rightarrow> string" where
  "presented_client_id (PresentedBasic i s) = i"
| "presented_client_id (PresentedPost i s) = i"
| "presented_client_id (PresentedNone i) = i"

fun presented_method :: "presented_client_auth \<Rightarrow> string" where
  "presented_method (PresentedBasic i s) = ''client_secret_basic''"
| "presented_method (PresentedPost i s) = ''client_secret_post''"
| "presented_method (PresentedNone i) = ''none''"

fun percent_bytes :: "string \<Rightarrow> string option" where
  "percent_bytes [] = Some []"
| "percent_bytes (c # s) =
     (if c = CHR ''%'' then
        (case s of
           a # b # r \<Rightarrow>
             (case u8_hex a b of
                None \<Rightarrow> None | Some x \<Rightarrow> map_option (\<lambda>t. x # t) (percent_bytes r))
         | _ \<Rightarrow> None)
      else map_option (\<lambda>t. c # t) (percent_bytes s))"

definition percent_decode :: "string \<Rightarrow> string option" where
  "percent_decode input = Option.bind (percent_bytes input) from_utf8"

definition form_decode :: "string \<Rightarrow> string option" where
  "form_decode component = percent_decode (map (\<lambda>c. if c = CHR ''+'' then CHR '' '' else c) component)"

definition parse_basic ::
  "(string \<Rightarrow> string option) \<Rightarrow> string \<Rightarrow> oauth_error + string \<times> string" where
  "parse_basic base64 header =
     (let invalid = Inl (invalid_client ''malformed Basic client authentication'') in
      case split_once CHR '' '' (trim_text header) of
        None \<Rightarrow> invalid
      | Some (scheme, value) \<Rightarrow>
          if \<not> eq_ignore_ascii_case scheme ''basic'' \<or> 2048 < length value then invalid
          else case Option.bind (base64 (trim_text value)) from_utf8 of
            None \<Rightarrow> invalid
          | Some decoded \<Rightarrow>
              (case split_once CHR '':'' decoded of
                 None \<Rightarrow> invalid
               | Some (raw_id, raw_secret) \<Rightarrow>
                   (case (form_decode raw_id, form_decode raw_secret) of
                      (Some client_id, Some secret) \<Rightarrow>
                        if client_id = [] then invalid else Inr (client_id, secret)
                    | _ \<Rightarrow> invalid)))"

definition identify ::
  "(string \<Rightarrow> string option) \<Rightarrow> string option \<Rightarrow> string option \<Rightarrow> string option \<Rightarrow>
   oauth_error + presented_client_auth" where
  "identify base64 authorization_header form_client_id form_client_secret =
     (case authorization_header of
        Some header \<Rightarrow>
          (case parse_basic base64 header of
             Inl e \<Rightarrow> Inl e
           | Inr (client_id, secret) \<Rightarrow>
               if form_client_secret \<noteq> None
                 then Inl (invalid_request ''multiple client authentication methods used'')
               else if form_client_id \<noteq> None \<and> form_client_id \<noteq> Some client_id
                 then Inl (invalid_request ''client_id does not match client authentication'')
               else Inr (PresentedBasic client_id secret))
      | None \<Rightarrow>
          (case (form_client_id, form_client_secret) of
             (Some i, Some secret) \<Rightarrow>
               if i \<noteq> [] then Inr (PresentedPost i secret)
               else Inl (invalid_client ''client authentication required'')
           | (Some i, None) \<Rightarrow>
               if i \<noteq> [] then Inr (PresentedNone i)
               else Inl (invalid_client ''client authentication required'')
           | _ \<Rightarrow> Inl (invalid_client ''client authentication required'')))"

end
