(* ===== verification/Oidc_Request.thy ===== *)
theory Oidc_Request
  imports Oidc_Domain
begin

text \<open>
  Authorization requests and claims: \<open>domain/authorize.rs\<close> and \<open>domain/claims.rs\<close>. A request is
  the list of its decoded parameters, repetitions included. The theorem of this theory says which
  requests are accepted and what an accepted one carries.
\<close>

section \<open>Parameters\<close>

type_synonym raw_params = "(string \<times> string) list"

datatype duplicate_parameter = DuplicateParameter

definition param_values :: "raw_params \<Rightarrow> string \<Rightarrow> string list" where
  "param_values params name = map snd (filter (\<lambda>(k, v). k = name) params)"

definition single :: "raw_params \<Rightarrow> string \<Rightarrow> duplicate_parameter + string option" where
  "single params name =
     (case param_values params name of
        [] \<Rightarrow> Inr None
      | [v] \<Rightarrow> if v = [] then Inr None else Inr (Some v)
      | _ \<Rightarrow> Inl DuplicateParameter)"

definition has_param :: "raw_params \<Rightarrow> string \<Rightarrow> bool" where
  "has_param params name \<longleftrightarrow> list_ex (\<lambda>(k, v). k = name \<and> v \<noteq> []) params"

definition max_state_len :: nat where "max_state_len = 2048"

definition max_nonce_len :: nat where "max_nonce_len = 512"

definition max_login_hint_len :: nat where "max_login_hint_len = 256"

definition max_id_token_hint_len :: nat where "max_id_token_hint_len = 8192"

definition echo_state :: "raw_params \<Rightarrow> string option" where
  "echo_state params =
     (case single params ''state'' of
        Inr (Some s) \<Rightarrow> if length s \<le> max_state_len then Some s else None
      | _ \<Rightarrow> None)"

datatype pre_redirect_error = MissingClientId | DuplicateClientId | MissingRedirectUri | DuplicateRedirectUri

definition client_and_redirect :: "raw_params \<Rightarrow> pre_redirect_error + string \<times> string" where
  "client_and_redirect params =
     (case single params ''client_id'' of
        Inl _ \<Rightarrow> Inl DuplicateClientId
      | Inr None \<Rightarrow> Inl MissingClientId
      | Inr (Some client_id) \<Rightarrow>
          (case single params ''redirect_uri'' of
             Inl _ \<Rightarrow> Inl DuplicateRedirectUri
           | Inr None \<Rightarrow> Inl MissingRedirectUri
           | Inr (Some redirect_uri) \<Rightarrow> Inr (client_id, redirect_uri)))"

section \<open>Prompt\<close>

record oidc_prompt =
  pr_none :: bool
  pr_login :: bool
  pr_consent :: bool
  pr_select_account :: bool

definition prompt_default :: oidc_prompt where
  "prompt_default = \<lparr>pr_none = False, pr_login = False, pr_consent = False, pr_select_account = False\<rparr>"

fun prompt_tokens :: "oidc_prompt \<Rightarrow> string list \<Rightarrow> oauth_error + oidc_prompt" where
  "prompt_tokens p [] = Inr p"
| "prompt_tokens p (v # vs) =
     (if v = ''none'' then prompt_tokens (p\<lparr>pr_none := True\<rparr>) vs
      else if v = ''login'' then prompt_tokens (p\<lparr>pr_login := True\<rparr>) vs
      else if v = ''consent'' then prompt_tokens (p\<lparr>pr_consent := True\<rparr>) vs
      else if v = ''select_account'' then prompt_tokens (p\<lparr>pr_select_account := True\<rparr>) vs
      else Inl (invalid_request ''unsupported prompt value''))"

definition prompt_parse :: "string option \<Rightarrow> oauth_error + oidc_prompt" where
  "prompt_parse raw =
     (case raw of
        None \<Rightarrow> Inr prompt_default
      | Some r \<Rightarrow>
          (case prompt_tokens prompt_default (filter (\<lambda>v. v \<noteq> []) (split_on CHR '' '' r)) of
             Inl e \<Rightarrow> Inl e
           | Inr p \<Rightarrow>
               if pr_none p \<and> (pr_login p \<or> pr_consent p \<or> pr_select_account p)
               then Inl (invalid_request ''prompt=none must not be combined with other values'')
               else Inr p))"

definition prompt_to_values :: "oidc_prompt \<Rightarrow> string list" where
  "prompt_to_values p =
     (if pr_none p then [''none''] else []) @ (if pr_login p then [''login''] else []) @
     (if pr_consent p then [''consent''] else []) @ (if pr_select_account p then [''select_account''] else [])"

definition prompt_from_values :: "string list \<Rightarrow> oidc_prompt" where
  "prompt_from_values vs = \<lparr>pr_none = ''none'' \<in> set vs, pr_login = ''login'' \<in> set vs,
     pr_consent = ''consent'' \<in> set vs, pr_select_account = ''select_account'' \<in> set vs\<rparr>"

section \<open>Validation\<close>

record client_policy =
  cp_allowed_scopes :: "string list"
  cp_require_pkce :: bool

record authorization_request =
  ar_client_id :: string
  ar_redirect_uri :: string
  ar_scopes :: "string list"
  ar_state :: "string option"
  ar_nonce :: "string option"
  ar_code_challenge :: "string option"
  ar_prompt :: oidc_prompt
  ar_max_age :: "int option"
  ar_login_hint :: "string option"
  ar_id_token_hint :: "string option"

fun first_repeat :: "string list \<Rightarrow> string option" where
  "first_repeat (a # b # ns) = (if a = b then Some a else first_repeat (b # ns))"
| "first_repeat _ = None"

definition single_or :: "raw_params \<Rightarrow> string \<Rightarrow> oauth_error + string option" where
  "single_or params name =
     (case single params name of
        Inl _ \<Rightarrow> Inl (invalid_request (''duplicate parameter: '' @ name)) | Inr v \<Rightarrow> Inr v)"

text \<open>Rust's \<open>?\<close> on a \<open>Result\<close>.\<close>

fun and_then :: "'e + 'a \<Rightarrow> ('a \<Rightarrow> 'e + 'b) \<Rightarrow> 'e + 'b" where
  "and_then (Inl e) f = Inl e"
| "and_then (Inr x) f = f x"

definition ensure :: "bool \<Rightarrow> 'e \<Rightarrow> 'e + unit" where
  "ensure b e = (if b then Inr () else Inl e)"

definition check_unsupported :: "raw_params \<Rightarrow> oauth_error + unit" where
  "check_unsupported params =
     (if has_param params ''request''
        then Inl (oauth ''request_not_supported'' ''request objects are not supported'')
      else if has_param params ''request_uri''
        then Inl (oauth ''request_uri_not_supported'' ''request_uri is not supported'')
      else if has_param params ''registration''
        then Inl (oauth ''registration_not_supported'' ''registration parameter is not supported'')
      else Inr ())"

definition check_response :: "raw_params \<Rightarrow> oauth_error + unit" where
  "check_response params =
     and_then (single_or params ''response_type'') (\<lambda>rt.
     and_then (case rt of
         None \<Rightarrow> Inl (invalid_request ''missing response_type'')
       | Some t \<Rightarrow> ensure (t = ''code'')
           (oauth ''unsupported_response_type'' ''only response_type=code is supported'')) (\<lambda>_.
     and_then (single_or params ''response_mode'') (\<lambda>mode.
     ensure (mode = None \<or> mode = Some ''query'')
       (invalid_request ''only response_mode=query is supported''))))"

definition check_scopes :: "raw_params \<Rightarrow> string list \<Rightarrow> oauth_error + string list" where
  "check_scopes params allowed =
     and_then (single_or params ''scope'') (\<lambda>raw.
     case raw of
       None \<Rightarrow> Inl (invalid_request ''missing scope'')
     | Some raw_scope \<Rightarrow>
         (case scope_parse raw_scope of
            None \<Rightarrow> Inl (invalid_scope ''malformed scope'')
          | Some requested \<Rightarrow>
              if OPENID \<notin> set requested then Inl (invalid_scope ''scope must include openid'')
              else let scopes = grantable requested allowed in
                if OPENID \<notin> set scopes then Inl (invalid_scope ''client is not allowed to request openid'')
                else Inr scopes))"

definition check_challenge :: "raw_params \<Rightarrow> oauth_error + string option" where
  "check_challenge params =
     and_then (single_or params ''code_challenge'') (\<lambda>challenge.
     and_then (single_or params ''code_challenge_method'') (\<lambda>method.
     case (challenge, method) of
       (None, None) \<Rightarrow> Inr None
     | (None, Some _) \<Rightarrow> Inl (invalid_request ''code_challenge_method without code_challenge'')
     | (Some _, None) \<Rightarrow> Inl (invalid_request ''code_challenge_method must be S256'')
     | (Some c, Some m) \<Rightarrow>
         if m \<noteq> ''S256'' then Inl (invalid_request ''code_challenge_method must be S256'')
         else if \<not> is_valid_s256_challenge c then Inl (invalid_request ''malformed code_challenge'')
         else Inr (Some c)))"

definition check_max_age :: "raw_params \<Rightarrow> oauth_error + int option" where
  "check_max_age params =
     and_then (single_or params ''max_age'') (\<lambda>raw.
     case raw of
       None \<Rightarrow> Inr None
     | Some r \<Rightarrow>
         (case parse_i64 r of
            Some v \<Rightarrow> if 0 \<le> v then Inr (Some v)
                      else Inl (invalid_request ''max_age must be a non-negative integer'')
          | None \<Rightarrow> Inl (invalid_request ''max_age must be a non-negative integer'')))"

definition fits :: "nat \<Rightarrow> string option \<Rightarrow> bool" where
  "fits n v = (case v of None \<Rightarrow> True | Some s \<Rightarrow> length s \<le> n)"

definition validate ::
  "raw_params \<Rightarrow> string \<Rightarrow> string \<Rightarrow> client_policy \<Rightarrow> oauth_error + authorization_request" where
  "validate params client_id redirect_uri policy =
     (case first_repeat (sort (map fst params)) of
        Some d \<Rightarrow> Inl (invalid_request (''duplicate parameter: '' @ d))
      | None \<Rightarrow>
     and_then (check_unsupported params) (\<lambda>_.
     and_then (check_response params) (\<lambda>_.
     and_then (check_scopes params (cp_allowed_scopes policy)) (\<lambda>scopes.
     and_then (single_or params ''state'') (\<lambda>state.
     and_then (ensure (fits max_state_len state) (invalid_request ''state too long'')) (\<lambda>_.
     and_then (single_or params ''nonce'') (\<lambda>nonce.
     and_then (ensure (fits max_nonce_len nonce) (invalid_request ''nonce too long'')) (\<lambda>_.
     and_then (check_challenge params) (\<lambda>code_challenge.
     and_then (ensure (code_challenge \<noteq> None \<or> \<not> cp_require_pkce policy)
       (invalid_request ''code_challenge (PKCE S256) is required for this client'')) (\<lambda>_.
     and_then (ensure (code_challenge \<noteq> None \<or> nonce \<noteq> None)
       (invalid_request ''nonce is required when PKCE is not used'')) (\<lambda>_.
     and_then (and_then (single_or params ''prompt'') prompt_parse) (\<lambda>prompt.
     and_then (check_max_age params) (\<lambda>max_age.
     and_then (single_or params ''login_hint'') (\<lambda>login_hint.
     and_then (single_or params ''id_token_hint'') (\<lambda>id_token_hint.
     and_then (ensure (fits max_id_token_hint_len id_token_hint)
       (invalid_request ''id_token_hint too long'')) (\<lambda>_.
     Inr \<lparr>ar_client_id = client_id, ar_redirect_uri = redirect_uri, ar_scopes = scopes, ar_state = state,
       ar_nonce = nonce, ar_code_challenge = code_challenge, ar_prompt = prompt, ar_max_age = max_age,
       ar_login_hint = (if fits max_login_hint_len login_hint then login_hint else None),
       ar_id_token_hint = id_token_hint\<rparr>))))))))))))))))"

definition requires_fresh_login :: "oidc_prompt \<Rightarrow> int option \<Rightarrow> int \<Rightarrow> int \<Rightarrow> bool" where
  "requires_fresh_login prompt max_age auth_time now =
     (if pr_login prompt then True
      else case max_age of
        Some m \<Rightarrow> sat_sub_i64 now auth_time > m \<or> m = 0
      | None \<Rightarrow> False)"

section \<open>Claims\<close>

datatype json_value = JStr string | JInt int | JBool bool

record user_snapshot =
  sn_id :: uuid
  sn_username :: string
  sn_nickname :: string
  sn_email :: string
  sn_avatar :: "string option"
  sn_updated_at :: int

record id_token_claims =
  ic_iss :: string
  ic_sub :: string
  ic_aud :: string
  ic_azp :: string
  ic_exp :: int
  ic_iat :: int
  ic_auth_time :: int
  ic_nonce :: "string option"
  ic_at_hash :: "string option"
  ic_sid :: "string option"

definition text_starts_with :: "string \<Rightarrow> string \<Rightarrow> bool" where
  "text_starts_with s p \<longleftrightarrow> take (length p) s = p"

definition absolute_picture :: "string \<Rightarrow> string \<Rightarrow> string option" where
  "absolute_picture raw issuer =
     (let avatar = trim_text raw in
      if text_starts_with avatar ''https://'' \<or> text_starts_with avatar ''http://'' then Some avatar
      else if text_starts_with avatar ''/'' \<and> \<not> text_starts_with avatar ''//'' then Some (issuer @ avatar)
      else None)"

definition scoped_user_claims ::
  "user_snapshot \<Rightarrow> string list \<Rightarrow> string \<Rightarrow> (string \<times> json_value) list" where
  "scoped_user_claims user scopes issuer =
     (if PROFILE \<in> set scopes then
        [(''preferred_username'', JStr (sn_username user)), (''nickname'', JStr (sn_nickname user)),
         (''name'', JStr (sn_nickname user))] @
        (case Option.bind (sn_avatar user) (\<lambda>a. absolute_picture a issuer) of
           None \<Rightarrow> [] | Some p \<Rightarrow> [(''picture'', JStr p)]) @
        [(''updated_at'', JInt (sn_updated_at user))]
      else []) @
     (if EMAIL \<in> set scopes then
        (let email = trim_text (sn_email user) in
         if email \<noteq> [] then [(''email'', JStr email), (''email_verified'', JBool False)] else [])
      else [])"

definition claims_userinfo ::
  "(uuid \<Rightarrow> string) \<Rightarrow> user_snapshot \<Rightarrow> string list \<Rightarrow> string \<Rightarrow> (string \<times> json_value) list" where
  "claims_userinfo uuid_text user scopes issuer =
     (''sub'', JStr (uuid_text (sn_id user))) # scoped_user_claims user scopes issuer"

section \<open>Facts\<close>

lemma and_then_Inr [simp]: "and_then r f = Inr y \<longleftrightarrow> (\<exists>x. r = Inr x \<and> f x = Inr y)"
  by (cases r) auto

lemma ensure_Inr [simp]: "ensure b e = Inr x \<longleftrightarrow> b"
  by (simp add: ensure_def)

lemma single_or_Inr [simp]: "single_or params name = Inr v \<longleftrightarrow> single params name = Inr v"
  by (auto simp: single_or_def split: sum.splits)

lemma first_repeat_None: "sorted xs \<Longrightarrow> first_repeat xs = None \<longleftrightarrow> distinct xs"
  by (induction xs rule: first_repeat.induct) (auto simp: order.antisym)

lemma param_values_absent: "name \<notin> fst ` set params \<Longrightarrow> param_values params name = []"
  by (force simp: param_values_def filter_empty_conv)

text \<open>Where no name repeats, a parameter is its value, and an empty one counts as left out.\<close>

definition given :: "raw_params \<Rightarrow> string \<Rightarrow> string option" where
  "given params name = (case map_of params name of None \<Rightarrow> None | Some v \<Rightarrow> if v = [] then None else Some v)"

lemma param_values_map_of:
  "distinct (map fst params) \<Longrightarrow>
   param_values params name = (case map_of params name of None \<Rightarrow> [] | Some v \<Rightarrow> [v])"
proof (induction params)
  case (Cons p params)
  then have "param_values params name = []" if "fst p = name"
    using that by (simp add: param_values_absent)
  then show ?case using Cons by (cases p) (auto simp: param_values_def)
qed (simp add: param_values_def)

lemma single_given: "distinct (map fst params) \<Longrightarrow> single params name = Inr (given params name)"
  by (auto simp: single_def given_def param_values_map_of split: option.splits)

lemma has_param_values: "has_param params name \<longleftrightarrow> (\<exists>v \<in> set (param_values params name). v \<noteq> [])"
  by (force simp: has_param_def param_values_def list_ex_iff)

lemma has_param_given: "distinct (map fst params) \<Longrightarrow> has_param params name \<longleftrightarrow> given params name \<noteq> None"
  by (cases "map_of params name") (simp_all add: has_param_values given_def param_values_map_of)

lemma validate_distinct: "validate params c u policy = Inr r \<Longrightarrow> distinct (map fst params)"
  by (auto simp: validate_def first_repeat_None split: option.splits)

section \<open>The phases of the validation\<close>

lemma check_unsupported_Inr:
  "distinct (map fst params) \<Longrightarrow> check_unsupported params = Inr x \<longleftrightarrow>
     given params ''request'' = None \<and> given params ''request_uri'' = None \<and> given params ''registration'' = None"
  by (auto simp: check_unsupported_def has_param_given)

lemma check_response_Inr:
  "distinct (map fst params) \<Longrightarrow> check_response params = Inr x \<longleftrightarrow>
     given params ''response_type'' = Some ''code'' \<and> given params ''response_mode'' \<in> {None, Some ''query''}"
  by (auto simp: check_response_def single_given split: option.splits)

lemma check_scopes_Inr:
  "distinct (map fst params) \<Longrightarrow> check_scopes params allowed = Inr scopes \<longleftrightarrow>
     (\<exists>raw requested. given params ''scope'' = Some raw \<and> scope_parse raw = Some requested \<and>
        OPENID \<in> set requested \<and> OPENID \<in> set allowed \<and> scopes = grantable requested allowed)"
  by (auto simp: check_scopes_def single_given grantable_def SUPPORTED_def Let_def split: option.splits if_splits)

lemma check_challenge_Inr:
  "distinct (map fst params) \<Longrightarrow> check_challenge params = Inr ch \<longleftrightarrow>
     ch = given params ''code_challenge'' \<and>
     (case ch of
        None \<Rightarrow> given params ''code_challenge_method'' = None
      | Some c \<Rightarrow> given params ''code_challenge_method'' = Some ''S256'' \<and> is_valid_s256_challenge c)"
  by (auto simp: check_challenge_def single_given split: option.splits if_splits)

lemma check_max_age_Inr:
  "distinct (map fst params) \<Longrightarrow> check_max_age params = Inr m \<longleftrightarrow>
     (case given params ''max_age'' of
        None \<Rightarrow> m = None
      | Some raw \<Rightarrow> (\<exists>v. m = Some v \<and> parse_i64 raw = Some v \<and> 0 \<le> v))"
  by (auto simp: check_max_age_def single_given split: option.splits if_splits)

lemma validate_chain:
  assumes "distinct (map fst params)"
  shows "validate params client_id redirect policy = Inr r \<longleftrightarrow>
     check_unsupported params = Inr () \<and> check_response params = Inr () \<and>
     check_scopes params (cp_allowed_scopes policy) = Inr (ar_scopes r) \<and>
     ar_state r = given params ''state'' \<and> fits max_state_len (ar_state r) \<and>
     ar_nonce r = given params ''nonce'' \<and> fits max_nonce_len (ar_nonce r) \<and>
     check_challenge params = Inr (ar_code_challenge r) \<and>
     (ar_code_challenge r \<noteq> None \<or> \<not> cp_require_pkce policy) \<and>
     (ar_code_challenge r \<noteq> None \<or> ar_nonce r \<noteq> None) \<and>
     prompt_parse (given params ''prompt'') = Inr (ar_prompt r) \<and>
     check_max_age params = Inr (ar_max_age r) \<and>
     ar_client_id r = client_id \<and> ar_redirect_uri r = redirect \<and>
     ar_id_token_hint r = given params ''id_token_hint'' \<and> fits max_id_token_hint_len (ar_id_token_hint r) \<and>
     ar_login_hint r = (let h = given params ''login_hint'' in if fits max_login_hint_len h then h else None)"
proof -
  have "first_repeat (sort (map fst params)) = None" using assms by (simp add: first_repeat_None)
  then show ?thesis
    unfolding validate_def Let_def
    by (cases r) (simp add: single_given [OF assms], blast)
qed

text \<open>
  C10. The authorization endpoint accepts exactly the requests of the authorization code flow it
  documents: no parameter twice and none of the unsupported ones, response type \<open>code\<close> answered in
  the query, a scope list with \<open>openid\<close> that the application may use, a well-formed S256 challenge
  or, where the application need not use PKCE, a nonce, a prompt in which \<open>none\<close> stands alone, a
  non-negative \<open>max_age\<close>. An accepted request asks for the supported, requested and registered
  scopes in canonical order and carries the other parameters unchanged, except a login hint that is
  too long.
\<close>

theorem validate_accepts:
  "validate params client_id redirect policy = Inr r \<longleftrightarrow>
     distinct (map fst params) \<and>
     given params ''request'' = None \<and> given params ''request_uri'' = None \<and>
     given params ''registration'' = None \<and>
     given params ''response_type'' = Some ''code'' \<and> given params ''response_mode'' \<in> {None, Some ''query''} \<and>
     (\<exists>raw requested. given params ''scope'' = Some raw \<and> scope_parse raw = Some requested \<and>
        OPENID \<in> set requested \<and> OPENID \<in> set (cp_allowed_scopes policy) \<and>
        ar_scopes r = filter (\<lambda>s. s \<in> set requested \<and> s \<in> set (cp_allowed_scopes policy)) SUPPORTED) \<and>
     ar_code_challenge r = given params ''code_challenge'' \<and>
     (case ar_code_challenge r of
        None \<Rightarrow> given params ''code_challenge_method'' = None \<and> \<not> cp_require_pkce policy \<and> ar_nonce r \<noteq> None
      | Some c \<Rightarrow> given params ''code_challenge_method'' = Some ''S256'' \<and> is_valid_s256_challenge c) \<and>
     prompt_parse (given params ''prompt'') = Inr (ar_prompt r) \<and>
     (case given params ''max_age'' of
        None \<Rightarrow> ar_max_age r = None
      | Some raw \<Rightarrow> (\<exists>v. ar_max_age r = Some v \<and> parse_i64 raw = Some v \<and> 0 \<le> v)) \<and>
     ar_client_id r = client_id \<and> ar_redirect_uri r = redirect \<and>
     ar_state r = given params ''state'' \<and> fits max_state_len (ar_state r) \<and>
     ar_nonce r = given params ''nonce'' \<and> fits max_nonce_len (ar_nonce r) \<and>
     ar_id_token_hint r = given params ''id_token_hint'' \<and> fits max_id_token_hint_len (ar_id_token_hint r) \<and>
     ar_login_hint r = (let h = given params ''login_hint'' in if fits max_login_hint_len h then h else None)"
proof (cases "distinct (map fst params)")
  case True
  show ?thesis
    unfolding validate_chain [OF True] check_unsupported_Inr [OF True] check_response_Inr [OF True]
      check_scopes_Inr [OF True] check_challenge_Inr [OF True] check_max_age_Inr [OF True]
    using True by (cases "ar_code_challenge r") (simp_all add: grantable_def, blast+)
next
  case False
  then show ?thesis using validate_distinct by blast
qed

text \<open>The prompt that an accepted request carries survives its storage as a list of values.\<close>

lemma prompt_values_roundtrip [simp]: "prompt_from_values (prompt_to_values p) = p"
  by (cases p) (simp add: prompt_from_values_def prompt_to_values_def)

lemma prompt_parse_none_alone:
  "prompt_parse raw = Inr p \<Longrightarrow> pr_none p \<Longrightarrow> \<not> pr_login p \<and> \<not> pr_consent p \<and> \<not> pr_select_account p"
  by (auto simp: prompt_parse_def prompt_default_def split: option.splits sum.splits if_splits)

end
