(* ===== verification/Oidc_Db.thy ===== *)
theory Oidc_Db
  imports Oidc_Request
begin

text \<open>
  Tables of the OpenID provider and the operations of \<open>store.rs\<close>. Unique columns, foreign keys and
  checks are those of the migrations \<open>oidc-provider\<close>, \<open>oidc-account-chooser\<close>,
  \<open>unified-identity-sessions\<close> and \<open>oidc-standard-logout\<close>: an insert that breaks one fails, a
  row that is deleted takes the rows that refer to it along or has their references cleared. A JSON
  column that holds a list of strings is that list. A table is listed in the order of insertion.
\<close>

section \<open>Rows\<close>

datatype account_status = AccountActive | AccountDisabled

datatype client_type = ClientConfidential | ClientPublic

datatype client_status = CsPending | CsActive | CsDisabled | CsSuspended | CsRejected

datatype auth_method = ClientSecretBasic | ClientSecretPost | AuthNone

datatype session_origin = PasswordLogin | OidcLogin | JwtBridge

datatype revoke_reason = RrLogout | RrLogoutBrowser | RrGlobalLogout | RrReplaced | RrEvicted | RrLegacyLogout

record oidc_user =
  ou_id :: uuid
  ou_username :: string
  ou_nickname :: string
  ou_password :: string
  ou_email :: string
  ou_updated_at :: timestamp
  ou_avatar :: "string option"
  ou_status :: account_status

record oidc_client =
  oc_id :: uuid
  oc_client_id :: string
  oc_owner_user_id :: uuid
  oc_name :: string
  oc_description :: "string option"
  oc_homepage_url :: "string option"
  oc_logo_url :: "string option"
  oc_client_type :: client_type
  oc_auth_method :: auth_method
  oc_redirect_uris :: "string list"
  oc_allowed_scopes :: "string list"
  oc_post_logout_redirect_uris :: "string list"
  oc_backchannel_logout_uri :: "string option"
  oc_require_pkce :: bool
  oc_secret_hash :: "string option"
  oc_previous_secret_hash :: "string option"
  oc_previous_secret_expires_at :: "timestamp option"
  oc_secret_rotated_at :: "timestamp option"
  oc_status :: client_status
  oc_status_reason :: "string option"
  oc_reviewed_by :: "uuid option"
  oc_reviewed_at :: "timestamp option"
  oc_created_at :: timestamp
  oc_updated_at :: timestamp

record browser_session =
  bs_id :: uuid
  bs_session_hash :: string
  bs_user_id :: uuid
  bs_auth_time :: timestamp
  bs_established_via :: session_origin
  bs_created_at :: timestamp
  bs_last_seen_at :: timestamp
  bs_expires_at :: timestamp
  bs_revoked_at :: "timestamp option"
  bs_container_id :: "uuid option"
  bs_sid :: string
  bs_revoked_reason :: "revoke_reason option"

record browser_container =
  bc_id :: uuid
  bc_secret_hash :: string
  bc_web_session_id :: "uuid option"
  bc_web_signed_out_at :: "timestamp option"
  bc_created_at :: timestamp
  bc_last_seen_at :: timestamp
  bc_expires_at :: timestamp
  bc_revoked_at :: "timestamp option"

record auth_txn =
  at_id :: uuid
  at_client_id :: uuid
  at_browser_binding_hash :: string
  at_csrf_hash :: string
  at_redirect_uri :: string
  at_scopes :: "string list"
  at_state :: "string option"
  at_nonce :: "string option"
  at_code_challenge :: "string option"
  at_prompt :: "string list"
  at_max_age :: "int option"
  at_login_hint :: "string option"
  at_id_token_hint_sub :: "string option"
  at_user_id :: "uuid option"
  at_session_id :: "uuid option"
  at_authenticated_at :: "timestamp option"
  at_created_at :: timestamp
  at_expires_at :: timestamp
  at_completed_at :: "timestamp option"
  at_choice_session_id :: "uuid option"
  at_selected_at :: "timestamp option"
  at_selected_session_id :: "uuid option"
  at_switch_requested_at :: "timestamp option"

record auth_code =
  ac_id :: uuid
  ac_code_hash :: string
  ac_client_id :: uuid
  ac_user_id :: uuid
  ac_session_id :: "uuid option"
  ac_redirect_uri :: string
  ac_scopes :: "string list"
  ac_nonce :: "string option"
  ac_code_challenge :: "string option"
  ac_auth_time :: timestamp
  ac_created_at :: timestamp
  ac_expires_at :: timestamp
  ac_consumed_at :: "timestamp option"

record access_token =
  tk_id :: uuid
  tk_token_hash :: string
  tk_client_id :: uuid
  tk_user_id :: uuid
  tk_code_id :: "uuid option"
  tk_scopes :: "string list"
  tk_created_at :: timestamp
  tk_expires_at :: timestamp
  tk_revoked_at :: "timestamp option"

record oidc_consent =
  cn_id :: uuid
  cn_user_id :: uuid
  cn_client_id :: uuid
  cn_scopes :: "string list"
  cn_granted_at :: timestamp
  cn_updated_at :: timestamp
  cn_last_used_at :: "timestamp option"
  cn_revoked_at :: "timestamp option"

record session_client =
  sc_session_id :: uuid
  sc_client_id :: uuid
  sc_first_issued_at :: timestamp
  sc_last_issued_at :: timestamp

record logout_request =
  lr_id :: uuid
  lr_browser_binding_hash :: string
  lr_csrf_hash :: string
  lr_client_id :: "uuid option"
  lr_hint_sub :: "string option"
  lr_hint_sid :: "string option"
  lr_post_logout_redirect_uri :: "string option"
  lr_state :: "string option"
  lr_created_at :: timestamp
  lr_expires_at :: timestamp
  lr_completed_at :: "timestamp option"

datatype delivery_status = DlPending | DlDelivered | DlFailed

datatype logout_reason = MainSite | EndSession

record backchannel_delivery =
  bd_id :: uuid
  bd_batch_id :: uuid
  bd_issuer :: string
  bd_client_id :: uuid
  bd_user_id :: "uuid option"
  bd_sub :: string
  bd_sid :: string
  bd_reason :: logout_reason
  bd_status :: delivery_status
  bd_attempts :: int
  bd_next_attempt_at :: timestamp
  bd_last_http_status :: "nat option"
  bd_last_jti :: "string option"
  bd_created_at :: timestamp
  bd_delivered_at :: "timestamp option"

record oidc_world =
  ow_now :: timestamp
  ow_next :: nat
  ow_users :: "oidc_user list"
  ow_clients :: "oidc_client list"
  ow_sessions :: "browser_session list"
  ow_containers :: "browser_container list"
  ow_txns :: "auth_txn list"
  ow_codes :: "auth_code list"
  ow_tokens :: "access_token list"
  ow_consents :: "oidc_consent list"
  ow_session_clients :: "session_client list"
  ow_logouts :: "logout_request list"
  ow_deliveries :: "backchannel_delivery list"

datatype oidc_error =
    OeUnique | OeForeignKey | OeCheck | OeNotUpdated | OeValidation input_error | OeInvalidState
  | OeNotFound | OeForbidden | OeUnauthorized | OeConflict | OeInternal

type_synonym 'a oop = "(oidc_world, oidc_error, 'a) op"

section \<open>What the provider is given\<close>

record oidc_config =
  cf_issuer :: string
  cf_session_ttl_secs :: int
  cf_transaction_ttl_secs :: int
  cf_authorization_code_ttl_secs :: int
  cf_access_token_ttl_secs :: int
  cf_id_token_ttl_secs :: int
  cf_secret_rotation_grace_secs :: int
  cf_allow_loopback_redirect_uris :: bool
  cf_require_client_approval :: bool
  cf_account_chooser :: bool
  cf_multi_account :: bool
  cf_max_browser_accounts :: nat
  cf_browser_container_ttl_secs :: int
  cf_unified_web_session :: bool
  cf_first_party_origins :: "string list"
  cf_backchannel_logout :: bool
  cf_logout_token_ttl_secs :: int

text \<open>
  \<open>random n k\<close> is the \<open>k\<close>-th draw of \<open>n\<close> random bytes in base64url, \<open>sha256_hex\<close>,
  \<open>s256\<close> and \<open>at_hash\<close> the digests of \<open>secret.rs\<close>, \<open>pkce.rs\<close> and \<open>claims.rs\<close>,
  \<open>argon2_verify\<close> and \<open>argon2_hash\<close> the password crate (\<open>None\<close> for an unreadable hash, a hash
  that fails), \<open>jwt_verify\<close> and \<open>jwt_sign\<close> the key ring, \<open>rate\<close> the answer of the rate gate
  to the \<open>k\<close>-th request (\<open>None\<close> when it is out of order), \<open>post\<close> the outbound client of the
  back channel (a status code, a refusal by its address policy, a transient failure),
  \<open>setting\<close> the settings table, \<open>lowercase\<close> \<open>str::to_lowercase\<close>, \<open>platform_jwt\<close> the
  expiry and issue time of a valid platform token, \<open>timestamp_ok\<close> the range of \<open>chrono\<close>.
\<close>

record logout_token_claims =
  lt_iss :: string
  lt_aud :: string
  lt_iat :: int
  lt_exp :: int
  lt_jti :: string
  lt_sid :: string
  lt_sub :: string

datatype post_attempt = PostRefused | PostTransient

record oidc_env =
  ev_config :: oidc_config
  ev_random :: "nat \<Rightarrow> nat \<Rightarrow> string"
  ev_sha256_hex :: "string \<Rightarrow> string"
  ev_s256 :: "string \<Rightarrow> string"
  ev_at_hash :: "string \<Rightarrow> string"
  ev_argon2_hash :: "string \<Rightarrow> nat \<Rightarrow> string option"
  ev_argon2_verify :: "string \<Rightarrow> string \<Rightarrow> bool option"
  ev_uuid_text :: "uuid \<Rightarrow> string"
  ev_uuid_parse :: "string \<Rightarrow> uuid option"
  ev_url_parse :: "string \<Rightarrow> url_parts option"
  ev_append_pairs :: "string \<Rightarrow> (string \<times> string) list \<Rightarrow> string"
  ev_base64 :: "string \<Rightarrow> string option"
  ev_jwt_verify :: "string \<Rightarrow> id_token_claims option"
  ev_jwt_sign :: "id_token_claims \<Rightarrow> string option"
  ev_post :: "nat \<Rightarrow> string \<Rightarrow> string \<Rightarrow> post_attempt + nat"
  ev_jwt_sign_logout :: "logout_token_claims \<Rightarrow> string option"
  ev_setting :: "string \<Rightarrow> string option"
  ev_lowercase :: "string \<Rightarrow> string"
  ev_platform_jwt :: "string \<Rightarrow> (int \<times> int option) option"
  ev_timestamp_ok :: "int \<Rightarrow> bool"
  ev_rate :: "nat \<Rightarrow> string \<Rightarrow> string \<Rightarrow> nat \<Rightarrow> nat \<Rightarrow> bool option"

definition o_now :: "(oidc_world, 'e, timestamp) op" where
  "o_now = readM ow_now"

text \<open>\<open>DateTime::timestamp\<close>: whole seconds, rounded down.\<close>

definition secs_of :: "timestamp \<Rightarrow> int" where
  "secs_of t = t div nanos_per_sec"

definition o_new_uuid :: "(oidc_world, 'e, uuid) op" where
  "o_new_uuid = (\<lambda>w. (Inr (ow_next w), w\<lparr>ow_next := ow_next w + 1\<rparr>))"

definition random_token :: "oidc_env \<Rightarrow> nat \<Rightarrow> (oidc_world, 'e, string) op" where
  "random_token env bytes = (\<lambda>w. (Inr (ev_random env bytes (ow_next w)), w\<lparr>ow_next := ow_next w + 1\<rparr>))"

definition new_opaque_secret :: "oidc_env \<Rightarrow> (oidc_world, 'e, string) op" where
  "new_opaque_secret env = random_token env 32"

definition new_authorization_code :: "oidc_env \<Rightarrow> (oidc_world, 'e, string) op" where
  "new_authorization_code env = random_token env 32"

definition new_access_token :: "oidc_env \<Rightarrow> (oidc_world, 'e, string) op" where
  "new_access_token env = bindM (random_token env 32) (\<lambda>t. returnM (''fat_'' @ t))"

definition new_client_id :: "oidc_env \<Rightarrow> (oidc_world, 'e, string) op" where
  "new_client_id env = bindM (random_token env 16) (\<lambda>t. returnM (''fctf_'' @ t))"

definition new_client_secret :: "oidc_env \<Rightarrow> (oidc_world, 'e, string) op" where
  "new_client_secret env = bindM (random_token env 32) (\<lambda>t. returnM (''fcs_'' @ t))"

definition hash_client_secret :: "oidc_env \<Rightarrow> string \<Rightarrow> string oop" where
  "hash_client_secret env secret =
     bindM (o_new_uuid) (\<lambda>salt. ok_orM (ev_argon2_hash env secret salt) OeInternal)"

section \<open>Lookups\<close>

definition user_of :: "oidc_world \<Rightarrow> uuid \<Rightarrow> oidc_user option" where
  "user_of w i = List.find (\<lambda>u. ou_id u = i) (ow_users w)"

definition client_of :: "oidc_world \<Rightarrow> uuid \<Rightarrow> oidc_client option" where
  "client_of w i = List.find (\<lambda>c. oc_id c = i) (ow_clients w)"

definition session_exists :: "oidc_world \<Rightarrow> uuid \<Rightarrow> bool" where
  "session_exists w i \<longleftrightarrow> list_ex (\<lambda>s. bs_id s = i) (ow_sessions w)"

definition opt_ok :: "('a \<Rightarrow> bool) \<Rightarrow> 'a option \<Rightarrow> bool" where
  "opt_ok p v = (case v of None \<Rightarrow> True | Some x \<Rightarrow> p x)"

section \<open>Sessions\<close>

definition session_live :: "oidc_world \<Rightarrow> browser_session \<Rightarrow> bool" where
  "session_live w s \<longleftrightarrow> bs_revoked_at s = None \<and> ow_now w < bs_expires_at s"

definition create_session_in ::
  "oidc_env \<Rightarrow> uuid \<Rightarrow> timestamp \<Rightarrow> int \<Rightarrow> session_origin \<Rightarrow> uuid option \<Rightarrow> (string \<times> browser_session) oop" where
  "create_session_in env user_id auth_time ttl_secs origin container_id =
     bindM (new_opaque_secret env) (\<lambda>secret_value.
     bindM o_now (\<lambda>now.
     bindM o_new_uuid (\<lambda>i.
     bindM (random_token env 16) (\<lambda>sid.
     let s = \<lparr>bs_id = i, bs_session_hash = ev_sha256_hex env secret_value, bs_user_id = user_id,
         bs_auth_time = auth_time, bs_established_via = origin, bs_created_at = now,
         bs_last_seen_at = now, bs_expires_at = now + seconds ttl_secs, bs_revoked_at = None,
         bs_container_id = container_id, bs_sid = sid, bs_revoked_reason = None\<rparr> in
     bindM (readM (\<lambda>w. w)) (\<lambda>w.
     bindM (guardM (\<not> list_ex (\<lambda>r. bs_session_hash r = bs_session_hash s \<or> bs_sid r = sid) (ow_sessions w)) OeUnique) (\<lambda>_.
     bindM (guardM (user_of w user_id \<noteq> None \<and>
         opt_ok (\<lambda>c. list_ex (\<lambda>r. bc_id r = c) (ow_containers w)) container_id) OeForeignKey) (\<lambda>_.
     bindM (modifyM (\<lambda>w. w\<lparr>ow_sessions := ow_sessions w @ [s]\<rparr>)) (\<lambda>_.
     returnM (secret_value, s)))))))))"

definition create_session ::
  "oidc_env \<Rightarrow> uuid \<Rightarrow> timestamp \<Rightarrow> int \<Rightarrow> session_origin \<Rightarrow> (string \<times> browser_session) oop" where
  "create_session env user_id auth_time ttl_secs origin =
     create_session_in env user_id auth_time ttl_secs origin None"

definition with_user :: "oidc_world \<Rightarrow> browser_session \<Rightarrow> (browser_session \<times> oidc_user) option" where
  "with_user w s = map_option (\<lambda>u. (s, u)) (user_of w (bs_user_id s))"

definition find_valid_session :: "oidc_env \<Rightarrow> string \<Rightarrow> (browser_session \<times> oidc_user) option oop" where
  "find_valid_session env cookie_value =
     (if \<not> is_plausible_token cookie_value then returnM None
      else readM (\<lambda>w. Option.bind
        (List.find (\<lambda>s. bs_session_hash s = ev_sha256_hex env cookie_value \<and> session_live w s) (ow_sessions w))
        (with_user w)))"

definition find_session_by_id :: "uuid \<Rightarrow> browser_session option oop" where
  "find_session_by_id i = readM (\<lambda>w. List.find (\<lambda>s. bs_id s = i \<and> session_live w s) (ow_sessions w))"

definition touch_session :: "uuid \<Rightarrow> unit oop" where
  "touch_session i = modifyM (\<lambda>w. w\<lparr>ow_sessions :=
     update_where (\<lambda>s. bs_id s = i) (\<lambda>s. s\<lparr>bs_last_seen_at := ow_now w\<rparr>) (ow_sessions w)\<rparr>)"

definition revoke_where :: "(browser_session \<Rightarrow> bool) \<Rightarrow> revoke_reason \<Rightarrow> nat oop" where
  "revoke_where p reason = (\<lambda>w.
     let hit = (\<lambda>s. p s \<and> bs_revoked_at s = None) in
     (Inr (length (filter hit (ow_sessions w))),
      w\<lparr>ow_sessions := update_where hit
         (\<lambda>s. s\<lparr>bs_revoked_at := Some (ow_now w), bs_revoked_reason := Some reason\<rparr>) (ow_sessions w)\<rparr>))"

definition revoke_session :: "oidc_env \<Rightarrow> string \<Rightarrow> revoke_reason \<Rightarrow> bool oop" where
  "revoke_session env cookie_value reason =
     (if \<not> is_plausible_token cookie_value then returnM False
      else bindM (revoke_where (\<lambda>s. bs_session_hash s = ev_sha256_hex env cookie_value) reason) (\<lambda>n.
           returnM (0 < n)))"

definition record_session_client :: "uuid \<Rightarrow> uuid \<Rightarrow> unit oop" where
  "record_session_client session_id client_pk = (\<lambda>w.
     let same = (\<lambda>r. sc_session_id r = session_id \<and> sc_client_id r = client_pk) in
     if list_ex same (ow_session_clients w) then
       (Inr (), w\<lparr>ow_session_clients :=
          update_where same (\<lambda>r. r\<lparr>sc_last_issued_at := ow_now w\<rparr>) (ow_session_clients w)\<rparr>)
     else if session_exists w session_id \<and> client_of w client_pk \<noteq> None then
       (Inr (), w\<lparr>ow_session_clients := ow_session_clients w @
          [\<lparr>sc_session_id = session_id, sc_client_id = client_pk, sc_first_issued_at = ow_now w,
            sc_last_issued_at = ow_now w\<rparr>]\<rparr>)
     else (Inl OeForeignKey, w))"

definition session_sid :: "uuid \<Rightarrow> string option oop" where
  "session_sid i = readM (\<lambda>w. map_option bs_sid (List.find (\<lambda>s. bs_id s = i) (ow_sessions w)))"

section \<open>Authorization transactions\<close>

definition create_transaction ::
  "oidc_env \<Rightarrow> oidc_client \<Rightarrow> authorization_request \<Rightarrow> string option \<Rightarrow> string \<Rightarrow> int \<Rightarrow> auth_txn oop" where
  "create_transaction env client request id_token_hint_sub browser_binding ttl_secs =
     bindM o_now (\<lambda>now.
     bindM o_new_uuid (\<lambda>i.
     bindM (new_opaque_secret env) (\<lambda>placeholder.
     let t = \<lparr>at_id = i, at_client_id = oc_id client,
         at_browser_binding_hash = ev_sha256_hex env browser_binding,
         at_csrf_hash = ev_sha256_hex env placeholder,
         at_redirect_uri = ar_redirect_uri request, at_scopes = ar_scopes request,
         at_state = ar_state request, at_nonce = ar_nonce request,
         at_code_challenge = ar_code_challenge request,
         at_prompt = prompt_to_values (ar_prompt request),
         at_max_age = map_option (\<lambda>v. as_i32 (min v (2 ^ 31 - 1))) (ar_max_age request),
         at_login_hint = ar_login_hint request, at_id_token_hint_sub = id_token_hint_sub,
         at_user_id = None, at_session_id = None, at_authenticated_at = None, at_created_at = now,
         at_expires_at = now + seconds ttl_secs, at_completed_at = None, at_choice_session_id = None,
         at_selected_at = None, at_selected_session_id = None, at_switch_requested_at = None\<rparr> in
     bindM (readM (\<lambda>w. client_of w (oc_id client))) (\<lambda>c.
     bindM (guardM (c \<noteq> None) OeForeignKey) (\<lambda>_.
     bindM (modifyM (\<lambda>w. w\<lparr>ow_txns := ow_txns w @ [t]\<rparr>)) (\<lambda>_.
     returnM t))))))"

definition find_live_transaction :: "oidc_env \<Rightarrow> uuid \<Rightarrow> string option \<Rightarrow> (auth_txn \<times> oidc_client) option oop" where
  "find_live_transaction env i browser_binding =
     (case browser_binding of
        None \<Rightarrow> returnM None
      | Some binding \<Rightarrow>
          if \<not> is_plausible_token binding then returnM None
          else readM (\<lambda>w.
            Option.bind (List.find (\<lambda>t. at_id t = i \<and> at_completed_at t = None \<and> ow_now w < at_expires_at t \<and>
                at_browser_binding_hash t = ev_sha256_hex env binding) (ow_txns w)) (\<lambda>txn.
            Option.bind (client_of w (at_client_id txn)) (\<lambda>client.
            if oc_status client = CsActive then Some (txn, client) else None))))"

definition update_txns :: "(auth_txn \<Rightarrow> bool) \<Rightarrow> (auth_txn \<Rightarrow> auth_txn) \<Rightarrow> (oidc_world, 'e, auth_txn list) op" where
  "update_txns p f = (\<lambda>w. (Inr (map f (filter p (ow_txns w))), w\<lparr>ow_txns := update_where p f (ow_txns w)\<rparr>))"

definition issue_csrf :: "oidc_env \<Rightarrow> uuid \<Rightarrow> string oop" where
  "issue_csrf env txn_id =
     bindM (new_opaque_secret env) (\<lambda>token.
     bindM (update_txns (\<lambda>t. at_id t = txn_id) (\<lambda>t. t\<lparr>at_csrf_hash := ev_sha256_hex env token\<rparr>)) (\<lambda>_.
     returnM token))"

definition csrf_matches :: "oidc_env \<Rightarrow> auth_txn \<Rightarrow> string \<Rightarrow> bool" where
  "csrf_matches env txn presented \<longleftrightarrow>
     is_plausible_token presented \<and> ev_sha256_hex env presented = at_csrf_hash txn"

definition bind_transaction_user :: "auth_txn \<Rightarrow> uuid \<Rightarrow> uuid \<Rightarrow> bool \<Rightarrow> auth_txn oop" where
  "bind_transaction_user txn user_id session_id fresh_login =
     bindM o_now (\<lambda>now.
     bindM (update_txns (\<lambda>t. at_id t = at_id txn)
       (\<lambda>t. (if fresh_login then t\<lparr>at_authenticated_at := Some now\<rparr> else t)
         \<lparr>at_user_id := Some user_id, at_session_id := Some session_id\<rparr>)) (\<lambda>rows.
     case rows of [] \<Rightarrow> throwM OeNotUpdated | r # _ \<Rightarrow> returnM r))"

definition live_txn :: "uuid \<Rightarrow> timestamp \<Rightarrow> auth_txn \<Rightarrow> bool" where
  "live_txn i now t \<longleftrightarrow> at_id t = i \<and> at_completed_at t = None \<and> now < at_expires_at t"

definition issue_account_choice_csrf :: "oidc_env \<Rightarrow> uuid \<Rightarrow> uuid \<Rightarrow> string oop" where
  "issue_account_choice_csrf env txn_id session_id =
     bindM (new_opaque_secret env) (\<lambda>token.
     bindM (update_txns (\<lambda>t. at_id t = txn_id)
       (\<lambda>t. t\<lparr>at_csrf_hash := ev_sha256_hex env token, at_choice_session_id := Some session_id\<rparr>)) (\<lambda>_.
     returnM token))"

definition confirm_account_selection ::
  "oidc_env \<Rightarrow> uuid \<Rightarrow> uuid \<Rightarrow> uuid \<Rightarrow> string \<Rightarrow> auth_txn option oop" where
  "confirm_account_selection env txn_id session_id user_id presented_csrf =
     bindM o_now (\<lambda>now.
     bindM (new_opaque_secret env) (\<lambda>fresh.
     bindM (update_txns
       (\<lambda>t. live_txn txn_id now t \<and> at_switch_requested_at t = None \<and> at_selected_at t = None \<and>
          at_choice_session_id t = Some session_id \<and> at_csrf_hash t = ev_sha256_hex env presented_csrf)
       (\<lambda>t. t\<lparr>at_selected_at := Some now, at_selected_session_id := Some session_id,
          at_user_id := Some user_id, at_session_id := Some session_id,
          at_csrf_hash := ev_sha256_hex env fresh\<rparr>)) (\<lambda>rows.
     returnM (case rows of [] \<Rightarrow> None | r # _ \<Rightarrow> Some r))))"

definition confirm_account_selection_explicit ::
  "oidc_env \<Rightarrow> uuid \<Rightarrow> uuid \<Rightarrow> uuid \<Rightarrow> string \<Rightarrow> auth_txn option oop" where
  "confirm_account_selection_explicit env txn_id session_id user_id presented_csrf =
     bindM o_now (\<lambda>now.
     bindM (new_opaque_secret env) (\<lambda>fresh.
     bindM (update_txns
       (\<lambda>t. live_txn txn_id now t \<and> at_switch_requested_at t = None \<and> at_selected_at t = None \<and>
          at_csrf_hash t = ev_sha256_hex env presented_csrf)
       (\<lambda>t. t\<lparr>at_selected_at := Some now, at_selected_session_id := Some session_id,
          at_choice_session_id := Some session_id, at_user_id := Some user_id,
          at_session_id := Some session_id, at_csrf_hash := ev_sha256_hex env fresh\<rparr>)) (\<lambda>rows.
     returnM (case rows of [] \<Rightarrow> None | r # _ \<Rightarrow> Some r))))"

definition request_account_switch :: "oidc_env \<Rightarrow> uuid \<Rightarrow> string \<Rightarrow> bool oop" where
  "request_account_switch env txn_id presented_csrf =
     bindM o_now (\<lambda>now.
     bindM (new_opaque_secret env) (\<lambda>fresh.
     bindM (update_txns
       (\<lambda>t. live_txn txn_id now t \<and> at_csrf_hash t = ev_sha256_hex env presented_csrf)
       (\<lambda>t. t\<lparr>at_switch_requested_at := Some now, at_selected_at := None,
          at_selected_session_id := None, at_csrf_hash := ev_sha256_hex env fresh\<rparr>)) (\<lambda>rows.
     returnM (length rows = 1))))"

definition bind_password_login :: "uuid \<Rightarrow> uuid \<Rightarrow> uuid \<Rightarrow> auth_txn option oop" where
  "bind_password_login txn_id user_id session_id =
     bindM o_now (\<lambda>now.
     bindM (update_txns (live_txn txn_id now)
       (\<lambda>t. t\<lparr>at_user_id := Some user_id, at_session_id := Some session_id,
          at_authenticated_at := Some now, at_selected_at := Some now,
          at_selected_session_id := Some session_id\<rparr>)) (\<lambda>rows.
     returnM (case rows of [] \<Rightarrow> None | r # _ \<Rightarrow> Some r)))"

definition complete_transaction :: "uuid \<Rightarrow> bool oop" where
  "complete_transaction i =
     bindM o_now (\<lambda>now.
     bindM (update_txns (\<lambda>t. at_id t = i \<and> at_completed_at t = None)
       (\<lambda>t. t\<lparr>at_completed_at := Some now\<rparr>)) (\<lambda>rows.
     returnM (length rows = 1)))"

section \<open>Logout requests\<close>

record new_logout_request =
  nl_browser_binding :: string
  nl_client_pk :: "uuid option"
  nl_hint_sub :: "string option"
  nl_hint_sid :: "string option"
  nl_post_logout_redirect_uri :: "string option"
  nl_state :: "string option"
  nl_ttl_secs :: int

definition create_logout_request :: "oidc_env \<Rightarrow> new_logout_request \<Rightarrow> (logout_request \<times> string) oop" where
  "create_logout_request env new =
     bindM (new_opaque_secret env) (\<lambda>csrf.
     bindM o_now (\<lambda>now.
     bindM o_new_uuid (\<lambda>i.
     let r = \<lparr>lr_id = i, lr_browser_binding_hash = ev_sha256_hex env (nl_browser_binding new),
         lr_csrf_hash = ev_sha256_hex env csrf, lr_client_id = nl_client_pk new,
         lr_hint_sub = nl_hint_sub new, lr_hint_sid = nl_hint_sid new,
         lr_post_logout_redirect_uri = nl_post_logout_redirect_uri new, lr_state = nl_state new,
         lr_created_at = now, lr_expires_at = now + seconds (nl_ttl_secs new), lr_completed_at = None\<rparr> in
     bindM (readM (\<lambda>w. opt_ok (\<lambda>c. client_of w c \<noteq> None) (nl_client_pk new))) (\<lambda>fk.
     bindM (guardM fk OeForeignKey) (\<lambda>_.
     bindM (modifyM (\<lambda>w. w\<lparr>ow_logouts := ow_logouts w @ [r]\<rparr>)) (\<lambda>_.
     returnM (r, csrf)))))))"

definition complete_logout_request ::
  "oidc_env \<Rightarrow> uuid \<Rightarrow> string option \<Rightarrow> string \<Rightarrow> logout_request option oop" where
  "complete_logout_request env i browser_binding presented_csrf =
     (case browser_binding of
        None \<Rightarrow> returnM None
      | Some binding \<Rightarrow>
          if \<not> is_plausible_token binding \<or> \<not> is_plausible_token presented_csrf then returnM None
          else (\<lambda>w.
            let hit = (\<lambda>r. lr_id r = i \<and> lr_completed_at r = None \<and> ow_now w < lr_expires_at r \<and>
                  lr_browser_binding_hash r = ev_sha256_hex env binding \<and>
                  lr_csrf_hash r = ev_sha256_hex env presented_csrf);
                done_at = (\<lambda>r. r\<lparr>lr_completed_at := Some (ow_now w)\<rparr>) in
            (Inr (map_option done_at (List.find hit (ow_logouts w))),
             w\<lparr>ow_logouts := update_where hit done_at (ow_logouts w)\<rparr>)))"

section \<open>Authorization codes\<close>

record new_code =
  nc_client_pk :: uuid
  nc_user_id :: uuid
  nc_session_id :: "uuid option"
  nc_redirect_uri :: string
  nc_scopes :: "string list"
  nc_nonce :: "string option"
  nc_code_challenge :: "string option"
  nc_auth_time :: timestamp
  nc_ttl_secs :: int

definition insert_code :: "oidc_env \<Rightarrow> new_code \<Rightarrow> string oop" where
  "insert_code env new =
     bindM (new_authorization_code env) (\<lambda>code.
     bindM o_now (\<lambda>now.
     bindM o_new_uuid (\<lambda>i.
     let c = \<lparr>ac_id = i, ac_code_hash = ev_sha256_hex env code, ac_client_id = nc_client_pk new,
         ac_user_id = nc_user_id new, ac_session_id = nc_session_id new,
         ac_redirect_uri = nc_redirect_uri new, ac_scopes = nc_scopes new, ac_nonce = nc_nonce new,
         ac_code_challenge = nc_code_challenge new, ac_auth_time = nc_auth_time new,
         ac_created_at = now, ac_expires_at = now + seconds (nc_ttl_secs new), ac_consumed_at = None\<rparr> in
     bindM (readM (\<lambda>w. w)) (\<lambda>w.
     bindM (guardM (\<not> list_ex (\<lambda>r. ac_code_hash r = ac_code_hash c) (ow_codes w)) OeUnique) (\<lambda>_.
     bindM (guardM (client_of w (nc_client_pk new) \<noteq> None \<and> user_of w (nc_user_id new) \<noteq> None \<and>
         opt_ok (session_exists w) (nc_session_id new)) OeForeignKey) (\<lambda>_.
     bindM (modifyM (\<lambda>w. w\<lparr>ow_codes := ow_codes w @ [c]\<rparr>)) (\<lambda>_.
     returnM code)))))))"

definition find_code :: "oidc_env \<Rightarrow> string \<Rightarrow> auth_code option oop" where
  "find_code env code =
     (if \<not> is_plausible_token code then returnM None
      else readM (\<lambda>w. List.find (\<lambda>c. ac_code_hash c = ev_sha256_hex env code) (ow_codes w)))"

definition revoke_tokens_of_code :: "uuid \<Rightarrow> (oidc_world, 'e, nat) op" where
  "revoke_tokens_of_code code_id = (\<lambda>w.
     let hit = (\<lambda>t. tk_code_id t = Some code_id \<and> tk_revoked_at t = None) in
     (Inr (length (filter hit (ow_tokens w))),
      w\<lparr>ow_tokens := update_where hit (\<lambda>t. t\<lparr>tk_revoked_at := Some (ow_now w)\<rparr>) (ow_tokens w)\<rparr>))"

text \<open>
  One database transaction. The conditional update hits at most the row of the code, so only one of
  several exchanges of the same code gets past it, whatever snapshot \<open>code\<close> it holds.
\<close>

definition consume_code_and_issue_token ::
  "oidc_env \<Rightarrow> auth_code \<Rightarrow> int \<Rightarrow> (string \<times> timestamp) option oop" where
  "consume_code_and_issue_token env code access_token_ttl_secs = (\<lambda>w0.
     let now = ow_now w0;
         hit = (\<lambda>c. ac_id c = ac_id code \<and> ac_consumed_at c = None \<and> now < ac_expires_at c) in
     if length (filter hit (ow_codes w0)) \<noteq> 1 then (Inr None, w0)
     else txnM (
       bindM (modifyM (\<lambda>w. w\<lparr>ow_codes :=
         update_where hit (\<lambda>c. c\<lparr>ac_consumed_at := Some now\<rparr>) (ow_codes w)\<rparr>)) (\<lambda>_.
       bindM (new_access_token env) (\<lambda>token.
       bindM o_new_uuid (\<lambda>i.
       let t = \<lparr>tk_id = i, tk_token_hash = ev_sha256_hex env token, tk_client_id = ac_client_id code,
           tk_user_id = ac_user_id code, tk_code_id = Some (ac_id code), tk_scopes = ac_scopes code,
           tk_created_at = now, tk_expires_at = now + seconds access_token_ttl_secs,
           tk_revoked_at = None\<rparr> in
       bindM (readM (\<lambda>w. w)) (\<lambda>w.
       bindM (guardM (\<not> list_ex (\<lambda>r. tk_token_hash r = tk_token_hash t) (ow_tokens w)) OeUnique) (\<lambda>_.
       bindM (guardM (client_of w (ac_client_id code) \<noteq> None \<and> user_of w (ac_user_id code) \<noteq> None) OeForeignKey) (\<lambda>_.
       bindM (modifyM (\<lambda>w. w\<lparr>ow_tokens := ow_tokens w @ [t],
           ow_consents := update_where (\<lambda>r. cn_user_id r = ac_user_id code \<and> cn_client_id r = ac_client_id code)
             (\<lambda>r. r\<lparr>cn_last_used_at := Some now\<rparr>) (ow_consents w)\<rparr>)) (\<lambda>_.
       returnM (Some (token, now + seconds access_token_ttl_secs)))))))))) w0)"

section \<open>Consents and access tokens\<close>

definition active_consent :: "oidc_world \<Rightarrow> uuid \<Rightarrow> uuid \<Rightarrow> oidc_consent option" where
  "active_consent w user_id client_pk =
     List.find (\<lambda>c. cn_user_id c = user_id \<and> cn_client_id c = client_pk \<and> cn_revoked_at c = None) (ow_consents w)"

definition find_active_consent :: "uuid \<Rightarrow> uuid \<Rightarrow> oidc_consent option oop" where
  "find_active_consent user_id client_pk = readM (\<lambda>w. active_consent w user_id client_pk)"

definition find_usable_token :: "oidc_env \<Rightarrow> string \<Rightarrow> (access_token \<times> oidc_client \<times> oidc_user) option oop" where
  "find_usable_token env token =
     (if \<not> is_plausible_token token then returnM None
      else readM (\<lambda>w.
        Option.bind (List.find (\<lambda>t. tk_token_hash t = ev_sha256_hex env token \<and> tk_revoked_at t = None \<and>
            ow_now w < tk_expires_at t) (ow_tokens w)) (\<lambda>row.
        Option.bind (client_of w (tk_client_id row)) (\<lambda>client.
        if oc_status client \<noteq> CsActive then None
        else if active_consent w (tk_user_id row) (oc_id client) = None then None
        else map_option (\<lambda>user. (row, client, user)) (user_of w (tk_user_id row))))))"

definition revoke_user_client_grants :: "uuid \<Rightarrow> uuid \<Rightarrow> unit oop" where
  "revoke_user_client_grants user_id client_pk = modifyM (\<lambda>w. w\<lparr>
     ow_tokens := update_where
       (\<lambda>t. tk_user_id t = user_id \<and> tk_client_id t = client_pk \<and> tk_revoked_at t = None)
       (\<lambda>t. t\<lparr>tk_revoked_at := Some (ow_now w)\<rparr>) (ow_tokens w),
     ow_codes := update_where
       (\<lambda>c. ac_user_id c = user_id \<and> ac_client_id c = client_pk \<and> ac_consumed_at c = None)
       (\<lambda>c. c\<lparr>ac_consumed_at := Some (ow_now w)\<rparr>) (ow_codes w)\<rparr>)"

definition grant_consent :: "uuid \<Rightarrow> uuid \<Rightarrow> string list \<Rightarrow> string list oop" where
  "grant_consent user_id client_pk scopes = (\<lambda>w.
     let pair = (\<lambda>c. cn_user_id c = user_id \<and> cn_client_id c = client_pk); now = ow_now w in
     case List.find pair (ow_consents w) of
       Some row \<Rightarrow>
         let merged = (if cn_revoked_at row = None then scope_union (cn_scopes row) scopes
             else scope_union scopes []) in
         (Inr merged, w\<lparr>ow_consents := update_where (\<lambda>c. cn_id c = cn_id row)
            (\<lambda>c. (if cn_revoked_at row \<noteq> None then c\<lparr>cn_revoked_at := None, cn_granted_at := now\<rparr> else c)
               \<lparr>cn_scopes := merged, cn_updated_at := now\<rparr>) (ow_consents w)\<rparr>)
     | None \<Rightarrow>
         let merged = scope_union scopes [] in
         if user_of w user_id = None \<or> client_of w client_pk = None then (Inl OeForeignKey, w)
         else (Inr merged, w\<lparr>ow_next := ow_next w + 1, ow_consents := ow_consents w @
            [\<lparr>cn_id = ow_next w, cn_user_id = user_id, cn_client_id = client_pk, cn_scopes = merged,
              cn_granted_at = now, cn_updated_at = now, cn_last_used_at = None, cn_revoked_at = None\<rparr>]\<rparr>))"

definition revoke_consent :: "uuid \<Rightarrow> uuid \<Rightarrow> bool oop" where
  "revoke_consent user_id client_pk =
     bindM (readM (\<lambda>w. active_consent w user_id client_pk \<noteq> None)) (\<lambda>hit.
     bindM (modifyM (\<lambda>w. w\<lparr>ow_consents := update_where
         (\<lambda>c. cn_user_id c = user_id \<and> cn_client_id c = client_pk \<and> cn_revoked_at c = None)
         (\<lambda>c. c\<lparr>cn_revoked_at := Some (ow_now w)\<rparr>) (ow_consents w)\<rparr>)) (\<lambda>_.
     bindM (revoke_user_client_grants user_id client_pk) (\<lambda>_.
     returnM hit)))"

definition list_user_consents :: "uuid \<Rightarrow> (oidc_consent \<times> oidc_client) list oop" where
  "list_user_consents user_id = readM (\<lambda>w.
     List.map_filter (\<lambda>c. map_option (\<lambda>cl. (c, cl)) (client_of w (cn_client_id c)))
       (sort_key (\<lambda>c. - cn_updated_at c)
         (filter (\<lambda>c. cn_user_id c = user_id \<and> cn_revoked_at c = None) (ow_consents w))))"

section \<open>Deletion and clean-up\<close>

definition clear_if :: "('a \<Rightarrow> bool) \<Rightarrow> 'a option \<Rightarrow> 'a option" where
  "clear_if p v = (case v of None \<Rightarrow> None | Some x \<Rightarrow> if p x then None else Some x)"

text \<open>What the foreign keys do when rows are deleted.\<close>

definition drop_codes :: "(auth_code \<Rightarrow> bool) \<Rightarrow> oidc_world \<Rightarrow> oidc_world" where
  "drop_codes p w = w\<lparr>ow_codes := filter (\<lambda>c. \<not> p c) (ow_codes w),
     ow_tokens := map (\<lambda>t. t\<lparr>tk_code_id :=
       clear_if (\<lambda>i. list_ex (\<lambda>c. ac_id c = i \<and> p c) (ow_codes w)) (tk_code_id t)\<rparr>) (ow_tokens w)\<rparr>"

definition drop_sessions :: "(browser_session \<Rightarrow> bool) \<Rightarrow> oidc_world \<Rightarrow> oidc_world" where
  "drop_sessions p w =
     (let gone = (\<lambda>i. list_ex (\<lambda>s. bs_id s = i \<and> p s) (ow_sessions w)) in
      w\<lparr>ow_sessions := filter (\<lambda>s. \<not> p s) (ow_sessions w),
        ow_codes := map (\<lambda>c. c\<lparr>ac_session_id := clear_if gone (ac_session_id c)\<rparr>) (ow_codes w),
        ow_txns := map (\<lambda>t. t\<lparr>at_session_id := clear_if gone (at_session_id t),
          at_choice_session_id := clear_if gone (at_choice_session_id t),
          at_selected_session_id := clear_if gone (at_selected_session_id t)\<rparr>) (ow_txns w),
        ow_containers := map (\<lambda>c. c\<lparr>bc_web_session_id := clear_if gone (bc_web_session_id c)\<rparr>) (ow_containers w),
        ow_session_clients := filter (\<lambda>r. \<not> gone (sc_session_id r)) (ow_session_clients w)\<rparr>)"

definition drop_containers :: "(browser_container \<Rightarrow> bool) \<Rightarrow> oidc_world \<Rightarrow> oidc_world" where
  "drop_containers p w =
     (let gone = (\<lambda>i. list_ex (\<lambda>c. bc_id c = i \<and> p c) (ow_containers w)) in
      w\<lparr>ow_containers := filter (\<lambda>c. \<not> p c) (ow_containers w),
        ow_sessions := map (\<lambda>s. s\<lparr>bs_container_id := clear_if gone (bs_container_id s)\<rparr>) (ow_sessions w)\<rparr>)"

definition drop_clients :: "(oidc_client \<Rightarrow> bool) \<Rightarrow> oidc_world \<Rightarrow> oidc_world" where
  "drop_clients p w =
     (let gone = (\<lambda>i. list_ex (\<lambda>c. oc_id c = i \<and> p c) (ow_clients w)) in
      (drop_codes (\<lambda>c. gone (ac_client_id c)) w)\<lparr>
        ow_clients := filter (\<lambda>c. \<not> p c) (ow_clients w),
        ow_txns := filter (\<lambda>t. \<not> gone (at_client_id t)) (ow_txns w),
        ow_tokens := filter (\<lambda>t. \<not> gone (tk_client_id t)) (ow_tokens (drop_codes (\<lambda>c. gone (ac_client_id c)) w)),
        ow_consents := filter (\<lambda>c. \<not> gone (cn_client_id c)) (ow_consents w),
        ow_session_clients := filter (\<lambda>r. \<not> gone (sc_client_id r)) (ow_session_clients w),
        ow_logouts := map (\<lambda>r. r\<lparr>lr_client_id := clear_if gone (lr_client_id r)\<rparr>) (ow_logouts w),
        ow_deliveries := filter (\<lambda>d. \<not> gone (bd_client_id d)) (ow_deliveries w)\<rparr>)"

definition drop_users :: "(oidc_user \<Rightarrow> bool) \<Rightarrow> oidc_world \<Rightarrow> oidc_world" where
  "drop_users p w =
     (let gone = (\<lambda>i. list_ex (\<lambda>u. ou_id u = i \<and> p u) (ow_users w));
          w1 = drop_clients (\<lambda>c. gone (oc_owner_user_id c)) w;
          w2 = drop_sessions (\<lambda>s. gone (bs_user_id s)) w1;
          w3 = drop_codes (\<lambda>c. gone (ac_user_id c)) w2 in
      w3\<lparr>ow_users := filter (\<lambda>u. \<not> p u) (ow_users w3),
         ow_clients := map (\<lambda>c. c\<lparr>oc_reviewed_by := clear_if gone (oc_reviewed_by c)\<rparr>) (ow_clients w3),
         ow_txns := filter (\<lambda>t. case at_user_id t of None \<Rightarrow> True | Some i \<Rightarrow> \<not> gone i) (ow_txns w3),
         ow_tokens := filter (\<lambda>t. \<not> gone (tk_user_id t)) (ow_tokens w3),
         ow_consents := filter (\<lambda>c. \<not> gone (cn_user_id c)) (ow_consents w3)\<rparr>)"

definition cleanup_expired :: "unit oop" where
  "cleanup_expired = modifyM (\<lambda>w.
     let day_ago = ow_now w - seconds 86400; week_ago = ow_now w - seconds 604800;
         old = (\<lambda>t :: timestamp option. case t of None \<Rightarrow> False | Some x \<Rightarrow> x < week_ago) in
     drop_containers (\<lambda>c. bc_expires_at c < week_ago \<or> old (bc_revoked_at c))
     (drop_sessions (\<lambda>s. bs_expires_at s < week_ago \<or> old (bs_revoked_at s))
     (drop_codes (\<lambda>c. ac_expires_at c < day_ago)
     (w\<lparr>ow_txns := filter (\<lambda>t. \<not> at_expires_at t < day_ago) (ow_txns w),
        ow_tokens := filter (\<lambda>t. \<not> tk_expires_at t < day_ago) (ow_tokens w),
        ow_logouts := filter (\<lambda>r. \<not> lr_expires_at r < day_ago) (ow_logouts w),
        ow_deliveries := filter (\<lambda>d. \<not> (bd_created_at d < ow_now w - seconds 2592000 \<and>
          bd_status d \<noteq> DlPending)) (ow_deliveries w)\<rparr>))))"

end
