(* ===== verification/Oidc_Clients.thy ===== *)
theory Oidc_Clients
  imports Oidc_Db
begin

text \<open>
  Registered applications, \<open>modules/identity/oidc/clients.rs\<close>: the rules for what an owner enters,
  the status machine, secrets and their rotation, and the writes. The check constraint of the table
  keeps public clients without a secret and confidential ones with one.
\<close>

section \<open>Input\<close>

record client_input =
  ci_name :: string
  ci_description :: "string option"
  ci_homepage_url :: "string option"
  ci_logo_url :: "string option"
  ci_redirect_uris :: "string list"
  ci_scopes :: "string list"
  ci_post_logout_redirect_uris :: "string list option"
  ci_backchannel_logout_uri :: "string option"

record normalized_input =
  ni_name :: string
  ni_description :: "string option"
  ni_homepage_url :: "string option"
  ni_logo_url :: "string option"
  ni_redirect_uris :: "string list"
  ni_scopes :: "string list"
  ni_post_logout_redirect_uris :: "string list option"
  ni_backchannel_logout_uri :: "string option option"

definition max_name_chars :: nat where "max_name_chars = 64"

definition max_description_chars :: nat where "max_description_chars = 500"

definition non_empty :: "string option \<Rightarrow> string option" where
  "non_empty v = (case v of None \<Rightarrow> None | Some s \<Rightarrow> let t = trim_text s in if t = [] then None else Some t)"

definition https_or_loopback :: "string \<Rightarrow> string \<Rightarrow> bool \<Rightarrow> input_error + unit" where
  "https_or_loopback scheme host allow_loopback =
     (if scheme = ''https'' \<or> (scheme = ''http'' \<and> allow_loopback \<and> is_loopback_host host) then Inr ()
      else Inl IeHttpsRequired)"

definition validate_web_url ::
  "(string \<Rightarrow> url_parts option) \<Rightarrow> string \<Rightarrow> bool \<Rightarrow> input_error + unit" where
  "validate_web_url url_parse u allow_loopback =
     (if max_redirect_uri_len < length u then Inl IeUrlLength
      else case url_parse u of
        None \<Rightarrow> Inl IeUriSyntax
      | Some p \<Rightarrow> (case u_host p of
            None \<Rightarrow> Inl IeUriHost | Some host \<Rightarrow> https_or_loopback (u_scheme p) host allow_loopback))"

definition validate_backchannel_uri ::
  "(string \<Rightarrow> url_parts option) \<Rightarrow> string \<Rightarrow> bool \<Rightarrow> input_error + unit" where
  "validate_backchannel_uri url_parse uri allow_loopback =
     (if max_redirect_uri_len < length uri then Inl IeUrlLength
      else case url_parse uri of
        None \<Rightarrow> Inl IeUriSyntax
      | Some p \<Rightarrow> (case u_host p of
            None \<Rightarrow> Inl IeUriHost
          | Some host \<Rightarrow>
              if u_username p \<noteq> [] \<or> u_password p \<noteq> None then Inl IeUriUserinfo
              else if u_fragment p \<noteq> None then Inl IeUriFragment
              else https_or_loopback (u_scheme p) host allow_loopback))"

definition map_input_error :: "(input_error \<Rightarrow> input_error) \<Rightarrow> input_error + 'a \<Rightarrow> input_error + 'a" where
  "map_input_error f r = (case r of Inl e \<Rightarrow> Inl (f e) | Inr x \<Rightarrow> Inr x)"

text \<open>The loop over the addresses: each is trimmed and checked, repeated ones are kept once.\<close>

fun collect_uris ::
  "(string \<Rightarrow> input_error + unit) \<Rightarrow> string list \<Rightarrow> string list \<Rightarrow> input_error + string list" where
  "collect_uris check acc [] = Inr acc"
| "collect_uris check acc (raw # raws) =
     (let uri = trim_text raw in
      case check uri of
        Inl e \<Rightarrow> Inl e
      | Inr _ \<Rightarrow> collect_uris check (if uri \<in> set acc then acc else acc @ [uri]) raws)"

definition validate_redirects ::
  "(string \<Rightarrow> url_parts option) \<Rightarrow> bool \<Rightarrow> string list \<Rightarrow> input_error + string list" where
  "validate_redirects url_parse allow_loopback raws =
     and_then (collect_uris (\<lambda>u. validate_registration url_parse u allow_loopback) [] raws) (\<lambda>uris.
     and_then (ensure (uris \<noteq> []) IeNoRedirect) (\<lambda>_.
     and_then (ensure (length uris \<le> max_redirect_uris) IeTooManyRedirects) (\<lambda>_. Inr uris)))"

definition validate_post_logout ::
  "(string \<Rightarrow> url_parts option) \<Rightarrow> bool \<Rightarrow> string list option \<Rightarrow> input_error + string list option" where
  "validate_post_logout url_parse allow_loopback raws =
     (case raws of
        None \<Rightarrow> Inr None
      | Some xs \<Rightarrow>
          and_then (collect_uris (\<lambda>u. map_input_error IePostLogout (validate_registration url_parse u allow_loopback)) [] xs) (\<lambda>uris.
          and_then (ensure (length uris \<le> max_redirect_uris) IeTooManyPostLogout) (\<lambda>_. Inr (Some uris))))"

definition validate_backchannel ::
  "(string \<Rightarrow> url_parts option) \<Rightarrow> bool \<Rightarrow> string option \<Rightarrow> input_error + string option option" where
  "validate_backchannel url_parse allow_loopback raw =
     (case map_option trim_text raw of
        None \<Rightarrow> Inr None
      | Some uri \<Rightarrow>
          if uri = [] then Inr (Some None)
          else and_then (map_input_error IeBackchannel (validate_backchannel_uri url_parse uri allow_loopback)) (\<lambda>_.
               Inr (Some (Some uri))))"

definition validate_input ::
  "(string \<Rightarrow> url_parts option) \<Rightarrow> client_input \<Rightarrow> bool \<Rightarrow> input_error + normalized_input" where
  "validate_input url_parse input allow_loopback =
     (let name = trim_text (ci_name input); description = non_empty (ci_description input);
          homepage_url = non_empty (ci_homepage_url input); logo_url = non_empty (ci_logo_url input) in
      and_then (ensure (name \<noteq> [] \<and> chars_count name \<le> max_name_chars) IeName) (\<lambda>_.
      and_then (ensure (\<not> list_ex is_control (utf8_chars name)) IeName) (\<lambda>_.
      and_then (ensure (opt_ok (\<lambda>d. chars_count d \<le> max_description_chars) description) IeDescription) (\<lambda>_.
      and_then (case homepage_url of None \<Rightarrow> Inr ()
                | Some u \<Rightarrow> map_input_error IeHomepage (validate_web_url url_parse u allow_loopback)) (\<lambda>_.
      and_then (case logo_url of None \<Rightarrow> Inr ()
                | Some u \<Rightarrow> map_input_error IeLogo (validate_web_url url_parse u False)) (\<lambda>_.
      and_then (validate_redirects url_parse allow_loopback (ci_redirect_uris input)) (\<lambda>redirect_uris.
      and_then (normalize_client_scopes (ci_scopes input)) (\<lambda>scopes.
      and_then (validate_post_logout url_parse allow_loopback (ci_post_logout_redirect_uris input)) (\<lambda>post_logout.
      and_then (validate_backchannel url_parse allow_loopback (ci_backchannel_logout_uri input)) (\<lambda>backchannel.
      Inr \<lparr>ni_name = name, ni_description = description, ni_homepage_url = homepage_url,
        ni_logo_url = logo_url, ni_redirect_uris = redirect_uris, ni_scopes = scopes,
        ni_post_logout_redirect_uris = post_logout, ni_backchannel_logout_uri = backchannel\<rparr>))))))))))"

section \<open>Types and status\<close>

fun resolve_auth_method :: "client_type \<Rightarrow> auth_method option \<Rightarrow> input_error + auth_method" where
  "resolve_auth_method ClientPublic None = Inr AuthNone"
| "resolve_auth_method ClientPublic (Some AuthNone) = Inr AuthNone"
| "resolve_auth_method ClientPublic (Some m) = Inl IePublicAuth"
| "resolve_auth_method ClientConfidential None = Inr ClientSecretBasic"
| "resolve_auth_method ClientConfidential (Some AuthNone) = Inl IeConfidentialAuth"
| "resolve_auth_method ClientConfidential (Some m) = Inr m"

datatype owner_action = OwnerDisable | OwnerEnable

datatype admin_action = AdminApprove | AdminReject | AdminSuspend | AdminReinstate

fun owner_transition :: "client_status \<Rightarrow> owner_action \<Rightarrow> client_status option" where
  "owner_transition CsActive OwnerDisable = Some CsDisabled"
| "owner_transition CsDisabled OwnerEnable = Some CsActive"
| "owner_transition _ _ = None"

fun admin_transition :: "client_status \<Rightarrow> admin_action \<Rightarrow> client_status option" where
  "admin_transition CsPending AdminApprove = Some CsActive"
| "admin_transition CsRejected AdminApprove = Some CsActive"
| "admin_transition CsPending AdminReject = Some CsRejected"
| "admin_transition CsPending AdminSuspend = Some CsSuspended"
| "admin_transition CsActive AdminSuspend = Some CsSuspended"
| "admin_transition CsDisabled AdminSuspend = Some CsSuspended"
| "admin_transition CsSuspended AdminReinstate = Some CsActive"
| "admin_transition _ _ = None"

definition verify_secret :: "oidc_env \<Rightarrow> timestamp \<Rightarrow> oidc_client \<Rightarrow> string \<Rightarrow> bool" where
  "verify_secret env now client presented =
     (if oc_client_type client \<noteq> ClientConfidential then False
      else if (case oc_secret_hash client of None \<Rightarrow> False
               | Some current \<Rightarrow> verify_client_secret (ev_argon2_verify env) presented current) then True
      else case (oc_previous_secret_hash client, oc_previous_secret_expires_at client) of
        (Some previous, Some expires_at) \<Rightarrow>
          now < expires_at \<and> verify_client_secret (ev_argon2_verify env) presented previous
      | _ \<Rightarrow> False)"

section \<open>Writes\<close>

definition client_check :: "oidc_client \<Rightarrow> bool" where
  "client_check c \<longleftrightarrow>
     (oc_client_type c = ClientPublic \<and> oc_auth_method c = AuthNone \<and> oc_secret_hash c = None \<and>
        oc_previous_secret_hash c = None \<and> oc_require_pkce c) \<or>
     (oc_client_type c = ClientConfidential \<and> oc_auth_method c \<noteq> AuthNone \<and> oc_secret_hash c \<noteq> None)"

definition client_create ::
  "oidc_env \<Rightarrow> uuid \<Rightarrow> client_type \<Rightarrow> auth_method option \<Rightarrow> client_input \<Rightarrow> (oidc_client \<times> string option) oop" where
  "client_create env owner_user_id ctype requested input =
     bindM (map_errM OeValidation (liftM (validate_input (ev_url_parse env) input
       (cf_allow_loopback_redirect_uris (ev_config env))))) (\<lambda>n.
     bindM (map_errM OeValidation (liftM (resolve_auth_method ctype requested))) (\<lambda>auth.
     bindM (if ctype = ClientConfidential
            then bindM (new_client_secret env) (\<lambda>plain.
                 bindM (hash_client_secret env plain) (\<lambda>hash. returnM (Some plain, Some hash)))
            else returnM (None, None)) (\<lambda>(secret_plain, secret_hash).
     bindM o_now (\<lambda>now.
     bindM o_new_uuid (\<lambda>i.
     bindM (new_client_id env) (\<lambda>client_id.
     let c = \<lparr>oc_id = i, oc_client_id = client_id, oc_owner_user_id = owner_user_id,
         oc_name = ni_name n, oc_description = ni_description n, oc_homepage_url = ni_homepage_url n,
         oc_logo_url = ni_logo_url n, oc_client_type = ctype, oc_auth_method = auth,
         oc_redirect_uris = ni_redirect_uris n, oc_allowed_scopes = ni_scopes n,
         oc_post_logout_redirect_uris =
           (case ni_post_logout_redirect_uris n of None \<Rightarrow> [] | Some us \<Rightarrow> us),
         oc_backchannel_logout_uri = Option.bind (ni_backchannel_logout_uri n) (\<lambda>u. u),
         oc_require_pkce = True, oc_secret_hash = secret_hash, oc_previous_secret_hash = None,
         oc_previous_secret_expires_at = None, oc_secret_rotated_at = None,
         oc_status = (if cf_require_client_approval (ev_config env) then CsPending else CsActive),
         oc_status_reason = None, oc_reviewed_by = None, oc_reviewed_at = None, oc_created_at = now,
         oc_updated_at = now\<rparr> in
     bindM (readM (\<lambda>w. w)) (\<lambda>w.
     bindM (guardM (client_check c) OeCheck) (\<lambda>_.
     bindM (guardM (\<not> list_ex (\<lambda>r. oc_client_id r = client_id) (ow_clients w)) OeUnique) (\<lambda>_.
     bindM (guardM (user_of w owner_user_id \<noteq> None) OeForeignKey) (\<lambda>_.
     bindM (modifyM (\<lambda>w. w\<lparr>ow_clients := ow_clients w @ [c]\<rparr>)) (\<lambda>_.
     returnM (c, secret_plain))))))))))))"

text \<open>\<open>ActiveModel::update\<close>: the row is written by its primary key and returned as it then is.\<close>

definition update_client :: "uuid \<Rightarrow> (oidc_client \<Rightarrow> oidc_client) \<Rightarrow> oidc_client oop" where
  "update_client i f =
     bindM (readM (\<lambda>w. client_of w i)) (\<lambda>row.
     case row of
       None \<Rightarrow> throwM OeNotUpdated
     | Some c \<Rightarrow>
         bindM (guardM (client_check (f c)) OeCheck) (\<lambda>_.
         bindM (modifyM (\<lambda>w. w\<lparr>ow_clients := update_where (\<lambda>r. oc_id r = i) f (ow_clients w)\<rparr>)) (\<lambda>_.
         returnM (f c))))"

definition client_update :: "oidc_env \<Rightarrow> oidc_client \<Rightarrow> client_input \<Rightarrow> oidc_client oop" where
  "client_update env client input =
     bindM (map_errM OeValidation (liftM (validate_input (ev_url_parse env) input
       (cf_allow_loopback_redirect_uris (ev_config env))))) (\<lambda>n.
     bindM o_now (\<lambda>now.
     update_client (oc_id client) (\<lambda>c. c\<lparr>oc_name := ni_name n, oc_description := ni_description n,
       oc_homepage_url := ni_homepage_url n, oc_logo_url := ni_logo_url n,
       oc_redirect_uris := ni_redirect_uris n, oc_allowed_scopes := ni_scopes n,
       oc_post_logout_redirect_uris := (case ni_post_logout_redirect_uris n of
           None \<Rightarrow> oc_post_logout_redirect_uris c | Some us \<Rightarrow> us),
       oc_backchannel_logout_uri := (case ni_backchannel_logout_uri n of
           None \<Rightarrow> oc_backchannel_logout_uri c | Some u \<Rightarrow> u),
       oc_updated_at := now\<rparr>)))"

definition client_rotate_secret :: "oidc_env \<Rightarrow> oidc_client \<Rightarrow> int \<Rightarrow> (oidc_client \<times> string) oop" where
  "client_rotate_secret env client grace_secs =
     bindM (guardM (oc_client_type client = ClientConfidential) (OeValidation IeNoSecret)) (\<lambda>_.
     bindM (new_client_secret env) (\<lambda>plain.
     bindM (hash_client_secret env plain) (\<lambda>hash.
     bindM o_now (\<lambda>now.
     let grace = 0 < grace_secs \<and> oc_secret_hash client \<noteq> None in
     bindM (update_client (oc_id client) (\<lambda>c. c\<lparr>
         oc_previous_secret_hash := (if grace then oc_secret_hash client else None),
         oc_previous_secret_expires_at := (if grace then Some (now + seconds grace_secs) else None),
         oc_secret_hash := Some hash, oc_secret_rotated_at := Some now, oc_updated_at := now\<rparr>)) (\<lambda>m.
     returnM (m, plain))))))"

definition client_set_status ::
  "oidc_client \<Rightarrow> client_status \<Rightarrow> uuid option \<Rightarrow> string option \<Rightarrow> oidc_client oop" where
  "client_set_status client status reviewer reason =
     bindM o_now (\<lambda>now.
     update_client (oc_id client) (\<lambda>c.
       (case reviewer of
          None \<Rightarrow> c
        | Some _ \<Rightarrow> c\<lparr>oc_reviewed_by := reviewer, oc_reviewed_at := Some now,
            oc_status_reason := map_option (\<lambda>r. take_chars 500 (trim_text r)) reason\<rparr>)
       \<lparr>oc_status := status, oc_updated_at := now\<rparr>))"

definition find_by_client_id :: "string \<Rightarrow> (oidc_world, 'e, oidc_client option) op" where
  "find_by_client_id client_id =
     (if client_id = [] \<or> 128 < length client_id then returnM None
      else readM (\<lambda>w. List.find (\<lambda>c. oc_client_id c = client_id) (ow_clients w)))"

definition find_owned :: "uuid \<Rightarrow> string \<Rightarrow> oidc_client option oop" where
  "find_owned owner_user_id client_id =
     bindM (find_by_client_id client_id) (\<lambda>c.
     returnM (Option.bind c (\<lambda>c. if oc_owner_user_id c = owner_user_id then Some c else None)))"

definition list_owned :: "uuid \<Rightarrow> oidc_client list oop" where
  "list_owned owner_user_id = readM (\<lambda>w.
     sort_key (\<lambda>c. - oc_created_at c) (filter (\<lambda>c. oc_owner_user_id c = owner_user_id) (ow_clients w)))"

end
