(* ===== verification/Oidc_Browser.thy ===== *)
theory Oidc_Browser
  imports Oidc_Clients
begin

text \<open>
  The accounts of one browser, \<open>modules/identity/oidc/accounts.rs\<close>: a container cookie whose digest
  is stored, the sessions that hang on it, the account the main site uses, and the older single-session
  cookie that is moved into a container when it is first seen. A request is the data the handlers read
  of it: method, headers, cookies and the decoded parameters of query and body (the \<open>url\<close> crate
  decodes them).
\<close>

section \<open>Requests and cookies\<close>

record http_req =
  hr_post :: bool
  hr_content_type :: "string option"
  hr_origin :: "string option option"
  hr_sec_fetch_site :: "string option"
  hr_authorization :: "string option option"
  hr_csrf_token :: "string option"
  hr_account :: "string option"
  hr_cookies :: "(string \<times> string) list"
  hr_query :: raw_params
  hr_body :: raw_params
  hr_ip :: "string option"

datatype cookie = SetCookie (ck_name: string) string int | RemovalCookie (ck_name: string)

definition secure_cookies :: "oidc_env \<Rightarrow> bool" where
  "secure_cookies env = text_starts_with (cf_issuer (ev_config env)) ''https://''"

definition container_cookie_name :: "bool \<Rightarrow> string" where
  "container_cookie_name secure = (if secure then ''__Host-fctf_accounts'' else ''fctf_accounts'')"

definition sso_cookie_name :: "bool \<Rightarrow> string" where
  "sso_cookie_name secure = (if secure then ''__Host-fctf_sso'' else ''fctf_sso'')"

definition binding_cookie_name :: "bool \<Rightarrow> string" where
  "binding_cookie_name secure = (if secure then ''__Host-fctf_bid'' else ''fctf_bid'')"

definition raw_cookie :: "http_req \<Rightarrow> string \<Rightarrow> string option" where
  "raw_cookie req name = map_of (hr_cookies req) name"

definition plausible_cookie :: "http_req \<Rightarrow> string \<Rightarrow> string option" where
  "plausible_cookie req name =
     (case raw_cookie req name of None \<Rightarrow> None | Some v \<Rightarrow> if is_plausible_token v then Some v else None)"

definition sso_cookie_value :: "http_req \<Rightarrow> oidc_env \<Rightarrow> string option" where
  "sso_cookie_value req env = raw_cookie req (sso_cookie_name (secure_cookies env))"

definition sso_cookie :: "oidc_env \<Rightarrow> string \<Rightarrow> cookie" where
  "sso_cookie env value =
     SetCookie (sso_cookie_name (secure_cookies env)) value (cf_session_ttl_secs (ev_config env))"

definition container_cookie :: "oidc_env \<Rightarrow> string \<Rightarrow> cookie" where
  "container_cookie env value =
     SetCookie (container_cookie_name (secure_cookies env)) value
       (cf_browser_container_ttl_secs (ev_config env))"

section \<open>The browser\<close>

type_synonym session_user = "browser_session \<times> oidc_user"

record browser =
  br_container :: "browser_container option"
  br_secret :: "string option"
  br_accounts :: "session_user list"
  br_cookies :: "cookie list"

definition browser_default :: browser where
  "browser_default = \<lparr>br_container = None, br_secret = None, br_accounts = [], br_cookies = []\<rparr>"

definition csrf_for :: "oidc_env \<Rightarrow> string \<Rightarrow> string" where
  "csrf_for env container_secret = ev_sha256_hex env (''fctf-web-csrf'' @ [char_of (0 :: nat)] @ container_secret)"

definition browser_csrf_token :: "oidc_env \<Rightarrow> browser \<Rightarrow> string option" where
  "browser_csrf_token env b = map_option (csrf_for env) (br_secret b)"

definition browser_csrf_matches :: "oidc_env \<Rightarrow> browser \<Rightarrow> string \<Rightarrow> bool" where
  "browser_csrf_matches env b presented \<longleftrightarrow> browser_csrf_token env b = Some presented"

definition browser_find :: "browser \<Rightarrow> uuid \<Rightarrow> session_user option" where
  "browser_find b session_id = List.find (\<lambda>(s, u). bs_id s = session_id) (br_accounts b)"

definition web_account :: "browser \<Rightarrow> session_user option" where
  "web_account b = Option.bind (Option.bind (br_container b) bc_web_session_id) (browser_find b)"

definition restorable :: "browser \<Rightarrow> session_user list" where
  "restorable b =
     (let signed_out = Option.bind (br_container b) bc_web_signed_out_at in
      filter (\<lambda>(s, u). opt_ok (\<lambda>t. t < bs_created_at s) signed_out) (br_accounts b))"

definition find_container :: "oidc_env \<Rightarrow> string \<Rightarrow> browser_container option oop" where
  "find_container env secret_value = readM (\<lambda>w. List.find
     (\<lambda>c. bc_secret_hash c = ev_sha256_hex env secret_value \<and> bc_revoked_at c = None \<and>
        ow_now w < bc_expires_at c) (ow_containers w))"

definition container_accounts :: "uuid \<Rightarrow> session_user list oop" where
  "container_accounts container_id = readM (\<lambda>w.
     List.map_filter (with_user w)
       (sort_key (\<lambda>s. - bs_last_seen_at s)
         (filter (\<lambda>s. bs_container_id s = Some container_id \<and> session_live w s) (ow_sessions w))))"

definition update_container :: "uuid \<Rightarrow> (browser_container \<Rightarrow> browser_container) \<Rightarrow> unit oop" where
  "update_container i f = modifyM (\<lambda>w. w\<lparr>ow_containers := update_where (\<lambda>c. bc_id c = i) f (ow_containers w)\<rparr>)"

definition renew_if_stale :: "oidc_env \<Rightarrow> browser \<Rightarrow> browser oop" where
  "renew_if_stale env b =
     (case (br_container b, br_secret b) of
        (Some container, Some value) \<Rightarrow>
          bindM o_now (\<lambda>now.
          if now - seconds 3600 < bc_last_seen_at container then returnM b
          else let f = (\<lambda>c. c\<lparr>bc_last_seen_at := now,
                   bc_expires_at := now + seconds (cf_browser_container_ttl_secs (ev_config env))\<rparr>) in
               bindM (update_container (bc_id container) f) (\<lambda>_.
               returnM (b\<lparr>br_container := Some (f container),
                 br_cookies := br_cookies b @ [container_cookie env value]\<rparr>)))
      | _ \<Rightarrow> returnM b)"

definition ensure_container :: "oidc_env \<Rightarrow> browser \<Rightarrow> browser oop" where
  "ensure_container env b =
     (if br_container b \<noteq> None then returnM b
      else bindM (new_opaque_secret env) (\<lambda>value.
           bindM o_now (\<lambda>now.
           bindM o_new_uuid (\<lambda>i.
           let c = \<lparr>bc_id = i, bc_secret_hash = ev_sha256_hex env value, bc_web_session_id = None,
               bc_web_signed_out_at = None, bc_created_at = now, bc_last_seen_at = now,
               bc_expires_at = now + seconds (cf_browser_container_ttl_secs (ev_config env)),
               bc_revoked_at = None\<rparr> in
           bindM (readM (\<lambda>w. list_ex (\<lambda>r. bc_secret_hash r = bc_secret_hash c) (ow_containers w))) (\<lambda>clash.
           bindM (guardM (\<not> clash) OeUnique) (\<lambda>_.
           bindM (modifyM (\<lambda>w. w\<lparr>ow_containers := ow_containers w @ [c]\<rparr>)) (\<lambda>_.
           returnM (b\<lparr>br_container := Some c, br_secret := Some value,
             br_cookies := br_cookies b @ [container_cookie env value]\<rparr>))))))))"

definition load_browser :: "oidc_env \<Rightarrow> http_req \<Rightarrow> browser oop" where
  "load_browser env req =
     (if \<not> cf_multi_account (ev_config env) then
        (case sso_cookie_value req env of
           None \<Rightarrow> returnM browser_default
         | Some v \<Rightarrow> bindM (find_valid_session env v) (\<lambda>found.
             returnM (browser_default\<lparr>br_accounts := (case found of None \<Rightarrow> [] | Some a \<Rightarrow> [a])\<rparr>)))
      else
        bindM (case plausible_cookie req (container_cookie_name (secure_cookies env)) of
                 None \<Rightarrow> returnM None
               | Some value \<Rightarrow> bindM (find_container env value) (\<lambda>c.
                   returnM (map_option (\<lambda>c. (value, c)) c))) (\<lambda>held.
        case held of
          Some (value, container) \<Rightarrow>
            bindM (container_accounts (bc_id container)) (\<lambda>accounts.
            renew_if_stale env \<lparr>br_container = Some container, br_secret = Some value,
              br_accounts = accounts, br_cookies = []\<rparr>)
        | None \<Rightarrow>
            bindM (case sso_cookie_value req env of None \<Rightarrow> returnM None | Some old \<Rightarrow> find_valid_session env old) (\<lambda>found.
            case found of
              None \<Rightarrow> returnM browser_default
            | Some (session, user) \<Rightarrow>
                bindM (ensure_container env browser_default) (\<lambda>b.
                let container_id = map_option bc_id (br_container b) in
                bindM (modifyM (\<lambda>w. w\<lparr>ow_sessions := update_where (\<lambda>s. bs_id s = bs_id session)
                    (\<lambda>s. s\<lparr>bs_container_id := container_id\<rparr>) (ow_sessions w)\<rparr>)) (\<lambda>_.
                returnM (b\<lparr>br_accounts := br_accounts b @ [(session\<lparr>bs_container_id := container_id\<rparr>, user)],
                  br_cookies := br_cookies b @ [RemovalCookie (sso_cookie_name (secure_cookies env))]\<rparr>))))))"

definition browser_rotate_secret :: "oidc_env \<Rightarrow> browser \<Rightarrow> browser oop" where
  "browser_rotate_secret env b =
     (case br_container b of
        None \<Rightarrow> returnM b
      | Some container \<Rightarrow>
          bindM (new_opaque_secret env) (\<lambda>value.
          bindM o_now (\<lambda>now.
          let f = (\<lambda>c. c\<lparr>bc_secret_hash := ev_sha256_hex env value, bc_last_seen_at := now,
                bc_expires_at := now + seconds (cf_browser_container_ttl_secs (ev_config env))\<rparr>) in
          bindM (readM (\<lambda>w. list_ex (\<lambda>r. bc_id r \<noteq> bc_id container \<and>
            bc_secret_hash r = ev_sha256_hex env value) (ow_containers w))) (\<lambda>clash.
          bindM (guardM (\<not> clash) OeUnique) (\<lambda>_.
          bindM (update_container (bc_id container) f) (\<lambda>_.
          returnM (b\<lparr>br_container := Some (f container), br_secret := Some value,
            br_cookies := filter (\<lambda>c. ck_name c \<noteq> container_cookie_name (secure_cookies env)) (br_cookies b)
              @ [container_cookie env value]\<rparr>)))))))"

definition revoke_sessions :: "uuid list \<Rightarrow> revoke_reason \<Rightarrow> nat oop" where
  "revoke_sessions ids reason =
     (if ids = [] then returnM 0 else revoke_where (\<lambda>s. bs_id s \<in> set ids) reason)"

definition set_web_session :: "browser_container \<Rightarrow> uuid option \<Rightarrow> bool \<Rightarrow> browser_container oop" where
  "set_web_session container session_id signed_out =
     bindM o_now (\<lambda>now.
     let f = (\<lambda>c. (if signed_out then c\<lparr>bc_web_signed_out_at := Some now\<rparr> else c)
           \<lparr>bc_web_session_id := session_id\<rparr>) in
     bindM (update_container (bc_id container) f) (\<lambda>_. returnM (f container)))"

definition set_web_account :: "browser \<Rightarrow> uuid option \<Rightarrow> bool \<Rightarrow> browser oop" where
  "set_web_account b session_id signed_out =
     (case br_container b of
        None \<Rightarrow> returnM b
      | Some container \<Rightarrow>
          bindM (set_web_session container session_id signed_out) (\<lambda>c. returnM (b\<lparr>br_container := Some c\<rparr>)))"

definition add_account ::
  "oidc_env \<Rightarrow> browser \<Rightarrow> oidc_user \<Rightarrow> timestamp \<Rightarrow> int \<Rightarrow> session_origin \<Rightarrow> (session_user \<times> browser) oop" where
  "add_account env b0 user auth_time ttl_secs origin =
     bindM (ensure_container env b0) (\<lambda>b1.
     bindM (browser_rotate_secret env b1) (\<lambda>b2.
     let container_id = map_option bc_id (br_container b2);
         replaced = map (\<lambda>(s, u). bs_id s) (filter (\<lambda>(s, u). ou_id u = ou_id user) (br_accounts b2));
         kept = filter (\<lambda>(s, u). ou_id u \<noteq> ou_id user) (br_accounts b2);
         max = cf_max_browser_accounts (ev_config env) in
     bindM (revoke_sessions replaced RrReplaced) (\<lambda>_.
     bindM (if max \<le> length kept
            then bindM (revoke_sessions (map (\<lambda>(s, u). bs_id s) (drop (max - 1) kept)) RrEvicted) (\<lambda>_.
                 returnM (take (max - 1) kept))
            else returnM kept) (\<lambda>accounts.
     bindM (create_session_in env (ou_id user) auth_time ttl_secs origin container_id) (\<lambda>(plain, session).
     let entry = (session, user); b3 = b2\<lparr>br_accounts := entry # accounts\<rparr> in
     bindM (case Option.bind (br_container b3) bc_web_session_id of
              None \<Rightarrow> returnM b3
            | Some i \<Rightarrow>
                if i \<in> set replaced \<or> \<not> list_ex (\<lambda>(s, u). bs_id s = i) (br_accounts b3)
                then set_web_account b3 None False else returnM b3) (\<lambda>b4.
     returnM (entry, b4)))))))"

definition sign_out_account :: "browser \<Rightarrow> uuid \<Rightarrow> revoke_reason \<Rightarrow> (bool \<times> browser) oop" where
  "sign_out_account b session_id reason =
     (if browser_find b session_id = None then returnM (False, b)
      else bindM (revoke_sessions [session_id] reason) (\<lambda>_.
           let b1 = b\<lparr>br_accounts := filter (\<lambda>(s, u). bs_id s \<noteq> session_id) (br_accounts b)\<rparr> in
           bindM (if Option.bind (br_container b1) bc_web_session_id = Some session_id
                  then set_web_account b1 None True else returnM b1) (\<lambda>b2.
           returnM (True, b2))))"

definition sign_out_browser :: "oidc_env \<Rightarrow> browser \<Rightarrow> revoke_reason \<Rightarrow> (session_user list \<times> browser) oop" where
  "sign_out_browser env b reason =
     (let revoked = br_accounts b in
      bindM (revoke_sessions (map (\<lambda>(s, u). bs_id s) revoked) reason) (\<lambda>_.
      bindM (case br_container b of
               None \<Rightarrow> returnM ()
             | Some container \<Rightarrow>
                 bindM (revoke_where (\<lambda>s. bs_container_id s = Some (bc_id container)) reason) (\<lambda>_.
                 bindM o_now (\<lambda>now.
                 update_container (bc_id container)
                   (\<lambda>c. c\<lparr>bc_revoked_at := Some now, bc_web_session_id := None\<rparr>)))) (\<lambda>_.
      returnM (revoked, \<lparr>br_container = None, br_secret = None, br_accounts = [],
        br_cookies = [RemovalCookie (container_cookie_name (secure_cookies env)),
          RemovalCookie (sso_cookie_name (secure_cookies env))]\<rparr>))))"

section \<open>The cookie session of the main site\<close>

definition is_first_party_origin :: "oidc_env \<Rightarrow> string \<Rightarrow> bool" where
  "is_first_party_origin env origin \<longleftrightarrow>
     origin = cf_issuer (ev_config env) \<or> origin \<in> set (cf_first_party_origins (ev_config env))"

definition first_party_request :: "http_req \<Rightarrow> oidc_env \<Rightarrow> bool" where
  "first_party_request req env =
     (case hr_origin req of
        Some (Some o') \<Rightarrow> is_first_party_origin env o'
      | Some None \<Rightarrow> False
      | None \<Rightarrow> (case hr_sec_fetch_site req of
            Some site \<Rightarrow> site = ''same-origin'' \<or> site = ''none'' | None \<Rightarrow> True))"

datatype web_auth_failure = NoSession | CrossSite | BadCsrf | AccountChanged | WebAccountDisabled

definition resolve_web_user :: "oidc_env \<Rightarrow> http_req \<Rightarrow> (web_auth_failure + oidc_user) oop" where
  "resolve_web_user env req =
     (case plausible_cookie req (container_cookie_name (secure_cookies env)) of
        None \<Rightarrow> returnM (Inl NoSession)
      | Some value \<Rightarrow>
          if \<not> first_party_request req env then returnM (Inl CrossSite)
          else if hr_csrf_token req \<noteq> Some (csrf_for env value) then returnM (Inl BadCsrf)
          else bindM (find_container env value) (\<lambda>c.
            case Option.bind c (\<lambda>c. map_option (\<lambda>s. (c, s)) (bc_web_session_id c)) of
              None \<Rightarrow> returnM (Inl NoSession)
            | Some (container, session_id) \<Rightarrow>
                bindM (readM (\<lambda>w. Option.bind (List.find (\<lambda>s. bs_id s = session_id \<and>
                    bs_container_id s = Some (bc_id container) \<and> session_live w s) (ow_sessions w))
                    (with_user w))) (\<lambda>found.
                returnM (case found of
                  None \<Rightarrow> Inl NoSession
                | Some (s, user) \<Rightarrow>
                    if hr_account req \<noteq> None \<and> hr_account req \<noteq> Some (ev_uuid_text env (ou_id user))
                      then Inl AccountChanged
                    else if ou_status user \<noteq> AccountActive then Inl WebAccountDisabled
                    else Inr user))))"

end
