(* ===== verification/Oidc_Flow.thy ===== *)
theory Oidc_Flow
  imports Oidc_Browser
begin

text \<open>
  The authorization code flow, \<open>modules/identity/oidc/flow.rs\<close>: what an authorization transaction
  does next, issuing codes, exchanging them for tokens, and UserInfo. Messages of error pages are
  constructors.
\<close>

section \<open>Next steps\<close>

datatype page_message =
    MsgPre pre_redirect_error | MsgClientInactive | MsgClientUnknown | MsgRedirectMismatch
  | MsgTxnExpired | MsgBadOrigin | MsgNotForm | MsgCsrf | MsgBadAction | MsgServerError | MsgUnavailable
  | MsgCredentialsMissing | MsgTooManyAttempts | MsgWrongCredentials | MsgOtherAccountRequired
  | MsgDuplicateParams | MsgBadHint | MsgHintClientMismatch | MsgPostLogoutUnregistered
  | MsgLogoutGone | MsgTooManyRequests

datatype flow_next =
    RedirectToClient string
  | RedirectLocal string
  | ErrorPage nat page_message

definition client_redirect :: "oidc_env \<Rightarrow> string \<Rightarrow> (string \<times> string) list \<Rightarrow> string" where
  "client_redirect env redirect params =
     append_query (ev_url_parse env) (ev_append_pairs env) redirect
       (params @ [(''iss'', cf_issuer (ev_config env))])"

definition error_redirect :: "oidc_env \<Rightarrow> string \<Rightarrow> oauth_error \<Rightarrow> string option \<Rightarrow> flow_next" where
  "error_redirect env redirect err state =
     RedirectToClient (client_redirect env redirect
       ([(''error'', oa_error err), (''error_description'', oa_description err)] @
        (case state of None \<Rightarrow> [] | Some s \<Rightarrow> [(''state'', s)])))"

section \<open>Deciding\<close>

datatype required = RequiredLogin | RequiredAccountSelection | RequiredConsent

datatype flow_step = StepLogin | StepSelectAccount | StepConsent | StepIssue | StepRequired required

fun required_error :: "required \<Rightarrow> oauth_error" where
  "required_error RequiredLogin = oauth ''login_required'' ''login required''"
| "required_error RequiredAccountSelection =
     oauth ''account_selection_required'' ''account selection required''"
| "required_error RequiredConsent = oauth ''consent_required'' ''consent required''"

record session_facts =
  sf_confirmed_in_txn :: bool
  sf_fresh_in_txn :: bool
  sf_auth_time :: int
  sf_consented :: bool

definition decide ::
  "oidc_prompt \<Rightarrow> int option \<Rightarrow> bool \<Rightarrow> session_facts option \<Rightarrow> bool \<Rightarrow> int \<Rightarrow> flow_step" where
  "decide prompt max_age account_chooser session ambiguous now =
     (case session of
        None \<Rightarrow>
          if ambiguous then (if pr_none prompt then StepRequired RequiredAccountSelection else StepSelectAccount)
          else (if pr_none prompt then StepRequired RequiredLogin else StepLogin)
      | Some s \<Rightarrow>
          if account_chooser \<and> pr_select_account prompt \<and> \<not> sf_confirmed_in_txn s then
            (if pr_none prompt then StepRequired RequiredAccountSelection else StepSelectAccount)
          else if \<not> sf_fresh_in_txn s \<and> requires_fresh_login prompt max_age (sf_auth_time s) now then
            (if pr_none prompt then StepRequired RequiredLogin else StepLogin)
          else if pr_consent prompt \<or> (\<not> account_chooser \<and> pr_select_account prompt) \<or> \<not> sf_consented s then
            (if pr_none prompt then StepRequired RequiredConsent else StepConsent)
          else StepIssue)"

definition account_confirmed :: "auth_txn \<Rightarrow> uuid \<Rightarrow> bool" where
  "account_confirmed txn session_id \<longleftrightarrow>
     at_selected_at txn \<noteq> None \<and> at_selected_session_id txn = Some session_id"

definition is_usable :: "oidc_env \<Rightarrow> auth_txn \<Rightarrow> session_user \<Rightarrow> bool" where
  "is_usable env txn = (\<lambda>(s, user).
     opt_ok (\<lambda>sub. sub = ev_uuid_text env (ou_id user)) (at_id_token_hint_sub txn) \<and>
     (at_switch_requested_at txn = None \<or> account_confirmed txn (bs_id s)))"

definition candidates :: "oidc_env \<Rightarrow> auth_txn \<Rightarrow> session_user list \<Rightarrow> session_user list" where
  "candidates env txn accounts = filter (is_usable env txn) accounts"

definition fresh_in_txn :: "auth_txn \<Rightarrow> uuid \<Rightarrow> bool" where
  "fresh_in_txn txn session_id \<longleftrightarrow> at_authenticated_at txn \<noteq> None \<and> at_session_id txn = Some session_id"

definition resolve_session :: "auth_txn \<Rightarrow> session_user list \<Rightarrow> session_user option \<times> bool" where
  "resolve_session txn cands =
     (case List.find (\<lambda>(s, u). account_confirmed txn (bs_id s) \<or> fresh_in_txn txn (bs_id s)) cands of
        Some bound \<Rightarrow> (Some bound, False)
      | None \<Rightarrow>
          (case cands of
             [] \<Rightarrow> (None, False)
           | [only] \<Rightarrow> (Some only, False)
           | _ \<Rightarrow>
               (case (case at_login_hint txn of
                        None \<Rightarrow> [] | Some hint \<Rightarrow> filter (\<lambda>(s, u). ou_username u = hint) cands) of
                  [one] \<Rightarrow> (Some one, False)
                | _ \<Rightarrow> (None, True))))"

record txn_evaluation =
  el_step :: flow_step
  el_session :: "session_user option"
  el_candidates :: "session_user list"

definition evaluate ::
  "oidc_env \<Rightarrow> auth_txn \<Rightarrow> oidc_client \<Rightarrow> session_user list \<Rightarrow> txn_evaluation oop" where
  "evaluate env txn client accounts = readM (\<lambda>w.
     let cands = candidates env txn accounts; (session, ambiguous) = resolve_session txn cands;
         facts = (case session of
             None \<Rightarrow> None
           | Some (s, user) \<Rightarrow> Some
               \<lparr>sf_confirmed_in_txn = account_confirmed txn (bs_id s),
                sf_fresh_in_txn = fresh_in_txn txn (bs_id s), sf_auth_time = secs_of (bs_auth_time s),
                sf_consented = (case active_consent w (ou_id user) (oc_id client) of
                    None \<Rightarrow> False | Some c \<Rightarrow> covers (cn_scopes c) (at_scopes txn))\<rparr>) in
     \<lparr>el_step = decide (prompt_from_values (at_prompt txn)) (at_max_age txn)
        (cf_account_chooser (ev_config env)) facts ambiguous (secs_of (ow_now w)),
      el_session = session, el_candidates = cands\<rparr>)"

section \<open>Executing a step\<close>

definition finish_with_error :: "oidc_env \<Rightarrow> auth_txn \<Rightarrow> oauth_error \<Rightarrow> flow_next oop" where
  "finish_with_error env txn err =
     bindM (complete_transaction (at_id txn)) (\<lambda>completed.
     returnM (if completed then error_redirect env (at_redirect_uri txn) err (at_state txn)
              else ErrorPage 400 MsgTxnExpired))"

definition issue_code ::
  "oidc_env \<Rightarrow> auth_txn \<Rightarrow> oidc_client \<Rightarrow> browser_session \<Rightarrow> oidc_user \<Rightarrow> string list \<Rightarrow> flow_next oop" where
  "issue_code env txn client session user granted =
     bindM (complete_transaction (at_id txn)) (\<lambda>completed.
     if \<not> completed then returnM (ErrorPage 400 MsgTxnExpired)
     else
       bindM (insert_code env \<lparr>nc_client_pk = oc_id client, nc_user_id = ou_id user,
         nc_session_id = Some (bs_id session), nc_redirect_uri = at_redirect_uri txn, nc_scopes = granted,
         nc_nonce = at_nonce txn, nc_code_challenge = at_code_challenge txn,
         nc_auth_time = bs_auth_time session,
         nc_ttl_secs = cf_authorization_code_ttl_secs (ev_config env)\<rparr>) (\<lambda>code.
       bindM (touch_session (bs_id session)) (\<lambda>_.
       returnM (RedirectToClient (client_redirect env (at_redirect_uri txn)
         ((''code'', code) # (case at_state txn of None \<Rightarrow> [] | Some s \<Rightarrow> [(''state'', s)])))))))"

definition local_page :: "oidc_env \<Rightarrow> string \<Rightarrow> auth_txn \<Rightarrow> string" where
  "local_page env path txn = path @ ''?txn='' @ ev_uuid_text env (at_id txn)"

definition bind_if_needed :: "auth_txn \<Rightarrow> browser_session \<Rightarrow> oidc_user \<Rightarrow> auth_txn oop" where
  "bind_if_needed txn session user =
     (if at_user_id txn \<noteq> Some (ou_id user) \<or> at_session_id txn \<noteq> Some (bs_id session)
      then bind_transaction_user txn (ou_id user) (bs_id session) (fresh_in_txn txn (bs_id session))
      else returnM txn)"

text \<open>
  The code unwraps the session of a step that consents or issues; \<open>decide\<close> gives such a step only
  for a session, which is what the last case of the match relies on.
\<close>

definition advance ::
  "oidc_env \<Rightarrow> auth_txn \<Rightarrow> oidc_client \<Rightarrow> session_user list \<Rightarrow> flow_next oop" where
  "advance env txn client accounts =
     bindM (evaluate env txn client accounts) (\<lambda>ev.
     case el_step ev of
       StepRequired r \<Rightarrow> finish_with_error env txn (required_error r)
     | StepLogin \<Rightarrow> returnM (RedirectLocal (local_page env ''/oauth/login'' txn))
     | StepSelectAccount \<Rightarrow> returnM (RedirectLocal (local_page env ''/oauth/select-account'' txn))
     | StepConsent \<Rightarrow>
         (case el_session ev of
            None \<Rightarrow> throwM OeInternal
          | Some (session, user) \<Rightarrow>
              bindM (bind_if_needed txn session user) (\<lambda>txn.
              returnM (RedirectLocal (local_page env ''/oauth/consent'' txn))))
     | StepIssue \<Rightarrow>
         (case el_session ev of
            None \<Rightarrow> throwM OeInternal
          | Some (session, user) \<Rightarrow>
              bindM (bind_if_needed txn session user) (\<lambda>txn.
              issue_code env txn client session user (at_scopes txn))))"

definition client_policy_of :: "oidc_client \<Rightarrow> client_policy" where
  "client_policy_of client = \<lparr>cp_allowed_scopes = oc_allowed_scopes client,
     cp_require_pkce = oc_require_pkce client \<or> oc_client_type client = ClientPublic\<rparr>"

definition start_flow ::
  "oidc_env \<Rightarrow> raw_params \<Rightarrow> string \<Rightarrow> session_user list \<Rightarrow> flow_next oop" where
  "start_flow env params browser_binding accounts =
     (case client_and_redirect params of
        Inl e \<Rightarrow> returnM (ErrorPage 400 (MsgPre e))
      | Inr (client_id, redirect) \<Rightarrow>
          bindM (find_by_client_id client_id) (\<lambda>found.
          case found of
            None \<Rightarrow> returnM (ErrorPage 400 MsgClientUnknown)
          | Some client \<Rightarrow>
              if oc_status client \<noteq> CsActive then returnM (ErrorPage 400 MsgClientInactive)
              else if \<not> is_registered (oc_redirect_uris client) redirect
                then returnM (ErrorPage 400 MsgRedirectMismatch)
              else case validate params client_id redirect (client_policy_of client) of
                Inl e \<Rightarrow> returnM (error_redirect env redirect e (echo_state params))
              | Inr request \<Rightarrow>
                  (case (case ar_id_token_hint request of
                           None \<Rightarrow> Some None
                         | Some hint \<Rightarrow> map_option (\<lambda>c. Some (ic_sub c)) (ev_jwt_verify env hint)) of
                     None \<Rightarrow> returnM (error_redirect env redirect
                         (invalid_request ''invalid id_token_hint'') (ar_state request))
                   | Some hint_sub \<Rightarrow>
                       bindM (create_transaction env client request hint_sub browser_binding
                         (cf_transaction_ttl_secs (ev_config env))) (\<lambda>txn.
                       advance env txn client accounts))))"

definition consent_ready ::
  "oidc_env \<Rightarrow> auth_txn \<Rightarrow> oidc_client \<Rightarrow> session_user list \<Rightarrow> session_user option oop" where
  "consent_ready env txn client accounts =
     bindM (evaluate env txn client accounts) (\<lambda>ev.
     returnM (case el_session ev of
       None \<Rightarrow> None
     | Some (s, user) \<Rightarrow>
         if el_step ev = StepConsent \<and> at_user_id txn = Some (ou_id user) \<and> at_session_id txn = Some (bs_id s)
         then Some (s, user) else None))"

definition granted_from_selection :: "string list \<Rightarrow> string list \<Rightarrow> string list" where
  "granted_from_selection requested selected = filter (\<lambda>s. s = OPENID \<or> s \<in> set selected) requested"

section \<open>The token endpoint\<close>

record token_response =
  tr_access_token :: string
  tr_token_type :: string
  tr_expires_in :: int
  tr_id_token :: string
  tr_scope :: string

record token_failure =
  tf_error :: oauth_error
  tf_status :: nat

definition failure :: "oauth_error \<Rightarrow> token_failure" where
  "failure e = \<lparr>tf_error = e, tf_status = (if oa_error e = ''invalid_client'' then 401 else 400)\<rparr>"

definition server_failure :: "string \<Rightarrow> token_failure" where
  "server_failure d = \<lparr>tf_error = oauth ''server_error'' d, tf_status = 500\<rparr>"

type_synonym 'a tokop = "(oidc_world, token_failure, 'a) op"

fun registered_method :: "auth_method \<Rightarrow> string" where
  "registered_method ClientSecretBasic = ''client_secret_basic''"
| "registered_method ClientSecretPost = ''client_secret_post''"
| "registered_method AuthNone = ''none''"

definition authenticate_client :: "oidc_env \<Rightarrow> presented_client_auth \<Rightarrow> oidc_client tokop" where
  "authenticate_client env presented =
     (let invalid = failure (invalid_client ''client authentication failed'') in
      bindM (find_by_client_id (presented_client_id presented)) (\<lambda>found.
      bindM (ok_orM found invalid) (\<lambda>client.
      bindM o_now (\<lambda>now.
      bindM (guardM (oc_status client = CsActive) invalid) (\<lambda>_.
      bindM (guardM (presented_method presented = registered_method (oc_auth_method client)) invalid) (\<lambda>_.
      bindM (guardM (case presented of
               PresentedBasic _ secret \<Rightarrow> verify_secret env now client secret
             | PresentedPost _ secret \<Rightarrow> verify_secret env now client secret
             | PresentedNone _ \<Rightarrow> oc_client_type client = ClientPublic) invalid) (\<lambda>_.
      returnM client)))))))"

definition single_tok :: "raw_params \<Rightarrow> string \<Rightarrow> token_failure + string option" where
  "single_tok params name =
     (case single params name of
        Inl _ \<Rightarrow> Inl (failure (invalid_request (''duplicate parameter: '' @ name))) | Inr v \<Rightarrow> Inr v)"

definition db_error :: "'a oop \<Rightarrow> 'a tokop" where
  "db_error = map_errM (\<lambda>_. server_failure ''temporarily unavailable'')"

definition check_pkce :: "oidc_env \<Rightarrow> auth_code \<Rightarrow> string option \<Rightarrow> token_failure + unit" where
  "check_pkce env code verifier =
     (case (ac_code_challenge code, verifier) of
        (Some challenge, Some v) \<Rightarrow>
          ensure (verify_s256 (ev_s256 env) v challenge) (failure (invalid_grant ''PKCE verification failed''))
      | (Some _, None) \<Rightarrow> Inl (failure (invalid_grant ''code_verifier required''))
      | (None, Some _) \<Rightarrow>
          Inl (failure (invalid_grant ''code_verifier sent but no code_challenge was used''))
      | (None, None) \<Rightarrow> Inr ())"

definition bad_grant :: token_failure where
  "bad_grant = failure (invalid_grant ''invalid authorization code'')"

text \<open>After the code has been consumed: the session is noted, the ID token signed.\<close>

definition token_reply ::
  "oidc_env \<Rightarrow> oidc_client \<Rightarrow> oidc_user \<Rightarrow> auth_code \<Rightarrow> string \<Rightarrow> token_response tokop" where
  "token_reply env client user code access_token =
     bindM (case ac_session_id code of
              None \<Rightarrow> returnM None
            | Some session_id \<Rightarrow>
                bindM (attemptM (record_session_client session_id (oc_id client))) (\<lambda>_.
                if cf_backchannel_logout (ev_config env)
                then bindM (attemptM (session_sid session_id)) (\<lambda>r.
                     returnM (case r of Inl _ \<Rightarrow> None | Inr sid \<Rightarrow> sid))
                else returnM None)) (\<lambda>sid.
     bindM o_now (\<lambda>t.
     let now = secs_of t;
         claims = \<lparr>ic_iss = cf_issuer (ev_config env), ic_sub = ev_uuid_text env (ou_id user),
           ic_aud = oc_client_id client, ic_azp = oc_client_id client,
           ic_exp = now + cf_id_token_ttl_secs (ev_config env), ic_iat = now,
           ic_auth_time = secs_of (ac_auth_time code), ic_nonce = ac_nonce code,
           ic_at_hash = Some (ev_at_hash env access_token), ic_sid = sid\<rparr> in
     bindM (ok_orM (ev_jwt_sign env claims) (server_failure ''token signing unavailable'')) (\<lambda>id_token.
     returnM \<lparr>tr_access_token = access_token, tr_token_type = ''Bearer'',
       tr_expires_in = cf_access_token_ttl_secs (ev_config env), tr_id_token = id_token,
       tr_scope = join_scopes (ac_scopes code)\<rparr>)))"

definition exchange_code :: "oidc_env \<Rightarrow> oidc_client \<Rightarrow> raw_params \<Rightarrow> token_response tokop" where
  "exchange_code env client params =
     bindM (liftM (single_tok params ''grant_type'')) (\<lambda>grant_type.
     bindM (case grant_type of
              None \<Rightarrow> throwM (failure (invalid_request ''missing grant_type''))
            | Some g \<Rightarrow> guardM (g = ''authorization_code'')
                (failure (oauth ''unsupported_grant_type'' ''only authorization_code is supported''))) (\<lambda>_.
     bindM (liftM (single_tok params ''code'')) (\<lambda>code_param.
     bindM (ok_orM code_param (failure (invalid_request ''missing code''))) (\<lambda>code_value.
     bindM (liftM (single_tok params ''redirect_uri'')) (\<lambda>redirect.
     bindM (liftM (single_tok params ''code_verifier'')) (\<lambda>verifier.
     bindM (db_error (find_code env code_value)) (\<lambda>found.
     bindM (ok_orM found bad_grant) (\<lambda>code.
     bindM (guardM (ac_client_id code = oc_id client) bad_grant) (\<lambda>_.
     bindM (whenM (ac_consumed_at code \<noteq> None)
       (bindM (revoke_tokens_of_code (ac_id code)) (\<lambda>_. throwM bad_grant))) (\<lambda>_.
     bindM o_now (\<lambda>now.
     bindM (guardM (now < ac_expires_at code) bad_grant) (\<lambda>_.
     bindM (case redirect of
              None \<Rightarrow> throwM (failure (invalid_request ''missing redirect_uri''))
            | Some r \<Rightarrow> guardM (r = ac_redirect_uri code) bad_grant) (\<lambda>_.
     bindM (liftM (check_pkce env code verifier)) (\<lambda>_.
     bindM (readM (\<lambda>w. user_of w (ac_user_id code))) (\<lambda>u.
     bindM (ok_orM u bad_grant) (\<lambda>user.
     bindM (db_error (find_active_consent (ou_id user) (oc_id client))) (\<lambda>consent.
     bindM (guardM (case consent of None \<Rightarrow> False | Some c \<Rightarrow> covers (cn_scopes c) (ac_scopes code)) bad_grant) (\<lambda>_.
     bindM (db_error (consume_code_and_issue_token env code (cf_access_token_ttl_secs (ev_config env)))) (\<lambda>issued.
     case issued of
       None \<Rightarrow> bindM (revoke_tokens_of_code (ac_id code)) (\<lambda>_. throwM bad_grant)
     | Some (access_token, _) \<Rightarrow> token_reply env client user code access_token)))))))))))))))))))"

section \<open>UserInfo\<close>

definition snapshot :: "oidc_user \<Rightarrow> user_snapshot" where
  "snapshot u = \<lparr>sn_id = ou_id u, sn_username = ou_username u, sn_nickname = ou_nickname u,
     sn_email = ou_email u, sn_avatar = ou_avatar u, sn_updated_at = secs_of (ou_updated_at u)\<rparr>"

definition userinfo :: "oidc_env \<Rightarrow> string \<Rightarrow> (string \<times> json_value) list option oop" where
  "userinfo env access_token =
     bindM (find_usable_token env access_token) (\<lambda>ctx.
     returnM (map_option (\<lambda>(token, client, user).
       claims_userinfo (ev_uuid_text env) (snapshot user) (tk_scopes token) (cf_issuer (ev_config env))) ctx))"

definition parse_txn_id :: "oidc_env \<Rightarrow> string option \<Rightarrow> uuid option" where
  "parse_txn_id env raw = Option.bind raw (ev_uuid_parse env)"

end
