(* ===== verification/Oidc_Protocol.thy ===== *)
theory Oidc_Protocol
  imports Oidc_Flow
begin

text \<open>
  The protocol endpoints, \<open>modules/identity/oidc/api/protocol.rs\<close>, of an enabled provider. A reply is
  what the handler decides: the redirect, the page with the data the form carries back, the JSON body,
  and the cookies. Templates, response headers and the audit log are left out. A handler that meets a
  database error answers with the error page; what it has written until then stays.
\<close>

section \<open>Replies\<close>

record login_view =
  lv_txn :: uuid
  lv_csrf :: string
  lv_client_name :: string
  lv_username :: string
  lv_error :: "page_message option"
  lv_reauth :: bool
  lv_switching :: bool

record account_view =
  av_id :: uuid
  av_nickname :: string
  av_username :: string
  av_avatar_url :: "string option"

record scope_item =
  si_name :: string
  si_required :: bool
  si_checked :: bool

datatype chooser_notice = NoticeNone | NoticeAccountChanged | NoticeSignedOut

datatype http_body =
    Found string
  | ErrorHtml nat page_message
  | LoginHtml nat login_view
  | ConsentHtml uuid string account_view "scope_item list"
  | ChooserHtml uuid string "account_view list" chooser_notice
  | TokenJson token_response
  | TokenErrorJson nat oauth_error bool
  | UserInfoJson "(string \<times> json_value) list"
  | BearerChallenge nat "(string \<times> string) option"
  | EmptyReply nat

type_synonym reply = "http_body \<times> cookie list"

definition catchM :: "'a oop \<Rightarrow> 'a \<Rightarrow> 'a oop" where
  "catchM m d = (\<lambda>w. case m w of (Inl _, w') \<Rightarrow> (Inr d, w') | (Inr x, w') \<Rightarrow> (Inr x, w'))"

definition server_error_page :: reply where
  "server_error_page = (ErrorHtml 500 MsgServerError, [])"

definition error_page :: "nat \<Rightarrow> page_message \<Rightarrow> reply" where
  "error_page status message = (ErrorHtml status message, [])"

fun respond :: "flow_next \<Rightarrow> cookie list \<Rightarrow> reply" where
  "respond (RedirectToClient url) cookies = (Found url, cookies)"
| "respond (RedirectLocal url) cookies = (Found url, cookies)"
| "respond (ErrorPage status message) cookies = (ErrorHtml status message, cookies)"

section \<open>Reading the request\<close>

definition is_form :: "http_req \<Rightarrow> bool" where
  "is_form req =
     (case hr_content_type req of
        None \<Rightarrow> False
      | Some v \<Rightarrow> eq_ignore_ascii_case (trim_text (hd (split_on CHR '';'' v)))
          ''application/x-www-form-urlencoded'')"

definition same_origin :: "http_req \<Rightarrow> oidc_env \<Rightarrow> bool" where
  "same_origin req env =
     (case hr_origin req of
        Some (Some o') \<Rightarrow> o' = cf_issuer (ev_config env)
      | Some None \<Rightarrow> False
      | None \<Rightarrow> (case hr_sec_fetch_site req of
            Some site \<Rightarrow> site = ''same-origin'' \<or> site = ''none'' | None \<Rightarrow> True))"

definition field :: "raw_params \<Rightarrow> string \<Rightarrow> string" where
  "field form name = (case single form name of Inr (Some v) \<Rightarrow> v | _ \<Rightarrow> [])"

definition binding_of :: "oidc_env \<Rightarrow> http_req \<Rightarrow> string option" where
  "binding_of env req = raw_cookie req (binding_cookie_name (secure_cookies env))"

section \<open>The authorization endpoint\<close>

definition binding_cookie_max_age_secs :: int where
  "binding_cookie_max_age_secs = 30 * 24 * 3600"

definition ensure_binding :: "oidc_env \<Rightarrow> http_req \<Rightarrow> (string \<times> cookie list) oop" where
  "ensure_binding env req =
     (let name = binding_cookie_name (secure_cookies env) in
      case plausible_cookie req name of
        Some v \<Rightarrow> returnM (v, [])
      | None \<Rightarrow> bindM (new_opaque_secret env) (\<lambda>v.
          returnM (v, [SetCookie name v binding_cookie_max_age_secs])))"

definition authorize :: "oidc_env \<Rightarrow> http_req \<Rightarrow> reply oop" where
  "authorize env req =
     (if hr_post req \<and> \<not> is_form req then returnM (error_page 400 MsgNotForm)
      else let params = (if hr_post req then hr_body req else hr_query req) in
        bindM (ensure_binding env req) (\<lambda>(binding, new_binding).
        catchM (
          bindM (load_browser env req) (\<lambda>b.
          bindM (start_flow env params binding (br_accounts b)) (\<lambda>next.
          returnM (respond next (br_cookies b @ new_binding))))) server_error_page))"

section \<open>Signing in\<close>

definition render_login ::
  "oidc_env \<Rightarrow> auth_txn \<Rightarrow> oidc_client \<Rightarrow> string \<Rightarrow> page_message option \<Rightarrow> nat \<Rightarrow> reply oop" where
  "render_login env txn client username err status =
     catchM (
       bindM (issue_csrf env (at_id txn)) (\<lambda>csrf.
       let prompt = prompt_from_values (at_prompt txn); switching = at_switch_requested_at txn \<noteq> None in
       returnM (LoginHtml status \<lparr>lv_txn = at_id txn, lv_csrf = csrf, lv_client_name = oc_name client,
         lv_username = username, lv_error = err,
         lv_reauth = (\<not> switching \<and> (pr_login prompt \<or> at_max_age txn \<noteq> None)),
         lv_switching = switching\<rparr>, []))) server_error_page"

definition login_prefill :: "auth_txn \<Rightarrow> string oop" where
  "login_prefill txn = readM (\<lambda>w.
     case (if at_switch_requested_at txn = None \<and> at_selected_at txn \<noteq> None
           then Option.bind (at_user_id txn) (user_of w) else None) of
       Some user \<Rightarrow> ou_username user
     | None \<Rightarrow> (case at_login_hint txn of None \<Rightarrow> [] | Some h \<Rightarrow> h))"

definition login_page :: "oidc_env \<Rightarrow> http_req \<Rightarrow> string option \<Rightarrow> reply oop" where
  "login_page env req txn_param =
     (case parse_txn_id env txn_param of
        None \<Rightarrow> returnM (error_page 400 MsgTxnExpired)
      | Some txn_id \<Rightarrow>
          bindM (find_live_transaction env txn_id (binding_of env req)) (\<lambda>found.
          case found of
            None \<Rightarrow> returnM (error_page 400 MsgTxnExpired)
          | Some (txn, client) \<Rightarrow>
              bindM (login_prefill txn) (\<lambda>hint. render_login env txn client hint None 200)))"

definition rate_hit :: "oidc_env \<Rightarrow> string \<Rightarrow> string \<Rightarrow> nat \<Rightarrow> nat \<Rightarrow> (oidc_world, 'e, bool option) op" where
  "rate_hit env bucket key limit window = (\<lambda>w.
     (Inr (ev_rate env (ow_next w) bucket key limit window), w\<lparr>ow_next := ow_next w + 1\<rparr>))"

definition rate_limit :: "oidc_env \<Rightarrow> string \<Rightarrow> nat \<Rightarrow> nat" where
  "rate_limit env key dflt =
     (case Option.bind (ev_setting env key) parse_u32 of
        None \<Rightarrow> dflt | Some v \<Rightarrow> if 0 < v then v else dflt)"

definition login_rate_ok :: "oidc_env \<Rightarrow> string \<Rightarrow> string \<Rightarrow> bool option oop" where
  "login_rate_ok env username ip =
     (let per_user = rate_limit env ''OIDC_LOGIN_RATE_PER_USER'' 10;
          per_ip = rate_limit env ''OIDC_LOGIN_RATE_PER_IP'' 50;
          user_key = ev_sha256_hex env (ev_lowercase env username) in
      bindM (rate_hit env ''oidc_login_user'' user_key per_user 300) (\<lambda>a.
      if a = Some True then rate_hit env ''oidc_login_ip'' ip per_ip 300 else returnM a))"

text \<open>\<open>authentication::verify_user_credentials\<close>: the account by name and whether the password fits.\<close>

definition verify_user_credentials ::
  "oidc_env \<Rightarrow> string \<Rightarrow> string \<Rightarrow> (oidc_user option \<times> bool) oop" where
  "verify_user_credentials env username password =
     bindM (readM (\<lambda>w. List.find (\<lambda>u. ou_username u = username) (ow_users w))) (\<lambda>found.
     case found of
       None \<Rightarrow> returnM (None, False)
     | Some user \<Rightarrow>
         bindM (ok_orM (ev_argon2_verify env password (ou_password user)) OeInternal) (\<lambda>verified.
         returnM (Some user, verified)))"

definition credentials_ok :: "string \<Rightarrow> string \<Rightarrow> bool" where
  "credentials_ok username password \<longleftrightarrow>
     username \<noteq> [] \<and> password \<noteq> [] \<and> chars_count username \<le> 64 \<and> length password \<le> 256"

definition establish_login ::
  "oidc_env \<Rightarrow> http_req \<Rightarrow> oidc_user \<Rightarrow> (browser_session \<times> session_user list \<times> cookie list) oop" where
  "establish_login env req user =
     bindM o_now (\<lambda>now.
     let ttl = cf_session_ttl_secs (ev_config env) in
     if cf_multi_account (ev_config env) then
       bindM (load_browser env req) (\<lambda>b.
       bindM (add_account env b user now ttl OidcLogin) (\<lambda>(entry, b).
       returnM (fst entry, br_accounts b, br_cookies b)))
     else
       bindM (case sso_cookie_value req env of
                None \<Rightarrow> returnM () | Some old \<Rightarrow> ignoreM (revoke_session env old RrReplaced)) (\<lambda>_.
       bindM (create_session env (ou_id user) now ttl OidcLogin) (\<lambda>(cookie, session).
       returnM (session, [(session, user)], [sso_cookie env cookie]))))"

definition sign_in ::
  "oidc_env \<Rightarrow> http_req \<Rightarrow> auth_txn \<Rightarrow> oidc_client \<Rightarrow> oidc_user \<Rightarrow> reply oop" where
  "sign_in env req txn client user =
     bindM (attemptM (establish_login env req user)) (\<lambda>established.
     case established of
       Inl _ \<Rightarrow> returnM server_error_page
     | Inr (session, accounts, cookies) \<Rightarrow>
         catchM (
           bindM (bind_password_login (at_id txn) (ou_id user) (bs_id session)) (\<lambda>bound.
           bindM (case bound of
                    Some txn \<Rightarrow> advance env txn client accounts
                  | None \<Rightarrow> returnM (ErrorPage 400 MsgTxnExpired)) (\<lambda>next.
           returnM (respond next cookies)))) (ErrorHtml 500 MsgServerError, cookies))"

definition login_submit :: "oidc_env \<Rightarrow> http_req \<Rightarrow> reply oop" where
  "login_submit env req =
     (if \<not> is_form req \<or> \<not> same_origin req env then returnM (error_page 400 MsgBadOrigin)
      else let form = hr_body req in
      case parse_txn_id env (Some (field form ''txn'')) of
        None \<Rightarrow> returnM (error_page 400 MsgTxnExpired)
      | Some txn_id \<Rightarrow>
          bindM (find_live_transaction env txn_id (binding_of env req)) (\<lambda>found.
          case found of
            None \<Rightarrow> returnM (error_page 400 MsgTxnExpired)
          | Some (txn, client) \<Rightarrow>
              if \<not> csrf_matches env txn (field form ''csrf'') then returnM (error_page 400 MsgCsrf)
              else if field form ''action'' = ''cancel'' then
                catchM (bindM (finish_with_error env txn (oauth ''access_denied'' ''user cancelled login''))
                  (\<lambda>next. returnM (respond next []))) server_error_page
              else
                let username = trim_text (field form ''username''); password = field form ''password'' in
                if \<not> credentials_ok username password
                  then render_login env txn client username (Some MsgCredentialsMissing) 200
                else
                  bindM (login_rate_ok env username (case hr_ip req of None \<Rightarrow> ''unknown'' | Some ip \<Rightarrow> ip)) (\<lambda>ok.
                  case ok of
                    None \<Rightarrow> returnM (error_page 503 MsgUnavailable)
                  | Some False \<Rightarrow> render_login env txn client username (Some MsgTooManyAttempts) 429
                  | Some True \<Rightarrow>
                      bindM (attemptM (verify_user_credentials env username password)) (\<lambda>verified.
                      case verified of
                        Inl _ \<Rightarrow> returnM server_error_page
                      | Inr (Some user, True) \<Rightarrow>
                          if \<not> opt_ok (\<lambda>sub. sub = ev_uuid_text env (ou_id user)) (at_id_token_hint_sub txn)
                          then render_login env txn client [] (Some MsgOtherAccountRequired) 200
                          else sign_in env req txn client user
                      | Inr _ \<Rightarrow> render_login env txn client username (Some MsgWrongCredentials) 200))))"

section \<open>Consent\<close>

fun scope_item_of :: "string \<Rightarrow> bool \<Rightarrow> scope_item option" where
  "scope_item_of name previously_granted =
     (if name = OPENID then Some \<lparr>si_name = OPENID, si_required = True, si_checked = True\<rparr>
      else if name = PROFILE then Some \<lparr>si_name = PROFILE, si_required = False, si_checked = True\<rparr>
      else if name = EMAIL then Some \<lparr>si_name = EMAIL, si_required = False, si_checked = previously_granted\<rparr>
      else None)"

definition strip_prefix :: "string \<Rightarrow> string \<Rightarrow> string option" where
  "strip_prefix p s = (if text_starts_with s p then Some (drop (length p) s) else None)"

definition same_origin_avatar :: "string option \<Rightarrow> string option" where
  "same_origin_avatar avatar =
     Option.bind (Option.bind avatar (strip_prefix ''/public/'')) (\<lambda>path.
     Option.bind (strip_prefix ''images/'' path) (\<lambda>name.
     if name \<noteq> [] \<and> length name \<le> 200 \<and> \<not> text_starts_with name ''.'' \<and>
        list_all (\<lambda>b. is_ascii_alphanumeric b \<or> b \<in> set ''._-'') name
     then Some path else None))"

definition account_view_of :: "oidc_env \<Rightarrow> session_user \<Rightarrow> account_view" where
  "account_view_of env = (\<lambda>(session, user). \<lparr>av_id = bs_id session, av_nickname = ou_nickname user,
     av_username = ou_username user,
     av_avatar_url = map_option (\<lambda>_. ''/oauth/accounts/'' @ ev_uuid_text env (bs_id session) @ ''/avatar'')
       (same_origin_avatar (ou_avatar user))\<rparr>)"

definition consent_page :: "oidc_env \<Rightarrow> http_req \<Rightarrow> string option \<Rightarrow> reply oop" where
  "consent_page env req txn_param =
     (case parse_txn_id env txn_param of
        None \<Rightarrow> returnM (error_page 400 MsgTxnExpired)
      | Some txn_id \<Rightarrow>
          catchM (
            bindM (find_live_transaction env txn_id (binding_of env req)) (\<lambda>found.
            case found of
              None \<Rightarrow> returnM (error_page 400 MsgTxnExpired)
            | Some (txn, client) \<Rightarrow>
                bindM (load_browser env req) (\<lambda>b.
                bindM (consent_ready env txn client (br_accounts b)) (\<lambda>ready.
                case ready of
                  None \<Rightarrow> bindM (advance env txn client (br_accounts b)) (\<lambda>next. returnM (respond next []))
                | Some (session, user) \<Rightarrow>
                    bindM (find_active_consent (ou_id user) (oc_id client)) (\<lambda>previous.
                    bindM (issue_csrf env (at_id txn)) (\<lambda>csrf.
                    let previously = (case previous of None \<Rightarrow> [] | Some c \<Rightarrow> cn_scopes c) in
                    returnM (ConsentHtml (at_id txn) csrf (account_view_of env (session, user))
                      (List.map_filter (\<lambda>s. scope_item_of s (s \<in> set previously)) (at_scopes txn)), []))))))) server_error_page)"

definition account_switch :: "oidc_env \<Rightarrow> auth_txn \<Rightarrow> string \<Rightarrow> reply oop" where
  "account_switch env txn presented_csrf =
     bindM (request_account_switch env (at_id txn) presented_csrf) (\<lambda>switched.
     returnM (if switched then (Found (local_page env ''/oauth/login'' txn), [])
              else error_page 400 MsgTxnExpired))"

definition consent_submit :: "oidc_env \<Rightarrow> http_req \<Rightarrow> reply oop" where
  "consent_submit env req =
     (if \<not> is_form req \<or> \<not> same_origin req env then returnM (error_page 400 MsgBadOrigin)
      else let form = hr_body req in
      case parse_txn_id env (Some (field form ''txn'')) of
        None \<Rightarrow> returnM (error_page 400 MsgTxnExpired)
      | Some txn_id \<Rightarrow>
          catchM (
            bindM (find_live_transaction env txn_id (binding_of env req)) (\<lambda>found.
            case found of
              None \<Rightarrow> returnM (error_page 400 MsgTxnExpired)
            | Some (txn, client) \<Rightarrow>
                if \<not> csrf_matches env txn (field form ''csrf'') then returnM (error_page 400 MsgCsrf)
                else if field form ''action'' = ''switch'' then account_switch env txn (field form ''csrf'')
                else
                  bindM (load_browser env req) (\<lambda>b.
                  bindM (consent_ready env txn client (br_accounts b)) (\<lambda>ready.
                  case ready of
                    None \<Rightarrow> bindM (advance env txn client (br_accounts b)) (\<lambda>next.
                      returnM (respond next (br_cookies b)))
                  | Some (session, user) \<Rightarrow>
                      bindM (if field form ''action'' = ''allow'' then
                               let granted = granted_from_selection (at_scopes txn) (param_values form ''scope'') in
                               bindM (grant_consent (ou_id user) (oc_id client) granted) (\<lambda>_.
                               issue_code env txn client session user granted)
                             else finish_with_error env txn (oauth ''access_denied'' ''user denied the request'')) (\<lambda>next.
                      returnM (respond next [])))))) server_error_page)"

section \<open>Choosing an account\<close>

definition render_select_account ::
  "oidc_env \<Rightarrow> auth_txn \<Rightarrow> session_user list \<Rightarrow> chooser_notice \<Rightarrow> reply oop" where
  "render_select_account env txn cands notice =
     (case cands of
        [] \<Rightarrow> returnM (Found (local_page env ''/oauth/login'' txn), [])
      | (first, _) # _ \<Rightarrow>
          bindM (issue_account_choice_csrf env (at_id txn) (bs_id first)) (\<lambda>csrf.
          returnM (ChooserHtml (at_id txn) csrf (map (account_view_of env) cands) notice, [])))"

definition with_cookies :: "reply \<Rightarrow> cookie list \<Rightarrow> reply" where
  "with_cookies r cookies = (fst r, snd r @ cookies)"

definition select_account_page :: "oidc_env \<Rightarrow> http_req \<Rightarrow> string option \<Rightarrow> reply oop" where
  "select_account_page env req txn_param =
     (case parse_txn_id env txn_param of
        None \<Rightarrow> returnM (error_page 400 MsgTxnExpired)
      | Some txn_id \<Rightarrow>
          catchM (
            bindM (find_live_transaction env txn_id (binding_of env req)) (\<lambda>found.
            case found of
              None \<Rightarrow> returnM (error_page 400 MsgTxnExpired)
            | Some (txn, client) \<Rightarrow>
                bindM (load_browser env req) (\<lambda>b.
                bindM (evaluate env txn client (br_accounts b)) (\<lambda>ev.
                bindM (if el_step ev \<in> {StepSelectAccount, StepIssue} \<and> el_candidates ev \<noteq> []
                         then render_select_account env txn (el_candidates ev) NoticeNone
                       else if el_step ev = StepLogin then returnM (Found (local_page env ''/oauth/login'' txn), [])
                       else if el_step ev = StepConsent then returnM (Found (local_page env ''/oauth/consent'' txn), [])
                       else returnM (error_page 400 MsgTxnExpired)) (\<lambda>resp.
                returnM (with_cookies resp (br_cookies b))))))) server_error_page)"

definition choose_account ::
  "oidc_env \<Rightarrow> http_req \<Rightarrow> auth_txn \<Rightarrow> oidc_client \<Rightarrow> uuid option \<Rightarrow> string \<Rightarrow> reply oop" where
  "choose_account env req txn client posted_account csrf =
     bindM (load_browser env req) (\<lambda>b.
     let cookies = br_cookies b; cands = candidates env txn (br_accounts b);
         target = (case posted_account of Some i \<Rightarrow> Some i | None \<Rightarrow> at_choice_session_id txn) in
     case Option.bind target (\<lambda>i. List.find (\<lambda>(s, u). bs_id s = i) cands) of
       None \<Rightarrow>
         if cands = [] then bindM (advance env txn client []) (\<lambda>next. returnM (respond next cookies))
         else bindM (render_select_account env txn cands NoticeAccountChanged) (\<lambda>resp.
              returnM (with_cookies resp cookies))
     | Some (session, user) \<Rightarrow>
         bindM (if posted_account \<noteq> None
                then confirm_account_selection_explicit env (at_id txn) (bs_id session) (ou_id user) csrf
                else confirm_account_selection env (at_id txn) (bs_id session) (ou_id user) csrf) (\<lambda>confirmed.
         case confirmed of
           None \<Rightarrow> returnM (error_page 400 MsgTxnExpired)
         | Some txn \<Rightarrow>
             bindM (advance env txn client (br_accounts b)) (\<lambda>next. returnM (respond next cookies))))"

definition chooser_sign_out ::
  "oidc_env \<Rightarrow> http_req \<Rightarrow> auth_txn \<Rightarrow> bool \<Rightarrow> uuid option \<Rightarrow> reply oop" where
  "chooser_sign_out env req txn everything account =
     bindM (load_browser env req) (\<lambda>b0.
     bindM (if cf_multi_account (ev_config env) then
              (if everything then bindM (sign_out_browser env b0 RrLogoutBrowser) (\<lambda>(revoked, b). returnM b)
               else case account of
                 None \<Rightarrow> returnM b0
               | Some i \<Rightarrow>
                   if browser_find b0 i = None then returnM b0
                   else bindM (sign_out_account b0 i RrLogout) (\<lambda>(done, b). returnM b))
            else
              let matches = everything \<or> (case br_accounts b0 of
                    [] \<Rightarrow> False | (s, u) # _ \<Rightarrow> opt_ok (\<lambda>i. i = bs_id s) account) in
              bindM (if matches then
                       (case sso_cookie_value req env of
                          None \<Rightarrow> returnM b0
                        | Some value \<Rightarrow> bindM (revoke_session env value RrLogout) (\<lambda>hit.
                            returnM (if hit then b0\<lparr>br_accounts := []\<rparr> else b0)))
                     else returnM b0) (\<lambda>b.
              returnM (b\<lparr>br_cookies := br_cookies b @ [RemovalCookie (sso_cookie_name (secure_cookies env))]\<rparr>))) (\<lambda>b.
     let cands = candidates env txn (br_accounts b) in
     bindM (if cands = [] then bindM (issue_csrf env (at_id txn)) (\<lambda>_.
              returnM (Found (local_page env ''/oauth/login'' txn), []))
            else render_select_account env txn cands NoticeSignedOut) (\<lambda>resp.
     returnM (with_cookies resp (br_cookies b)))))"

definition select_account_submit :: "oidc_env \<Rightarrow> http_req \<Rightarrow> reply oop" where
  "select_account_submit env req =
     (if \<not> is_form req \<or> \<not> same_origin req env then returnM (error_page 400 MsgBadOrigin)
      else let form = hr_body req in
      case parse_txn_id env (Some (field form ''txn'')) of
        None \<Rightarrow> returnM (error_page 400 MsgTxnExpired)
      | Some txn_id \<Rightarrow>
          catchM (
            bindM (find_live_transaction env txn_id (binding_of env req)) (\<lambda>found.
            case found of
              None \<Rightarrow> returnM (error_page 400 MsgTxnExpired)
            | Some (txn, client) \<Rightarrow>
                let csrf = field form ''csrf''; action = field form ''action'';
                    posted_account = ev_uuid_parse env (trim_text (field form ''account'')) in
                if \<not> csrf_matches env txn csrf then returnM (error_page 400 MsgCsrf)
                else if action = ''cancel'' then
                  bindM (finish_with_error env txn (oauth ''access_denied'' ''user cancelled account selection''))
                    (\<lambda>next. returnM (respond next []))
                else if action = ''other'' then account_switch env txn csrf
                else if action = ''continue'' then choose_account env req txn client posted_account csrf
                else if action = ''logout'' \<or> action = ''logout_all''
                  then chooser_sign_out env req txn (action = ''logout_all'') posted_account
                else returnM (error_page 400 MsgBadAction))) server_error_page)"

section \<open>The token endpoint\<close>

definition token_error :: "oauth_error \<Rightarrow> nat \<Rightarrow> bool \<Rightarrow> reply" where
  "token_error err status basic_used = (TokenErrorJson status err (status = 401 \<and> basic_used), [])"

definition token_endpoint :: "oidc_env \<Rightarrow> http_req \<Rightarrow> reply oop" where
  "token_endpoint env req =
     (if \<not> is_form req then returnM (token_error
         (invalid_request ''content type must be application/x-www-form-urlencoded'') 400 False)
      else let params = hr_body req; auth_header = Option.bind (hr_authorization req) (\<lambda>v. v);
               basic_used = (auth_header \<noteq> None) in
      case (single params ''client_id'', single params ''client_secret'') of
        (Inr form_client_id, Inr form_secret) \<Rightarrow>
          (case identify (ev_base64 env) auth_header form_client_id form_secret of
             Inl e \<Rightarrow> returnM (token_error e (if oa_error e = ''invalid_client'' then 401 else 400) basic_used)
           | Inr presented \<Rightarrow>
               bindM (rate_hit env ''oidc_token'' (ev_sha256_hex env (presented_client_id presented)) 300 60) (\<lambda>ok.
               case ok of
                 None \<Rightarrow> returnM (token_error
                     (oauth ''temporarily_unavailable'' ''temporarily unavailable'') 503 basic_used)
               | Some False \<Rightarrow> returnM (token_error (oauth ''temporarily_unavailable'' ''rate limited'') 429 basic_used)
               | Some True \<Rightarrow>
                   bindM (attemptM (bindM (authenticate_client env presented) (\<lambda>client.
                     exchange_code env client params))) (\<lambda>r.
                   returnM (case r of
                     Inl f \<Rightarrow> token_error (tf_error f) (tf_status f) basic_used
                   | Inr resp \<Rightarrow> (TokenJson resp, [])))))
      | _ \<Rightarrow> returnM (token_error (invalid_request ''duplicate client credentials'') 400 basic_used))"

section \<open>UserInfo and logout\<close>

definition bearer_token :: "string \<Rightarrow> string option" where
  "bearer_token header =
     (case split_once CHR '' '' (trim_text header) of
        None \<Rightarrow> None
      | Some (scheme, value) \<Rightarrow>
          if eq_ignore_ascii_case scheme ''bearer'' then Some (trim_text value) else None)"

definition bearer_challenge :: "(string \<times> string) option \<Rightarrow> nat \<Rightarrow> reply" where
  "bearer_challenge err status = (BearerChallenge status err, [])"

definition userinfo_reply :: "oidc_env \<Rightarrow> string \<Rightarrow> reply oop" where
  "userinfo_reply env access_token =
     bindM (userinfo env access_token) (\<lambda>body.
     returnM (case body of
       Some claims \<Rightarrow> (UserInfoJson claims, [])
     | None \<Rightarrow> bearer_challenge
         (Some (''invalid_token'', ''access token is invalid, expired or revoked'')) 401))"

definition userinfo_endpoint :: "oidc_env \<Rightarrow> http_req \<Rightarrow> reply oop" where
  "userinfo_endpoint env req =
     (let header_token = Option.bind (Option.bind (hr_authorization req) (\<lambda>v. v)) bearer_token;
          has_auth_header = (hr_authorization req \<noteq> None) in
      case (if hr_post req \<and> is_form req then single (hr_body req) ''access_token'' else Inr None) of
        Inl _ \<Rightarrow> returnM (bearer_challenge (Some (''invalid_request'', ''duplicate access_token'')) 400)
      | Inr body_token \<Rightarrow>
          (case (header_token, body_token, has_auth_header) of
             (None, None, True) \<Rightarrow>
               returnM (bearer_challenge (Some (''invalid_token'', ''malformed authorization header'')) 401)
           | (None, None, False) \<Rightarrow> returnM (bearer_challenge None 401)
           | (Some t, None, _) \<Rightarrow> userinfo_reply env t
           | (None, Some t, False) \<Rightarrow> userinfo_reply env t
           | _ \<Rightarrow> returnM (bearer_challenge
               (Some (''invalid_request'', ''multiple token transmission methods'')) 400)))"

definition oauth_logout :: "oidc_env \<Rightarrow> http_req \<Rightarrow> reply oop" where
  "oauth_logout env req =
     (if \<not> first_party_request req env then returnM (EmptyReply 403, [])
      else catchM (
        bindM (if cf_multi_account (ev_config env) then
                 bindM (load_browser env req) (\<lambda>b.
                 bindM (sign_out_browser env b RrLegacyLogout) (\<lambda>(revoked, b). returnM (br_cookies b)))
               else
                 bindM (case sso_cookie_value req env of
                          None \<Rightarrow> returnM False | Some value \<Rightarrow> revoke_session env value RrLegacyLogout) (\<lambda>_.
                 returnM [RemovalCookie (sso_cookie_name (secure_cookies env))])) (\<lambda>cookies.
        returnM (EmptyReply 204, cookies))) (EmptyReply 500, []))"

end
