(* ===== verification/Oidc_Sessions.thy ===== *)
theory Oidc_Sessions
  imports Oidc_Protocol
begin

text \<open>
  The sessions of the main site: \<open>api/session.rs\<close> (single sign-on established by the platform's own
  sign-in or by its token), \<open>api/web_session.rs\<close> (cookie sessions) and the platform's sign-in of
  \<open>authentication/mod.rs\<close>. The platform token (HS512) is checked and issued by
  \<open>core/security/jwt.rs\<close>, here what it answers.
\<close>

section \<open>Single sign-on from the platform (session.rs)\<close>

definition establish_after_password_login :: "oidc_env \<Rightarrow> http_req \<Rightarrow> oidc_user \<Rightarrow> cookie list oop" where
  "establish_after_password_login env req user =
     bindM o_now (\<lambda>now.
     let ttl = cf_session_ttl_secs (ev_config env) in
     if cf_multi_account (ev_config env) then
       bindM (load_browser env req) (\<lambda>b.
       bindM (add_account env b user now ttl PasswordLogin) (\<lambda>(entry, b). returnM (br_cookies b)))
     else
       bindM (case sso_cookie_value req env of
                None \<Rightarrow> returnM False | Some old \<Rightarrow> revoke_session env old RrReplaced) (\<lambda>_.
       bindM (create_session env (ou_id user) now ttl PasswordLogin) (\<lambda>(value, session).
       returnM [sso_cookie env value])))"

definition platform_jwt_default_ttl_secs :: int where
  "platform_jwt_default_ttl_secs = 8 * 3600"

definition bridge_window :: "oidc_env \<Rightarrow> http_req \<Rightarrow> (timestamp \<times> int) oop" where
  "bridge_window env req =
     bindM (ok_orM (map_option trim_text
       (Option.bind (Option.bind (hr_authorization req) (\<lambda>v. v)) (strip_prefix ''Bearer ''))) OeUnauthorized) (\<lambda>token.
     bindM (ok_orM (ev_platform_jwt env token) OeUnauthorized) (\<lambda>(exp, iat).
     bindM o_now (\<lambda>t.
     let now = secs_of t;
         issued_at = min (case iat of None \<Rightarrow> exp - platform_jwt_default_ttl_secs | Some i \<Rightarrow> i) now;
         ttl = min (cf_session_ttl_secs (ev_config env)) (exp - now) in
     bindM (guardM (ev_timestamp_ok env issued_at) OeUnauthorized) (\<lambda>_.
     bindM (guardM (0 < ttl) OeUnauthorized) (\<lambda>_.
     returnM (seconds issued_at, ttl))))))"

definition bridge :: "oidc_env \<Rightarrow> http_req \<Rightarrow> oidc_user \<Rightarrow> (bool \<times> cookie list) oop" where
  "bridge env req user =
     (if cf_multi_account (ev_config env) then
        bindM (load_browser env req) (\<lambda>b.
        if list_ex (\<lambda>(s, u). ou_id u = ou_id user) (br_accounts b) then returnM (False, br_cookies b)
        else
          bindM (bridge_window env req) (\<lambda>(auth_time, ttl).
          bindM (add_account env b user auth_time ttl JwtBridge) (\<lambda>(entry, b).
          returnM (True, br_cookies b))))
      else
        bindM (case sso_cookie_value req env of
                 None \<Rightarrow> returnM None | Some current \<Rightarrow> find_valid_session env current) (\<lambda>found.
        if (case found of None \<Rightarrow> False | Some (s, u) \<Rightarrow> ou_id u = ou_id user) then returnM (False, [])
        else
          bindM (bridge_window env req) (\<lambda>(auth_time, ttl).
          bindM (case sso_cookie_value req env of
                   None \<Rightarrow> returnM False | Some old \<Rightarrow> revoke_session env old RrReplaced) (\<lambda>_.
          bindM (create_session env (ou_id user) auth_time ttl JwtBridge) (\<lambda>(value, session).
          returnM (True, [SetCookie (sso_cookie_name (secure_cookies env)) value ttl]))))))"

definition sso_sign_out :: "oidc_env \<Rightarrow> http_req \<Rightarrow> cookie list oop" where
  "sso_sign_out env req =
     bindM (guardM (first_party_request req env) OeForbidden) (\<lambda>_.
     if cf_multi_account (ev_config env) then
       bindM (load_browser env req) (\<lambda>b.
       bindM (sign_out_browser env b RrLegacyLogout) (\<lambda>(revoked, b). returnM (br_cookies b)))
     else
       bindM (case sso_cookie_value req env of
                None \<Rightarrow> returnM False | Some value \<Rightarrow> revoke_session env value RrLegacyLogout) (\<lambda>_.
       returnM [RemovalCookie (sso_cookie_name (secure_cookies env))]))"

text \<open>
  \<open>POST /api/session\<close>: a disabled account is refused; the single sign-on cookie is a by-product
  whose failure does not fail the sign-in.
\<close>

definition user_login :: "oidc_env \<Rightarrow> http_req \<Rightarrow> string \<Rightarrow> string \<Rightarrow> (uuid \<times> cookie list) oop" where
  "user_login env req username password =
     bindM (verify_user_credentials env username password) (\<lambda>r.
     case r of
       (Some user, True) \<Rightarrow>
         bindM (guardM (ou_status user = AccountActive) OeForbidden) (\<lambda>_.
         bindM (attemptM (establish_after_password_login env req user)) (\<lambda>cookies.
         returnM (ou_id user, case cookies of Inl _ \<Rightarrow> [] | Inr cs \<Rightarrow> cs)))
     | _ \<Rightarrow> throwM OeUnauthorized)"

section \<open>Cookie sessions (web\_session.rs)\<close>

record web_account_dto =
  wa_id :: uuid
  wa_user_id :: uuid
  wa_username :: string
  wa_nickname :: string
  wa_avatar :: "string option"
  wa_active :: bool

record web_session_status =
  ws_authenticated :: bool
  ws_user :: "uuid option"
  ws_csrf_token :: "string option"
  ws_accounts :: "web_account_dto list"
  ws_auto_restore :: bool
  ws_max_accounts :: nat
  ws_global_logout :: bool

definition status_of :: "oidc_env \<Rightarrow> browser \<Rightarrow> web_session_status" where
  "status_of env b =
     (let active = web_account b in
      \<lparr>ws_authenticated = (active \<noteq> None), ws_user = map_option (\<lambda>(s, u). ou_id u) active,
       ws_csrf_token = browser_csrf_token env b,
       ws_accounts = map (\<lambda>(s, u). \<lparr>wa_id = bs_id s, wa_user_id = ou_id u, wa_username = ou_username u,
         wa_nickname = ou_nickname u, wa_avatar = ou_avatar u,
         wa_active = (map_option (\<lambda>(s, u). bs_id s) active = Some (bs_id s))\<rparr>) (br_accounts b),
       ws_auto_restore = (active = None \<and> length (restorable b) = 1),
       ws_max_accounts = cf_max_browser_accounts (ev_config env),
       ws_global_logout = cf_backchannel_logout (ev_config env)\<rparr>)"

type_synonym web_reply = "web_session_status \<times> cookie list"

definition web_reply_of :: "oidc_env \<Rightarrow> browser \<Rightarrow> web_reply" where
  "web_reply_of env b = (status_of env b, br_cookies b)"

definition unified :: "oidc_env \<Rightarrow> unit oop" where
  "unified env = guardM (cf_unified_web_session (ev_config env)) OeNotFound"

definition check_csrf :: "http_req \<Rightarrow> oidc_env \<Rightarrow> browser \<Rightarrow> bool \<Rightarrow> unit oop" where
  "check_csrf req env b allow_without_container =
     bindM (guardM (first_party_request req env) OeForbidden) (\<lambda>_.
     let presented = (case hr_csrf_token req of None \<Rightarrow> [] | Some t \<Rightarrow> t) in
     guardM (if br_container b \<noteq> None then browser_csrf_matches env b presented
             else allow_without_container \<and> presented \<noteq> []) OeForbidden)"

definition web_status :: "oidc_env \<Rightarrow> http_req \<Rightarrow> web_reply option oop" where
  "web_status env req =
     (if \<not> cf_unified_web_session (ev_config env) then returnM None
      else bindM (load_browser env req) (\<lambda>b. returnM (Some (web_reply_of env b))))"

definition web_login :: "oidc_env \<Rightarrow> http_req \<Rightarrow> string \<Rightarrow> string \<Rightarrow> web_reply oop" where
  "web_login env req raw_username password =
     bindM (unified env) (\<lambda>_.
     bindM (load_browser env req) (\<lambda>b.
     bindM (check_csrf req env b True) (\<lambda>_.
     let username = trim_text raw_username in
     bindM (guardM (credentials_ok username password) (OeValidation IeName)) (\<lambda>_.
     bindM (login_rate_ok env username (case hr_ip req of None \<Rightarrow> ''unknown'' | Some ip \<Rightarrow> ip)) (\<lambda>ok.
     bindM (guardM (ok \<noteq> None) OeInternal) (\<lambda>_.
     bindM (guardM (ok = Some True) OeConflict) (\<lambda>_.
     bindM (verify_user_credentials env username password) (\<lambda>r.
     case r of
       (Some user, True) \<Rightarrow>
         bindM o_now (\<lambda>now.
         bindM (add_account env b user now (cf_session_ttl_secs (ev_config env)) PasswordLogin) (\<lambda>(entry, b).
         bindM (set_web_account b (Some (bs_id (fst entry))) False) (\<lambda>b.
         returnM (web_reply_of env b))))
     | _ \<Rightarrow> throwM OeUnauthorized))))))))"

definition web_restore :: "oidc_env \<Rightarrow> http_req \<Rightarrow> web_reply oop" where
  "web_restore env req =
     bindM (unified env) (\<lambda>_.
     bindM (load_browser env req) (\<lambda>b.
     bindM (check_csrf req env b False) (\<lambda>_.
     if web_account b \<noteq> None then returnM (web_reply_of env b)
     else case restorable b of
       [(session, user)] \<Rightarrow>
         bindM (set_web_account b (Some (bs_id session)) False) (\<lambda>b. returnM (web_reply_of env b))
     | _ \<Rightarrow> throwM OeConflict)))"

definition web_select :: "oidc_env \<Rightarrow> http_req \<Rightarrow> uuid \<Rightarrow> web_reply oop" where
  "web_select env req account_id =
     bindM (unified env) (\<lambda>_.
     bindM (load_browser env req) (\<lambda>b.
     bindM (check_csrf req env b False) (\<lambda>_.
     bindM (ok_orM (browser_find b account_id) OeNotFound) (\<lambda>(session, user).
     bindM (set_web_account b (Some (bs_id session)) False) (\<lambda>b.
     returnM (web_reply_of env b))))))"

definition web_migrate :: "oidc_env \<Rightarrow> http_req \<Rightarrow> oidc_user \<Rightarrow> web_reply oop" where
  "web_migrate env req user =
     bindM (unified env) (\<lambda>_.
     bindM (guardM (hr_authorization req \<noteq> None) OeUnauthorized) (\<lambda>_.
     bindM (load_browser env req) (\<lambda>b.
     bindM (check_csrf req env b True) (\<lambda>_.
     if web_account b \<noteq> None then returnM (web_reply_of env b)
     else
       bindM (case List.find (\<lambda>(s, u). ou_id u = ou_id user) (br_accounts b) of
                Some (s, u) \<Rightarrow> returnM (bs_id s, b)
              | None \<Rightarrow>
                  bindM (bridge_window env req) (\<lambda>(auth_time, ttl).
                  bindM (add_account env b user auth_time ttl JwtBridge) (\<lambda>(entry, b).
                  returnM (bs_id (fst entry), b)))) (\<lambda>(session_id, b).
       bindM (set_web_account b (Some session_id) False) (\<lambda>b.
       returnM (web_reply_of env b)))))))"

end
