(* ===== verification/Oidc_Logout.thy ===== *)
theory Oidc_Logout
  imports Oidc_Sessions
begin

text \<open>
  Standard logout: the outbox of back-channel notifications (\<open>backchannel.rs\<close>), logout initiated by
  an application (\<open>api/logout.rs\<close>) and the main site's logout (\<open>api/web_session.rs\<close>). What the
  outbound HTTP client answers, its address policy included, is given. The notifications of a batch
  are sent one after the other and the total timeout that bounds a batch is left out.
\<close>

section \<open>The outbox\<close>

definition max_attempts :: int where "max_attempts = 6"

definition backoff_secs :: "int list" where "backoff_secs = [30, 120, 600, 1800, 7200]"

definition lease_secs :: int where "lease_secs = 120"

definition logout_token_claims_new ::
  "oidc_env \<Rightarrow> string \<Rightarrow> string \<Rightarrow> string \<Rightarrow> string \<Rightarrow> int \<Rightarrow> logout_token_claims oop" where
  "logout_token_claims_new env issuer client_id sub sid ttl_secs =
     bindM o_now (\<lambda>t.
     bindM (random_token env 24) (\<lambda>jti.
     returnM \<lparr>lt_iss = issuer, lt_aud = client_id, lt_iat = secs_of t, lt_exp = secs_of t + ttl_secs,
       lt_jti = jti, lt_sid = sid, lt_sub = sub\<rparr>))"

record affected_client =
  af_client_id :: string
  af_name :: string
  af_supports_backchannel :: bool

definition supports_backchannel :: "oidc_client \<Rightarrow> bool" where
  "supports_backchannel c \<longleftrightarrow> oc_backchannel_logout_uri c \<noteq> None \<and> oc_status c = CsActive"

fun first_by :: "('a \<Rightarrow> 'b) \<Rightarrow> 'b list \<Rightarrow> 'a list \<Rightarrow> 'a list" where
  "first_by k seen [] = []"
| "first_by k seen (x # xs) =
     (if k x \<in> set seen then first_by k seen xs else x # first_by k (k x # seen) xs)"

definition affected_clients :: "uuid list \<Rightarrow> affected_client list oop" where
  "affected_clients session_ids = readM (\<lambda>w.
     if session_ids = [] then []
     else sort_key af_name (map (\<lambda>c. \<lparr>af_client_id = oc_client_id c, af_name = oc_name c,
         af_supports_backchannel = supports_backchannel c\<rparr>)
       (first_by oc_id [] (List.map_filter (\<lambda>r. client_of w (sc_client_id r))
         (filter (\<lambda>r. sc_session_id r \<in> set session_ids) (ow_session_clients w))))))"

definition enqueue_row ::
  "oidc_env \<Rightarrow> string \<Rightarrow> uuid \<Rightarrow> logout_reason \<Rightarrow> session_user \<Rightarrow> oidc_client \<Rightarrow> backchannel_delivery list oop" where
  "enqueue_row env issuer batch_id reason = (\<lambda>(session, user) client.
     if \<not> supports_backchannel client then returnM []
     else
       bindM o_now (\<lambda>now.
       bindM o_new_uuid (\<lambda>i.
       let row = \<lparr>bd_id = i, bd_batch_id = batch_id, bd_issuer = issuer, bd_client_id = oc_id client,
           bd_user_id = Some (ou_id user), bd_sub = ev_uuid_text env (ou_id user), bd_sid = bs_sid session,
           bd_reason = reason, bd_status = DlPending, bd_attempts = 0,
           bd_next_attempt_at = now + seconds lease_secs, bd_last_http_status = None,
           bd_last_jti = None, bd_created_at = now, bd_delivered_at = None\<rparr> in
       bindM (modifyM (\<lambda>w. w\<lparr>ow_deliveries := ow_deliveries w @ [row]\<rparr>)) (\<lambda>_. returnM [row]))))"

text \<open>A loop that collects what its body returns.\<close>

fun gatherM :: "'a list \<Rightarrow> ('a \<Rightarrow> ('s, 'e, 'b list) op) \<Rightarrow> ('s, 'e, 'b list) op" where
  "gatherM [] f = returnM []"
| "gatherM (x # xs) f = bindM (f x) (\<lambda>ys. bindM (gatherM xs f) (\<lambda>zs. returnM (ys @ zs)))"

definition enqueue ::
  "oidc_env \<Rightarrow> string \<Rightarrow> session_user list \<Rightarrow> logout_reason \<Rightarrow> (uuid \<times> backchannel_delivery list) oop" where
  "enqueue env issuer sessions reason =
     bindM o_new_uuid (\<lambda>batch_id.
     bindM (gatherM sessions (\<lambda>su.
       bindM (readM (\<lambda>w. List.map_filter (\<lambda>r. client_of w (sc_client_id r))
         (filter (\<lambda>r. sc_session_id r = bs_id (fst su)) (ow_session_clients w)))) (\<lambda>bindings.
       gatherM bindings (enqueue_row env issuer batch_id reason su)))) (\<lambda>rows.
     returnM (batch_id, rows)))"

record delivery_outcome =
  do_client_id :: string
  do_status :: delivery_status

definition update_delivery :: "uuid \<Rightarrow> (backchannel_delivery \<Rightarrow> backchannel_delivery) \<Rightarrow> unit oop" where
  "update_delivery i f = modifyM (\<lambda>w. w\<lparr>ow_deliveries := update_where (\<lambda>d. bd_id d = i) f (ow_deliveries w)\<rparr>)"

definition mark :: "backchannel_delivery \<Rightarrow> delivery_status \<Rightarrow> nat option \<Rightarrow> string option \<Rightarrow> unit oop" where
  "mark row status http_status jti =
     bindM o_now (\<lambda>now.
     update_delivery (bd_id row) (\<lambda>d. (if status = DlDelivered then d\<lparr>bd_delivered_at := Some now\<rparr> else d)
       \<lparr>bd_status := status, bd_attempts := bd_attempts row + 1, bd_last_http_status := http_status,
        bd_last_jti := jti\<rparr>))"

definition outcome_for :: "oidc_client option \<Rightarrow> delivery_status \<Rightarrow> delivery_outcome" where
  "outcome_for client status =
     \<lparr>do_client_id = (case client of None \<Rightarrow> [] | Some c \<Rightarrow> oc_client_id c), do_status = status\<rparr>"

definition retry_or_fail ::
  "backchannel_delivery \<Rightarrow> oidc_client \<Rightarrow> nat option \<Rightarrow> string option \<Rightarrow> delivery_outcome oop" where
  "retry_or_fail row client http_status jti =
     (let attempts = bd_attempts row + 1 in
      if max_attempts \<le> attempts then
        bindM (mark row DlFailed http_status jti) (\<lambda>_. returnM (outcome_for (Some client) DlFailed))
      else
        let wait = backoff_secs ! min (nat (attempts - 1)) (length backoff_secs - 1) in
        bindM o_now (\<lambda>now.
        bindM (update_delivery (bd_id row) (\<lambda>d. d\<lparr>bd_attempts := attempts,
          bd_next_attempt_at := now + seconds wait, bd_last_http_status := http_status,
          bd_last_jti := jti\<rparr>)) (\<lambda>_.
        returnM (outcome_for (Some client) DlPending))))"

definition post_logout :: "oidc_env \<Rightarrow> string \<Rightarrow> string \<Rightarrow> (oidc_world, 'e, post_attempt + nat) op" where
  "post_logout env target token = (\<lambda>w. (Inr (ev_post env (ow_next w) target token), w\<lparr>ow_next := ow_next w + 1\<rparr>))"

definition deliver_one :: "oidc_env \<Rightarrow> backchannel_delivery \<Rightarrow> delivery_outcome oop" where
  "deliver_one env row =
     bindM (readM (\<lambda>w. client_of w (bd_client_id row))) (\<lambda>found.
     case found of
       None \<Rightarrow> bindM (mark row DlFailed None None) (\<lambda>_. returnM (outcome_for None DlFailed))
     | Some client \<Rightarrow>
         (case oc_backchannel_logout_uri client of
            None \<Rightarrow> bindM (mark row DlFailed None None) (\<lambda>_. returnM (outcome_for (Some client) DlFailed))
          | Some target \<Rightarrow>
              bindM (logout_token_claims_new env (bd_issuer row) (oc_client_id client) (bd_sub row) (bd_sid row)
                (cf_logout_token_ttl_secs (ev_config env))) (\<lambda>claims.
              case ev_jwt_sign_logout env claims of
                None \<Rightarrow> retry_or_fail row client None None
              | Some token \<Rightarrow>
                  bindM (post_logout env target token) (\<lambda>answer.
                  case answer of
                    Inr status \<Rightarrow>
                      if 200 \<le> status \<and> status < 300 then
                        bindM (mark row DlDelivered (Some status) (Some (lt_jti claims))) (\<lambda>_.
                        returnM (outcome_for (Some client) DlDelivered))
                      else if status = 400 then
                        bindM (mark row DlFailed (Some 400) (Some (lt_jti claims))) (\<lambda>_.
                        returnM (outcome_for (Some client) DlFailed))
                      else retry_or_fail row client (Some status) (Some (lt_jti claims))
                  | Inl PostRefused \<Rightarrow>
                      bindM (mark row DlFailed None (Some (lt_jti claims))) (\<lambda>_.
                      returnM (outcome_for (Some client) DlFailed))
                  | Inl PostTransient \<Rightarrow> retry_or_fail row client None (Some (lt_jti claims))))))"

definition deliver_batch :: "oidc_env \<Rightarrow> backchannel_delivery list \<Rightarrow> delivery_outcome list oop" where
  "deliver_batch env rows =
     gatherM rows (\<lambda>row. catchM (bindM (deliver_one env row) (\<lambda>o'. returnM [o']))
       [\<lparr>do_client_id = [], do_status = DlPending\<rparr>])"

definition claim_due :: "string \<Rightarrow> nat \<Rightarrow> backchannel_delivery list oop" where
  "claim_due issuer limit = (\<lambda>w.
     let due = take limit (sort_key bd_next_attempt_at (filter (\<lambda>d. bd_status d = DlPending \<and>
           bd_issuer d = issuer \<and> bd_next_attempt_at d \<le> ow_now w) (ow_deliveries w)));
         lease = (\<lambda>d. d\<lparr>bd_next_attempt_at := ow_now w + seconds lease_secs\<rparr>) in
     (Inr (map lease due), w\<lparr>ow_deliveries :=
        update_where (\<lambda>d. bd_id d \<in> bd_id ` set due) lease (ow_deliveries w)\<rparr>))"

definition retry_due :: "oidc_env \<Rightarrow> nat oop" where
  "retry_due env =
     bindM (claim_due (cf_issuer (ev_config env)) 20) (\<lambda>rows.
     bindM (deliver_batch env rows) (\<lambda>_. returnM (length rows)))"

section \<open>Logout of all related applications (logout.rs)\<close>

definition back_to_client :: "oidc_env \<Rightarrow> string \<Rightarrow> string option \<Rightarrow> string" where
  "back_to_client env uri state =
     (case state of
        Some s \<Rightarrow> append_query (ev_url_parse env) (ev_append_pairs env) uri [(''state'', s)]
      | None \<Rightarrow> uri)"

definition logout_targets :: "oidc_env \<Rightarrow> browser \<Rightarrow> string option \<Rightarrow> string option \<Rightarrow> session_user list" where
  "logout_targets env b hint_sid hint_sub =
     filter (\<lambda>(s, u). case (hint_sid, hint_sub) of
         (Some sid, _) \<Rightarrow> bs_sid s = sid
       | (None, Some sub) \<Rightarrow> ev_uuid_text env (ou_id u) = sub
       | (None, None) \<Rightarrow> True) (br_accounts b)"

fun sign_out_each :: "browser \<Rightarrow> session_user list \<Rightarrow> browser oop" where
  "sign_out_each b [] = returnM b"
| "sign_out_each b ((s, u) # rest) =
     bindM (sign_out_account b (bs_id s) RrGlobalLogout) (\<lambda>(done, b). sign_out_each b rest)"

definition revoke_for_logout :: "oidc_env \<Rightarrow> browser \<Rightarrow> session_user list \<Rightarrow> browser oop" where
  "revoke_for_logout env b targets =
     (if cf_multi_account (ev_config env) then
        (if targets \<noteq> [] \<and> length targets = length (br_accounts b)
         then bindM (sign_out_browser env b RrGlobalLogout) (\<lambda>(revoked, b). returnM b)
         else sign_out_each b targets)
      else
        let ids = map (\<lambda>(s, u). bs_id s) targets in
        bindM (revoke_sessions ids RrGlobalLogout) (\<lambda>_.
        returnM (b\<lparr>br_accounts := filter (\<lambda>(s, u). bs_id s \<notin> set ids) (br_accounts b),
          br_cookies := br_cookies b @ [RemovalCookie (sso_cookie_name (secure_cookies env))]\<rparr>)))"

record global_logout_report =
  gl_deliveries :: "delivery_outcome list"
  gl_without_backchannel :: "string list"

definition fully_synced :: "global_logout_report \<Rightarrow> bool" where
  "fully_synced r \<longleftrightarrow> list_all (\<lambda>d. do_status d = DlDelivered) (gl_deliveries r) \<and> gl_without_backchannel r = []"

definition global_logout ::
  "oidc_env \<Rightarrow> browser \<Rightarrow> session_user list \<Rightarrow> logout_reason \<Rightarrow> (global_logout_report \<times> browser) oop" where
  "global_logout env b targets reason =
     bindM (affected_clients (map (\<lambda>(s, u). bs_id s) targets)) (\<lambda>affected.
     bindM (revoke_for_logout env b targets) (\<lambda>b.
     bindM (enqueue env (cf_issuer (ev_config env)) targets reason) (\<lambda>(batch, rows).
     bindM (deliver_batch env rows) (\<lambda>deliveries.
     returnM (\<lparr>gl_deliveries = deliveries, gl_without_backchannel =
       map af_name (filter (\<lambda>a. \<not> af_supports_backchannel a) affected)\<rparr>, b)))))"

datatype logout_body =
    LogoutFound string
  | LogoutError nat page_message
  | LogoutNothing "string option"
  | LogoutConfirm uuid string "uuid list" bool
  | LogoutCancelled "string option"
  | LogoutDone "string option" global_logout_report

type_synonym logout_reply = "logout_body \<times> cookie list"

definition logout_request_ttl_secs :: int where "logout_request_ttl_secs = 600"

definition end_session_redirect ::
  "oidc_client option \<Rightarrow> string option \<Rightarrow> page_message + string option" where
  "end_session_redirect client redirect_to =
     (case redirect_to of
        None \<Rightarrow> Inr None
      | Some uri \<Rightarrow>
          let registered = (case client of None \<Rightarrow> []
                | Some c \<Rightarrow> if oc_status c = CsActive then oc_post_logout_redirect_uris c else []) in
          if uri \<in> set registered then Inr (Some uri) else Inl MsgPostLogoutUnregistered)"

definition end_session_confirmation ::
  "oidc_env \<Rightarrow> http_req \<Rightarrow> id_token_claims option \<Rightarrow> oidc_client option \<Rightarrow> string option \<Rightarrow> string option \<Rightarrow> logout_reply oop" where
  "end_session_confirmation env req hint client redirect_to state =
     bindM (ensure_binding env req) (\<lambda>(binding, new_binding).
     catchM (
       bindM (load_browser env req) (\<lambda>b.
       let hint_sid = Option.bind hint ic_sid; hint_sub = map_option ic_sub hint;
           found = logout_targets env b hint_sid hint_sub; cookies = new_binding @ br_cookies b in
       if found = [] then
         returnM (LogoutNothing (map_option (\<lambda>u. back_to_client env u None) redirect_to), cookies)
       else
         bindM (create_logout_request env \<lparr>nl_browser_binding = binding, nl_client_pk = map_option oc_id client,
           nl_hint_sub = hint_sub, nl_hint_sid = hint_sid, nl_post_logout_redirect_uri = redirect_to,
           nl_state = state, nl_ttl_secs = logout_request_ttl_secs\<rparr>) (\<lambda>(request, csrf).
         returnM (LogoutConfirm (lr_id request) csrf (map (\<lambda>(s, u). ou_id u) found) (hint = None), cookies))))
       (LogoutError 500 MsgServerError, []))"

definition end_session :: "oidc_env \<Rightarrow> http_req \<Rightarrow> logout_reply oop" where
  "end_session env req =
     (if \<not> cf_backchannel_logout (ev_config env) then returnM (LogoutError 404 MsgUnavailable, [])
      else if hr_post req \<and> \<not> is_form req then returnM (LogoutError 400 MsgNotForm, [])
      else let params = (if hr_post req then hr_body req else hr_query req) in
      case (single params ''id_token_hint'', single params ''client_id'',
            single params ''post_logout_redirect_uri'', single params ''state'') of
        (Inr hint, Inr client_id, Inr redirect_to, Inr state) \<Rightarrow>
          bindM (rate_hit env ''oidc_end_session'' (case hr_ip req of None \<Rightarrow> ''unknown'' | Some ip \<Rightarrow> ip) 60 300) (\<lambda>ok.
          case ok of
            None \<Rightarrow> returnM (LogoutError 503 MsgUnavailable, [])
          | Some False \<Rightarrow> returnM (LogoutError 400 MsgTooManyRequests, [])
          | Some True \<Rightarrow>
              (case (case hint of None \<Rightarrow> Some None | Some t \<Rightarrow> map_option Some (ev_jwt_verify env t)) of
                 None \<Rightarrow> returnM (LogoutError 400 MsgBadHint, [])
               | Some claims \<Rightarrow>
                   if (case (claims, client_id) of (Some h, Some cid) \<Rightarrow> ic_aud h \<noteq> cid | _ \<Rightarrow> False)
                   then returnM (LogoutError 400 MsgHintClientMismatch, [])
                   else
                     let client_key = (case client_id of Some c \<Rightarrow> Some c | None \<Rightarrow> map_option ic_aud claims) in
                     bindM (case client_key of None \<Rightarrow> returnM None | Some i \<Rightarrow> find_by_client_id i) (\<lambda>client.
                     if client_key \<noteq> None \<and> client = None then returnM (LogoutError 400 MsgClientUnknown, [])
                     else case end_session_redirect client redirect_to of
                       Inl m \<Rightarrow> returnM (LogoutError 400 m, [])
                     | Inr redirect \<Rightarrow> end_session_confirmation env req claims client redirect state)))
      | _ \<Rightarrow> returnM (LogoutError 400 MsgDuplicateParams, []))"

definition end_session_confirm :: "oidc_env \<Rightarrow> http_req \<Rightarrow> logout_reply oop" where
  "end_session_confirm env req =
     (if \<not> cf_backchannel_logout (ev_config env) then returnM (LogoutError 404 MsgUnavailable, [])
      else if \<not> is_form req \<or> \<not> first_party_request req env then returnM (LogoutError 400 MsgBadOrigin, [])
      else let form = hr_body req in
      case ev_uuid_parse env (trim_text (field form ''request'')) of
        None \<Rightarrow> returnM (LogoutError 400 MsgLogoutGone, [])
      | Some request_id \<Rightarrow>
          bindM (complete_logout_request env request_id (binding_of env req) (field form ''csrf'')) (\<lambda>completed.
          case completed of
            None \<Rightarrow> returnM (LogoutError 400 MsgLogoutGone, [])
          | Some request \<Rightarrow>
              bindM (readM (\<lambda>w. Option.bind (lr_client_id request) (client_of w))) (\<lambda>client.
              let registered = Option.bind (lr_post_logout_redirect_uri request) (\<lambda>uri.
                    if (case client of None \<Rightarrow> False | Some c \<Rightarrow> uri \<in> set (oc_post_logout_redirect_uris c))
                    then Some uri else None);
                  continue_url = map_option (\<lambda>u. back_to_client env u (lr_state request)) registered in
              if field form ''action'' \<noteq> ''logout''
              then returnM (LogoutCancelled (map_option (\<lambda>u. back_to_client env u None) registered), [])
              else catchM (
                bindM (load_browser env req) (\<lambda>b.
                let found = logout_targets env b (lr_hint_sid request) (lr_hint_sub request) in
                bindM (global_logout env b found EndSession) (\<lambda>(report, b).
                returnM (case (continue_url, fully_synced report) of
                    (Some url, True) \<Rightarrow> LogoutFound url
                  | _ \<Rightarrow> LogoutDone continue_url report, br_cookies b))))
                (LogoutError 500 MsgServerError, []))))"

section \<open>Logout on the main site (web\_session.rs)\<close>

datatype web_logout_scope = LogoutAccount | LogoutBrowser | LogoutGlobal

definition web_logout ::
  "oidc_env \<Rightarrow> http_req \<Rightarrow> web_logout_scope \<Rightarrow> uuid option \<Rightarrow> (web_reply \<times> global_logout_report option) oop" where
  "web_logout env req scope account_id =
     bindM (unified env) (\<lambda>_.
     bindM (load_browser env req) (\<lambda>b.
     bindM (check_csrf req env b False) (\<lambda>_.
     case scope of
       LogoutAccount \<Rightarrow>
         let target = (case account_id of Some i \<Rightarrow> Some i | None \<Rightarrow> map_option (\<lambda>(s, u). bs_id s) (web_account b)) in
         bindM (case target of
                  None \<Rightarrow> returnM b
                | Some i \<Rightarrow>
                    if browser_find b i = None then returnM b
                    else bindM (sign_out_account b i RrLogout) (\<lambda>(done, b). returnM b)) (\<lambda>b.
         returnM (web_reply_of env b, None))
     | LogoutGlobal \<Rightarrow>
         bindM (guardM (cf_backchannel_logout (ev_config env)) OeNotFound) (\<lambda>_.
         case web_account b of
           None \<Rightarrow> returnM (web_reply_of env b, None)
         | Some target \<Rightarrow>
             bindM (global_logout env b [target] MainSite) (\<lambda>(report, b).
             returnM (web_reply_of env b, Some report)))
     | LogoutBrowser \<Rightarrow>
         bindM (sign_out_browser env b RrLogoutBrowser) (\<lambda>(revoked, b).
         returnM (web_reply_of env b, None)))))"

end
