(* ===== verification/Oidc_Developer.thy ===== *)
theory Oidc_Developer
  imports Oidc_Logout
begin

text \<open>
  The developer centre and its administration, \<open>modules/identity/oidc/api/developer.rs\<close>. The caller
  is the account that the guards of the HTTP layer have authenticated; owners reach only their own
  applications, anyone else's look as if they did not exist.
\<close>

definition rate_gate :: "oidc_env \<Rightarrow> string \<Rightarrow> string \<Rightarrow> nat \<Rightarrow> nat \<Rightarrow> unit oop" where
  "rate_gate env bucket key limit window =
     bindM (rate_hit env bucket key limit window) (\<lambda>ok.
     case ok of
       Some True \<Rightarrow> returnM () | Some False \<Rightarrow> throwM OeForbidden | None \<Rightarrow> throwM OeInternal)"

record client_dto =
  cd_client_id :: string
  cd_name :: string
  cd_client_type :: client_type
  cd_auth_method :: auth_method
  cd_redirect_uris :: "string list"
  cd_allowed_scopes :: "string list"
  cd_post_logout_redirect_uris :: "string list"
  cd_backchannel_logout_uri :: "string option"
  cd_require_pkce :: bool
  cd_status :: client_status
  cd_has_secret :: bool
  cd_previous_secret_expires_at :: "timestamp option"
  cd_active_authorizations :: nat

definition dto_from_model :: "timestamp \<Rightarrow> oidc_client \<Rightarrow> nat \<Rightarrow> client_dto" where
  "dto_from_model now m active_authorizations =
     \<lparr>cd_client_id = oc_client_id m, cd_name = oc_name m, cd_client_type = oc_client_type m,
      cd_auth_method = oc_auth_method m, cd_redirect_uris = oc_redirect_uris m,
      cd_allowed_scopes = oc_allowed_scopes m,
      cd_post_logout_redirect_uris = oc_post_logout_redirect_uris m,
      cd_backchannel_logout_uri = oc_backchannel_logout_uri m, cd_require_pkce = oc_require_pkce m,
      cd_status = oc_status m, cd_has_secret = (oc_secret_hash m \<noteq> None),
      cd_previous_secret_expires_at = (case oc_previous_secret_expires_at m of
          None \<Rightarrow> None | Some t \<Rightarrow> if now < t then Some t else None),
      cd_active_authorizations = active_authorizations\<rparr>"

definition authorization_count :: "uuid \<Rightarrow> nat oop" where
  "authorization_count client_pk = readM (\<lambda>w.
     length (filter (\<lambda>c. cn_client_id c = client_pk \<and> cn_revoked_at c = None) (ow_consents w)))"

definition dto :: "oidc_client \<Rightarrow> client_dto oop" where
  "dto m = bindM (authorization_count (oc_id m)) (\<lambda>n. bindM o_now (\<lambda>now. returnM (dto_from_model now m n)))"

section \<open>Owners\<close>

definition owned :: "uuid \<Rightarrow> string \<Rightarrow> oidc_client oop" where
  "owned user_id client_id = bindM (find_owned user_id client_id) (\<lambda>c. ok_orM c OeNotFound)"

definition list_my_clients :: "uuid \<Rightarrow> client_dto list oop" where
  "list_my_clients user_id =
     bindM (list_owned user_id) (\<lambda>ms. gatherM ms (\<lambda>m. bindM (dto m) (\<lambda>d. returnM [d])))"

definition create_client ::
  "oidc_env \<Rightarrow> uuid \<Rightarrow> client_type \<Rightarrow> auth_method option \<Rightarrow> client_input \<Rightarrow> (client_dto \<times> string option) oop" where
  "create_client env user_id ctype auth input =
     bindM (rate_gate env ''oidc_client_create'' (ev_uuid_text env user_id) 20 86400) (\<lambda>_.
     bindM (client_create env user_id ctype auth input) (\<lambda>(m, secret).
     bindM o_now (\<lambda>now.
     returnM (dto_from_model now m 0, secret))))"

definition get_my_client :: "uuid \<Rightarrow> string \<Rightarrow> client_dto oop" where
  "get_my_client user_id client_id = bindM (owned user_id client_id) dto"

definition update_my_client :: "oidc_env \<Rightarrow> uuid \<Rightarrow> string \<Rightarrow> client_input \<Rightarrow> client_dto oop" where
  "update_my_client env user_id client_id input =
     bindM (owned user_id client_id) (\<lambda>m.
     bindM (client_update env m input) dto)"

definition rotate_my_secret :: "oidc_env \<Rightarrow> uuid \<Rightarrow> string \<Rightarrow> bool \<Rightarrow> (client_dto \<times> string) oop" where
  "rotate_my_secret env user_id client_id revoke_previous =
     bindM (rate_gate env ''oidc_secret_rotate'' (ev_uuid_text env user_id) 20 3600) (\<lambda>_.
     bindM (owned user_id client_id) (\<lambda>m.
     let grace = (if revoke_previous then 0 else cf_secret_rotation_grace_secs (ev_config env)) in
     bindM (client_rotate_secret env m grace) (\<lambda>(m, secret).
     bindM (dto m) (\<lambda>d. returnM (d, secret)))))"

definition owner_act :: "uuid \<Rightarrow> string \<Rightarrow> owner_action \<Rightarrow> client_dto oop" where
  "owner_act user_id client_id action =
     bindM (owned user_id client_id) (\<lambda>m.
     bindM (ok_orM (owner_transition (oc_status m) action) OeInvalidState) (\<lambda>next.
     bindM (client_set_status m next None None) dto))"

definition delete_my_client :: "uuid \<Rightarrow> string \<Rightarrow> unit oop" where
  "delete_my_client user_id client_id =
     bindM (owned user_id client_id) (\<lambda>m. modifyM (drop_clients (\<lambda>c. oc_id c = oc_id m)))"

section \<open>Authorizations of a user\<close>

record authorization_dto =
  ad_client_id :: string
  ad_client_name :: string
  ad_client_status :: client_status
  ad_scopes :: "string list"
  ad_granted_at :: timestamp
  ad_updated_at :: timestamp
  ad_last_used_at :: "timestamp option"

definition list_my_authorizations :: "uuid \<Rightarrow> authorization_dto list oop" where
  "list_my_authorizations user_id =
     bindM (list_user_consents user_id) (\<lambda>rows.
     returnM (map (\<lambda>(c, client). \<lparr>ad_client_id = oc_client_id client, ad_client_name = oc_name client,
       ad_client_status = oc_status client, ad_scopes = cn_scopes c, ad_granted_at = cn_granted_at c,
       ad_updated_at = cn_updated_at c, ad_last_used_at = cn_last_used_at c\<rparr>) rows))"

definition revoke_my_authorization :: "uuid \<Rightarrow> string \<Rightarrow> unit oop" where
  "revoke_my_authorization user_id client_id =
     bindM (find_by_client_id client_id) (\<lambda>found.
     bindM (ok_orM found OeNotFound) (\<lambda>client.
     bindM (revoke_consent user_id (oc_id client)) (\<lambda>hit.
     guardM hit OeNotFound)))"

section \<open>Administrators\<close>

definition admin_list_clients :: "client_status option \<Rightarrow> (client_dto \<times> uuid \<times> string option) list oop" where
  "admin_list_clients status =
     bindM (readM (\<lambda>w. sort_key (\<lambda>c. - oc_created_at c)
       (filter (\<lambda>c. opt_ok (\<lambda>s. oc_status c = s) status) (ow_clients w)))) (\<lambda>ms.
     gatherM ms (\<lambda>m. bindM (dto m) (\<lambda>d.
       bindM (readM (\<lambda>w. map_option ou_username (user_of w (oc_owner_user_id m)))) (\<lambda>owner.
       returnM [(d, oc_owner_user_id m, owner)]))))"

definition admin_act :: "uuid \<Rightarrow> string \<Rightarrow> string option \<Rightarrow> admin_action \<Rightarrow> client_dto oop" where
  "admin_act admin_id client_id reason action =
     bindM (find_by_client_id client_id) (\<lambda>found.
     bindM (ok_orM found OeNotFound) (\<lambda>m.
     bindM (ok_orM (admin_transition (oc_status m) action) OeInvalidState) (\<lambda>next.
     bindM (client_set_status m next (Some admin_id) reason) dto)))"

definition admin_set_pkce :: "string \<Rightarrow> bool \<Rightarrow> client_dto oop" where
  "admin_set_pkce client_id require_pkce =
     bindM (find_by_client_id client_id) (\<lambda>found.
     bindM (ok_orM found OeNotFound) (\<lambda>m.
     bindM (guardM (\<not> (oc_client_type m = ClientPublic \<and> \<not> require_pkce)) (OeValidation IePublicPkce)) (\<lambda>_.
     bindM o_now (\<lambda>now.
     bindM (update_client (oc_id m) (\<lambda>c. c\<lparr>oc_require_pkce := require_pkce, oc_updated_at := now\<rparr>)) dto))))"

end
