(* ===== verification/Oidc_Frame.thy ===== *)
theory Oidc_Frame
  imports Oidc_Developer
begin

text \<open>
  What the tables of the provider promise (\<open>oidc_ok\<close>), and the locale \<open>oidc_frame\<close>: a condition
  that does not look at sessions, containers, session bindings and logout requests, and of
  transactions only at what the request fixed, survives everything that the modules of accounts,
  sign-in and account choice write. The locale is interpreted for the invariant and for the conditions
  that the flow carries from one write to the next.
\<close>

section \<open>Conditions before and after\<close>

text \<open>From \<open>P\<close> an operation ends in \<open>Q\<close> of its result, or fails and leaves \<open>E\<close>.\<close>

definition hoare ::
  "('s \<Rightarrow> bool) \<Rightarrow> ('s, 'e, 'a) op \<Rightarrow> ('a \<Rightarrow> 's \<Rightarrow> bool) \<Rightarrow> ('s \<Rightarrow> bool) \<Rightarrow> bool" where
  "hoare P m Q E \<longleftrightarrow> (\<forall>s. P s \<longrightarrow> (case m s of (Inl e, s') \<Rightarrow> E s' | (Inr x, s') \<Rightarrow> Q x s'))"

named_theorems hoare_intros \<open>rules that carry a condition through an operation\<close>

lemma hoareI:
  "(\<And>s e s'. P s \<Longrightarrow> m s = (Inl e, s') \<Longrightarrow> E s') \<Longrightarrow>
   (\<And>s x s'. P s \<Longrightarrow> m s = (Inr x, s') \<Longrightarrow> Q x s') \<Longrightarrow> hoare P m Q E"
  by (simp add: hoare_def split: prod.split sum.split)

lemma hoare_Inr: "hoare P m Q E \<Longrightarrow> P s \<Longrightarrow> m s = (Inr x, s') \<Longrightarrow> Q x s'"
  by (force simp: hoare_def)

lemma hoare_Inl: "hoare P m Q E \<Longrightarrow> P s \<Longrightarrow> m s = (Inl e, s') \<Longrightarrow> E s'"
  by (force simp: hoare_def)

lemma hoare_final: "hoare P m (\<lambda>_. E) E \<Longrightarrow> P s \<Longrightarrow> E (snd (m s))"
  by (cases "m s"; cases "fst (m s)") (auto dest: hoare_Inl hoare_Inr)

lemma keeps_hoare: "keeps I m \<Longrightarrow> hoare I m (\<lambda>_. I) I"
  by (auto simp: hoare_def split: prod.split sum.split dest: keepsD_run)

lemma hoare_keeps: "hoare I m (\<lambda>_. I) I \<Longrightarrow> keeps I m"
  by (simp add: keeps_def hoare_final)

lemma hoare_weaken:
  "hoare P m Q E \<Longrightarrow> (\<And>s. P' s \<Longrightarrow> P s) \<Longrightarrow> (\<And>x s. Q x s \<Longrightarrow> Q' x s) \<Longrightarrow>
   (\<And>s. E s \<Longrightarrow> E' s) \<Longrightarrow> hoare P' m Q' E'"
  by (rule hoareI) (blast dest: hoare_Inl hoare_Inr)+

lemma hoare_keepsI:
  "keeps P m \<Longrightarrow> (\<And>s. P s \<Longrightarrow> E s) \<Longrightarrow> hoare P m (\<lambda>_. P) E"
  by (rule hoare_weaken [OF keeps_hoare])

lemma hoare_end:
  "keeps P m \<Longrightarrow> (\<And>s. P s \<Longrightarrow> E s) \<Longrightarrow> hoare P m (\<lambda>_. E) E"
  by (rule hoare_weaken [OF keeps_hoare])

lemma hoare_bindM:
  "hoare P m Q E \<Longrightarrow> (\<And>x. hoare (Q x) (f x) R E) \<Longrightarrow> hoare P (bindM m f) R E"
  by (rule hoareI; simp add: bindM_run split: prod.splits sum.splits) (blast dest: hoare_Inl hoare_Inr)+

lemma hoare_readM: "(\<And>s. P s \<Longrightarrow> Q (g s) s) \<Longrightarrow> hoare P (readM g) Q E"
  by (simp add: hoare_def readM_def)

lemma hoare_returnM: "(\<And>s. P s \<Longrightarrow> Q x s) \<Longrightarrow> hoare P (returnM x) Q E"
  by (simp add: hoare_def returnM_def)

lemma hoare_throwM: "(\<And>s. P s \<Longrightarrow> E s) \<Longrightarrow> hoare P (throwM e) Q E"
  by (simp add: hoare_def throwM_def)

lemma hoare_guardM: "(\<And>s. P s \<Longrightarrow> E s) \<Longrightarrow> hoare P (guardM b e) (\<lambda>_ s. P s \<and> b) E"
  by (simp add: hoare_def guardM_run)

lemma hoare_attemptM: "hoare P m (\<lambda>_. Q) Q \<Longrightarrow> hoare P (attemptM m) (\<lambda>_. Q) E"
  by (rule hoareI) (auto simp: attemptM_run dest: hoare_final)

lemma hoare_conj_pre: "(b \<Longrightarrow> hoare P m Q E) \<Longrightarrow> hoare (\<lambda>s. P s \<and> b) m Q E"
  by (simp add: hoare_def)

lemma keeps_catchM [keeps_intros]: "keeps I m \<Longrightarrow> keeps I (catchM m d)"
  by (force simp: keeps_def catchM_def split: prod.splits sum.splits)

lemma hoare_catchM: "hoare P m (\<lambda>_. Q) Q \<Longrightarrow> hoare P (catchM m d) (\<lambda>_. Q) E"
  by (rule hoareI) (auto simp: catchM_def split: prod.splits sum.splits dest: hoare_Inl hoare_Inr)

lemma keeps_gatherM [keeps_intros]:
  "(\<And>x. x \<in> set xs \<Longrightarrow> keeps I (f x)) \<Longrightarrow> keeps I (gatherM xs f)"
  by (induction xs) (auto intro: keeps_returnM keeps_bindM)

declare keeps_case_prod [keeps_intros]

lemma keeps_case_list [keeps_intros]:
  "keeps I m \<Longrightarrow> (\<And>x xs. keeps I (f x xs)) \<Longrightarrow> keeps I (case l of [] \<Rightarrow> m | x # xs \<Rightarrow> f x xs)"
  by (cases l) auto

lemma keeps_case_bool [keeps_intros]:
  "keeps I m \<Longrightarrow> keeps I n \<Longrightarrow> keeps I (case b of True \<Rightarrow> m | False \<Rightarrow> n)"
  by (cases b) auto

section \<open>Keys\<close>

definition fresh_keys :: "nat \<Rightarrow> nat list \<Rightarrow> bool" where
  "fresh_keys n ks \<longleftrightarrow> distinct ks \<and> (\<forall>k \<in> set ks. k < n)"

lemma fresh_keys_Nil [simp]: "fresh_keys n []"
  by (simp add: fresh_keys_def)

lemma fresh_keys_Suc: "fresh_keys n ks \<Longrightarrow> fresh_keys (Suc n) ks"
  by (auto simp: fresh_keys_def)

lemma fresh_keys_append: "fresh_keys n ks \<Longrightarrow> k < n \<Longrightarrow> k \<notin> set ks \<Longrightarrow> fresh_keys n (ks @ [k])"
  by (auto simp: fresh_keys_def)

lemma fresh_keys_new: "fresh_keys n ks \<Longrightarrow> n \<notin> set ks"
  by (auto simp: fresh_keys_def)

lemma fresh_keys_filter: "fresh_keys n (map f xs) \<Longrightarrow> fresh_keys n (map f (filter p xs))"
  by (auto simp: fresh_keys_def distinct_map_filter)

lemma distinct_mapD: "distinct (map f xs) \<Longrightarrow> x \<in> set xs \<Longrightarrow> y \<in> set xs \<Longrightarrow> f x = f y \<Longrightarrow> x = y"
  by (simp add: distinct_map inj_on_def)

lemma filter_single_key:
  "distinct (map f xs) \<Longrightarrow> x \<in> set xs \<Longrightarrow> p x \<Longrightarrow> filter (\<lambda>y. f y = f x \<and> p y) xs = [x]"
proof (induction xs)
  case (Cons y ys)
  then have "x \<noteq> y \<Longrightarrow> filter (\<lambda>z. f z = f x \<and> p z) ys = [x]" by auto
  moreover have "filter (\<lambda>z. f z = f y \<and> p z) ys = []"
    using Cons.prems(1) by (auto simp: filter_empty_conv image_iff)
  ultimately show ?case using Cons.prems by (auto simp: image_iff)
qed simp

section \<open>What the tables promise\<close>

text \<open>The user has allowed the client these scopes and not taken it back.\<close>

definition consented :: "oidc_consent list \<Rightarrow> uuid \<Rightarrow> uuid \<Rightarrow> string list \<Rightarrow> bool" where
  "consented ns u c scopes \<longleftrightarrow> (\<exists>n \<in> set ns. cn_user_id n = u \<and> cn_client_id n = c \<and>
     cn_revoked_at n = None \<and> set scopes \<subseteq> set (cn_scopes n))"

definition consents_ok :: "nat \<Rightarrow> oidc_consent list \<Rightarrow> bool" where
  "consents_ok n ns \<longleftrightarrow> fresh_keys n (map cn_id ns) \<and>
     distinct (map (\<lambda>c. (cn_user_id c, cn_client_id c)) ns) \<and>
     (\<forall>c \<in> set ns. set (cn_scopes c) \<subseteq> set SUPPORTED)"

definition codes_ok :: "nat \<Rightarrow> oidc_consent list \<Rightarrow> auth_code list \<Rightarrow> bool" where
  "codes_ok n ns cs \<longleftrightarrow> fresh_keys n (map ac_id cs) \<and> distinct (map ac_code_hash cs) \<and>
     (\<forall>c \<in> set cs. ac_consumed_at c = None \<longrightarrow> consented ns (ac_user_id c) (ac_client_id c) (ac_scopes c))"

text \<open>A token carries the user, client and scopes of the code it was exchanged for.\<close>

definition from_code :: "access_token \<Rightarrow> auth_code \<Rightarrow> bool" where
  "from_code t c \<longleftrightarrow> tk_code_id t = Some (ac_id c) \<and> ac_consumed_at c \<noteq> None \<and>
     tk_client_id t = ac_client_id c \<and> tk_user_id t = ac_user_id c \<and> tk_scopes t = ac_scopes c"

definition tokens_ok :: "oidc_consent list \<Rightarrow> auth_code list \<Rightarrow> access_token list \<Rightarrow> bool" where
  "tokens_ok ns cs ts \<longleftrightarrow> distinct (map tk_token_hash ts) \<and> distinct (List.map_filter tk_code_id ts) \<and>
     (\<forall>t \<in> set ts. (tk_revoked_at t = None \<longrightarrow> consented ns (tk_user_id t) (tk_client_id t) (tk_scopes t)) \<and>
        (tk_code_id t \<noteq> None \<longrightarrow> (\<exists>c \<in> set cs. from_code t c)))"

definition txns_ok :: "nat \<Rightarrow> auth_txn list \<Rightarrow> bool" where
  "txns_ok n ts \<longleftrightarrow> fresh_keys n (map at_id ts) \<and> (\<forall>t \<in> set ts. set (at_scopes t) \<subseteq> set SUPPORTED)"

definition clients_ok :: "nat \<Rightarrow> oidc_client list \<Rightarrow> bool" where
  "clients_ok n cs \<longleftrightarrow> fresh_keys n (map oc_id cs) \<and> distinct (map oc_client_id cs) \<and>
     (\<forall>c \<in> set cs. client_check c)"

definition delivery_ok :: "backchannel_delivery \<Rightarrow> bool" where
  "delivery_ok d \<longleftrightarrow> 0 \<le> bd_attempts d \<and>
     (if bd_status d = DlPending then bd_attempts d < max_attempts else bd_attempts d \<le> max_attempts)"

definition oidc_ok :: "oidc_world \<Rightarrow> bool" where
  "oidc_ok w \<longleftrightarrow> consents_ok (ow_next w) (ow_consents w) \<and>
     codes_ok (ow_next w) (ow_consents w) (ow_codes w) \<and>
     tokens_ok (ow_consents w) (ow_codes w) (ow_tokens w) \<and>
     txns_ok (ow_next w) (ow_txns w) \<and> clients_ok (ow_next w) (ow_clients w) \<and>
     (\<forall>d \<in> set (ow_deliveries w). delivery_ok d)"

lemma consents_ok_Suc: "consents_ok n ns \<Longrightarrow> consents_ok (Suc n) ns"
  by (simp add: consents_ok_def fresh_keys_Suc)

lemma codes_ok_Suc: "codes_ok n ns cs \<Longrightarrow> codes_ok (Suc n) ns cs"
  by (simp add: codes_ok_def fresh_keys_Suc)

lemma txns_ok_Suc: "txns_ok n ts \<Longrightarrow> txns_ok (Suc n) ts"
  by (simp add: txns_ok_def fresh_keys_Suc)

lemma clients_ok_Suc: "clients_ok n cs \<Longrightarrow> clients_ok (Suc n) cs"
  by (simp add: clients_ok_def fresh_keys_Suc)

lemmas ok_Suc = consents_ok_Suc codes_ok_Suc txns_ok_Suc clients_ok_Suc

lemma oidc_ok_fresh: "oidc_ok w \<Longrightarrow> oidc_ok (w\<lparr>ow_next := Suc (ow_next w)\<rparr>)"
  by (simp add: oidc_ok_def ok_Suc)

text \<open>Of a transaction, the request: it never changes.\<close>

definition same_request :: "auth_txn \<Rightarrow> auth_txn \<Rightarrow> bool" where
  "same_request t t' \<longleftrightarrow> at_id t = at_id t' \<and> at_scopes t = at_scopes t'"

lemma txns_ok_map:
  assumes "\<And>t. same_request (f t) t"
  shows "txns_ok n (map f ts) = txns_ok n ts"
proof -
  have "map at_id (map f ts) = map at_id ts" using assms by (simp add: same_request_def)
  moreover have "(\<forall>t \<in> set (map f ts). set (at_scopes t) \<subseteq> set SUPPORTED) =
      (\<forall>t \<in> set ts. set (at_scopes t) \<subseteq> set SUPPORTED)"
    using assms by (simp add: same_request_def)
  ultimately show ?thesis by (simp only: txns_ok_def)
qed

text \<open>A snapshot of a transaction: every row of its identifier has its request.\<close>

definition knows :: "auth_txn \<Rightarrow> oidc_world \<Rightarrow> bool" where
  "knows txn w \<longleftrightarrow> set (at_scopes txn) \<subseteq> set SUPPORTED \<and> at_id txn < ow_next w \<and>
     (\<forall>t \<in> set (ow_txns w). at_id t = at_id txn \<longrightarrow> at_scopes t = at_scopes txn)"

lemma knows_row: "oidc_ok w \<Longrightarrow> txn \<in> set (ow_txns w) \<Longrightarrow> knows txn w"
  by (auto simp: oidc_ok_def txns_ok_def knows_def fresh_keys_def dest: distinct_mapD)

section \<open>Conditions that the sessions of a browser do not touch\<close>

locale oidc_frame =
  fixes I :: "oidc_world \<Rightarrow> bool"
  assumes fresh: "I w \<Longrightarrow> I (w\<lparr>ow_next := Suc (ow_next w)\<rparr>)"
    and sessions: "I w \<Longrightarrow> I (w\<lparr>ow_sessions := ss\<rparr>)"
    and containers: "I w \<Longrightarrow> I (w\<lparr>ow_containers := cs\<rparr>)"
    and session_clients: "I w \<Longrightarrow> I (w\<lparr>ow_session_clients := scs\<rparr>)"
    and logouts: "I w \<Longrightarrow> I (w\<lparr>ow_logouts := ls\<rparr>)"
    and txns: "(\<And>t. same_request (f t) t) \<Longrightarrow> I w \<Longrightarrow> I (w\<lparr>ow_txns := map f (ow_txns w)\<rparr>)"
begin

lemma keeps_random_token [keeps_intros]: "keeps I (random_token env n)"
  by (simp add: keeps_def random_token_def fresh)

lemma keeps_o_new_uuid [keeps_intros]: "keeps I o_new_uuid"
  by (simp add: keeps_def o_new_uuid_def fresh)

lemma keeps_o_now [keeps_intros]: "keeps I o_now"
  unfolding o_now_def by (intro keeps_intros)

lemma keeps_new_opaque_secret [keeps_intros]: "keeps I (new_opaque_secret env)"
  unfolding new_opaque_secret_def by (intro keeps_intros)

lemma keeps_new_client_secret [keeps_intros]: "keeps I (new_client_secret env)"
  unfolding new_client_secret_def by (intro keeps_intros)

lemma keeps_new_client_id [keeps_intros]: "keeps I (new_client_id env)"
  unfolding new_client_id_def by (intro keeps_intros)

lemma keeps_new_access_token [keeps_intros]: "keeps I (new_access_token env)"
  unfolding new_access_token_def by (intro keeps_intros)

lemma keeps_new_authorization_code [keeps_intros]: "keeps I (new_authorization_code env)"
  unfolding new_authorization_code_def by (intro keeps_intros)

lemma keeps_hash_client_secret [keeps_intros]: "keeps I (hash_client_secret env x)"
  unfolding hash_client_secret_def by (intro keeps_intros)

lemma keeps_rate_hit [keeps_intros]: "keeps I (rate_hit env a b c d)"
  by (simp add: keeps_def rate_hit_def fresh)

lemma keeps_post_logout [keeps_intros]: "keeps I (post_logout env a b)"
  by (simp add: keeps_def post_logout_def fresh)

lemma keeps_session_write [keeps_intros]: "keeps I (modifyM (\<lambda>w. w\<lparr>ow_sessions := g w\<rparr>))"
  by (simp add: keeps_def modifyM_run sessions)

lemma keeps_container_write [keeps_intros]: "keeps I (modifyM (\<lambda>w. w\<lparr>ow_containers := h w\<rparr>))"
  by (simp add: keeps_def modifyM_run containers)

lemma keeps_logout_write [keeps_intros]: "keeps I (modifyM (\<lambda>w. w\<lparr>ow_logouts := l w\<rparr>))"
  by (simp add: keeps_def modifyM_run logouts)

lemma keeps_update_txns: "(\<And>t. same_request (f t) t) \<Longrightarrow> keeps I (update_txns p f)"
  by (simp add: keeps_def update_txns_def update_where_def txns same_request_def)

lemma keeps_create_session_in [keeps_intros]: "keeps I (create_session_in env u a t o' c)"
  unfolding create_session_in_def by (intro keeps_intros)

lemma keeps_create_session [keeps_intros]: "keeps I (create_session env u a t o')"
  unfolding create_session_def by (intro keeps_intros)

lemma keeps_find_valid_session [keeps_intros]: "keeps I (find_valid_session env c)"
  unfolding find_valid_session_def by (intro keeps_intros)

lemma keeps_find_session_by_id [keeps_intros]: "keeps I (find_session_by_id i)"
  unfolding find_session_by_id_def by (intro keeps_intros)

lemma keeps_touch_session [keeps_intros]: "keeps I (touch_session i)"
  unfolding touch_session_def by (intro keeps_intros)

lemma keeps_revoke_where [keeps_intros]: "keeps I (revoke_where p r)"
  by (simp add: keeps_def revoke_where_def sessions Let_def)

lemma keeps_revoke_session [keeps_intros]: "keeps I (revoke_session env c r)"
  unfolding revoke_session_def by (intro keeps_intros)

lemma keeps_record_session_client [keeps_intros]: "keeps I (record_session_client s c)"
  by (simp add: keeps_def record_session_client_def session_clients Let_def)

lemma keeps_session_sid [keeps_intros]: "keeps I (session_sid i)"
  unfolding session_sid_def by (intro keeps_intros)

lemma keeps_find_live_transaction [keeps_intros]: "keeps I (find_live_transaction env i b)"
  unfolding find_live_transaction_def by (intro keeps_intros)

lemma keeps_issue_csrf [keeps_intros]: "keeps I (issue_csrf env i)"
  unfolding issue_csrf_def by (intro keeps_intros keeps_update_txns) (simp_all add: same_request_def)

lemma keeps_bind_transaction_user [keeps_intros]: "keeps I (bind_transaction_user t u s b)"
  unfolding bind_transaction_user_def by (intro keeps_intros keeps_update_txns) (simp_all add: same_request_def)

lemma keeps_issue_account_choice_csrf [keeps_intros]: "keeps I (issue_account_choice_csrf env i s)"
  unfolding issue_account_choice_csrf_def by (intro keeps_intros keeps_update_txns) (simp_all add: same_request_def)

lemma keeps_confirm_account_selection [keeps_intros]: "keeps I (confirm_account_selection env i s u c)"
  unfolding confirm_account_selection_def by (intro keeps_intros keeps_update_txns) (simp_all add: same_request_def)

lemma keeps_confirm_account_selection_explicit [keeps_intros]: "keeps I (confirm_account_selection_explicit env i s u c)"
  unfolding confirm_account_selection_explicit_def by (intro keeps_intros keeps_update_txns) (simp_all add: same_request_def)

lemma keeps_request_account_switch [keeps_intros]: "keeps I (request_account_switch env i c)"
  unfolding request_account_switch_def by (intro keeps_intros keeps_update_txns) (simp_all add: same_request_def)

lemma keeps_bind_password_login [keeps_intros]: "keeps I (bind_password_login i u s)"
  unfolding bind_password_login_def by (intro keeps_intros keeps_update_txns) (simp_all add: same_request_def)

lemma keeps_complete_transaction [keeps_intros]: "keeps I (complete_transaction i)"
  unfolding complete_transaction_def by (intro keeps_intros keeps_update_txns) (simp_all add: same_request_def)

lemma keeps_create_logout_request [keeps_intros]: "keeps I (create_logout_request env new)"
  unfolding create_logout_request_def by (intro keeps_intros)

lemma keeps_complete_logout_request [keeps_intros]: "keeps I (complete_logout_request env i b c)"
  unfolding complete_logout_request_def
  by (intro keeps_intros) (simp add: keeps_def logouts Let_def)

lemma keeps_find_code [keeps_intros]: "keeps I (find_code env c)"
  unfolding find_code_def by (intro keeps_intros)

lemma keeps_find_active_consent [keeps_intros]: "keeps I (find_active_consent u c)"
  unfolding find_active_consent_def by (intro keeps_intros)

lemma keeps_find_usable_token [keeps_intros]: "keeps I (find_usable_token env t)"
  unfolding find_usable_token_def by (intro keeps_intros)

lemma keeps_find_by_client_id [keeps_intros]: "keeps I (find_by_client_id c)"
  unfolding find_by_client_id_def by (intro keeps_intros)

lemma keeps_find_container [keeps_intros]: "keeps I (find_container env v)"
  unfolding find_container_def by (intro keeps_intros)

lemma keeps_container_accounts [keeps_intros]: "keeps I (container_accounts i)"
  unfolding container_accounts_def by (intro keeps_intros)

lemma keeps_update_container [keeps_intros]: "keeps I (update_container i f)"
  unfolding update_container_def by (intro keeps_intros)

lemma keeps_renew_if_stale [keeps_intros]: "keeps I (renew_if_stale env b)"
  unfolding renew_if_stale_def by (intro keeps_intros)

lemma keeps_ensure_container [keeps_intros]: "keeps I (ensure_container env b)"
  unfolding ensure_container_def by (intro keeps_intros)

lemma keeps_load_browser [keeps_intros]: "keeps I (load_browser env req)"
  unfolding load_browser_def by (intro keeps_intros)

lemma keeps_browser_rotate_secret [keeps_intros]: "keeps I (browser_rotate_secret env b)"
  unfolding browser_rotate_secret_def by (intro keeps_intros)

lemma keeps_revoke_sessions [keeps_intros]: "keeps I (revoke_sessions ids r)"
  unfolding revoke_sessions_def by (intro keeps_intros)

lemma keeps_set_web_session [keeps_intros]: "keeps I (set_web_session c s o')"
  unfolding set_web_session_def by (intro keeps_intros)

lemma keeps_set_web_account [keeps_intros]: "keeps I (set_web_account b s o')"
  unfolding set_web_account_def by (intro keeps_intros)

lemma keeps_add_account [keeps_intros]: "keeps I (add_account env b u a t o')"
  unfolding add_account_def by (intro keeps_intros)

lemma keeps_sign_out_account [keeps_intros]: "keeps I (sign_out_account b s r)"
  unfolding sign_out_account_def by (intro keeps_intros)

lemma keeps_sign_out_browser [keeps_intros]: "keeps I (sign_out_browser env b r)"
  unfolding sign_out_browser_def by (intro keeps_intros)

lemma keeps_resolve_web_user [keeps_intros]: "keeps I (resolve_web_user env req)"
  unfolding resolve_web_user_def by (intro keeps_intros)

lemma keeps_evaluate [keeps_intros]: "keeps I (evaluate env t c as)"
  unfolding evaluate_def by (intro keeps_intros)

lemma keeps_finish_with_error [keeps_intros]: "keeps I (finish_with_error env t e)"
  unfolding finish_with_error_def by (intro keeps_intros)

lemma keeps_bind_if_needed [keeps_intros]: "keeps I (bind_if_needed t s u)"
  unfolding bind_if_needed_def by (intro keeps_intros)

lemma keeps_consent_ready [keeps_intros]: "keeps I (consent_ready env t c as)"
  unfolding consent_ready_def by (intro keeps_intros)

lemma keeps_ensure_binding [keeps_intros]: "keeps I (ensure_binding env req)"
  unfolding ensure_binding_def by (intro keeps_intros)

lemma keeps_render_login [keeps_intros]: "keeps I (render_login env t c u e st)"
  unfolding render_login_def by (intro keeps_intros)

lemma keeps_login_prefill [keeps_intros]: "keeps I (login_prefill t)"
  unfolding login_prefill_def by (intro keeps_intros)

lemma keeps_login_page [keeps_intros]: "keeps I (login_page env req t)"
  unfolding login_page_def by (intro keeps_intros)

lemma keeps_login_rate_ok [keeps_intros]: "keeps I (login_rate_ok env u ip)"
  unfolding login_rate_ok_def by (intro keeps_intros)

lemma keeps_verify_user_credentials [keeps_intros]: "keeps I (verify_user_credentials env u p)"
  unfolding verify_user_credentials_def by (intro keeps_intros)

lemma keeps_establish_login [keeps_intros]: "keeps I (establish_login env req u)"
  unfolding establish_login_def by (intro keeps_intros)

lemma keeps_account_switch [keeps_intros]: "keeps I (account_switch env t c)"
  unfolding account_switch_def by (intro keeps_intros)

lemma keeps_render_select_account [keeps_intros]: "keeps I (render_select_account env t cs n)"
  unfolding render_select_account_def by (intro keeps_intros)

lemma keeps_select_account_page [keeps_intros]: "keeps I (select_account_page env req t)"
  unfolding select_account_page_def by (intro keeps_intros)

lemma keeps_chooser_sign_out [keeps_intros]: "keeps I (chooser_sign_out env req t e a)"
  unfolding chooser_sign_out_def by (intro keeps_intros)

lemma keeps_userinfo [keeps_intros]: "keeps I (userinfo env t)"
  unfolding userinfo_def by (intro keeps_intros)

lemma keeps_userinfo_reply [keeps_intros]: "keeps I (userinfo_reply env t)"
  unfolding userinfo_reply_def by (intro keeps_intros)

lemma keeps_userinfo_endpoint [keeps_intros]: "keeps I (userinfo_endpoint env req)"
  unfolding userinfo_endpoint_def by (intro keeps_intros)

lemma keeps_oauth_logout [keeps_intros]: "keeps I (oauth_logout env req)"
  unfolding oauth_logout_def by (intro keeps_intros)

lemma keeps_establish_after_password_login [keeps_intros]: "keeps I (establish_after_password_login env req u)"
  unfolding establish_after_password_login_def by (intro keeps_intros)

lemma keeps_bridge_window [keeps_intros]: "keeps I (bridge_window env req)"
  unfolding bridge_window_def by (intro keeps_intros)

lemma keeps_bridge [keeps_intros]: "keeps I (bridge env req u)"
  unfolding bridge_def by (intro keeps_intros)

lemma keeps_sso_sign_out [keeps_intros]: "keeps I (sso_sign_out env req)"
  unfolding sso_sign_out_def by (intro keeps_intros)

lemma keeps_user_login [keeps_intros]: "keeps I (user_login env req u p)"
  unfolding user_login_def by (intro keeps_intros)

lemma keeps_unified [keeps_intros]: "keeps I (unified env)"
  unfolding unified_def by (intro keeps_intros)

lemma keeps_check_csrf [keeps_intros]: "keeps I (check_csrf req env b a)"
  unfolding check_csrf_def by (intro keeps_intros)

lemma keeps_web_status [keeps_intros]: "keeps I (web_status env req)"
  unfolding web_status_def by (intro keeps_intros)

lemma keeps_web_login [keeps_intros]: "keeps I (web_login env req u p)"
  unfolding web_login_def by (intro keeps_intros)

lemma keeps_web_restore [keeps_intros]: "keeps I (web_restore env req)"
  unfolding web_restore_def by (intro keeps_intros)

lemma keeps_web_select [keeps_intros]: "keeps I (web_select env req a)"
  unfolding web_select_def by (intro keeps_intros)

lemma keeps_web_migrate [keeps_intros]: "keeps I (web_migrate env req u)"
  unfolding web_migrate_def by (intro keeps_intros)

lemma keeps_affected_clients [keeps_intros]: "keeps I (affected_clients ids)"
  unfolding affected_clients_def by (intro keeps_intros)

lemma keeps_sign_out_each [keeps_intros]: "keeps I (sign_out_each b ts)"
  by (induction b ts rule: sign_out_each.induct) (auto intro!: keeps_intros)

lemma keeps_revoke_for_logout [keeps_intros]: "keeps I (revoke_for_logout env b ts)"
  unfolding revoke_for_logout_def by (intro keeps_intros)

lemma keeps_end_session_confirmation [keeps_intros]: "keeps I (end_session_confirmation env req h c r s)"
  unfolding end_session_confirmation_def by (intro keeps_intros)

lemma keeps_end_session [keeps_intros]: "keeps I (end_session env req)"
  unfolding end_session_def by (intro keeps_intros)

end

end
