(* ===== verification/Oidc_Grants.thy ===== *)
theory Oidc_Grants
  imports Oidc_Frame
begin

text \<open>
  The writes of \<open>store.rs\<close>, \<open>clients.rs\<close> and \<open>backchannel.rs\<close> keep what the tables promise:
  consents, codes and tokens among each other, clients and deliveries.
\<close>

section \<open>Conditions that survive the sessions of a browser\<close>

lemma frame_conj: "oidc_frame A \<Longrightarrow> oidc_frame B \<Longrightarrow> oidc_frame (\<lambda>w. A w \<and> B w)"
  by (simp add: oidc_frame_def)

lemma frame_ok: "oidc_frame oidc_ok"
  by (unfold_locales) (simp_all add: oidc_ok_fresh, simp_all add: oidc_ok_def txns_ok_map)

lemma frame_knows: "oidc_frame (knows txn)"
  by unfold_locales (auto simp: knows_def same_request_def)

definition has_consent :: "uuid \<Rightarrow> uuid \<Rightarrow> string list \<Rightarrow> oidc_world \<Rightarrow> bool" where
  "has_consent u c scopes w \<longleftrightarrow> consented (ow_consents w) u c scopes"

lemma frame_consent: "oidc_frame (has_consent u c scopes)"
  by unfold_locales (auto simp: has_consent_def)

interpretation ok: oidc_frame oidc_ok
  by (rule frame_ok)

interpretation flow: oidc_frame "\<lambda>w. oidc_ok w \<and> knows txn w" for txn
  by (intro frame_conj frame_ok frame_knows)

interpretation grant: oidc_frame "\<lambda>w. oidc_ok w \<and> knows txn w \<and> has_consent u c scopes w" for txn u c scopes
  by (intro frame_conj frame_ok frame_knows frame_consent)

section \<open>Consents, codes and tokens among each other\<close>

lemma consented_mono:
  assumes "consented ns u c scopes"
    and "\<And>n. n \<in> set ns \<Longrightarrow> cn_revoked_at n = None \<Longrightarrow> cn_user_id n = u \<Longrightarrow> cn_client_id n = c \<Longrightarrow>
      \<exists>n' \<in> set ns'. cn_user_id n' = u \<and> cn_client_id n' = c \<and> cn_revoked_at n' = None \<and>
        set (cn_scopes n) \<subseteq> set (cn_scopes n')"
  shows "consented ns' u c scopes"
  using assms unfolding consented_def by (meson subset_trans)

lemma consented_append: "consented ns u c scopes \<Longrightarrow> consented (ns @ ms) u c scopes"
  by (auto simp: consented_def)

lemma codes_ok_consents:
  "codes_ok n ns cs \<Longrightarrow> (\<And>c. c \<in> set cs \<Longrightarrow> ac_consumed_at c = None \<Longrightarrow>
     consented ns (ac_user_id c) (ac_client_id c) (ac_scopes c) \<Longrightarrow>
     consented ns' (ac_user_id c) (ac_client_id c) (ac_scopes c)) \<Longrightarrow> codes_ok n ns' cs"
  by (simp add: codes_ok_def)

lemma tokens_ok_consents:
  "tokens_ok ns cs ts \<Longrightarrow> (\<And>t. t \<in> set ts \<Longrightarrow> tk_revoked_at t = None \<Longrightarrow>
     consented ns (tk_user_id t) (tk_client_id t) (tk_scopes t) \<Longrightarrow>
     consented ns' (tk_user_id t) (tk_client_id t) (tk_scopes t)) \<Longrightarrow> tokens_ok ns' cs ts"
  by (simp add: tokens_ok_def)

text \<open>Writes to a code leave what identifies it and consume it at most.\<close>

definition code_step :: "auth_code \<Rightarrow> auth_code \<Rightarrow> bool" where
  "code_step c c' \<longleftrightarrow> ac_id c' = ac_id c \<and> ac_code_hash c' = ac_code_hash c \<and>
     ac_client_id c' = ac_client_id c \<and> ac_user_id c' = ac_user_id c \<and> ac_scopes c' = ac_scopes c \<and>
     (ac_consumed_at c \<noteq> None \<longrightarrow> ac_consumed_at c' \<noteq> None)"

lemma code_step_refl [simp]: "code_step c c"
  by (simp add: code_step_def)

lemma codes_ok_map:
  assumes "codes_ok n ns cs" "\<And>c. code_step c (f c)"
  shows "codes_ok n ns (map f cs)"
proof -
  have "map ac_id (map f cs) = map ac_id cs" "map ac_code_hash (map f cs) = map ac_code_hash cs"
    using assms(2) by (simp_all add: code_step_def)
  then show ?thesis using assms unfolding codes_ok_def code_step_def by (simp only: ball_simps set_map) metis
qed

lemma tokens_ok_codes_map:
  assumes "tokens_ok ns cs ts" "\<And>c. code_step c (f c)"
  shows "tokens_ok ns (map f cs) ts"
proof -
  have "from_code t c \<Longrightarrow> from_code t (f c)" for t c
    using assms(2) [of c] by (simp add: from_code_def code_step_def)
  then show ?thesis using assms(1) unfolding tokens_ok_def by fastforce
qed

text \<open>Writes to a token revoke it at most.\<close>

definition token_step :: "access_token \<Rightarrow> access_token \<Rightarrow> bool" where
  "token_step t t' \<longleftrightarrow> tk_token_hash t' = tk_token_hash t \<and> tk_code_id t' = tk_code_id t \<and>
     tk_client_id t' = tk_client_id t \<and> tk_user_id t' = tk_user_id t \<and> tk_scopes t' = tk_scopes t \<and>
     (tk_revoked_at t \<noteq> None \<longrightarrow> tk_revoked_at t' \<noteq> None)"

lemma map_filter_map: "List.map_filter g (map f xs) = List.map_filter (g \<circ> f) xs"
  by (induction xs) (auto simp: List.map_filter_simps split: option.splits)

lemma tokens_ok_map:
  assumes "tokens_ok ns cs ts" "\<And>t. token_step t (f t)"
  shows "tokens_ok ns cs (map f ts)"
proof -
  have "map tk_token_hash (map f ts) = map tk_token_hash ts"
    "List.map_filter tk_code_id (map f ts) = List.map_filter tk_code_id ts"
    using assms(2) by (simp_all add: token_step_def map_filter_map comp_def)
  moreover have "from_code t c \<Longrightarrow> from_code (f t) c" for t c
    using assms(2) [of t] by (simp add: from_code_def token_step_def)
  ultimately show ?thesis
    using assms unfolding tokens_ok_def token_step_def by (simp only: ball_simps set_map) metis
qed

lemma codes_ok_filter: "codes_ok n ns cs \<Longrightarrow> codes_ok n ns (filter p cs)"
  by (simp add: codes_ok_def fresh_keys_filter distinct_map_filter)

lemma set_map_filter: "set (List.map_filter g xs) = {y. \<exists>x \<in> set xs. g x = Some y}"
  by (induction xs) (auto simp: List.map_filter_simps split: option.splits)

lemma map_filter_filter: "distinct (List.map_filter g xs) \<Longrightarrow> distinct (List.map_filter g (filter p xs))"
  by (induction xs) (auto simp: List.map_filter_simps set_map_filter split: option.splits)

lemma tokens_ok_filter: "tokens_ok ns cs ts \<Longrightarrow> tokens_ok ns cs (filter p ts)"
  by (simp add: tokens_ok_def distinct_map_filter map_filter_filter)

lemma map_filter_append: "List.map_filter g (xs @ ys) = List.map_filter g xs @ List.map_filter g ys"
  by (induction xs) (auto simp: List.map_filter_simps split: option.splits)

section \<open>Codes and tokens\<close>

lemma hoare_insert_code:
  "hoare (\<lambda>w. oidc_ok w \<and> has_consent (nc_user_id new) (nc_client_pk new) (nc_scopes new) w)
     (insert_code env new) (\<lambda>_. oidc_ok) oidc_ok"
  unfolding insert_code_def hoare_def
  by (simp add: run_simps new_authorization_code_def random_token_def o_now_def o_new_uuid_def Let_def
      split: if_splits)
   (auto simp: oidc_ok_def ok_Suc codes_ok_def has_consent_def fresh_keys_def list_ex_iff tokens_ok_def)

lemma keeps_revoke_tokens_of_code [keeps_intros]: "keeps oidc_ok (revoke_tokens_of_code i)"
  unfolding keeps_def revoke_tokens_of_code_def update_where_def
  by (simp add: Let_def oidc_ok_def tokens_ok_map token_step_def)

lemma keeps_revoke_user_client_grants [keeps_intros]: "keeps oidc_ok (revoke_user_client_grants u c)"
  unfolding keeps_def revoke_user_client_grants_def update_where_def
  by (simp add: run_simps oidc_ok_def tokens_ok_map token_step_def codes_ok_map code_step_def
      tokens_ok_codes_map)

lemma covers_subset: "covers granted requested \<longleftrightarrow> set requested \<subseteq> set granted"
  by (auto simp: covers_def list_all_iff)

lemma active_consent_covers:
  "active_consent w u c = Some n \<Longrightarrow> covers (cn_scopes n) scopes \<Longrightarrow> has_consent u c scopes w"
  by (auto simp: active_consent_def has_consent_def consented_def covers_subset dest!: find_SomeD)

text \<open>Consuming a code the caller has just read, with the consent it has just checked.\<close>

lemma tokens_of_open_code:
  assumes "tokens_ok ns cs ts" "codes_ok n ns cs" "c \<in> set cs" "ac_consumed_at c = None"
  shows "ac_id c \<notin> set (List.map_filter tk_code_id ts)"
proof
  assume "ac_id c \<in> set (List.map_filter tk_code_id ts)"
  then obtain t where t: "t \<in> set ts" "tk_code_id t = Some (ac_id c)" by (auto simp: set_map_filter)
  then obtain c' where "c' \<in> set cs" "from_code t c'" using assms(1) by (auto simp: tokens_ok_def)
  then have "c' \<in> set cs" "ac_id c' = ac_id c" "ac_consumed_at c' \<noteq> None"
    using t by (auto simp: from_code_def)
  then show False
    using assms distinct_mapD [of ac_id cs c' c] by (auto simp: codes_ok_def fresh_keys_def)
qed

lemma tokens_ok_issue:
  assumes ok: "tokens_ok ns cs ts" "codes_ok n ns cs" and c: "c \<in> set cs" "ac_consumed_at c = None"
    and upd: "\<And>x. code_step x (f x)" "ac_consumed_at (f c) \<noteq> None"
    and t: "tk_code_id t = Some (ac_id c)" "tk_client_id t = ac_client_id c" "tk_user_id t = ac_user_id c"
      "tk_scopes t = ac_scopes c" "tk_token_hash t \<notin> tk_token_hash ` set ts"
    and cons: "consented ns (ac_user_id c) (ac_client_id c) (ac_scopes c)"
  shows "tokens_ok ns (map f cs) (ts @ [t])"
proof -
  have old: "tokens_ok ns (map f cs) ts" by (rule tokens_ok_codes_map [OF ok(1) upd(1)])
  have "from_code t (f c)"
    using t upd by (simp add: from_code_def code_step_def)
  then have "\<exists>x \<in> set (map f cs). from_code t x" using c(1) by auto
  moreover have "ac_id c \<notin> set (List.map_filter tk_code_id ts)"
    by (rule tokens_of_open_code [OF ok c])
  ultimately show ?thesis
    using old t cons unfolding tokens_ok_def by (auto simp: map_filter_append List.map_filter_simps)
qed

text \<open>The token that a state issues for a code, and the exchange of a code in one step.\<close>

definition issued_token :: "oidc_env \<Rightarrow> auth_code \<Rightarrow> int \<Rightarrow> oidc_world \<Rightarrow> access_token" where
  "issued_token env code ttl w =
     \<lparr>tk_id = ow_next w + 1, tk_token_hash = ev_sha256_hex env (''fat_'' @ ev_random env 32 (ow_next w)),
      tk_client_id = ac_client_id code, tk_user_id = ac_user_id code, tk_code_id = Some (ac_id code),
      tk_scopes = ac_scopes code, tk_created_at = ow_now w, tk_expires_at = ow_now w + seconds ttl,
      tk_revoked_at = None\<rparr>"

definition open_code :: "auth_code \<Rightarrow> oidc_world \<Rightarrow> auth_code \<Rightarrow> bool" where
  "open_code code w c \<longleftrightarrow> ac_id c = ac_id code \<and> ac_consumed_at c = None \<and> ow_now w < ac_expires_at c"

definition consume_at :: "auth_code \<Rightarrow> oidc_world \<Rightarrow> auth_code \<Rightarrow> auth_code" where
  "consume_at code w c = (if open_code code w c then c\<lparr>ac_consumed_at := Some (ow_now w)\<rparr> else c)"

definition exchanged :: "oidc_env \<Rightarrow> auth_code \<Rightarrow> int \<Rightarrow> oidc_world \<Rightarrow> oidc_world" where
  "exchanged env code ttl w = w\<lparr>ow_next := ow_next w + 2, ow_codes := map (consume_at code w) (ow_codes w),
     ow_tokens := ow_tokens w @ [issued_token env code ttl w],
     ow_consents := update_where (\<lambda>r. cn_user_id r = ac_user_id code \<and> cn_client_id r = ac_client_id code)
       (\<lambda>r. r\<lparr>cn_last_used_at := Some (ow_now w)\<rparr>) (ow_consents w)\<rparr>"

lemma consume_code_run:
  "consume_code_and_issue_token env code ttl w =
     (if length (filter (open_code code w) (ow_codes w)) \<noteq> 1 then (Inr None, w)
      else if tk_token_hash (issued_token env code ttl w) \<in> tk_token_hash ` set (ow_tokens w) then (Inl OeUnique, w)
      else if client_of w (ac_client_id code) = None \<or> user_of w (ac_user_id code) = None then (Inl OeForeignKey, w)
      else (Inr (Some (''fat_'' @ ev_random env 32 (ow_next w), ow_now w + seconds ttl)), exchanged env code ttl w))"
proof -
  have hit: "(\<lambda>c. ac_id c = ac_id code \<and> ac_consumed_at c = None \<and> ow_now w < ac_expires_at c) = open_code code w"
    by (simp add: fun_eq_iff open_code_def)
  show ?thesis
    unfolding consume_code_and_issue_token_def Let_def hit
    by (auto simp: run_simps new_access_token_def random_token_def o_new_uuid_def issued_token_def
        exchanged_def list_ex_iff image_iff update_where_def consume_at_def fun_eq_iff client_of_def user_of_def)
qed

lemma consents_ok_touch:
  assumes "consents_ok n ns"
  shows "consents_ok n (update_where p (\<lambda>r. r\<lparr>cn_last_used_at := t\<rparr>) ns)"
proof -
  have "map cn_id (update_where p (\<lambda>r. r\<lparr>cn_last_used_at := t\<rparr>) ns) = map cn_id ns"
    "map (\<lambda>c. (cn_user_id c, cn_client_id c)) (update_where p (\<lambda>r. r\<lparr>cn_last_used_at := t\<rparr>) ns) =
     map (\<lambda>c. (cn_user_id c, cn_client_id c)) ns"
    by (simp_all add: map_update_where)
  then show ?thesis using assms unfolding consents_ok_def by (auto simp: set_update_where) blast
qed

lemma consented_touch:
  "consented (update_where p (\<lambda>r. r\<lparr>cn_last_used_at := t\<rparr>) ns) u c scopes = consented ns u c scopes"
  unfolding consented_def set_update_where bex_simps by (rule bex_cong) auto

lemma hoare_consume_code:
  "hoare (\<lambda>w. oidc_ok w \<and> code \<in> set (ow_codes w) \<and>
       has_consent (ac_user_id code) (ac_client_id code) (ac_scopes code) w)
     (consume_code_and_issue_token env code ttl) (\<lambda>_. oidc_ok) oidc_ok"
proof (rule hoareI, goal_cases)
  case (1 w e w')
  then show ?case by (auto simp: consume_code_run split: if_splits)
next
  case (2 w r w')
  show ?case
  proof (cases "w' = w")
    case False
    let ?ns = "ow_consents (exchanged env code ttl w)"
    have run: "w' = exchanged env code ttl w" "length (filter (open_code code w) (ow_codes w)) = 1"
      "tk_token_hash (issued_token env code ttl w) \<notin> tk_token_hash ` set (ow_tokens w)"
      using 2(2) False by (auto simp: consume_code_run split: if_splits)
    obtain c where "c \<in> set (ow_codes w)" "open_code code w c"
      using run(2) by (metis One_nat_def filter_False length_0_conv nat.distinct(1) list.size(3))
    then have open': "open_code code w code"
      using 2(1) distinct_mapD [of ac_id "ow_codes w" c code]
      by (auto simp: oidc_ok_def codes_ok_def fresh_keys_def open_code_def)
    have step: "code_step x (consume_at code w x)" for x by (simp add: code_step_def consume_at_def)
    have same: "consented ?ns u k s = consented (ow_consents w) u k s" for u k s
      by (simp add: exchanged_def consented_touch)
    have "consents_ok (ow_next w) ?ns"
      using 2(1) by (simp add: exchanged_def consents_ok_touch oidc_ok_def)
    moreover have "codes_ok (ow_next w) ?ns (map (consume_at code w) (ow_codes w))"
      using 2(1) step by (intro codes_ok_map) (auto simp: oidc_ok_def same codes_ok_def)
    moreover have "tokens_ok ?ns (map (consume_at code w) (ow_codes w)) (ow_tokens w @ [issued_token env code ttl w])"
      using 2(1) open' step run(3)
      by (intro tokens_ok_issue [where c = code and n = "ow_next w"])
        (auto simp: oidc_ok_def same codes_ok_def tokens_ok_def issued_token_def open_code_def consume_at_def has_consent_def)
    ultimately show ?thesis
      using 2(1) by (simp add: run(1) oidc_ok_def exchanged_def ok_Suc numeral_2_eq_2)
  qed (use 2 in simp)
qed


section \<open>Consents\<close>

lemma active_consent_None: "active_consent w u c \<noteq> None \<longleftrightarrow>
    (\<exists>n \<in> set (ow_consents w). cn_user_id n = u \<and> cn_client_id n = c \<and> cn_revoked_at n = None)"
  by (auto simp: active_consent_def find_None_iff2 find_Some_iff2 find_None_iff)

lemma scope_union_supported [simp]: "set (scope_union a b) = (set a \<union> set b) \<inter> set SUPPORTED"
  by (auto simp: scope_union_def)

text \<open>The row of a pair before and after a grant.\<close>

lemma consents_ok_grant:
  assumes "consents_ok n ns" "row \<in> set ns"
    and f: "\<And>c. cn_id (f c) = cn_id c" "\<And>c. cn_user_id (f c) = cn_user_id c"
      "\<And>c. cn_client_id (f c) = cn_client_id c" "set (cn_scopes (f row)) \<subseteq> set SUPPORTED"
  shows "consents_ok n (update_where (\<lambda>c. cn_id c = cn_id row) f ns)"
proof -
  have "map cn_id (update_where (\<lambda>c. cn_id c = cn_id row) f ns) = map cn_id ns"
    "map (\<lambda>c. (cn_user_id c, cn_client_id c)) (update_where (\<lambda>c. cn_id c = cn_id row) f ns) =
     map (\<lambda>c. (cn_user_id c, cn_client_id c)) ns"
    using f by (simp_all add: map_update_where)
  moreover have "c \<in> set ns \<Longrightarrow> cn_id c = cn_id row \<Longrightarrow> c = row" for c
    using assms(1,2) distinct_mapD [of cn_id ns c row] by (auto simp: consents_ok_def fresh_keys_def)
  ultimately show ?thesis
    using assms unfolding consents_ok_def by (auto simp: set_update_where) blast+
qed

lemma consented_grant:
  assumes "consents_ok n ns" "row \<in> set ns" "consented ns a b s"
    and f: "\<And>c. cn_user_id (f c) = cn_user_id c" "\<And>c. cn_client_id (f c) = cn_client_id c"
      "cn_revoked_at (f row) = None" "cn_revoked_at row = None \<Longrightarrow> set (cn_scopes row) \<subseteq> set (cn_scopes (f row))"
  shows "consented (update_where (\<lambda>c. cn_id c = cn_id row) f ns) a b s"
proof (rule consented_mono [OF assms(3)])
  fix m assume m: "m \<in> set ns" "cn_revoked_at m = None" "cn_user_id m = a" "cn_client_id m = b"
  have mem: "(if cn_id m = cn_id row then f m else m) \<in> set (update_where (\<lambda>c. cn_id c = cn_id row) f ns)"
    using m(1) by (auto simp: set_update_where)
  have "cn_id m = cn_id row \<Longrightarrow> m = row"
    using assms(1,2) m(1) distinct_mapD [of cn_id ns m row] by (auto simp: consents_ok_def fresh_keys_def)
  then show "\<exists>m' \<in> set (update_where (\<lambda>c. cn_id c = cn_id row) f ns). cn_user_id m' = a \<and> cn_client_id m' = b \<and>
      cn_revoked_at m' = None \<and> set (cn_scopes m) \<subseteq> set (cn_scopes m')"
    using m f by (intro bexI [OF _ mem]) auto
qed

lemma oidc_ok_consents:
  assumes "oidc_ok w" "consents_ok n ns" "ow_next w \<le> n"
    and "\<And>u c s. consented (ow_consents w) u c s \<Longrightarrow> consented ns u c s"
  shows "oidc_ok (w\<lparr>ow_next := n, ow_consents := ns\<rparr>)"
proof -
  have "fresh_keys (ow_next w) ks \<Longrightarrow> fresh_keys n ks" for ks
    using assms(3) by (auto simp: fresh_keys_def)
  then show ?thesis
    using assms by (simp add: oidc_ok_def codes_ok_def tokens_ok_def txns_ok_def clients_ok_def)
qed

lemma grant_existing:
  assumes ok: "oidc_ok w" and row: "row \<in> set (ow_consents w)"
    and f: "\<And>c. cn_id (f c) = cn_id c" "\<And>c. cn_user_id (f c) = cn_user_id c"
      "\<And>c. cn_client_id (f c) = cn_client_id c" "cn_revoked_at (f row) = None"
      "set (cn_scopes (f row)) = (if cn_revoked_at row = None then set (cn_scopes row) \<union> set scopes else set scopes)
         \<inter> set SUPPORTED"
    and scopes: "set scopes \<subseteq> set SUPPORTED"
  shows "oidc_ok (w\<lparr>ow_consents := update_where (\<lambda>c. cn_id c = cn_id row) f (ow_consents w)\<rparr>)"
    "has_consent (cn_user_id row) (cn_client_id row) scopes
       (w\<lparr>ow_consents := update_where (\<lambda>c. cn_id c = cn_id row) f (ow_consents w)\<rparr>)"
proof -
  let ?ns = "update_where (\<lambda>c. cn_id c = cn_id row) f (ow_consents w)"
  have cs: "consents_ok (ow_next w) (ow_consents w)" using ok by (simp add: oidc_ok_def)
  then have sup: "set (cn_scopes row) \<subseteq> set SUPPORTED" using row by (simp add: consents_ok_def)
  have "consents_ok (ow_next w) ?ns"
    by (rule consents_ok_grant [OF cs row]) (use f in auto)
  moreover have "consented (ow_consents w) a b s \<Longrightarrow> consented ?ns a b s" for a b s
    by (rule consented_grant [OF cs row]) (use f sup in auto)
  ultimately show "oidc_ok (w\<lparr>ow_consents := ?ns\<rparr>)"
    using oidc_ok_consents [OF ok, of "ow_next w" ?ns] by simp
  have "f row \<in> set ?ns" using row by (auto simp: set_update_where)
  then show "has_consent (cn_user_id row) (cn_client_id row) scopes (w\<lparr>ow_consents := ?ns\<rparr>)"
    unfolding has_consent_def consented_def using f scopes by (auto intro!: bexI [of _ "f row"])
qed

lemma hoare_grant_consent:
  assumes "set scopes \<subseteq> set SUPPORTED"
  shows "hoare (\<lambda>w. oidc_ok w \<and> knows txn w) (grant_consent u c scopes)
    (\<lambda>_ w. oidc_ok w \<and> knows txn w \<and> has_consent u c scopes w) oidc_ok"
proof (rule hoareI, goal_cases)
  case (1 w e w')
  then show ?case by (auto simp: grant_consent_def Let_def split: option.splits if_splits)
next
  case (2 w r w')
  show ?case
  proof (cases "List.find (\<lambda>n. cn_user_id n = u \<and> cn_client_id n = c) (ow_consents w)")
    case None
    let ?ns = "ow_consents w @
        [\<lparr>cn_id = ow_next w, cn_user_id = u, cn_client_id = c, cn_scopes = scope_union scopes [],
          cn_granted_at = ow_now w, cn_updated_at = ow_now w, cn_last_used_at = None, cn_revoked_at = None\<rparr>]"
    have w': "w' = w\<lparr>ow_next := ow_next w + 1, ow_consents := ?ns\<rparr>"
      using 2(2) None by (auto simp: grant_consent_def Let_def split: if_splits)
    have "consents_ok (ow_next w + 1) ?ns"
      using 2(1) None fresh_keys_new [of "ow_next w" "map cn_id (ow_consents w)"]
      by (auto simp: oidc_ok_def consents_ok_def find_None_iff fresh_keys_def)
    then have "oidc_ok w'"
      using 2(1) unfolding w' by (intro oidc_ok_consents) (auto simp: consented_append)
    moreover have "has_consent u c scopes w'"
      using assms by (auto simp: w' has_consent_def consented_def)
    ultimately show ?thesis using 2(1) by (auto simp: w' knows_def)
  next
    case (Some row)
    then have row: "row \<in> set (ow_consents w)" "cn_user_id row = u" "cn_client_id row = c"
      by (auto dest: find_SomeD)
    define f where "f = (\<lambda>n :: oidc_consent. (if cn_revoked_at row \<noteq> None then n\<lparr>cn_revoked_at := None, cn_granted_at := ow_now w\<rparr>
        else n)\<lparr>cn_scopes := (if cn_revoked_at row = None then scope_union (cn_scopes row) scopes
        else scope_union scopes []), cn_updated_at := ow_now w\<rparr>)"
    have w': "w' = w\<lparr>ow_consents := update_where (\<lambda>n. cn_id n = cn_id row) f (ow_consents w)\<rparr>"
      using 2(2) Some unfolding grant_consent_def f_def by (auto simp: Let_def)
    have f: "cn_id (f n) = cn_id n" "cn_user_id (f n) = cn_user_id n" "cn_client_id (f n) = cn_client_id n"
        "cn_revoked_at (f row) = None" "set (cn_scopes (f row)) =
        (if cn_revoked_at row = None then set (cn_scopes row) \<union> set scopes else set scopes) \<inter> set SUPPORTED" for n
      by (simp_all add: f_def)
    have "oidc_ok w'" "has_consent (cn_user_id row) (cn_client_id row) scopes w'"
      unfolding w' using 2(1) row(1) by (rule_tac grant_existing [OF _ _ f assms]; simp)+
    then show ?thesis using 2(1) row by (simp add: w' knows_def)
  qed
qed


text \<open>Taking a consent back takes every token and open code of the pair along.\<close>

lemma revoke_consent_run:
  "revoke_consent u c w = (Inr (active_consent w u c \<noteq> None), w\<lparr>
     ow_consents := update_where (\<lambda>n. cn_user_id n = u \<and> cn_client_id n = c \<and> cn_revoked_at n = None)
       (\<lambda>n. n\<lparr>cn_revoked_at := Some (ow_now w)\<rparr>) (ow_consents w),
     ow_tokens := update_where (\<lambda>t. tk_user_id t = u \<and> tk_client_id t = c \<and> tk_revoked_at t = None)
       (\<lambda>t. t\<lparr>tk_revoked_at := Some (ow_now w)\<rparr>) (ow_tokens w),
     ow_codes := update_where (\<lambda>k. ac_user_id k = u \<and> ac_client_id k = c \<and> ac_consumed_at k = None)
       (\<lambda>k. k\<lparr>ac_consumed_at := Some (ow_now w)\<rparr>) (ow_codes w)\<rparr>)"
  by (simp add: revoke_consent_def revoke_user_client_grants_def run_simps)

lemma consents_ok_revoke:
  assumes "consents_ok n ns"
  shows "consents_ok n (update_where p (\<lambda>r. r\<lparr>cn_revoked_at := t\<rparr>) ns)"
proof -
  have "map cn_id (update_where p (\<lambda>r. r\<lparr>cn_revoked_at := t\<rparr>) ns) = map cn_id ns"
    "map (\<lambda>c. (cn_user_id c, cn_client_id c)) (update_where p (\<lambda>r. r\<lparr>cn_revoked_at := t\<rparr>) ns) =
     map (\<lambda>c. (cn_user_id c, cn_client_id c)) ns"
    by (simp_all add: map_update_where)
  then show ?thesis using assms unfolding consents_ok_def by (auto simp: set_update_where) blast
qed

lemma consented_other:
  "consented ns a b s \<Longrightarrow> (a, b) \<noteq> (u, c) \<Longrightarrow>
   consented (update_where (\<lambda>n. cn_user_id n = u \<and> cn_client_id n = c \<and> cn_revoked_at n = None) f ns) a b s"
  by (force simp: consented_def set_update_where)

lemma map_if_not: "x \<in> set (map (\<lambda>y. if p y then f y else y) xs) \<Longrightarrow> (\<And>y. \<not> p (f y)) \<Longrightarrow> \<not> p x"
  by auto

lemma keeps_revoke_consent [keeps_intros]: "keeps oidc_ok (revoke_consent u c)"
  unfolding keeps_def
proof (intro allI impI)
  fix w :: oidc_world assume ok: "oidc_ok w"
  let ?ns = "update_where (\<lambda>n. cn_user_id n = u \<and> cn_client_id n = c \<and> cn_revoked_at n = None)
       (\<lambda>n. n\<lparr>cn_revoked_at := Some (ow_now w)\<rparr>) (ow_consents w)"
  let ?fc = "\<lambda>k. if ac_user_id k = u \<and> ac_client_id k = c \<and> ac_consumed_at k = None
       then k\<lparr>ac_consumed_at := Some (ow_now w)\<rparr> else k"
  let ?ft = "\<lambda>t. if tk_user_id t = u \<and> tk_client_id t = c \<and> tk_revoked_at t = None
       then t\<lparr>tk_revoked_at := Some (ow_now w)\<rparr> else t"
  have codes: "codes_ok (ow_next w) (ow_consents w) (map ?fc (ow_codes w))"
    using ok by (intro codes_ok_map) (auto simp: oidc_ok_def code_step_def)
  have tokens: "tokens_ok (ow_consents w) (map ?fc (ow_codes w)) (map ?ft (ow_tokens w))"
    using ok by (intro tokens_ok_map tokens_ok_codes_map) (auto simp: oidc_ok_def code_step_def token_step_def)
  have "codes_ok (ow_next w) ?ns (map ?fc (ow_codes w))"
  proof (rule codes_ok_consents [OF codes])
    fix k assume mem: "k \<in> set (map ?fc (ow_codes w))" and open': "ac_consumed_at k = None"
    have "(ac_user_id k, ac_client_id k) \<noteq> (u, c)" using map_if_not [OF mem] open' by simp
    then show "consented (ow_consents w) (ac_user_id k) (ac_client_id k) (ac_scopes k) \<Longrightarrow>
        consented ?ns (ac_user_id k) (ac_client_id k) (ac_scopes k)"
      by (rule consented_other [rotated])
  qed
  moreover have "tokens_ok ?ns (map ?fc (ow_codes w)) (map ?ft (ow_tokens w))"
  proof (rule tokens_ok_consents [OF tokens])
    fix t assume mem: "t \<in> set (map ?ft (ow_tokens w))" and open': "tk_revoked_at t = None"
    have "(tk_user_id t, tk_client_id t) \<noteq> (u, c)" using map_if_not [OF mem] open' by simp
    then show "consented (ow_consents w) (tk_user_id t) (tk_client_id t) (tk_scopes t) \<Longrightarrow>
        consented ?ns (tk_user_id t) (tk_client_id t) (tk_scopes t)"
      by (rule consented_other [rotated])
  qed
  ultimately show "oidc_ok (snd (revoke_consent u c w))"
    using ok consents_ok_revoke [of "ow_next w" "ow_consents w"]
    unfolding revoke_consent_run oidc_ok_def update_where_def by simp
qed


section \<open>Transactions\<close>

lemma hoare_create_transaction:
  assumes "set (ar_scopes request) \<subseteq> set SUPPORTED"
  shows "hoare oidc_ok (create_transaction env client request sub binding ttl)
    (\<lambda>t w. oidc_ok w \<and> knows t w) oidc_ok"
  unfolding create_transaction_def hoare_def
  using assms
  by (simp add: run_simps new_opaque_secret_def random_token_def o_now_def o_new_uuid_def Let_def split: if_splits)
   (auto simp: oidc_ok_def ok_Suc txns_ok_def fresh_keys_def knows_def)

lemma hoare_find_live_transaction:
  "hoare oidc_ok (find_live_transaction env i b)
     (\<lambda>r w. oidc_ok w \<and> (case r of None \<Rightarrow> True | Some (txn, client) \<Rightarrow> knows txn w)) oidc_ok"
  unfolding find_live_transaction_def hoare_def
  by (auto simp: run_simps bind_eq_Some_conv knows_row split: option.splits if_splits dest!: find_SomeD)

section \<open>Deletions\<close>

lemma clear_if_Some: "clear_if p v = Some x \<longleftrightarrow> v = Some x \<and> \<not> p x"
  by (auto simp: clear_if_def split: option.splits)

lemma map_filter_clear_if:
  "List.map_filter (\<lambda>t. clear_if p (g t)) xs = filter (\<lambda>i. \<not> p i) (List.map_filter g xs)"
  by (induction xs) (auto simp: List.map_filter_simps clear_if_def split: option.splits)

lemma tokens_ok_drop_codes:
  assumes "tokens_ok ns cs ts"
  shows "tokens_ok ns (filter (\<lambda>c. \<not> p c) cs)
    (map (\<lambda>t. t\<lparr>tk_code_id := clear_if (\<lambda>i. list_ex (\<lambda>c. ac_id c = i \<and> p c) cs) (tk_code_id t)\<rparr>) ts)"
    (is "tokens_ok ns ?cs (map ?f ts)")
proof -
  have "\<exists>c \<in> set ?cs. from_code (?f t) c" if t: "t \<in> set ts" "tk_code_id (?f t) \<noteq> None" for t
  proof -
    have "tk_code_id t \<noteq> None" using t(2) by (simp add: clear_if_def split: option.splits)
    then obtain c where c: "c \<in> set cs" "from_code t c" using assms t(1) by (auto simp: tokens_ok_def)
    then have "\<not> p c" using t(2) by (auto simp: from_code_def clear_if_def list_ex_iff split: if_splits)
    then show ?thesis
      using c t(2) by (intro bexI [of _ c]) (auto simp: from_code_def clear_if_def split: if_splits)
  qed
  moreover have "distinct (map tk_token_hash (map ?f ts))" "distinct (List.map_filter tk_code_id (map ?f ts))"
    using assms by (simp_all add: tokens_ok_def comp_def map_filter_map map_filter_clear_if)
  ultimately show ?thesis using assms unfolding tokens_ok_def by simp
qed

lemma oidc_ok_drop_codes: "oidc_ok w \<Longrightarrow> oidc_ok (drop_codes p w)"
  by (simp add: oidc_ok_def drop_codes_def tokens_ok_drop_codes codes_ok_filter)

lemma oidc_ok_drop_sessions: "oidc_ok w \<Longrightarrow> oidc_ok (drop_sessions p w)"
  by (simp add: oidc_ok_def drop_sessions_def Let_def codes_ok_map tokens_ok_codes_map code_step_def
      txns_ok_map same_request_def)

lemma oidc_ok_drop_containers: "oidc_ok w \<Longrightarrow> oidc_ok (drop_containers p w)"
  by (simp add: oidc_ok_def drop_containers_def Let_def)

lemma consents_ok_filter: "consents_ok n ns \<Longrightarrow> consents_ok n (filter p ns)"
  by (simp add: consents_ok_def fresh_keys_filter distinct_map_filter)

lemma txns_ok_filter: "txns_ok n ts \<Longrightarrow> txns_ok n (filter p ts)"
  by (simp add: txns_ok_def fresh_keys_filter)

lemma clients_ok_filter: "clients_ok n cs \<Longrightarrow> clients_ok n (filter p cs)"
  by (simp add: clients_ok_def fresh_keys_filter distinct_map_filter)

lemmas ok_filters = consents_ok_filter codes_ok_filter tokens_ok_filter txns_ok_filter clients_ok_filter

text \<open>
  Rows of some users or clients are deleted: what is left of codes and tokens keeps its consent when
  the consents that go are those of the same users and clients.
\<close>

lemma oidc_ok_drop_consents:
  assumes "oidc_ok w"
    and "\<And>c. c \<in> set cs \<Longrightarrow> q (ac_user_id c) (ac_client_id c)" "cs = ow_codes w"
    and "ts = filter (\<lambda>t. q (tk_user_id t) (tk_client_id t)) (ow_tokens w)"
    and "ns = filter (\<lambda>n. q (cn_user_id n) (cn_client_id n)) (ow_consents w)"
  shows "oidc_ok (w\<lparr>ow_tokens := ts, ow_consents := ns\<rparr>)"
proof -
  have keep: "q a b \<Longrightarrow> consented (ow_consents w) a b s \<Longrightarrow> consented ns a b s" for a b s
    by (auto simp: consented_def assms(5))
  have "codes_ok (ow_next w) ns (ow_codes w)"
    using assms(1-3) keep by (auto simp: oidc_ok_def elim: codes_ok_consents)
  moreover have "tokens_ok (ow_consents w) (ow_codes w) ts"
    using assms(1) by (simp add: oidc_ok_def assms(4) tokens_ok_filter)
  then have "tokens_ok ns (ow_codes w) ts"
    by (rule tokens_ok_consents) (simp add: assms(4) keep)
  ultimately show ?thesis
    using assms(1) by (simp add: oidc_ok_def assms(5) consents_ok_filter)
qed

lemma oidc_ok_drop_clients:
  assumes "oidc_ok w"
  shows "oidc_ok (drop_clients p w)"
proof -
  define gone where "gone = (\<lambda>i. list_ex (\<lambda>c. oc_id c = i \<and> p c) (ow_clients w))"
  define w1 where "w1 = drop_codes (\<lambda>c. gone (ac_client_id c)) w"
  have "oidc_ok w1" using assms by (simp add: w1_def oidc_ok_drop_codes)
  then have "oidc_ok (w1\<lparr>ow_tokens := filter (\<lambda>t. \<not> gone (tk_client_id t)) (ow_tokens w1),
      ow_consents := filter (\<lambda>n. \<not> gone (cn_client_id n)) (ow_consents w1)\<rparr>)" (is "oidc_ok ?w2")
    by (rule oidc_ok_drop_consents [where q = "\<lambda>u c. \<not> gone c"]) (auto simp: w1_def drop_codes_def)
  moreover have "ow_clients w1 = ow_clients w" "ow_txns w1 = ow_txns w" "ow_consents w1 = ow_consents w"
    "ow_deliveries w1 = ow_deliveries w" "ow_next w1 = ow_next w" by (simp_all add: w1_def drop_codes_def)
  ultimately show ?thesis
    using assms unfolding drop_clients_def Let_def gone_def [symmetric] w1_def [symmetric]
    by (simp add: oidc_ok_def ok_filters)
qed

lemma clients_ok_reviewer:
  "clients_ok n cs \<Longrightarrow> clients_ok n (map (\<lambda>c. c\<lparr>oc_reviewed_by := g c\<rparr>) cs)"
  by (simp add: clients_ok_def comp_def client_check_def)

lemma oidc_ok_drop_users:
  assumes "oidc_ok w"
  shows "oidc_ok (drop_users p w)"
proof -
  define gone where "gone = (\<lambda>i. list_ex (\<lambda>u. ou_id u = i \<and> p u) (ow_users w))"
  define w3 where "w3 = drop_codes (\<lambda>c. gone (ac_user_id c)) (drop_sessions (\<lambda>s. gone (bs_user_id s))
      (drop_clients (\<lambda>c. gone (oc_owner_user_id c)) w))"
  have w3: "oidc_ok w3"
    using assms by (simp add: w3_def oidc_ok_drop_codes oidc_ok_drop_sessions oidc_ok_drop_clients)
  then have "oidc_ok (w3\<lparr>ow_tokens := filter (\<lambda>t. \<not> gone (tk_user_id t)) (ow_tokens w3),
      ow_consents := filter (\<lambda>n. \<not> gone (cn_user_id n)) (ow_consents w3)\<rparr>)"
    by (rule oidc_ok_drop_consents [where q = "\<lambda>u c. \<not> gone u"]) (auto simp: w3_def drop_codes_def)
  then show ?thesis
    using w3 unfolding drop_users_def Let_def gone_def [symmetric] w3_def [symmetric]
    by (simp add: oidc_ok_def txns_ok_filter clients_ok_reviewer)
qed

lemma keeps_cleanup_expired [keeps_intros]: "keeps oidc_ok cleanup_expired"
proof -
  have "oidc_ok (w\<lparr>ow_txns := filter a (ow_txns w), ow_tokens := filter b (ow_tokens w),
      ow_logouts := ls, ow_deliveries := filter d (ow_deliveries w)\<rparr>)" if "oidc_ok w" for w a b ls d
    using that by (simp add: oidc_ok_def ok_filters)
  then show ?thesis
    unfolding cleanup_expired_def Let_def
    by (intro keeps_modifyM oidc_ok_drop_containers oidc_ok_drop_sessions oidc_ok_drop_codes)
qed


section \<open>Clients\<close>

text \<open>A client inserted under a new key, after the check and the unique index.\<close>

lemma keeps_insert_client:
  assumes "\<And>i k. oc_id (c i k) = i" "\<And>i k. oc_client_id (c i k) = k"
  shows "keeps oidc_ok (bindM o_new_uuid (\<lambda>i. bindM (new_client_id env) (\<lambda>k. bindM (readM (\<lambda>w. w)) (\<lambda>w.
     bindM (guardM (client_check (c i k)) OeCheck) (\<lambda>_.
     bindM (guardM (\<not> list_ex (\<lambda>r. oc_client_id r = k) (ow_clients w)) OeUnique) (\<lambda>_.
     bindM (guardM (P w) OeForeignKey) (\<lambda>_.
     bindM (modifyM (\<lambda>w. w\<lparr>ow_clients := ow_clients w @ [c i k]\<rparr>)) (\<lambda>_. returnM (c i k, s)))))))))"
  unfolding keeps_def
  using assms
  by (simp add: run_simps o_new_uuid_def new_client_id_def random_token_def split: if_splits)
    (auto simp: oidc_ok_def ok_Suc clients_ok_def fresh_keys_def list_ex_iff)

lemma keeps_client_create [keeps_intros]: "keeps oidc_ok (client_create env u t a i)"
  unfolding client_create_def Let_def case_prod_beta
  by (rule keeps_bindM, (intro keeps_intros)[1], rule keeps_bindM, (intro keeps_intros)[1],
      rule keeps_bindM, (intro keeps_intros)[1], rule keeps_bindM, (intro keeps_intros)[1],
      rule keeps_insert_client) simp_all

lemma keeps_update_client [keeps_intros]:
  assumes "\<And>c. oc_id (f c) = oc_id c" "\<And>c. oc_client_id (f c) = oc_client_id c"
  shows "keeps oidc_ok (update_client i f)"
  unfolding keeps_def
proof (intro allI impI)
  fix w :: oidc_world assume ok: "oidc_ok w"
  show "oidc_ok (snd (update_client i f w))"
  proof (cases "client_of w i")
    case None
    then show ?thesis using ok by (simp add: update_client_def run_simps)
  next
    case (Some c)
    then have c: "c \<in> set (ow_clients w)" "oc_id c = i" by (auto simp: client_of_def dest: find_SomeD)
    then have "x \<in> set (ow_clients w) \<Longrightarrow> oc_id x = i \<Longrightarrow> x = c" for x
      using ok distinct_mapD [of oc_id "ow_clients w" x c] by (auto simp: oidc_ok_def clients_ok_def fresh_keys_def)
    moreover have "map oc_id (update_where (\<lambda>r. oc_id r = i) f (ow_clients w)) = map oc_id (ow_clients w)"
      "map oc_client_id (update_where (\<lambda>r. oc_id r = i) f (ow_clients w)) = map oc_client_id (ow_clients w)"
      using assms by (simp_all add: map_update_where)
    ultimately have "client_check (f c) \<Longrightarrow> clients_ok (ow_next w) (update_where (\<lambda>r. oc_id r = i) f (ow_clients w))"
      using ok unfolding oidc_ok_def clients_ok_def by (auto simp: set_update_where)
    then show ?thesis using ok Some by (simp add: update_client_def run_simps oidc_ok_def)
  qed
qed

lemma keeps_client_update [keeps_intros]: "keeps oidc_ok (client_update env c i)"
  unfolding client_update_def by (intro keeps_intros) simp_all

lemma keeps_client_rotate_secret [keeps_intros]: "keeps oidc_ok (client_rotate_secret env c g)"
  unfolding client_rotate_secret_def by (intro keeps_intros) simp_all

lemma keeps_client_set_status [keeps_intros]: "keeps oidc_ok (client_set_status c s r x)"
  unfolding client_set_status_def by (intro keeps_intros) (simp_all split: option.splits)

section \<open>Deliveries\<close>

lemma keeps_update_delivery:
  "(\<And>d. delivery_ok d \<Longrightarrow> delivery_ok (f d)) \<Longrightarrow> keeps oidc_ok (update_delivery i f)"
  by (auto simp: keeps_def update_delivery_def run_simps oidc_ok_def set_update_where)

text \<open>A delivery that is taken up is pending and has attempts left.\<close>

definition due_delivery :: "backchannel_delivery \<Rightarrow> bool" where
  "due_delivery d \<longleftrightarrow> 0 \<le> bd_attempts d \<and> bd_attempts d < max_attempts"

lemma keeps_mark:
  "due_delivery row \<Longrightarrow> s \<noteq> DlPending \<Longrightarrow> keeps oidc_ok (mark row s h j)"
  unfolding mark_def
  by (intro keeps_intros keeps_update_delivery) (auto simp: delivery_ok_def due_delivery_def)

lemma keeps_retry_or_fail: "due_delivery row \<Longrightarrow> keeps oidc_ok (retry_or_fail row c h j)"
  unfolding retry_or_fail_def
  by (intro keeps_intros keeps_mark keeps_update_delivery) (auto simp: delivery_ok_def due_delivery_def)

lemma keeps_case_attempt:
  "keeps I m \<Longrightarrow> keeps I n \<Longrightarrow> keeps I (case a of PostRefused \<Rightarrow> m | PostTransient \<Rightarrow> n)"
  by (cases a) auto

lemma keeps_deliver_one: "due_delivery row \<Longrightarrow> keeps oidc_ok (deliver_one env row)"
  unfolding deliver_one_def logout_token_claims_new_def
  by (intro keeps_intros keeps_mark keeps_retry_or_fail keeps_case_attempt) simp_all

lemma keeps_deliver_batch: "(\<And>d. d \<in> set rows \<Longrightarrow> due_delivery d) \<Longrightarrow> keeps oidc_ok (deliver_batch env rows)"
  unfolding deliver_batch_def by (intro keeps_intros keeps_deliver_one)


lemma keeps_delivery_insert:
  "delivery_ok row \<Longrightarrow> keeps oidc_ok (modifyM (\<lambda>w. w\<lparr>ow_deliveries := ow_deliveries w @ [row]\<rparr>))"
  by (auto simp: keeps_def run_simps oidc_ok_def)

lemma keeps_enqueue_row: "keeps oidc_ok (enqueue_row env iss b r su c)"
  unfolding enqueue_row_def case_prod_beta
  by (intro keeps_intros keeps_delivery_insert) (simp add: delivery_ok_def max_attempts_def)

lemma keeps_enqueue [keeps_intros]: "keeps oidc_ok (enqueue env iss ss r)"
  unfolding enqueue_def by (intro keeps_intros keeps_enqueue_row)

text \<open>What a call returned, said of every row it returned.\<close>

lemma hoare_gatherM:
  assumes "\<And>x. x \<in> set xs \<Longrightarrow> hoare P (f x) (\<lambda>ys s. P s \<and> list_all q ys) P"
  shows "hoare P (gatherM xs f) (\<lambda>ys s. P s \<and> list_all q ys) P"
  using assms
proof (induction xs)
  case (Cons x xs)
  have rest: "hoare P (gatherM xs f) (\<lambda>ys s. P s \<and> list_all q ys) P" by (rule Cons.IH) (simp add: Cons.prems)
  show ?case
    unfolding gatherM.simps
  proof (rule hoare_bindM [OF Cons.prems])
    fix ys
    have "list_all q ys \<Longrightarrow> hoare P (bindM (gatherM xs f) (\<lambda>zs. returnM (ys @ zs))) (\<lambda>ys s. P s \<and> list_all q ys) P"
      by (rule hoare_bindM [OF rest]) (rule hoare_returnM, simp)
    then show "hoare (\<lambda>s. P s \<and> list_all q ys) (bindM (gatherM xs f) (\<lambda>zs. returnM (ys @ zs)))
        (\<lambda>ys s. P s \<and> list_all q ys) P"
      by (rule hoare_conj_pre)
  qed simp
qed (simp add: hoare_def returnM_def)

lemma hoare_enqueue:
  "hoare oidc_ok (enqueue env iss ss r) (\<lambda>(b, rows) w. oidc_ok w \<and> list_all due_delivery rows) oidc_ok"
proof -
  have "hoare oidc_ok (enqueue_row env iss b r su c) (\<lambda>ys w. oidc_ok w \<and> list_all due_delivery ys) oidc_ok" for b su c
  proof (rule hoareI)
    show "oidc_ok w \<Longrightarrow> enqueue_row env iss b r su c w = (Inl e, w') \<Longrightarrow> oidc_ok w'" for w e w'
      using keepsD_run [OF keeps_enqueue_row] by blast
    show "oidc_ok w \<Longrightarrow> enqueue_row env iss b r su c w = (Inr ys, w') \<Longrightarrow> oidc_ok w' \<and> list_all due_delivery ys" for w ys w'
      using keepsD_run [OF keeps_enqueue_row]
      by (auto simp: enqueue_row_def run_simps Let_def o_now_def o_new_uuid_def due_delivery_def max_attempts_def
          split: prod.splits if_splits)
  qed
  then show ?thesis
    unfolding enqueue_def
    by (intro hoare_bindM [OF keeps_hoare [OF ok.keeps_o_new_uuid]]
        hoare_bindM [where Q = "\<lambda>rows w. oidc_ok w \<and> list_all due_delivery rows"] hoare_gatherM
        hoare_bindM [OF hoare_readM [where Q = "\<lambda>_. oidc_ok"]] hoare_returnM) auto
qed

lemma hoare_claim_due:
  "hoare oidc_ok (claim_due iss n) (\<lambda>rows w. oidc_ok w \<and> list_all due_delivery rows) oidc_ok"
proof (rule hoareI)
  fix w :: oidc_world and rows w'
  assume ok: "oidc_ok w" and run: "claim_due iss n w = (Inr rows, w')"
  have "oidc_ok w'"
    using ok run by (auto simp: claim_due_def Let_def oidc_ok_def set_update_where delivery_ok_def)
  moreover have "list_all due_delivery rows"
    using ok run
    by (auto simp: claim_due_def Let_def list_all_iff due_delivery_def oidc_ok_def delivery_ok_def dest!: in_set_takeD)
  ultimately show "oidc_ok w' \<and> list_all due_delivery rows" ..
qed (simp add: claim_due_def Let_def)

lemma keeps_retry_due [keeps_intros]: "keeps oidc_ok (retry_due env)"
  unfolding retry_due_def
  by (rule hoare_keeps, rule hoare_bindM [OF hoare_claim_due], rule hoare_conj_pre, rule keeps_hoare,
      intro keeps_intros keeps_deliver_batch) (simp add: list_all_iff)

end
