(* ===== verification/Oidc_System.thy ===== *)
theory Oidc_System
  imports Oidc_Grants
begin

text \<open>
  The provider as one state machine: every request of browsers, applications, developers and
  administrators, the clean-up and the retries of the back channel, deleted and changed accounts and
  the passing of time, in any order. Every step keeps what the tables promise.
\<close>

section \<open>The flow\<close>

lemma hoare_update_txns:
  assumes "\<And>t. same_request (f t) t"
  shows "hoare oidc_ok (update_txns p f) (\<lambda>rows w. oidc_ok w \<and> (\<forall>t \<in> set rows. knows t w)) E"
  unfolding hoare_def
proof (intro allI impI)
  fix w assume "oidc_ok w"
  then have "oidc_ok (w\<lparr>ow_txns := update_where p f (ow_txns w)\<rparr>)"
    using ok.txns [of "\<lambda>t. if p t then f t else t"] assms by (simp add: update_where_def same_request_def)
  then show "case update_txns p f w of (Inl e, s') \<Rightarrow> E s' | (Inr x, s') \<Rightarrow> oidc_ok s' \<and> (\<forall>t \<in> set x. knows t s')"
    by (auto simp: update_txns_def set_update_where intro!: knows_row)
qed

definition knows_some :: "auth_txn option \<Rightarrow> oidc_world \<Rightarrow> bool" where
  "knows_some r w \<longleftrightarrow> oidc_ok w \<and> (case r of None \<Rightarrow> True | Some t \<Rightarrow> knows t w)"

lemma knows_some_simps [simp]:
  "knows_some None = oidc_ok" "knows_some (Some t) = (\<lambda>w. oidc_ok w \<and> knows t w)"
  by (auto simp: knows_some_def fun_eq_iff)

lemma hoare_row_returned:
  assumes "\<And>t. same_request (f t) t"
  shows "hoare oidc_ok (bindM (update_txns p f) (\<lambda>rows. returnM (case rows of [] \<Rightarrow> None | r # _ \<Rightarrow> Some r)))
    knows_some oidc_ok"
  by (rule hoare_bindM [OF hoare_update_txns [OF assms]], rule hoare_returnM)
    (auto simp: knows_some_def split: list.splits)

lemma hoare_confirm_account_selection:
  "hoare oidc_ok (confirm_account_selection env i s u c) knows_some oidc_ok"
  unfolding confirm_account_selection_def
  by (rule hoare_bindM [OF keeps_hoare [OF ok.keeps_o_now]], rule hoare_bindM [OF keeps_hoare [OF ok.keeps_new_opaque_secret]],
      rule hoare_row_returned) (simp add: same_request_def)

lemma hoare_confirm_account_selection_explicit:
  "hoare oidc_ok (confirm_account_selection_explicit env i s u c) knows_some oidc_ok"
  unfolding confirm_account_selection_explicit_def
  by (rule hoare_bindM [OF keeps_hoare [OF ok.keeps_o_now]], rule hoare_bindM [OF keeps_hoare [OF ok.keeps_new_opaque_secret]],
      rule hoare_row_returned) (simp add: same_request_def)

lemma hoare_bind_password_login: "hoare oidc_ok (bind_password_login i u s) knows_some oidc_ok"
  unfolding bind_password_login_def
  by (rule hoare_bindM [OF keeps_hoare [OF ok.keeps_o_now]], rule hoare_row_returned) (simp add: same_request_def)

text \<open>Binding a session to a transaction gives back its row, with the scopes it always had.\<close>

lemma bind_if_needed_scopes:
  "knows txn w \<Longrightarrow> bind_if_needed txn s u w = (Inr t, w') \<Longrightarrow> at_scopes t = at_scopes txn"
  by (auto simp: bind_if_needed_def bind_transaction_user_def update_txns_def run_simps o_now_def knows_def
      split: if_splits list.splits dest!: filter_eq_ConsD)

lemma hoare_bind_if_needed:
  "hoare (\<lambda>w. oidc_ok w \<and> knows txn w \<and> has_consent u c (at_scopes txn) w) (bind_if_needed txn s us)
     (\<lambda>t w. (oidc_ok w \<and> knows txn w \<and> has_consent u c (at_scopes txn) w) \<and> at_scopes t = at_scopes txn) oidc_ok"
proof (rule hoareI, goal_cases)
  case (1 w e w')
  then show ?case using keepsD_run [OF grant.keeps_bind_if_needed 1] by simp
next
  case (2 w t w')
  then show ?case using keepsD_run [OF grant.keeps_bind_if_needed 2] bind_if_needed_scopes [of txn w s us t w'] by simp
qed

lemma hoare_issue_code:
  "hoare (\<lambda>w. oidc_ok w \<and> knows txn w \<and> has_consent (ou_id user) (oc_id client) granted w)
     (issue_code env txn' client session user granted) (\<lambda>_. oidc_ok) oidc_ok"
  unfolding issue_code_def
proof (rule hoare_bindM [OF hoare_keepsI [OF grant.keeps_complete_transaction]], simp, goal_cases)
  case (1 completed)
  show ?case
  proof (cases completed)
    case True
    have insert: "hoare (\<lambda>w. oidc_ok w \<and> knows txn w \<and> has_consent (nc_user_id new) (nc_client_pk new) (nc_scopes new) w)
        (insert_code env new) (\<lambda>_. oidc_ok) oidc_ok" for new
      by (rule hoare_weaken [OF hoare_insert_code]) simp_all
    show ?thesis
      using True by (simp, intro hoare_bindM [OF insert [of "new_code.make _ _ _ _ _ _ _ _ _", simplified new_code.simps new_code.defs]] keeps_hoare keeps_intros)
  qed (auto intro!: hoare_returnM)
qed


lemma decide_issue:
  "decide p m ch session amb now = StepIssue \<Longrightarrow> \<exists>f. session = Some f \<and> sf_consented f \<and> \<not> pr_consent p \<and>
     (sf_fresh_in_txn f \<or> \<not> requires_fresh_login p m (sf_auth_time f) now) \<and>
     (pr_select_account p \<longrightarrow> ch \<and> sf_confirmed_in_txn f)"
  by (auto simp: decide_def split: option.splits if_splits)

lemma evaluate_issue:
  assumes "evaluate env txn client accounts w = (Inr ev, w')" "el_step ev = StepIssue"
  obtains s user where "el_session ev = Some (s, user)" "has_consent (ou_id user) (oc_id client) (at_scopes txn) w'"
proof -
  obtain session amb where r: "resolve_session txn (candidates env txn accounts) = (session, amb)" by fastforce
  then obtain s user where "session = Some (s, user)"
    using assms decide_issue by (fastforce simp: evaluate_def run_simps Let_def split: option.splits)
  moreover from this obtain n where "active_consent w (ou_id user) (oc_id client) = Some n" "covers (cn_scopes n) (at_scopes txn)"
    using assms r decide_issue by (fastforce simp: evaluate_def run_simps Let_def split: option.splits)
  moreover from this have "has_consent (ou_id user) (oc_id client) (at_scopes txn) w" by (simp add: active_consent_covers)
  ultimately show ?thesis
    using assms r that by (auto simp: evaluate_def run_simps Let_def)
qed

lemma hoare_of_keeps:
  "keeps P m \<Longrightarrow> (\<And>s. P' s \<Longrightarrow> P s) \<Longrightarrow> (\<And>s. P s \<Longrightarrow> E s) \<Longrightarrow> hoare P' m (\<lambda>_. E) E"
  by (rule hoare_weaken [OF keeps_hoare])

text \<open>What holds when a transaction is about to be answered: a step that issues has its consent.\<close>

definition issue_ready :: "auth_txn \<Rightarrow> oidc_client \<Rightarrow> txn_evaluation \<Rightarrow> oidc_world \<Rightarrow> bool" where
  "issue_ready txn client ev w \<longleftrightarrow> oidc_ok w \<and> knows txn w \<and> (el_step ev = StepIssue \<longrightarrow>
     (\<exists>s user. el_session ev = Some (s, user) \<and> has_consent (ou_id user) (oc_id client) (at_scopes txn) w))"

lemma hoare_evaluate:
  "hoare (\<lambda>w. oidc_ok w \<and> knows txn w) (evaluate env txn client accounts) (issue_ready txn client) oidc_ok"
proof (rule hoareI, goal_cases)
  case (1 w e w')
  then show ?case by (simp add: evaluate_def run_simps)
next
  case (2 w ev w')
  then have "w' = w" by (auto simp: evaluate_def run_simps)
  then show ?case using 2 evaluate_issue [OF 2(2)] unfolding issue_ready_def by metis
qed

lemma hoare_advance:
  "hoare (\<lambda>w. oidc_ok w \<and> knows txn w) (advance env txn client accounts) (\<lambda>_. oidc_ok) oidc_ok"
  unfolding advance_def
proof (rule hoare_bindM [OF hoare_evaluate], goal_cases)
  case (1 ev)
  have issue: "hoare (\<lambda>w. oidc_ok w \<and> knows txn w \<and> has_consent (ou_id user) (oc_id client) (at_scopes txn) w)
      (bindM (bind_if_needed txn s user) (\<lambda>t. issue_code env t client s user (at_scopes t))) (\<lambda>_. oidc_ok) oidc_ok" for s user
    by (rule hoare_bindM [OF hoare_bind_if_needed], rule hoare_conj_pre) (simp add: hoare_issue_code)
  show ?case
  proof (cases "el_step ev = StepIssue")
    case True
    show ?thesis
    proof (cases "el_session ev")
      case None
      then show ?thesis using True by (simp add: hoare_def issue_ready_def)
    next
      case (Some su)
      then obtain session user where "el_session ev = Some (session, user)" by (cases su) simp
      then show ?thesis
        using True by simp (rule hoare_weaken [OF issue], auto simp: issue_ready_def)
    qed
  next
    case False
    show ?thesis
      using False
      by (intro hoare_of_keeps [where P = "\<lambda>w. oidc_ok w \<and> knows txn w"])
        (cases "el_step ev", auto intro: keeps_intros simp: issue_ready_def split: option.splits)
  qed
qed


section \<open>The protocol endpoints\<close>

abbreviation within :: "auth_txn \<Rightarrow> (oidc_world, 'e, 'a) op \<Rightarrow> bool" where
  "within txn m \<equiv> hoare (\<lambda>w. oidc_ok w \<and> knows txn w) m (\<lambda>_. oidc_ok) oidc_ok"

lemma within_keeps: "keeps (\<lambda>w. oidc_ok w \<and> knows txn w) m \<Longrightarrow> within txn m"
  by (rule hoare_of_keeps, assumption) auto

lemma within_ok: "keeps oidc_ok m \<Longrightarrow> within txn m"
  by (rule hoare_of_keeps, assumption) auto

lemma within_then:
  "keeps (\<lambda>w. oidc_ok w \<and> knows txn w) m \<Longrightarrow> (\<And>x. within txn (f x)) \<Longrightarrow> within txn (bindM m f)"
  by (rule hoare_bindM [OF hoare_keepsI]) auto

lemma within_last: "within txn m \<Longrightarrow> (\<And>x. keeps oidc_ok (f x)) \<Longrightarrow> within txn (bindM m f)"
  by (rule hoare_bindM) (auto intro: keeps_hoare)

lemma within_catchM: "within txn m \<Longrightarrow> within txn (catchM m d)"
  by (rule hoare_catchM)

lemma within_scopes: "(set (at_scopes txn) \<subseteq> set SUPPORTED \<Longrightarrow> within txn m) \<Longrightarrow> within txn m"
  by (simp add: hoare_def knows_def)

lemma keeps_with_txn:
  assumes "keeps oidc_ok m" "\<And>txn client. within txn (k txn client)"
  shows "keeps oidc_ok (bindM (find_live_transaction env i b) (\<lambda>found.
    case found of None \<Rightarrow> m | Some (txn, client) \<Rightarrow> k txn client))"
proof (rule hoare_keeps, rule hoare_bindM [OF hoare_find_live_transaction], goal_cases)
  case (1 found)
  show ?case
    using assms by (cases found) (auto intro: keeps_hoare)
qed

lemma keeps_with_row:
  assumes "hoare oidc_ok m knows_some oidc_ok" "keeps oidc_ok n" "\<And>txn. within txn (k txn)"
  shows "hoare oidc_ok (bindM m (\<lambda>r. case r of None \<Rightarrow> n | Some t \<Rightarrow> k t)) (\<lambda>_. oidc_ok) oidc_ok"
proof (rule hoare_bindM [OF assms(1)], goal_cases)
  case (1 r)
  show ?case using assms(2,3) by (cases r) (auto intro: keeps_hoare)
qed

lemma validate_scopes_supported:
  assumes "validate params i u policy = Inr r"
  shows "set (ar_scopes r) \<subseteq> set SUPPORTED"
proof -
  have d: "distinct (map fst params)" using assms by (rule validate_distinct)
  then show ?thesis using assms by (auto simp: validate_chain [OF d] check_scopes_Inr grantable_def)
qed

lemma keeps_case_sum_eq:
  "(\<And>x. v = Inl x \<Longrightarrow> keeps I (m x)) \<Longrightarrow> (\<And>x. v = Inr x \<Longrightarrow> keeps I (n x)) \<Longrightarrow>
   keeps I (case v of Inl x \<Rightarrow> m x | Inr x \<Rightarrow> n x)"
  by (cases v) auto

lemma keeps_start_flow [keeps_intros]: "keeps oidc_ok (start_flow env params binding accounts)"
proof -
  have txn: "keeps oidc_ok (bindM (create_transaction env c r sub b ttl) (\<lambda>txn. advance env txn c accounts))"
    if "validate params i u policy = Inr r" for c r sub b ttl i u policy
    by (rule hoare_keeps, rule hoare_bindM [OF hoare_create_transaction [OF validate_scopes_supported [OF that]]])
      (rule hoare_advance)
  show ?thesis
    unfolding start_flow_def
    by (intro keeps_case_sum_eq keeps_case_prod keeps_case_option keeps_if keeps_returnM
        keeps_bindM [OF ok.keeps_find_by_client_id] txn)
qed

lemma keeps_authorize [keeps_intros]: "keeps oidc_ok (authorize env req)"
  unfolding authorize_def by (intro keeps_intros)

lemma keeps_sign_in [keeps_intros]: "keeps oidc_ok (sign_in env req txn client user)"
proof -
  have bind: "keeps oidc_ok (bindM (bind_password_login i u s) (\<lambda>bound. bindM (case bound of
      None \<Rightarrow> returnM (ErrorPage 400 MsgTxnExpired) | Some txn \<Rightarrow> advance env txn client as) (\<lambda>next. returnM (respond next cs))))"
    for i u s as cs
    by (rule hoare_keeps, rule hoare_bindM [OF hoare_bind_password_login], rule hoare_bindM [where Q = "\<lambda>_. oidc_ok"])
      (auto split: option.splits intro!: hoare_returnM hoare_advance)
  show ?thesis
    unfolding sign_in_def
    by (intro keeps_bindM [OF keeps_attemptM [OF ok.keeps_establish_login]] keeps_case_sum keeps_case_prod
        keeps_returnM keeps_catchM bind)
qed

lemma keeps_login_submit [keeps_intros]: "keeps oidc_ok (login_submit env req)"
  unfolding login_submit_def by (intro keeps_intros)

lemma within_grant:
  "within txn (bindM (grant_consent (ou_id user) (oc_id client) (granted_from_selection (at_scopes txn) sel)) (\<lambda>_.
     issue_code env txn' client s user (granted_from_selection (at_scopes txn) sel)))"
proof (rule within_scopes)
  assume "set (at_scopes txn) \<subseteq> set SUPPORTED"
  then have sub: "set (granted_from_selection (at_scopes txn) sel) \<subseteq> set SUPPORTED"
    by (auto simp: granted_from_selection_def)
  show "within txn (bindM (grant_consent (ou_id user) (oc_id client) (granted_from_selection (at_scopes txn) sel)) (\<lambda>_.
     issue_code env txn' client s user (granted_from_selection (at_scopes txn) sel)))"
    by (rule hoare_bindM [OF hoare_grant_consent [OF sub] hoare_issue_code])
qed

lemma hoare_if: "(b \<Longrightarrow> hoare P m Q E) \<Longrightarrow> (\<not> b \<Longrightarrow> hoare P n Q E) \<Longrightarrow> hoare P (if b then m else n) Q E"
  by simp

lemma hoare_case_option:
  "hoare P m Q E \<Longrightarrow> (\<And>x. hoare P (n x) Q E) \<Longrightarrow> hoare P (case v of None \<Rightarrow> m | Some x \<Rightarrow> n x) Q E"
  by (cases v) auto

lemma hoare_case_prod: "(\<And>x y. hoare P (f x y) Q E) \<Longrightarrow> hoare P (case p of (x, y) \<Rightarrow> f x y) Q E"
  by (cases p) auto

lemma hoare_let: "hoare P (f x) Q E \<Longrightarrow> hoare P (let y = x in f y) Q E"
  by simp

lemmas txn_intros = keeps_with_txn keeps_catchM keeps_let keeps_if keeps_case_option keeps_returnM

lemmas within_intros = hoare_if hoare_case_option hoare_case_prod hoare_let within_grant
  within_then [OF flow.keeps_load_browser] within_then [OF flow.keeps_consent_ready]
  within_last hoare_advance within_ok [OF keeps_returnM] within_ok [OF ok.keeps_account_switch]
  within_ok [OF ok.keeps_finish_with_error] within_ok [OF ok.keeps_chooser_sign_out]
  within_ok [OF ok.keeps_render_select_account]

lemma keeps_consent_page [keeps_intros]: "keeps oidc_ok (consent_page env req p)"
proof -
  have render: "keeps oidc_ok (bindM (find_active_consent u c) (\<lambda>previous. bindM (issue_csrf env i) (\<lambda>csrf. f previous csrf)))"
    if "\<And>a b. keeps oidc_ok (f a b)" for u c i f
    using that by (intro keeps_intros)
  show ?thesis
    unfolding consent_page_def
    by (intro txn_intros within_intros within_ok [OF render])
qed

lemma keeps_consent_submit [keeps_intros]: "keeps oidc_ok (consent_submit env req)"
  unfolding consent_submit_def
  by (intro txn_intros within_intros)


lemma within_choose_account: "within txn (choose_account env req txn client posted csrf)"
proof -
  have "hoare oidc_ok (if b then confirm_account_selection_explicit env i s u c
      else confirm_account_selection env i s u c) knows_some oidc_ok" for b i s u c
    by (simp add: hoare_confirm_account_selection hoare_confirm_account_selection_explicit)
  then have confirm: "within txn (bindM (if b then confirm_account_selection_explicit env i s u c
      else confirm_account_selection env i s u c) (\<lambda>confirmed. case confirmed of
        None \<Rightarrow> returnM (error_page 400 MsgTxnExpired)
      | Some txn \<Rightarrow> bindM (advance env txn client as) (\<lambda>next. returnM (respond next cs))))" for b i s u c as cs
    by (intro hoare_weaken [OF keeps_with_row] keeps_returnM within_last hoare_advance) auto
  show ?thesis
    unfolding choose_account_def
    by (intro confirm hoare_case_option hoare_case_prod hoare_let hoare_if within_then [OF flow.keeps_load_browser]
        within_last [OF hoare_advance] within_last [OF within_ok [OF ok.keeps_render_select_account]] keeps_returnM)
qed

lemma keeps_select_account_submit [keeps_intros]: "keeps oidc_ok (select_account_submit env req)"
  unfolding select_account_submit_def
  by (intro txn_intros within_intros within_choose_account)

section \<open>The token endpoint\<close>

lemma keeps_token_reply [keeps_intros]: "keeps oidc_ok (token_reply env client user code token)"
  unfolding token_reply_def by (intro keeps_intros)

lemma hoare_db_error: "hoare P m Q E \<Longrightarrow> hoare P (db_error m) Q E"
  by (rule hoareI) (auto simp: db_error_def map_errM_run split: prod.splits sum.splits dest: hoare_Inl hoare_Inr)

text \<open>What is known of the code an exchange has found, until it is consumed.\<close>

definition holds_code :: "auth_code \<Rightarrow> oidc_world \<Rightarrow> bool" where
  "holds_code code w \<longleftrightarrow> oidc_ok w \<and> code \<in> set (ow_codes w)"

abbreviation exchanging :: "auth_code \<Rightarrow> (oidc_world, 'e, 'a) op \<Rightarrow> bool" where
  "exchanging code m \<equiv> hoare (holds_code code) m (\<lambda>_. oidc_ok) oidc_ok"

lemma exchanging_then:
  "keeps (holds_code code) m \<Longrightarrow> (\<And>x. exchanging code (f x)) \<Longrightarrow> exchanging code (bindM m f)"
  by (rule hoare_bindM [OF hoare_keepsI]) (auto simp: holds_code_def)

lemma exchanging_guard: "(b \<Longrightarrow> exchanging code (f ())) \<Longrightarrow> exchanging code (bindM (guardM b e) f)"
  by (rule hoare_bindM [OF hoare_guardM], simp add: holds_code_def) (rule hoare_conj_pre, simp)

lemma hoare_find_code:
  "hoare oidc_ok (bindM (db_error (find_code env v)) (\<lambda>found. ok_orM found bad_grant)) (\<lambda>code. holds_code code) oidc_ok"
  unfolding hoare_def
  by (auto simp: db_error_def find_code_def run_simps holds_code_def split: option.splits dest: find_SomeD)

text \<open>The user, the consent and the consumption, in one piece.\<close>

lemma exchanging_consume:
  assumes "ac_client_id code = oc_id client"
  shows "exchanging code (
     bindM (readM (\<lambda>w. user_of w (ac_user_id code))) (\<lambda>u.
     bindM (ok_orM u bad_grant) (\<lambda>user.
     bindM (db_error (find_active_consent (ou_id user) (oc_id client))) (\<lambda>consent.
     bindM (guardM (case consent of None \<Rightarrow> False | Some c \<Rightarrow> covers (cn_scopes c) (ac_scopes code)) bad_grant) (\<lambda>_.
     bindM (db_error (consume_code_and_issue_token env code ttl)) (\<lambda>issued.
     case issued of
       None \<Rightarrow> bindM (revoke_tokens_of_code (ac_id code)) (\<lambda>_. throwM bad_grant)
     | Some (access_token, x) \<Rightarrow> token_reply env client user code access_token))))))" (is "exchanging code ?m")
proof -
  have issue: "hoare (\<lambda>w. oidc_ok w \<and> code \<in> set (ow_codes w) \<and>
        has_consent (ac_user_id code) (ac_client_id code) (ac_scopes code) w)
      (bindM (db_error (consume_code_and_issue_token env code ttl)) (\<lambda>issued. case issued of
         None \<Rightarrow> bindM (revoke_tokens_of_code (ac_id code)) (\<lambda>_. throwM bad_grant)
       | Some (access_token, x) \<Rightarrow> token_reply env client user code access_token)) (\<lambda>_. oidc_ok) oidc_ok" (is "hoare ?P (?i user) _ _") for user
    by (rule hoare_bindM [OF hoare_db_error [OF hoare_consume_code]], rule keeps_hoare, intro keeps_intros)
  show ?thesis
  proof (rule hoareI, goal_cases)
    case (1 w e w')
    then have "w' = w \<or> (\<exists>user. ?P w \<and> ?i user w = (Inl e, w'))"
      using assms by (auto simp: run_simps db_error_def find_active_consent_def holds_code_def user_of_def
          split: option.splits if_splits dest!: find_SomeD intro!: active_consent_covers)
    then show ?case using 1 issue by (auto simp: holds_code_def dest: hoare_Inl)
  next
    case (2 w e w')
    then have "\<exists>user. ?P w \<and> ?i user w = (Inr e, w')"
      using assms by (auto simp: run_simps db_error_def find_active_consent_def holds_code_def user_of_def
          split: option.splits if_splits dest!: find_SomeD intro!: active_consent_covers)
    then show ?case using issue by (auto dest: hoare_Inr)
  qed
qed


lemma exchanging_stop: "keeps (holds_code code) m \<Longrightarrow> exchanging code m"
  by (rule hoare_of_keeps, assumption) (auto simp: holds_code_def)

lemma exchanging_replay:
  "(\<not> b \<Longrightarrow> exchanging code (f ())) \<Longrightarrow>
   exchanging code (bindM (whenM b (bindM (revoke_tokens_of_code i) (\<lambda>_. throwM e))) f)"
  by (cases b) (auto simp: whenM_def bindM_assoc hoare_def bindM_run throwM_run returnM_run holds_code_def
      split: prod.splits sum.splits dest: keepsD_run [OF keeps_revoke_tokens_of_code])

lemma keeps_exchange_code [keeps_intros]: "keeps oidc_ok (exchange_code env client params)"
proof -
  have found: "keeps oidc_ok (bindM (db_error (find_code env v)) (\<lambda>found. bindM (ok_orM found bad_grant) f))"
    if "\<And>code. exchanging code (f code)" for v f
    using hoare_keeps [OF hoare_bindM [OF hoare_find_code that]] by (simp add: bindM_assoc)
  have now: "keeps (holds_code code) o_now" for code by (simp add: o_now_def keeps_readM)
  show ?thesis
    unfolding exchange_code_def
    by (intro keeps_bindM [OF keeps_liftM] keeps_bindM [OF keeps_ok_orM] keeps_bindM [OF keeps_case_option] keeps_throwM keeps_guardM
        found exchanging_guard exchanging_replay exchanging_then [OF now] exchanging_then [OF keeps_liftM]
        exchanging_then [OF keeps_case_option] exchanging_consume)
qed

lemma keeps_authenticate_client [keeps_intros]: "keeps oidc_ok (authenticate_client env p)"
  unfolding authenticate_client_def Let_def by (intro keeps_intros)

lemma keeps_token_endpoint [keeps_intros]: "keeps oidc_ok (token_endpoint env req)"
  unfolding token_endpoint_def by (intro keeps_intros)

section \<open>Logout\<close>

lemma keeps_global_logout [keeps_intros]: "keeps oidc_ok (global_logout env b ts r)"
proof -
  have send: "keeps oidc_ok (bindM (enqueue env iss ts r) (\<lambda>(batch, rows). bindM (deliver_batch env rows) f))"
    if "\<And>d. keeps oidc_ok (f d)" for iss f
    by (rule hoare_keeps, rule hoare_bindM [OF hoare_enqueue])
      (auto simp: list_all_iff intro!: hoare_conj_pre keeps_hoare keeps_bindM keeps_deliver_batch that)
  show ?thesis
    unfolding global_logout_def
    by (intro send keeps_bindM [OF ok.keeps_affected_clients] keeps_bindM [OF ok.keeps_revoke_for_logout] keeps_returnM)
qed

lemma keeps_end_session_confirm [keeps_intros]: "keeps oidc_ok (end_session_confirm env req)"
  unfolding end_session_confirm_def by (intro keeps_intros)

lemma keeps_case_scope [keeps_intros]:
  "keeps I a \<Longrightarrow> keeps I b \<Longrightarrow> keeps I c \<Longrightarrow>
   keeps I (case s of LogoutAccount \<Rightarrow> a | LogoutBrowser \<Rightarrow> b | LogoutGlobal \<Rightarrow> c)"
  by (cases s) auto

lemma keeps_web_logout [keeps_intros]: "keeps oidc_ok (web_logout env req s a)"
  unfolding web_logout_def by (intro keeps_intros)


section \<open>Developers and administrators\<close>

lemma keeps_rate_gate [keeps_intros]: "keeps oidc_ok (rate_gate env b k l n)"
  unfolding rate_gate_def by (intro keeps_intros)

lemma keeps_dto [keeps_intros]: "keeps oidc_ok (dto m)"
  unfolding dto_def authorization_count_def by (intro keeps_intros)

lemma keeps_owned [keeps_intros]: "keeps oidc_ok (owned u c)"
  unfolding owned_def find_owned_def by (intro keeps_intros)

lemma keeps_create_client [keeps_intros]: "keeps oidc_ok (create_client env u t a i)"
  unfolding create_client_def by (intro keeps_intros)

lemma keeps_update_my_client [keeps_intros]: "keeps oidc_ok (update_my_client env u c i)"
  unfolding update_my_client_def by (intro keeps_intros)

lemma keeps_rotate_my_secret [keeps_intros]: "keeps oidc_ok (rotate_my_secret env u c r)"
  unfolding rotate_my_secret_def by (intro keeps_intros)

lemma keeps_owner_act [keeps_intros]: "keeps oidc_ok (owner_act u c a)"
  unfolding owner_act_def by (intro keeps_intros)

lemma keeps_delete_my_client [keeps_intros]: "keeps oidc_ok (delete_my_client u c)"
  unfolding delete_my_client_def by (intro keeps_intros keeps_modifyM oidc_ok_drop_clients)

lemma keeps_revoke_my_authorization [keeps_intros]: "keeps oidc_ok (revoke_my_authorization u c)"
  unfolding revoke_my_authorization_def by (intro keeps_intros)

lemma keeps_admin_act [keeps_intros]: "keeps oidc_ok (admin_act u c r a)"
  unfolding admin_act_def by (intro keeps_intros)

lemma keeps_admin_set_pkce [keeps_intros]: "keeps oidc_ok (admin_set_pkce c b)"
  unfolding admin_set_pkce_def by (intro keeps_intros) simp_all

section \<open>The machine\<close>

text \<open>
  \<open>UserWrite\<close> is every change of accounts by the other modules (registration, profile, password,
  status): it keeps the accounts there are. \<open>UserDelete\<close> is the deletion of accounts by an
  administrator (\<open>identity/user\<close>), whose foreign keys take the rows of the provider along.
\<close>

datatype oidc_request =
    Authorize http_req
  | LoginPage http_req "string option"
  | LoginSubmit http_req
  | ConsentPage http_req "string option"
  | ConsentSubmit http_req
  | SelectPage http_req "string option"
  | SelectSubmit http_req
  | Token http_req
  | UserInfo http_req
  | OauthLogout http_req
  | EndSession http_req
  | EndSessionConfirm http_req
  | PlatformLogin http_req string string
  | SsoBridge http_req oidc_user
  | SsoSignOut http_req
  | WebStatus http_req
  | WebLogin http_req string string
  | WebRestore http_req
  | WebSelect http_req uuid
  | WebMigrate http_req oidc_user
  | WebLogout http_req web_logout_scope "uuid option"
  | CreateClient uuid client_type "auth_method option" client_input
  | UpdateClient uuid string client_input
  | RotateSecret uuid string bool
  | OwnerAct uuid string owner_action
  | DeleteClient uuid string
  | RevokeAuthorization uuid string
  | AdminAct uuid string "string option" admin_action
  | AdminSetPkce string bool
  | CleanupExpired
  | RetryDeliveries
  | UserWrite "oidc_user list"
  | UserDelete "uuid list"
  | OidcWait int

fun oidc_serve :: "oidc_env \<Rightarrow> oidc_request \<Rightarrow> oidc_world \<Rightarrow> oidc_world" where
  "oidc_serve env (Authorize req) w = snd (authorize env req w)"
| "oidc_serve env (LoginPage req t) w = snd (login_page env req t w)"
| "oidc_serve env (LoginSubmit req) w = snd (login_submit env req w)"
| "oidc_serve env (ConsentPage req t) w = snd (consent_page env req t w)"
| "oidc_serve env (ConsentSubmit req) w = snd (consent_submit env req w)"
| "oidc_serve env (SelectPage req t) w = snd (select_account_page env req t w)"
| "oidc_serve env (SelectSubmit req) w = snd (select_account_submit env req w)"
| "oidc_serve env (Token req) w = snd (token_endpoint env req w)"
| "oidc_serve env (UserInfo req) w = snd (userinfo_endpoint env req w)"
| "oidc_serve env (OauthLogout req) w = snd (oauth_logout env req w)"
| "oidc_serve env (EndSession req) w = snd (end_session env req w)"
| "oidc_serve env (EndSessionConfirm req) w = snd (end_session_confirm env req w)"
| "oidc_serve env (PlatformLogin req u p) w = snd (user_login env req u p w)"
| "oidc_serve env (SsoBridge req u) w = snd (bridge env req u w)"
| "oidc_serve env (SsoSignOut req) w = snd (sso_sign_out env req w)"
| "oidc_serve env (WebStatus req) w = snd (web_status env req w)"
| "oidc_serve env (WebLogin req u p) w = snd (web_login env req u p w)"
| "oidc_serve env (WebRestore req) w = snd (web_restore env req w)"
| "oidc_serve env (WebSelect req a) w = snd (web_select env req a w)"
| "oidc_serve env (WebMigrate req u) w = snd (web_migrate env req u w)"
| "oidc_serve env (WebLogout req s a) w = snd (web_logout env req s a w)"
| "oidc_serve env (CreateClient u t a i) w = snd (create_client env u t a i w)"
| "oidc_serve env (UpdateClient u c i) w = snd (update_my_client env u c i w)"
| "oidc_serve env (RotateSecret u c r) w = snd (rotate_my_secret env u c r w)"
| "oidc_serve env (OwnerAct u c a) w = snd (owner_act u c a w)"
| "oidc_serve env (DeleteClient u c) w = snd (delete_my_client u c w)"
| "oidc_serve env (RevokeAuthorization u c) w = snd (revoke_my_authorization u c w)"
| "oidc_serve env (AdminAct u c r a) w = snd (admin_act u c r a w)"
| "oidc_serve env (AdminSetPkce c b) w = snd (admin_set_pkce c b w)"
| "oidc_serve env CleanupExpired w = snd (cleanup_expired w)"
| "oidc_serve env RetryDeliveries w = snd (retry_due env w)"
| "oidc_serve env (UserWrite us) w =
     (if set (map ou_id (ow_users w)) \<subseteq> set (map ou_id us) then w\<lparr>ow_users := us\<rparr> else w)"
| "oidc_serve env (UserDelete ids) w = drop_users (\<lambda>u. ou_id u \<in> set ids) w"
| "oidc_serve env (OidcWait d) w = w\<lparr>ow_now := ow_now w + max d 0\<rparr>"

inductive oidc_reach :: "oidc_env \<Rightarrow> oidc_world \<Rightarrow> oidc_world \<Rightarrow> bool" for env w0 where
  start: "oidc_reach env w0 w0"
| serve: "oidc_reach env w0 w \<Longrightarrow> oidc_reach env w0 (oidc_serve env q w)"

lemma oidc_ok_users: "oidc_ok (w\<lparr>ow_users := us\<rparr>) = oidc_ok w"
  by (simp add: oidc_ok_def)

lemma oidc_ok_now: "oidc_ok (w\<lparr>ow_now := t\<rparr>) = oidc_ok w"
  by (simp add: oidc_ok_def)

lemma oidc_serve_ok: "oidc_ok w \<Longrightarrow> oidc_ok (oidc_serve env q w)"
  by (cases q; simp only: oidc_serve.simps)
    ((rule keepsD [of oidc_ok], rule keeps_intros, assumption) | simp add: oidc_ok_users oidc_ok_now oidc_ok_drop_users)+

lemma oidc_reach_ok: "oidc_reach env w0 w \<Longrightarrow> oidc_ok w0 \<Longrightarrow> oidc_ok w"
  by (induction rule: oidc_reach.induct) (simp_all add: oidc_serve_ok)

end
