(* ===== verification/Oidc_Facts.thy ===== *)
theory Oidc_Facts
  imports Oidc_System
begin

text \<open>Properties of the provider.\<close>

lemma map_filter_distinctD:
  "distinct (List.map_filter g xs) \<Longrightarrow> x \<in> set xs \<Longrightarrow> y \<in> set xs \<Longrightarrow> g x = Some k \<Longrightarrow> g y = Some k \<Longrightarrow> x = y"
  by (induction xs) (auto simp: List.map_filter_simps set_map_filter split: option.splits)

lemma update_where_not: "x \<in> set (update_where p f xs) \<Longrightarrow> (\<And>y. \<not> p (f y)) \<Longrightarrow> \<not> p x"
  by (auto simp: set_update_where)

lemma update_where_kept: "x \<in> set (update_where p f xs) \<Longrightarrow> (\<And>y. \<not> q (f y)) \<Longrightarrow> q x \<Longrightarrow> x \<in> set xs"
  by (auto simp: set_update_where)

lemma active_consent_iff:
  assumes "oidc_ok w"
  shows "(case active_consent w u c of None \<Rightarrow> False | Some n \<Rightarrow> covers (cn_scopes n) scopes) \<longleftrightarrow>
    consented (ow_consents w) u c scopes"
proof (cases "active_consent w u c")
  case None
  then have "\<not> consented (ow_consents w) u c scopes" by (auto simp: active_consent_def find_None_iff consented_def)
  then show ?thesis by (simp add: None)
next
  case (Some n)
  then have n: "n \<in> set (ow_consents w)" "cn_user_id n = u" "cn_client_id n = c" "cn_revoked_at n = None"
    by (auto simp: active_consent_def dest!: find_SomeD)
  then have "m \<in> set (ow_consents w) \<Longrightarrow> cn_user_id m = u \<Longrightarrow> cn_client_id m = c \<Longrightarrow> m = n" for m
    using assms distinct_mapD [of "\<lambda>c. (cn_user_id c, cn_client_id c)" "ow_consents w" m n]
    by (auto simp: oidc_ok_def consents_ok_def)
  then have "consented (ow_consents w) u c scopes \<longleftrightarrow> set scopes \<subseteq> set (cn_scopes n)"
    using n unfolding consented_def by blast
  then show ?thesis by (simp add: Some covers_subset)
qed

text \<open>The parameters an exchange reads.\<close>

definition exchange_params :: "raw_params \<Rightarrow> string \<Rightarrow> string option \<Rightarrow> string option \<Rightarrow> bool" where
  "exchange_params params v redirect verifier \<longleftrightarrow>
     single params ''grant_type'' = Inr (Some ''authorization_code'') \<and> single params ''code'' = Inr (Some v) \<and>
     single params ''redirect_uri'' = Inr redirect \<and> single params ''code_verifier'' = Inr verifier"

definition code_tokens_revoked :: "uuid \<Rightarrow> oidc_world \<Rightarrow> oidc_world" where
  "code_tokens_revoked i w = w\<lparr>ow_tokens := update_where
     (\<lambda>t. tk_code_id t = Some i \<and> tk_revoked_at t = None) (\<lambda>t. t\<lparr>tk_revoked_at := Some (ow_now w)\<rparr>) (ow_tokens w)\<rparr>"

lemma exchange_code_run:
  assumes params: "exchange_params params v redirect verifier" and v: "is_plausible_token v"
    and found: "List.find (\<lambda>c. ac_code_hash c = ev_sha256_hex env v) (ow_codes w) = Some c"
  shows "exchange_code env client params w =
    (if ac_client_id c \<noteq> oc_id client then (Inl bad_grant, w)
     else if ac_consumed_at c \<noteq> None then (Inl bad_grant, code_tokens_revoked (ac_id c) w)
     else if \<not> ow_now w < ac_expires_at c then (Inl bad_grant, w)
     else if redirect = None then (Inl (failure (invalid_request ''missing redirect_uri'')), w)
     else if redirect \<noteq> Some (ac_redirect_uri c) then (Inl bad_grant, w)
     else case check_pkce env c verifier of
       Inl f \<Rightarrow> (Inl f, w)
     | Inr _ \<Rightarrow> (case user_of w (ac_user_id c) of
         None \<Rightarrow> (Inl bad_grant, w)
       | Some user \<Rightarrow>
           if \<not> (case active_consent w (ou_id user) (oc_id client) of None \<Rightarrow> False
                 | Some n \<Rightarrow> covers (cn_scopes n) (ac_scopes c)) then (Inl bad_grant, w)
           else case consume_code_and_issue_token env c (cf_access_token_ttl_secs (ev_config env)) w of
             (Inl e, w') \<Rightarrow> (Inl (server_failure ''temporarily unavailable''), w')
           | (Inr None, w') \<Rightarrow> (Inl bad_grant, code_tokens_revoked (ac_id c) w')
           | (Inr (Some (token, x)), w') \<Rightarrow> token_reply env client user c token w'))"
  using assms
  unfolding exchange_code_def exchange_params_def
  by (simp add: run_simps single_tok_def db_error_def find_code_def o_now_def find_active_consent_def
      revoke_tokens_of_code_def code_tokens_revoked_def Let_def split: option.split sum.split prod.split)


text \<open>What makes a code good for a token.\<close>

definition redeemable ::
  "oidc_env \<Rightarrow> oidc_client \<Rightarrow> string option \<Rightarrow> string option \<Rightarrow> oidc_world \<Rightarrow> auth_code \<Rightarrow> bool" where
  "redeemable env client redirect verifier w c \<longleftrightarrow>
     ac_client_id c = oc_id client \<and> ac_consumed_at c = None \<and> ow_now w < ac_expires_at c \<and>
     redirect = Some (ac_redirect_uri c) \<and>
     (case ac_code_challenge c of
        None \<Rightarrow> verifier = None
      | Some challenge \<Rightarrow> (case verifier of None \<Rightarrow> False
          | Some x \<Rightarrow> is_valid_code_verifier x \<and> is_valid_s256_challenge challenge \<and> ev_s256 env x = challenge)) \<and>
     user_of w (ac_user_id c) \<noteq> None \<and>
     consented (ow_consents w) (ac_user_id c) (ac_client_id c) (ac_scopes c)"

lemma check_pkce_ok:
  "check_pkce env c verifier = Inr () \<longleftrightarrow> (case ac_code_challenge c of
     None \<Rightarrow> verifier = None
   | Some challenge \<Rightarrow> (case verifier of None \<Rightarrow> False
       | Some x \<Rightarrow> is_valid_code_verifier x \<and> is_valid_s256_challenge challenge \<and> ev_s256 env x = challenge))"
  by (auto simp: check_pkce_def ensure_def verify_s256_def split: option.splits)

lemma user_of_id: "user_of w i = Some u \<Longrightarrow> ou_id u = i"
  by (auto simp: user_of_def dest: find_SomeD)

lemma found_code:
  "oidc_ok w \<Longrightarrow> c \<in> set (ow_codes w) \<Longrightarrow> ac_code_hash c = h \<Longrightarrow>
   List.find (\<lambda>c. ac_code_hash c = h) (ow_codes w) = Some c"
  using find_distinct_key [of ac_code_hash "ow_codes w" c] by (auto simp: oidc_ok_def codes_ok_def)

lemma open_code_once:
  assumes "oidc_ok w" "c \<in> set (ow_codes w)" "ac_consumed_at c = None" "ow_now w < ac_expires_at c"
  shows "length (filter (open_code c w) (ow_codes w)) = 1"
proof -
  have "filter (open_code c w) (ow_codes w) = [c]"
    unfolding open_code_def using assms
    by (intro filter_single_key) (auto simp: oidc_ok_def codes_ok_def fresh_keys_def)
  then show ?thesis by simp
qed

lemma token_reply_run:
  assumes "\<And>cl. ev_jwt_sign env cl \<noteq> None"
  shows "\<exists>scs id_token. token_reply env client user c token w =
    (Inr \<lparr>tr_access_token = token, tr_token_type = ''Bearer'',
       tr_expires_in = cf_access_token_ttl_secs (ev_config env), tr_id_token = id_token,
       tr_scope = join_scopes (ac_scopes c)\<rparr>, w\<lparr>ow_session_clients := scs\<rparr>)"
proof -
  define note_session :: "string option tokop" where "note_session = (case ac_session_id c of None \<Rightarrow> returnM None | Some session_id \<Rightarrow>
      bindM (attemptM (record_session_client session_id (oc_id client))) (\<lambda>_.
        if cf_backchannel_logout (ev_config env)
        then bindM (attemptM (session_sid session_id)) (\<lambda>r. returnM (case r of Inl _ \<Rightarrow> None | Inr sid \<Rightarrow> sid))
        else returnM None))"
  have "\<exists>r scs. record_session_client s k w = (r, w\<lparr>ow_session_clients := scs\<rparr>)" for s k
    by (auto simp: record_session_client_def Let_def intro: exI [of _ "ow_session_clients w"])
  then have "\<exists>sid scs. note_session w = (Inr sid, w\<lparr>ow_session_clients := scs\<rparr>)"
    by (cases "ac_session_id c")
      (auto simp: note_session_def run_simps session_sid_def intro: exI [of _ "ow_session_clients w"], metis snd_conv)
  then obtain sid scs where noted: "note_session w = (Inr sid, w\<lparr>ow_session_clients := scs\<rparr>)" by blast
  show ?thesis
    using assms unfolding token_reply_def note_session_def [symmetric] bindM_run [of note_session] noted
    by (auto simp: run_simps o_now_def Let_def split: option.splits)
qed


lemma exchange_refused:
  assumes "oidc_ok w" "c \<in> set (ow_codes w)" "ac_code_hash c = ev_sha256_hex env v" "is_plausible_token v"
    "exchange_params params v redirect verifier" "\<not> redeemable env client redirect verifier w c"
  shows "\<exists>f. exchange_code env client params w = (Inl f,
    if ac_client_id c = oc_id client \<and> ac_consumed_at c \<noteq> None then code_tokens_revoked (ac_id c) w else w)"
proof (cases "ac_client_id c = oc_id client \<and> ac_consumed_at c = None \<and> ow_now w < ac_expires_at c \<and>
    redirect = Some (ac_redirect_uri c)")
  case True
  note run = exchange_code_run [OF assms(5,4) found_code [OF assms(1-3)]]
  show ?thesis
  proof (cases "check_pkce env c verifier")
    case (Inr x)
    then have "check_pkce env c verifier = Inr ()" by simp
    then have "user_of w (ac_user_id c) = None \<or> \<not> consented (ow_consents w) (ac_user_id c) (ac_client_id c) (ac_scopes c)"
      using assms(6) True unfolding redeemable_def check_pkce_ok by blast
    then show ?thesis
      using True Inr active_consent_iff [OF assms(1)] by (auto simp: run dest: user_of_id split: option.split)
  qed (use True run in auto)
next
  case False
  then show ?thesis using exchange_code_run [OF assms(5,4) found_code [OF assms(1-3)], of client] by auto
qed

lemma exchange_succeeds:
  assumes ok: "oidc_ok w" and c: "c \<in> set (ow_codes w)" "ac_code_hash c = ev_sha256_hex env v" "is_plausible_token v"
    "exchange_params params v redirect verifier" "redeemable env client redirect verifier w c"
    and client: "client_of w (oc_id client) \<noteq> None" and sign: "\<And>cl. ev_jwt_sign env cl \<noteq> None"
    and fresh: "ev_sha256_hex env (''fat_'' @ ev_random env 32 (ow_next w)) \<notin> tk_token_hash ` set (ow_tokens w)"
  shows "\<exists>resp scs. exchange_code env client params w =
    (Inr resp, (exchanged env c (cf_access_token_ttl_secs (ev_config env)) w)\<lparr>ow_session_clients := scs\<rparr>) \<and>
    tr_access_token resp = ''fat_'' @ ev_random env 32 (ow_next w) \<and> tr_scope resp = join_scopes (ac_scopes c)"
proof -
  let ?ttl = "cf_access_token_ttl_secs (ev_config env)"
  have r: "ac_client_id c = oc_id client" "ac_consumed_at c = None" "ow_now w < ac_expires_at c"
      "redirect = Some (ac_redirect_uri c)" "check_pkce env c verifier = Inr ()"
      "consented (ow_consents w) (ac_user_id c) (oc_id client) (ac_scopes c)"
    using c(5) by (auto simp: redeemable_def check_pkce_ok)
  obtain user where user: "user_of w (ac_user_id c) = Some user" using c(5) by (auto simp: redeemable_def)
  have consume: "consume_code_and_issue_token env c ?ttl w =
      (Inr (Some (''fat_'' @ ev_random env 32 (ow_next w), ow_now w + seconds ?ttl)), exchanged env c ?ttl w)"
    using open_code_once [OF ok c(1) r(2,3)] fresh client user r(1) by (simp add: consume_code_run issued_token_def)
  have "exchange_code env client params w =
      token_reply env client user c (''fat_'' @ ev_random env 32 (ow_next w)) (exchanged env c ?ttl w)"
    using r user_of_id [OF user] active_consent_iff [OF ok, where u = "ac_user_id c" and c = "oc_id client" and scopes = "ac_scopes c"]
    by (simp add: exchange_code_run [OF c(4,3) found_code [OF ok c(1,2)]] user consume)
  then show ?thesis
    using token_reply_run [OF sign] by (metis token_response.select_convs(1,5))
qed


lemma code_tokens_revoked_all:
  "k \<in> set (ow_tokens (code_tokens_revoked i w)) \<Longrightarrow> tk_code_id k = Some i \<Longrightarrow> tk_revoked_at k \<noteq> None"
  by (auto simp: code_tokens_revoked_def set_update_where split: if_splits)

lemma revoked_token_unusable:
  assumes "\<And>t. t \<in> set (ow_tokens w) \<Longrightarrow> tk_token_hash t = ev_sha256_hex env token \<Longrightarrow> tk_revoked_at t \<noteq> None"
  shows "userinfo env token w = (Inr None, w)"
proof -
  have "List.find (\<lambda>t. tk_token_hash t = ev_sha256_hex env token \<and> tk_revoked_at t = None \<and> ow_now w < tk_expires_at t)
      (ow_tokens w) = None"
    using assms by (auto simp: find_None_iff)
  then show ?thesis by (simp add: userinfo_def find_usable_token_def run_simps)
qed

text \<open>Offering a code a second time, at whatever time, revokes the token of the first exchange.\<close>

lemma replay_revokes:
  assumes ok: "oidc_ok w" and c: "c \<in> set (ow_codes w)" "ac_code_hash c = ev_sha256_hex env v" "is_plausible_token v"
    "exchange_params params v redirect verifier" "ac_client_id c = oc_id client" "ac_consumed_at c = None" "ow_now w < ac_expires_at c"
    and fresh: "ev_sha256_hex env (''fat_'' @ ev_random env 32 (ow_next w)) \<notin> tk_token_hash ` set (ow_tokens w)"
    and w1: "w1 = (exchanged env c ttl w)\<lparr>ow_session_clients := scs\<rparr>" "oidc_ok w1"
  shows "\<exists>w2. exchange_code env client params (w1\<lparr>ow_now := t\<rparr>) = (Inl bad_grant, w2) \<and>
    userinfo env (''fat_'' @ ev_random env 32 (ow_next w)) w2 = (Inr None, w2) \<and>
    (\<forall>k \<in> set (ow_tokens w2). tk_code_id k = Some (ac_id c) \<longrightarrow> tk_revoked_at k \<noteq> None)"
proof -
  let ?w1 = "w1\<lparr>ow_now := t\<rparr>" and ?c = "consume_at c w c"
  let ?w2 = "code_tokens_revoked (ac_id c) ?w1"
  have op: "open_code c w c" using c by (simp add: open_code_def)
  have c1: "?c \<in> set (ow_codes ?w1)" "ac_code_hash ?c = ev_sha256_hex env v" "ac_consumed_at ?c \<noteq> None" "ac_id ?c = ac_id c"
    "ac_client_id ?c = oc_id client"
    using c op by (auto simp: w1 exchanged_def consume_at_def)
  have run: "exchange_code env client params ?w1 = (Inl bad_grant, ?w2)"
    using c1 w1(2) exchange_code_run [OF c(4,3) found_code [of ?w1 ?c]] by (simp add: oidc_ok_now)
  have "tk_revoked_at k \<noteq> None"
    if k: "k \<in> set (ow_tokens ?w2)" "tk_token_hash k = ev_sha256_hex env (''fat_'' @ ev_random env 32 (ow_next w))" for k
  proof -
    obtain k0 where k0: "k0 \<in> set (ow_tokens w1)" "tk_token_hash k0 = tk_token_hash k" "tk_code_id k0 = tk_code_id k"
      using k(1) by (auto simp: code_tokens_revoked_def set_update_where split: if_splits)
    then have "k0 \<notin> set (ow_tokens w)" using fresh k(2) by (metis imageI)
    then have "k0 = issued_token env c ttl w" using k0(1) by (auto simp: w1 exchanged_def)
    then show ?thesis
      using k0(3) code_tokens_revoked_all [OF k(1)] by (simp add: issued_token_def)
  qed
  then show ?thesis using run revoked_token_unusable code_tokens_revoked_all by blast
qed

text \<open>
  C7. A code is good for one token. In consistent tables, with a signing key and a fresh random token,
  an exchange of a stored code succeeds exactly when the code belongs to the authenticated application,
  is unused and unexpired, the redirect address is the one of the authorization, the PKCE verifier
  answers the challenge (and none is sent where there was none), the account exists and its consent
  still covers the scopes. It then issues one token with the scopes of the code and consumes the code;
  offering the code again, at any later time, is refused and makes that token and every other token of
  the code useless. A refused exchange changes nothing, except that a used code revokes its tokens.
\<close>

theorem code_redeemed_once:
  assumes ok: "oidc_ok w" and c: "c \<in> set (ow_codes w)" "ac_code_hash c = ev_sha256_hex env v" "is_plausible_token v"
    "exchange_params params v redirect verifier"
    and client: "client_of w (oc_id client) \<noteq> None" and sign: "\<And>cl. ev_jwt_sign env cl \<noteq> None"
    and fresh: "ev_sha256_hex env (''fat_'' @ ev_random env 32 (ow_next w)) \<notin> tk_token_hash ` set (ow_tokens w)"
  shows "if redeemable env client redirect verifier w c
    then \<exists>resp w1. exchange_code env client params w = (Inr resp, w1) \<and>
      tr_scope resp = join_scopes (ac_scopes c) \<and>
      ow_tokens w1 = ow_tokens w @ [issued_token env c (cf_access_token_ttl_secs (ev_config env)) w] \<and>
      ow_codes w1 = map (consume_at c w) (ow_codes w) \<and>
      (\<forall>t. \<exists>w2. exchange_code env client params (w1\<lparr>ow_now := t\<rparr>) = (Inl bad_grant, w2) \<and>
         userinfo env (tr_access_token resp) w2 = (Inr None, w2) \<and>
         (\<forall>k \<in> set (ow_tokens w2). tk_code_id k = Some (ac_id c) \<longrightarrow> tk_revoked_at k \<noteq> None))
    else \<exists>f w1. exchange_code env client params w = (Inl f, w1) \<and>
      (if ac_client_id c = oc_id client \<and> ac_consumed_at c \<noteq> None
       then \<forall>k \<in> set (ow_tokens w1). tk_code_id k = Some (ac_id c) \<longrightarrow> tk_revoked_at k \<noteq> None
       else w1 = w)"
proof (cases "redeemable env client redirect verifier w c")
  case True
  then obtain resp scs where run: "exchange_code env client params w =
      (Inr resp, (exchanged env c (cf_access_token_ttl_secs (ev_config env)) w)\<lparr>ow_session_clients := scs\<rparr>)"
      "tr_access_token resp = ''fat_'' @ ev_random env 32 (ow_next w)" "tr_scope resp = join_scopes (ac_scopes c)"
    using exchange_succeeds [OF ok c _ client sign fresh] by blast
  have "oidc_ok ((exchanged env c (cf_access_token_ttl_secs (ev_config env)) w)\<lparr>ow_session_clients := scs\<rparr>)"
    using keepsD_run [OF keeps_exchange_code ok run(1)] .
  then show ?thesis
    using True run replay_revokes [OF ok c _ _ _ fresh refl] by (auto simp: redeemable_def exchanged_def)
next
  case False
  then show ?thesis
    using exchange_refused [OF ok c False] code_tokens_revoked_all by fastforce
qed


section \<open>Issuing codes\<close>

lemma filter_singleD: "filter p xs = [x] \<Longrightarrow> x \<in> set xs \<and> p x"
  by (auto dest!: filter_eq_ConsD)

lemma resolve_session_in:
  assumes "resolve_session txn cands = (Some su, amb)"
  shows "su \<in> set cands"
proof (cases "List.find (\<lambda>(s, u). account_confirmed txn (bs_id s) \<or> fresh_in_txn txn (bs_id s)) cands")
  case None
  consider "cands = [su]" | hint where "filter (\<lambda>(s, u). ou_username u = hint) cands = [su]"
    using assms None by (auto simp: resolve_session_def split: option.splits list.splits)
  then show ?thesis by cases (auto dest: filter_singleD)
next
  case (Some x)
  then show ?thesis using assms by (auto simp: resolve_session_def dest: find_SomeD)
qed

text \<open>With several usable accounts, one is taken only when it was confirmed, signed in or named.\<close>

lemma resolve_session_several:
  assumes "resolve_session txn cands = (Some (s, u), amb)" "1 < length cands"
  shows "account_confirmed txn (bs_id s) \<or> fresh_in_txn txn (bs_id s) \<or> at_login_hint txn = Some (ou_username u)"
proof (cases "List.find (\<lambda>(s, u). account_confirmed txn (bs_id s) \<or> fresh_in_txn txn (bs_id s)) cands")
  case None
  obtain a b rest where c: "cands = a # b # rest" using assms(2) by (cases cands; cases "tl cands") auto
  then obtain hint where "at_login_hint txn = Some hint" "filter (\<lambda>(s, u). ou_username u = hint) cands = [(s, u)]"
    using assms(1) None by (auto simp: resolve_session_def split: option.splits list.splits)
  then show ?thesis by (auto dest: filter_singleD)
next
  case (Some x)
  then show ?thesis using assms(1) by (auto simp: resolve_session_def dest!: find_SomeD)
qed

text \<open>The bound row of a transaction that is in the table.\<close>

definition same_target :: "auth_txn \<Rightarrow> auth_txn \<Rightarrow> bool" where
  "same_target t t' \<longleftrightarrow> at_id t = at_id t' \<and> at_scopes t = at_scopes t' \<and> at_redirect_uri t = at_redirect_uri t' \<and>
     at_nonce t = at_nonce t' \<and> at_code_challenge t = at_code_challenge t'"

lemma bind_if_needed_run:
  assumes "oidc_ok w" "txn \<in> set (ow_txns w)" "bind_if_needed txn s u w = (Inr t, w')"
  shows "same_target t txn \<and> (\<exists>ts. w' = w\<lparr>ow_txns := ts\<rparr>)"
proof (cases "at_user_id txn \<noteq> Some (ou_id u) \<or> at_session_id txn \<noteq> Some (bs_id s)")
  case True
  have "filter (\<lambda>t. at_id t = at_id txn \<and> True) (ow_txns w) = [txn]"
    using assms(1,2) by (intro filter_single_key) (auto simp: oidc_ok_def txns_ok_def fresh_keys_def)
  then show ?thesis
    using True assms(3)
    by (auto simp: bind_if_needed_def bind_transaction_user_def update_txns_def run_simps o_now_def same_target_def)
next
  case False
  then show ?thesis
    using assms(3) by (auto simp: bind_if_needed_def run_simps same_target_def intro: exI [of _ "ow_txns w"])
qed

lemma complete_transaction_run:
  "complete_transaction i w = (Inr (length (filter (\<lambda>t. at_id t = i \<and> at_completed_at t = None) (ow_txns w)) = 1),
     w\<lparr>ow_txns := update_where (\<lambda>t. at_id t = i \<and> at_completed_at t = None)
       (\<lambda>t. t\<lparr>at_completed_at := Some (ow_now w)\<rparr>) (ow_txns w)\<rparr>)"
  by (simp add: complete_transaction_def update_txns_def run_simps o_now_def)

lemma insert_code_run:
  assumes "insert_code env new w = (Inr code, w')"
  shows "\<exists>n. w' = w\<lparr>ow_next := n, ow_codes := ow_codes w @ [\<lparr>ac_id = ow_next w + 1, ac_code_hash = ev_sha256_hex env code,
     ac_client_id = nc_client_pk new, ac_user_id = nc_user_id new, ac_session_id = nc_session_id new,
     ac_redirect_uri = nc_redirect_uri new, ac_scopes = nc_scopes new, ac_nonce = nc_nonce new,
     ac_code_challenge = nc_code_challenge new, ac_auth_time = nc_auth_time new, ac_created_at = ow_now w,
     ac_expires_at = ow_now w + seconds (nc_ttl_secs new), ac_consumed_at = None\<rparr>]\<rparr>"
  using assms
  by (auto simp: insert_code_def new_authorization_code_def random_token_def o_now_def o_new_uuid_def run_simps Let_def
      split: if_splits)

text \<open>The code that an issued transaction leads to.\<close>

lemma issue_code_run:
  assumes "issue_code env t client s u granted w = (Inr next, w')"
  shows "(\<forall>url. next \<noteq> RedirectLocal url) \<and> (ow_codes w' = ow_codes w \<or>
    (\<exists>c. ow_codes w' = ow_codes w @ [c] \<and> ac_client_id c = oc_id client \<and> ac_user_id c = ou_id u \<and>
      ac_session_id c = Some (bs_id s) \<and> ac_redirect_uri c = at_redirect_uri t \<and> ac_scopes c = granted \<and>
      ac_nonce c = at_nonce t \<and> ac_code_challenge c = at_code_challenge t \<and> ac_consumed_at c = None \<and>
      ac_expires_at c = ow_now w + seconds (cf_authorization_code_ttl_secs (ev_config env)) \<and>
      (\<forall>x \<in> set (ow_txns w'). at_id x = at_id t \<longrightarrow> at_completed_at x \<noteq> None)))"
proof (cases "length (filter (\<lambda>x. at_id x = at_id t \<and> at_completed_at x = None) (ow_txns w)) = 1")
  case True
  let ?w1 = "w\<lparr>ow_txns := update_where (\<lambda>x. at_id x = at_id t \<and> at_completed_at x = None)
       (\<lambda>x. x\<lparr>at_completed_at := Some (ow_now w)\<rparr>) (ow_txns w)\<rparr>"
  let ?new = "\<lparr>nc_client_pk = oc_id client, nc_user_id = ou_id u,
         nc_session_id = Some (bs_id s), nc_redirect_uri = at_redirect_uri t, nc_scopes = granted,
         nc_nonce = at_nonce t, nc_code_challenge = at_code_challenge t,
         nc_auth_time = bs_auth_time s, nc_ttl_secs = cf_authorization_code_ttl_secs (ev_config env)\<rparr>"
  obtain code w2 where ins: "insert_code env ?new ?w1 = (Inr code, w2)"
      and rest: "ow_codes w' = ow_codes w2" "ow_txns w' = ow_txns w2" "\<exists>url. next = RedirectToClient url"
    using assms True by (auto simp: issue_code_def bindM_run complete_transaction_run touch_session_def modifyM_run returnM_run
        split: prod.splits sum.splits)
  have done': "\<forall>x \<in> set (ow_txns ?w1). at_id x = at_id t \<longrightarrow> at_completed_at x \<noteq> None"
    by (auto simp: set_update_where)
  obtain n c where "w2 = ?w1\<lparr>ow_next := n, ow_codes := ow_codes w @ [c]\<rparr>" "ac_client_id c = oc_id client"
      "ac_user_id c = ou_id u" "ac_session_id c = Some (bs_id s)" "ac_redirect_uri c = at_redirect_uri t" "ac_scopes c = granted"
      "ac_nonce c = at_nonce t" "ac_code_challenge c = at_code_challenge t" "ac_consumed_at c = None"
      "ac_expires_at c = ow_now w + seconds (cf_authorization_code_ttl_secs (ev_config env))"
    using insert_code_run [OF ins] by force
  then show ?thesis using rest done' by auto
next
  case False
  then have "next = ErrorPage 400 MsgTxnExpired \<and> ow_codes w' = ow_codes w"
    using assms by (auto simp: issue_code_def bindM_run complete_transaction_run returnM_run split: if_splits)
  then show ?thesis by simp
qed


lemma decide_none: "pr_none p \<Longrightarrow> decide p m ch session amb now = StepIssue \<or> (\<exists>r. decide p m ch session amb now = StepRequired r)"
  by (auto simp: decide_def split: option.splits)

text \<open>Why a transaction may be answered with a code.\<close>

definition may_issue :: "oidc_env \<Rightarrow> auth_txn \<Rightarrow> oidc_client \<Rightarrow> session_user list \<Rightarrow> oidc_world \<Rightarrow> session_user \<Rightarrow> bool" where
  "may_issue env txn client accounts w = (\<lambda>(s, u).
     (s, u) \<in> set accounts \<and> is_usable env txn (s, u) \<and>
     (1 < length (candidates env txn accounts) \<longrightarrow> account_confirmed txn (bs_id s) \<or> fresh_in_txn txn (bs_id s) \<or>
        at_login_hint txn = Some (ou_username u)) \<and>
     consented (ow_consents w) (ou_id u) (oc_id client) (at_scopes txn) \<and>
     \<not> pr_consent (prompt_from_values (at_prompt txn)) \<and>
     (pr_select_account (prompt_from_values (at_prompt txn)) \<longrightarrow> account_confirmed txn (bs_id s)) \<and>
     (fresh_in_txn txn (bs_id s) \<or> \<not> requires_fresh_login (prompt_from_values (at_prompt txn)) (at_max_age txn)
        (secs_of (bs_auth_time s)) (secs_of (ow_now w))))"

lemma evaluate_may_issue:
  assumes "evaluate env txn client accounts w = (Inr ev, w')" "el_step ev = StepIssue"
  obtains s u where "el_session ev = Some (s, u)" "may_issue env txn client accounts w (s, u)"
proof -
  obtain session amb where r: "resolve_session txn (candidates env txn accounts) = (session, amb)" by fastforce
  then obtain s u where su: "session = Some (s, u)" "el_session ev = Some (s, u)"
    using assms decide_issue by (fastforce simp: evaluate_def run_simps Let_def split: option.splits)
  let ?f = "\<lparr>sf_confirmed_in_txn = account_confirmed txn (bs_id s), sf_fresh_in_txn = fresh_in_txn txn (bs_id s),
    sf_auth_time = secs_of (bs_auth_time s), sf_consented = (case active_consent w (ou_id u) (oc_id client) of
      None \<Rightarrow> False | Some c \<Rightarrow> covers (cn_scopes c) (at_scopes txn))\<rparr>"
  have "decide (prompt_from_values (at_prompt txn)) (at_max_age txn) (cf_account_chooser (ev_config env)) (Some ?f) amb
      (secs_of (ow_now w)) = StepIssue"
    using assms r su by (auto simp: evaluate_def run_simps)
  note d = decide_issue [OF this, simplified]
  have "consented (ow_consents w) (ou_id u) (oc_id client) (at_scopes txn)"
    using d active_consent_covers by (auto simp: has_consent_def split: option.splits)
  moreover have "(s, u) \<in> set accounts \<and> is_usable env txn (s, u)"
    using resolve_session_in [OF r [unfolded su(1)]] by (simp add: candidates_def)
  moreover have "1 < length (candidates env txn accounts) \<longrightarrow> account_confirmed txn (bs_id s) \<or>
      fresh_in_txn txn (bs_id s) \<or> at_login_hint txn = Some (ou_username u)"
    using resolve_session_several [OF r [unfolded su(1)]] by blast
  ultimately have "may_issue env txn client accounts w (s, u)"
    using d unfolding may_issue_def by blast
  then show ?thesis using that su by blast
qed

lemma advance_without_issue:
  assumes "oidc_ok w" "txn \<in> set (ow_txns w)" "advance env txn client accounts w = (Inr next, w')"
    "evaluate env txn client accounts w = (Inr ev, w)" "el_step ev \<noteq> StepIssue"
  shows "ow_codes w' = ow_codes w"
proof (cases "el_step ev")
  case StepConsent
  then obtain s u where "el_session ev = Some (s, u)"
    using assms(3,4) by (auto simp: advance_def bindM_run throwM_run split: option.splits)
  then obtain t w1 where "bind_if_needed txn s u w = (Inr t, w1)" "w' = w1"
    using assms(3,4) StepConsent by (auto simp: advance_def bindM_run returnM_run split: prod.splits sum.splits)
  then show ?thesis using bind_if_needed_run [OF assms(1,2)] by fastforce
qed (use assms in \<open>auto simp: advance_def bindM_run returnM_run finish_with_error_def complete_transaction_run\<close>)



section \<open>Taking consent back\<close>

lemma consented_other_iff:
  "(a, b) \<noteq> (u, c) \<Longrightarrow> consented (update_where (\<lambda>n. cn_user_id n = u \<and> cn_client_id n = c \<and> cn_revoked_at n = None)
     (\<lambda>n. n\<lparr>cn_revoked_at := t\<rparr>) ns) a b s = consented ns a b s"
  unfolding consented_def set_update_where bex_simps by (rule bex_cong) auto


section \<open>The tables\<close>

text \<open>
  C6. From consistent tables, empty ones included, every sequence of requests of browsers,
  applications, developers and administrators, deletions of accounts, clean-ups, retries and delays
  leads to tables in which every token that is not revoked and every code that is not spent is covered
  by an active consent of its user for its application, a code has led to at most one token, which
  carries its user, application and scopes, a user has at most one consent per application, a public
  application has no secret and needs PKCE while a confidential one has a secret, and no logout
  notification has been tried more than six times or is left pending after the sixth.
\<close>

theorem grants_stay_covered:
  assumes "oidc_ok w0" "oidc_reach env w0 w"
  shows "(\<forall>t \<in> set (ow_tokens w). tk_revoked_at t = None \<longrightarrow>
      consented (ow_consents w) (tk_user_id t) (tk_client_id t) (tk_scopes t)) \<and>
    (\<forall>c \<in> set (ow_codes w). ac_consumed_at c = None \<longrightarrow>
      consented (ow_consents w) (ac_user_id c) (ac_client_id c) (ac_scopes c)) \<and>
    (\<forall>t \<in> set (ow_tokens w). \<forall>t' \<in> set (ow_tokens w). tk_code_id t \<noteq> None \<and> tk_code_id t = tk_code_id t' \<longrightarrow> t = t') \<and>
    (\<forall>t \<in> set (ow_tokens w). tk_code_id t \<noteq> None \<longrightarrow> (\<exists>c \<in> set (ow_codes w). from_code t c)) \<and>
    distinct (map (\<lambda>n. (cn_user_id n, cn_client_id n)) (ow_consents w)) \<and>
    (\<forall>c \<in> set (ow_clients w).
      (oc_client_type c = ClientPublic \<longrightarrow> oc_auth_method c = AuthNone \<and> oc_secret_hash c = None \<and> oc_require_pkce c) \<and>
      (oc_client_type c = ClientConfidential \<longrightarrow> oc_auth_method c \<noteq> AuthNone \<and> oc_secret_hash c \<noteq> None)) \<and>
    (\<forall>d \<in> set (ow_deliveries w). bd_attempts d \<le> 6 \<and> (bd_status d = DlPending \<longrightarrow> bd_attempts d < 6))"
proof -
  have ok: "oidc_ok w" by (rule oidc_reach_ok [OF assms(2,1)])
  have "\<forall>t \<in> set (ow_tokens w). \<forall>t' \<in> set (ow_tokens w). tk_code_id t \<noteq> None \<and> tk_code_id t = tk_code_id t' \<longrightarrow> t = t'"
    using ok map_filter_distinctD [of tk_code_id "ow_tokens w"] unfolding oidc_ok_def tokens_ok_def by (metis not_None_eq)
  moreover have "\<forall>d \<in> set (ow_deliveries w). bd_attempts d \<le> 6 \<and> (bd_status d = DlPending \<longrightarrow> bd_attempts d < 6)"
    using ok by (fastforce simp: oidc_ok_def delivery_ok_def max_attempts_def split: if_splits)
  moreover have "\<forall>c \<in> set (ow_clients w).
      (oc_client_type c = ClientPublic \<longrightarrow> oc_auth_method c = AuthNone \<and> oc_secret_hash c = None \<and> oc_require_pkce c) \<and>
      (oc_client_type c = ClientConfidential \<longrightarrow> oc_auth_method c \<noteq> AuthNone \<and> oc_secret_hash c \<noteq> None)"
    using ok by (auto simp: oidc_ok_def clients_ok_def client_check_def)
  ultimately show ?thesis
    using ok unfolding oidc_ok_def tokens_ok_def codes_ok_def consents_ok_def by blast
qed


section \<open>An example\<close>

definition op_config :: oidc_config where
  "op_config = \<lparr>cf_issuer = ''https://op'', cf_session_ttl_secs = 28800, cf_transaction_ttl_secs = 600,
     cf_authorization_code_ttl_secs = 60, cf_access_token_ttl_secs = 3600, cf_id_token_ttl_secs = 3600,
     cf_secret_rotation_grace_secs = 0, cf_allow_loopback_redirect_uris = False,
     cf_require_client_approval = False, cf_account_chooser = True, cf_multi_account = True,
     cf_max_browser_accounts = 5, cf_browser_container_ttl_secs = 28800, cf_unified_web_session = True,
     cf_first_party_origins = [], cf_backchannel_logout = False, cf_logout_token_ttl_secs = 120\<rparr>"

definition op_env :: oidc_env where
  "op_env = \<lparr>ev_config = op_config, ev_random = (\<lambda>n k. ''t''), ev_sha256_hex = (\<lambda>x. x), ev_s256 = (\<lambda>x. x),
     ev_at_hash = (\<lambda>x. x), ev_argon2_hash = (\<lambda>p k. Some p), ev_argon2_verify = (\<lambda>p h. Some (p = h)),
     ev_uuid_text = (\<lambda>i. ''u''), ev_uuid_parse = (\<lambda>s. None), ev_url_parse = (\<lambda>s. None),
     ev_append_pairs = (\<lambda>u ps. u), ev_base64 = (\<lambda>s. None), ev_jwt_verify = (\<lambda>s. None),
     ev_jwt_sign = (\<lambda>c. Some ''jwt''), ev_post = (\<lambda>n u t. Inr 200), ev_jwt_sign_logout = (\<lambda>c. Some ''jwt''),
     ev_setting = (\<lambda>k. None), ev_lowercase = (\<lambda>s. s), ev_platform_jwt = (\<lambda>t. None),
     ev_timestamp_ok = (\<lambda>t. True), ev_rate = (\<lambda>n b k l s. Some True)\<rparr>"

definition op_user :: oidc_user where
  "op_user = \<lparr>ou_id = 1, ou_username = ''ann'', ou_nickname = ''Ann'', ou_password = ''pw'', ou_email = ''a@x'',
     ou_updated_at = 0, ou_avatar = None, ou_status = AccountActive\<rparr>"

definition op_client :: oidc_client where
  "op_client = \<lparr>oc_id = 2, oc_client_id = ''fctf_c'', oc_owner_user_id = 1, oc_name = ''App'', oc_description = None,
     oc_homepage_url = None, oc_logo_url = None, oc_client_type = ClientPublic, oc_auth_method = AuthNone,
     oc_redirect_uris = [''https://rp/cb''], oc_allowed_scopes = [OPENID, PROFILE],
     oc_post_logout_redirect_uris = [], oc_backchannel_logout_uri = None, oc_require_pkce = True,
     oc_secret_hash = None, oc_previous_secret_hash = None, oc_previous_secret_expires_at = None,
     oc_secret_rotated_at = None, oc_status = CsActive, oc_status_reason = None, oc_reviewed_by = None,
     oc_reviewed_at = None, oc_created_at = 0, oc_updated_at = 0\<rparr>"

definition op_session :: browser_session where
  "op_session = \<lparr>bs_id = 5, bs_session_hash = ''s'', bs_user_id = 1, bs_auth_time = 0,
     bs_established_via = OidcLogin, bs_created_at = 0, bs_last_seen_at = 0, bs_expires_at = seconds 28800,
     bs_revoked_at = None, bs_container_id = None, bs_sid = ''sid'', bs_revoked_reason = None\<rparr>"

definition op_verifier :: string where
  "op_verifier = replicate 43 CHR ''v''"

definition op_code :: auth_code where
  "op_code = \<lparr>ac_id = 4, ac_code_hash = ''c0de'', ac_client_id = 2, ac_user_id = 1, ac_session_id = Some 5,
     ac_redirect_uri = ''https://rp/cb'', ac_scopes = [OPENID, PROFILE], ac_nonce = None,
     ac_code_challenge = Some op_verifier, ac_auth_time = 0, ac_created_at = 0, ac_expires_at = seconds 60,
     ac_consumed_at = None\<rparr>"

definition op_consent :: oidc_consent where
  "op_consent = \<lparr>cn_id = 3, cn_user_id = 1, cn_client_id = 2, cn_scopes = [OPENID, PROFILE], cn_granted_at = 0,
     cn_updated_at = 0, cn_last_used_at = None, cn_revoked_at = None\<rparr>"

definition op_txn :: auth_txn where
  "op_txn = \<lparr>at_id = 6, at_client_id = 2, at_browser_binding_hash = ''b'', at_csrf_hash = ''x'',
     at_redirect_uri = ''https://rp/cb'', at_scopes = [OPENID], at_state = None, at_nonce = None,
     at_code_challenge = Some op_verifier, at_prompt = [''none''], at_max_age = None, at_login_hint = None,
     at_id_token_hint_sub = None, at_user_id = None, at_session_id = None, at_authenticated_at = None,
     at_created_at = 0, at_expires_at = seconds 600, at_completed_at = None, at_choice_session_id = None,
     at_selected_at = None, at_selected_session_id = None, at_switch_requested_at = None\<rparr>"

definition op_world :: oidc_world where
  "op_world = \<lparr>ow_now = 0, ow_next = 10, ow_users = [op_user], ow_clients = [op_client],
     ow_sessions = [op_session], ow_containers = [], ow_txns = [op_txn], ow_codes = [op_code], ow_tokens = [],
     ow_consents = [op_consent], ow_session_clients = [], ow_logouts = [], ow_deliveries = []\<rparr>"

lemmas op_defs = op_config_def op_env_def op_user_def op_client_def op_session_def op_code_def op_consent_def
  op_txn_def op_world_def

definition op_params :: raw_params where
  "op_params = [(''grant_type'', ''authorization_code''), (''code'', ''c0de''), (''redirect_uri'', ''https://rp/cb''),
     (''client_id'', ''fctf_c''), (''code_verifier'', op_verifier)]"

lemma op_verifier_ok: "is_valid_code_verifier op_verifier" "is_valid_s256_challenge op_verifier" "op_verifier \<noteq> []"
  by (simp_all add: op_verifier_def is_valid_code_verifier_def is_valid_s256_challenge_def is_unreserved_def
      is_ascii_alphanumeric_def byte_def list_all_iff)

lemma op_world_ok: "oidc_ok op_world"
  by (simp add: op_defs oidc_ok_def consents_ok_def codes_ok_def tokens_ok_def txns_ok_def clients_ok_def
      client_check_def fresh_keys_def consented_def SUPPORTED_def List.map_filter_simps)

lemma op_redeemable: "redeemable op_env op_client (Some ''https://rp/cb'') (Some op_verifier) op_world op_code"
  by (simp add: redeemable_def op_defs op_verifier_ok user_of_def consented_def seconds_def nanos_per_sec_def)

lemma op_exchange_params: "exchange_params op_params ''c0de'' (Some ''https://rp/cb'') (Some op_verifier)"
  by (simp add: exchange_params_def op_params_def single_def param_values_def op_verifier_ok)


theorem code_redeemed_once_witness:
  "redeemable op_env op_client (Some ''https://rp/cb'') (Some op_verifier) op_world op_code \<and>
   (\<exists>resp w1. exchange_code op_env op_client op_params op_world = (Inr resp, w1) \<and>
      tr_scope resp = ''openid profile'' \<and> length (ow_tokens w1) = 1 \<and>
      (\<exists>w2. exchange_code op_env op_client op_params w1 = (Inl bad_grant, w2) \<and>
         userinfo op_env (tr_access_token resp) w2 = (Inr None, w2)))"
proof -
  have "op_code \<in> set (ow_codes op_world)" "ac_code_hash op_code = ev_sha256_hex op_env ''c0de''"
    "is_plausible_token ''c0de''" "client_of op_world (oc_id op_client) \<noteq> None" "\<And>cl. ev_jwt_sign op_env cl \<noteq> None"
    "ev_sha256_hex op_env (''fat_'' @ ev_random op_env 32 (ow_next op_world)) \<notin> tk_token_hash ` set (ow_tokens op_world)"
    by (simp_all add: op_defs is_plausible_token_def max_token_input_len_def is_ascii_alphanumeric_def is_ascii_digit_def byte_def client_of_def)
  note h = code_redeemed_once [OF op_world_ok this(1-3) op_exchange_params this(4-6)]
  obtain resp w1 where r: "exchange_code op_env op_client op_params op_world = (Inr resp, w1)"
      "tr_scope resp = join_scopes (ac_scopes op_code)"
      "ow_tokens w1 = ow_tokens op_world @ [issued_token op_env op_code (cf_access_token_ttl_secs (ev_config op_env)) op_world]"
      "\<forall>t. \<exists>w2. exchange_code op_env op_client op_params (w1\<lparr>ow_now := t\<rparr>) = (Inl bad_grant, w2) \<and>
        userinfo op_env (tr_access_token resp) w2 = (Inr None, w2)"
    using h [unfolded if_P [OF op_redeemable]] by blast
  have "\<exists>w2. exchange_code op_env op_client op_params w1 = (Inl bad_grant, w2) \<and>
        userinfo op_env (tr_access_token resp) w2 = (Inr None, w2)"
    using r(4) [rule_format, of "ow_now w1"] by simp
  moreover have "length (ow_tokens w1) = 1" "tr_scope resp = ''openid profile''"
    using r(2,3) by (simp_all add: op_world_def op_code_def OPENID_def PROFILE_def)
  ultimately show ?thesis using op_redeemable r(1) by blast
qed


lemma op_advance:
  "\<exists>next w'. advance op_env op_txn op_client [(op_session, op_user)] op_world = (Inr next, w') \<and> length (ow_codes w') = 2"
  unfolding advance_def
  by (simp add: bindM_run evaluate_def readM_run candidates_def is_usable_def opt_ok_def resolve_session_def account_confirmed_def
      fresh_in_txn_def active_consent_def covers_def decide_def prompt_from_values_def requires_fresh_login_def
      bind_if_needed_def bind_transaction_user_def update_txns_def o_now_def issue_code_def complete_transaction_run returnM_run
      insert_code_def new_authorization_code_def random_token_def o_new_uuid_def guardM_run modifyM_run touch_session_def
      client_of_def user_of_def session_exists_def op_defs)



definition op_request :: http_req where
  "op_request = \<lparr>hr_post = True, hr_content_type = Some ''application/x-www-form-urlencoded'', hr_origin = None,
     hr_sec_fetch_site = None, hr_authorization = None, hr_csrf_token = None, hr_account = None, hr_cookies = [],
     hr_query = [], hr_body = op_params, hr_ip = None\<rparr>"

text \<open>The token endpoint draws one number for the rate gate; then the exchange runs.\<close>

lemma op_form: "is_form op_request"
  by (simp add: is_form_def op_request_def trim_text_def eq_ignore_ascii_case_def utf8_len_def byte_def is_whitespace_def)

lemma op_token_endpoint:
  "oidc_serve op_env (Token op_request) op_world =
     snd (exchange_code op_env op_client op_params (op_world\<lparr>ow_next := 11\<rparr>))"
proof -
  have ids: "single op_params ''client_id'' = Inr (Some ''fctf_c'')" "single op_params ''client_secret'' = Inr None"
    by (simp_all add: op_params_def single_def param_values_def)
  have req: "hr_body op_request = op_params" "hr_authorization op_request = None" by (simp_all add: op_request_def)
  have rate: "(rate_hit op_env b k l s :: (oidc_world, oidc_error, bool option) op) op_world = (Inr (Some True), op_world\<lparr>ow_next := 11\<rparr>)" for b k l s
    by (simp add: rate_hit_def op_world_def op_env_def)
  have auth: "authenticate_client op_env (PresentedNone ''fctf_c'') (op_world\<lparr>ow_next := 11\<rparr>) =
      (Inr op_client, op_world\<lparr>ow_next := 11\<rparr>)"
    by (simp add: authenticate_client_def run_simps find_by_client_id_def o_now_def op_defs Let_def)
  show ?thesis
    by (simp add: token_endpoint_def op_form req ids identify_def bindM_run rate attemptM_run auth returnM_run)
qed

theorem grants_stay_covered_witness:
  "\<exists>t. ow_tokens (oidc_serve op_env (Token op_request) op_world) = [t] \<and> tk_scopes t = [OPENID, PROFILE] \<and>
     consented (ow_consents (oidc_serve op_env (Token op_request) op_world)) 1 2 (tk_scopes t) \<and>
     distinct (map (\<lambda>n. (cn_user_id n, cn_client_id n)) (ow_consents (oidc_serve op_env (Token op_request) op_world)))"
proof -
  let ?w = "op_world\<lparr>ow_next := 11\<rparr>"
  have ok: "oidc_ok ?w" using oidc_ok_fresh [OF op_world_ok] by (simp add: op_world_def)
  have red: "redeemable op_env op_client (Some ''https://rp/cb'') (Some op_verifier) ?w op_code"
    using op_redeemable unfolding redeemable_def user_of_def by auto
  have "op_code \<in> set (ow_codes ?w)" "ac_code_hash op_code = ev_sha256_hex op_env ''c0de''"
    "is_plausible_token ''c0de''" "client_of ?w (oc_id op_client) \<noteq> None" "\<And>cl. ev_jwt_sign op_env cl \<noteq> None"
    "ev_sha256_hex op_env (''fat_'' @ ev_random op_env 32 (ow_next ?w)) \<notin> tk_token_hash ` set (ow_tokens ?w)"
    by (simp_all add: op_defs is_plausible_token_def max_token_input_len_def is_ascii_alphanumeric_def is_ascii_digit_def byte_def client_of_def)
  then obtain resp scs where "exchange_code op_env op_client op_params ?w =
      (Inr resp, (exchanged op_env op_code (cf_access_token_ttl_secs (ev_config op_env)) ?w)\<lparr>ow_session_clients := scs\<rparr>)"
    using exchange_succeeds [OF ok _ _ _ op_exchange_params red] by blast
  then have t: "ow_tokens (oidc_serve op_env (Token op_request) op_world) =
      [issued_token op_env op_code (cf_access_token_ttl_secs (ev_config op_env)) ?w]"
    by (simp only: op_token_endpoint) (simp add: exchanged_def op_world_def)
  have "oidc_reach op_env op_world (oidc_serve op_env (Token op_request) op_world)"
    by (rule oidc_reach.serve [OF oidc_reach.start])
  from grants_stay_covered [OF op_world_ok this] show ?thesis
    unfolding t by (simp add: issued_token_def op_code_def)
qed

end
