(* ===== verification/Spec2Isabelle.thy ===== *)
theory Spec2Isabelle
  imports Awd_Rounds Awd_Net_System Awdp_Facts Jeopardy_Facts Oidc_Facts
begin

text \<open>
  Verification of the competition core of FloatCTF, a platform for security competitions written in
  Rust (\<open>src/apps/api\<close>). The development models the three modes of the platform, AWD (attack with
  defence), AWDP (attack with defence plus) and Jeopardy, the roster of an event that they share, the
  task scheduler and the OpenID Connect provider of the platform. Every theory opens with the source
  files it translates.

  \<^bold>\<open>The program.\<close> An AWD competition (\<open>modules/event/awd\<close>) is an event with a status machine, a
  hardening phase and a sequence of attack rounds. Administrators start, pause, resume and finish it;
  tasks of the scheduler (\<open>scheduler/engine.rs\<close>) start and end rounds and judge batches; teams submit
  Flags; JudgeServers claim checks under a lease and report them; the score is a ledger with
  idempotency keys; the firewall is recomputed from the tables. An AWDP competition or training
  (\<open>modules/event/awdp\<close>) is a run with the phases Break, in which Flags are submitted, PreparingFix, in
  which all instances are reset, and Fix, a sequence of rounds at whose cutoff every instance is
  evaluated; a tick of the scheduler moves the runs, a worker and JudgeServers take evaluations under
  leases, and the board is the sum of a ledger. In a Jeopardy competition or practice
  (\<open>modules/event/jeopardy\<close>) a user or team launches a container per challenge and submits the Flag it
  finds; a solve pays a score that falls with the number of solves before it. Users join events and
  form teams, administrators manage both and the challenges of an event (\<open>modules/event/common\<close>).
  The platform is also an identity provider (\<open>modules/identity\<close>): clients send a browser to the
  authorization endpoint, the user signs in and consents, the client redeems a code for tokens, and
  users, developers and administrators revoke what was granted; a signed-out session is announced to
  the clients through an outbox.

  \<^bold>\<open>The model.\<close> A repository table is a list of records in insertion order, the state is a record of
  tables, clock, supply of identifiers and log of effects (\<open>awd_world\<close>, \<open>awdp_world\<close>,
  \<open>jeop_world\<close>, \<open>sched_world\<close>, \<open>oidc_world\<close>), and a handler is a function from a state to a result or error and a new state,
  composed with \<open>bindM\<close>, \<open>guardM\<close>, \<open>txnM\<close> and the other combinators of \<open>Fctf_Prelude\<close>: a guard is an
  early return, \<open>txnM\<close> a transaction that rolls back, \<open>ignoreM\<close> and \<open>attemptM\<close> code that logs or
  matches an error. Errors are the constructors of the error enumerations of the source without their
  texts. Machine integers that may wrap are words (\<open>Awd_Network\<close>) or integers with \<open>as_i32\<close>, \<open>in_i64\<close>
  and saturation written out.

  \<^bold>\<open>Theories, AWD.\<close>
  \<^item> \<open>Fctf_Prelude\<close>: time, integer ranges, operations, invariants of operations, tables.
  \<^item> \<open>Awd_Types\<close>, \<open>Awd_Db\<close>: the entities (\<open>entity/*.rs\<close>), errors, task keys and repositories
    (\<open>awd/repo\<close>) with the unique indexes of the migrations; \<open>Uuid_Text\<close>: the text form of identifiers
    as the keys use it.
  \<^item> \<open>Awd_Status\<close> (\<open>domain/event_ext.rs\<close>, \<open>round_ext.rs\<close>, \<open>gamebox_ext.rs\<close>): the transition tables,
    with a locale of transition tables interpreted on each; a started competition has passed the
    precheck.
  \<^item> \<open>Awd_Timing\<close> (\<open>domain/timing.rs\<close>): the time model accepts exactly the admissible configurations.
  \<^item> \<open>Awd_Network\<close> (\<open>domain/network.rs\<close>): subnets partition a block, slots and subnets determine each
    other, the overlap test is intersection, the team allocator is safe. \<open>Awd_Cidr_Text\<close>: addresses and
    blocks as text, and the comparisons of the database. \<open>Awd_Host\<close>: the requests to Docker,
    WireGuard and the firewall, with the record of what answers them.
  \<^item> \<open>Awd_Firewall\<close> (\<open>service/firewall_service.rs\<close>), \<open>Awd_Score\<close> (\<open>service/score_service.rs\<close>,
    \<open>submission_service.rs\<close>), \<open>Awd_Judge\<close> (\<open>service/judge_service.rs\<close>, \<open>repo/judge_repo.rs\<close>),
    \<open>Awd_Flag\<close> (\<open>flag_service.rs\<close>, \<open>ban_service.rs\<close>), \<open>Awd_Judge_Api\<close> (\<open>api/internal.rs\<close>): ledger,
    board, leases, exclusive claims, deadlines.
  \<^item> \<open>Awd_Lifecycle\<close>, \<open>Awd_Lifecycle_Facts\<close> (\<open>service/event_service.rs\<close>, \<open>round_service.rs\<close>,
    \<open>scheduler/mod.rs\<close>): starting, pausing, rounds, settlement, recovery.
  \<^item> \<open>Sched_Engine\<close> (\<open>scheduler/engine.rs\<close>): polls are exclusive, a dispatched task is released,
    retries end.
  \<^item> \<open>Awd_System\<close>, \<open>Awd_Rounds\<close>: the whole mode as a machine of requests, scheduler runs, restarts and
    time. The locale \<open>awd_invariant\<close> says which writes an invariant has to survive; contracts of single
    tables extend to it by \<open>sublocale\<close>, and their interpretations give the reachable-state theorems.
  \<^item> \<open>Awd_Net_Db\<close> (\<open>repo/network_settings_repo.rs\<close>, \<open>event_network_repo.rs\<close>, \<open>network_allocation_repo.rs\<close>),
    \<open>Awd_Alloc\<close> (\<open>service/platform_network_service.rs\<close>, \<open>event_network_service.rs\<close>,
    \<open>team_network_allocator.rs\<close>), \<open>Awd_Net_System\<close> (the network handlers of \<open>api/admin.rs\<close>): allocation of
    addresses. The machine above is extended by the network requests; another interpretation of
    \<open>awd_invariant\<close> says that play leaves the ledger of blocks alone, and the blocks in use stay disjoint.

  \<^bold>\<open>Theories, AWDP.\<close>
  \<^item> \<open>Awdp_Domain\<close> (\<open>awdp/domain\<close>): phases, configuration, round windows, keys, Flags and names.
  \<^item> \<open>Awdp_Db\<close>, \<open>Awdp_Eval\<close> (\<open>awdp/repo\<close>): rows, runs and rounds; configuration rows, evaluations and
    leases, ledger, breaks, patches, instances.
  \<^item> \<open>Awdp_Runtime\<close> (\<open>service/runtime.rs\<close>, \<open>event_service.rs\<close>, \<open>tick_service.rs\<close>, \<open>practice_service.rs\<close>,
    \<open>api/admin.rs\<close>, part of \<open>api/training.rs\<close>): instances, the tick, competitions and practice runs.
  \<^item> \<open>Awdp_Play\<close> (\<open>break_service.rs\<close>, \<open>patch_service.rs\<close>, \<open>evaluation.rs\<close>, \<open>judge_worker.rs\<close>,
    \<open>scoreboard.rs\<close>, \<open>authorization.rs\<close>, \<open>api/player.rs\<close>): Flags, patches, checks, board.
  \<^item> \<open>Awdp_System\<close>, \<open>Awdp_Tables\<close>: the mode as a machine and what its tables look like in every
    reachable state; \<open>awdp_invariant\<close> and \<open>run_table\<close> are built like their AWD counterparts.
  \<^item> \<open>Awdp_Facts\<close>: a Fix phase ends, a Flag is scored once, a configuration change is atomic.

  \<^bold>\<open>Theories, Jeopardy and roster.\<close>
  \<^item> \<open>Jeopardy_Domain\<close> (\<open>common/domain\<close>, \<open>jeopardy/domain\<close>): event modes and what they offer, the policy,
    the window of an event, the dynamic score with its bounds and its decrease.
  \<^item> \<open>Jeopardy_Db\<close> (\<open>jeopardy/infrastructure\<close>): rows, indexes and cascades, solves, instances, roster.
  \<^item> \<open>Jeopardy_Play\<close>, \<open>Jeopardy_Score\<close> (\<open>jeopardy/application\<close>, \<open>jeopardy/api\<close>): launching and
    destroying instances with the loops that clean them up, Flags, scoreboard and trend.
  \<^item> \<open>Event_Roster\<close> (\<open>common/application/player_service.rs\<close>, \<open>common/api\<close>): joining and leaving, teams,
    bans, challenges of an event.
  \<^item> \<open>Jeopardy_System\<close>, \<open>Jeopardy_Tables\<close>: the mode as a machine, the locale \<open>jeop_invariant\<close> and its
    interpretations: consistent roster, unique solves, allowed prices, limited instances.
  \<^item> \<open>Jeopardy_Ledger\<close>: an abstract ledger of accounts and solves with the relation \<open>ledger_step\<close>; the
    function \<open>ledger_of\<close> reads it off the tables and every request simulates its steps, as another
    interpretation of \<open>jeop_invariant\<close>. \<open>Jeopardy_Facts\<close>: the refinement, what follows for points and
    instances from empty tables, and when a Flag pays.

  \<^bold>\<open>Theories, identity provider.\<close>
  \<^item> \<open>Rust_Text\<close>: the part of the text library of Rust that is used.
  \<^item> \<open>Oidc_Domain\<close> (\<open>oidc/domain\<close>): scopes, claims, prompts, PKCE, redirect addresses, form encoding;
    \<open>Oidc_Request\<close>: validation of authorization requests.
  \<^item> \<open>Oidc_Db\<close>: transactions, codes, tokens, consents, clients, browsers and sessions and their
    revocation; \<open>Oidc_Clients\<close>, \<open>Oidc_Developer\<close>: clients and those who manage them.
  \<^item> \<open>Oidc_Browser\<close>, \<open>Oidc_Flow\<close>, \<open>Oidc_Protocol\<close>, \<open>Oidc_Sessions\<close>, \<open>Oidc_Logout\<close>: the browser container,
    the authorization flow, the protocol endpoints, the web sessions and single sign-out.
  \<^item> \<open>Oidc_System\<close>, \<open>Oidc_Frame\<close>, \<open>Oidc_Grants\<close>, \<open>Oidc_Facts\<close>: the provider as a machine, which requests touch
    which tables, and the facts of every reachable state: a usable grant is covered by a consent, a code
    is redeemed once and only with the redirect address and verifier it was issued for, no code is
    issued without consent, revocation leaves nothing usable.

  \<^bold>\<open>Abstractions.\<close> One handler runs at one instant and alone: row locks, \<open>SKIP LOCKED\<close> and advisory
  locks serialise what the model runs one after the other. A query without an order returns the first
  row of the table. Failures of the database connection are left out. Identifiers come from a counter.
  Hashes, HMAC, HKDF, random tokens, Docker, nftables, WireGuard and checker scripts are parameters
  (\<open>awd_env\<close> with its \<open>host_env\<close>, \<open>awdp_env\<close>, \<open>jeop_env\<close> and that of the provider); whether an effect on the host succeeds is answered from the log of the
  effects before it. The cron library is a parameter. Rate limits are an argument of the request.
  Scores are unbounded integers, the points of Jeopardy exact reals in place of \<open>f64\<close>. The engine's timeout and its precise sleep are not modelled. The
  health check list stored with a GameBox is taken to parse, as it is checked when it is saved. A panic
  of the subject key is an error without a write.

  \<^bold>\<open>Bounds and fuel.\<close> No definition uses fuel: every loop of the modelled code runs over a list.
  Hypotheses on integers (32-bit durations, admissible pools) are those the columns and the validation
  enforce and are stated in the theorems.

  \<^bold>\<open>Not modelled.\<close> Deployment, precheck, reset, recovery, archive and configuration of AWD, except
  for the calls deployment and archive make to the network allocation; editing of events, announcements and write-ups; signing keys, discovery and
  pages of the identity provider, its rate limits, registration and the administration of users;
  challenges, community, weapons and platform operations; configuration files, routing and extractors;
  read-only views and event streams; the judge and flag servers, the content tool and the privileged
  host helper, which are processes around Docker and the network.
\<close>

end
